(* ===== verification/TS_Prelude.thy ===== *)
theory TS_Prelude
  imports Complex_Main
    "HOL-Library.Monad_Syntax"
    "HOL-Library.Signed_Division"
    "HOL-Library.List_Lexorder"
    "HOL-Library.Char_ord"
begin

section \<open>Prelude: shared types, collections and generic lemmas\<close>

text \<open>
  What every component of the development shares: the type names of
  \<^verbatim>\<open>utils/types.ts\<close>, the named collections that carry the component proofs, and
  the generic facts on options, lists and truncated division.

  A TypeScript function that may throw, and an \<^verbatim>\<open>async\<close> function whose promise may be
  rejected, returns an \<open>option\<close>: \<open>None\<close> is the exception. Where the source throws an
  error of its own with a message, the result is a sum with the message on the left.
\<close>

subsection \<open>Types of utils/types.ts\<close>

type_synonym address = string
type_synonym bytes = string

text \<open>A Solidity call: \<open>Inl\<close> of the revert reason, or the result.\<close>

type_synonym 'a sol = "string + 'a"

subsection \<open>Named collections\<close>

named_theorems bn_simps \<open>unfolding the BigNumber methods\<close>
named_theorems bn_defs \<open>definitions of the pure arithmetic helpers\<close>
named_theorems deploy_defs \<open>definitions of the deploy helpers\<close>
named_theorems chain_simps \<open>symbolic execution of transactions\<close>
named_theorems sol_defs \<open>definitions of the Solidity counterparts\<close>

subsection \<open>Solidity calls\<close>

text \<open>A checked operation of SafeMath inside a call: its failure reverts the call.\<close>

definition checked :: "'a option \<Rightarrow> 'a sol" where
  "checked x = (case x of None \<Rightarrow> Inl ''SafeMath'' | Some y \<Rightarrow> Inr y)"

text \<open>A loop of calls: the first revert undoes the whole transaction.\<close>

fun each_sol :: "('x \<Rightarrow> 's \<Rightarrow> 's sol) \<Rightarrow> 'x list \<Rightarrow> 's \<Rightarrow> 's sol" where
  "each_sol f [] st = Inr st"
| "each_sol f (x # xs) st = (case f x st of Inl m \<Rightarrow> Inl m | Inr st' \<Rightarrow> each_sol f xs st')"

lemma each_sol_map: "each_sol f (map g xs) st = each_sol (\<lambda>x. f (g x)) xs st"
  by (induction xs arbitrary: st) (auto split: sum.split)

lemma each_sol_append:
  "each_sol f (xs @ ys) st = (case each_sol f xs st of Inl m \<Rightarrow> Inl m | Inr st' \<Rightarrow> each_sol f ys st')"
  by (induction xs arbitrary: st) (auto split: sum.split)

lemma each_sol_invariant:
  assumes "each_sol f xs st = Inr st'" "P st"
    and "\<And>x s s'. x \<in> set xs \<Longrightarrow> f x s = Inr s' \<Longrightarrow> P s \<Longrightarrow> P s'"
  shows "P st'"
  using assms
proof (induction xs arbitrary: st)
  case (Cons x xs)
  from Cons.prems(1) obtain s1 where s1: "f x st = Inr s1" "each_sol f xs s1 = Inr st'" by (auto split: sum.splits)
  have "P s1" using Cons.prems(2,3) s1(1) by (meson list.set_intros(1))
  show ?case
  proof (rule Cons.IH [OF s1(2) \<open>P s1\<close>])
    fix y s s' assume "y \<in> set xs" "f y s = Inr s'" "P s"
    then show "P s'" using Cons.prems(3) [of y s s'] by simp
  qed
qed simp

lemma checked_Inr_iff [simp]: "checked x = Inr y \<longleftrightarrow> x = Some y"
  by (simp add: checked_def split: option.split)

lemma checked_Some [simp]: "checked (Some y) = Inr y"
  by (simp add: checked_def)

subsection \<open>Options\<close>

lemma bind_eq_Some_iff [simp]:
  "(Option.bind m f = Some y) \<longleftrightarrow> (\<exists>x. m = Some x \<and> f x = Some y)"
  by (cases m) auto

lemma bind_eq_None_iff:
  "(Option.bind m f = None) \<longleftrightarrow> (\<forall>x. m = Some x \<longrightarrow> f x = None)"
  by (cases m) auto

lemma map_option_bind_comp:
  "map_option g (Option.bind m f) = Option.bind m (\<lambda>x. map_option g (f x))"
  by (cases m) auto

subsection \<open>Truncated division\<close>

text \<open>Division of ethers' BigNumber and of Solidity rounds towards zero: \<open>sdiv\<close>.\<close>

lemma sdiv_nonneg [simp]: "0 \<le> a \<Longrightarrow> 0 \<le> b \<Longrightarrow> (a::int) sdiv b = a div b"
  by (cases "a = 0"; cases "b = 0") (auto simp: signed_divide_int_def)

lemma sdiv_minus_left [simp]: "(- a::int) sdiv b = - (a sdiv b)"
  by (simp add: signed_divide_int_def)

lemma sdiv_minus_right [simp]: "(a::int) sdiv (- b) = - (a sdiv b)"
  by (simp add: signed_divide_int_def)

lemma sdiv_by_zero [simp]: "(a::int) sdiv 0 = 0"
  by (simp add: signed_divide_int_def)

lemma sdiv_zero_left [simp]: "(0::int) sdiv b = 0"
  by (simp add: signed_divide_int_def)

lemma sdiv_one [simp]: "(a::int) sdiv 1 = a"
  by (simp add: signed_divide_int_def mult_sgn_abs)

lemma sdiv_neg_pos: "a < 0 \<Longrightarrow> 0 < b \<Longrightarrow> (a::int) sdiv b = - ((- a) div b)"
  by (simp add: signed_divide_int_def)

lemma sdiv_mult_self [simp]: "b \<noteq> 0 \<Longrightarrow> ((a::int) * b) sdiv b = a"
  by (simp add: signed_divide_int_def abs_mult sgn_mult mult_sgn_abs sgn_mult_self_eq
      mult.assoc mult.left_commute [of "sgn b"])

lemma sdiv_abs_le: "\<bar>(a::int) sdiv b\<bar> \<le> \<bar>a\<bar>"
proof (cases "b = 0")
  case False
  then have "\<bar>a\<bar> div \<bar>b\<bar> \<le> \<bar>a\<bar> div 1"
    by (intro zdiv_mono2) auto
  moreover have "0 \<le> \<bar>a\<bar> div \<bar>b\<bar>"
    by (simp add: pos_imp_zdiv_nonneg_iff False)
  ultimately show ?thesis
    by (simp add: signed_divide_int_def abs_mult abs_sgn_eq False)
qed simp

text \<open>Rounding towards zero as floor and ceiling.\<close>

lemma sdiv_eq_floor_or_ceiling:
  assumes "(b::int) \<noteq> 0"
  shows "a sdiv b = (if (a \<ge> 0) = (b > 0) then a div b else - ((- a) div b))"
proof -
  consider "a \<ge> 0" "b > 0" | "a \<ge> 0" "b < 0" | "a < 0" "b > 0" | "a < 0" "b < 0"
    using assms by linarith
  then show ?thesis
    by cases (auto simp: signed_divide_int_def sgn_if div_minus_right)
qed

lemma sdiv_mult_eq_iff: "(b::int) \<noteq> 0 \<Longrightarrow> (a sdiv b * b = a) = (a mod b = 0)"
proof -
  assume b: "b \<noteq> 0"
  have "(a smod b = 0) = (a mod b = 0)"
    by (auto simp: signed_modulo_int_def mod_eq_0_iff_dvd sgn_eq_0_iff)
  with sdiv_mult_smod_eq [of a b] show ?thesis by auto
qed

text \<open>Adding one to a rounded-down quotient of \<open>n - 1\<close> rounds up.\<close>

lemma div_pred_Suc_eq_ceiling:
  assumes "0 < (b::int)"
  shows "(n - 1) div b + 1 = - ((- n) div b)"
proof -
  have "- ((- n) div b) = (n + b - 1) div b"
  proof (rule sym, rule int_div_pos_eq [where r = "(n + b - 1) + b * ((- n) div b)"])
    show "n + b - 1 = b * - (- n div b) + (n + b - 1 + b * (- n div b))"
      by (simp add: algebra_simps)
    have e: "b * ((- n) div b) = - n - (- n) mod b"
      by (simp add: minus_mod_eq_mult_div)
    have m: "0 \<le> (- n) mod b" "(- n) mod b < b"
      using assms by simp_all
    show "0 \<le> n + b - 1 + b * (- n div b)" "n + b - 1 + b * (- n div b) < b"
      unfolding e using m by linarith+
  qed
  also have "n + b - 1 = n - 1 + 1 * b" by simp
  also have "(n - 1 + 1 * b) div b = (n - 1) div b + 1"
    using assms by (simp add: div_add_self2)
  finally show ?thesis by simp
qed

lemma ceiling_div_bounds:
  assumes "0 < (b::int)"
  shows "n \<le> b * - ((- n) div b)" "b * - ((- n) div b) < n + b"
proof -
  have e: "b * ((- n) div b) = - n - (- n) mod b"
    by (simp add: minus_mod_eq_mult_div)
  have m: "0 \<le> (- n) mod b" "(- n) mod b < b"
    using assms by simp_all
  show "n \<le> b * - ((- n) div b)" "b * - ((- n) div b) < n + b"
    using e m by linarith+
qed

lemma floor_div_bounds:
  assumes "0 < (b::int)"
  shows "b * (n div b) \<le> n" "n < b * (n div b) + b"
proof -
  have e: "b * (n div b) = n - n mod b"
    by (simp add: minus_mod_eq_mult_div)
  have m: "0 \<le> n mod b" "n mod b < b"
    using assms by simp_all
  show "b * (n div b) \<le> n" "n < b * (n div b) + b"
    using e m by linarith+
qed

lemma int_le_div_iff: "0 < (d::int) \<Longrightarrow> q \<le> n div d \<longleftrightarrow> q * d \<le> n"
proof -
  assume d: "0 < d"
  have "q \<le> n div d" if "q * d \<le> n"
    using zdiv_mono1 [OF that d] d by simp
  moreover have "q * d \<le> n" if "q \<le> n div d"
  proof -
    have "q * d \<le> (n div d) * d" using that d by (simp add: mult_right_mono)
    also have "\<dots> \<le> n" using floor_div_bounds(1) [OF d, of n] by (simp add: mult.commute)
    finally show ?thesis .
  qed
  ultimately show ?thesis by blast
qed

end
