(* ===== verification/BigNum.thy ===== *)
theory BigNum
  imports TS_Prelude
begin

section \<open>BigNumber values and JavaScript comparisons\<close>

text \<open>
  The helpers under \<^verbatim>\<open>utils/\<close> compute with ethers' \<^verbatim>\<open>BigNumber\<close>, an immutable
  integer of arbitrary size: here an \<open>int\<close>. Its methods are read as documented:
  \<^verbatim>\<open>add\<close>, \<^verbatim>\<open>sub\<close>, \<^verbatim>\<open>mul\<close> and \<^verbatim>\<open>abs\<close> are the exact operations,
  \<^verbatim>\<open>div\<close> truncates and throws on a zero divisor, \<^verbatim>\<open>mod\<close> throws unless the modulus
  is positive, \<^verbatim>\<open>toString\<close> prints in base ten and \<^verbatim>\<open>toHexString\<close> in base sixteen
  with an even number of digits.

  A BigNumber is an object without a \<^verbatim>\<open>valueOf\<close> method: JavaScript's \<^verbatim>\<open><\<close> and
  \<^verbatim>\<open>>\<close> turn both operands into strings and compare these character by character,
  and \<^verbatim>\<open>==\<close> compares object identity. \<^verbatim>\<open>utils/common/uniswapUtils.ts\<close> uses both.
\<close>

subsection \<open>Arithmetic that may throw\<close>

definition bn_div :: "int \<Rightarrow> int \<Rightarrow> int option" where
  "bn_div a b = (if b = 0 then None else Some (a sdiv b))"

definition bn_mod :: "int \<Rightarrow> int \<Rightarrow> int option" where
  "bn_mod a b = (if b \<le> 0 then None else Some (a mod b))"

lemma bn_div_Some [simp]: "b \<noteq> 0 \<Longrightarrow> bn_div a b = Some (a sdiv b)"
  by (simp add: bn_div_def)

lemma bn_div_zero [simp]: "bn_div a 0 = None"
  by (simp add: bn_div_def)

lemma bn_mod_Some [simp]: "0 < b \<Longrightarrow> bn_mod a b = Some (a mod b)"
  by (simp add: bn_mod_def)

lemma bn_div_eq_Some_iff [bn_simps]: "bn_div a b = Some q \<longleftrightarrow> b \<noteq> 0 \<and> q = a sdiv b"
  by (auto simp: bn_div_def)

subsection \<open>Positional notation\<close>

text \<open>The digits of a number in a base, most significant first.\<close>

function to_digits :: "nat \<Rightarrow> nat \<Rightarrow> nat list" where
  "to_digits b n = (if b < 2 \<or> n < b then [n] else to_digits b (n div b) @ [n mod b])"
  by pat_completeness auto
termination
  by (relation "measure (\<lambda>(b, n). n)") auto

declare to_digits.simps [simp del]

definition of_digits :: "nat \<Rightarrow> nat list \<Rightarrow> nat" where
  "of_digits b ds = foldl (\<lambda>acc d. acc * b + d) 0 ds"

lemma of_digits_Nil [simp]: "of_digits b [] = 0"
  by (simp add: of_digits_def)

lemma of_digits_snoc [simp]: "of_digits b (ds @ [d]) = of_digits b ds * b + d"
  by (simp add: of_digits_def)

lemma of_to_digits [simp]: "of_digits b (to_digits b n) = n"
proof (induction b n rule: to_digits.induct)
  case (1 b n)
  show ?case
  proof (cases "b < 2 \<or> n < b")
    case True
    then show ?thesis by (subst to_digits.simps) (simp add: of_digits_def)
  next
    case False
    with 1 have "of_digits b (to_digits b (n div b)) = n div b" by simp
    with False show ?thesis by (subst to_digits.simps) simp
  qed
qed

lemma to_digits_nonempty [simp]: "to_digits b n \<noteq> []"
  by (subst to_digits.simps) simp

lemma to_digits_less: "2 \<le> b \<Longrightarrow> d \<in> set (to_digits b n) \<Longrightarrow> d < b"
proof (induction b n rule: to_digits.induct)
  case (1 b n)
  show ?case
  proof (cases "n < b")
    case True
    with 1 show ?thesis by (subst (asm) (2) to_digits.simps) auto
  next
    case False
    with "1.prems" have "d \<in> set (to_digits b (n div b)) \<or> d = n mod b"
      by (subst (asm) to_digits.simps) auto
    with 1 False show ?thesis by auto
  qed
qed

lemma length_to_digits_le: "2 \<le> b \<Longrightarrow> n < b ^ k \<Longrightarrow> 0 < k \<Longrightarrow> length (to_digits b n) \<le> k"
proof (induction b n arbitrary: k rule: to_digits.induct)
  case (1 b n)
  show ?case
  proof (cases "n < b")
    case True
    with 1 show ?thesis by (subst to_digits.simps) auto
  next
    case False
    obtain j where k: "k = Suc j" using "1.prems"(3) by (cases k) auto
    have j: "0 < j"
    proof (rule ccontr)
      assume "\<not> 0 < j"
      with k "1.prems"(2) have "n < b" by simp
      with False show False by simp
    qed
    have "n div b < b ^ j"
      using "1.prems" k by (simp add: less_mult_imp_div_less mult.commute)
    with 1 False j have "length (to_digits b (n div b)) \<le> j" by auto
    with False "1.prems" k show ?thesis by (subst to_digits.simps) auto
  qed
qed

lemma of_digits_replicate_zero [simp]: "of_digits b (replicate k 0 @ ds) = of_digits b ds"
proof (induction ds rule: rev_induct)
  case Nil
  show ?case by (induction k) (simp_all add: replicate_append_same [symmetric])
next
  case (snoc d ds)
  have "of_digits b (replicate k 0 @ ds @ [d]) = of_digits b ((replicate k 0 @ ds) @ [d])"
    by simp
  also have "\<dots> = of_digits b ds * b + d"
    unfolding of_digits_snoc by (simp add: snoc)
  finally show ?case by simp
qed

text \<open>On digit lists of the same length, the lexicographic order is the numeric order.\<close>

lemma of_digits_bound: "(\<And>d. d \<in> set ds \<Longrightarrow> d < b) \<Longrightarrow> of_digits b ds < b ^ length ds"
proof (induction ds rule: rev_induct)
  case (snoc d ds)
  have d: "d < b" using snoc.prems by simp
  have "of_digits b ds < b ^ length ds" using snoc by simp
  then have "of_digits b ds * b + b \<le> b ^ length ds * b"
    using mult_le_mono1 [of "Suc (of_digits b ds)" "b ^ length ds" b] by simp
  with d show ?case by (simp add: mult.commute)
qed simp

lemma of_digits_Cons: "of_digits b (d # ds) = d * b ^ length ds + of_digits b ds"
proof (induction ds rule: rev_induct)
  case Nil show ?case by (simp add: of_digits_def)
next
  case (snoc e es)
  have "of_digits b (d # es @ [e]) = of_digits b ((d # es) @ [e])" by simp
  also have "\<dots> = (d * b ^ length es + of_digits b es) * b + e"
    unfolding of_digits_snoc by (simp add: snoc)
  finally show ?case by (simp add: algebra_simps)
qed

lemma digits_lex_less_iff:
  assumes "length xs = length ys"
    and "\<And>d. d \<in> set xs \<Longrightarrow> d < b" and "\<And>d. d \<in> set ys \<Longrightarrow> d < b"
  shows "(xs < ys) = (of_digits b xs < of_digits b ys)"
  using assms
proof (induction xs ys rule: list_induct2)
  case (Cons x xs y ys)
  let ?k = "b ^ length xs"
  have bx: "of_digits b xs < ?k" using Cons.prems by (intro of_digits_bound) simp
  have "of_digits b ys < b ^ length ys" using Cons.prems by (intro of_digits_bound) simp
  then have "of_digits b ys < ?k" using Cons.hyps by simp
  note bys = this
  have step: "u * ?k + p < v * ?k + q" if "u < v" "p < ?k" for u v p q :: nat
  proof -
    have "u * ?k + ?k \<le> v * ?k"
      using that(1) mult_le_mono1 [of "Suc u" v ?k] by simp
    with that(2) show ?thesis by linarith
  qed
  show ?case
  proof (cases x y rule: linorder_cases)
    case less
    then show ?thesis using step [OF less bx] Cons.hyps by (simp add: of_digits_Cons)
  next
    case equal
    then show ?thesis using Cons by (simp add: of_digits_Cons)
  next
    case greater
    then show ?thesis using step [OF greater bys] Cons.hyps
      by (simp add: of_digits_Cons) (metis less_asym)
  qed
qed simp

subsection \<open>Printing\<close>

definition digit_char :: "nat \<Rightarrow> char" where
  "digit_char d = char_of (if d < 10 then 48 + d else 87 + d)"

definition digit_val :: "char \<Rightarrow> nat" where
  "digit_val c = (let k = of_char c in if k < 58 then k - 48 else k - 87)"

lemma digit_val_char [simp]: "d < 16 \<Longrightarrow> digit_val (digit_char d) = d"
  by (auto simp: digit_val_def digit_char_def Let_def of_char_of)

lemma digit_char_less_iff: "d < 16 \<Longrightarrow> e < 16 \<Longrightarrow> (digit_char d < digit_char e) = (d < e)"
  by (auto simp: digit_char_def less_char_def of_char_of)

definition bn_toString :: "int \<Rightarrow> string" where
  "bn_toString a = (if a < 0 then ''-'' else []) @ map digit_char (to_digits 10 (nat \<bar>a\<bar>))"

definition bn_toHexString :: "int \<Rightarrow> string" where
  "bn_toHexString a =
     (let ds = map digit_char (to_digits 16 (nat \<bar>a\<bar>))
      in (if a < 0 then ''-0x'' else ''0x'') @ (if odd (length ds) then ''0'' else []) @ ds)"

subsection \<open>JavaScript's comparison operators on BigNumber objects\<close>

definition js_lt :: "int \<Rightarrow> int \<Rightarrow> bool" where
  "js_lt a b = (bn_toString a < bn_toString b)"

definition js_gt :: "int \<Rightarrow> int \<Rightarrow> bool" where
  "js_gt a b = js_lt b a"

text \<open>
  \<^verbatim>\<open>v == ZERO\<close> on two objects holds only for the constant object itself. A value computed
  by a BigNumber method or decoded from a contract call is a new object.
\<close>

definition same_object_as_ZERO :: "int \<Rightarrow> bool" where
  "same_object_as_ZERO v = False"

lemma map_digit_char_less_iff:
  assumes "\<And>d. d \<in> set xs \<Longrightarrow> d < 16" and "\<And>d. d \<in> set ys \<Longrightarrow> d < 16"
  shows "(map digit_char xs < map digit_char ys) = (xs < ys)"
  using assms
proof (induction xs arbitrary: ys)
  case Nil then show ?case by (cases ys) auto
next
  case (Cons x xs)
  show ?case
  proof (cases ys)
    case (Cons y zs)
    have inj: "(digit_char x = digit_char y) = (x = y)"
      using Cons.prems Cons digit_char_less_iff [of x y] digit_char_less_iff [of y x]
      by (metis insert_iff less_irrefl list.set(2) nat_neq_iff)
    then show ?thesis
      using Cons.IH [of zs] Cons.prems Cons by (auto simp: digit_char_less_iff)
  qed simp
qed

text \<open>The order of JavaScript agrees with the numeric one on equally long positive numbers.\<close>

lemma js_lt_iff_same_length:
  assumes "0 \<le> a" "0 \<le> b" "length (bn_toString a) = length (bn_toString b)"
  shows "js_lt a b = (a < b)"
proof -
  let ?da = "to_digits 10 (nat a)" and ?db = "to_digits 10 (nat b)"
  have len: "length ?da = length ?db" using assms by (simp add: bn_toString_def)
  have bd: "\<And>d n. d \<in> set (to_digits 10 n) \<Longrightarrow> d < 10"
    using to_digits_less [of 10] by simp
  have bd16: "\<And>d n. d \<in> set (to_digits 10 n) \<Longrightarrow> d < 16"
    by (drule bd) simp
  have "js_lt a b = (?da < ?db)"
    using assms bd16 by (simp add: js_lt_def bn_toString_def map_digit_char_less_iff)
  also have "\<dots> = (of_digits 10 ?da < of_digits 10 ?db)"
    using len bd by (intro digits_lex_less_iff) auto
  also have "\<dots> = (a < b)"
    using assms by auto
  finally show ?thesis .
qed

lemma js_lt_irrefl [simp]: "\<not> js_lt a a"
  by (simp add: js_lt_def)

lemma js_lt_asym: "js_lt a b \<Longrightarrow> \<not> js_lt b a"
  unfolding js_lt_def by (rule less_not_sym)

lemma hd_to_digits_pos: "0 < n \<Longrightarrow> 0 < hd (to_digits b n)"
proof (induction b n rule: to_digits.induct)
  case (1 b n)
  show ?case
  proof (cases "b < 2 \<or> n < b")
    case True
    with 1 show ?thesis by (subst to_digits.simps) simp
  next
    case False
    then have "0 < n div b" by (auto simp: div_greater_zero_iff)
    with 1 False have "0 < hd (to_digits b (n div b))" by simp
    with False show ?thesis by (subst to_digits.simps) simp
  qed
qed

lemma bn_toString_single: "0 \<le> a \<Longrightarrow> a < 10 \<Longrightarrow> bn_toString a = [digit_char (nat a)]"
  by (simp add: bn_toString_def to_digits.simps [of 10 "nat a"])

lemma hd_bn_toString: "0 \<le> a \<Longrightarrow> hd (bn_toString a) = digit_char (hd (to_digits 10 (nat a)))"
  by (simp add: bn_toString_def hd_map)

text \<open>Comparing with the object that holds zero is right for every sign.\<close>

lemma js_gt_zero_iff: "js_gt n 0 \<longleftrightarrow> 0 < n"
proof (cases "0 < n")
  case True
  obtain d ds where ds: "to_digits 10 (nat n) = d # ds"
    by (metis list.exhaust to_digits_nonempty)
  have "0 < d" using hd_to_digits_pos [of "nat n" 10] True ds by simp
  moreover have "d < 10" using to_digits_less [of 10 d "nat n"] ds by simp
  ultimately have "digit_char 0 < digit_char d" by (simp add: digit_char_less_iff)
  then have "bn_toString 0 < bn_toString n"
    using True ds by (simp add: bn_toString_single bn_toString_def [of n])
  then show ?thesis using True by (simp add: js_gt_def js_lt_def)
next
  case False
  show ?thesis
  proof (cases "n = 0")
    case False
    with \<open>\<not> 0 < n\<close> obtain ds where "bn_toString n = CHR ''-'' # ds"
      by (simp add: bn_toString_def)
    moreover have "digit_char 0 = CHR ''0''" by code_simp
    ultimately have "\<not> bn_toString 0 < bn_toString n"
      by (simp add: bn_toString_single less_char_def)
    then show ?thesis using \<open>\<not> 0 < n\<close> by (simp add: js_gt_def js_lt_def)
  qed (simp add: js_gt_def)
qed

end
