(* ===== verification/Math_Utils.thy ===== *)
theory Math_Utils
  imports BigNum
begin

section \<open>Fixed-point arithmetic of utils/common/mathUtils.ts\<close>

text \<open>
  The constants of \<^verbatim>\<open>utils/constants.ts\<close>, the unit conversions of
  \<^verbatim>\<open>utils/common/unitsUtils.ts\<close> and the eight fixed-point helpers of
  \<^verbatim>\<open>utils/common/mathUtils.ts\<close>, with the rounding direction and the error of each.
  The amounts of \<^verbatim>\<open>ether\<close> are exact decimals (\<open>rat\<close>); the amounts of
  \<^verbatim>\<open>gWei\<close>, \<^verbatim>\<open>bitcoin\<close> and \<^verbatim>\<open>usdc\<close> are integral JavaScript numbers.
\<close>

subsection \<open>Constants\<close>

definition MODULE_STATE :: "string \<Rightarrow> nat option" where
  "MODULE_STATE = map_of [(''NONE'', 0), (''PENDING'', 1), (''INITIALIZED'', 2)]"

definition POSITION_STATE :: "string \<Rightarrow> nat option" where
  "POSITION_STATE = map_of [(''DEFAULT'', 0), (''EXTERNAL'', 1)]"

definition ADDRESS_ZERO :: address where
  "ADDRESS_ZERO = ''0x'' @ replicate 40 CHR ''0''"

definition EMPTY_BYTES :: bytes where
  "EMPTY_BYTES = ''0x''"

definition ZERO_BYTES :: bytes where
  "ZERO_BYTES = ''0x'' @ replicate 64 CHR ''0''"

definition MAX_UINT_256 :: int where
  "MAX_UINT_256 = 2 ^ 256 - 1"

definition MAX_INT_256 :: int where
  "MAX_INT_256 = 2 ^ 255 - 1"

definition MIN_INT_256 :: int where
  "MIN_INT_256 = - (2 ^ 255)"

definition ONE_DAY_IN_SECONDS :: int where
  "ONE_DAY_IN_SECONDS = 60 * 60 * 24"

definition ONE_HOUR_IN_SECONDS :: int where
  "ONE_HOUR_IN_SECONDS = 60 * 60"

definition ONE_YEAR_IN_SECONDS :: int where
  "ONE_YEAR_IN_SECONDS = 31557600"

definition PRECISE_UNIT :: int where
  "PRECISE_UNIT = 10 ^ 18"

definition ETH_ADDRESS :: address where
  "ETH_ADDRESS = ''0xEeeeeEeeeEeEeeEeEeEeeEEEeeeeEeeeeeeeEEeE''"

lemma PRECISE_UNIT_pos [simp]: "0 < PRECISE_UNIT" "PRECISE_UNIT \<noteq> 0" "0 \<le> PRECISE_UNIT"
    "\<not> PRECISE_UNIT < 0"
  by (simp_all add: PRECISE_UNIT_def)

lemma ONE_YEAR_pos [simp]: "0 < ONE_YEAR_IN_SECONDS" "ONE_YEAR_IN_SECONDS \<noteq> 0"
  by (simp_all add: ONE_YEAR_IN_SECONDS_def)

lemma ONE_DAY_pos [simp]: "0 < ONE_DAY_IN_SECONDS" "ONE_DAY_IN_SECONDS \<noteq> 0"
  by (simp_all add: ONE_DAY_IN_SECONDS_def)

subsection \<open>Units\<close>

text \<open>
  \<^verbatim>\<open>parseEther\<close> throws when the decimal has more than eighteen places. A number handed to
  BigNumber must be a safe integer: \<^verbatim>\<open>BigNumber.from\<close> throws otherwise.
\<close>

definition ether :: "rat \<Rightarrow> int option" where
  "ether amount =
     (let wei = amount * 10 ^ 18 in if of_int \<lfloor>wei\<rfloor> = wei then Some \<lfloor>wei\<rfloor> else None)"

definition bn_from_number :: "int \<Rightarrow> int option" where
  "bn_from_number n = (if \<bar>n\<bar> < 2 ^ 53 - 1 then Some n else None)"

definition gWei :: "int \<Rightarrow> int option" where
  "gWei amount = map_option (\<lambda>n. 1000000000 * n) (bn_from_number amount)"

definition bitcoin :: "int \<Rightarrow> int option" where
  "bitcoin amount = bn_from_number (100000000 * amount)"

definition usdc :: "int \<Rightarrow> int option" where
  "usdc amount = bn_from_number (1000000 * amount)"

lemma ether_of_int [simp]: "ether (of_int n) = Some (n * 10 ^ 18)"
proof -
  have "(of_int n :: rat) * 10 ^ 18 = of_int (n * 10 ^ 18)" by simp
  then show ?thesis unfolding ether_def Let_def by (simp only: floor_of_int refl if_True)
qed

lemma ether_numeral [simp]: "ether (numeral k) = Some (numeral k * 10 ^ 18)"
  using ether_of_int [of "numeral k"] by simp

lemma ether_one [simp]: "ether 1 = Some PRECISE_UNIT"
  using ether_of_int [of 1] by (simp add: PRECISE_UNIT_def)

lemma ether_ratio: "(of_int n :: rat) = amount * 10 ^ 18 \<Longrightarrow> ether amount = Some n"
  unfolding ether_def Let_def by (drule sym) (simp only: floor_of_int refl if_True)

subsection \<open>The helpers\<close>

definition preciseMul :: "int \<Rightarrow> int \<Rightarrow> int" where
  "preciseMul a b = (a * b) sdiv PRECISE_UNIT"

definition preciseMulCeil :: "int \<Rightarrow> int \<Rightarrow> int" where
  "preciseMulCeil a b =
     (if a = 0 \<or> b = 0 then 0 else (a * b - 1) sdiv PRECISE_UNIT + 1)"

definition preciseMulCeilInt :: "int \<Rightarrow> int \<Rightarrow> int" where
  "preciseMulCeilInt a b =
     (if a = 0 \<or> b = 0 then 0
      else if a > 0 \<and> b > 0 \<or> a < 0 \<and> b < 0
      then (a * b - 1) sdiv PRECISE_UNIT + 1
      else (a * b + 1) sdiv PRECISE_UNIT - 1)"

definition preciseDiv :: "int \<Rightarrow> int \<Rightarrow> int option" where
  "preciseDiv a b = bn_div (a * PRECISE_UNIT) b"

definition preciseDivCeil :: "int \<Rightarrow> int \<Rightarrow> int option" where
  "preciseDivCeil a b =
     (if a = 0 \<or> b = 0 then Some 0
      else map_option (\<lambda>q. q + 1) (bn_div (a * PRECISE_UNIT - 1) b))"

definition preciseDivCeilInt :: "int \<Rightarrow> int \<Rightarrow> int option" where
  "preciseDivCeilInt a b = do {
     result \<leftarrow> bn_div (a * PRECISE_UNIT) b;
     if result * b = a * PRECISE_UNIT then Some result
     else if (a > 0 \<and> b > 0) \<or> (a < 0 \<and> b < 0) then Some (result + 1)
     else Some (result - 1)
   }"

definition divDown :: "int \<Rightarrow> int \<Rightarrow> int option" where
  "divDown a b = do {
     result \<leftarrow> bn_div a b;
     if a < 0 \<and> b > 0 then do {
       m \<leftarrow> bn_mod a b;
       Some (if m \<noteq> 0 then result - 1 else result)
     } else if a > 0 \<and> b < 0 then do {
       m \<leftarrow> bn_mod a (b * -1);
       Some (if m \<noteq> 0 then result - 1 else result)
     } else Some result
   }"

definition bn_min :: "int \<Rightarrow> int \<Rightarrow> int" where
  "bn_min valueOne valueTwo = (if valueOne < valueTwo then valueOne else valueTwo)"

subsection \<open>A contract for rounded products and quotients\<close>

text \<open>
  Every helper computes a numerator over a positive scale and rounds it. What a caller relies on
  is the same for all of them: the result is exact on multiples of the scale, is off by less than
  one, and falls on the documented side.
\<close>

locale rounds_down =
  fixes num :: "'a \<Rightarrow> int" and den :: "'a \<Rightarrow> int" and dom_ok :: "'a \<Rightarrow> bool"
    and r :: "'a \<Rightarrow> int"
  assumes den_pos: "dom_ok x \<Longrightarrow> 0 < den x"
    and lower: "dom_ok x \<Longrightarrow> den x * r x \<le> num x"
    and close: "dom_ok x \<Longrightarrow> num x < den x * r x + den x"
begin

lemma is_floor: "dom_ok x \<Longrightarrow> r x = num x div den x"
  using den_pos [of x] lower [of x] close [of x]
  by (intro sym [OF int_div_pos_eq [where r = "num x - den x * r x"]]) auto

lemma exact: "dom_ok x \<Longrightarrow> num x = k * den x \<Longrightarrow> r x = k"
  using den_pos [of x] by (simp add: is_floor)

lemma mono: "dom_ok x \<Longrightarrow> dom_ok y \<Longrightarrow> den x = den y \<Longrightarrow> num x \<le> num y \<Longrightarrow> r x \<le> r y"
  using den_pos [of x] by (simp add: is_floor zdiv_mono1)

end

locale rounds_up =
  fixes num :: "'a \<Rightarrow> int" and den :: "'a \<Rightarrow> int" and dom_ok :: "'a \<Rightarrow> bool"
    and r :: "'a \<Rightarrow> int"
  assumes den_pos: "dom_ok x \<Longrightarrow> 0 < den x"
    and upper: "dom_ok x \<Longrightarrow> num x \<le> den x * r x"
    and close: "dom_ok x \<Longrightarrow> den x * r x < num x + den x"
begin

text \<open>Rounding up is rounding the negated quotient down.\<close>

sublocale down: rounds_down "\<lambda>x. - num x" den dom_ok "\<lambda>x. - r x"
  using den_pos upper close by unfold_locales (auto simp: algebra_simps)

lemma is_ceiling: "dom_ok x \<Longrightarrow> r x = - ((- num x) div den x)"
  using down.is_floor [of x] by simp

lemma exact: "dom_ok x \<Longrightarrow> num x = k * den x \<Longrightarrow> r x = k"
  using down.exact [of x "- k"] by simp

lemma mono: "dom_ok x \<Longrightarrow> dom_ok y \<Longrightarrow> den x = den y \<Longrightarrow> num x \<le> num y \<Longrightarrow> r x \<le> r y"
  using down.mono [of y x] by simp

end

interpretation mul_down: rounds_down
  "\<lambda>(a, b). a * b" "\<lambda>_. PRECISE_UNIT" "\<lambda>(a, b). 0 \<le> a * b" "\<lambda>(a, b). preciseMul a b"
  by unfold_locales (auto simp: preciseMul_def floor_div_bounds)

interpretation mul_up: rounds_up
  "\<lambda>(a, b). a * b" "\<lambda>_. PRECISE_UNIT" "\<lambda>(a, b). 0 \<le> a * b" "\<lambda>(a, b). preciseMulCeil a b"
proof unfold_locales
  fix x :: "int \<times> int"
  obtain a b where x: "x = (a, b)" by fastforce
  assume "case x of (a, b) \<Rightarrow> 0 \<le> a * b"
  then have pos: "0 \<le> a * b" by (simp add: x)
  have eq: "preciseMulCeil a b = - ((- (a * b)) div PRECISE_UNIT)"
  proof (cases "a * b = 0")
    case False
    with pos have "0 \<le> a * b - 1" by linarith
    then show ?thesis using False
      by (auto simp: preciseMulCeil_def div_pred_Suc_eq_ceiling)
  qed (auto simp: preciseMulCeil_def)
  show "(case x of (a, b) \<Rightarrow> a * b) \<le> PRECISE_UNIT * (case x of (a, b) \<Rightarrow> preciseMulCeil a b)"
    and "PRECISE_UNIT * (case x of (a, b) \<Rightarrow> preciseMulCeil a b)
           < (case x of (a, b) \<Rightarrow> a * b) + PRECISE_UNIT"
    using ceiling_div_bounds [of PRECISE_UNIT "a * b"] by (simp_all add: x eq)
qed simp

interpretation div_down: rounds_down
  "\<lambda>(a, b). a * PRECISE_UNIT" "\<lambda>(a, b). b" "\<lambda>(a, b). 0 \<le> a \<and> 0 < b"
  "\<lambda>(a, b). the (preciseDiv a b)"
  by unfold_locales (auto simp: preciseDiv_def floor_div_bounds)

interpretation div_up: rounds_up
  "\<lambda>(a, b). a * PRECISE_UNIT" "\<lambda>(a, b). b" "\<lambda>(a, b). 0 \<le> a \<and> 0 < b"
  "\<lambda>(a, b). the (preciseDivCeil a b)"
proof unfold_locales
  fix x :: "int \<times> int"
  obtain a b where x: "x = (a, b)" by fastforce
  assume "case x of (a, b) \<Rightarrow> 0 \<le> a \<and> 0 < b"
  then have ab: "0 \<le> a" "0 < b" by (simp_all add: x)
  have eq: "the (preciseDivCeil a b) = - ((- (a * PRECISE_UNIT)) div b)"
  proof (cases "a = 0")
    case False
    with ab have "0 < a * PRECISE_UNIT" by simp
    then have "0 \<le> a * PRECISE_UNIT - 1" by linarith
    then show ?thesis using False ab
      by (simp add: preciseDivCeil_def div_pred_Suc_eq_ceiling)
  qed (simp add: preciseDivCeil_def)
  show "(case x of (a, b) \<Rightarrow> a * PRECISE_UNIT)
      \<le> (case x of (a, b) \<Rightarrow> b) * (case x of (a, b) \<Rightarrow> the (preciseDivCeil a b))"
    and "(case x of (a, b) \<Rightarrow> b) * (case x of (a, b) \<Rightarrow> the (preciseDivCeil a b))
      < (case x of (a, b) \<Rightarrow> a * PRECISE_UNIT) + (case x of (a, b) \<Rightarrow> b)"
    using ceiling_div_bounds [OF ab(2), of "a * PRECISE_UNIT"] by (simp_all add: x eq)
qed auto

lemma preciseMul_nonneg: "0 \<le> a * b \<Longrightarrow> preciseMul a b = a * b div PRECISE_UNIT"
  using mul_down.is_floor [of "(a, b)"] by simp

lemma preciseMulCeil_nonneg: "0 \<le> a * b \<Longrightarrow> preciseMulCeil a b = - ((- (a * b)) div PRECISE_UNIT)"
  using mul_up.is_ceiling [of "(a, b)"] by simp

lemma preciseMul_sign: "0 \<le> a * b \<Longrightarrow> 0 \<le> preciseMul a b"
  by (simp add: preciseMul_nonneg pos_imp_zdiv_nonneg_iff)

lemma preciseMul_minus [simp]: "preciseMul (- a) b = - preciseMul a b"
  "preciseMul a (- b) = - preciseMul a b"
  by (simp_all add: preciseMul_def)

lemma preciseMul_unit [simp]: "preciseMul a PRECISE_UNIT = a" "preciseMul PRECISE_UNIT a = a"
  using sdiv_mult_self [of PRECISE_UNIT a]
  by (simp_all add: preciseMul_def mult.commute [of PRECISE_UNIT])

lemma preciseMul_zero [simp]: "preciseMul 0 a = 0" "preciseMul a 0 = 0"
  by (simp_all add: preciseMul_def)

lemma preciseDiv_zero [simp]: "preciseDiv a 0 = None"
  by (simp add: preciseDiv_def)

lemma preciseDiv_Some [simp]: "b \<noteq> 0 \<Longrightarrow> preciseDiv a b = Some ((a * PRECISE_UNIT) sdiv b)"
  by (simp add: preciseDiv_def)

lemma preciseMul_le: "0 \<le> a \<Longrightarrow> 0 \<le> b \<Longrightarrow> b \<le> PRECISE_UNIT \<Longrightarrow> preciseMul a b \<le> a"
  using mul_down.mono [of "(a, b)" "(a, PRECISE_UNIT)"] by (simp add: mult_left_mono)

lemma preciseMul_mono: "0 \<le> a \<Longrightarrow> a \<le> a' \<Longrightarrow> 0 \<le> b \<Longrightarrow> preciseMul a b \<le> preciseMul a' b"
  using mul_down.mono [of "(a, b)" "(a', b)"] by (simp add: mult_right_mono)

subsection \<open>Signed rounding\<close>

lemma divDown_floor: "divDown a b = (if b = 0 then None else Some (a div b))"
proof (cases "b = 0")
  case False
  have exact: "- ((- a) div b) = a div b" if "a mod b = 0"
    using that False by (simp add: zdiv_zminus1_eq_if)
  have inexact: "- ((- a) div b) = a div b + 1" if "a mod b \<noteq> 0"
    using that False by (simp add: zdiv_zminus1_eq_if)
  have flip: "(a mod (- b) = 0) = (a mod b = 0)"
    by (simp add: mod_eq_0_iff_dvd)
  show ?thesis using False exact inexact flip
    by (auto simp: divDown_def sdiv_eq_floor_or_ceiling)
qed (simp add: divDown_def)

lemma bn_min_is_min [simp]: "bn_min a b = min a b"
  by (simp add: bn_min_def min_def)

text \<open>Rounding away from zero, the meaning of the two \<^verbatim>\<open>CeilInt\<close> helpers.\<close>

definition round_away :: "int \<Rightarrow> int \<Rightarrow> int" where
  "round_away n d = sgn n * sgn d * - ((- \<bar>n\<bar>) div \<bar>d\<bar>)"

lemma round_away_bounds:
  assumes "d \<noteq> 0"
  shows "\<bar>n\<bar> \<le> \<bar>d\<bar> * \<bar>round_away n d\<bar>" "\<bar>d\<bar> * \<bar>round_away n d\<bar> < \<bar>n\<bar> + \<bar>d\<bar>"
proof -
  have "0 \<le> - ((- \<bar>n\<bar>) div \<bar>d\<bar>)"
    using assms by (simp add: div_nonpos_pos_le0)
  then have e: "\<bar>round_away n d\<bar> = - ((- \<bar>n\<bar>) div \<bar>d\<bar>)"
    using assms by (cases "n = 0") (simp_all add: round_away_def abs_mult)
  show "\<bar>n\<bar> \<le> \<bar>d\<bar> * \<bar>round_away n d\<bar>" "\<bar>d\<bar> * \<bar>round_away n d\<bar> < \<bar>n\<bar> + \<bar>d\<bar>"
    unfolding e using ceiling_div_bounds [of "\<bar>d\<bar>" "\<bar>n\<bar>"] assms by simp_all
qed

lemma preciseMulCeilInt_away: "preciseMulCeilInt a b = round_away (a * b) PRECISE_UNIT"
proof (cases "a * b" "0::int" rule: linorder_cases)
  case less
  then have s: "\<not> (a > 0 \<and> b > 0 \<or> a < 0 \<and> b < 0)" "a \<noteq> 0" "b \<noteq> 0"
    by (auto simp: mult_less_0_iff)
  have "(a * b + 1) sdiv PRECISE_UNIT = - ((- (a * b) - 1) div PRECISE_UNIT)"
    using less sdiv_nonneg [of "- (a * b) - 1" PRECISE_UNIT]
      sdiv_minus_left [of "- (a * b) - 1" PRECISE_UNIT] by (simp add: add.commute)
  then show ?thesis using less s div_pred_Suc_eq_ceiling [of PRECISE_UNIT "- (a * b)"]
    by (auto simp: preciseMulCeilInt_def round_away_def)
next
  case equal
  then show ?thesis by (auto simp: preciseMulCeilInt_def round_away_def)
next
  case greater
  then have "a > 0 \<and> b > 0 \<or> a < 0 \<and> b < 0" by (auto simp: zero_less_mult_iff)
  then show ?thesis using greater div_pred_Suc_eq_ceiling [of PRECISE_UNIT "a * b"]
    by (auto simp: preciseMulCeilInt_def round_away_def)
qed

lemma round_away_sdiv:
  assumes "d \<noteq> 0"
  shows "round_away n d = (if n sdiv d * d = n then n sdiv d else n sdiv d + sgn n * sgn d)"
proof -
  have "n sdiv d * d = sgn n * (\<bar>d\<bar> * (\<bar>n\<bar> div \<bar>d\<bar>))"
    using assms by (simp add: signed_divide_int_def mult.assoc abs_sgn [of d] ac_simps)
  also have "\<bar>d\<bar> * (\<bar>n\<bar> div \<bar>d\<bar>) = \<bar>n\<bar> - \<bar>n\<bar> mod \<bar>d\<bar>"
    by (simp add: minus_mod_eq_mult_div)
  finally have "(n sdiv d * d = n) = (\<bar>n\<bar> mod \<bar>d\<bar> = 0)"
    by (cases "n = 0") (simp_all add: right_diff_distrib mult_sgn_abs sgn_eq_0_iff)
  moreover have "- ((- \<bar>n\<bar>) div \<bar>d\<bar>) = (if \<bar>n\<bar> mod \<bar>d\<bar> = 0 then \<bar>n\<bar> div \<bar>d\<bar> else \<bar>n\<bar> div \<bar>d\<bar> + 1)"
    using assms by (simp add: zdiv_zminus1_eq_if)
  ultimately show ?thesis
    by (simp add: round_away_def signed_divide_int_def algebra_simps)
qed

lemma preciseDivCeilInt_away:
  "preciseDivCeilInt a b = (if b = 0 then None else Some (round_away (a * PRECISE_UNIT) b))"
proof (cases "b = 0")
  case False
  let ?n = "a * PRECISE_UNIT"
  have "sgn ?n * sgn b = (if a > 0 \<and> b > 0 \<or> a < 0 \<and> b < 0 then 1 else -1)"
    if "?n sdiv b * b \<noteq> ?n"
    using that False by (cases "a = 0") (auto simp: sgn_mult sgn_if zero_less_mult_iff)
  then show ?thesis using False
    by (auto simp: preciseDivCeilInt_def round_away_sdiv)
qed (simp add: preciseDivCeilInt_def)

end
