(* ===== verification/Precise_Unit_Math.thy ===== *)
theory Precise_Unit_Math
  imports Math_Utils "HOL-Library.Word"
begin

unbundle bit_operations_syntax

section \<open>The on-chain library contracts/lib/PreciseUnitMath.sol\<close>

text \<open>
  The contracts compute with 256-bit words and revert (\<open>None\<close>) where SafeMath and
  SignedSafeMath do: on overflow, underflow and division by zero. An \<^verbatim>\<open>int256\<close> is the same
  word read by \<open>sint\<close>. The properties say that each helper of
  \<^verbatim>\<open>utils/common/mathUtils.ts\<close> computes, over unbounded integers, what the library computes
  on chain, and name exactly the inputs on which the contract reverts instead.
\<close>

type_synonym uint256 = "256 word"
type_synonym int256 = "256 word"

subsection \<open>Checked arithmetic\<close>

definition safe_add :: "uint256 \<Rightarrow> uint256 \<Rightarrow> uint256 option" where
  "safe_add a b = (if uint a + uint b < 2 ^ 256 then Some (a + b) else None)"

definition safe_sub :: "uint256 \<Rightarrow> uint256 \<Rightarrow> uint256 option" where
  "safe_sub a b = (if uint b \<le> uint a then Some (a - b) else None)"

definition safe_mul :: "uint256 \<Rightarrow> uint256 \<Rightarrow> uint256 option" where
  "safe_mul a b = (if uint a * uint b < 2 ^ 256 then Some (a * b) else None)"

definition safe_div :: "uint256 \<Rightarrow> uint256 \<Rightarrow> uint256 option" where
  "safe_div a b = (if b = 0 then None else Some (a div b))"

definition in_int256 :: "int \<Rightarrow> bool" where
  "in_int256 k \<longleftrightarrow> - (2 ^ 255) \<le> k \<and> k < 2 ^ 255"

definition ssafe_mul :: "int256 \<Rightarrow> int256 \<Rightarrow> int256 option" where
  "ssafe_mul a b = (if in_int256 (sint a * sint b) then Some (a * b) else None)"

definition ssafe_div :: "int256 \<Rightarrow> int256 \<Rightarrow> int256 option" where
  "ssafe_div a b =
     (if b = 0 \<or> (sint b = -1 \<and> sint a = MIN_INT_256) then None
      else Some (word_of_int (sint a sdiv sint b)))"

definition sol_smod :: "int256 \<Rightarrow> int256 \<Rightarrow> int256" where
  "sol_smod a b = word_of_int (sint a smod sint b)"

subsection \<open>The library\<close>

definition sol_preciseUnit :: uint256 where
  "sol_preciseUnit = 10 ^ 18"

definition sol_preciseMul :: "uint256 \<Rightarrow> uint256 \<Rightarrow> uint256 option" where
  "sol_preciseMul a b = do { p \<leftarrow> safe_mul a b; safe_div p sol_preciseUnit }"

definition sol_preciseMulInt :: "int256 \<Rightarrow> int256 \<Rightarrow> int256 option" where
  "sol_preciseMulInt a b = do { p \<leftarrow> ssafe_mul a b; ssafe_div p sol_preciseUnit }"

definition sol_preciseMulCeil :: "uint256 \<Rightarrow> uint256 \<Rightarrow> uint256 option" where
  "sol_preciseMulCeil a b =
     (if a = 0 \<or> b = 0 then Some 0
      else do { p \<leftarrow> safe_mul a b; q \<leftarrow> safe_sub p 1; d \<leftarrow> safe_div q sol_preciseUnit; safe_add d 1 })"

definition sol_preciseDiv :: "uint256 \<Rightarrow> uint256 \<Rightarrow> uint256 option" where
  "sol_preciseDiv a b = do { p \<leftarrow> safe_mul a sol_preciseUnit; safe_div p b }"

definition sol_preciseDivInt :: "int256 \<Rightarrow> int256 \<Rightarrow> int256 option" where
  "sol_preciseDivInt a b = do { p \<leftarrow> ssafe_mul a sol_preciseUnit; ssafe_div p b }"

definition sol_preciseDivCeil :: "uint256 \<Rightarrow> uint256 \<Rightarrow> uint256 option" where
  "sol_preciseDivCeil a b =
     (if b = 0 then None
      else if a > 0
      then do { p \<leftarrow> safe_mul a sol_preciseUnit; q \<leftarrow> safe_sub p 1; d \<leftarrow> safe_div q b; safe_add d 1 }
      else Some 0)"

definition sol_preciseDivCeilInt :: "int256 \<Rightarrow> int256 \<Rightarrow> int256 option" where
  "sol_preciseDivCeilInt a b =
     (if b = 0 then None
      else do {
        a \<leftarrow> ssafe_mul a sol_preciseUnit;
        c \<leftarrow> ssafe_div a b;
        Some (if sol_smod a b \<noteq> 0 then (if 0 <s (a XOR b) then c + 1 else c - 1) else c)
      })"

definition sol_divDown :: "int256 \<Rightarrow> int256 \<Rightarrow> int256 option" where
  "sol_divDown a b =
     (if b = 0 then None
      else if sint a = MIN_INT_256 \<and> sint b = -1 then None
      else do {
        result \<leftarrow> ssafe_div a b;
        Some (if (a XOR b) <s 0 \<and> sol_smod a b \<noteq> 0 then result - 1 else result)
      })"

definition sol_conservativePreciseMul :: "int256 \<Rightarrow> int256 \<Rightarrow> int256 option" where
  "sol_conservativePreciseMul a b = do { p \<leftarrow> ssafe_mul a b; sol_divDown p sol_preciseUnit }"

definition sol_conservativePreciseDiv :: "int256 \<Rightarrow> int256 \<Rightarrow> int256 option" where
  "sol_conservativePreciseDiv a b = do { p \<leftarrow> ssafe_mul a sol_preciseUnit; sol_divDown p b }"

fun sol_safePower_loop :: "uint256 \<Rightarrow> nat \<Rightarrow> uint256 \<Rightarrow> uint256 option" where
  "sol_safePower_loop a 0 result = Some result"
| "sol_safePower_loop a (Suc i) result = do { r \<leftarrow> safe_mul result a; sol_safePower_loop a i r }"

definition sol_safePower :: "uint256 \<Rightarrow> uint256 \<Rightarrow> uint256 option" where
  "sol_safePower a pow = (if a > 0 then sol_safePower_loop a (unat pow) 1 else None)"

definition sol_approximatelyEquals :: "uint256 \<Rightarrow> uint256 \<Rightarrow> uint256 \<Rightarrow> bool option" where
  "sol_approximatelyEquals a b rng = do {
     hi \<leftarrow> safe_add b rng;
     if a \<le> hi then do { lo \<leftarrow> safe_sub b rng; Some (a \<ge> lo) } else Some False
   }"

definition sol_abs :: "int256 \<Rightarrow> uint256 option" where
  "sol_abs a = (if 0 \<le>s a then Some a else ssafe_mul a (- 1))"

definition sol_neg :: "int256 \<Rightarrow> int256 option" where
  "sol_neg a = (if sint a > MIN_INT_256 then Some (- a) else None)"

subsection \<open>Reading words as integers\<close>

lemma uint_less_256 [simp]: "uint (a :: uint256) < 2 ^ 256"
  using uint_bounded [of a] by simp

lemma in_int256_sint [simp]: "in_int256 (sint (a :: int256))"
  using sint_greater_eq [of a] sint_less [of a] by (simp add: in_int256_def)

lemma sint_word_of_int_256: "in_int256 k \<Longrightarrow> sint (word_of_int k :: int256) = k"
  by (simp add: sint_sbintrunc' signed_take_bit_int_eq_self in_int256_def)

lemma uint_preciseUnit [simp]: "uint sol_preciseUnit = PRECISE_UNIT"
  by (simp add: sol_preciseUnit_def PRECISE_UNIT_def)

lemma sint_preciseUnit [simp]: "sint sol_preciseUnit = PRECISE_UNIT"
  by (simp add: sol_preciseUnit_def PRECISE_UNIT_def)

lemma preciseUnit_nonzero [simp]: "sol_preciseUnit \<noteq> 0"
proof
  assume "sol_preciseUnit = 0"
  then have "uint sol_preciseUnit = 0" by simp
  then show False by (simp del: uint_0_iff)
qed

lemma uint_zero_iff [simp]: "(uint (a::uint256) = 0) = (a = 0)"
  by (rule uint_0_iff)

lemma sint_zero_iff [simp]: "(sint (a::int256) = 0) = (a = 0)"
  by (metis sint_0 signed_word_eqI)

lemma uint_safe_add: "map_option uint (safe_add a b) =
    (if uint a + uint b < 2 ^ 256 then Some (uint a + uint b) else None)"
  using uint_add_lem [of a b] by (simp add: safe_add_def)

lemma uint_safe_sub: "map_option uint (safe_sub a b) =
    (if uint b \<le> uint a then Some (uint a - uint b) else None)"
  using uint_sub_lem [of b a] by (simp add: safe_sub_def)

lemma uint_safe_mul: "map_option uint (safe_mul a b) =
    (if uint a * uint b < 2 ^ 256 then Some (uint a * uint b) else None)"
  using uint_mult_lem [of a b] by (simp add: safe_mul_def)

lemma uint_safe_div: "map_option uint (safe_div a b) =
    (if b = 0 then None else Some (uint a div uint b))"
  by (simp add: safe_div_def uint_div)

lemma safe_add_Some:
  "safe_add a b = Some c \<Longrightarrow> uint c = uint a + uint b \<and> uint a + uint b < 2 ^ 256"
  using uint_safe_add [of a b] by (auto split: if_splits)

lemma safe_sub_Some:
  "safe_sub a b = Some c \<Longrightarrow> uint c = uint a - uint b \<and> uint b \<le> uint a"
  using uint_safe_sub [of a b] by (auto split: if_splits)

lemma safe_mul_Some:
  "safe_mul a b = Some c \<Longrightarrow> uint c = uint a * uint b \<and> uint a * uint b < 2 ^ 256"
  using uint_safe_mul [of a b] by (auto split: if_splits)

lemma safe_div_Some:
  "safe_div a b = Some c \<Longrightarrow> uint c = uint a div uint b \<and> b \<noteq> 0"
  using uint_safe_div [of a b] by (auto split: if_splits)

lemma sint_ssafe_mul: "map_option sint (ssafe_mul a b) =
    (if in_int256 (sint a * sint b) then Some (sint a * sint b) else None)"
  by (simp add: ssafe_mul_def sint_word_mult signed_take_bit_int_eq_self in_int256_def)

lemma sdiv_in_int256:
  assumes "in_int256 a" "b \<noteq> 0" "\<not> (b = -1 \<and> a = MIN_INT_256)"
  shows "in_int256 (a sdiv b)"
proof (cases "a = MIN_INT_256")
  case True
  with assms have "b = 1 \<or> 2 \<le> \<bar>b\<bar>" by auto
  then show ?thesis
  proof
    assume "2 \<le> \<bar>b\<bar>"
    then have "\<bar>a\<bar> div \<bar>b\<bar> \<le> \<bar>a\<bar> div 2" by (intro zdiv_mono2) auto
    moreover have "0 \<le> \<bar>a\<bar> div \<bar>b\<bar>" by (simp add: pos_imp_zdiv_nonneg_iff assms)
    ultimately have "\<bar>a sdiv b\<bar> \<le> 2 ^ 254"
      using True by (simp add: signed_divide_int_def abs_mult abs_sgn_eq assms MIN_INT_256_def)
    then show ?thesis by (simp add: in_int256_def abs_le_iff)
  qed (use assms in simp)
next
  case False
  with assms(1) have "\<bar>a\<bar> < 2 ^ 255"
    by (auto simp: in_int256_def MIN_INT_256_def abs_less_iff)
  with sdiv_abs_le [of a b] have "\<bar>a sdiv b\<bar> < 2 ^ 255" by linarith
  then show ?thesis by (simp add: in_int256_def abs_less_iff)
qed

lemma sint_ssafe_div: "map_option sint (ssafe_div a b) =
    (if b = 0 \<or> (sint b = -1 \<and> sint a = MIN_INT_256) then None else Some (sint a sdiv sint b))"
  using sdiv_in_int256 [of "sint a" "sint b"]
  by (simp add: ssafe_div_def sint_word_of_int_256)

lemma ssafe_mul_Some:
  "ssafe_mul a b = Some c \<Longrightarrow> sint c = sint a * sint b \<and> in_int256 (sint a * sint b)"
  using sint_ssafe_mul [of a b] by (auto split: if_splits)

lemma ssafe_div_Some:
  "ssafe_div a b = Some c \<Longrightarrow> sint c = sint a sdiv sint b \<and> b \<noteq> 0"
  using sint_ssafe_div [of a b] by (auto split: if_splits)

lemma sol_smod_zero_iff: "b \<noteq> 0 \<Longrightarrow> (sol_smod a b = 0) = (sint a sdiv sint b * sint b = sint a)"
proof -
  have eq: "sint a sdiv sint b * sint b + sint a smod sint b = sint a"
    by (rule sdiv_mult_smod_eq)
  assume "b \<noteq> 0"
  then have "\<bar>sint a smod sint b\<bar> < \<bar>sint b\<bar>"
    using smod_int_range [of "sint b" "sint a"] by auto
  moreover have "\<bar>sint b\<bar> \<le> 2 ^ 255"
    using in_int256_sint [of b] by (auto simp: in_int256_def abs_le_iff simp del: in_int256_sint)
  ultimately have "in_int256 (sint a smod sint b)"
    unfolding in_int256_def by linarith
  then have "(sol_smod a b = 0) = (sint a smod sint b = 0)"
    by (metis sint_0 sint_word_of_int_256 sol_smod_def word_of_int_0)
  with eq show ?thesis by auto
qed

subsection \<open>Unsigned helpers\<close>

lemma sol_preciseMul_uint: "map_option uint (sol_preciseMul a b) =
    (if uint a * uint b < 2 ^ 256 then Some (preciseMul (uint a) (uint b)) else None)"
  using uint_safe_mul [of a b]
  by (cases "safe_mul a b") (auto simp: sol_preciseMul_def uint_safe_div preciseMul_def split: if_splits)

lemma sol_preciseDiv_uint: "map_option uint (sol_preciseDiv a b) =
    (if uint a * PRECISE_UNIT < 2 ^ 256 then preciseDiv (uint a) (uint b) else None)"
  using uint_safe_mul [of a sol_preciseUnit]
  by (cases "safe_mul a sol_preciseUnit"; cases "b = 0")
     (auto simp: sol_preciseDiv_def uint_safe_div split: if_splits)

lemma safe_pred_div_Suc:
  assumes "0 < uint p" "b \<noteq> 0"
  shows "map_option uint (do { q \<leftarrow> safe_sub p 1; d \<leftarrow> safe_div q b; safe_add d 1 }) =
    Some ((uint p - 1) div uint b + 1)"
proof -
  have b1: "0 < uint b" using assms(2) by (simp add: order_less_le)
  obtain q where q: "safe_sub p 1 = Some q" "uint q = uint p - 1"
    using uint_safe_sub [of p 1] assms(1) by auto
  obtain d where d: "safe_div q b = Some d" "uint d = (uint p - 1) div uint b"
    using uint_safe_div [of q b] assms(2) q(2) by auto
  have "(uint p - 1) div uint b \<le> uint p - 1"
    using zdiv_mono2 [of "uint p - 1" 1 "uint b"] assms(1) b1 by simp
  then have "uint d + 1 < 2 ^ 256"
    using d(2) uint_less_256 [of p] by linarith
  then show ?thesis using q(1) d uint_safe_add [of d 1] by simp
qed

lemma sol_preciseMulCeil_uint: "map_option uint (sol_preciseMulCeil a b) =
    (if uint a * uint b < 2 ^ 256 then Some (preciseMulCeil (uint a) (uint b)) else None)"
proof (cases "a = 0 \<or> b = 0")
  case True
  then show ?thesis by (auto simp: sol_preciseMulCeil_def preciseMulCeil_def)
next
  case False
  then have pos: "0 < uint a * uint b" by (simp add: order_less_le)
  show ?thesis
  proof (cases "safe_mul a b")
    case None
    then show ?thesis using False uint_safe_mul [of a b]
      by (auto simp: sol_preciseMulCeil_def split: if_splits)
  next
    case (Some p)
    then have p: "uint p = uint a * uint b" "uint a * uint b < 2 ^ 256" using safe_mul_Some by simp_all
    have "map_option uint (sol_preciseMulCeil a b) = Some ((uint a * uint b - 1) div PRECISE_UNIT + 1)"
      using safe_pred_div_Suc [of p sol_preciseUnit] pos p False Some
      by (simp add: sol_preciseMulCeil_def)
    then show ?thesis using False pos p(2) by (simp add: preciseMulCeil_def)
  qed
qed

lemma sol_preciseDivCeil_uint: "map_option uint (sol_preciseDivCeil a b) =
    (if b \<noteq> 0 \<and> uint a * PRECISE_UNIT < 2 ^ 256 then preciseDivCeil (uint a) (uint b)
     else None)"
proof (cases "b = 0 \<or> a = 0")
  case True
  then show ?thesis by (auto simp: sol_preciseDivCeil_def preciseDivCeil_def)
next
  case False
  then have apos: "0 < a" and b0: "b \<noteq> 0" by (simp_all add: word_neq_0_conv)
  then have pos: "0 < uint a * PRECISE_UNIT" using False by (simp add: order_less_le)
  show ?thesis
  proof (cases "safe_mul a sol_preciseUnit")
    case None
    then show ?thesis using apos b0 uint_safe_mul [of a sol_preciseUnit]
      by (auto simp: sol_preciseDivCeil_def split: if_splits)
  next
    case (Some p)
    then have p: "uint p = uint a * PRECISE_UNIT" "uint a * PRECISE_UNIT < 2 ^ 256" using safe_mul_Some by fastforce+
    have "map_option uint (sol_preciseDivCeil a b) = Some ((uint a * PRECISE_UNIT - 1) div uint b + 1)"
      using safe_pred_div_Suc [of p b] pos p apos b0 Some by (simp add: sol_preciseDivCeil_def)
    then show ?thesis using False pos p(2) by (simp add: preciseDivCeil_def)
  qed
qed

subsection \<open>Signed helpers\<close>

lemma sint_MulInt: "map_option sint (sol_preciseMulInt a b) =
    (if in_int256 (sint a * sint b) then Some (preciseMul (sint a) (sint b)) else None)"
proof (cases "ssafe_mul a b")
  case None
  then show ?thesis using sint_ssafe_mul [of a b]
    by (auto simp: sol_preciseMulInt_def split: if_splits)
next
  case (Some p)
  then have p: "sint p = sint a * sint b" "in_int256 (sint a * sint b)" using ssafe_mul_Some by simp_all
  have "sint sol_preciseUnit \<noteq> -1" by (simp add: PRECISE_UNIT_def)
  then show ?thesis using Some p sint_ssafe_div [of p sol_preciseUnit]
    by (simp add: sol_preciseMulInt_def preciseMul_def)
qed

text \<open>The scaled dividend is never the least \<^verbatim>\<open>int256\<close>, which is no multiple of five.\<close>

lemma scaled_not_MIN: "k * PRECISE_UNIT \<noteq> MIN_INT_256"
proof
  assume "k * PRECISE_UNIT = MIN_INT_256"
  then have "MIN_INT_256 = 5 * (k * (2 * 10 ^ 17))" by (simp add: PRECISE_UNIT_def)
  then have "(5::int) dvd MIN_INT_256" by (rule dvdI)
  then show False by (simp add: MIN_INT_256_def)
qed

lemma xor_sless_zero: "((a XOR b) <s (0::int256)) = ((sint a < 0) \<noteq> (sint b < 0))"
  by (simp add: word_sless_alt signed_xor_eq xor_negative_int_iff)

lemma zero_sless_xor: "a \<noteq> b \<Longrightarrow> ((0::int256) <s (a XOR b)) = ((sint a < 0) = (sint b < 0))"
proof -
  assume ne: "a \<noteq> b"
  have "(a XOR b) XOR b = a" by (simp add: xor.assoc)
  with ne have "a XOR b \<noteq> 0" by auto
  then have "sint (a XOR b) \<noteq> 0" by simp
  then have "((0::int256) <s (a XOR b)) = (\<not> (a XOR b) <s 0)"
    by (simp add: word_sless_alt del: sint_zero_iff) linarith
  then show ?thesis by (simp add: xor_sless_zero)
qed

lemma inexact_sdiv_small:
  assumes "in_int256 a" "b \<noteq> 0" "a sdiv b * b \<noteq> a"
  shows "\<bar>a sdiv b\<bar> \<le> 2 ^ 254"
proof -
  have "b \<noteq> 1" "b \<noteq> -1" using assms(3) by auto
  with assms(2) have "2 \<le> \<bar>b\<bar>" by auto
  then have "\<bar>a\<bar> div \<bar>b\<bar> \<le> \<bar>a\<bar> div 2" by (intro zdiv_mono2) auto
  moreover have "\<bar>a\<bar> div 2 \<le> (2 ^ 255) div 2"
    using assms(1) by (intro zdiv_mono1) (auto simp: in_int256_def abs_le_iff)
  moreover have "0 \<le> \<bar>a\<bar> div \<bar>b\<bar>" by (simp add: pos_imp_zdiv_nonneg_iff assms)
  moreover have "\<bar>a sdiv b\<bar> = \<bar>sgn a\<bar> * (\<bar>a\<bar> div \<bar>b\<bar>)"
    using assms(2) calculation(3) by (simp add: signed_divide_int_def abs_mult abs_sgn_eq)
  ultimately show ?thesis by (cases "a = 0") (simp_all add: abs_sgn_eq)
qed

lemma sint_step:
  assumes "\<bar>sint (c::int256)\<bar> \<le> 2 ^ 254"
  shows "sint (c + 1) = sint c + 1" "sint (c - 1) = sint c - 1"
  using assms by (simp_all add: sint_word_ariths signed_take_bit_int_eq_self abs_le_iff)

lemma sol_divDown_sint: "map_option sint (sol_divDown a b) =
    (if b = 0 \<or> (sint a = MIN_INT_256 \<and> sint b = -1) then None else divDown (sint a) (sint b))"
proof (cases "b = 0 \<or> (sint a = MIN_INT_256 \<and> sint b = -1)")
  case True
  then show ?thesis by (auto simp: sol_divDown_def)
next
  case False
  then obtain c where c: "ssafe_div a b = Some c" "sint c = sint a sdiv sint b"
    using sint_ssafe_div [of a b] by (cases "ssafe_div a b") (auto split: if_splits)
  have b0: "sint b \<noteq> 0" using False by simp
  have small: "\<bar>sint c\<bar> \<le> 2 ^ 254" if "sol_smod a b \<noteq> 0"
    using that False inexact_sdiv_small [of "sint a" "sint b"] by (simp add: c(2) sol_smod_zero_iff)
  have floor: "sint a div sint b = (if (sint a < 0) \<noteq> (sint b < 0) \<and> sol_smod a b \<noteq> 0
      then sint a sdiv sint b - 1 else sint a sdiv sint b)"
  proof (cases "(sint a < 0) \<noteq> (sint b < 0)")
    case True
    have s: "sint a sdiv sint b = - ((- sint a) div sint b)" if "sint a \<noteq> 0"
      using True b0 that sdiv_eq_floor_or_ceiling [of "sint b" "sint a"] by (auto split: if_splits)
    have m: "(sint a mod sint b = 0) = (sol_smod a b = 0)"
      using False b0 by (simp add: sol_smod_zero_iff sdiv_mult_eq_iff)
    show ?thesis using True s m b0 by (cases "sint a = 0") (auto simp: zdiv_zminus1_eq_if)
  qed (use b0 sdiv_eq_floor_or_ceiling [of "sint b" "sint a"] in \<open>auto split: if_splits\<close>)
  show ?thesis using False b0 c small
    by (auto simp: sol_divDown_def xor_sless_zero divDown_floor floor sint_step)
qed

lemma sol_preciseDivCeilInt_sint: "map_option sint (sol_preciseDivCeilInt a b) =
    (if b \<noteq> 0 \<and> in_int256 (sint a * PRECISE_UNIT) then preciseDivCeilInt (sint a) (sint b)
     else None)"
proof (cases "b = 0 \<or> ssafe_mul a sol_preciseUnit = None")
  case True
  then show ?thesis using sint_ssafe_mul [of a sol_preciseUnit]
    by (auto simp: sol_preciseDivCeilInt_def split: if_splits)
next
  case False
  then obtain p where p: "ssafe_mul a sol_preciseUnit = Some p" and b0: "b \<noteq> 0" by auto
  then have sp: "sint p = sint a * PRECISE_UNIT" "in_int256 (sint a * PRECISE_UNIT)"
    using ssafe_mul_Some [OF p] by simp_all
  obtain c where c: "ssafe_div p b = Some c" "sint c = sint p sdiv sint b"
    using sint_ssafe_div [of p b] b0 scaled_not_MIN [of "sint a"]
    by (cases "ssafe_div p b") (auto simp: sp split: if_splits)
  have small: "\<bar>sint c\<bar> \<le> 2 ^ 254" if "sol_smod p b \<noteq> 0"
    using that b0 inexact_sdiv_small [of "sint p" "sint b"] by (simp add: c(2) sol_smod_zero_iff)
  have ne: "p \<noteq> b" if "sol_smod p b \<noteq> 0"
    using that b0 by (auto simp: sol_smod_zero_iff sdiv_mult_eq_iff)
  have sg: "sgn (sint p) * sgn (sint b) = (if (sint p < 0) = (sint b < 0) then 1 else -1)"
    if "sol_smod p b \<noteq> 0"
  proof -
    have "sint p \<noteq> 0" using that b0 by (auto simp: sol_smod_zero_iff simp del: sint_zero_iff)
    then show ?thesis using b0 by (auto simp: sgn_if)
  qed
  show ?thesis using b0 sp c p small ne sg
    by (auto simp: sol_preciseDivCeilInt_def preciseDivCeilInt_away round_away_sdiv
        zero_sless_xor sint_step sol_smod_zero_iff)
qed

lemma sol_preciseDivInt_sint: "map_option sint (sol_preciseDivInt a b) =
    (if in_int256 (sint a * PRECISE_UNIT) then preciseDiv (sint a) (sint b) else None)"
proof (cases "ssafe_mul a sol_preciseUnit")
  case None
  then show ?thesis using sint_ssafe_mul [of a sol_preciseUnit]
    by (auto simp: sol_preciseDivInt_def split: if_splits)
next
  case (Some p)
  then have "sint p = sint a * PRECISE_UNIT" "in_int256 (sint a * PRECISE_UNIT)"
    using ssafe_mul_Some [OF Some] by simp_all
  then show ?thesis using Some sint_ssafe_div [of p b] scaled_not_MIN [of "sint a"]
    by (cases "b = 0") (simp_all add: sol_preciseDivInt_def)
qed

text \<open>The conservative product and quotient are exact floors.\<close>

lemma sol_conservativePreciseMul_sint: "map_option sint (sol_conservativePreciseMul a b) =
    (if in_int256 (sint a * sint b) then divDown (sint a * sint b) PRECISE_UNIT else None)"
proof (cases "ssafe_mul a b")
  case None
  then show ?thesis using sint_ssafe_mul [of a b]
    by (auto simp: sol_conservativePreciseMul_def split: if_splits)
next
  case (Some p)
  then show ?thesis using ssafe_mul_Some [OF Some] sol_divDown_sint [of p sol_preciseUnit]
    by (simp add: sol_conservativePreciseMul_def PRECISE_UNIT_def)
qed

lemma sol_safePower_loop_uint:
  "sol_safePower_loop a n c = Some r \<Longrightarrow> uint r = uint c * uint a ^ n"
  by (induction n arbitrary: c) (auto dest!: safe_mul_Some simp: mult.assoc)

subsection \<open>Properties\<close>

text \<open>
  C20. The unsigned fixed-point helpers of \<^verbatim>\<open>utils/common/mathUtils.ts\<close> compute exactly what
  the contracts' PreciseUnitMath computes on chain: for all 256-bit operands the contract returns
  the helper's value, and it reverts exactly when the intermediate product does not fit in 256 bits
  or the divisor is zero (where the helper throws or, for the ceiling quotient, returns zero).
\<close>

theorem unsigned_helpers_match_contract:
  "map_option uint (sol_preciseMul a b) =
     (if uint a * uint b < 2 ^ 256 then Some (preciseMul (uint a) (uint b)) else None) \<and>
   map_option uint (sol_preciseMulCeil a b) =
     (if uint a * uint b < 2 ^ 256 then Some (preciseMulCeil (uint a) (uint b)) else None) \<and>
   map_option uint (sol_preciseDiv a b) =
     (if uint a * PRECISE_UNIT < 2 ^ 256 then preciseDiv (uint a) (uint b) else None) \<and>
   map_option uint (sol_preciseDivCeil a b) =
     (if b \<noteq> 0 \<and> uint a * PRECISE_UNIT < 2 ^ 256 then preciseDivCeil (uint a) (uint b)
      else None)"
  by (intro conjI sol_preciseMul_uint sol_preciseMulCeil_uint sol_preciseDiv_uint
      sol_preciseDivCeil_uint)

text \<open>
  C38. The signed helpers agree with the contract as well: \<^verbatim>\<open>preciseMul\<close>, \<^verbatim>\<open>preciseDiv\<close>,
  \<^verbatim>\<open>preciseDivCeilInt\<close> and \<^verbatim>\<open>divDown\<close> return what the int256 overloads return,
  although the contract decides the sign by a bitwise exclusive or and the helper by four
  comparisons, and the contract reverts only on overflow of the scaled dividend, division by zero,
  or the one quotient that does not fit.
\<close>

theorem signed_helpers_match_contract:
  "map_option sint (sol_preciseMulInt a b) =
     (if in_int256 (sint a * sint b) then Some (preciseMul (sint a) (sint b)) else None) \<and>
   map_option sint (sol_preciseDivInt a b) =
     (if in_int256 (sint a * PRECISE_UNIT) then preciseDiv (sint a) (sint b) else None) \<and>
   map_option sint (sol_preciseDivCeilInt a b) =
     (if b \<noteq> 0 \<and> in_int256 (sint a * PRECISE_UNIT) then preciseDivCeilInt (sint a) (sint b)
      else None) \<and>
   map_option sint (sol_divDown a b) =
     (if b = 0 \<or> (sint a = MIN_INT_256 \<and> sint b = -1) then None
      else divDown (sint a) (sint b))"
  by (intro conjI sint_MulInt sol_preciseDivInt_sint sol_preciseDivCeilInt_sint
      sol_divDown_sint)

end
