(* ===== verification/Fee_Module_Utils.thy ===== *)
theory Fee_Module_Utils
  imports Precise_Unit_Math
begin

section \<open>Streaming fees: utils/common/feeModuleUtils.ts\<close>

text \<open>
  The three helpers that predict what the StreamingFeeModule does when fees accrue, next to the two
  calculations of \<^verbatim>\<open>contracts/protocol/modules/v1/StreamingFeeModule.sol\<close> they predict.
  The view call \<^verbatim>\<open>feeModule.feeStates(setToken)\<close> is a parameter of the model.
\<close>

subsection \<open>The helpers\<close>

record streaming_fee_state =
  feeRecipient :: address
  streamingFeePercentage :: int
  maxStreamingFeePercentage :: int
  lastStreamingFeeTimestamp :: int

definition getStreamingFee ::
    "(address \<Rightarrow> streaming_fee_state) \<Rightarrow> address \<Rightarrow> int \<Rightarrow> int \<Rightarrow> int option \<Rightarrow> int option" where
  "getStreamingFee feeStates setToken previousAccrueTimestamp recentAccrueTimestamp streamingFee =
     (let feeState = feeStates setToken;
          accrualRate = (case streamingFee of Some f \<Rightarrow> f | None \<Rightarrow> streamingFeePercentage feeState);
          timeElapsed = recentAccrueTimestamp - previousAccrueTimestamp
      in bn_div (timeElapsed * accrualRate) ONE_YEAR_IN_SECONDS)"

definition getStreamingFeeInflationAmount :: "int \<Rightarrow> int \<Rightarrow> int option" where
  "getStreamingFeeInflationAmount inflationPercent totalSupply =
     (let a = inflationPercent * totalSupply; b = PRECISE_UNIT - inflationPercent in bn_div a b)"

fun getPostFeePositionUnits :: "int list \<Rightarrow> int \<Rightarrow> int list" where
  "getPostFeePositionUnits [] inflationPercent = []"
| "getPostFeePositionUnits (u # preFeeUnits) inflationPercent =
     (if u \<ge> 0 then preciseMul u (PRECISE_UNIT - inflationPercent)
      else preciseMulCeilInt u (PRECISE_UNIT - inflationPercent))
     # getPostFeePositionUnits preFeeUnits inflationPercent"

subsection \<open>The contract\<close>

definition sol_ONE_YEAR_IN_SECONDS :: uint256 where
  "sol_ONE_YEAR_IN_SECONDS = 31557600"

definition sol_calculateStreamingFee :: "uint256 \<Rightarrow> uint256 \<Rightarrow> uint256 \<Rightarrow> uint256 option" where
  "sol_calculateStreamingFee block_timestamp lastTimestamp feePercentage = do {
     timeSinceLastFee \<leftarrow> safe_sub block_timestamp lastTimestamp;
     m \<leftarrow> safe_mul timeSinceLastFee feePercentage;
     safe_div m sol_ONE_YEAR_IN_SECONDS
   }"

definition sol_calculateStreamingFeeInflation :: "uint256 \<Rightarrow> uint256 \<Rightarrow> uint256 option" where
  "sol_calculateStreamingFeeInflation totalSupply feePercentage = do {
     a \<leftarrow> safe_mul feePercentage totalSupply;
     b \<leftarrow> safe_sub sol_preciseUnit feePercentage;
     safe_div a b
   }"

subsection \<open>Prediction and contract agree\<close>

lemma uint_one_year [simp]: "uint sol_ONE_YEAR_IN_SECONDS = ONE_YEAR_IN_SECONDS"
  by (simp add: sol_ONE_YEAR_IN_SECONDS_def ONE_YEAR_IN_SECONDS_def)

lemma one_year_nonzero [simp]: "sol_ONE_YEAR_IN_SECONDS \<noteq> 0"
  by (simp add: sol_ONE_YEAR_IN_SECONDS_def)

lemma sol_calculateStreamingFee_uint:
  "map_option uint (sol_calculateStreamingFee t1 t0 pct) =
     (if uint t0 \<le> uint t1 \<and> (uint t1 - uint t0) * uint pct < 2 ^ 256
      then getStreamingFee feeStates setToken (uint t0) (uint t1) (Some (uint pct)) else None)"
proof (cases "safe_sub t1 t0")
  case None
  then show ?thesis using uint_safe_sub [of t1 t0]
    by (auto simp: sol_calculateStreamingFee_def split: if_splits)
next
  case (Some t)
  then have t: "uint t = uint t1 - uint t0" "uint t0 \<le> uint t1" using safe_sub_Some by simp_all
  then show ?thesis using Some uint_safe_mul [of t pct]
    by (cases "safe_mul t pct")
       (auto simp: sol_calculateStreamingFee_def uint_safe_div getStreamingFee_def Let_def
          ONE_YEAR_IN_SECONDS_def split: if_splits)
qed

lemma sol_inflation_uint:
  "map_option uint (sol_calculateStreamingFeeInflation sup0 pct) =
     (if uint pct * uint sup0 < 2 ^ 256 \<and> uint pct \<le> PRECISE_UNIT
      then getStreamingFeeInflationAmount (uint pct) (uint sup0) else None)"
proof (cases "uint pct * uint sup0 < 2 ^ 256 \<and> uint pct \<le> PRECISE_UNIT")
  case True
  then obtain a where a: "safe_mul pct sup0 = Some a" "uint a = uint pct * uint sup0"
    using uint_safe_mul [of pct sup0] by (cases "safe_mul pct sup0") auto
  obtain b where b: "safe_sub sol_preciseUnit pct = Some b" "uint b = PRECISE_UNIT - uint pct"
    using True uint_safe_sub [of sol_preciseUnit pct]
    by (cases "safe_sub sol_preciseUnit pct") auto
  have "(b = 0) = (PRECISE_UNIT = uint pct)"
    using b(2) uint_zero_iff [of b] by auto
  then show ?thesis using True a b
    by (auto simp: sol_calculateStreamingFeeInflation_def getStreamingFeeInflationAmount_def
        uint_safe_div bn_div_def)
next
  case False
  have "safe_mul pct sup0 = None \<or> safe_sub sol_preciseUnit pct = None"
    using False by (auto simp: safe_mul_def safe_sub_def)
  then show ?thesis using False
    by (auto simp: sol_calculateStreamingFeeInflation_def bind_eq_None_iff)
qed

subsection \<open>What the inflation amount means\<close>

lemma inflation_amount_floor:
  assumes "0 \<le> fee" "fee < PRECISE_UNIT" "0 \<le> sup0"
  shows "getStreamingFeeInflationAmount fee sup0
    = Some (fee * sup0 div (PRECISE_UNIT - fee))"
  using assms by (simp add: getStreamingFeeInflationAmount_def Let_def)

text \<open>The minted amount is the largest whose share of the new supply does not exceed the fee.\<close>

lemma inflation_share_iff:
  assumes "0 \<le> fee" "fee < PRECISE_UNIT"
  shows "q * PRECISE_UNIT \<le> fee * (sup0 + q) \<longleftrightarrow> q \<le> fee * sup0 div (PRECISE_UNIT - fee)"
proof -
  have pos: "0 < PRECISE_UNIT - fee" using assms by simp
  have "q * PRECISE_UNIT \<le> fee * (sup0 + q) \<longleftrightarrow> q * (PRECISE_UNIT - fee) \<le> fee * sup0"
    by (simp add: algebra_simps)
  also have "\<dots> \<longleftrightarrow> q \<le> fee * sup0 div (PRECISE_UNIT - fee)"
    using pos by (simp add: int_le_div_iff)
  finally show ?thesis .
qed

lemma length_getPostFeePositionUnits [simp]:
  "length (getPostFeePositionUnits us p) = length us"
  by (induction us) auto

lemma nth_getPostFeePositionUnits:
  "i < length us \<Longrightarrow> getPostFeePositionUnits us p ! i =
     (if us ! i \<ge> 0 then preciseMul (us ! i) (PRECISE_UNIT - p)
      else preciseMulCeilInt (us ! i) (PRECISE_UNIT - p))"
proof (induction us arbitrary: i)
  case (Cons u us)
  then show ?case by (cases i) auto
qed simp

lemma post_fee_unit_floor:
  assumes "p \<le> PRECISE_UNIT"
  shows "(if u \<ge> 0 then preciseMul u (PRECISE_UNIT - p) else preciseMulCeilInt u (PRECISE_UNIT - p))
    = u * (PRECISE_UNIT - p) div PRECISE_UNIT"
proof (cases "u \<ge> 0")
  case True
  then show ?thesis using assms by (simp add: preciseMul_nonneg)
next
  case False
  then have n: "u * (PRECISE_UNIT - p) \<le> 0" using assms by (simp add: mult_nonpos_nonneg)
  then consider "u * (PRECISE_UNIT - p) = 0" | "u * (PRECISE_UNIT - p) < 0" by linarith
  then show ?thesis using False
    by cases (simp_all add: preciseMulCeilInt_away round_away_def)
qed

lemma getPostFeePositionUnits_map:
  "p \<le> PRECISE_UNIT \<Longrightarrow>
     getPostFeePositionUnits us p = map (\<lambda>u. u * (PRECISE_UNIT - p) div PRECISE_UNIT) us"
  by (induction us) (simp_all only: getPostFeePositionUnits.simps post_fee_unit_floor list.map)

subsection \<open>Properties\<close>

text \<open>
  The fee helpers predict the StreamingFeeModule exactly: the accrued percentage and the
  inflation amount they compute are the contract's, for every timestamp, rate and supply, and the
  contract reverts exactly when time runs backwards, the fee exceeds one hundred percent or a
  product overflows 256 bits.
\<close>

lemma fee_helpers_match_contract:
  "map_option uint (sol_calculateStreamingFee t1 t0 pct) =
     (if uint t0 \<le> uint t1 \<and> (uint t1 - uint t0) * uint pct < 2 ^ 256
      then getStreamingFee feeStates setToken (uint t0) (uint t1) (Some (uint pct)) else None) \<and>
   map_option uint (sol_calculateStreamingFeeInflation sup0 pct) =
     (if uint pct * uint sup0 < 2 ^ 256 \<and> uint pct \<le> PRECISE_UNIT
      then getStreamingFeeInflationAmount (uint pct) (uint sup0) else None)"
  by (intro conjI sol_calculateStreamingFee_uint sol_inflation_uint)

text \<open>
  The inflation amount is the fair one: for a fee below one hundred percent it exists, and an
  amount of newly minted Sets has a share of at most the fee in the grown supply if and only if it
  is at most the computed amount.
\<close>

lemma inflation_amount_is_largest_fair:
  assumes "0 \<le> fee" and "fee < PRECISE_UNIT" and "0 \<le> sup0"
  shows "\<exists>q. getStreamingFeeInflationAmount fee sup0 = Some q \<and> 0 \<le> q \<and>
    (\<forall>q'. q' * PRECISE_UNIT \<le> fee * (sup0 + q') \<longleftrightarrow> q' \<le> q)"
  using assms inflation_share_iff [of fee _ sup0]
  by (simp add: inflation_amount_floor pos_imp_zdiv_nonneg_iff)

lemma inflation_amount_is_largest_fair_instance:
  "\<exists>q. getStreamingFeeInflationAmount (2 * 10 ^ 16) (10 ^ 20) = Some q \<and> 0 \<le> q \<and>
    (\<forall>q'. q' * PRECISE_UNIT \<le> 2 * 10 ^ 16 * (10 ^ 20 + q') \<longleftrightarrow> q' \<le> q)"
  by (rule inflation_amount_is_largest_fair) (simp_all add: PRECISE_UNIT_def)

text \<open>
  Units after a fee round down on both sides of zero: for a fee of at most one hundred percent
  every position unit, asset or debt, becomes the floor of its scaled value, so a Set never counts
  more assets or less debt than it has; this is the rounding of the contracts' conservative product.
\<close>

lemma post_fee_units_round_down:
  assumes "inflationPercent \<le> PRECISE_UNIT"
  shows "getPostFeePositionUnits preFeeUnits inflationPercent =
    map (\<lambda>u. the (divDown (u * (PRECISE_UNIT - inflationPercent)) PRECISE_UNIT)) preFeeUnits"
  using assms by (simp add: getPostFeePositionUnits_map divDown_floor)

lemma post_fee_units_round_down_instance:
  "getPostFeePositionUnits [7, - 7, 10 ^ 18] (10 ^ 17) =
     map (\<lambda>u. the (divDown (u * (PRECISE_UNIT - 10 ^ 17)) PRECISE_UNIT)) [7, - 7, 10 ^ 18]"
  by (rule post_fee_units_round_down) (simp add: PRECISE_UNIT_def)

end
