(* ===== verification/Nav_Issuance_Utils.thy ===== *)
theory Nav_Issuance_Utils
  imports Precise_Unit_Math
begin

section \<open>NAV issuance: utils/common/navIssuanceModuleUtils.ts\<close>

text \<open>
  The helpers that predict issuance and redemption by net asset value, next to the calculations of
  \<^verbatim>\<open>contracts/protocol/modules/v1/CustomOracleNAVIssuanceModule.sol\<close> they predict. The two
  view calls the first helper awaits (the valuation and the total supply) are arguments.
\<close>

subsection \<open>The helpers\<close>

definition getExpectedPostFeeQuantity :: "int \<Rightarrow> int \<Rightarrow> int \<Rightarrow> int" where
  "getExpectedPostFeeQuantity quantity managerFeePercentage protocolDirectFeePercentage =
     (let managerFees = preciseMul quantity managerFeePercentage;
          protocolDirectFees = preciseMul quantity protocolDirectFeePercentage
      in quantity - managerFees - protocolDirectFees)"

definition getExpectedIssuePositionMultiplier :: "int \<Rightarrow> int \<Rightarrow> int \<Rightarrow> int option" where
  "getExpectedIssuePositionMultiplier previousPositionMultiplier previousSupply currentSupply = do {
     inflation \<leftarrow> preciseDivCeil (currentSupply - previousSupply) currentSupply;
     Some (preciseMul previousPositionMultiplier (PRECISE_UNIT - inflation))
   }"

definition getExpectedSetTokenIssueQuantity ::
    "int \<Rightarrow> int \<Rightarrow> int \<Rightarrow> int \<Rightarrow> int \<Rightarrow> int \<Rightarrow> int \<Rightarrow> int option" where
  "getExpectedSetTokenIssueQuantity setTokenValuation setTokenSupply reserveAssetBaseUnits
     reserveAssetQuantity managerFeePercentage protocolDirectFeePercentage premiumPercentage =
   (let reserveQuantitySubFees = getExpectedPostFeeQuantity
          reserveAssetQuantity managerFeePercentage protocolDirectFeePercentage;
        reserveQuantitySubFeesAndPremium =
          reserveQuantitySubFees - preciseMul reserveQuantitySubFees premiumPercentage
    in do {
      normalizedReserveQuantitySubFees \<leftarrow> preciseDiv reserveQuantitySubFees reserveAssetBaseUnits;
      normalizedReserveQuantitySubFeesAndPremium \<leftarrow>
        preciseDiv reserveQuantitySubFeesAndPremium reserveAssetBaseUnits;
      let denominator = preciseMul setTokenSupply setTokenValuation
            + normalizedReserveQuantitySubFees - normalizedReserveQuantitySubFeesAndPremium;
      preciseDiv (preciseMul normalizedReserveQuantitySubFeesAndPremium setTokenSupply) denominator
    })"

definition getExpectedIssuePositionUnit ::
    "int \<Rightarrow> int \<Rightarrow> int \<Rightarrow> int \<Rightarrow> int \<Rightarrow> int \<Rightarrow> int \<Rightarrow> int option" where
  "getExpectedIssuePositionUnit previousUnits issueQuantity previousSupply currentSupply
     newPositionMultiplier managerFeePercentage protocolDirectFeePercentage =
   (let issueQuantitySubFees = getExpectedPostFeeQuantity
          issueQuantity managerFeePercentage protocolDirectFeePercentage;
        numerator = preciseMul previousSupply previousUnits + issueQuantitySubFees
    in do {
      newPositionUnit \<leftarrow> preciseDiv numerator currentSupply;
      let roundDownPositionUnit = preciseMul newPositionUnit newPositionMultiplier;
      preciseDiv roundDownPositionUnit newPositionMultiplier
    })"

definition getExpectedReserveRedeemQuantity ::
    "int \<Rightarrow> int \<Rightarrow> int \<Rightarrow> int \<Rightarrow> int \<Rightarrow> int \<Rightarrow> int" where
  "getExpectedReserveRedeemQuantity setTokenQuantityToRedeem setTokenValuation reserveAssetBaseUnits
     managerFeePercentage protocolDirectFeePercentage premiumPercentage =
   (let totalNotionalReserveQuantity = preciseMul setTokenValuation setTokenQuantityToRedeem;
        totalPremium = preciseMulCeil totalNotionalReserveQuantity premiumPercentage;
        totalNotionalReserveQuantitySubFees = getExpectedPostFeeQuantity
          (totalNotionalReserveQuantity - totalPremium)
          managerFeePercentage protocolDirectFeePercentage
    in preciseMul totalNotionalReserveQuantitySubFees reserveAssetBaseUnits)"

definition getExpectedRedeemPositionMultiplier :: "int \<Rightarrow> int \<Rightarrow> int \<Rightarrow> int option" where
  "getExpectedRedeemPositionMultiplier previousPositionMultiplier previousSupply currentSupply = do {
     deflation \<leftarrow> preciseDiv (previousSupply - currentSupply) currentSupply;
     Some (preciseMul previousPositionMultiplier (PRECISE_UNIT + deflation))
   }"

definition getExpectedRedeemPositionUnit ::
    "int \<Rightarrow> int \<Rightarrow> int \<Rightarrow> int \<Rightarrow> int \<Rightarrow> int \<Rightarrow> int \<Rightarrow> int \<Rightarrow> int \<Rightarrow> int \<Rightarrow> int option" where
  "getExpectedRedeemPositionUnit previousUnits setTokenQuantityToRedeem setTokenValuation
     reserveAssetBaseUnits previousSupply currentSupply newPositionMultiplier
     managerFeePercentage protocolDirectFeePercentage premiumPercentage =
   (let totalNotionalReserveQuantity = preciseMul setTokenValuation setTokenQuantityToRedeem;
        totalPremium = preciseMulCeil totalNotionalReserveQuantity premiumPercentage;
        totalReserveBalance =
          preciseMul (totalNotionalReserveQuantity - totalPremium) reserveAssetBaseUnits;
        numerator = preciseMul previousSupply previousUnits - totalReserveBalance
    in do {
      newPositionUnit \<leftarrow> preciseDiv numerator currentSupply;
      let roundDownPositionUnit = preciseMul newPositionUnit newPositionMultiplier;
      preciseDiv roundDownPositionUnit newPositionMultiplier
    })"

subsection \<open>The contract\<close>

text \<open>
  The contract splits the manager fee between manager and protocol; the fee percentages come from
  the Controller and the settings and are arguments here.
\<close>

definition sol_getProtocolAndManagerFeePercentages ::
    "uint256 \<Rightarrow> uint256 \<Rightarrow> uint256 \<Rightarrow> (uint256 \<times> uint256) option" where
  "sol_getProtocolAndManagerFeePercentages protocolDirectFeePercent protocolManagerShareFeePercent
     managerFeePercent = do {
     protocolRevenueSharePercentage \<leftarrow> sol_preciseMul protocolManagerShareFeePercent managerFeePercent;
     managerRevenueSharePercentage \<leftarrow> safe_sub managerFeePercent protocolRevenueSharePercentage;
     totalProtocolFeePercentage \<leftarrow> safe_add protocolRevenueSharePercentage protocolDirectFeePercent;
     Some (totalProtocolFeePercentage, managerRevenueSharePercentage)
   }"

definition sol_getFees ::
    "uint256 \<Rightarrow> uint256 \<Rightarrow> uint256 \<Rightarrow> uint256 \<Rightarrow> (uint256 \<times> uint256 \<times> uint256) option" where
  "sol_getFees reserveAssetQuantity protocolDirectFeePercent protocolManagerShareFeePercent
     managerFeePercent = do {
     (protocolFeePercentage, managerFeePercentage) \<leftarrow> sol_getProtocolAndManagerFeePercentages
       protocolDirectFeePercent protocolManagerShareFeePercent managerFeePercent;
     protocolFees \<leftarrow> sol_preciseMul protocolFeePercentage reserveAssetQuantity;
     managerFee \<leftarrow> sol_preciseMul managerFeePercentage reserveAssetQuantity;
     afterProtocol \<leftarrow> safe_sub reserveAssetQuantity protocolFees;
     netReserveFlow \<leftarrow> safe_sub afterProtocol managerFee;
     Some (protocolFees, managerFee, netReserveFlow)
   }"

definition sol_getSetTokenMintQuantity ::
    "uint256 \<Rightarrow> uint256 \<Rightarrow> uint256 \<Rightarrow> uint256 \<Rightarrow> uint256 \<Rightarrow> uint256 option" where
  "sol_getSetTokenMintQuantity setTokenValuation baseUnits premiumPercentage netReserveFlows
     setTotalSupply = do {
     premiumValue \<leftarrow> sol_preciseMul netReserveFlows premiumPercentage;
     normalizedTotalReserveQuantityNetFees \<leftarrow> sol_preciseDiv netReserveFlows baseUnits;
     netOfPremium \<leftarrow> safe_sub netReserveFlows premiumValue;
     normalizedTotalReserveQuantityNetFeesAndPremium \<leftarrow> sol_preciseDiv netOfPremium baseUnits;
     v \<leftarrow> sol_preciseMul setTotalSupply setTokenValuation;
     w \<leftarrow> safe_add v normalizedTotalReserveQuantityNetFees;
     denominator \<leftarrow> safe_sub w normalizedTotalReserveQuantityNetFeesAndPremium;
     n \<leftarrow> sol_preciseMul normalizedTotalReserveQuantityNetFeesAndPremium setTotalSupply;
     sol_preciseDiv n denominator
   }"

definition sol_getRedeemReserveQuantity ::
    "uint256 \<Rightarrow> uint256 \<Rightarrow> uint256 \<Rightarrow> uint256 \<Rightarrow> uint256 option" where
  "sol_getRedeemReserveQuantity setTokenValuation baseUnits premiumPercentage setTokenQuantity = do {
     totalRedeemValueInPreciseUnits \<leftarrow> sol_preciseMul setTokenQuantity setTokenValuation;
     prePremiumReserveQuantity \<leftarrow> sol_preciseMul totalRedeemValueInPreciseUnits baseUnits;
     premiumQuantity \<leftarrow> sol_preciseMulCeil prePremiumReserveQuantity premiumPercentage;
     safe_sub prePremiumReserveQuantity premiumQuantity
   }"

text \<open>The multiplier after issuance or redemption: old times previous supply over new supply.\<close>

definition sol_newPositionMultiplier :: "int256 \<Rightarrow> int256 \<Rightarrow> int256 \<Rightarrow> int256 option" where
  "sol_newPositionMultiplier multiplier previousSupply newTotalSupply = do {
     p \<leftarrow> ssafe_mul multiplier previousSupply;
     ssafe_div p newTotalSupply
   }"

subsection \<open>Lifting of results\<close>

lemma sol_preciseMul_Some:
  "sol_preciseMul a b = Some c \<Longrightarrow> uint c = preciseMul (uint a) (uint b)"
  using sol_preciseMul_uint [of a b] by (auto split: if_splits)

lemma sol_preciseMulCeil_Some:
  "sol_preciseMulCeil a b = Some c \<Longrightarrow> uint c = preciseMulCeil (uint a) (uint b)"
  using sol_preciseMulCeil_uint [of a b] by (auto split: if_splits)

lemma sol_preciseDiv_Some:
  "sol_preciseDiv a b = Some c \<Longrightarrow> preciseDiv (uint a) (uint b) = Some (uint c)"
  using sol_preciseDiv_uint [of a b] by (auto split: if_splits)

lemmas sol_lift = sol_preciseMul_Some sol_preciseMulCeil_Some sol_preciseDiv_Some
  safe_sub_Some safe_add_Some

lemma preciseMul_commute: "preciseMul a b = preciseMul b a"
  by (simp add: preciseMul_def mult.commute)

lemma sol_getFees_net:
  assumes "sol_getFees q direct 0 mgr = Some (pf, mf, net)"
  shows "uint net = getExpectedPostFeeQuantity (uint q) (uint mgr) (uint direct)"
proof -
  have split0: "sol_getProtocolAndManagerFeePercentages direct 0 mgr = Some (tp, mp) \<Longrightarrow>
      uint tp = uint direct \<and> uint mp = uint mgr" for tp mp
    by (auto simp: sol_getProtocolAndManagerFeePercentages_def dest!: sol_lift)
  from assms obtain tp mp a where 1: "sol_getProtocolAndManagerFeePercentages direct 0 mgr = Some (tp, mp)"
    and 2: "sol_preciseMul tp q = Some pf" "sol_preciseMul mp q = Some mf"
    and 3: "safe_sub q pf = Some a" "safe_sub a mf = Some net"
    by (auto simp: sol_getFees_def)
  show ?thesis
    using split0 [OF 1] 2 [THEN sol_preciseMul_Some] 3 [THEN safe_sub_Some]
    by (simp add: getExpectedPostFeeQuantity_def Let_def preciseMul_commute)
qed

lemma div_add_bounds:
  fixes a b :: int
  assumes "0 < d"
  shows "a div d + b div d \<le> (a + b) div d \<and> (a + b) div d \<le> a div d + b div d + 1"
proof -
  have r: "0 \<le> a mod d" "a mod d < d" "0 \<le> b mod d" "b mod d < d" using assms by simp_all
  have "(a + b) div d = a div d + b div d + (a mod d + b mod d) div d" by (rule div_add1_eq)
  moreover have "0 \<le> (a mod d + b mod d) div d" using r assms by (simp add: pos_imp_zdiv_nonneg_iff)
  moreover have "(a mod d + b mod d) div d < 2" using r int_le_div_iff [OF assms, of 2 "a mod d + b mod d"] by linarith
  ultimately show ?thesis by linarith
qed

text \<open>
  With any share of the manager's fee: the contract and the helper each round two fees of the same sum, so their nets differ by at
  most one base unit.
\<close>

lemma sol_getFees_close:
  assumes "sol_getFees q direct share mgr = Some (pf, mf, net)"
  shows "\<bar>uint net - getExpectedPostFeeQuantity (uint q) (uint mgr) (uint direct)\<bar> \<le> 1"
proof -
  from assms obtain tp mp a where 1: "sol_getProtocolAndManagerFeePercentages direct share mgr = Some (tp, mp)"
    and 2: "sol_preciseMul tp q = Some pf" "sol_preciseMul mp q = Some mf"
    and 3: "safe_sub q pf = Some a" "safe_sub a mf = Some net"
    by (auto simp: sol_getFees_def)
  have sum: "uint tp + uint mp = uint mgr + uint direct"
    using 1 by (auto simp: sol_getProtocolAndManagerFeePercentages_def dest!: safe_sub_Some safe_add_Some)
  have "uint net = uint q - uint q * uint tp div PRECISE_UNIT - uint q * uint mp div PRECISE_UNIT"
    using 2 [THEN sol_preciseMul_Some] 3 [THEN safe_sub_Some] by (simp add: preciseMul_def mult.commute)
  moreover have "getExpectedPostFeeQuantity (uint q) (uint mgr) (uint direct) =
      uint q - uint q * uint mgr div PRECISE_UNIT - uint q * uint direct div PRECISE_UNIT"
    by (simp add: getExpectedPostFeeQuantity_def Let_def preciseMul_def)
  moreover have "uint q * uint tp + uint q * uint mp = uint q * uint mgr + uint q * uint direct"
    using sum by (simp add: distrib_left [symmetric])
  ultimately show ?thesis
    using div_add_bounds [OF PRECISE_UNIT_pos(1), of "uint q * uint tp" "uint q * uint mp"]
      div_add_bounds [OF PRECISE_UNIT_pos(1), of "uint q * uint mgr" "uint q * uint direct"]
    unfolding abs_le_iff by simp
qed

text \<open>With a share of thirty percent the two differ: the contract takes no fee from ten units, the helper one.\<close>

lemma shared_fee_rounds_apart:
  "sol_getFees 10 0 (3 * 10 ^ 17) (10 ^ 17) = Some (0, 0, 10)" "getExpectedPostFeeQuantity 10 (10 ^ 17) 0 = 9"
  by code_simp+

lemma sol_mint_matches:
  assumes "sol_getSetTokenMintQuantity val base prem net sup0 = Some m"
    and "uint net = getExpectedPostFeeQuantity q mgr direct"
  shows "getExpectedSetTokenIssueQuantity (uint val) (uint sup0) (uint base) q mgr direct (uint prem)
    = Some (uint m)"
  using assms
  by (auto simp: sol_getSetTokenMintQuantity_def getExpectedSetTokenIssueQuantity_def Let_def
      dest!: sol_lift)

subsection \<open>Position multipliers\<close>

lemma issue_multiplier_eq:
  assumes "0 \<le> M" "0 < P" "P \<le> C"
  shows "getExpectedIssuePositionMultiplier M P C = Some (M * (P * PRECISE_UNIT div C) div PRECISE_UNIT)"
proof -
  have C: "0 < C" using assms by linarith
  have "the (preciseDivCeil (C - P) C) = - ((- ((C - P) * PRECISE_UNIT)) div C)"
    using div_up.is_ceiling [of "(C - P, C)"] C assms by simp
  also have "- ((C - P) * PRECISE_UNIT) = P * PRECISE_UNIT + C * (- PRECISE_UNIT)"
    by (simp add: algebra_simps)
  also have "(P * PRECISE_UNIT + C * (- PRECISE_UNIT)) div C = P * PRECISE_UNIT div C - PRECISE_UNIT"
    using C by (simp only: div_mult_self2)
  finally have "PRECISE_UNIT - the (preciseDivCeil (C - P) C) = P * PRECISE_UNIT div C" by simp
  moreover have "\<exists>i. preciseDivCeil (C - P) C = Some i"
    using C by (simp add: preciseDivCeil_def)
  moreover have "0 \<le> P * PRECISE_UNIT div C"
    using assms C by (simp add: pos_imp_zdiv_nonneg_iff)
  ultimately show ?thesis using assms
    by (auto simp: getExpectedIssuePositionMultiplier_def preciseMul_nonneg)
qed

lemma redeem_multiplier_eq:
  assumes "0 \<le> M" "0 < C" "C \<le> P"
  shows "getExpectedRedeemPositionMultiplier M P C = Some (M * (P * PRECISE_UNIT div C) div PRECISE_UNIT)"
proof -
  have "PRECISE_UNIT + ((P - C) * PRECISE_UNIT) sdiv C = P * PRECISE_UNIT div C"
  proof -
    have "(P - C) * PRECISE_UNIT = P * PRECISE_UNIT + C * (- PRECISE_UNIT)"
      by (simp add: algebra_simps)
    then have "((P - C) * PRECISE_UNIT) div C = P * PRECISE_UNIT div C - PRECISE_UNIT"
      using assms by (simp only: div_mult_self2)
    then show ?thesis using assms by simp
  qed
  moreover have "0 \<le> P * PRECISE_UNIT div C"
    using assms by (simp add: pos_imp_zdiv_nonneg_iff)
  ultimately show ?thesis using assms
    by (simp add: getExpectedRedeemPositionMultiplier_def preciseMul_nonneg)
qed

text \<open>Rounding the ratio to eighteen digits first loses at most \<open>M / 10\<^sup>1\<^sup>8 + 1\<close>.\<close>

lemma scaled_ratio_bounds:
  assumes "0 \<le> M" "0 \<le> P" "0 < (C::int)" "0 < U"
  shows "M * (P * U div C) div U \<le> M * P div C"
    and "M * P div C \<le> M * (P * U div C) div U + M div U + 1"
proof -
  let ?r = "P * U div C"
  have r: "C * ?r \<le> P * U" "P * U < C * ?r + C" using floor_div_bounds [OF assms(3)] by simp_all
  have "M * ?r div U * U \<le> M * ?r"
    using floor_div_bounds(1) [OF assms(4), of "M * ?r"] by (simp add: mult.commute)
  then have "M * ?r div U * U * C \<le> M * ?r * C" using assms(3) by (simp add: mult_right_mono)
  also have "\<dots> \<le> M * (P * U)"
    using mult_left_mono [OF r(1) assms(1)] by (simp add: ac_simps)
  finally have "(M * ?r div U * C) * U \<le> (M * P) * U" by (simp add: ac_simps)
  then have "M * ?r div U * C \<le> M * P" using assms(4) by simp
  then show "M * ?r div U \<le> M * P div C" using assms(3) by (simp add: int_le_div_iff)
  have "M * (P * U) \<le> M * (C * ?r + C)" using mult_left_mono [of "P * U" "C * ?r + C" M] r assms(1) by simp
  then have 1: "M * P * U \<le> C * (M * ?r + M)" by (simp add: algebra_simps)
  have "M * P div C * C \<le> M * P"
    using floor_div_bounds(1) [OF assms(3), of "M * P"] by (simp add: mult.commute)
  then have "M * P div C * C * U \<le> M * P * U" using assms(4) by (simp add: mult_right_mono)
  with 1 have "(M * P div C * U) * C \<le> (M * ?r + M) * C" by (simp add: algebra_simps)
  then have "M * P div C * U \<le> M * ?r + M" using assms(3) by simp
  then have "M * P div C \<le> (M * ?r + M) div U" using assms(4) by (simp add: int_le_div_iff)
  also have "(M * ?r + M) div U \<le> M * ?r div U + M div U + 1"
  proof -
    have "M * ?r < U * (M * ?r div U) + U" "M < U * (M div U) + U"
      using floor_div_bounds(2) [OF assms(4)] by simp_all
    then have "M * ?r + M < U * (M * ?r div U + M div U + 2)" by (simp add: algebra_simps)
    then have "(M * ?r + M) div U < M * ?r div U + M div U + 2"
      using int_le_div_iff [OF assms(4), of "M * ?r div U + M div U + 2" "M * ?r + M"]
      by (simp add: mult.commute not_le [symmetric])
    then show ?thesis by linarith
  qed
  finally show "M * P div C \<le> M * ?r div U + M div U + 1" .
qed

lemma sol_newPositionMultiplier_sint:
  assumes "sol_newPositionMultiplier m p c = Some r" "0 \<le> sint m" "0 \<le> sint p" "0 < sint c"
  shows "sint r = sint m * sint p div sint c"
proof -
  from assms(1) obtain x where x: "ssafe_mul m p = Some x" "ssafe_div x c = Some r"
    by (auto simp: sol_newPositionMultiplier_def)
  show ?thesis using ssafe_mul_Some [OF x(1)] ssafe_div_Some [OF x(2)] assms(2-4) by simp
qed

subsection \<open>Virtual and real units\<close>

text \<open>Converting a unit to its virtual form and back: what the two last lines of both unit helpers do.\<close>

lemma unit_round_trip:
  assumes "0 \<le> x" "0 < m"
  shows "\<exists>r. preciseDiv (preciseMul x m) m = Some r \<and> r \<le> x \<and> x \<le> r + PRECISE_UNIT div m + 1"
proof -
  let ?p = "x * m div PRECISE_UNIT" and ?r = "(x * m div PRECISE_UNIT) * PRECISE_UNIT div m"
  have p: "PRECISE_UNIT * ?p \<le> x * m" "x * m < PRECISE_UNIT * ?p + PRECISE_UNIT"
    using floor_div_bounds [of PRECISE_UNIT "x * m"] by simp_all
  have xm: "0 \<le> x * m" using assms by simp
  have pp: "0 \<le> ?p" using xm by (simp add: pos_imp_zdiv_nonneg_iff)
  have eq: "preciseDiv (preciseMul x m) m = Some ?r"
    using assms xm pp by (simp add: preciseMul_nonneg)
  have "?r \<le> x * m div m" using p(1) assms(2) by (intro zdiv_mono1) (simp_all add: mult.commute)
  then have up: "?r \<le> x" using assms(2) by simp
  have "?p * PRECISE_UNIT < m * ?r + m" "PRECISE_UNIT < m * (PRECISE_UNIT div m) + m"
    using floor_div_bounds(2) [OF assms(2)] by simp_all
  with p(2) have "x * m < m * (?r + PRECISE_UNIT div m + 2)" by (simp add: algebra_simps)
  then have "x < ?r + PRECISE_UNIT div m + 2" using assms(2) by (simp add: mult.commute)
  with eq up show ?thesis by auto
qed

subsection \<open>Properties\<close>

text \<open>
  The issue helper predicts the contract: whenever the module computes its fees (with no share of
  the manager fee going to the protocol) and the quantity to mint without reverting, the helper, fed
  with the gross quantity and the two fee percentages, returns exactly the minted quantity.
\<close>

lemma issue_quantity_matches_contract:
  assumes "sol_getFees q direct 0 mgr = Some (pf, mf, net)"
    and "sol_getSetTokenMintQuantity val base prem net sup0 = Some m"
  shows "getExpectedSetTokenIssueQuantity (uint val) (uint sup0) (uint base)
           (uint q) (uint mgr) (uint direct) (uint prem) = Some (uint m)"
  using assms sol_mint_matches sol_getFees_net by blast

lemma issue_quantity_matches_contract_instance:
  "sol_getFees (10 ^ 18) (10 ^ 16) 0 (10 ^ 16) =
     Some (10 ^ 16, 10 ^ 16, 980000000000000000) \<and>
   sol_getSetTokenMintQuantity (10 ^ 18) (10 ^ 18) (10 ^ 16) 980000000000000000 (10 ^ 20) =
     Some 970104929716887745 \<and>
   getExpectedSetTokenIssueQuantity (uint (10 ^ 18 :: uint256)) (uint (10 ^ 20 :: uint256))
     (uint (10 ^ 18 :: uint256)) (uint (10 ^ 18 :: uint256)) (uint (10 ^ 16 :: uint256))
     (uint (10 ^ 16 :: uint256)) (uint (10 ^ 16 :: uint256))
   = Some (uint (970104929716887745 :: uint256))"
proof -
  have 1: "sol_getFees (10 ^ 18) (10 ^ 16) 0 (10 ^ 16) =
     Some (10 ^ 16, 10 ^ 16, 980000000000000000)"
    by code_simp
  have 2: "sol_getSetTokenMintQuantity (10 ^ 18) (10 ^ 18) (10 ^ 16) 980000000000000000 (10 ^ 20) =
     Some 970104929716887745"
    by code_simp
  show ?thesis using 1 2 issue_quantity_matches_contract [OF 1 2] by blast
qed

text \<open>
  Both multiplier helpers are conservative predictions of the contract's multiplier, old
  multiplier times previous supply over new supply: they never exceed it and fall short of it by at
  most one plus the multiplier over \<open>10\<^sup>1\<^sup>8\<close> (the helpers round the supply ratio to eighteen
  digits first, the contract does not).
\<close>

lemma multiplier_helpers_conservative:
  assumes "sol_newPositionMultiplier m p c = Some r"
    and "0 \<le> sint m" and "0 < sint p" and "0 < sint c"
  shows "(sint p \<le> sint c \<longrightarrow>
            (\<exists>e. getExpectedIssuePositionMultiplier (sint m) (sint p) (sint c) = Some e \<and>
              e \<le> sint r \<and> sint r \<le> e + sint m div PRECISE_UNIT + 1)) \<and>
         (sint c \<le> sint p \<longrightarrow>
            (\<exists>e. getExpectedRedeemPositionMultiplier (sint m) (sint p) (sint c) = Some e \<and>
              e \<le> sint r \<and> sint r \<le> e + sint m div PRECISE_UNIT + 1))"
  using assms scaled_ratio_bounds [of "sint m" "sint p" "sint c" PRECISE_UNIT]
    sol_newPositionMultiplier_sint [OF assms(1)]
  by (simp add: issue_multiplier_eq redeem_multiplier_eq)

lemma multiplier_helpers_conservative_instance:
  "\<exists>e. getExpectedIssuePositionMultiplier (sint (10 ^ 18 :: int256)) (sint (3 :: int256)) (sint (7 :: int256)) = Some e \<and>
      e \<le> sint (428571428571428571 :: int256) \<and>
      sint (428571428571428571 :: int256) \<le> e + sint (10 ^ 18 :: int256) div PRECISE_UNIT + 1"
proof -
  have "sol_newPositionMultiplier (10 ^ 18) 3 7 = Some 428571428571428571" by code_simp
  from multiplier_helpers_conservative [OF this] show ?thesis by simp
qed

text \<open>
  The redemption helper matches the contract for a reserve asset with eighteen decimals: the
  contract's quantity before fees, reduced by the fees, is the helper's result. (With fewer decimals
  the helper takes premium and fees before it scales down and may return more than the contract.)
\<close>

lemma redeem_quantity_matches_contract:
  assumes "sol_getRedeemReserveQuantity val sol_preciseUnit prem q = Some pre"
    and "sol_getFees pre direct 0 mgr = Some (pf, mf, net)"
  shows "getExpectedReserveRedeemQuantity (uint q) (uint val) PRECISE_UNIT
           (uint mgr) (uint direct) (uint prem) = uint net"
proof -
  from assms(1) obtain t g c where s: "sol_preciseMul q val = Some t"
      "sol_preciseMul t sol_preciseUnit = Some g" "sol_preciseMulCeil g prem = Some c"
      "safe_sub g c = Some pre"
    by (auto simp: sol_getRedeemReserveQuantity_def)
  have "uint pre = preciseMul (uint q) (uint val)
      - preciseMulCeil (preciseMul (uint q) (uint val)) (uint prem)"
    using sol_preciseMul_Some [OF s(1)] sol_preciseMul_Some [OF s(2)]
      sol_preciseMulCeil_Some [OF s(3)] safe_sub_Some [OF s(4)] by simp
  then show ?thesis using sol_getFees_net [OF assms(2)]
    by (simp add: getExpectedReserveRedeemQuantity_def Let_def preciseMul_commute [of "uint q"])
qed

lemma redeem_quantity_matches_contract_instance:
  "sol_getRedeemReserveQuantity (2 * 10 ^ 18) sol_preciseUnit (10 ^ 16) (5 * 10 ^ 18) =
     Some 9900000000000000000 \<and>
   sol_getFees 9900000000000000000 0 0 (10 ^ 17) = Some (0, 990000000000000000, 8910000000000000000) \<and>
   getExpectedReserveRedeemQuantity (uint (5 * 10 ^ 18 :: uint256)) (uint (2 * 10 ^ 18 :: uint256))
     PRECISE_UNIT (uint (10 ^ 17 :: uint256)) (uint (0 :: uint256)) (uint (10 ^ 16 :: uint256))
   = uint (8910000000000000000 :: uint256)"
proof -
  have 1: "sol_getRedeemReserveQuantity (2 * 10 ^ 18) sol_preciseUnit (10 ^ 16) (5 * 10 ^ 18) =
     Some 9900000000000000000"
    by code_simp
  have 2: "sol_getFees 9900000000000000000 0 0 (10 ^ 17) =
     Some (0, 990000000000000000, 8910000000000000000)"
    by code_simp
  show ?thesis using 1 2 redeem_quantity_matches_contract [OF 1 2] by blast
qed

text \<open>With six decimals the two differ: the helper returns one unit, the contract nothing.\<close>

lemma redeem_quantity_six_decimals:
  "getExpectedReserveRedeemQuantity (15 * 10 ^ 11) PRECISE_UNIT (10 ^ 6) 0 0 (10 ^ 16) = 1"
  "sol_getRedeemReserveQuantity sol_preciseUnit (10 ^ 6) (10 ^ 16) (15 * 10 ^ 11) = Some 0"
  by code_simp+

text \<open>
  The expected unit after an issue is the exact unit up to the rounding of the virtual form: for a
  positive multiplier it never exceeds the collateral per Set and is within one plus \<open>10\<^sup>1\<^sup>8\<close>
  over the multiplier of it, and a zero supply or multiplier makes the helper throw.
\<close>

lemma issue_position_unit_bounds:
  fixes previousUnits issueQuantity previousSupply currentSupply multiplier mgr direct :: int
  defines "collateral \<equiv> preciseMul previousSupply previousUnits
    + getExpectedPostFeeQuantity issueQuantity mgr direct"
  assumes "0 \<le> collateral" and "0 < currentSupply" and "0 < multiplier"
  shows "\<exists>u. getExpectedIssuePositionUnit previousUnits issueQuantity previousSupply currentSupply
            multiplier mgr direct = Some u \<and>
    u \<le> collateral * PRECISE_UNIT div currentSupply \<and>
    collateral * PRECISE_UNIT div currentSupply \<le> u + PRECISE_UNIT div multiplier + 1 \<and>
    getExpectedIssuePositionUnit previousUnits issueQuantity previousSupply 0
            multiplier mgr direct = None"
proof -
  let ?x = "collateral * PRECISE_UNIT div currentSupply"
  have "0 \<le> ?x" using assms(2,3) by (simp add: pos_imp_zdiv_nonneg_iff)
  with unit_round_trip [OF this assms(4)] show ?thesis
    using assms(2,3) by (auto simp: getExpectedIssuePositionUnit_def collateral_def Let_def)
qed

lemma issue_position_unit_bounds_instance:
  "\<exists>u. getExpectedIssuePositionUnit (10 ^ 18) (10 ^ 18) (10 ^ 19) (11 * 10 ^ 18) (9 * 10 ^ 17) (10 ^ 16) 0
         = Some u \<and>
    u \<le> (preciseMul (10 ^ 19) (10 ^ 18) + getExpectedPostFeeQuantity (10 ^ 18) (10 ^ 16) 0)
         * PRECISE_UNIT div (11 * 10 ^ 18) \<and>
    (preciseMul (10 ^ 19) (10 ^ 18) + getExpectedPostFeeQuantity (10 ^ 18) (10 ^ 16) 0)
         * PRECISE_UNIT div (11 * 10 ^ 18) \<le> u + PRECISE_UNIT div (9 * 10 ^ 17) + 1 \<and>
    getExpectedIssuePositionUnit (10 ^ 18) (10 ^ 18) (10 ^ 19) 0 (9 * 10 ^ 17) (10 ^ 16) 0 = None"
  by (rule issue_position_unit_bounds) code_simp+

end
