(* ===== verification/Uniswap_Utils.thy ===== *)
theory Uniswap_Utils
  imports Math_Utils
begin

section \<open>Uniswap helpers: utils/common/uniswapUtils.ts\<close>

text \<open>
  The view calls (reserves, supplies, balances, router quotes) are arguments of the definitions. The
  file compares BigNumber objects with JavaScript's own operators: \<open>js_lt\<close>, \<open>js_gt\<close> and
  \<open>same_object_as_ZERO\<close> of theory \<open>BigNum\<close> are what these do.
\<close>

subsection \<open>The helpers\<close>

definition MINIMUM_LIQUIDITY :: int where
  "MINIMUM_LIQUIDITY = 1000"

definition uni_min :: "int \<Rightarrow> int \<Rightarrow> int" where
  "uni_min valueOne valueTwo = (if js_lt valueOne valueTwo then valueOne else valueTwo)"

partial_function (option) uni_sqrt_loop :: "int \<Rightarrow> int \<Rightarrow> int \<Rightarrow> int option" where
  "uni_sqrt_loop v z x =
     (if js_lt x z
      then Option.bind (bn_div v x) (\<lambda>q. uni_sqrt_loop v x ((q + x) sdiv 2))
      else Some z)"

definition uni_sqrt :: "int \<Rightarrow> int option" where
  "uni_sqrt v =
     (if js_gt v 3 then uni_sqrt_loop v v (v sdiv 2 + 1)
      else if \<not> same_object_as_ZERO v then Some 1
      else Some v)"

definition calculateLPTokensIssued :: "int \<times> int \<Rightarrow> int \<Rightarrow> int \<Rightarrow> int \<Rightarrow> int option" where
  "calculateLPTokensIssued reserves totalSupply amountOne amountTwo =
     (if same_object_as_ZERO totalSupply
      then map_option (\<lambda>z. z - MINIMUM_LIQUIDITY) (uni_sqrt (amountOne * amountTwo))
      else do {
        a \<leftarrow> bn_div (amountOne * totalSupply) (fst reserves);
        b \<leftarrow> bn_div (amountTwo * totalSupply) (snd reserves);
        Some (uni_min a b)
      })"

definition getReservesSafe :: "address \<Rightarrow> address \<Rightarrow> int \<times> int \<Rightarrow> int \<times> int" where
  "getReservesSafe assetOne assetTwo reserves =
     (let firstAsset = (if assetOne < assetTwo then assetOne else assetTwo)
      in if assetOne = firstAsset then (fst reserves, snd reserves)
         else (snd reserves, fst reserves))"

definition calculateTokensInReserve ::
    "address \<Rightarrow> address \<Rightarrow> int \<times> int \<Rightarrow> int \<Rightarrow> int \<Rightarrow> (int \<times> int) option" where
  "calculateTokensInReserve assetOne assetTwo reserves totalSupply lpTokenBalance =
     (let (reserveOne, reserveTwo) = getReservesSafe assetOne assetTwo reserves
      in do {
        a \<leftarrow> preciseDiv reserveOne totalSupply;
        b \<leftarrow> preciseDiv reserveTwo totalSupply;
        Some (preciseMul a lpTokenBalance, preciseMul b lpTokenBalance)
      })"

definition calculateEngageQuantities ::
    "address \<Rightarrow> address \<Rightarrow> int \<times> int \<Rightarrow> int \<Rightarrow> int \<Rightarrow> int \<Rightarrow> int \<Rightarrow> int \<Rightarrow> int \<Rightarrow> int
     \<Rightarrow> (int \<times> int) option" where
  "calculateEngageQuantities assetOne assetTwo reserves totalSupply lpTokenBalance
     balanceOne balanceTwo reservePercentage extraAssetOne extraAssetTwo = do {
     (reserveOne, reserveTwo) \<leftarrow>
       calculateTokensInReserve assetOne assetTwo reserves totalSupply lpTokenBalance;
     let balanceOnTokenAssetOne = balanceOne + extraAssetOne;
     let balanceOnTokenAssetTwo = balanceTwo + extraAssetTwo;
     one \<leftarrow> ether 1;
     Some (preciseMul reserveOne reservePercentage
             - preciseMul balanceOnTokenAssetOne (one - reservePercentage),
           preciseMul reserveTwo reservePercentage
             - preciseMul balanceOnTokenAssetTwo (one - reservePercentage))
   }"

definition calculateRebalanceQuantity ::
    "int \<Rightarrow> address \<Rightarrow> address \<Rightarrow> int \<Rightarrow> int \<Rightarrow> int \<Rightarrow> int \<Rightarrow> int \<Rightarrow> (int \<times> address \<times> address) option" where
  "calculateRebalanceQuantity sellTokenQuantity assetOne assetTwo balanceOne balanceTwo
     assetOneToTwoPrice extraAssetOne extraAssetTwo =
   (let balanceAssetOne = balanceOne + extraAssetOne;
        balanceAssetTwo = balanceTwo + extraAssetTwo
    in do {
      valueAssetTwoDenomOne \<leftarrow> preciseDiv balanceAssetTwo assetOneToTwoPrice;
      let (quantityToSell, assetToSell, assetToBuy) =
        (if balanceAssetOne > valueAssetTwoDenomOne
         then ((balanceAssetOne - valueAssetTwoDenomOne) sdiv 2, assetOne, assetTwo)
         else (preciseMul ((valueAssetTwoDenomOne - balanceAssetOne) sdiv 2) assetOneToTwoPrice,
               assetTwo, assetOne));
      let quantityToSell = (if js_gt sellTokenQuantity 0 then sellTokenQuantity else quantityToSell);
      Some (quantityToSell, assetToSell, assetToBuy)
    })"

text \<open>The router's \<^verbatim>\<open>getAmountsOut\<close> is a contract call: a parameter.\<close>

definition calculateRebalanceFlows ::
    "(int \<Rightarrow> address list \<Rightarrow> int list option) \<Rightarrow> int \<Rightarrow> address \<Rightarrow> address \<Rightarrow> int \<Rightarrow> int \<Rightarrow> int \<Rightarrow> int \<Rightarrow> int
     \<Rightarrow> int list option" where
  "calculateRebalanceFlows getAmountsOut sellTokenQuantity assetOne assetTwo balanceOne balanceTwo
     assetOneToTwoPrice extraAssetOne extraAssetTwo = do {
     (quantityToSell, assetToSell, assetToBuy) \<leftarrow> calculateRebalanceQuantity sellTokenQuantity
       assetOne assetTwo balanceOne balanceTwo assetOneToTwoPrice extraAssetOne extraAssetTwo;
     getAmountsOut quantityToSell [assetToSell, assetToBuy]
   }"

subsection \<open>The Newton iteration\<close>

definition newton :: "int \<Rightarrow> int \<Rightarrow> int" where
  "newton v x = (v div x + x) div 2"

lemma newton_ge_root:
  assumes "0 < x" "0 \<le> s" "s * s \<le> v"
  shows "s \<le> newton v x"
proof -
  have "2 * s * x \<le> s * s + x * x"
    using zero_le_power2 [of "s - x"] by (simp add: power2_eq_square algebra_simps)
  also have "\<dots> \<le> v + x * x" using assms(3) by simp
  finally have "(2 * s - x) * x \<le> v" by (simp add: algebra_simps)
  then have "2 * s - x \<le> v div x" using assms(1) by (simp add: int_le_div_iff)
  then show ?thesis by (simp add: newton_def)
qed

lemma newton_decreases:
  assumes "0 \<le> s" "s < x" "v < (s + 1) * (s + 1)"
  shows "newton v x < x"
proof -
  have "(s + 1) * (s + 1) \<le> x * x" using assms by (intro mult_mono) auto
  with assms(3) have "v < x * x" by linarith
  then have "\<not> x \<le> v div x" using assms by (simp add: int_le_div_iff)
  then show ?thesis unfolding newton_def by linarith
qed

lemma newton_at_root:
  assumes "0 < s" "s * s \<le> v" "v < (s + 1) * (s + 1)"
  shows "newton v s = s \<or> newton v s = s + 1"
proof -
  have "s \<le> newton v s" using newton_ge_root assms by simp
  moreover have "\<not> s + 3 \<le> v div s"
    using assms by (simp add: int_le_div_iff algebra_simps)
  ultimately show ?thesis unfolding newton_def by linarith
qed

lemma ex_int_root:
  assumes "0 \<le> (v::int)" shows "\<exists>s. 0 \<le> s \<and> s * s \<le> v \<and> v < (s + 1) * (s + 1)"
proof -
  have "\<exists>s. 0 \<le> s \<and> s * s \<le> int n \<and> int n < (s + 1) * (s + 1)" for n
  proof (induction n)
    case 0 show ?case by (rule exI [of _ 0]) simp
  next
    case (Suc n)
    then obtain s where s: "0 \<le> s" "s * s \<le> int n" "int n < (s + 1) * (s + 1)" by blast
    show ?case
    proof (cases "int (Suc n) < (s + 1) * (s + 1)")
      case True with s show ?thesis by (intro exI [of _ s]) auto
    next
      case False
      with s have "int (Suc n) = (s + 1) * (s + 1)" by simp
      moreover have "(s + 1) * (s + 1) < (s + 1 + 1) * (s + 1 + 1)"
        using s(1) by (intro mult_strict_mono) auto
      ultimately show ?thesis using s(1) by (intro exI [of _ "s + 1"]) auto
    qed
  qed
  from this [of "nat v"] assms show ?thesis by simp
qed

lemma uni_sqrt_loop_step:
  assumes "0 < x" "0 \<le> v"
  shows "uni_sqrt_loop v z x = (if js_lt x z then uni_sqrt_loop v x (newton v x) else Some z)"
proof -
  have "0 \<le> v div x" using assms by (simp add: pos_imp_zdiv_nonneg_iff)
  then show ?thesis using assms
    by (subst uni_sqrt_loop.simps) (simp add: newton_def)
qed

text \<open>The loop stops although its guard is not the numeric order.\<close>

lemma uni_sqrt_loop_returns:
  assumes "0 < s" "s * s \<le> v" "v < (s + 1) * (s + 1)" "s \<le> x"
  shows "\<exists>r. uni_sqrt_loop v z x = Some r"
  using assms(4)
proof (induction "nat (x - s)" arbitrary: x z rule: less_induct)
  case less
  have v: "0 \<le> v" using assms(1,2) by (smt (verit) mult_nonneg_nonneg)
  have x: "0 < x" using less.prems assms(1) by simp
  show ?case
  proof (cases "s < x")
    case True
    have "newton v x < x" "s \<le> newton v x"
      using newton_decreases [of s x v] newton_ge_root [of x s v] assms(1-3) True x by simp_all
    then have "\<exists>r. uni_sqrt_loop v x (newton v x) = Some r"
      using less.hyps [of "newton v x" x] True by simp
    then show ?thesis by (simp add: uni_sqrt_loop_step [OF x v])
  next
    case False
    then have xs: "x = s" using less.prems by simp
    have step: "newton v (s + 1) = s"
      using newton_decreases [of s "s + 1" v] newton_ge_root [of "s + 1" s v] assms by simp
    have "uni_sqrt_loop v (s + 1) s = Some (s + 1)" if "js_lt (s + 1) s"
      using that js_lt_asym v assms(1) by (simp add: uni_sqrt_loop_step)
    then have "\<exists>r. uni_sqrt_loop v s (s + 1) = Some r"
      using v assms(1) step by (simp add: uni_sqrt_loop_step)
    moreover have "\<exists>r. uni_sqrt_loop v s s = Some r"
      using v assms(1) by (simp add: uni_sqrt_loop_step)
    ultimately show ?thesis
      using newton_at_root [OF assms(1-3)] v assms(1) xs by (auto simp: uni_sqrt_loop_step)
  qed
qed

lemma js_gt_three_pos: "js_gt v 3 \<Longrightarrow> 0 < v"
proof (rule ccontr)
  assume gt: "js_gt v 3" and "\<not> 0 < v"
  then consider "v = 0" | "v < 0" by linarith
  then show False
  proof cases
    case 1
    have "\<not> js_gt 0 3" by (simp add: js_gt_def js_lt_def bn_toString_single digit_char_less_iff)
    with gt 1 show False by simp
  next
    case 2
    then obtain ds where "bn_toString v = CHR ''-'' # ds" by (simp add: bn_toString_def)
    moreover have "bn_toString 3 = [CHR ''3'']" by code_simp
    ultimately show False using gt by (simp add: js_gt_def js_lt_def less_char_def)
  qed
qed

lemma uni_sqrt_total: "\<exists>r. uni_sqrt v = Some r"
proof (cases "js_gt v 3")
  case True
  then have v: "0 < v" by (rule js_gt_three_pos)
  obtain s where s: "0 \<le> s" "s * s \<le> v" "v < (s + 1) * (s + 1)" using ex_int_root [of v] v by auto
  have s0: "0 < s" using s v by (cases "s = 0") auto
  have "2 * s \<le> s * s + 1"
    using zero_le_power2 [of "s - 1"] by (simp add: power2_eq_square algebra_simps)
  with s(2) have "s \<le> v div 2 + 1" by linarith
  then show ?thesis
    using uni_sqrt_loop_returns [OF s0 s(2,3)] True v by (simp add: uni_sqrt_def)
qed (simp add: uni_sqrt_def same_object_as_ZERO_def)

lemma not_js_gt_three: "0 \<le> v \<Longrightarrow> hd (bn_toString v) < CHR ''3'' \<Longrightarrow> \<not> js_gt v 3"
proof -
  assume a: "0 \<le> v" "hd (bn_toString v) < CHR ''3''"
  obtain c cs where c: "bn_toString v = c # cs"
    by (cases "bn_toString v") (simp_all add: bn_toString_def)
  have "bn_toString 3 = [CHR ''3'']" by code_simp
  with a c show ?thesis by (auto simp: js_gt_def js_lt_def)
qed

subsection \<open>Engaging and rebalancing\<close>

lemma preciseMul_floor_pair:
  assumes "0 \<le> r" "0 \<le> b" "0 \<le> p" "p \<le> PRECISE_UNIT"
  defines "x \<equiv> preciseMul r p - preciseMul b (PRECISE_UNIT - p)"
  shows "\<bar>(b + x) * PRECISE_UNIT - p * (r + b)\<bar> < PRECISE_UNIT"
proof -
  have 1: "preciseMul r p = r * p div PRECISE_UNIT"
    "preciseMul b (PRECISE_UNIT - p) = b * (PRECISE_UNIT - p) div PRECISE_UNIT"
    using assms by (simp_all add: preciseMul_nonneg)
  let ?A = "r * p div PRECISE_UNIT" and ?B = "b * (PRECISE_UNIT - p) div PRECISE_UNIT"
  note A = floor_div_bounds [OF PRECISE_UNIT_pos(1), of "r * p"]
  note B = floor_div_bounds [OF PRECISE_UNIT_pos(1), of "b * (PRECISE_UNIT - p)"]
  have "(b + x) * PRECISE_UNIT - p * (r + b)
      = (PRECISE_UNIT * ?A - r * p) - (PRECISE_UNIT * ?B - b * (PRECISE_UNIT - p))"
    unfolding x_def 1 by algebra
  with A B show ?thesis unfolding abs_less_iff by linarith
qed

lemma sdiv2_bounds: "0 \<le> (d::int) \<Longrightarrow> 2 * (d sdiv 2) \<le> d \<and> d \<le> 2 * (d sdiv 2) + 1"
  by simp linarith

subsection \<open>Properties\<close>

text \<open>
  C39. The square root helper always returns: the Newton loop ends for every BigNumber, although its
  guard compares the decimal strings of the two iterates and not their values.
\<close>

theorem sqrt_helper_terminates: "\<exists>r. uni_sqrt v = Some r"
  by (rule uni_sqrt_total)

text \<open>
  The square root helper does not compute square roots: any number whose decimal notation starts
  with a digit below three is mapped to one (the guard \<^verbatim>\<open>value > BigNumber.from(3)\<close> is a string
  comparison), as is zero (the guard \<^verbatim>\<open>value != ZERO\<close> compares objects).
\<close>

lemma sqrt_helper_is_one_on_leading_small_digit:
  assumes "0 \<le> v" and "hd (bn_toString v) < CHR ''3''"
  shows "uni_sqrt v = Some 1"
  using not_js_gt_three [OF assms] by (simp add: uni_sqrt_def same_object_as_ZERO_def)

lemma sqrt_helper_is_one_on_leading_small_digit_instance:
  "uni_sqrt 10000 = Some 1 \<and> uni_sqrt 0 = Some 1"
proof -
  have "CHR ''3'' = digit_char 3" by code_simp
  moreover have "hd (bn_toString 10000) = digit_char 1" "hd (bn_toString 0) = digit_char 0"
    by (simp_all add: bn_toString_def to_digits.simps)
  ultimately show ?thesis
    using sqrt_helper_is_one_on_leading_small_digit [of 10000]
      sqrt_helper_is_one_on_leading_small_digit [of 0] by (simp add: digit_char_less_iff)
qed

text \<open>
  Liquidity tokens: with non-empty reserves the helper returns the smaller of the two pro rata
  amounts as long as both have the same number of digits; on an empty pool it throws for every
  supply, because the test for a zero supply compares objects and the square root branch is never
  taken.
\<close>

lemma lp_tokens_issued:
  assumes "0 < reserve0" and "0 < reserve1" and "0 \<le> amountOne" and "0 \<le> amountTwo"
    and "0 \<le> totalSupply"
    and "length (bn_toString (amountOne * totalSupply div reserve0))
       = length (bn_toString (amountTwo * totalSupply div reserve1))"
  shows "calculateLPTokensIssued (reserve0, reserve1) totalSupply amountOne amountTwo
      = Some (min (amountOne * totalSupply div reserve0) (amountTwo * totalSupply div reserve1)) \<and>
    calculateLPTokensIssued (0, 0) totalSupply amountOne amountTwo = None"
proof -
  have q: "0 \<le> amountOne * totalSupply div reserve0" "0 \<le> amountTwo * totalSupply div reserve1"
    using assms by (simp_all add: pos_imp_zdiv_nonneg_iff)
  show ?thesis using assms js_lt_iff_same_length [OF q assms(6)]
    by (simp add: calculateLPTokensIssued_def same_object_as_ZERO_def uni_min_def min_def)
qed

lemma lp_tokens_issued_instance:
  "calculateLPTokensIssued (1000, 4000) 2000 50 240 = Some 100 \<and>
    calculateLPTokensIssued (0, 0) 2000 50 240 = None"
proof -
  have "length (bn_toString (50 * 2000 div 1000)) = length (bn_toString (240 * 2000 div 4000))"
    by (simp add: bn_toString_def to_digits.simps)
  then show ?thesis using lp_tokens_issued [of 1000 4000 50 240 2000] by simp
qed

text \<open>With one digit more the string order picks the larger amount.\<close>

lemma lp_tokens_issued_overstated: "calculateLPTokensIssued (10, 10) 10 9 10 = Some 10"
  by code_simp

text \<open>
  Engaging liquidity hits its target: when the Set holds \<open>r\<close> of an asset in the pool and
  \<open>b\<close> outside, moving the computed quantity leaves the share \<open>reservePercentage\<close> of the
  total outside the pool, up to one unit, for both assets.
\<close>

lemma engage_quantities_hit_target:
  assumes "calculateTokensInReserve a1 a2 reserves supply1 lp = Some (r1, r2)"
    and "0 \<le> r1" and "0 \<le> r2" and "0 \<le> b1 + e1" and "0 \<le> b2 + e2"
    and "0 \<le> p" and "p \<le> PRECISE_UNIT"
  shows "\<exists>x1 x2. calculateEngageQuantities a1 a2 reserves supply1 lp b1 b2 p e1 e2 = Some (x1, x2) \<and>
    \<bar>(b1 + e1 + x1) * PRECISE_UNIT - p * (r1 + (b1 + e1))\<bar> < PRECISE_UNIT \<and>
    \<bar>(b2 + e2 + x2) * PRECISE_UNIT - p * (r2 + (b2 + e2))\<bar> < PRECISE_UNIT"
  using assms preciseMul_floor_pair [of r1 "b1 + e1" p] preciseMul_floor_pair [of r2 "b2 + e2" p]
  by (simp add: calculateEngageQuantities_def)

lemma engage_quantities_hit_target_instance:
  "\<exists>x1 x2. calculateEngageQuantities ''0xa'' ''0xb'' (5 * 10 ^ 18, 8 * 10 ^ 18) (4 * 10 ^ 18) (10 ^ 18)
        (10 ^ 17) (2 * 10 ^ 17) (10 ^ 17) 0 0 = Some (x1, x2) \<and>
    \<bar>(10 ^ 17 + 0 + x1) * PRECISE_UNIT - 10 ^ 17 * (125 * 10 ^ 16 + (10 ^ 17 + 0))\<bar> < PRECISE_UNIT \<and>
    \<bar>(2 * 10 ^ 17 + 0 + x2) * PRECISE_UNIT - 10 ^ 17 * (2 * 10 ^ 18 + (2 * 10 ^ 17 + 0))\<bar> < PRECISE_UNIT"
proof (rule engage_quantities_hit_target)
  show "calculateTokensInReserve ''0xa'' ''0xb'' (5 * 10 ^ 18, 8 * 10 ^ 18) (4 * 10 ^ 18) (10 ^ 18)
      = Some (125 * 10 ^ 16, 2 * 10 ^ 18)"
    by code_simp
qed (simp_all add: PRECISE_UNIT_def)

text \<open>
  Rebalancing sells half of the surplus of the overweight asset: for a positive price the helper
  names the asset of the larger value as the one to sell and the other as the one to buy, the sold
  value is half the difference up to one unit, and a positive explicit quantity overrides it.
\<close>

lemma rebalance_sells_half_the_surplus:
  assumes "0 < price" and "0 \<le> balanceTwo"
  shows "\<exists>q. calculateRebalanceQuantity sellTokenQuantity a1 a2 balanceOne balanceTwo price 0 0 = Some q \<and>
    (if balanceTwo * PRECISE_UNIT div price < balanceOne then snd q = (a1, a2) else snd q = (a2, a1)) \<and>
    (if 0 < sellTokenQuantity then fst q = sellTokenQuantity
     else if balanceTwo * PRECISE_UNIT div price < balanceOne
     then \<bar>2 * fst q - (balanceOne - balanceTwo * PRECISE_UNIT div price)\<bar> \<le> 1
     else (\<exists>h. fst q = h * price div PRECISE_UNIT \<and>
       \<bar>2 * h - (balanceTwo * PRECISE_UNIT div price - balanceOne)\<bar> \<le> 1))"
proof -
  let ?v = "balanceTwo * PRECISE_UNIT div price"
  have v: "preciseDiv balanceTwo price = Some ?v"
    using assms PRECISE_UNIT_pos by (simp add: preciseDiv_def bn_div_def)
  show ?thesis
  proof (cases "?v < balanceOne")
    case True
    have "\<bar>2 * ((balanceOne - ?v) sdiv 2) - (balanceOne - ?v)\<bar> \<le> 1"
      using sdiv2_bounds [of "balanceOne - ?v"] True by linarith
    with True v show ?thesis by (simp add: calculateRebalanceQuantity_def js_gt_zero_iff)
  next
    case False
    let ?h = "(?v - balanceOne) sdiv 2"
    have "\<bar>2 * ?h - (?v - balanceOne)\<bar> \<le> 1"
      using sdiv2_bounds [of "?v - balanceOne"] False by linarith
    moreover have "preciseMul ?h price = ?h * price div PRECISE_UNIT"
      using False assms by (intro preciseMul_nonneg) simp_all
    ultimately have "\<exists>h. preciseMul ?h price = h * price div PRECISE_UNIT \<and>
        \<bar>2 * h - (?v - balanceOne)\<bar> \<le> 1" by blast
    with False v show ?thesis by (simp add: calculateRebalanceQuantity_def js_gt_zero_iff)
  qed
qed

lemma rebalance_sells_half_the_surplus_instance:
  "\<exists>q. calculateRebalanceQuantity 0 ''0xa'' ''0xb'' (3 * 10 ^ 18) (500 * 10 ^ 18) (250 * 10 ^ 18) 0 0 = Some q \<and>
    snd q = (''0xa'', ''0xb'') \<and> \<bar>2 * fst q - 10 ^ 18\<bar> \<le> 1"
  using rebalance_sells_half_the_surplus
    [of "250 * 10 ^ 18" "500 * 10 ^ 18" 0 "''0xa''" "''0xb''" "3 * 10 ^ 18"]
  by (simp add: PRECISE_UNIT_def)

end
