(* ===== verification/Chain_Model.thy ===== *)
theory Chain_Model
  imports TS_Prelude "HOL-Library.AList"
begin

section \<open>Ethers, the provider and the chain as the scripts see them\<close>

text \<open>
  The deploy helpers and the fixtures talk to a chain through ethers: they create contracts with a
  typechain factory, attach to them, connect other signers, send transactions and read views. This
  theory holds the vocabulary the other theories share. Contracts, ethers and the Hardhat node are not
  part of the TypeScript sources: what they decide is a field of the record \<open>env\<close> and an
  argument of every definition that uses it (the address a creation gets, whether a transaction is
  accepted, what a view returns, the accounts, the latest timestamp, the Sets reported by the
  \<^verbatim>\<open>SetTokenCreated\<close> logs of the latest block). A rejected promise is \<open>None\<close>.
\<close>

subsection \<open>Values, contracts, transactions\<close>

datatype arg =
    Addr address
  | Num int
  | Str string
  | Bool bool
  | Bytes bytes
  | Lst "arg list"
  | Obj "(string \<times> arg) list"

record contract =
  cAddress :: address
  cName :: string
  cSigner :: address

datatype tx =
    Create (tx_from: address) (tx_name: string) (tx_links: "(string \<times> address) list")
      (tx_args: "arg list") (tx_address: address)
  | Call (tx_from: address) (tx_to: address) (tx_method: string) (tx_args: "arg list")

record chain =
  nonces :: "address \<Rightarrow> nat"
  txs :: "tx list"

record env =
  create_address :: "address \<Rightarrow> nat \<Rightarrow> address"
  accepts :: "tx list \<Rightarrow> tx \<Rightarrow> bool"
  view_call :: "tx list \<Rightarrow> address \<Rightarrow> string \<Rightarrow> arg list \<Rightarrow> arg option"
  listAccounts :: "address list"
  latest_timestamp :: "tx list \<Rightarrow> int"
  set_created_logs :: "tx list \<Rightarrow> address list"

type_synonym 'a result = "('a \<times> chain) option"

definition Addrs :: "address list \<Rightarrow> arg" where
  "Addrs xs = Lst (map Addr xs)"

definition Nums :: "int list \<Rightarrow> arg" where
  "Nums xs = Lst (map Num xs)"

definition Strs :: "string list \<Rightarrow> arg" where
  "Strs xs = Lst (map Str xs)"

text \<open>An object literal with computed keys: a later entry for the same key replaces the value.\<close>

definition js_object :: "(string \<times> 'v) list \<Rightarrow> (string \<times> 'v) list" where
  "js_object kvs = fold (\<lambda>(k, v). AList.update k v) kvs []"

lemma js_object_lookup: "map_of (js_object kvs) = map_of (rev kvs)"
proof -
  have "map_of (fold (\<lambda>(k, v). AList.update k v) kvs al) = map_of al ++ map_of (rev kvs)" for al
    by (induction kvs arbitrary: al) (auto simp: update_conv' map_add_def fun_eq_iff split: option.split)
  from this [of "[]"] show ?thesis by (simp add: js_object_def)
qed

lemma js_object_distinct: "distinct (map fst kvs) \<Longrightarrow> js_object kvs = kvs"
proof -
  have upd: "k \<notin> fst ` set al \<Longrightarrow> AList.update k v al = al @ [(k, v)]" for k and v :: 'a and al
    by (induction al) auto
  have "distinct (map fst (al @ kvs)) \<Longrightarrow> fold (\<lambda>(k, v). AList.update k v) kvs al = al @ kvs" for al
    by (induction kvs arbitrary: al) (auto simp: upd)
  from this [of "[]"] show "distinct (map fst kvs) \<Longrightarrow> js_object kvs = kvs" by (simp add: js_object_def)
qed

fun as_num :: "arg option \<Rightarrow> int option" where
  "as_num (Some (Num n)) = Some n"
| "as_num _ = None"

fun as_list :: "arg option \<Rightarrow> arg list option" where
  "as_list (Some (Lst xs)) = Some xs"
| "as_list _ = None"

fun obj_get :: "string \<Rightarrow> arg \<Rightarrow> arg option" where
  "obj_get k (Obj kvs) = map_of kvs k"
| "obj_get k _ = None"

definition nth_opt :: "'a list \<Rightarrow> nat \<Rightarrow> 'a option" where
  "nth_opt xs i = (if i < length xs then Some (xs ! i) else None)"

fun as_addr :: "arg option \<Rightarrow> address option" where
  "as_addr (Some (Addr a)) = Some a"
| "as_addr _ = None"

subsection \<open>Operations\<close>

text \<open>The accepted transaction is mined at once (Hardhat's automining) and uses up a nonce.\<close>

definition submit :: "tx \<Rightarrow> chain \<Rightarrow> chain" where
  "submit t s = s\<lparr>nonces := (nonces s)(tx_from t := Suc (nonces s (tx_from t))), txs := txs s @ [t]\<rparr>"

definition send :: "env \<Rightarrow> tx \<Rightarrow> chain \<Rightarrow> chain option" where
  "send e t s = (if accepts e (txs s) t then Some (submit t s) else None)"

text \<open>A transaction whose promise is not awaited: a rejection does not stop the script.\<close>

definition send_unawaited :: "env \<Rightarrow> tx \<Rightarrow> chain \<Rightarrow> chain" where
  "send_unawaited e t s = (case send e t s of Some s' \<Rightarrow> s' | None \<Rightarrow> s)"

definition deploy_linked ::
    "env \<Rightarrow> address \<Rightarrow> string \<Rightarrow> (string \<times> address) list \<Rightarrow> arg list \<Rightarrow> chain \<Rightarrow> contract result" where
  "deploy_linked e signer name links args s =
     (let a = create_address e signer (nonces s signer)
      in map_option (Pair \<lparr>cAddress = a, cName = name, cSigner = signer\<rparr>)
           (send e (Create signer name links args a) s))"

definition deploy :: "env \<Rightarrow> address \<Rightarrow> string \<Rightarrow> arg list \<Rightarrow> chain \<Rightarrow> contract result" where
  "deploy e signer name args = deploy_linked e signer name [] args"

definition attach :: "string \<Rightarrow> address \<Rightarrow> address \<Rightarrow> contract" where
  "attach name a signer = \<lparr>cAddress = a, cName = name, cSigner = signer\<rparr>"

definition connect :: "contract \<Rightarrow> address \<Rightarrow> contract" where
  "connect c signer = c\<lparr>cSigner := signer\<rparr>"

definition call :: "env \<Rightarrow> contract \<Rightarrow> string \<Rightarrow> arg list \<Rightarrow> chain \<Rightarrow> chain option" where
  "call e c method args s = send e (Call (cSigner c) (cAddress c) method args) s"

definition call_unawaited :: "env \<Rightarrow> contract \<Rightarrow> string \<Rightarrow> arg list \<Rightarrow> chain \<Rightarrow> chain" where
  "call_unawaited e c method args s = send_unawaited e (Call (cSigner c) (cAddress c) method args) s"

definition view :: "env \<Rightarrow> contract \<Rightarrow> string \<Rightarrow> arg list \<Rightarrow> chain \<Rightarrow> arg option" where
  "view e c method args s = view_call e (txs s) (cAddress c) method args"

text \<open>A loop of awaited calls, \<^verbatim>\<open>for (const x of xs) await ...\<close>.\<close>

fun for_each :: "'a list \<Rightarrow> ('a \<Rightarrow> chain \<Rightarrow> chain option) \<Rightarrow> chain \<Rightarrow> chain option" where
  "for_each [] f s = Some s"
| "for_each (x # xs) f s = Option.bind (f x s) (for_each xs f)"

subsection \<open>The created contracts\<close>

definition created :: "tx list \<Rightarrow> address list" where
  "created ts = map tx_address (filter is_Create ts)"

lemma created_simps [simp]:
  "created [] = []"
  "created (Create f n l a x # ts) = x # created ts"
  "created (Call f x m a # ts) = created ts"
  "created (ts @ us) = created ts @ created us"
  by (simp_all add: created_def)

text \<open>The assumption on creation addresses: distinct (sender, nonce) pairs give distinct addresses.\<close>

definition collision_free :: "env \<Rightarrow> bool" where
  "collision_free e = inj (\<lambda>(f, n). create_address e f n)"

lemma collision_freeD:
  "collision_free e \<Longrightarrow> create_address e f n = create_address e g m \<longleftrightarrow> f = g \<and> n = m"
  by (auto simp: collision_free_def inj_def)

text \<open>The invariant every script keeps: created addresses are distinct and come from used nonces.\<close>

definition used_addresses :: "env \<Rightarrow> chain \<Rightarrow> address set" where
  "used_addresses e s = {create_address e f n | f n. n < nonces s f}"

definition chain_ok :: "env \<Rightarrow> chain \<Rightarrow> bool" where
  "chain_ok e s \<longleftrightarrow> distinct (created (txs s)) \<and> set (created (txs s)) \<subseteq> used_addresses e s"

text \<open>What an operation does to the chain: it appends transactions, keeping the invariant.\<close>

definition extends :: "env \<Rightarrow> chain \<Rightarrow> chain \<Rightarrow> bool" where
  "extends e s s' \<longleftrightarrow> (\<exists>ts. txs s' = txs s @ ts) \<and> (\<forall>f. nonces s f \<le> nonces s' f) \<and>
     (collision_free e \<and> chain_ok e s \<longrightarrow> chain_ok e s')"

lemma extends_refl [simp, intro]: "extends e s s"
  by (simp add: extends_def)

lemma extends_trans [trans]: "extends e s t \<Longrightarrow> extends e t u \<Longrightarrow> extends e s u"
  unfolding extends_def by (metis append.assoc le_trans)

lemma extends_txs: "extends e s s' \<Longrightarrow> set (txs s) \<subseteq> set (txs s')"
  by (auto simp: extends_def)

lemma extends_ok: "extends e s s' \<Longrightarrow> collision_free e \<Longrightarrow> chain_ok e s \<Longrightarrow> chain_ok e s'"
  by (simp add: extends_def)

lemma submit_simps [simp]:
  "txs (submit t s) = txs s @ [t]"
  "nonces (submit t s) = (nonces s)(tx_from t := Suc (nonces s (tx_from t)))"
  by (simp_all add: submit_def)

lemma used_addresses_submit: "used_addresses e s \<subseteq> used_addresses e (submit t s)"
proof
  fix x assume "x \<in> used_addresses e s"
  then obtain f n where "x = create_address e f n" "n < nonces s f" by (auto simp: used_addresses_def)
  moreover from this have "n < nonces (submit t s) f" by auto
  ultimately show "x \<in> used_addresses e (submit t s)" unfolding used_addresses_def by blast
qed

lemma submit_call_ok: "chain_ok e s \<Longrightarrow> chain_ok e (submit (Call f x m a) s)"
  using used_addresses_submit [of e s "Call f x m a"] unfolding chain_ok_def by auto

lemma submit_create_ok:
  assumes "collision_free e" "chain_ok e s"
  shows "chain_ok e (submit (Create f n l a (create_address e f (nonces s f))) s)"
    and "create_address e f (nonces s f) \<notin> set (created (txs s))"
proof -
  let ?x = "create_address e f (nonces s f)" and ?t = "Create f n l a (create_address e f (nonces s f))"
  have "?x \<notin> used_addresses e s"
    using collision_freeD [OF assms(1)] by (auto simp: used_addresses_def)
  then show new: "?x \<notin> set (created (txs s))"
    using assms(2) by (auto simp: chain_ok_def)
  have "nonces s f < nonces (submit ?t s) f" by simp
  then have "?x \<in> used_addresses e (submit ?t s)" unfolding used_addresses_def by blast
  then show "chain_ok e (submit ?t s)"
    using assms(2) new used_addresses_submit [of e s ?t] unfolding chain_ok_def by auto
qed

lemma send_extends: "send e (Call f x m a) s = Some s' \<Longrightarrow> extends e s s'"
  by (auto simp: send_def extends_def submit_call_ok split: if_splits)

lemma call_extends: "call e c m a s = Some s' \<Longrightarrow> extends e s s'"
  by (simp add: call_def send_extends)

lemma call_unawaited_extends: "extends e s (call_unawaited e c m a s)"
  by (auto simp: call_unawaited_def send_unawaited_def send_extends split: option.split)

lemma deploy_linked_extends:
  "deploy_linked e f n l a s = Some (c, s') \<Longrightarrow> extends e s s'"
  by (auto simp: deploy_linked_def send_def extends_def submit_create_ok Let_def split: if_splits)

lemma deploy_extends: "deploy e f n a s = Some (c, s') \<Longrightarrow> extends e s s'"
  by (simp add: deploy_def deploy_linked_extends)

lemma for_each_extends:
  assumes "for_each xs f s = Some s'" and "\<And>x s s'. x \<in> set xs \<Longrightarrow> f x s = Some s' \<Longrightarrow> extends e s s'"
  shows "extends e s s'"
  using assms
proof (induction xs arbitrary: s)
  case (Cons x xs)
  then obtain t where "f x s = Some t" "for_each xs f t = Some s'" by auto
  with Cons show ?case by (meson extends_trans list.set_intros)
qed simp

lemma for_each_append: "for_each (xs @ ys) f s = Option.bind (for_each xs f s) (for_each ys f)"
  by (induction xs arbitrary: s) (simp_all split: Option.bind_split)

lemma for_each_submits:
  "(\<And>c s. c \<in> set cs \<Longrightarrow> f (h c) s = Some (submit (g c) s)) \<Longrightarrow>
     \<exists>s'. for_each (map h cs) f s = Some s' \<and> txs s' = txs s @ map g cs"
proof (induction cs arbitrary: s)
  case (Cons c cs)
  have "f (h c) s = Some (submit (g c) s)" using Cons.prems by simp
  moreover obtain s' where "for_each (map h cs) f (submit (g c) s) = Some s'" "txs s' = txs (submit (g c) s) @ map g cs"
    using Cons.IH [of "submit (g c) s"] Cons.prems by auto
  ultimately show ?case by simp
qed simp

subsection \<open>Scripts keep the chain invariant\<close>

text \<open>
  A script is a sequence of binds. The rules below follow its structure, so that a script whose steps
  extend the chain is seen to extend it by \<open>intro\<close>.
\<close>

named_theorems keeps_rules

definition keeps :: "env \<Rightarrow> chain \<Rightarrow> 'a result \<Rightarrow> bool" where
  "keeps e s r \<longleftrightarrow> (\<forall>x s'. r = Some (x, s') \<longrightarrow> extends e s s')"

definition keeps1 :: "env \<Rightarrow> chain \<Rightarrow> chain option \<Rightarrow> bool" where
  "keeps1 e s r \<longleftrightarrow> (\<forall>s'. r = Some s' \<longrightarrow> extends e s s')"

lemma keepsD: "keeps e s r \<Longrightarrow> r = Some (x, s') \<Longrightarrow> extends e s s'"
  by (simp add: keeps_def)

lemma keeps1D: "keeps1 e s r \<Longrightarrow> r = Some s' \<Longrightarrow> extends e s s'"
  by (simp add: keeps1_def)

lemma keeps_return [keeps_rules]: "keeps e s (Some (x, s))"
  by (simp add: keeps_def)

lemma keeps1_return [keeps_rules]: "keeps1 e s (Some s)"
  by (simp add: keeps1_def)

lemma keeps_None [keeps_rules]: "keeps e s None" "keeps1 e s None"
  by (simp_all add: keeps_def keeps1_def)

lemma keeps_bind_result [keeps_rules]:
  "keeps e s m \<Longrightarrow> (\<And>x s1. keeps e s1 (k x s1)) \<Longrightarrow> keeps e s (Option.bind m (\<lambda>(x, s1). k x s1))"
  unfolding keeps_def by (fastforce intro: extends_trans)

lemma keeps_bind_chain [keeps_rules]:
  "keeps1 e s m \<Longrightarrow> (\<And>s1. keeps e s1 (k s1)) \<Longrightarrow> keeps e s (Option.bind m k)"
  unfolding keeps_def keeps1_def by (fastforce intro: extends_trans)

lemma keeps1_bind_result [keeps_rules]:
  "keeps e s m \<Longrightarrow> (\<And>x s1. keeps1 e s1 (k x s1)) \<Longrightarrow> keeps1 e s (Option.bind m (\<lambda>(x, s1). k x s1))"
  unfolding keeps_def keeps1_def by (fastforce intro: extends_trans)

lemma keeps1_bind_chain [keeps_rules]:
  "keeps1 e s m \<Longrightarrow> (\<And>s1. keeps1 e s1 (k s1)) \<Longrightarrow> keeps1 e s (Option.bind m k)"
  unfolding keeps1_def by (fastforce intro: extends_trans)

lemma keeps_bind_pure: "(\<And>x. keeps e s (k x)) \<Longrightarrow> keeps e s (Option.bind m k)"
  unfolding keeps_def by fastforce

lemma keeps1_bind_pure: "(\<And>x. keeps1 e s (k x)) \<Longrightarrow> keeps1 e s (Option.bind m k)"
  unfolding keeps1_def by fastforce

lemma keeps_if [keeps_rules]:
  "(b \<Longrightarrow> keeps e s x) \<Longrightarrow> (\<not> b \<Longrightarrow> keeps e s y) \<Longrightarrow> keeps e s (if b then x else y)"
  "(b \<Longrightarrow> keeps1 e s u) \<Longrightarrow> (\<not> b \<Longrightarrow> keeps1 e s v) \<Longrightarrow> keeps1 e s (if b then u else v)"
  by simp_all

lemma keeps_case_sum [keeps_rules]:
  "(\<And>x. keeps e s (f x)) \<Longrightarrow> (\<And>y. keeps e s (g y)) \<Longrightarrow> keeps e s (case r of Inl x \<Rightarrow> f x | Inr y \<Rightarrow> g y)"
  by (cases r) simp_all

lemma keeps_case_option [keeps_rules]:
  "keeps e s x \<Longrightarrow> (\<And>y. keeps e s (g y)) \<Longrightarrow> keeps e s (case r of None \<Rightarrow> x | Some y \<Rightarrow> g y)"
  by (cases r) simp_all

lemma keeps_deploy_linked [keeps_rules]: "keeps e s (deploy_linked e f n l a s)"
  by (simp add: keeps_def deploy_linked_extends)

lemma keeps_deploy [keeps_rules]: "keeps e s (deploy e f n a s)"
  by (simp add: keeps_def deploy_extends)

lemma keeps1_call [keeps_rules]: "keeps1 e s (call e c m a s)"
  by (simp add: keeps1_def call_extends)

lemma keeps1_call_after_unawaited [keeps_rules]:
  "keeps1 e s (call e c m a (call_unawaited e c' m' a' s))"
  unfolding keeps1_def by (blast intro: extends_trans call_unawaited_extends call_extends)

lemma keeps_deploy_after_unawaited [keeps_rules]:
  "keeps e s (deploy e f n a (call_unawaited e c m b (call_unawaited e c' m' b' s)))"
  unfolding keeps_def by (blast intro: extends_trans call_unawaited_extends deploy_extends)

lemma keeps1_for_each [keeps_rules]:
  "(\<And>x s. keeps1 e s (f x s)) \<Longrightarrow> keeps1 e s (for_each xs f s)"
  unfolding keeps1_def by (blast intro: for_each_extends)

text \<open>The calls a run of awaited calls leaves in the history.\<close>

definition issues :: "tx set \<Rightarrow> chain \<Rightarrow> chain option \<Rightarrow> bool" where
  "issues T s r \<longleftrightarrow> (\<forall>s'. r = Some s' \<longrightarrow> set (txs s) \<union> T \<subseteq> set (txs s'))"

lemma issues_call: "issues {Call (cSigner c) (cAddress c) m a} s (call e c m a s)"
  by (auto simp: issues_def call_def send_def)

lemma issues_bind:
  assumes "\<And>s1. issues T s1 (k s1)"
  shows "issues (insert (Call (cSigner c) (cAddress c) m a) T) s (Option.bind (call e c m a s) k)"
  using assms unfolding issues_def by (fastforce simp: call_def send_def split: if_splits Option.bind_splits)

lemmas issues_rules = issues_bind issues_call

text \<open>On a chain that accepts everything a script succeeds when its reads do.\<close>

lemma bind_deploy_succeeds:
  "(\<And>ts t. accepts e ts t) \<Longrightarrow> (\<And>c s1. k c s1 \<noteq> None) \<Longrightarrow> Option.bind (deploy e f n a s) (\<lambda>(c, s1). k c s1) \<noteq> None"
  by (simp add: deploy_def deploy_linked_def send_def Let_def)

lemma bind_call_succeeds:
  "(\<And>ts t. accepts e ts t) \<Longrightarrow> (\<And>s1. k s1 \<noteq> None) \<Longrightarrow> Option.bind (call e c m a s) k \<noteq> None"
  by (simp add: call_def send_def)

lemma call_succeeds: "(\<And>ts t. accepts e ts t) \<Longrightarrow> call e c m a s \<noteq> None"
  by (simp add: call_def send_def)

lemmas succeeds_rules = bind_deploy_succeeds bind_call_succeeds call_succeeds option.distinct(2)

subsection \<open>Interface: what a deploy helper promises\<close>

text \<open>The classes under utils/deploys keep one field, the signer their factories use.\<close>

record deployer =
  deployerSigner :: address

text \<open>
  A deploy helper is one awaited factory deployment: contract name, library links and constructor
  arguments are functions of its parameters. Everything the fixtures use of a helper follows.
\<close>

locale deploy_helper =
  fixes run :: "env \<Rightarrow> deployer \<Rightarrow> 'x \<Rightarrow> chain \<Rightarrow> contract result"
    and cname :: string
    and links :: "'x \<Rightarrow> (string \<times> address) list"
    and cargs :: "'x \<Rightarrow> arg list"
  assumes run_deploys: "run e this x s = deploy_linked e (deployerSigner this) cname (links x) (cargs x) s"
begin

lemma run_extends: "run e this x s = Some (c, s') \<Longrightarrow> extends e s s'"
  by (simp add: run_deploys deploy_linked_extends)

lemma run_contract:
  "run e this x s = Some (c, s') \<Longrightarrow>
     c = attach cname (create_address e (deployerSigner this) (nonces s (deployerSigner this))) (deployerSigner this) \<and>
     txs s' = txs s @ [Create (deployerSigner this) cname (links x) (cargs x) (cAddress c)]"
  by (auto simp: run_deploys deploy_linked_def send_def attach_def Let_def split: if_splits)

lemma run_fresh:
  "collision_free e \<Longrightarrow> chain_ok e s \<Longrightarrow> run e this x s = Some (c, s') \<Longrightarrow> cAddress c \<notin> set (created (txs s))"
  using submit_create_ok(2) [of e s "deployerSigner this"] run_contract [of e this x s c s'] by (simp add: attach_def)

lemma run_succeeds_iff:
  "(\<exists>c s'. run e this x s = Some (c, s')) \<longleftrightarrow>
     accepts e (txs s) (Create (deployerSigner this) cname (links x) (cargs x)
       (create_address e (deployerSigner this) (nonces s (deployerSigner this))))"
  by (auto simp: run_deploys deploy_linked_def send_def Let_def)

end

end
