(* ===== verification/Perp_V2_Utils.thy ===== *)
theory Perp_V2_Utils
  imports Math_Utils Chain_Model
begin

section \<open>Perpetual protocol helpers: utils/common/perpV2Utils.ts\<close>

text \<open>
  What the module, the fixture and the SetToken return to the helpers (account and position
  information, spot prices, swap quotes, funding growth) are arguments. \<open>None\<close> is a rejected call
  or a division by zero.
\<close>

subsection \<open>The helpers\<close>

record account_info =
  collateralBalance :: int
  owedRealizedPnl :: int
  pendingFundingPayments :: int
  netQuoteBalance :: int

record position_unit_info =
  pu_baseToken :: address
  pu_baseUnit :: int
  pu_quoteUnit :: int

record position_notional_info =
  pn_baseToken :: address
  pn_baseBalance :: int
  pn_quoteBalance :: int

definition toUSDCDecimals :: "int \<Rightarrow> int" where
  "toUSDCDecimals quantity = quantity sdiv (10 ^ 12)"

definition leverUp :: "env \<Rightarrow> contract \<Rightarrow> contract \<Rightarrow> (address \<Rightarrow> int option) \<Rightarrow> int \<Rightarrow> account_info \<Rightarrow> address \<Rightarrow>
    address \<Rightarrow> int \<Rightarrow> int \<Rightarrow> bool \<Rightarrow> bool \<Rightarrow> chain \<Rightarrow> int result" where
  "leverUp e setToken perpModule getSpotPrice totalSupply accountInfo owner baseToken leverageRatio
     slippagePercentage isLong trackFunding s = do {
     spotPrice \<leftarrow> getSpotPrice baseToken;
     ratio \<leftarrow> bn_from_number leverageRatio;
     baseTradeQuantityNotional \<leftarrow> preciseDiv (collateralBalance accountInfo * ratio) spotPrice;
     unit \<leftarrow> preciseDiv baseTradeQuantityNotional totalSupply;
     let baseTradeQuantityUnit = (if isLong then unit else unit * -1);
     let estimatedQuoteQuantityNotional = \<bar>preciseMul baseTradeQuantityNotional spotPrice\<bar>;
     slippage \<leftarrow> ether (2 / 100);
     let allowedSlippage = preciseMul estimatedQuoteQuantityNotional slippage;
     let slippageAdjustedQuoteQuanitityNotional =
       (if isLong then estimatedQuoteQuantityNotional + allowedSlippage
        else estimatedQuoteQuantityNotional - allowedSlippage);
     receiveQuoteQuantityUnit \<leftarrow> preciseDiv slippageAdjustedQuoteQuanitityNotional totalSupply;
     s \<leftarrow> call e (connect perpModule owner) (if trackFunding then ''tradeAndTrackFunding'' else ''trade'')
       [Addr (cAddress setToken), Addr baseToken, Num baseTradeQuantityUnit, Num receiveQuoteQuantityUnit] s;
     Some (baseTradeQuantityUnit, s)
   }"

fun transfer_in_loop :: "(address \<Rightarrow> int \<Rightarrow> bool \<Rightarrow> int option) \<Rightarrow> (address \<Rightarrow> int option) \<Rightarrow> int \<Rightarrow>
    position_unit_info list \<Rightarrow> int \<Rightarrow> int option" where
  "transfer_in_loop getSwapQuote getSpotPrice setQuantity [] usdcAmountIn = Some usdcAmountIn"
| "transfer_in_loop getSwapQuote getSpotPrice setQuantity (positionInfo # rest) usdcAmountIn = do {
     let baseTradeQuantityNotional = preciseMul (pu_baseUnit positionInfo) setQuantity;
     let isLong = (baseTradeQuantityNotional \<ge> 0);
     deltaQuote \<leftarrow> getSwapQuote (pu_baseToken positionInfo) \<bar>baseTradeQuantityNotional\<bar> isLong;
     spot \<leftarrow> getSpotPrice (pu_baseToken positionInfo);
     let idealQuote = preciseMul baseTradeQuantityNotional spot;
     let expectedSlippage = (if isLong then deltaQuote - idealQuote else \<bar>idealQuote\<bar> - deltaQuote);
     transfer_in_loop getSwapQuote getSpotPrice setQuantity rest (usdcAmountIn + idealQuote + expectedSlippage)
   }"

definition calculateUSDCTransferInPreciseUnits :: "(address \<Rightarrow> int \<Rightarrow> bool \<Rightarrow> int option) \<Rightarrow> (address \<Rightarrow> int option) \<Rightarrow>
    account_info \<Rightarrow> int \<Rightarrow> position_unit_info list \<Rightarrow> int \<Rightarrow> bool \<Rightarrow> int option" where
  "calculateUSDCTransferInPreciseUnits getSwapQuote getSpotPrice accountInfo totalSupply allPositionInfo
     setQuantity includeFunding = do {
     let totalCollateralValue =
       collateralBalance accountInfo + owedRealizedPnl accountInfo + netQuoteBalance accountInfo;
     let totalCollateralValue = (if includeFunding
       then totalCollateralValue + pendingFundingPayments accountInfo else totalCollateralValue);
     unit \<leftarrow> preciseDiv totalCollateralValue totalSupply;
     transfer_in_loop getSwapQuote getSpotPrice setQuantity allPositionInfo (preciseMul unit setQuantity)
   }"

definition calculateUSDCTransferIn :: "(address \<Rightarrow> int \<Rightarrow> bool \<Rightarrow> int option) \<Rightarrow> (address \<Rightarrow> int option) \<Rightarrow>
    account_info \<Rightarrow> int \<Rightarrow> position_unit_info list \<Rightarrow> int \<Rightarrow> int option" where
  "calculateUSDCTransferIn getSwapQuote getSpotPrice accountInfo totalSupply allPositionInfo setQuantity =
     map_option toUSDCDecimals (calculateUSDCTransferInPreciseUnits getSwapQuote getSpotPrice accountInfo
       totalSupply allPositionInfo setQuantity True)"

fun transfer_out_loop :: "(address \<Rightarrow> int \<Rightarrow> bool \<Rightarrow> int option) \<Rightarrow> int \<Rightarrow> int \<Rightarrow>
    position_notional_info list \<Rightarrow> int \<Rightarrow> int option" where
  "transfer_out_loop getSwapQuote totalSupply setQuantity [] totalRealizedPnl = Some totalRealizedPnl"
| "transfer_out_loop getSwapQuote totalSupply setQuantity (positionInfo # rest) totalRealizedPnl = do {
     basePositionUnit \<leftarrow> preciseDiv (pn_baseBalance positionInfo) totalSupply;
     let baseTradeQuantityNotional = preciseMul basePositionUnit setQuantity;
     let isLong = (basePositionUnit \<ge> 0);
     closeRatio \<leftarrow> preciseDiv \<bar>baseTradeQuantityNotional\<bar> \<bar>pn_baseBalance positionInfo\<bar>;
     let reducedOpenNotional = preciseMul (pn_quoteBalance positionInfo) closeRatio;
     deltaQuote \<leftarrow> getSwapQuote (pn_baseToken positionInfo) \<bar>baseTradeQuantityNotional\<bar> (\<not> isLong);
     let realizedPnl = (if isLong then reducedOpenNotional + deltaQuote else reducedOpenNotional - deltaQuote);
     transfer_out_loop getSwapQuote totalSupply setQuantity rest (totalRealizedPnl + realizedPnl)
   }"

definition calculateUSDCTransferOutPreciseUnits :: "(address \<Rightarrow> int \<Rightarrow> bool \<Rightarrow> int option) \<Rightarrow> account_info \<Rightarrow> int \<Rightarrow>
    position_notional_info list \<Rightarrow> int \<Rightarrow> bool \<Rightarrow> int option" where
  "calculateUSDCTransferOutPreciseUnits getSwapQuote accountInfo totalSupply allPositionInfo setQuantity
     includeFunding = do {
     let totalCollateralBalance = collateralBalance accountInfo + owedRealizedPnl accountInfo;
     let totalCollateralBalance = (if includeFunding
       then totalCollateralBalance + pendingFundingPayments accountInfo else totalCollateralBalance);
     collateralPositionUnit \<leftarrow> preciseDiv totalCollateralBalance totalSupply;
     let collateralQuantityNotional = preciseMul collateralPositionUnit setQuantity;
     totalRealizedPnl \<leftarrow> transfer_out_loop getSwapQuote totalSupply setQuantity allPositionInfo 0;
     Some \<bar>collateralQuantityNotional + totalRealizedPnl\<bar>
   }"

definition calculateUSDCTransferOut :: "(address \<Rightarrow> int \<Rightarrow> bool \<Rightarrow> int option) \<Rightarrow> account_info \<Rightarrow> int \<Rightarrow>
    position_notional_info list \<Rightarrow> int \<Rightarrow> int option" where
  "calculateUSDCTransferOut getSwapQuote accountInfo totalSupply allPositionInfo setQuantity =
     map_option toUSDCDecimals (calculateUSDCTransferOutPreciseUnits getSwapQuote accountInfo totalSupply
       allPositionInfo setQuantity True)"

definition calculateExternalPositionUnit :: "account_info \<Rightarrow> int \<Rightarrow> int option" where
  "calculateExternalPositionUnit accountInfo totalSupply =
     map_option toUSDCDecimals (preciseDiv (collateralBalance accountInfo) totalSupply)"

definition getNetFundingGrowth :: "int \<Rightarrow> int \<Rightarrow> int \<Rightarrow> int \<Rightarrow> int option" where
  "getNetFundingGrowth twPremiumX96 markTwap indexTwap baseBalance = do {
     one \<leftarrow> ether 1;
     let twPremium = (twPremiumX96 * one) sdiv (2 ^ 96);
     let fundingGrowth = \<bar>preciseMul baseBalance (twPremium sdiv ONE_DAY_IN_SECONDS)\<bar>;
     let isLong = (baseBalance > 0);
     Some (if markTwap < indexTwap
       then (if isLong then fundingGrowth else fundingGrowth * -1)
       else (if isLong then fundingGrowth * -1 else fundingGrowth))
   }"

definition getUSDCDeltaDueToFundingGrowth :: "int \<Rightarrow> int \<Rightarrow> int \<Rightarrow> int \<Rightarrow> int \<Rightarrow> int \<Rightarrow> int option" where
  "getUSDCDeltaDueToFundingGrowth twPremiumX96 markTwap indexTwap totalSupply setQuantity baseBalance = do {
     netFundingGrowth \<leftarrow> getNetFundingGrowth twPremiumX96 markTwap indexTwap baseBalance;
     unit \<leftarrow> preciseDiv netFundingGrowth totalSupply;
     Some (preciseMul unit setQuantity)
   }"

fun leverage_loop :: "(address \<Rightarrow> int option) \<Rightarrow> int \<Rightarrow> position_notional_info list \<Rightarrow>
    address list \<Rightarrow> int list \<Rightarrow> (address list \<times> int list) option" where
  "leverage_loop getIndexPrice totalCollateralValue [] vTokens leverageRatios = Some (vTokens, leverageRatios)"
| "leverage_loop getIndexPrice totalCollateralValue (positionInfo # rest) vTokens leverageRatios = do {
     tokenPrice \<leftarrow> getIndexPrice (pn_baseToken positionInfo);
     let positionValue = preciseMul tokenPrice (pn_baseBalance positionInfo);
     let accountValue = positionValue + totalCollateralValue + pn_quoteBalance positionInfo;
     ratio \<leftarrow> preciseDiv positionValue accountValue;
     leverage_loop getIndexPrice totalCollateralValue rest
       (vTokens @ [pn_baseToken positionInfo]) (leverageRatios @ [ratio])
   }"

definition calculateLeverageRatios :: "(address \<Rightarrow> int option) \<Rightarrow> account_info \<Rightarrow> position_notional_info list \<Rightarrow>
    (address list \<times> int list) option" where
  "calculateLeverageRatios getIndexPrice accountInfo notionalPositionInfo =
     (let totalCollateralValue = collateralBalance accountInfo + owedRealizedPnl accountInfo
        + pendingFundingPayments accountInfo
      in leverage_loop getIndexPrice totalCollateralValue notionalPositionInfo [] [])"

definition calculateMaxIssueQuantity :: "account_info \<Rightarrow> int \<Rightarrow> int \<Rightarrow> int \<Rightarrow> int \<Rightarrow> int \<Rightarrow> int \<Rightarrow> int option" where
  "calculateMaxIssueQuantity accountInfo totalSupply imRatio unrealizedPnl totalDebtValue
     totalAbsPositionValue slippage = do {
     let totalCollateralValue = collateralBalance accountInfo + owedRealizedPnl accountInfo
       + pendingFundingPayments accountInfo;
     quota \<leftarrow> (if unrealizedPnl \<ge> 0 then bn_div (totalCollateralValue * 10 ^ 6) imRatio
       else bn_div ((totalCollateralValue + unrealizedPnl) * 10 ^ 6) imRatio);
     let availableDebt = quota - totalDebtValue;
     haircut \<leftarrow> bn_div (preciseMul availableDebt slippage * 10 ^ 6) imRatio;
     let availableDebtWithSlippage = availableDebt - haircut;
     unit \<leftarrow> preciseDiv availableDebtWithSlippage totalAbsPositionValue;
     Some (preciseMul unit totalSupply)
   }"

subsection \<open>Closed forms of the loops\<close>

definition signed_quote :: "(address \<Rightarrow> int \<Rightarrow> bool \<Rightarrow> int) \<Rightarrow> int \<Rightarrow> position_unit_info \<Rightarrow> int" where
  "signed_quote q setQuantity p =
     (let n = preciseMul (pu_baseUnit p) setQuantity
      in if n \<ge> 0 then q (pu_baseToken p) n True else - q (pu_baseToken p) (- n) False)"

lemma preciseMul_nonpos: "a \<le> 0 \<Longrightarrow> 0 \<le> b \<Longrightarrow> preciseMul a b \<le> 0"
proof -
  assume "a \<le> 0" "0 \<le> b"
  then have nn: "0 \<le> (- a) * b" by (simp add: mult_nonpos_nonneg)
  have "0 \<le> (- a) * b div PRECISE_UNIT" using nn by (subst pos_imp_zdiv_nonneg_iff) simp_all
  then have "0 \<le> preciseMul (- a) b" using preciseMul_nonneg [OF nn] by simp
  moreover have "preciseMul (- a) b = - preciseMul a b" by (simp add: preciseMul_def)
  ultimately show ?thesis by simp
qed

lemma transfer_in_loop_sum:
  assumes "\<And>t. 0 \<le> p t"
  shows "transfer_in_loop (\<lambda>t n l. Some (q t n l)) (\<lambda>t. Some (p t)) setQuantity ps acc = Some (acc + sum_list (map (signed_quote q setQuantity) ps))"
proof (induction ps arbitrary: acc)
  case (Cons x ps)
  let ?n = "preciseMul (pu_baseUnit x) setQuantity"
  have "preciseMul ?n (p (pu_baseToken x)) \<le> 0" if "?n < 0"
    using preciseMul_nonpos [of ?n "p (pu_baseToken x)"] that assms by simp
  then show ?case
    by (auto simp: Cons.IH signed_quote_def Let_def)
qed simp

definition realized_pnl :: "(address \<Rightarrow> int \<Rightarrow> bool \<Rightarrow> int) \<Rightarrow> int \<Rightarrow> int \<Rightarrow> position_notional_info \<Rightarrow> int" where
  "realized_pnl q totalSupply setQuantity p =
     (let u = (pn_baseBalance p * PRECISE_UNIT) sdiv totalSupply;
          n = \<bar>preciseMul u setQuantity\<bar>;
          open = preciseMul (pn_quoteBalance p) ((n * PRECISE_UNIT) sdiv \<bar>pn_baseBalance p\<bar>)
      in if u \<ge> 0 then open + q (pn_baseToken p) n False else open - q (pn_baseToken p) n True)"

lemma transfer_out_loop_sum:
  assumes "ts \<noteq> 0" and "\<forall>p \<in> set ps. pn_baseBalance p \<noteq> 0"
  shows "transfer_out_loop (\<lambda>t n l. Some (q t n l)) ts qty ps acc = Some (acc + sum_list (map (realized_pnl q ts qty) ps))"
  using assms(2)
proof (induction ps arbitrary: acc)
  case (Cons x ps)
  have "pn_baseBalance x \<noteq> 0" using Cons.prems by simp
  then show ?case using Cons assms(1)
    by (simp add: realized_pnl_def Let_def)
qed simp

lemma leverage_loop_result:
  "leverage_loop price tcv ps vs ls = Some (vs', ls') \<Longrightarrow>
     \<exists>rs. vs' = vs @ map pn_baseToken ps \<and> ls' = ls @ rs \<and> length rs = length ps"
proof (induction ps arbitrary: vs ls)
  case (Cons x ps)
  then obtain r where "leverage_loop price tcv ps (vs @ [pn_baseToken x]) (ls @ [r]) = Some (vs', ls')"
    by (auto simp: Let_def)
  from Cons.IH [OF this] show ?case by (auto intro: exI [of _ "r # rs" for rs])
qed simp

subsection \<open>Properties\<close>

text \<open>
  C32. Amount to transfer in on issue: although the loop computes an ideal quote from the spot price and
  a slippage per position, the spot price cancels out. For non-negative prices the result is the unit
  value of the account times the quantity, plus the swap quote of every long position, minus the swap
  quote of every short one.
\<close>

theorem transfer_in_is_value_plus_signed_quotes:
  assumes "\<And>t. 0 \<le> p t" and "totalSupply \<noteq> 0"
  shows "calculateUSDCTransferInPreciseUnits (\<lambda>t n l. Some (q t n l)) (\<lambda>t. Some (p t)) info totalSupply ps setQuantity includeFunding =
    Some (preciseMul ((collateralBalance info + owedRealizedPnl info + netQuoteBalance info +
        (if includeFunding then pendingFundingPayments info else 0)) * PRECISE_UNIT sdiv totalSupply) setQuantity
      + sum_list (map (signed_quote q setQuantity) ps))"
  unfolding calculateUSDCTransferInPreciseUnits_def Let_def
  using assms(2) transfer_in_loop_sum [of p q, OF assms(1)] by simp

theorem transfer_in_is_value_plus_signed_quotes_witness:
  "calculateUSDCTransferInPreciseUnits (\<lambda>t n l. Some (2 * n)) (\<lambda>t. Some (3 * 10 ^ 18))
      \<lparr>collateralBalance = 100, owedRealizedPnl = 5, pendingFundingPayments = 10, netQuoteBalance = -5\<rparr> (10 ^ 18)
      [\<lparr>pu_baseToken = ''0xa'', pu_baseUnit = 7, pu_quoteUnit = 0\<rparr>, \<lparr>pu_baseToken = ''0xb'', pu_baseUnit = -4, pu_quoteUnit = 0\<rparr>] (10 ^ 18) True
    = Some (110 + (14 + -8))"
  using transfer_in_is_value_plus_signed_quotes [where q = "\<lambda>t n l. 2 * n" and p = "\<lambda>t. 3 * 10 ^ 18" and totalSupply = "10 ^ 18"
      and info = "\<lparr>collateralBalance = 100, owedRealizedPnl = 5, pendingFundingPayments = 10, netQuoteBalance = -5\<rparr>"
      and ps = "[\<lparr>pu_baseToken = ''0xa'', pu_baseUnit = 7, pu_quoteUnit = 0\<rparr>, \<lparr>pu_baseToken = ''0xb'', pu_baseUnit = -4, pu_quoteUnit = 0\<rparr>]"
      and setQuantity = "10 ^ 18" and includeFunding = True]
  by (simp add: signed_quote_def preciseMul_def PRECISE_UNIT_def)

text \<open>
  Amount to transfer out on redeem: with a non-zero supply and no empty position the loop adds up
  the realised profit of every position, and the result is the absolute value of that sum and of the
  collateral share, hence never negative.
\<close>

lemma transfer_out_is_collateral_plus_pnl:
  assumes "totalSupply \<noteq> 0" and "\<forall>p \<in> set ps. pn_baseBalance p \<noteq> 0"
  shows "calculateUSDCTransferOutPreciseUnits (\<lambda>t n l. Some (q t n l)) info totalSupply ps setQuantity includeFunding =
    Some \<bar>preciseMul ((collateralBalance info + owedRealizedPnl info +
        (if includeFunding then pendingFundingPayments info else 0)) * PRECISE_UNIT sdiv totalSupply) setQuantity
      + sum_list (map (realized_pnl q totalSupply setQuantity) ps)\<bar>"
  unfolding calculateUSDCTransferOutPreciseUnits_def Let_def
  using assms(1) transfer_out_loop_sum [of totalSupply ps q, OF assms] by simp

lemma transfer_out_is_collateral_plus_pnl_instance:
  "calculateUSDCTransferOutPreciseUnits (\<lambda>t n l. Some (2 * n))
      \<lparr>collateralBalance = 100, owedRealizedPnl = 5, pendingFundingPayments = 10, netQuoteBalance = 0\<rparr> (10 ^ 18)
      [\<lparr>pn_baseToken = ''0xa'', pn_baseBalance = 7, pn_quoteBalance = -20\<rparr>] (10 ^ 18) True
    = Some \<bar>115 + (-20 + 14)\<bar>"
  using transfer_out_is_collateral_plus_pnl [where q = "\<lambda>t n l. 2 * n" and totalSupply = "10 ^ 18"
      and info = "\<lparr>collateralBalance = 100, owedRealizedPnl = 5, pendingFundingPayments = 10, netQuoteBalance = 0\<rparr>"
      and ps = "[\<lparr>pn_baseToken = ''0xa'', pn_baseBalance = 7, pn_quoteBalance = -20\<rparr>]"
      and setQuantity = "10 ^ 18" and includeFunding = True]
  by (simp add: realized_pnl_def preciseMul_def PRECISE_UNIT_def)

text \<open>
  Levering up trades with a fixed tolerance: when it succeeds, the only transaction sent is the
  owner's trade of the returned base quantity, negated for a short position, with a quote limit two
  percent above (long) or below (short) the estimate at the spot price, whatever slippage the caller
  passes.
\<close>

lemma lever_up_uses_two_percent:
  assumes "0 < spot" and "0 < totalSupply" and "0 \<le> collateralBalance info" and "0 \<le> ratio" and "ratio < 2 ^ 53 - 1"
    and "getSpotPrice baseToken = Some spot" and "\<forall>ts t. accepts e ts t"
    and "n = collateralBalance info * ratio * PRECISE_UNIT sdiv spot" and "est = preciseMul n spot"
  shows "\<exists>s'. leverUp e setToken perpModule getSpotPrice totalSupply info owner baseToken ratio slippagePercentage
      isLong trackFunding s = Some ((if isLong then 1 else -1) * (n * PRECISE_UNIT sdiv totalSupply), s') \<and>
    txs s' = txs s @ [Call owner (cAddress perpModule) (if trackFunding then ''tradeAndTrackFunding'' else ''trade'')
      [Addr (cAddress setToken), Addr baseToken,
       Num ((if isLong then 1 else -1) * (n * PRECISE_UNIT sdiv totalSupply)),
       Num ((est + (if isLong then 1 else -1) * preciseMul est (2 * 10 ^ 16)) * PRECISE_UNIT sdiv totalSupply)]]"
proof -
  have "0 \<le> n" using assms(1,3,4,8) by (simp add: pos_imp_zdiv_nonneg_iff)
  then have "0 \<le> est" using assms(1,9) by (simp add: preciseMul_nonneg pos_imp_zdiv_nonneg_iff)
  moreover have "ether (2 / 100) = Some (2 * 10 ^ 16)" by (rule ether_ratio) simp
  ultimately show ?thesis
    using assms by (simp add: leverUp_def bn_from_number_def connect_def call_def send_def Let_def)
qed

lemma lever_up_uses_two_percent_instance:
  "\<exists>s'. leverUp \<lparr>create_address = \<lambda>f n. f, accepts = \<lambda>_ _. True, view_call = \<lambda>_ _ _ _. None, listAccounts = [],
        latest_timestamp = \<lambda>_. 0, set_created_logs = \<lambda>_. []\<rparr>
      (attach ''SetToken'' ''set'' ''o'') (attach ''PerpV2LeverageModuleV2'' ''mod'' ''o'') (\<lambda>_. Some (10 * 10 ^ 18))
      (10 ^ 18) \<lparr>collateralBalance = 100 * 10 ^ 18, owedRealizedPnl = 0, pendingFundingPayments = 0, netQuoteBalance = 0\<rparr>
      ''o'' ''vETH'' 2 0 True False \<lparr>nonces = \<lambda>_. 0, txs = []\<rparr> = Some (20 * 10 ^ 18, s') \<and>
    txs s' = [Call ''o'' ''mod'' ''trade'' [Addr ''set'', Addr ''vETH'', Num (20 * 10 ^ 18), Num (204 * 10 ^ 18)]]"
  using lever_up_uses_two_percent [where spot = "10 * 10 ^ 18" and totalSupply = "10 ^ 18" and ratio = 2
      and info = "\<lparr>collateralBalance = 100 * 10 ^ 18, owedRealizedPnl = 0, pendingFundingPayments = 0, netQuoteBalance = 0\<rparr>"
      and getSpotPrice = "\<lambda>_. Some (10 * 10 ^ 18)" and n = "20 * 10 ^ 18" and est = "200 * 10 ^ 18" and isLong = True
      and trackFunding = False and owner = "''o''" and baseToken = "''vETH''" and s = "\<lparr>nonces = \<lambda>_. 0, txs = []\<rparr>"
      and perpModule = "attach ''PerpV2LeverageModuleV2'' ''mod'' ''o''" and setToken = "attach ''SetToken'' ''set'' ''o''"
      and slippagePercentage = 0
      and e = "\<lparr>create_address = \<lambda>f n. f, accepts = \<lambda>_ _. True, view_call = \<lambda>_ _ _ _. None, listAccounts = [],
        latest_timestamp = \<lambda>_. 0, set_created_logs = \<lambda>_. []\<rparr>"]
  by (simp add: preciseMul_def PRECISE_UNIT_def attach_def)

lemma net_funding_growth_eq:
  "getNetFundingGrowth tw mark index b =
     Some ((if (mark < index) = (0 < b) then 1 else -1) *
       \<bar>preciseMul b ((tw * PRECISE_UNIT) sdiv (2 ^ 96) sdiv ONE_DAY_IN_SECONDS)\<bar>)"
  by (simp add: getNetFundingGrowth_def Let_def)

text \<open>
  Funding is paid from one side to the other: the net funding growth never depends on the sign of
  the premium, it is positive exactly for longs below the index price and shorts at or above it, and
  the growth of a non-zero short position is the opposite of the growth of the long position of the
  same size.
\<close>

lemma funding_growth_is_antisymmetric:
  assumes "b \<noteq> 0"
  shows "getNetFundingGrowth tw mark index (- b) = map_option uminus (getNetFundingGrowth tw mark index b) \<and>
    getNetFundingGrowth (- tw) mark index b = getNetFundingGrowth tw mark index b \<and>
    (\<exists>g. getNetFundingGrowth tw mark index b = Some g \<and> (if (mark < index) = (0 < b) then 0 \<le> g else g \<le> 0))"
proof -
  have "preciseMul (- b) u = - preciseMul b u" "preciseMul b (- u) = - preciseMul b u" for u
    by (simp_all add: preciseMul_def)
  moreover have "(0 < - b) = (\<not> 0 < b)" using assms by linarith
  ultimately show ?thesis by (simp add: net_funding_growth_eq)
qed

lemma funding_growth_is_antisymmetric_instance:
  "getNetFundingGrowth (2 ^ 96 * 86400) 5 10 (- 3) = Some (- 3) \<and> getNetFundingGrowth (2 ^ 96 * 86400) 5 10 3 = Some 3"
proof -
  have "getNetFundingGrowth (2 ^ 96 * 86400) 5 10 3 = Some 3"
    by (simp add: net_funding_growth_eq preciseMul_def PRECISE_UNIT_def ONE_DAY_IN_SECONDS_def)
  then show ?thesis using funding_growth_is_antisymmetric [of 3 "2 ^ 96 * 86400" 5 10] by simp
qed

end
