(* ===== verification/Encoding_Utils.thy ===== *)
theory Encoding_Utils
  imports BigNum
begin

section \<open>Addresses, link identifiers and packed data\<close>

text \<open>
  Models utils/common/adapterUtils.ts, utils/common/libraryUtils.ts and the string functions the
  fixtures use on addresses. Keccak and path.sep are parameters. The interface \<open>token_order\<close> states
  what the fixtures rely on when they sort two tokens the way the Uniswap and Kyber factories do; the
  three copies of \<^verbatim>\<open>getTokenOrder\<close> are interpreted where they are defined.
\<close>

subsection \<open>String functions of JavaScript\<close>

definition js_startsWith :: "string \<Rightarrow> string \<Rightarrow> bool" where
  "js_startsWith p s = (take (length p) s = p)"

fun js_includes :: "string \<Rightarrow> string \<Rightarrow> bool" where
  "js_includes [] p = (p = [])"
| "js_includes (c # cs) p = (js_startsWith p (c # cs) \<or> js_includes cs p)"

text \<open>\<^verbatim>\<open>s.replace(p, r)\<close> with a string pattern: the first occurrence only.\<close>

fun js_replace :: "string \<Rightarrow> string \<Rightarrow> string \<Rightarrow> string" where
  "js_replace p r [] = (if p = [] then r else [])"
| "js_replace p r (c # cs) =
     (if js_startsWith p (c # cs) then r @ drop (length p) (c # cs) else c # js_replace p r cs)"

definition js_padStart :: "nat \<Rightarrow> char \<Rightarrow> string \<Rightarrow> string" where
  "js_padStart n c s = replicate (n - length s) c @ s"

definition js_lower :: "char \<Rightarrow> char" where
  "js_lower c = (let k = of_char c :: nat in if 65 \<le> k \<and> k \<le> 90 then char_of (k + 32) else c)"

definition js_toLowerCase :: "string \<Rightarrow> string" where
  "js_toLowerCase s = map js_lower s"

subsection \<open>adapterUtils.ts and libraryUtils.ts\<close>

definition addressToData :: "address \<Rightarrow> string" where
  "addressToData address = js_replace ''0x'' ''000000000000000000000000'' address"

definition bigNumberToData :: "int \<Rightarrow> string" where
  "bigNumberToData number = js_padStart 64 (CHR ''0'') (js_replace ''0x'' '''' (bn_toHexString number))"

definition hashAdapterName :: "(string \<Rightarrow> bytes) \<Rightarrow> string \<Rightarrow> bytes" where
  "hashAdapterName keccak256 name = keccak256 name"

definition link_id_error :: string where
  "link_id_error = ''Converting library name to link id requires a fully qualified '' @
     ''contract name. Example: `contracts/mocks/LibraryMock.sol:LibraryMock`''"

definition convertLibraryNameToLinkId :: "(string \<Rightarrow> bytes) \<Rightarrow> string \<Rightarrow> string \<Rightarrow> string + string" where
  "convertLibraryNameToLinkId keccak256 path_sep libraryName =
     (if \<not> (js_includes libraryName path_sep \<and> js_includes libraryName '':'')
      then Inl link_id_error
      else let hashedName = keccak256 libraryName
           in Inr (''__$'' @ take 34 (drop 2 hashedName) @ ''$__''))"

subsection \<open>Hexadecimal text\<close>

definition is_hex :: "char \<Rightarrow> bool" where
  "is_hex c = (c \<in> set ''0123456789abcdefABCDEF'')"

definition hex_value :: "string \<Rightarrow> nat" where
  "hex_value s = of_digits 16 (map (digit_val \<circ> js_lower) s)"

definition valid_address :: "address \<Rightarrow> bool" where
  "valid_address a = (length a = 42 \<and> js_startsWith ''0x'' a \<and> list_all is_hex (drop 2 a))"

definition address_value :: "address \<Rightarrow> nat" where
  "address_value a = hex_value (drop 2 a)"

lemma hex_digit:
  assumes "is_hex c"
  shows "digit_val (js_lower c) < 16" and "digit_char (digit_val (js_lower c)) = js_lower c"
  using assms
  by (auto simp: is_hex_def js_lower_def digit_val_def digit_char_def char_of_eq_iff take_bit_eq_mod of_char_of)

lemma js_lower_digit_char [simp]: "d < 16 \<Longrightarrow> js_lower (digit_char d) = digit_char d"
  by (auto simp: js_lower_def digit_char_def Let_def of_char_of)

lemma is_hex_digit_char [simp]:
  assumes "d < 16" shows "is_hex (digit_char d)"
proof -
  have "d \<in> {0, 1, 2, 3, 4, 5, 6, 7, 8, 9, 10, 11, 12, 13, 14, 15}" using assms by (simp only: insert_iff empty_iff) presburger
  then show ?thesis
    by (elim insertE emptyE) (simp_all add: is_hex_def digit_char_def char_of_eq_iff take_bit_eq_mod)
qed

lemma lower_hex_digits:
  "list_all is_hex s \<Longrightarrow> map js_lower s = map digit_char (map (digit_val \<circ> js_lower) s)"
  by (induction s) (auto simp: hex_digit)

lemma hex_digits_less: "list_all is_hex s \<Longrightarrow> d \<in> set (map (digit_val \<circ> js_lower) s) \<Longrightarrow> d < 16"
  by (auto simp: list_all_iff hex_digit)

lemma hex_value_bound: "list_all is_hex s \<Longrightarrow> hex_value s < 16 ^ length s"
  using of_digits_bound [of "map (digit_val \<circ> js_lower) s" 16] hex_digits_less
  by (auto simp: hex_value_def)

lemma lower_less_iff:
  assumes "list_all is_hex s" "list_all is_hex t" "length s = length t"
  shows "map js_lower s < map js_lower t \<longleftrightarrow> hex_value s < hex_value t"
proof -
  let ?f = "digit_val \<circ> js_lower"
  have "map js_lower s < map js_lower t \<longleftrightarrow> map ?f s < map ?f t"
    unfolding lower_hex_digits [OF assms(1)] lower_hex_digits [OF assms(2)]
    using hex_digits_less [OF assms(1)] hex_digits_less [OF assms(2)]
    by (intro map_digit_char_less_iff) auto
  also have "\<dots> \<longleftrightarrow> hex_value s < hex_value t"
    unfolding hex_value_def using hex_digits_less [OF assms(1)] hex_digits_less [OF assms(2)] assms(3)
    by (intro digits_lex_less_iff) auto
  finally show ?thesis .
qed

lemma valid_address_split: "valid_address a \<Longrightarrow> a = ''0x'' @ drop 2 a \<and> length (drop 2 a) = 40"
proof -
  assume "valid_address a"
  then have "take 2 a = ''0x''" and len: "length a = 42"
    by (simp_all add: valid_address_def js_startsWith_def numeral_2_eq_2)
  with append_take_drop_id [of 2 a] have "''0x'' @ drop 2 a = a" by simp
  with len show ?thesis by simp
qed

lemma toLowerCase_less_iff:
  assumes "valid_address a" "valid_address b"
  shows "js_toLowerCase a < js_toLowerCase b \<longleftrightarrow> address_value a < address_value b"
proof -
  have h: "list_all is_hex (drop 2 a)" "list_all is_hex (drop 2 b)"
    using assms by (simp_all add: valid_address_def)
  note sa = valid_address_split [OF assms(1)] and sb = valid_address_split [OF assms(2)]
  have low: "js_toLowerCase x = js_lower (CHR ''0'') # js_lower (CHR ''x'') # map js_lower (drop 2 x)"
    if "x = ''0x'' @ drop 2 x" for x
    using arg_cong [OF that, of js_toLowerCase] by (simp add: js_toLowerCase_def)
  have "js_toLowerCase a < js_toLowerCase b \<longleftrightarrow> map js_lower (drop 2 a) < map js_lower (drop 2 b)"
    using sa sb by (simp add: low)
  then show ?thesis
    unfolding address_value_def using lower_less_iff [OF h] sa sb by simp
qed

subsection \<open>Interface: sorting two tokens\<close>

text \<open>
  A token order returns its two arguments, smaller numeric address first, as the factories' own
  \<^verbatim>\<open>sortTokens\<close> does.
\<close>

locale token_order =
  fixes ord :: "'t \<Rightarrow> 't \<Rightarrow> 't \<times> 't" and addr :: "'t \<Rightarrow> address"
  assumes ord_sorts: "valid_address (addr x) \<Longrightarrow> valid_address (addr y) \<Longrightarrow>
    ord x y = (if address_value (addr x) < address_value (addr y) then (x, y) else (y, x))"
begin

lemma ord_le:
  "valid_address (addr x) \<Longrightarrow> valid_address (addr y) \<Longrightarrow> ord x y = (u, v) \<Longrightarrow>
     address_value (addr u) \<le> address_value (addr v) \<and> {u, v} = {x, y}"
  by (auto simp: ord_sorts split: if_splits)

lemma ord_commute:
  "valid_address (addr x) \<Longrightarrow> valid_address (addr y) \<Longrightarrow> address_value (addr x) \<noteq> address_value (addr y) \<Longrightarrow>
     ord x y = ord y x"
  by (auto simp: ord_sorts)

lemma ord_idem:
  "valid_address (addr x) \<Longrightarrow> valid_address (addr y) \<Longrightarrow> address_value (addr x) \<noteq> address_value (addr y) \<Longrightarrow>
     ord (fst (ord x y)) (snd (ord x y)) = ord x y"
  by (auto simp: ord_sorts)

end

subsection \<open>Packed data\<close>

lemma js_replace_prefix: "p \<noteq> [] \<Longrightarrow> js_replace p r (p @ s) = r @ s"
  by (cases p) (simp_all add: js_startsWith_def)

lemma hex_value_zeros [simp]: "hex_value (replicate k (CHR ''0'') @ s) = hex_value s"
proof -
  have "(digit_val \<circ> js_lower) (CHR ''0'') = 0" by code_simp
  then show ?thesis by (simp add: hex_value_def)
qed

lemma zeros_24: "''000000000000000000000000'' = replicate 24 (CHR ''0'')"
  by code_simp

lemma addressToData_valid: "valid_address a \<Longrightarrow> addressToData a = replicate 24 (CHR ''0'') @ drop 2 a"
  using valid_address_split [of a] js_replace_prefix [of "''0x''" "''000000000000000000000000''" "drop 2 a"]
  by (simp add: addressToData_def zeros_24)

lemma hex_value_map_digit_char: "(\<And>d. d \<in> set ds \<Longrightarrow> d < 16) \<Longrightarrow> hex_value (map digit_char ds) = of_digits 16 ds"
  unfolding hex_value_def map_map by (rule arg_cong [of _ _ "of_digits 16"]) (simp add: map_idI)

lemma bn_toHexString_nonneg:
  "0 \<le> n \<Longrightarrow> \<exists>k. bn_toHexString n = ''0x'' @ replicate k (CHR ''0'') @ map digit_char (to_digits 16 (nat n)) \<and>
     even (k + length (to_digits 16 (nat n))) \<and> k \<le> 1"
  by (cases "odd (length (to_digits 16 (nat n)))")
     (auto simp: bn_toHexString_def Let_def intro: exI [of _ "0::nat"] exI [of _ "1::nat"])

subsection \<open>Properties\<close>

text \<open>
  Packing an address into calldata: for every well-formed address the result is one 32 byte
  word (64 hexadecimal digits) with the numeric value of the address.
\<close>

lemma address_packs_to_word:
  assumes "valid_address a"
  shows "length (addressToData a) = 64 \<and> list_all is_hex (addressToData a) \<and>
    hex_value (addressToData a) = address_value a"
proof -
  have "is_hex (CHR ''0'')" by code_simp
  then show ?thesis using assms valid_address_split [OF assms]
    by (simp add: addressToData_valid address_value_def valid_address_def list_all_iff)
qed

lemma address_packs_to_word_instance:
  "length (addressToData ''0xEeeeeEeeeEeEeeEeEeEeeEEEeeeeEeeeeeeeEEeE'') = 64 \<and>
    list_all is_hex (addressToData ''0xEeeeeEeeeEeEeeEeEeEeeEEEeeeeEeeeeeeeEEeE'') \<and>
    hex_value (addressToData ''0xEeeeeEeeeEeEeeEeEeEeeEEEeeeeEeeeeeeeEEeE'')
      = address_value ''0xEeeeeEeeeEeEeeEeEeEeeEEEeeeeEeeeeeeeEEeE''"
proof -
  have "valid_address ''0xEeeeeEeeeEeEeeEeEeEeeEEEeeeeEeeeeeeeEEeE''" by code_simp
  then show ?thesis by (rule address_packs_to_word)
qed

text \<open>
  Packing a number into calldata and reading it back: exactly the numbers of a 256 bit word give
  64 hexadecimal digits, and for every non-negative number the digits have its value.
\<close>

lemma number_packs_to_word:
  assumes "0 \<le> n"
  shows "int (hex_value (bigNumberToData n)) = n \<and>
    (length (bigNumberToData n) = 64 \<longleftrightarrow> n < 2 ^ 256)"
proof -
  let ?ds = "to_digits 16 (nat n)"
  obtain k where k: "bn_toHexString n = ''0x'' @ replicate k (CHR ''0'') @ map digit_char ?ds"
    "even (k + length ?ds)" "k \<le> 1"
    using bn_toHexString_nonneg [OF assms] by blast
  have data: "bigNumberToData n = replicate (64 - (k + length ?ds)) (CHR ''0'') @ replicate k (CHR ''0'')
      @ map digit_char ?ds"
    using js_replace_prefix [of "''0x''" "[]"] by (simp add: bigNumberToData_def k(1) js_padStart_def)
  have small: "\<And>d. d \<in> set ?ds \<Longrightarrow> d < 16" using to_digits_less [of 16] by simp
  have val: "hex_value (bigNumberToData n) = nat n"
    using hex_value_map_digit_char [OF small] by (simp add: data)
  have len: "length (bigNumberToData n) = max 64 (k + length ?ds)" by (simp add: data)
  have "length (bigNumberToData n) = 64" if "n < 2 ^ 256"
  proof -
    have "nat n < 16 ^ 64" using that assms by (simp add: nat_less_iff)
    then have "length ?ds \<le> 64" by (intro length_to_digits_le) simp_all
    then have "k + length ?ds \<le> 65" using k(3) by simp
    moreover have "k + length ?ds \<noteq> 65" using k(2) by (metis even_numeral odd_one even_add numeral_Bit1 numeral_One odd_numeral)
    ultimately have "k + length ?ds \<le> 64" by linarith
    then show ?thesis by (simp add: len)
  qed
  moreover have "n < 2 ^ 256" if "length (bigNumberToData n) = 64"
  proof -
    have "length ?ds \<le> 64" using that by (simp add: len)
    then have "(16::nat) ^ length ?ds \<le> 16 ^ 64" by (intro power_increasing) simp_all
    moreover have "nat n < 16 ^ length ?ds" using of_digits_bound [of ?ds 16, OF small] by simp
    ultimately have "nat n < 16 ^ 64" by (rule order.strict_trans2 [rotated])
    then show ?thesis using assms by (simp add: nat_less_iff)
  qed
  ultimately show ?thesis using val assms by auto
qed

lemma number_packs_to_word_instance:
  "int (hex_value (bigNumberToData 4660)) = 4660 \<and> (length (bigNumberToData 4660) = 64 \<longleftrightarrow> 4660 < (2::int) ^ 256)"
  by (rule number_packs_to_word) simp

text \<open>
  Link identifiers: exactly the names without a path separator or without a colon are rejected
  with the error; any other name gives 40 characters, the length of the placeholder of a 20 byte
  address in unlinked bytecode, with 34 digits of the hash between the markers. The hash is a
  parameter: keccak256 returns \<^verbatim>\<open>0x\<close> and 64 digits.
\<close>

lemma link_id_fills_address_slot:
  assumes "\<And>s. length (keccak256 s) = 66"
  shows "case convertLibraryNameToLinkId keccak256 path_sep libraryName of
      Inl m \<Rightarrow> m = link_id_error \<and> \<not> (js_includes libraryName path_sep \<and> js_includes libraryName '':'')
    | Inr l \<Rightarrow> js_includes libraryName path_sep \<and> js_includes libraryName '':'' \<and> length l = 40 \<and>
        take 34 (drop 3 l) = take 34 (drop 2 (keccak256 libraryName))"
  by (simp add: convertLibraryNameToLinkId_def assms Let_def)

lemma link_id_fills_address_slot_instance:
  "case convertLibraryNameToLinkId (\<lambda>_. replicate 66 (CHR ''a'')) ''/'' ''contracts/lib/A.sol:A'' of
      Inl m \<Rightarrow> m = link_id_error \<and>
        \<not> (js_includes ''contracts/lib/A.sol:A'' ''/'' \<and> js_includes ''contracts/lib/A.sol:A'' '':'')
    | Inr l \<Rightarrow> js_includes ''contracts/lib/A.sol:A'' ''/'' \<and> js_includes ''contracts/lib/A.sol:A'' '':'' \<and>
        length l = 40 \<and> take 34 (drop 3 l) = take 34 (drop 2 (replicate 66 (CHR ''a'')))"
  by (rule link_id_fills_address_slot) simp

end
