(* ===== verification/Deploy_Core.thy ===== *)
theory Deploy_Core
  imports Chain_Model Math_Utils
begin

section \<open>Deploy helpers: the core contracts, libraries, oracles, product, viewers\<close>

text \<open>
  Models utils/deploys/deployCoreContracts.ts, deployLibraries.ts, deployOracles.ts, deployProduct.ts,
  deployViewers.ts and the class of utils/deploys/index.ts. A \<^verbatim>\<open>deploy\<close> method is one awaited
  factory deployment by the class's signer; a \<^verbatim>\<open>get\<close> method attaches to an address and does not touch
  the chain.
\<close>

subsection \<open>deployCoreContracts.ts\<close>

definition deployController :: "env \<Rightarrow> deployer \<Rightarrow> address \<Rightarrow> chain \<Rightarrow> contract result" where [deploy_defs]:
  "deployController e this feeRecipient s =
     deploy e (deployerSigner this) ''Controller'' [Addr feeRecipient] s"

definition getController :: "deployer \<Rightarrow> address \<Rightarrow> contract" where
  "getController this controllerAddress = attach ''Controller'' controllerAddress (deployerSigner this)"

definition deploySetTokenCreator :: "env \<Rightarrow> deployer \<Rightarrow> address \<Rightarrow> chain \<Rightarrow> contract result" where [deploy_defs]:
  "deploySetTokenCreator e this controller s =
     deploy e (deployerSigner this) ''SetTokenCreator'' [Addr controller] s"

definition getSetTokenCreator :: "deployer \<Rightarrow> address \<Rightarrow> contract" where
  "getSetTokenCreator this setTokenCreatorAddress = attach ''SetTokenCreator'' setTokenCreatorAddress (deployerSigner this)"

definition deploySetToken ::
    "env \<Rightarrow> deployer \<Rightarrow> address list \<Rightarrow> int list \<Rightarrow> address list \<Rightarrow> address \<Rightarrow> address \<Rightarrow> string \<Rightarrow>
     string \<Rightarrow> chain \<Rightarrow> contract result" where [deploy_defs]:
  "deploySetToken e this components units modules controller manager name symbol s =
     deploy e (deployerSigner this) ''SetToken'' [Addrs components, Nums units, Addrs modules,
       Addr controller, Addr manager, Str name, Str symbol] s"

definition getSetToken :: "deployer \<Rightarrow> address \<Rightarrow> contract" where
  "getSetToken this setTokenAddress = attach ''SetToken'' setTokenAddress (deployerSigner this)"

definition deployPriceOracle ::
    "env \<Rightarrow> deployer \<Rightarrow> address \<Rightarrow> address \<Rightarrow> address list \<Rightarrow> address list \<Rightarrow> address list \<Rightarrow> address
     list \<Rightarrow> chain \<Rightarrow> contract result" where [deploy_defs]:
  "deployPriceOracle e this controller masterQuoteAsset adapters assetOnes assetTwos oracles s =
     deploy e (deployerSigner this) ''PriceOracle'' [Addr controller, Addr masterQuoteAsset,
       Addrs adapters, Addrs assetOnes, Addrs assetTwos, Addrs oracles] s"

definition getPriceOracle :: "deployer \<Rightarrow> address \<Rightarrow> contract" where
  "getPriceOracle this priceOracleAddress = attach ''PriceOracle'' priceOracleAddress (deployerSigner this)"

definition deployIntegrationRegistry :: "env \<Rightarrow> deployer \<Rightarrow> address \<Rightarrow> chain \<Rightarrow> contract result" where [deploy_defs]:
  "deployIntegrationRegistry e this controller s =
     deploy e (deployerSigner this) ''IntegrationRegistry'' [Addr controller] s"

definition getIntegrationRegistry :: "deployer \<Rightarrow> address \<Rightarrow> contract" where
  "getIntegrationRegistry this integrationRegistryAddress = attach ''IntegrationRegistry'' integrationRegistryAddress (deployerSigner this)"

definition deploySetValuer :: "env \<Rightarrow> deployer \<Rightarrow> address \<Rightarrow> chain \<Rightarrow> contract result" where [deploy_defs]:
  "deploySetValuer e this controller s =
     deploy e (deployerSigner this) ''SetValuer'' [Addr controller] s"


subsection \<open>deployLibraries.ts\<close>

definition deployCompound :: "env \<Rightarrow> deployer \<Rightarrow> chain \<Rightarrow> contract result" where [deploy_defs]:
  "deployCompound e this s =
     deploy e (deployerSigner this) ''Compound'' [] s"

definition deployAaveV2 :: "env \<Rightarrow> deployer \<Rightarrow> chain \<Rightarrow> contract result" where [deploy_defs]:
  "deployAaveV2 e this s =
     deploy e (deployerSigner this) ''AaveV2'' [] s"

definition deployAaveV3 :: "env \<Rightarrow> deployer \<Rightarrow> chain \<Rightarrow> contract result" where [deploy_defs]:
  "deployAaveV3 e this s =
     deploy e (deployerSigner this) ''AaveV3'' [] s"

definition deployPerpV2 :: "env \<Rightarrow> deployer \<Rightarrow> chain \<Rightarrow> contract result" where [deploy_defs]:
  "deployPerpV2 e this s =
     deploy e (deployerSigner this) ''PerpV2'' [] s"

definition deployPositionV2 :: "env \<Rightarrow> deployer \<Rightarrow> chain \<Rightarrow> contract result" where [deploy_defs]:
  "deployPositionV2 e this s =
     deploy e (deployerSigner this) ''PositionV2'' [] s"

definition deployPerpV2LibraryV2 :: "env \<Rightarrow> deployer \<Rightarrow> chain \<Rightarrow> contract result" where [deploy_defs]:
  "deployPerpV2LibraryV2 e this s =
     deploy e (deployerSigner this) ''PerpV2LibraryV2'' [] s"

definition deployPerpV2Positions :: "env \<Rightarrow> deployer \<Rightarrow> chain \<Rightarrow> contract result" where [deploy_defs]:
  "deployPerpV2Positions e this s =
     deploy e (deployerSigner this) ''PerpV2Positions'' [] s"


subsection \<open>deployOracles.ts\<close>

definition deployCTokenOracle ::
    "env \<Rightarrow> deployer \<Rightarrow> address \<Rightarrow> address \<Rightarrow> int \<Rightarrow> int \<Rightarrow> string \<Rightarrow> chain \<Rightarrow> contract result" where [deploy_defs]:
  "deployCTokenOracle e this cToken underlyingOracle cTokenFullUnit underlyingFullUnit
     dataDescription s =
     deploy e (deployerSigner this) ''CTokenOracle'' [Addr cToken, Addr underlyingOracle, Num
       cTokenFullUnit, Num underlyingFullUnit, Str dataDescription] s"

definition deployYearnVaultOracle ::
    "env \<Rightarrow> deployer \<Rightarrow> address \<Rightarrow> address \<Rightarrow> int \<Rightarrow> string \<Rightarrow> chain \<Rightarrow> contract result" where [deploy_defs]:
  "deployYearnVaultOracle e this vault' underlyingOracle underlyingFullUnit dataDescription s =
     deploy e (deployerSigner this) ''YearnVaultOracle'' [Addr vault', Addr underlyingOracle, Num
       underlyingFullUnit, Str dataDescription] s"


subsection \<open>deployProduct.ts\<close>

definition deployAssetLimitHook ::
    "env \<Rightarrow> deployer \<Rightarrow> address list \<Rightarrow> int list \<Rightarrow> chain \<Rightarrow> contract result" where [deploy_defs]:
  "deployAssetLimitHook e this assets' limits s =
     deploy e (deployerSigner this) ''AssetLimitHook'' [Addrs assets', Nums limits] s"

definition getAssetLimitHook :: "deployer \<Rightarrow> address \<Rightarrow> contract" where
  "getAssetLimitHook this assetLimitHookAddress = attach ''AssetLimitHook'' assetLimitHookAddress (deployerSigner this)"

definition deployAMMSplitter ::
    "env \<Rightarrow> deployer \<Rightarrow> address \<Rightarrow> address \<Rightarrow> address \<Rightarrow> address \<Rightarrow> chain \<Rightarrow> contract result" where [deploy_defs]:
  "deployAMMSplitter e this uniRouter sushiRouter uniFactory sushiFactory s =
     deploy e (deployerSigner this) ''AMMSplitter'' [Addr uniRouter, Addr sushiRouter, Addr
       uniFactory, Addr sushiFactory] s"


subsection \<open>deployViewers.ts\<close>

definition deployProtocolViewer :: "env \<Rightarrow> deployer \<Rightarrow> chain \<Rightarrow> contract result" where [deploy_defs]:
  "deployProtocolViewer e this s =
     deploy e (deployerSigner this) ''ProtocolViewer'' [] s"

definition deployPerpV2LeverageModuleViewer ::
    "env \<Rightarrow> deployer \<Rightarrow> address \<Rightarrow> address \<Rightarrow> address \<Rightarrow> address \<Rightarrow> chain \<Rightarrow> contract result" where [deploy_defs]:
  "deployPerpV2LeverageModuleViewer e this perpModule perpAccountBalance
     perpClearingHouseConfig vQuoteToken s =
     deploy e (deployerSigner this) ''PerpV2LeverageModuleViewer'' [Addr perpModule, Addr
       perpAccountBalance, Addr perpClearingHouseConfig, Addr vQuoteToken] s"


subsection \<open>deploys/index.ts\<close>

record DeployHelper =
  libraries :: deployer
  mocks :: deployer
  modules :: deployer
  core :: deployer
  external :: deployer
  adapters :: deployer
  viewers :: deployer
  product :: deployer
  oracles :: deployer

definition new_DeployHelper :: "address \<Rightarrow> DeployHelper" where [deploy_defs]:
  "new_DeployHelper deployerSigner' =
     \<lparr>libraries = \<lparr>deployerSigner = deployerSigner'\<rparr>,
      mocks = \<lparr>deployerSigner = deployerSigner'\<rparr>,
      modules = \<lparr>deployerSigner = deployerSigner'\<rparr>,
      core = \<lparr>deployerSigner = deployerSigner'\<rparr>,
      external = \<lparr>deployerSigner = deployerSigner'\<rparr>,
      adapters = \<lparr>deployerSigner = deployerSigner'\<rparr>,
      viewers = \<lparr>deployerSigner = deployerSigner'\<rparr>,
      product = \<lparr>deployerSigner = deployerSigner'\<rparr>,
      oracles = \<lparr>deployerSigner = deployerSigner'\<rparr>\<rparr>"

text \<open>All nine helpers of one \<^verbatim>\<open>DeployHelper\<close> share its signer.\<close>

definition signer_of :: "DeployHelper \<Rightarrow> address" where
  "signer_of h = deployerSigner (core h)"

definition helper_ok :: "DeployHelper \<Rightarrow> bool" where
  "helper_ok h \<longleftrightarrow> h = new_DeployHelper (signer_of h)"

lemma helper_ok_new [simp]: "helper_ok (new_DeployHelper a)" "signer_of (new_DeployHelper a) = a"
  by (simp_all add: helper_ok_def signer_of_def new_DeployHelper_def)

lemma new_DeployHelper_signers [simp]:
  "deployerSigner (libraries (new_DeployHelper a)) = a" "deployerSigner (mocks (new_DeployHelper a)) = a"
  "deployerSigner (modules (new_DeployHelper a)) = a" "deployerSigner (core (new_DeployHelper a)) = a"
  "deployerSigner (external (new_DeployHelper a)) = a" "deployerSigner (adapters (new_DeployHelper a)) = a"
  "deployerSigner (viewers (new_DeployHelper a)) = a" "deployerSigner (product (new_DeployHelper a)) = a"
  "deployerSigner (oracles (new_DeployHelper a)) = a"
  by (simp_all add: new_DeployHelper_def)

subsection \<open>The interface\<close>

text \<open>Each helper is an instance of the interface \<open>deploy_helper\<close>, with its constructor arguments.\<close>

interpretation deployController_helper: deploy_helper
  "\<lambda>e this feeRecipient. deployController e this feeRecipient"
  "''Controller''" "\<lambda>_. []" "\<lambda>feeRecipient. [Addr feeRecipient]"
  by unfold_locales (auto simp: deployController_def deploy_def)

interpretation deploySetTokenCreator_helper: deploy_helper
  "\<lambda>e this controller. deploySetTokenCreator e this controller"
  "''SetTokenCreator''" "\<lambda>_. []" "\<lambda>controller. [Addr controller]"
  by unfold_locales (auto simp: deploySetTokenCreator_def deploy_def)

interpretation deployIntegrationRegistry_helper: deploy_helper
  "\<lambda>e this controller. deployIntegrationRegistry e this controller"
  "''IntegrationRegistry''" "\<lambda>_. []" "\<lambda>controller. [Addr controller]"
  by unfold_locales (auto simp: deployIntegrationRegistry_def deploy_def)

interpretation deploySetValuer_helper: deploy_helper
  "\<lambda>e this controller. deploySetValuer e this controller"
  "''SetValuer''" "\<lambda>_. []" "\<lambda>controller. [Addr controller]"
  by unfold_locales (auto simp: deploySetValuer_def deploy_def)

interpretation deployPriceOracle_helper: deploy_helper
  "\<lambda>e this (controller, master, as, os, ts, ors). deployPriceOracle e this controller master as os ts ors"
  "''PriceOracle''" "\<lambda>_. []" "\<lambda>(controller, master, as, os, ts, ors). [Addr controller, Addr master, Addrs as, Addrs os, Addrs ts, Addrs ors]"
  by unfold_locales (auto simp: deployPriceOracle_def deploy_def)

interpretation deploySetToken_helper: deploy_helper
  "\<lambda>e this (cs, us, ms, controller, manager, name, symbol). deploySetToken e this cs us ms controller manager name symbol"
  "''SetToken''" "\<lambda>_. []" "\<lambda>(cs, us, ms, controller, manager, name, symbol). [Addrs cs, Nums us, Addrs ms, Addr controller, Addr manager, Str name, Str symbol]"
  by unfold_locales (auto simp: deploySetToken_def deploy_def)

end
