(* ===== verification/Deploy_Modules.thy ===== *)
theory Deploy_Modules
  imports Deploy_Core
begin

section \<open>Deploy helpers: the modules\<close>

text \<open>
  Models utils/deploys/deployModules.ts. A helper with libraries passes them to its factory in an
  object with computed keys, so two libraries with the same name would leave one entry.
\<close>

subsection \<open>deployModules.ts\<close>

definition deployBasicIssuanceModule :: "env \<Rightarrow> deployer \<Rightarrow> address \<Rightarrow> chain \<Rightarrow> contract result" where [deploy_defs]:
  "deployBasicIssuanceModule e this controller s =
     deploy e (deployerSigner this) ''BasicIssuanceModule'' [Addr controller] s"

definition deployIssuanceModule :: "env \<Rightarrow> deployer \<Rightarrow> address \<Rightarrow> chain \<Rightarrow> contract result" where [deploy_defs]:
  "deployIssuanceModule e this controller s =
     deploy e (deployerSigner this) ''IssuanceModule'' [Addr controller] s"

definition deployDebtIssuanceModule :: "env \<Rightarrow> deployer \<Rightarrow> address \<Rightarrow> chain \<Rightarrow> contract result" where [deploy_defs]:
  "deployDebtIssuanceModule e this controller s =
     deploy e (deployerSigner this) ''DebtIssuanceModule'' [Addr controller] s"

definition deployDebtIssuanceModuleV2 :: "env \<Rightarrow> deployer \<Rightarrow> address \<Rightarrow> chain \<Rightarrow> contract result" where [deploy_defs]:
  "deployDebtIssuanceModuleV2 e this controller s =
     deploy e (deployerSigner this) ''DebtIssuanceModuleV2'' [Addr controller] s"

definition deploySlippageIssuanceModule :: "env \<Rightarrow> deployer \<Rightarrow> address \<Rightarrow> chain \<Rightarrow> contract result" where [deploy_defs]:
  "deploySlippageIssuanceModule e this controller s =
     deploy e (deployerSigner this) ''SlippageIssuanceModule'' [Addr controller] s"

definition deployAmmModule :: "env \<Rightarrow> deployer \<Rightarrow> address \<Rightarrow> chain \<Rightarrow> contract result" where [deploy_defs]:
  "deployAmmModule e this controller s =
     deploy e (deployerSigner this) ''AmmModule'' [Addr controller] s"

definition getBasicIssuanceModule :: "deployer \<Rightarrow> address \<Rightarrow> contract" where
  "getBasicIssuanceModule this basicIssuanceModule = attach ''BasicIssuanceModule'' basicIssuanceModule (deployerSigner this)"

definition deployStreamingFeeModule :: "env \<Rightarrow> deployer \<Rightarrow> address \<Rightarrow> chain \<Rightarrow> contract result" where [deploy_defs]:
  "deployStreamingFeeModule e this controller s =
     deploy e (deployerSigner this) ''StreamingFeeModule'' [Addr controller] s"

definition getStreamingFeeModule :: "deployer \<Rightarrow> address \<Rightarrow> contract" where
  "getStreamingFeeModule this streamingFeeModule = attach ''StreamingFeeModule'' streamingFeeModule (deployerSigner this)"

definition deployAirdropModule :: "env \<Rightarrow> deployer \<Rightarrow> address \<Rightarrow> chain \<Rightarrow> contract result" where [deploy_defs]:
  "deployAirdropModule e this controller s =
     deploy e (deployerSigner this) ''AirdropModule'' [Addr controller] s"

definition deployTradeModule :: "env \<Rightarrow> deployer \<Rightarrow> address \<Rightarrow> chain \<Rightarrow> contract result" where [deploy_defs]:
  "deployTradeModule e this controller s =
     deploy e (deployerSigner this) ''TradeModule'' [Addr controller] s"

definition deployWrapModule :: "env \<Rightarrow> deployer \<Rightarrow> address \<Rightarrow> address \<Rightarrow> chain \<Rightarrow> contract result" where [deploy_defs]:
  "deployWrapModule e this controller weth s =
     deploy e (deployerSigner this) ''WrapModule'' [Addr controller, Addr weth] s"

definition deployClaimModule :: "env \<Rightarrow> deployer \<Rightarrow> address \<Rightarrow> chain \<Rightarrow> contract result" where [deploy_defs]:
  "deployClaimModule e this controller s =
     deploy e (deployerSigner this) ''ClaimModule'' [Addr controller] s"

definition deployStakingModule :: "env \<Rightarrow> deployer \<Rightarrow> address \<Rightarrow> chain \<Rightarrow> contract result" where [deploy_defs]:
  "deployStakingModule e this controller s =
     deploy e (deployerSigner this) ''StakingModule'' [Addr controller] s"

definition deployCustomOracleNavIssuanceModule ::
    "env \<Rightarrow> deployer \<Rightarrow> address \<Rightarrow> address \<Rightarrow> chain \<Rightarrow> contract result" where [deploy_defs]:
  "deployCustomOracleNavIssuanceModule e this controller weth s =
     deploy e (deployerSigner this) ''CustomOracleNavIssuanceModule'' [Addr controller, Addr
       weth] s"

definition deploySingleIndexModule ::
    "env \<Rightarrow> deployer \<Rightarrow> address \<Rightarrow> address \<Rightarrow> address \<Rightarrow> address \<Rightarrow> address \<Rightarrow> chain \<Rightarrow> contract result" where [deploy_defs]:
  "deploySingleIndexModule e this controller weth uniswapRouter sushiswapRouter balancerProxy s =
     deploy e (deployerSigner this) ''SingleIndexModule'' [Addr controller, Addr weth, Addr
       uniswapRouter, Addr sushiswapRouter, Addr balancerProxy] s"

definition deployGeneralIndexModule ::
    "env \<Rightarrow> deployer \<Rightarrow> address \<Rightarrow> address \<Rightarrow> chain \<Rightarrow> contract result" where [deploy_defs]:
  "deployGeneralIndexModule e this controller weth s =
     deploy e (deployerSigner this) ''GeneralIndexModule'' [Addr controller, Addr weth] s"

definition deployGovernanceModule :: "env \<Rightarrow> deployer \<Rightarrow> address \<Rightarrow> chain \<Rightarrow> contract result" where [deploy_defs]:
  "deployGovernanceModule e this controller s =
     deploy e (deployerSigner this) ''GovernanceModule'' [Addr controller] s"

definition deployCompoundLeverageModule ::
    "env \<Rightarrow> deployer \<Rightarrow> address \<Rightarrow> address \<Rightarrow> address \<Rightarrow> address \<Rightarrow> address \<Rightarrow> string \<Rightarrow> address \<Rightarrow> chain
     \<Rightarrow> contract result" where [deploy_defs]:
  "deployCompoundLeverageModule e this controller compToken comptroller cEth weth libraryName
     libraryAddress s =
     deploy_linked e (deployerSigner this) ''CompoundLeverageModule''
     (js_object [(libraryName, libraryAddress)]) [Addr controller, Addr compToken, Addr
       comptroller, Addr cEth, Addr weth] s"

definition deployAaveLeverageModule ::
    "env \<Rightarrow> deployer \<Rightarrow> address \<Rightarrow> address \<Rightarrow> string \<Rightarrow> address \<Rightarrow> chain \<Rightarrow> contract result" where [deploy_defs]:
  "deployAaveLeverageModule e this controller lendingPoolAddressesProvider libraryName
     libraryAddress s =
     deploy_linked e (deployerSigner this) ''AaveLeverageModule''
     (js_object [(libraryName, libraryAddress)]) [Addr controller, Addr
       lendingPoolAddressesProvider] s"

definition deployAaveV3LeverageModule ::
    "env \<Rightarrow> deployer \<Rightarrow> address \<Rightarrow> address \<Rightarrow> string \<Rightarrow> address \<Rightarrow> chain \<Rightarrow> contract result" where [deploy_defs]:
  "deployAaveV3LeverageModule e this controller lendingPoolAddressesProvider libraryName
     libraryAddress s =
     deploy_linked e (deployerSigner this) ''AaveV3LeverageModule''
     (js_object [(libraryName, libraryAddress)]) [Addr controller, Addr
       lendingPoolAddressesProvider] s"

definition deployNotionalTradeModule ::
    "env \<Rightarrow> deployer \<Rightarrow> address \<Rightarrow> address \<Rightarrow> address \<Rightarrow> address \<Rightarrow> int \<Rightarrow> chain \<Rightarrow> contract result" where [deploy_defs]:
  "deployNotionalTradeModule e this controller wrappedfCashFactory weth notionalV2
     decodedIdGasLimit s =
     deploy e (deployerSigner this) ''NotionalTradeModule'' [Addr controller, Addr
       wrappedfCashFactory, Addr weth, Addr notionalV2, Num decodedIdGasLimit] s"

definition deployWrapModuleV2 :: "env \<Rightarrow> deployer \<Rightarrow> address \<Rightarrow> address \<Rightarrow> chain \<Rightarrow> contract result" where [deploy_defs]:
  "deployWrapModuleV2 e this controller weth s =
     deploy e (deployerSigner this) ''WrapModuleV2'' [Addr controller, Addr weth] s"

definition deployPerpV2LeverageModuleV2 ::
    "env \<Rightarrow> deployer \<Rightarrow> address \<Rightarrow> address \<Rightarrow> address \<Rightarrow> address \<Rightarrow> int \<Rightarrow> string \<Rightarrow> address \<Rightarrow> string \<Rightarrow>
     address \<Rightarrow> string \<Rightarrow> address \<Rightarrow> chain \<Rightarrow> contract result" where [deploy_defs]:
  "deployPerpV2LeverageModuleV2 e this controller perpVault perpQuoter perpMarketRegistry
     maxPerpPositionsPerSet positionV2LibraryName positionV2LibraryAddress perpV2LibraryName
     perpV2LibraryAddress perpV2PositionsLibraryName perpV2PositionsLibraryAddress s =
     deploy_linked e (deployerSigner this) ''PerpV2LeverageModuleV2''
     (js_object [(positionV2LibraryName, positionV2LibraryAddress), (perpV2LibraryName,
       perpV2LibraryAddress), (perpV2PositionsLibraryName, perpV2PositionsLibraryAddress)]) [Addr
       controller, Addr perpVault, Addr perpQuoter, Addr perpMarketRegistry, Num
       maxPerpPositionsPerSet] s"

definition deployPerpV2BasisTradingModule ::
    "env \<Rightarrow> deployer \<Rightarrow> address \<Rightarrow> address \<Rightarrow> address \<Rightarrow> address \<Rightarrow> int \<Rightarrow> string \<Rightarrow> address \<Rightarrow> string \<Rightarrow>
     address \<Rightarrow> string \<Rightarrow> address \<Rightarrow> chain \<Rightarrow> contract result" where [deploy_defs]:
  "deployPerpV2BasisTradingModule e this controller perpVault perpQuoter perpMarketRegistry
     maxPerpPositionsPerSet positionV2LibraryName positionV2LibraryAddress perpV2LibraryName
     perpV2LibraryAddress perpV2PositionsLibraryName perpV2PositionsLibraryAddress s =
     deploy_linked e (deployerSigner this) ''PerpV2BasisTradingModule''
     (js_object [(positionV2LibraryName, positionV2LibraryAddress), (perpV2LibraryName,
       perpV2LibraryAddress), (perpV2PositionsLibraryName, perpV2PositionsLibraryAddress)]) [Addr
       controller, Addr perpVault, Addr perpQuoter, Addr perpMarketRegistry, Num
       maxPerpPositionsPerSet] s"

definition deployAuctionRebalanceModuleV1 :: "env \<Rightarrow> deployer \<Rightarrow> address \<Rightarrow> chain \<Rightarrow> contract result" where [deploy_defs]:
  "deployAuctionRebalanceModuleV1 e this controller s =
     deploy e (deployerSigner this) ''AuctionRebalanceModuleV1'' [Addr controller] s"


subsection \<open>The interface\<close>

text \<open>Each helper is an instance of the interface \<open>deploy_helper\<close>, with its constructor arguments.\<close>

interpretation deployBasicIssuanceModule_helper: deploy_helper
  "\<lambda>e this controller. deployBasicIssuanceModule e this controller"
  "''BasicIssuanceModule''" "\<lambda>_. []" "\<lambda>controller. [Addr controller]"
  by unfold_locales (auto simp: deployBasicIssuanceModule_def deploy_def)

interpretation deployStreamingFeeModule_helper: deploy_helper
  "\<lambda>e this controller. deployStreamingFeeModule e this controller"
  "''StreamingFeeModule''" "\<lambda>_. []" "\<lambda>controller. [Addr controller]"
  by unfold_locales (auto simp: deployStreamingFeeModule_def deploy_def)

interpretation deployCustomOracleNavIssuanceModule_helper: deploy_helper
  "\<lambda>e this (controller, weth). deployCustomOracleNavIssuanceModule e this controller weth"
  "''CustomOracleNavIssuanceModule''" "\<lambda>_. []" "\<lambda>(controller, weth). [Addr controller, Addr weth]"
  by unfold_locales (auto simp: deployCustomOracleNavIssuanceModule_def deploy_def)

interpretation deployCompoundLeverageModule_helper: deploy_helper
  "\<lambda>e this (controller, comp, comptroller, cEth, weth, libraryName, libraryAddress). deployCompoundLeverageModule e this controller comp comptroller cEth weth libraryName libraryAddress"
  "''CompoundLeverageModule''" "\<lambda>(controller, comp, comptroller, cEth, weth, libraryName, libraryAddress). js_object [(libraryName, libraryAddress)]" "\<lambda>(controller, comp, comptroller, cEth, weth, libraryName, libraryAddress). [Addr controller, Addr comp, Addr comptroller, Addr cEth, Addr weth]"
  by unfold_locales (auto simp: deployCompoundLeverageModule_def deploy_def)

interpretation deployPerpV2LeverageModuleV2_helper: deploy_helper
  "\<lambda>e this (controller, v, q, r, n, l1, a1, l2, a2, l3, a3). deployPerpV2LeverageModuleV2 e this controller v q r n l1 a1 l2 a2 l3 a3"
  "''PerpV2LeverageModuleV2''" "\<lambda>(controller, v, q, r, n, l1, a1, l2, a2, l3, a3). js_object [(l1, a1), (l2, a2), (l3, a3)]" "\<lambda>(controller, v, q, r, n, l1, a1, l2, a2, l3, a3). [Addr controller, Addr v, Addr q, Addr r, Num n]"
  by unfold_locales (auto simp: deployPerpV2LeverageModuleV2_def deploy_def)

end
