(* ===== verification/Deploy_Adapters.thy ===== *)
theory Deploy_Adapters
  imports Deploy_Core Dependencies
begin

section \<open>Deploy helpers: the adapters\<close>

text \<open>
  Models utils/deploys/deployAdapters.ts.
\<close>

subsection \<open>deployAdapters.ts\<close>

definition deployKyberExchangeAdapter :: "env \<Rightarrow> deployer \<Rightarrow> address \<Rightarrow> chain \<Rightarrow> contract result" where [deploy_defs]:
  "deployKyberExchangeAdapter e this kyberNetworkProxy s =
     deploy e (deployerSigner this) ''KyberExchangeAdapter'' [Addr kyberNetworkProxy] s"

definition deployOneInchExchangeAdapter ::
    "env \<Rightarrow> deployer \<Rightarrow> address \<Rightarrow> address \<Rightarrow> bytes \<Rightarrow> chain \<Rightarrow> contract result" where [deploy_defs]:
  "deployOneInchExchangeAdapter e this approveAddress exchangeAddress swapFunctionSignature s =
     deploy e (deployerSigner this) ''OneInchExchangeAdapter'' [Addr approveAddress, Addr
       exchangeAddress, Bytes swapFunctionSignature] s"

definition deployUniswapV2AmmAdapter :: "env \<Rightarrow> deployer \<Rightarrow> address \<Rightarrow> chain \<Rightarrow> contract result" where [deploy_defs]:
  "deployUniswapV2AmmAdapter e this uniswapV2Router s =
     deploy e (deployerSigner this) ''UniswapV2AmmAdapter'' [Addr uniswapV2Router] s"

definition deployUniswapV2ExchangeAdapter :: "env \<Rightarrow> deployer \<Rightarrow> address \<Rightarrow> chain \<Rightarrow> contract result" where [deploy_defs]:
  "deployUniswapV2ExchangeAdapter e this uniswapV2Router s =
     deploy e (deployerSigner this) ''UniswapV2ExchangeAdapter'' [Addr uniswapV2Router] s"

definition deployUniswapV2TransferFeeExchangeAdapter ::
    "env \<Rightarrow> deployer \<Rightarrow> address \<Rightarrow> chain \<Rightarrow> contract result" where [deploy_defs]:
  "deployUniswapV2TransferFeeExchangeAdapter e this uniswapV2Router s =
     deploy e (deployerSigner this) ''UniswapV2TransferFeeExchangeAdapter'' [Addr
       uniswapV2Router] s"

definition deployUniswapV2ExchangeAdapterV2 :: "env \<Rightarrow> deployer \<Rightarrow> address \<Rightarrow> chain \<Rightarrow> contract result" where [deploy_defs]:
  "deployUniswapV2ExchangeAdapterV2 e this uniswapV2Router s =
     deploy e (deployerSigner this) ''UniswapV2ExchangeAdapterV2'' [Addr uniswapV2Router] s"

definition deployUniswapV2IndexExchangeAdapter ::
    "env \<Rightarrow> deployer \<Rightarrow> address \<Rightarrow> chain \<Rightarrow> contract result" where [deploy_defs]:
  "deployUniswapV2IndexExchangeAdapter e this uniswapV2Router s =
     deploy e (deployerSigner this) ''UniswapV2IndexExchangeAdapter'' [Addr uniswapV2Router] s"

definition deployAaveGovernanceV2Adapter ::
    "env \<Rightarrow> deployer \<Rightarrow> address \<Rightarrow> address \<Rightarrow> chain \<Rightarrow> contract result" where [deploy_defs]:
  "deployAaveGovernanceV2Adapter e this aaveGovernanceV2 aaveToken s =
     deploy e (deployerSigner this) ''AaveGovernanceV2Adapter'' [Addr aaveGovernanceV2, Addr
       aaveToken] s"

definition deployCompClaimAdapter :: "env \<Rightarrow> deployer \<Rightarrow> address \<Rightarrow> chain \<Rightarrow> contract result" where [deploy_defs]:
  "deployCompClaimAdapter e this comptrollerAddress s =
     deploy e (deployerSigner this) ''CompClaimAdapter'' [Addr comptrollerAddress] s"

definition deployBalancerV1IndexExchangeAdapter ::
    "env \<Rightarrow> deployer \<Rightarrow> address \<Rightarrow> chain \<Rightarrow> contract result" where [deploy_defs]:
  "deployBalancerV1IndexExchangeAdapter e this balancerProxy s =
     deploy e (deployerSigner this) ''BalancerV1IndexExchangeAdapter'' [Addr balancerProxy] s"

definition deployBalancerV2ExchangeAdapter :: "env \<Rightarrow> deployer \<Rightarrow> address \<Rightarrow> chain \<Rightarrow> contract result" where [deploy_defs]:
  "deployBalancerV2ExchangeAdapter e this vault' s =
     deploy e (deployerSigner this) ''BalancerV2ExchangeAdapter'' [Addr vault'] s"

definition deployCompoundLikeGovernanceAdapter ::
    "env \<Rightarrow> deployer \<Rightarrow> address \<Rightarrow> address \<Rightarrow> chain \<Rightarrow> contract result" where [deploy_defs]:
  "deployCompoundLikeGovernanceAdapter e this governanceAlpha governanceToken s =
     deploy e (deployerSigner this) ''CompoundLikeGovernanceAdapter'' [Addr governanceAlpha, Addr
       governanceToken] s"

definition deployCompoundBravoGovernanceAdapter ::
    "env \<Rightarrow> deployer \<Rightarrow> address \<Rightarrow> address \<Rightarrow> chain \<Rightarrow> contract result" where [deploy_defs]:
  "deployCompoundBravoGovernanceAdapter e this governorBravo governanceToken s =
     deploy e (deployerSigner this) ''CompoundBravoGovernanceAdapter'' [Addr governorBravo, Addr
       governanceToken] s"

definition deployCurveStakingAdapter :: "env \<Rightarrow> deployer \<Rightarrow> address \<Rightarrow> chain \<Rightarrow> contract result" where [deploy_defs]:
  "deployCurveStakingAdapter e this gaugeController s =
     deploy e (deployerSigner this) ''CurveStakingAdapter'' [Addr gaugeController] s"

definition deployRgtMigrationWrapAdapter :: "env \<Rightarrow> deployer \<Rightarrow> address \<Rightarrow> chain \<Rightarrow> contract result" where [deploy_defs]:
  "deployRgtMigrationWrapAdapter e this pegExchanger s =
     deploy e (deployerSigner this) ''RgtMigrationWrapAdapter'' [Addr pegExchanger] s"

definition deployUniswapPairPriceAdapter ::
    "env \<Rightarrow> deployer \<Rightarrow> address \<Rightarrow> address \<Rightarrow> address list \<Rightarrow> chain \<Rightarrow> contract result" where [deploy_defs]:
  "deployUniswapPairPriceAdapter e this controller uniswapFactory uniswapPools s =
     deploy e (deployerSigner this) ''UniswapPairPriceAdapter'' [Addr controller, Addr
       uniswapFactory, Addrs uniswapPools] s"

definition getUniswapPairPriceAdapter :: "deployer \<Rightarrow> address \<Rightarrow> contract" where
  "getUniswapPairPriceAdapter this uniswapAdapterAddress = attach ''UniswapPairPriceAdapter'' uniswapAdapterAddress (deployerSigner this)"

definition deployUniswapV3IndexExchangeAdapter ::
    "env \<Rightarrow> deployer \<Rightarrow> address \<Rightarrow> chain \<Rightarrow> contract result" where [deploy_defs]:
  "deployUniswapV3IndexExchangeAdapter e this router s =
     deploy e (deployerSigner this) ''UniswapV3IndexExchangeAdapter'' [Addr router] s"

definition deployZeroExApiAdapter :: "env \<Rightarrow> deployer \<Rightarrow> address \<Rightarrow> address \<Rightarrow> chain \<Rightarrow> contract result" where [deploy_defs]:
  "deployZeroExApiAdapter e this zeroExAddress wethAddress s =
     deploy e (deployerSigner this) ''ZeroExApiAdapter'' [Addr zeroExAddress, Addr wethAddress] s"

definition deploySnapshotGovernanceAdapter :: "env \<Rightarrow> deployer \<Rightarrow> address \<Rightarrow> chain \<Rightarrow> contract result" where [deploy_defs]:
  "deploySnapshotGovernanceAdapter e this delegateRegistry s =
     deploy e (deployerSigner this) ''SnapshotGovernanceAdapter'' [Addr delegateRegistry] s"

definition deploySynthetixExchangeAdapter :: "env \<Rightarrow> deployer \<Rightarrow> address \<Rightarrow> chain \<Rightarrow> contract result" where [deploy_defs]:
  "deploySynthetixExchangeAdapter e this synthetixExchangerAddress s =
     deploy e (deployerSigner this) ''SynthetixExchangeAdapter'' [Addr synthetixExchangerAddress] s"

definition deployUniswapV3ExchangeAdapter :: "env \<Rightarrow> deployer \<Rightarrow> address \<Rightarrow> chain \<Rightarrow> contract result" where [deploy_defs]:
  "deployUniswapV3ExchangeAdapter e this swapRouter s =
     deploy e (deployerSigner this) ''UniswapV3ExchangeAdapter'' [Addr swapRouter] s"

definition deployUniswapV3ExchangeAdapterV2 :: "env \<Rightarrow> deployer \<Rightarrow> address \<Rightarrow> chain \<Rightarrow> contract result" where [deploy_defs]:
  "deployUniswapV3ExchangeAdapterV2 e this swapRouter s =
     deploy e (deployerSigner this) ''UniswapV3ExchangeAdapterV2'' [Addr swapRouter] s"

definition deployKyberV3IndexExchangeAdapter ::
    "env \<Rightarrow> deployer \<Rightarrow> address \<Rightarrow> address \<Rightarrow> chain \<Rightarrow> contract result" where [deploy_defs]:
  "deployKyberV3IndexExchangeAdapter e this dmmRouter dmmFactory s =
     deploy e (deployerSigner this) ''KyberV3IndexExchangeAdapter'' [Addr dmmRouter, Addr
       dmmFactory] s"

definition deployCompoundWrapV2Adapter ::
    "env \<Rightarrow> deployer \<Rightarrow> string \<Rightarrow> address \<Rightarrow> chain \<Rightarrow> contract result" where [deploy_defs]:
  "deployCompoundWrapV2Adapter e this libraryName libraryAddress s =
     deploy_linked e (deployerSigner this) ''CompoundWrapV2Adapter''
     (js_object [(libraryName, libraryAddress)]) [] s"

definition deployYearnWrapV2Adapter :: "env \<Rightarrow> deployer \<Rightarrow> chain \<Rightarrow> contract result" where [deploy_defs]:
  "deployYearnWrapV2Adapter e this s =
     deploy e (deployerSigner this) ''YearnWrapV2Adapter'' [] s"

definition deployAaveV2WrapV2Adapter :: "env \<Rightarrow> deployer \<Rightarrow> address \<Rightarrow> chain \<Rightarrow> contract result" where [deploy_defs]:
  "deployAaveV2WrapV2Adapter e this lendingPool s =
     deploy e (deployerSigner this) ''AaveV2WrapV2Adapter'' [Addr lendingPool] s"

definition deployERC4626WrapV2Adapter :: "env \<Rightarrow> deployer \<Rightarrow> chain \<Rightarrow> contract result" where [deploy_defs]:
  "deployERC4626WrapV2Adapter e this s =
     deploy e (deployerSigner this) ''ERC4626WrapV2Adapter'' [] s"

definition deployCurveExchangeAdapter ::
    "env \<Rightarrow> deployer \<Rightarrow> address \<Rightarrow> address \<Rightarrow> int \<Rightarrow> int \<Rightarrow> address \<Rightarrow> chain \<Rightarrow> contract result" where [deploy_defs]:
  "deployCurveExchangeAdapter e this tokenA tokenB tokenAIndex tokenbBIndex exchange s =
     deploy e (deployerSigner this) ''CurveExchangeAdapter'' [Addr tokenA, Addr tokenB, Num
       tokenAIndex, Num tokenbBIndex, Addr exchange] s"

definition deployCurveStEthExchangeAdapter ::
    "env \<Rightarrow> deployer \<Rightarrow> address \<Rightarrow> address \<Rightarrow> address \<Rightarrow> chain \<Rightarrow> contract result" where [deploy_defs]:
  "deployCurveStEthExchangeAdapter e this weth steth exchange s =
     deploy e (deployerSigner this) ''CurveStEthExchangeAdapter'' [Addr weth, Addr steth, Addr
       exchange] s"

definition deployConstantPriceAdapter :: "env \<Rightarrow> deployer \<Rightarrow> chain \<Rightarrow> contract result" where [deploy_defs]:
  "deployConstantPriceAdapter e this s =
     deploy e (deployerSigner this) ''ConstantPriceAdapter'' [] s"

definition deployBoundedStepwiseLinearPriceAdapter :: "env \<Rightarrow> deployer \<Rightarrow> chain \<Rightarrow> contract result" where [deploy_defs]:
  "deployBoundedStepwiseLinearPriceAdapter e this s =
     deploy e (deployerSigner this) ''BoundedStepwiseLinearPriceAdapter'' [] s"

definition deployBoundedStepwiseLogarithmicPriceAdapter ::
    "env \<Rightarrow> deployer \<Rightarrow> chain \<Rightarrow> contract result" where [deploy_defs]:
  "deployBoundedStepwiseLogarithmicPriceAdapter e this s =
     deploy e (deployerSigner this) ''BoundedStepwiseLogarithmicPriceAdapter'' [] s"

definition deployBoundedStepwiseExponentialPriceAdapter ::
    "env \<Rightarrow> deployer \<Rightarrow> chain \<Rightarrow> contract result" where [deploy_defs]:
  "deployBoundedStepwiseExponentialPriceAdapter e this s =
     deploy e (deployerSigner this) ''BoundedStepwiseExponentialPriceAdapter'' [] s"


end
