(* ===== verification/Deploy_Mocks.thy ===== *)
theory Deploy_Mocks
  imports Deploy_Core Dependencies
begin

section \<open>Deploy helpers: the mocks\<close>

text \<open>
  Models utils/deploys/deployMocks.ts. A parameter with a default value is an option: \<open>None\<close> when the
  caller leaves it out.
\<close>

subsection \<open>deployMocks.ts\<close>

definition deployExplicitErc20Mock :: "env \<Rightarrow> deployer \<Rightarrow> chain \<Rightarrow> contract result" where [deploy_defs]:
  "deployExplicitErc20Mock e this s =
     deploy e (deployerSigner this) ''ExplicitERC20Mock'' [] s"

definition deployInvokeMock :: "env \<Rightarrow> deployer \<Rightarrow> chain \<Rightarrow> contract result" where [deploy_defs]:
  "deployInvokeMock e this s =
     deploy e (deployerSigner this) ''InvokeMock'' [] s"

definition deployManagerIssuanceHookMock :: "env \<Rightarrow> deployer \<Rightarrow> chain \<Rightarrow> contract result" where [deploy_defs]:
  "deployManagerIssuanceHookMock e this s =
     deploy e (deployerSigner this) ''ManagerIssuanceHookMock'' [] s"

definition deployModuleIssuanceHookMock :: "env \<Rightarrow> deployer \<Rightarrow> chain \<Rightarrow> contract result" where [deploy_defs]:
  "deployModuleIssuanceHookMock e this s =
     deploy e (deployerSigner this) ''ModuleIssuanceHookMock'' [] s"

definition deployNavIssuanceHookMock :: "env \<Rightarrow> deployer \<Rightarrow> chain \<Rightarrow> contract result" where [deploy_defs]:
  "deployNavIssuanceHookMock e this s =
     deploy e (deployerSigner this) ''NAVIssuanceHookMock'' [] s"

definition deployNAVIssuanceCaller :: "env \<Rightarrow> deployer \<Rightarrow> address \<Rightarrow> chain \<Rightarrow> contract result" where [deploy_defs]:
  "deployNAVIssuanceCaller e this navIssuanceModule s =
     deploy e (deployerSigner this) ''NAVIssuanceCaller'' [Addr navIssuanceModule] s"

definition deployAddressArrayUtilsMock :: "env \<Rightarrow> deployer \<Rightarrow> chain \<Rightarrow> contract result" where [deploy_defs]:
  "deployAddressArrayUtilsMock e this s =
     deploy e (deployerSigner this) ''AddressArrayUtilsMock'' [] s"

definition deployUint256ArrayUtilsMock :: "env \<Rightarrow> deployer \<Rightarrow> chain \<Rightarrow> contract result" where [deploy_defs]:
  "deployUint256ArrayUtilsMock e this s =
     deploy e (deployerSigner this) ''Uint256ArrayUtilsMock'' [] s"

definition deployKyberNetworkProxyMock :: "env \<Rightarrow> deployer \<Rightarrow> address \<Rightarrow> chain \<Rightarrow> contract result" where [deploy_defs]:
  "deployKyberNetworkProxyMock e this mockWethAddress s =
     deploy e (deployerSigner this) ''KyberNetworkProxyMock'' [Addr mockWethAddress] s"

definition deployModuleBaseMock :: "env \<Rightarrow> deployer \<Rightarrow> address \<Rightarrow> chain \<Rightarrow> contract result" where [deploy_defs]:
  "deployModuleBaseMock e this controllerAddress s =
     deploy e (deployerSigner this) ''ModuleBaseMock'' [Addr controllerAddress] s"

definition deployModuleBaseV2Mock :: "env \<Rightarrow> deployer \<Rightarrow> address \<Rightarrow> chain \<Rightarrow> contract result" where [deploy_defs]:
  "deployModuleBaseV2Mock e this controllerAddress s =
     deploy e (deployerSigner this) ''ModuleBaseV2Mock'' [Addr controllerAddress] s"

definition deployGodModeMock :: "env \<Rightarrow> deployer \<Rightarrow> address \<Rightarrow> chain \<Rightarrow> contract result" where [deploy_defs]:
  "deployGodModeMock e this controllerAddress s =
     deploy e (deployerSigner this) ''GodModeMock'' [Addr controllerAddress] s"

definition deployDebtModuleMock :: "env \<Rightarrow> deployer \<Rightarrow> address \<Rightarrow> chain \<Rightarrow> contract result" where [deploy_defs]:
  "deployDebtModuleMock e this controllerAddress s =
     deploy e (deployerSigner this) ''DebtModuleMock'' [Addr controllerAddress] s"

definition deployGovernanceAdapterMock :: "env \<Rightarrow> deployer \<Rightarrow> int \<Rightarrow> chain \<Rightarrow> contract result" where [deploy_defs]:
  "deployGovernanceAdapterMock e this initialProposalId s =
     deploy e (deployerSigner this) ''GovernanceAdapterMock'' [Num initialProposalId] s"

definition deployCurveStableswapMock :: "env \<Rightarrow> deployer \<Rightarrow> address list \<Rightarrow> chain \<Rightarrow> contract result" where [deploy_defs]:
  "deployCurveStableswapMock e this coins s =
     deploy e (deployerSigner this) ''CurveStableswapMock'' [Addrs coins] s"

definition deployOneInchExchangeMock ::
    "env \<Rightarrow> deployer \<Rightarrow> address \<Rightarrow> address \<Rightarrow> int \<Rightarrow> int \<Rightarrow> chain \<Rightarrow> contract result" where [deploy_defs]:
  "deployOneInchExchangeMock e this sendToken receiveToken sendQuantity receiveQuantity s =
     deploy e (deployerSigner this) ''OneInchExchangeMock'' [Addr sendToken, Addr receiveToken,
       Num sendQuantity, Num receiveQuantity] s"

definition deployZeroExMock ::
    "env \<Rightarrow> deployer \<Rightarrow> address \<Rightarrow> address \<Rightarrow> int \<Rightarrow> int \<Rightarrow> chain \<Rightarrow> contract result" where [deploy_defs]:
  "deployZeroExMock e this sendToken receiveToken sendQuantity receiveQuantity s =
     deploy e (deployerSigner this) ''ZeroExMock'' [Addr sendToken, Addr receiveToken, Num
       sendQuantity, Num receiveQuantity] s"

definition deployOracleMock :: "env \<Rightarrow> deployer \<Rightarrow> int \<Rightarrow> chain \<Rightarrow> contract result" where [deploy_defs]:
  "deployOracleMock e this initialValue s =
     deploy e (deployerSigner this) ''OracleMock'' [Num initialValue] s"

definition deployYearnVaultMock :: "env \<Rightarrow> deployer \<Rightarrow> int \<Rightarrow> chain \<Rightarrow> contract result" where [deploy_defs]:
  "deployYearnVaultMock e this pricePerShare s =
     deploy e (deployerSigner this) ''YearnVaultMock'' [Num pricePerShare] s"

definition deployOracleAdapterMock :: "env \<Rightarrow> deployer \<Rightarrow> address \<Rightarrow> int \<Rightarrow> chain \<Rightarrow> contract result" where [deploy_defs]:
  "deployOracleAdapterMock e this asset dummyPrice s =
     deploy e (deployerSigner this) ''OracleAdapterMock'' [Addr asset, Num dummyPrice] s"

definition deployPositionMock :: "env \<Rightarrow> deployer \<Rightarrow> chain \<Rightarrow> contract result" where [deploy_defs]:
  "deployPositionMock e this s =
     deploy e (deployerSigner this) ''PositionMock'' [] s"

definition deployPositionV2Mock :: "env \<Rightarrow> deployer \<Rightarrow> string \<Rightarrow> address \<Rightarrow> chain \<Rightarrow> contract result" where [deploy_defs]:
  "deployPositionV2Mock e this libraryName libraryAddress s =
     deploy_linked e (deployerSigner this) ''PositionV2Mock''
     (js_object [(libraryName, libraryAddress)]) [] s"

definition deployPreciseUnitMathMock :: "env \<Rightarrow> deployer \<Rightarrow> chain \<Rightarrow> contract result" where [deploy_defs]:
  "deployPreciseUnitMathMock e this s =
     deploy e (deployerSigner this) ''PreciseUnitMathMock'' [] s"

definition deployResourceIdentifierMock :: "env \<Rightarrow> deployer \<Rightarrow> chain \<Rightarrow> contract result" where [deploy_defs]:
  "deployResourceIdentifierMock e this s =
     deploy e (deployerSigner this) ''ResourceIdentifierMock'' [] s"

definition deployStakingAdapterMock :: "env \<Rightarrow> deployer \<Rightarrow> address \<Rightarrow> chain \<Rightarrow> contract result" where [deploy_defs]:
  "deployStakingAdapterMock e this stakingAsset s =
     deploy e (deployerSigner this) ''StakingAdapterMock'' [Addr stakingAsset] s"

definition deployTokenMock ::
    "env \<Rightarrow> deployer \<Rightarrow> address \<Rightarrow> int option \<Rightarrow> int option \<Rightarrow> string option \<Rightarrow> string option \<Rightarrow> chain \<Rightarrow>
     contract result" where [deploy_defs]:
  "deployTokenMock e this initialAccount initialBalance decimals name symbol s = do {
     initialBalance \<leftarrow> (case initialBalance of None \<Rightarrow> ether 1000000000 | Some x \<Rightarrow> Some
       x);
     let decimals = (case decimals of None \<Rightarrow> 18 | Some x \<Rightarrow> x);
     let name = (case name of None \<Rightarrow> ''Token'' | Some x \<Rightarrow> x);
     let symbol = (case symbol of None \<Rightarrow> ''Symbol'' | Some x \<Rightarrow> x);
     deploy e (deployerSigner this) ''StandardTokenMock'' [Addr initialAccount, Num
       initialBalance, Str name, Str symbol, Num decimals] s
   }"

definition deployTokenWithFeeMock ::
    "env \<Rightarrow> deployer \<Rightarrow> address \<Rightarrow> int option \<Rightarrow> int option \<Rightarrow> string option \<Rightarrow> string option \<Rightarrow> chain \<Rightarrow>
     contract result" where [deploy_defs]:
  "deployTokenWithFeeMock e this initialAccount initialBalance fee name symbol s = do {
     initialBalance \<leftarrow> (case initialBalance of None \<Rightarrow> ether 1000000000 | Some x \<Rightarrow> Some
       x);
     fee \<leftarrow> (case fee of None \<Rightarrow> ether (1 / 10) | Some x \<Rightarrow> Some x);
     let name = (case name of None \<Rightarrow> ''Token'' | Some x \<Rightarrow> x);
     let symbol = (case symbol of None \<Rightarrow> ''Symbol'' | Some x \<Rightarrow> x);
     deploy e (deployerSigner this) ''StandardTokenWithFeeMock'' [Addr initialAccount, Num
       initialBalance, Str name, Str symbol, Num fee] s
   }"

definition deployTokenWithErrorMock ::
    "env \<Rightarrow> deployer \<Rightarrow> address \<Rightarrow> int \<Rightarrow> int \<Rightarrow> string option \<Rightarrow> string option \<Rightarrow> int option \<Rightarrow> chain \<Rightarrow>
     contract result" where [deploy_defs]:
  "deployTokenWithErrorMock e this initialAccount initialBalance err name symbol decimals s = do {
     let name = (case name of None \<Rightarrow> ''Token'' | Some x \<Rightarrow> x);
     let symbol = (case symbol of None \<Rightarrow> ''Symbol'' | Some x \<Rightarrow> x);
     let decimals = (case decimals of None \<Rightarrow> 18 | Some x \<Rightarrow> x);
     deploy e (deployerSigner this) ''StandardTokenWithRoundingErrorMock'' [Addr initialAccount,
       Num initialBalance, Num err, Str name, Str symbol, Num decimals] s
   }"

definition deployTradeAdapterMock :: "env \<Rightarrow> deployer \<Rightarrow> chain \<Rightarrow> contract result" where [deploy_defs]:
  "deployTradeAdapterMock e this s =
     deploy e (deployerSigner this) ''TradeAdapterMock'' [] s"

definition deployAmmAdapterMock :: "env \<Rightarrow> deployer \<Rightarrow> address list \<Rightarrow> chain \<Rightarrow> contract result" where [deploy_defs]:
  "deployAmmAdapterMock e this underlyingTokens s =
     deploy e (deployerSigner this) ''AmmAdapterMock'' [Addrs underlyingTokens] s"

definition deployWrapAdapterMock :: "env \<Rightarrow> deployer \<Rightarrow> chain \<Rightarrow> contract result" where [deploy_defs]:
  "deployWrapAdapterMock e this s =
     deploy e (deployerSigner this) ''WrapAdapterMock'' [] s"

definition deployAaveLendingPoolCoreMock :: "env \<Rightarrow> deployer \<Rightarrow> chain \<Rightarrow> contract result" where [deploy_defs]:
  "deployAaveLendingPoolCoreMock e this s =
     deploy e (deployerSigner this) ''AaveLendingPoolCoreMock'' [] s"

definition deployAaveLendingPoolMock :: "env \<Rightarrow> deployer \<Rightarrow> address \<Rightarrow> chain \<Rightarrow> contract result" where [deploy_defs]:
  "deployAaveLendingPoolMock e this aaveLendingPoolCore s =
     deploy e (deployerSigner this) ''AaveLendingPoolMock'' [Addr aaveLendingPoolCore] s"

definition deployAaveV2Mock :: "env \<Rightarrow> deployer \<Rightarrow> string \<Rightarrow> address \<Rightarrow> chain \<Rightarrow> contract result" where [deploy_defs]:
  "deployAaveV2Mock e this libraryName libraryAddress s =
     deploy_linked e (deployerSigner this) ''AaveV2Mock''
     (js_object [(libraryName, libraryAddress)]) [] s"

definition deployPerpV2Mock :: "env \<Rightarrow> deployer \<Rightarrow> string \<Rightarrow> address \<Rightarrow> chain \<Rightarrow> contract result" where [deploy_defs]:
  "deployPerpV2Mock e this libraryName libraryAddress s =
     deploy_linked e (deployerSigner this) ''PerpV2Mock''
     (js_object [(libraryName, libraryAddress)]) [] s"

definition deployPerpV2LibraryV2Mock ::
    "env \<Rightarrow> deployer \<Rightarrow> string \<Rightarrow> address \<Rightarrow> chain \<Rightarrow> contract result" where [deploy_defs]:
  "deployPerpV2LibraryV2Mock e this libraryName libraryAddress s =
     deploy_linked e (deployerSigner this) ''PerpV2LibraryV2Mock''
     (js_object [(libraryName, libraryAddress)]) [] s"

definition deployPerpV2PositionsMock ::
    "env \<Rightarrow> deployer \<Rightarrow> string \<Rightarrow> address \<Rightarrow> chain \<Rightarrow> contract result" where [deploy_defs]:
  "deployPerpV2PositionsMock e this libraryName libraryAddress s =
     deploy_linked e (deployerSigner this) ''PerpV2PositionsMock''
     (js_object [(libraryName, libraryAddress)]) [] s"

definition deployUniswapV3MathMock :: "env \<Rightarrow> deployer \<Rightarrow> chain \<Rightarrow> contract result" where [deploy_defs]:
  "deployUniswapV3MathMock e this s =
     deploy e (deployerSigner this) ''UniswapV3MathMock'' [] s"

definition deployUnitConversionUtilsMock :: "env \<Rightarrow> deployer \<Rightarrow> chain \<Rightarrow> contract result" where [deploy_defs]:
  "deployUnitConversionUtilsMock e this s =
     deploy e (deployerSigner this) ''UnitConversionUtilsMock'' [] s"

definition deploySetTokenAccessibleMock :: "env \<Rightarrow> deployer \<Rightarrow> address \<Rightarrow> chain \<Rightarrow> contract result" where [deploy_defs]:
  "deploySetTokenAccessibleMock e this controller s =
     deploy e (deployerSigner this) ''SetTokenAccessibleMock'' [Addr controller] s"

definition deployClaimAdapterMock :: "env \<Rightarrow> deployer \<Rightarrow> chain \<Rightarrow> contract result" where [deploy_defs]:
  "deployClaimAdapterMock e this s =
     deploy e (deployerSigner this) ''ClaimAdapterMock'' [] s"

definition deployGaugeControllerMock :: "env \<Rightarrow> deployer \<Rightarrow> chain \<Rightarrow> contract result" where [deploy_defs]:
  "deployGaugeControllerMock e this s =
     deploy e (deployerSigner this) ''GaugeControllerMock'' [] s"

definition deployContractCallerMock :: "env \<Rightarrow> deployer \<Rightarrow> chain \<Rightarrow> contract result" where [deploy_defs]:
  "deployContractCallerMock e this s =
     deploy e (deployerSigner this) ''ContractCallerMock'' [] s"

definition deployDebtIssuanceMock :: "env \<Rightarrow> deployer \<Rightarrow> chain \<Rightarrow> contract result" where [deploy_defs]:
  "deployDebtIssuanceMock e this s =
     deploy e (deployerSigner this) ''DebtIssuanceMock'' [] s"

definition deployComptrollerMock ::
    "env \<Rightarrow> deployer \<Rightarrow> address \<Rightarrow> int \<Rightarrow> address \<Rightarrow> chain \<Rightarrow> contract result" where [deploy_defs]:
  "deployComptrollerMock e this comp' compAmount cToken s =
     deploy e (deployerSigner this) ''ComptrollerMock'' [Addr comp', Num compAmount, Addr cToken] s"

definition deployCompoundMock :: "env \<Rightarrow> deployer \<Rightarrow> string \<Rightarrow> address \<Rightarrow> chain \<Rightarrow> contract result" where [deploy_defs]:
  "deployCompoundMock e this libraryName libraryAddress s =
     deploy_linked e (deployerSigner this) ''CompoundMock''
     (js_object [(libraryName, libraryAddress)]) [] s"

definition deploySynthMock ::
    "env \<Rightarrow> deployer \<Rightarrow> address \<Rightarrow> bytes \<Rightarrow> int option \<Rightarrow> string option \<Rightarrow> string option \<Rightarrow> chain \<Rightarrow>
     contract result" where [deploy_defs]:
  "deploySynthMock e this initialAccount currencyKey initialBalance name symbol s = do {
     initialBalance \<leftarrow> (case initialBalance of None \<Rightarrow> ether 1000000000 | Some x \<Rightarrow> Some
       x);
     let name = (case name of None \<Rightarrow> ''Token'' | Some x \<Rightarrow> x);
     let symbol = (case symbol of None \<Rightarrow> ''Symbol'' | Some x \<Rightarrow> x);
     deploy e (deployerSigner this) ''SynthMock'' [Addr initialAccount, Num initialBalance, Str
       name, Str symbol, Num 18, Bytes currencyKey] s
   }"

definition deployERC4626Mock ::
    "env \<Rightarrow> deployer \<Rightarrow> string \<Rightarrow> string \<Rightarrow> address \<Rightarrow> chain \<Rightarrow> contract result" where [deploy_defs]:
  "deployERC4626Mock e this name symbol asset s =
     deploy e (deployerSigner this) ''ERC4626Mock'' [Str name, Str symbol, Addr asset] s"

definition deployCustomSetValuerMock :: "env \<Rightarrow> deployer \<Rightarrow> chain \<Rightarrow> contract result" where [deploy_defs]:
  "deployCustomSetValuerMock e this s =
     deploy e (deployerSigner this) ''CustomSetValuerMock'' [] s"

definition deployYearnStrategyMock :: "env \<Rightarrow> deployer \<Rightarrow> address \<Rightarrow> chain \<Rightarrow> contract result" where [deploy_defs]:
  "deployYearnStrategyMock e this vault' s =
     deploy e (deployerSigner this) ''YearnStrategyMock'' [Addr vault'] s"

definition deployForceFunderMock :: "env \<Rightarrow> deployer \<Rightarrow> chain \<Rightarrow> contract result" where [deploy_defs]:
  "deployForceFunderMock e this s =
     deploy e (deployerSigner this) ''ForceFunderMock'' [] s"

definition deployWrapV2AdapterMock :: "env \<Rightarrow> deployer \<Rightarrow> chain \<Rightarrow> contract result" where [deploy_defs]:
  "deployWrapV2AdapterMock e this s =
     deploy e (deployerSigner this) ''WrapV2AdapterMock'' [] s"

definition deployChainlinkAggregatorMock :: "env \<Rightarrow> deployer \<Rightarrow> int \<Rightarrow> chain \<Rightarrow> contract result" where [deploy_defs]:
  "deployChainlinkAggregatorMock e this decimals s =
     deploy e (deployerSigner this) ''ChainlinkAggregatorMock'' [Num decimals] s"

definition deployTribePegExchangerMock ::
    "env \<Rightarrow> deployer \<Rightarrow> address \<Rightarrow> address \<Rightarrow> chain \<Rightarrow> contract result" where [deploy_defs]:
  "deployTribePegExchangerMock e this rgt tribe s =
     deploy e (deployerSigner this) ''TribePegExchangerMock'' [Addr rgt, Addr tribe] s"

definition deployStringArrayUtilsMock :: "env \<Rightarrow> deployer \<Rightarrow> chain \<Rightarrow> contract result" where [deploy_defs]:
  "deployStringArrayUtilsMock e this s =
     deploy e (deployerSigner this) ''StringArrayUtilsMock'' [] s"

definition deployBytesArrayUtilsMock :: "env \<Rightarrow> deployer \<Rightarrow> chain \<Rightarrow> contract result" where [deploy_defs]:
  "deployBytesArrayUtilsMock e this s =
     deploy e (deployerSigner this) ''BytesArrayUtilsMock'' [] s"

definition deployWrappedfCashMock ::
    "env \<Rightarrow> deployer \<Rightarrow> address \<Rightarrow> address \<Rightarrow> address \<Rightarrow> bool \<Rightarrow> chain \<Rightarrow> contract result" where [deploy_defs]:
  "deployWrappedfCashMock e this assetToken underlyingToken weth isEth s =
     deploy e (deployerSigner this) ''WrappedfCashMock'' [Addr assetToken, Addr underlyingToken,
       Addr weth, Bool isEth] s"

definition deployWrappedfCashFactoryMock :: "env \<Rightarrow> deployer \<Rightarrow> chain \<Rightarrow> contract result" where [deploy_defs]:
  "deployWrappedfCashFactoryMock e this s =
     deploy e (deployerSigner this) ''WrappedfCashFactoryMock'' [] s"

definition deployNotionalV2Mock :: "env \<Rightarrow> deployer \<Rightarrow> chain \<Rightarrow> contract result" where [deploy_defs]:
  "deployNotionalV2Mock e this s =
     deploy e (deployerSigner this) ''NotionalV2Mock'' [] s"

definition getTokenMock :: "deployer \<Rightarrow> address \<Rightarrow> contract" where
  "getTokenMock this token = attach ''StandardTokenMock'' token (deployerSigner this)"


text \<open>The untyped objects \<^verbatim>\<open>currencyKeys\<close> and \<^verbatim>\<open>rates\<close> have the fields the helper reads.\<close>

record currency_keys =
  key_sUsd :: bytes
  key_sEth :: bytes
  key_sBtc :: bytes

record exchange_rates =
  usd_eth :: int
  eth_usd :: int
  usd_btc :: int
  btc_usd :: int

definition deploySynthetixExchangerMock ::
    "env \<Rightarrow> deployer \<Rightarrow> address \<Rightarrow> address \<Rightarrow> address \<Rightarrow> currency_keys \<Rightarrow> exchange_rates \<Rightarrow> chain \<Rightarrow>
     contract result" where [deploy_defs]:
  "deploySynthetixExchangerMock e this sUsd sEth sBtc currencyKeys rates s =
     deploy e (deployerSigner this) ''SynthetixExchangerMock''
       [Addr sUsd, Addr sEth, Addr sBtc,
        Bytes (key_sUsd currencyKeys), Bytes (key_sEth currencyKeys), Bytes (key_sBtc currencyKeys),
        Num (usd_eth rates), Num (eth_usd rates), Num (usd_btc rates), Num (btc_usd rates)] s"

definition getForkedZeroExExchange :: "deployer \<Rightarrow> contract option" where
  "getForkedZeroExExchange this =
     map_option (\<lambda>a. attach ''ZeroExMock'' a (deployerSigner this)) (dependency ''ZERO_EX_EXCHANGE'' 1)"

subsection \<open>The interface\<close>

text \<open>Each helper is an instance of the interface \<open>deploy_helper\<close>, with its constructor arguments.\<close>

interpretation deployOracleMock_helper: deploy_helper
  "\<lambda>e this initialValue. deployOracleMock e this initialValue"
  "''OracleMock''" "\<lambda>_. []" "\<lambda>initialValue. [Num initialValue]"
  by unfold_locales (auto simp: deployOracleMock_def deploy_def)

text \<open>The token helper with its defaults filled in.\<close>

lemma deployTokenMock_defaults:
  "deployTokenMock e this a None None None None s =
     deploy e (deployerSigner this) ''StandardTokenMock''
       [Addr a, Num (10 ^ 27), Str ''Token'', Str ''Symbol'', Num 18] s"
  by (simp add: deployTokenMock_def ether_numeral)

lemma deployTokenMock_some:
  "deployTokenMock e this a (Some b) d n y s =
     deploy e (deployerSigner this) ''StandardTokenMock''
       [Addr a, Num b, Str (case n of None \<Rightarrow> ''Token'' | Some x \<Rightarrow> x),
        Str (case y of None \<Rightarrow> ''Symbol'' | Some x \<Rightarrow> x), Num (case d of None \<Rightarrow> 18 | Some x \<Rightarrow> x)] s"
  by (simp add: deployTokenMock_def)

end
