(* ===== verification/Deploy_External.thy ===== *)
theory Deploy_External
  imports Deploy_Core Dependencies
begin

section \<open>Deploy helpers: external contracts\<close>

text \<open>
  Models utils/deploys/deployExternal.ts. A parameter with a default value is an option.
\<close>

subsection \<open>deployExternal.ts\<close>

definition deployComp :: "env \<Rightarrow> deployer \<Rightarrow> address \<Rightarrow> chain \<Rightarrow> contract result" where [deploy_defs]:
  "deployComp e this account s =
     deploy e (deployerSigner this) ''Comp'' [Addr account] s"

definition deployCompoundTimelock :: "env \<Rightarrow> deployer \<Rightarrow> address \<Rightarrow> int \<Rightarrow> chain \<Rightarrow> contract result" where [deploy_defs]:
  "deployCompoundTimelock e this admin delay s =
     deploy e (deployerSigner this) ''CompoundTimelock'' [Addr admin, Num delay] s"

definition deployCompoundGovernorAlpha ::
    "env \<Rightarrow> deployer \<Rightarrow> address \<Rightarrow> address \<Rightarrow> address \<Rightarrow> chain \<Rightarrow> contract result" where [deploy_defs]:
  "deployCompoundGovernorAlpha e this timelock comp' guardian s =
     deploy e (deployerSigner this) ''CompoundGovernorAlpha'' [Addr timelock, Addr comp', Addr
       guardian] s"

definition deployCompoundGovernorBravoDelegate :: "env \<Rightarrow> deployer \<Rightarrow> chain \<Rightarrow> contract result" where [deploy_defs]:
  "deployCompoundGovernorBravoDelegate e this s =
     deploy e (deployerSigner this) ''CompoundGovernorBravoDelegate'' [] s"

definition deployCompoundGovernorBravoDelegator ::
    "env \<Rightarrow> deployer \<Rightarrow> address \<Rightarrow> address \<Rightarrow> address \<Rightarrow> address \<Rightarrow> int \<Rightarrow> int \<Rightarrow> int \<Rightarrow> chain \<Rightarrow> contract
     result" where [deploy_defs]:
  "deployCompoundGovernorBravoDelegator e this timelock comp' admin implementation votingPeriod
     votingDelay proposalThreshold s =
     deploy e (deployerSigner this) ''CompoundGovernorBravoDelegator'' [Addr timelock, Addr
       comp', Addr admin, Addr implementation, Num votingPeriod, Num votingDelay, Num
       proposalThreshold] s"

definition deployCeRc20 ::
    "env \<Rightarrow> deployer \<Rightarrow> address \<Rightarrow> address \<Rightarrow> address \<Rightarrow> int \<Rightarrow> string \<Rightarrow> string \<Rightarrow> int \<Rightarrow> chain \<Rightarrow>
     contract result" where [deploy_defs]:
  "deployCeRc20 e this underlying comptroller interestRateModel initialExchangeRateMantissa
     name symbol decimals s =
     deploy e (deployerSigner this) ''CERc20'' [Addr underlying, Addr comptroller, Addr
       interestRateModel, Num initialExchangeRateMantissa, Str name, Str symbol, Num decimals] s"

definition deployCEther ::
    "env \<Rightarrow> deployer \<Rightarrow> address \<Rightarrow> address \<Rightarrow> int \<Rightarrow> string \<Rightarrow> string \<Rightarrow> int \<Rightarrow> chain \<Rightarrow> contract result" where [deploy_defs]:
  "deployCEther e this comptroller interestRateModel initialExchangeRateMantissa name symbol
     decimals s =
     deploy e (deployerSigner this) ''CEther'' [Addr comptroller, Addr interestRateModel, Num
       initialExchangeRateMantissa, Str name, Str symbol, Num decimals] s"

definition deployCompoundPriceOracleMock :: "env \<Rightarrow> deployer \<Rightarrow> chain \<Rightarrow> contract result" where [deploy_defs]:
  "deployCompoundPriceOracleMock e this s =
     deploy e (deployerSigner this) ''CompoundPriceOracleMock'' [] s"

definition deployPriceOracleProxy ::
    "env \<Rightarrow> deployer \<Rightarrow> address \<Rightarrow> address \<Rightarrow> address \<Rightarrow> address \<Rightarrow> address \<Rightarrow> address \<Rightarrow> address \<Rightarrow> chain
     \<Rightarrow> contract result" where [deploy_defs]:
  "deployPriceOracleProxy e this guardian v1PriceOracle cEthAddress cUsdcAddress cSaiAddress
     cDaiAddress cUsdtAddress s =
     deploy e (deployerSigner this) ''PriceOracleProxy'' [Addr guardian, Addr v1PriceOracle, Addr
       cEthAddress, Addr cUsdcAddress, Addr cSaiAddress, Addr cDaiAddress, Addr cUsdtAddress] s"

definition deployComptroller :: "env \<Rightarrow> deployer \<Rightarrow> chain \<Rightarrow> contract result" where [deploy_defs]:
  "deployComptroller e this s =
     deploy e (deployerSigner this) ''Comptroller'' [] s"

definition deployUnitroller :: "env \<Rightarrow> deployer \<Rightarrow> chain \<Rightarrow> contract result" where [deploy_defs]:
  "deployUnitroller e this s =
     deploy e (deployerSigner this) ''Unitroller'' [] s"

definition deployWhitePaperInterestRateModel ::
    "env \<Rightarrow> deployer \<Rightarrow> int \<Rightarrow> int \<Rightarrow> chain \<Rightarrow> contract result" where [deploy_defs]:
  "deployWhitePaperInterestRateModel e this baseRate multiplier s =
     deploy e (deployerSigner this) ''WhitePaperInterestRateModel'' [Num baseRate, Num
       multiplier] s"

definition deployWETH :: "env \<Rightarrow> deployer \<Rightarrow> chain \<Rightarrow> contract result" where [deploy_defs]:
  "deployWETH e this s =
     deploy e (deployerSigner this) ''WETH9'' [] s"

definition deployAaveV2LendingPoolAddressesProvider ::
    "env \<Rightarrow> deployer \<Rightarrow> string \<Rightarrow> chain \<Rightarrow> contract result" where [deploy_defs]:
  "deployAaveV2LendingPoolAddressesProvider e this marketId s =
     deploy e (deployerSigner this) ''AaveV2LendingPoolAddressesProvider'' [Str marketId] s"

definition deployAaveV2LendingPool ::
    "env \<Rightarrow> deployer \<Rightarrow> address \<Rightarrow> address \<Rightarrow> chain \<Rightarrow> contract result" where [deploy_defs]:
  "deployAaveV2LendingPool e this validationLogicAddress reserveLogicAddress s =
     deploy_linked e (deployerSigner this) ''AaveV2LendingPool''
     (js_object [(''__$de8c0cf1a7d7c36c802af9a64fb9d86036$__'', validationLogicAddress),
       (''__$22cd43a9dda9ce44e9b92ba393b88fb9ac$__'', reserveLogicAddress)]) [] s"

definition deployAaveV2LendingPoolConfigurator :: "env \<Rightarrow> deployer \<Rightarrow> chain \<Rightarrow> contract result" where [deploy_defs]:
  "deployAaveV2LendingPoolConfigurator e this s =
     deploy e (deployerSigner this) ''AaveV2LendingPoolConfigurator'' [] s"

definition deployAaveV2LendingPoolCollateralManager :: "env \<Rightarrow> deployer \<Rightarrow> chain \<Rightarrow> contract result" where [deploy_defs]:
  "deployAaveV2LendingPoolCollateralManager e this s =
     deploy e (deployerSigner this) ''AaveV2LendingPoolCollateralManager'' [] s"

definition deployAaveV2LendingRateOracle :: "env \<Rightarrow> deployer \<Rightarrow> chain \<Rightarrow> contract result" where [deploy_defs]:
  "deployAaveV2LendingRateOracle e this s =
     deploy e (deployerSigner this) ''AaveV2LendingRateOracle'' [] s"

definition deployAaveV2Oracle ::
    "env \<Rightarrow> deployer \<Rightarrow> string list \<Rightarrow> arg list \<Rightarrow> address \<Rightarrow> address \<Rightarrow> chain \<Rightarrow> contract result" where [deploy_defs]:
  "deployAaveV2Oracle e this assets' sources fallBackOracle weth s =
     deploy e (deployerSigner this) ''AaveV2Oracle'' [Strs assets', Lst sources, Addr
       fallBackOracle, Addr weth] s"

definition deployAaveV2PriceOracle :: "env \<Rightarrow> deployer \<Rightarrow> chain \<Rightarrow> contract result" where [deploy_defs]:
  "deployAaveV2PriceOracle e this s =
     deploy e (deployerSigner this) ''AaveV2PriceOracle'' [] s"

definition deployAaveV2DefaultReserveInterestRateStrategy ::
    "env \<Rightarrow> deployer \<Rightarrow> address \<Rightarrow> int option \<Rightarrow> int option \<Rightarrow> int option \<Rightarrow> int option \<Rightarrow> int option \<Rightarrow>
     int option \<Rightarrow> chain \<Rightarrow> contract result" where [deploy_defs]:
  "deployAaveV2DefaultReserveInterestRateStrategy e this AddressesProvider
     optimalUtilizationRate baseVariableBorrowRate variableRateSlope1 variableRateSlope2
     stableRateSlope1 stableRateSlope2 s = do {
     optimalUtilizationRate \<leftarrow> (case optimalUtilizationRate of None \<Rightarrow> ether 1 | Some x
       \<Rightarrow> Some x);
     baseVariableBorrowRate \<leftarrow> (case baseVariableBorrowRate of None \<Rightarrow> ether 1 | Some x
       \<Rightarrow> Some x);
     variableRateSlope1 \<leftarrow> (case variableRateSlope1 of None \<Rightarrow> ether 1 | Some x \<Rightarrow> Some x);
     variableRateSlope2 \<leftarrow> (case variableRateSlope2 of None \<Rightarrow> ether 1 | Some x \<Rightarrow> Some x);
     stableRateSlope1 \<leftarrow> (case stableRateSlope1 of None \<Rightarrow> ether 1 | Some x \<Rightarrow> Some x);
     stableRateSlope2 \<leftarrow> (case stableRateSlope2 of None \<Rightarrow> ether 1 | Some x \<Rightarrow> Some x);
     deploy e (deployerSigner this) ''AaveV2DefaultReserveInterestRateStrategy'' [Addr
       AddressesProvider, Num optimalUtilizationRate, Num baseVariableBorrowRate, Num
       variableRateSlope1, Num variableRateSlope2, Num stableRateSlope1, Num stableRateSlope2] s
   }"

definition deployAaveV2ProtocolDataProvider :: "env \<Rightarrow> deployer \<Rightarrow> address \<Rightarrow> chain \<Rightarrow> contract result" where [deploy_defs]:
  "deployAaveV2ProtocolDataProvider e this addressProvider s =
     deploy e (deployerSigner this) ''AaveV2ProtocolDataProvider'' [Addr addressProvider] s"

definition deployAaveV2AToken :: "env \<Rightarrow> deployer \<Rightarrow> chain \<Rightarrow> contract result" where [deploy_defs]:
  "deployAaveV2AToken e this s =
     deploy e (deployerSigner this) ''AaveV2AToken'' [] s"

definition deployAaveV2StableDebtToken :: "env \<Rightarrow> deployer \<Rightarrow> chain \<Rightarrow> contract result" where [deploy_defs]:
  "deployAaveV2StableDebtToken e this s =
     deploy e (deployerSigner this) ''AaveV2StableDebtToken'' [] s"

definition deployAaveV2VariableDebtToken :: "env \<Rightarrow> deployer \<Rightarrow> chain \<Rightarrow> contract result" where [deploy_defs]:
  "deployAaveV2VariableDebtToken e this s =
     deploy e (deployerSigner this) ''AaveV2VariableDebtToken'' [] s"

definition deployAaveV2StakedTokenIncentivesController ::
    "env \<Rightarrow> deployer \<Rightarrow> address \<Rightarrow> address \<Rightarrow> chain \<Rightarrow> contract result" where [deploy_defs]:
  "deployAaveV2StakedTokenIncentivesController e this stakeToken emissionManager s =
     deploy e (deployerSigner this) ''AaveV2StakedTokenIncentivesController'' [Addr stakeToken,
       Addr emissionManager] s"

definition getForkedAaveLendingPoolAddressesProvider :: "deployer \<Rightarrow> address \<Rightarrow> contract" where
  "getForkedAaveLendingPoolAddressesProvider this mainnetAddressesProvider = attach ''AaveV2LendingPoolAddressesProvider'' mainnetAddressesProvider (deployerSigner this)"

definition getForkedAaveV2ProtocolDataProvider :: "deployer \<Rightarrow> address \<Rightarrow> contract" where
  "getForkedAaveV2ProtocolDataProvider this mainnetAddressesProvider = attach ''AaveV2ProtocolDataProvider'' mainnetAddressesProvider (deployerSigner this)"

definition deployGeneralLogic :: "env \<Rightarrow> deployer \<Rightarrow> chain \<Rightarrow> contract result" where [deploy_defs]:
  "deployGeneralLogic e this s =
     deploy e (deployerSigner this) ''GenericLogic'' [] s"

definition deployValidationLogic :: "env \<Rightarrow> deployer \<Rightarrow> address \<Rightarrow> chain \<Rightarrow> contract result" where [deploy_defs]:
  "deployValidationLogic e this genericLogicLibraryAddress s =
     deploy_linked e (deployerSigner this) ''ValidationLogic''
     (js_object [(''__$52a8a86ab43135662ff256bbc95497e8e3$__'', genericLogicLibraryAddress)]) [] s"

definition deployReserveLogic :: "env \<Rightarrow> deployer \<Rightarrow> chain \<Rightarrow> contract result" where [deploy_defs]:
  "deployReserveLogic e this s =
     deploy e (deployerSigner this) ''ReserveLogic'' [] s"

definition deployAaveGovernanceV2 ::
    "env \<Rightarrow> deployer \<Rightarrow> address \<Rightarrow> int \<Rightarrow> address \<Rightarrow> address list \<Rightarrow> chain \<Rightarrow> contract result" where [deploy_defs]:
  "deployAaveGovernanceV2 e this governanceStrategy votingDelay guardian executors s =
     deploy e (deployerSigner this) ''AaveGovernanceV2'' [Addr governanceStrategy, Num
       votingDelay, Addr guardian, Addrs executors] s"

definition deployExecutor ::
    "env \<Rightarrow> deployer \<Rightarrow> address \<Rightarrow> int \<Rightarrow> int \<Rightarrow> int \<Rightarrow> int \<Rightarrow> int \<Rightarrow> int \<Rightarrow> int \<Rightarrow> int \<Rightarrow> chain \<Rightarrow> contract
     result" where [deploy_defs]:
  "deployExecutor e this admin delay gracePeriod minimumDelay maximumDelay propositionThreshold
     voteDuration voteDifferential minmumQuorum s =
     deploy e (deployerSigner this) ''Executor'' [Addr admin, Num delay, Num gracePeriod, Num
       minimumDelay, Num maximumDelay, Num propositionThreshold, Num voteDuration, Num
       voteDifferential, Num minmumQuorum] s"

definition deployGovernanceStrategy ::
    "env \<Rightarrow> deployer \<Rightarrow> address \<Rightarrow> address \<Rightarrow> chain \<Rightarrow> contract result" where [deploy_defs]:
  "deployGovernanceStrategy e this aave stkaave s =
     deploy e (deployerSigner this) ''GovernanceStrategy'' [Addr aave, Addr stkaave] s"

definition deployAaveTokenV2Mintable :: "env \<Rightarrow> deployer \<Rightarrow> chain \<Rightarrow> contract result" where [deploy_defs]:
  "deployAaveTokenV2Mintable e this s =
     deploy e (deployerSigner this) ''AaveTokenV2Mintable'' [] s"

definition deployCurveDeposit ::
    "env \<Rightarrow> deployer \<Rightarrow> string list \<Rightarrow> string list \<Rightarrow> string \<Rightarrow> string \<Rightarrow> chain \<Rightarrow> contract result" where [deploy_defs]:
  "deployCurveDeposit e this coins underlying_coins curve token s =
     deploy e (deployerSigner this) ''CurveDeposit'' [Strs coins, Strs underlying_coins, Str
       curve, Str token] s"

definition deployCurvePoolERC20 ::
    "env \<Rightarrow> deployer \<Rightarrow> string \<Rightarrow> string \<Rightarrow> int option \<Rightarrow> int \<Rightarrow> chain \<Rightarrow> contract result" where [deploy_defs]:
  "deployCurvePoolERC20 e this name symbol decimals supply s = do {
     let decimals = (case decimals of None \<Rightarrow> 18 | Some x \<Rightarrow> x);
     deploy e (deployerSigner this) ''CurvePoolERC20'' [Str name, Str symbol, Num decimals, Num
       supply] s
   }"

definition deployStableswap ::
    "env \<Rightarrow> deployer \<Rightarrow> string list \<Rightarrow> string list \<Rightarrow> string \<Rightarrow> int option \<Rightarrow> int option \<Rightarrow> chain \<Rightarrow>
     contract result" where [deploy_defs]:
  "deployStableswap e this coins underlying_coins pool_token aCoefficient fee s = do {
     let aCoefficient = (case aCoefficient of None \<Rightarrow> 1 | Some x \<Rightarrow> x);
     let fee = (case fee of None \<Rightarrow> 0 | Some x \<Rightarrow> x);
     deploy e (deployerSigner this) ''Stableswap'' [Strs coins, Strs underlying_coins, Str
       pool_token, Num aCoefficient, Num fee] s
   }"

definition deployCrvToken ::
    "env \<Rightarrow> deployer \<Rightarrow> string \<Rightarrow> string \<Rightarrow> int option \<Rightarrow> chain \<Rightarrow> contract result" where [deploy_defs]:
  "deployCrvToken e this name symbol decimals s = do {
     let decimals = (case decimals of None \<Rightarrow> 18 | Some x \<Rightarrow> x);
     deploy e (deployerSigner this) ''CRVToken'' [Str name, Str symbol, Num decimals] s
   }"

definition deployGaugeController :: "env \<Rightarrow> deployer \<Rightarrow> string \<Rightarrow> string \<Rightarrow> chain \<Rightarrow> contract result" where [deploy_defs]:
  "deployGaugeController e this token voting_escrow s =
     deploy e (deployerSigner this) ''GaugeController'' [Str token, Str voting_escrow] s"

definition deployLiquidityGaugeReward ::
    "env \<Rightarrow> deployer \<Rightarrow> string \<Rightarrow> string \<Rightarrow> string \<Rightarrow> string \<Rightarrow> chain \<Rightarrow> contract result" where [deploy_defs]:
  "deployLiquidityGaugeReward e this lpAddr minter reward_contract rewarded_token s =
     deploy e (deployerSigner this) ''LiquidityGaugeReward'' [Str lpAddr, Str minter, Str
       reward_contract, Str rewarded_token] s"

definition deployLiquidityGauge :: "env \<Rightarrow> deployer \<Rightarrow> string \<Rightarrow> string \<Rightarrow> chain \<Rightarrow> contract result" where [deploy_defs]:
  "deployLiquidityGauge e this lpAddr minter s =
     deploy e (deployerSigner this) ''LiquidityGauge'' [Str lpAddr, Str minter] s"

definition deployMinter :: "env \<Rightarrow> deployer \<Rightarrow> string \<Rightarrow> string \<Rightarrow> chain \<Rightarrow> contract result" where [deploy_defs]:
  "deployMinter e this token controller s =
     deploy e (deployerSigner this) ''Minter'' [Str token, Str controller] s"

definition deployUni :: "env \<Rightarrow> deployer \<Rightarrow> address \<Rightarrow> address \<Rightarrow> int \<Rightarrow> chain \<Rightarrow> contract result" where [deploy_defs]:
  "deployUni e this account minter mintingAllowedAfter s =
     deploy e (deployerSigner this) ''Uni'' [Addr account, Addr minter, Num mintingAllowedAfter] s"

definition deployUniswapTimelock :: "env \<Rightarrow> deployer \<Rightarrow> address \<Rightarrow> int \<Rightarrow> chain \<Rightarrow> contract result" where [deploy_defs]:
  "deployUniswapTimelock e this admin delay s =
     deploy e (deployerSigner this) ''UniswapTimelock'' [Addr admin, Num delay] s"

definition deployUniswapGovernorAlpha ::
    "env \<Rightarrow> deployer \<Rightarrow> address \<Rightarrow> address \<Rightarrow> chain \<Rightarrow> contract result" where [deploy_defs]:
  "deployUniswapGovernorAlpha e this timelock uni s =
     deploy e (deployerSigner this) ''UniswapGovernorAlpha'' [Addr timelock, Addr uni] s"

definition deployUniswapV2Factory :: "env \<Rightarrow> deployer \<Rightarrow> string \<Rightarrow> chain \<Rightarrow> contract result" where [deploy_defs]:
  "deployUniswapV2Factory e this feeToSetter s =
     deploy e (deployerSigner this) ''UniswapV2Factory'' [Str feeToSetter] s"

definition deployUniswapV2Router02 ::
    "env \<Rightarrow> deployer \<Rightarrow> address \<Rightarrow> address \<Rightarrow> chain \<Rightarrow> contract result" where [deploy_defs]:
  "deployUniswapV2Router02 e this factory' weth s =
     deploy e (deployerSigner this) ''UniswapV2Router02'' [Addr factory', Addr weth] s"

definition getForkedUniswapV2Router02 :: "deployer \<Rightarrow> address \<Rightarrow> contract" where
  "getForkedUniswapV2Router02 this mainnetRouter = attach ''UniswapV2Router02'' mainnetRouter (deployerSigner this)"

definition deployUniswapV2Pair :: "env \<Rightarrow> deployer \<Rightarrow> chain \<Rightarrow> contract result" where [deploy_defs]:
  "deployUniswapV2Pair e this s =
     deploy e (deployerSigner this) ''UniswapV2Pair'' [] s"

definition deployStakingRewards ::
    "env \<Rightarrow> deployer \<Rightarrow> address \<Rightarrow> address \<Rightarrow> address \<Rightarrow> chain \<Rightarrow> contract result" where [deploy_defs]:
  "deployStakingRewards e this rewardsDistribution rewardsToken stakingToken s =
     deploy e (deployerSigner this) ''StakingRewards'' [Addr rewardsDistribution, Addr
       rewardsToken, Addr stakingToken] s"

definition deployB__factory :: "env \<Rightarrow> deployer \<Rightarrow> chain \<Rightarrow> contract result" where [deploy_defs]:
  "deployB__factory e this s =
     deploy e (deployerSigner this) ''BFactory'' [] s"

definition deployExchangeProxy :: "env \<Rightarrow> deployer \<Rightarrow> address \<Rightarrow> chain \<Rightarrow> contract result" where [deploy_defs]:
  "deployExchangeProxy e this weth s =
     deploy e (deployerSigner this) ''ExchangeProxy'' [Addr weth] s"

definition deployBRegistry :: "env \<Rightarrow> deployer \<Rightarrow> address \<Rightarrow> chain \<Rightarrow> contract result" where [deploy_defs]:
  "deployBRegistry e this factory' s =
     deploy e (deployerSigner this) ''BRegistry'' [Addr factory'] s"

definition deployDelegateRegistry :: "env \<Rightarrow> deployer \<Rightarrow> chain \<Rightarrow> contract result" where [deploy_defs]:
  "deployDelegateRegistry e this s =
     deploy e (deployerSigner this) ''DelegateRegistry'' [] s"

definition deployVault :: "env \<Rightarrow> deployer \<Rightarrow> chain \<Rightarrow> contract result" where [deploy_defs]:
  "deployVault e this s =
     deploy e (deployerSigner this) ''Vault'' [] s"

definition getVault :: "deployer \<Rightarrow> address \<Rightarrow> contract" where
  "getVault this vaultAddress = attach ''Vault'' vaultAddress (deployerSigner this)"

definition deployRegistry :: "env \<Rightarrow> deployer \<Rightarrow> chain \<Rightarrow> contract result" where [deploy_defs]:
  "deployRegistry e this s =
     deploy e (deployerSigner this) ''Registry'' [] s"

definition deployKyberNetworkTokenV2 :: "env \<Rightarrow> deployer \<Rightarrow> chain \<Rightarrow> contract result" where [deploy_defs]:
  "deployKyberNetworkTokenV2 e this s =
     deploy e (deployerSigner this) ''KyberNetworkTokenV2'' [] s"

definition deployDMMFactory :: "env \<Rightarrow> deployer \<Rightarrow> string \<Rightarrow> chain \<Rightarrow> contract result" where [deploy_defs]:
  "deployDMMFactory e this feeToSetter s =
     deploy e (deployerSigner this) ''DMMFactory'' [Str feeToSetter] s"

definition deployDMMRouter02 :: "env \<Rightarrow> deployer \<Rightarrow> address \<Rightarrow> address \<Rightarrow> chain \<Rightarrow> contract result" where [deploy_defs]:
  "deployDMMRouter02 e this factory' weth s =
     deploy e (deployerSigner this) ''DMMRouter02'' [Addr factory', Addr weth] s"

definition deployDMMPool :: "env \<Rightarrow> deployer \<Rightarrow> chain \<Rightarrow> contract result" where [deploy_defs]:
  "deployDMMPool e this s =
     deploy e (deployerSigner this) ''DMMPool'' [] s"

definition deployUniswapV3Factory :: "env \<Rightarrow> deployer \<Rightarrow> chain \<Rightarrow> contract result" where [deploy_defs]:
  "deployUniswapV3Factory e this s =
     deploy e (deployerSigner this) ''UniswapV3Factory'' [] s"

definition deploySwapRouter :: "env \<Rightarrow> deployer \<Rightarrow> address \<Rightarrow> address \<Rightarrow> chain \<Rightarrow> contract result" where [deploy_defs]:
  "deploySwapRouter e this factory' weth s =
     deploy e (deployerSigner this) ''SwapRouter'' [Addr factory', Addr weth] s"

definition deployNftPositionManager ::
    "env \<Rightarrow> deployer \<Rightarrow> address \<Rightarrow> address \<Rightarrow> address \<Rightarrow> chain \<Rightarrow> contract result" where [deploy_defs]:
  "deployNftPositionManager e this factory' weth nftDesc s =
     deploy e (deployerSigner this) ''NonfungiblePositionManager'' [Addr factory', Addr weth,
       Addr nftDesc] s"

definition deployQuoter :: "env \<Rightarrow> deployer \<Rightarrow> address \<Rightarrow> address \<Rightarrow> chain \<Rightarrow> contract result" where [deploy_defs]:
  "deployQuoter e this factory' weth s =
     deploy e (deployerSigner this) ''Quoter'' [Addr factory', Addr weth] s"

definition deployNFTDescriptor :: "env \<Rightarrow> deployer \<Rightarrow> chain \<Rightarrow> contract result" where [deploy_defs]:
  "deployNFTDescriptor e this s =
     deploy e (deployerSigner this) ''NFTDescriptor'' [] s"

definition getUniswapV3PoolInstance :: "deployer \<Rightarrow> address \<Rightarrow> contract" where
  "getUniswapV3PoolInstance this pool = attach ''UniswapV3Pool'' pool (deployerSigner this)"

definition deployPerpV2OrderBook :: "env \<Rightarrow> deployer \<Rightarrow> chain \<Rightarrow> contract result" where [deploy_defs]:
  "deployPerpV2OrderBook e this s =
     deploy e (deployerSigner this) ''PerpV2OrderBook'' [] s"

definition deployPerpV2MarketRegistry :: "env \<Rightarrow> deployer \<Rightarrow> chain \<Rightarrow> contract result" where [deploy_defs]:
  "deployPerpV2MarketRegistry e this s =
     deploy e (deployerSigner this) ''PerpV2MarketRegistry'' [] s"

definition deployPerpV2Quoter :: "env \<Rightarrow> deployer \<Rightarrow> address \<Rightarrow> chain \<Rightarrow> contract result" where [deploy_defs]:
  "deployPerpV2Quoter e this marketRegistry s =
     deploy e (deployerSigner this) ''PerpV2Quoter'' [Addr marketRegistry] s"

definition deployPerpV2QuoteToken :: "env \<Rightarrow> deployer \<Rightarrow> chain \<Rightarrow> contract result" where [deploy_defs]:
  "deployPerpV2QuoteToken e this s =
     deploy e (deployerSigner this) ''PerpV2QuoteToken'' [] s"

definition deployPerpV2Vault :: "env \<Rightarrow> deployer \<Rightarrow> chain \<Rightarrow> contract result" where [deploy_defs]:
  "deployPerpV2Vault e this s =
     deploy e (deployerSigner this) ''PerpV2Vault'' [] s"

definition deployPerpV2TestAggregatorV3 :: "env \<Rightarrow> deployer \<Rightarrow> chain \<Rightarrow> contract result" where [deploy_defs]:
  "deployPerpV2TestAggregatorV3 e this s =
     deploy e (deployerSigner this) ''PerpV2TestAggregatorV3'' [] s"

definition deployPerpV2ChainlinkPriceFeed :: "env \<Rightarrow> deployer \<Rightarrow> chain \<Rightarrow> contract result" where [deploy_defs]:
  "deployPerpV2ChainlinkPriceFeed e this s =
     deploy e (deployerSigner this) ''PerpV2ChainlinkPriceFeed'' [] s"

definition deployPerpV2BaseToken :: "env \<Rightarrow> deployer \<Rightarrow> chain \<Rightarrow> contract result" where [deploy_defs]:
  "deployPerpV2BaseToken e this s =
     deploy e (deployerSigner this) ''PerpV2BaseToken'' [] s"

definition deployPerpV2ClearingHouseConfig :: "env \<Rightarrow> deployer \<Rightarrow> chain \<Rightarrow> contract result" where [deploy_defs]:
  "deployPerpV2ClearingHouseConfig e this s =
     deploy e (deployerSigner this) ''PerpV2ClearingHouseConfig'' [] s"

definition deployPerpV2InsuranceFund :: "env \<Rightarrow> deployer \<Rightarrow> chain \<Rightarrow> contract result" where [deploy_defs]:
  "deployPerpV2InsuranceFund e this s =
     deploy e (deployerSigner this) ''PerpV2InsuranceFund'' [] s"

definition deployPerpV2AccountBalance :: "env \<Rightarrow> deployer \<Rightarrow> chain \<Rightarrow> contract result" where [deploy_defs]:
  "deployPerpV2AccountBalance e this s =
     deploy e (deployerSigner this) ''PerpV2AccountBalance'' [] s"

definition deployPerpV2Exchange :: "env \<Rightarrow> deployer \<Rightarrow> chain \<Rightarrow> contract result" where [deploy_defs]:
  "deployPerpV2Exchange e this s =
     deploy e (deployerSigner this) ''PerpV2Exchange'' [] s"

definition deployPerpV2ClearingHouse :: "env \<Rightarrow> deployer \<Rightarrow> chain \<Rightarrow> contract result" where [deploy_defs]:
  "deployPerpV2ClearingHouse e this s =
     deploy e (deployerSigner this) ''PerpV2ClearingHouse'' [] s"

definition getVToken :: "deployer \<Rightarrow> address \<Rightarrow> contract" where
  "getVToken this token = attach ''PerpV2BaseToken'' token (deployerSigner this)"


definition getCurveStEthStableswapMock :: "deployer \<Rightarrow> contract option" where
  "getCurveStEthStableswapMock this =
     map_option (\<lambda>a. attach ''CurveStableswapMock'' a (deployerSigner this))
       (dependency ''CURVE_ETH_STETH_EXCHANGE'' 1)"

definition getCurveWethStethStableswapMock :: "deployer \<Rightarrow> contract option" where
  "getCurveWethStethStableswapMock this =
     map_option (\<lambda>a. attach ''CurveStableswapMock'' a (deployerSigner this))
       (dependency ''CURVE_WETH_STETH_EXCHANGE'' 1)"

subsection \<open>The interface\<close>

text \<open>Each helper is an instance of the interface \<open>deploy_helper\<close>, with its constructor arguments.\<close>

interpretation deployWETH_helper: deploy_helper
  "\<lambda>e this (_::unit). deployWETH e this"
  "''WETH9''" "\<lambda>_. []" "\<lambda>_. []"
  by unfold_locales (auto simp: deployWETH_def deploy_def)

interpretation deployAaveV2LendingPool_helper: deploy_helper
  "\<lambda>e this (v, r). deployAaveV2LendingPool e this v r"
  "''AaveV2LendingPool''" "\<lambda>(v, r). js_object [(''__$de8c0cf1a7d7c36c802af9a64fb9d86036$__'', v), (''__$22cd43a9dda9ce44e9b92ba393b88fb9ac$__'', r)]" "\<lambda>(v, r). []"
  by unfold_locales (auto simp: deployAaveV2LendingPool_def deploy_def)

end
