(* ===== verification/Controller_Contract.thy ===== *)
theory Controller_Contract
  imports Math_Utils
begin

section \<open>The Controller and the factory the system fixture drives\<close>

text \<open>
  Models contracts/protocol/Controller.sol (every function that changes state), the array functions
  of contracts/lib/AddressArrayUtils.sol it uses, and SetTokenCreator.create. A revert is
  \<open>Inl\<close> of its reason string. The Controller keeps each registry twice, as an array and as a
  mapping to bool; the interface \<open>registry\<close> states what the add and remove functions promise of
  such a pair and shows that they stay consistent. Addresses are compared as strings: they are in one
  spelling, as ethers prints them.
\<close>

subsection \<open>AddressArrayUtils.sol\<close>

fun indexOf_from :: "nat \<Rightarrow> address list \<Rightarrow> address \<Rightarrow> nat option" where
  "indexOf_from i [] a = None"
| "indexOf_from i (x # A) a = (if x = a then Some i else indexOf_from (Suc i) A a)"

definition indexOf :: "address list \<Rightarrow> address \<Rightarrow> nat option" where
  "indexOf A a = indexOf_from 0 A a"

definition contains :: "address list \<Rightarrow> address \<Rightarrow> bool" where
  "contains A a = (indexOf A a \<noteq> None)"

fun duplicate_scan :: "address list \<Rightarrow> bool" where
  "duplicate_scan [] = False"
| "duplicate_scan (x # A) = (list_ex (\<lambda>y. x = y) A \<or> duplicate_scan A)"

definition hasDuplicate :: "address list \<Rightarrow> bool sol" where
  "hasDuplicate A = (if A = [] then Inl ''A is empty'' else Inr (duplicate_scan A))"

definition array_pop :: "address list \<Rightarrow> nat \<Rightarrow> (address list \<times> address) sol" where
  "array_pop A index =
     (if \<not> index < length A then Inl ''Index must be < A length''
      else Inr (take index A @ drop (index + 1) A, A ! index))"

definition array_remove :: "address list \<Rightarrow> address \<Rightarrow> address list sol" where
  "array_remove A a = (case indexOf A a of
     None \<Rightarrow> Inl ''Address not in array.''
   | Some index \<Rightarrow> map_sum id fst (array_pop A index))"

subsection \<open>Controller.sol\<close>

record controller_state =
  c_owner :: address
  c_self :: address
  c_sets :: "address list"
  c_factories :: "address list"
  c_modules :: "address list"
  c_resources :: "address list"
  isSet :: "address \<Rightarrow> bool"
  isFactory :: "address \<Rightarrow> bool"
  isModule :: "address \<Rightarrow> bool"
  isResource :: "address \<Rightarrow> bool"
  c_fees :: "address \<Rightarrow> int \<Rightarrow> int"
  resourceId :: "int \<Rightarrow> address"
  c_feeRecipient :: address
  isInitialized :: bool

text \<open>The constructor; \<^verbatim>\<open>Ownable\<close> makes the sender the owner.\<close>

definition new_Controller :: "address \<Rightarrow> address \<Rightarrow> address \<Rightarrow> controller_state" where
  "new_Controller self sender feeRecipient =
     \<lparr>c_owner = sender, c_self = self, c_sets = [], c_factories = [], c_modules = [], c_resources = [],
      isSet = (\<lambda>_. False), isFactory = (\<lambda>_. False), isModule = (\<lambda>_. False), isResource = (\<lambda>_. False),
      c_fees = (\<lambda>_ _. 0), resourceId = (\<lambda>_. ADDRESS_ZERO), c_feeRecipient = feeRecipient,
      isInitialized = False\<rparr>"

fun init_flags :: "address list \<Rightarrow> (address \<Rightarrow> bool) \<Rightarrow> (address \<Rightarrow> bool) sol" where
  "init_flags [] m = Inr m"
| "init_flags (a # as) m =
     (if a = ADDRESS_ZERO then Inl ''Zero address submitted.'' else init_flags as (m(a := True)))"

fun init_resources :: "(address \<times> int) list \<Rightarrow> (address \<Rightarrow> bool) \<times> (int \<Rightarrow> address) \<Rightarrow>
    ((address \<Rightarrow> bool) \<times> (int \<Rightarrow> address)) sol" where
  "init_resources [] m = Inr m"
| "init_resources ((a, i) # rs) (m, ids) =
     (if a = ADDRESS_ZERO then Inl ''Zero address submitted.''
      else if ids i \<noteq> ADDRESS_ZERO then Inl ''Resource ID already exists''
      else init_resources rs (m(a := True), ids(i := a)))"

definition initialize :: "address \<Rightarrow> address list \<Rightarrow> address list \<Rightarrow> address list \<Rightarrow> int list
    \<Rightarrow> controller_state \<Rightarrow> controller_state sol" where
  "initialize sender factories modules resources resourceIds st =
     (if sender \<noteq> c_owner st then Inl ''Ownable: caller is not the owner''
      else if isInitialized st then Inl ''Controller is already initialized''
      else if length resources \<noteq> length resourceIds then Inl ''Array lengths do not match.''
      else case init_flags factories (isFactory st) of Inl m \<Rightarrow> Inl m | Inr fs \<Rightarrow>
       (case init_flags modules (isModule st) of Inl m \<Rightarrow> Inl m | Inr ms \<Rightarrow>
       (case init_resources (zip resources resourceIds) (isResource st, resourceId st) of Inl m \<Rightarrow> Inl m
        | Inr (rs, ids) \<Rightarrow> Inr (st\<lparr>c_factories := factories, c_modules := modules, c_resources := resources,
            isFactory := fs, isModule := ms, isResource := rs, resourceId := ids, isInitialized := True\<rparr>))))"

text \<open>The modifiers.\<close>

definition onlyInitialized :: "controller_state \<Rightarrow> 'a sol \<Rightarrow> 'a sol" where
  "onlyInitialized st k = (if isInitialized st then k else Inl ''Contract must be initialized.'')"

definition onlyFactory :: "address \<Rightarrow> controller_state \<Rightarrow> 'a sol \<Rightarrow> 'a sol" where
  "onlyFactory sender st k = (if isFactory st sender then k else Inl ''Only valid factories can call'')"

definition onlyOwner :: "address \<Rightarrow> controller_state \<Rightarrow> 'a sol \<Rightarrow> 'a sol" where
  "onlyOwner sender st k = (if sender = c_owner st then k else Inl ''Ownable: caller is not the owner'')"

lemmas modifiers = onlyInitialized_def onlyFactory_def onlyOwner_def

definition addSet :: "address \<Rightarrow> address \<Rightarrow> controller_state \<Rightarrow> controller_state sol" where
  "addSet sender a st = onlyInitialized st (onlyFactory sender st
     (if isSet st a then Inl ''Set already exists''
      else Inr (st\<lparr>isSet := (isSet st)(a := True), c_sets := c_sets st @ [a]\<rparr>)))"

definition removeSet :: "address \<Rightarrow> address \<Rightarrow> controller_state \<Rightarrow> controller_state sol" where
  "removeSet sender a st = onlyInitialized st (onlyOwner sender st
     (if \<not> isSet st a then Inl ''Set does not exist''
      else case array_remove (c_sets st) a of Inl m \<Rightarrow> Inl m
      | Inr l \<Rightarrow> Inr (st\<lparr>c_sets := l, isSet := (isSet st)(a := False)\<rparr>)))"

definition addFactory :: "address \<Rightarrow> address \<Rightarrow> controller_state \<Rightarrow> controller_state sol" where
  "addFactory sender a st = onlyInitialized st (onlyOwner sender st
     (if isFactory st a then Inl ''Factory already exists''
      else Inr (st\<lparr>isFactory := (isFactory st)(a := True), c_factories := c_factories st @ [a]\<rparr>)))"

definition removeFactory :: "address \<Rightarrow> address \<Rightarrow> controller_state \<Rightarrow> controller_state sol" where
  "removeFactory sender a st = onlyInitialized st (onlyOwner sender st
     (if \<not> isFactory st a then Inl ''Factory does not exist''
      else case array_remove (c_factories st) a of Inl m \<Rightarrow> Inl m
      | Inr l \<Rightarrow> Inr (st\<lparr>c_factories := l, isFactory := (isFactory st)(a := False)\<rparr>)))"

definition addModule :: "address \<Rightarrow> address \<Rightarrow> controller_state \<Rightarrow> controller_state sol" where
  "addModule sender a st = onlyInitialized st (onlyOwner sender st
     (if isModule st a then Inl ''Module already exists''
      else Inr (st\<lparr>isModule := (isModule st)(a := True), c_modules := c_modules st @ [a]\<rparr>)))"

definition removeModule :: "address \<Rightarrow> address \<Rightarrow> controller_state \<Rightarrow> controller_state sol" where
  "removeModule sender a st = onlyInitialized st (onlyOwner sender st
     (if \<not> isModule st a then Inl ''Module does not exist''
      else case array_remove (c_modules st) a of Inl m \<Rightarrow> Inl m
      | Inr l \<Rightarrow> Inr (st\<lparr>c_modules := l, isModule := (isModule st)(a := False)\<rparr>)))"

definition addResource :: "address \<Rightarrow> address \<Rightarrow> int \<Rightarrow> controller_state \<Rightarrow> controller_state sol" where
  "addResource sender a i st = onlyInitialized st (onlyOwner sender st
     (if isResource st a then Inl ''Resource already exists''
      else if resourceId st i \<noteq> ADDRESS_ZERO then Inl ''Resource ID already exists''
      else Inr (st\<lparr>isResource := (isResource st)(a := True), resourceId := (resourceId st)(i := a),
                  c_resources := c_resources st @ [a]\<rparr>)))"

definition removeResource :: "address \<Rightarrow> int \<Rightarrow> controller_state \<Rightarrow> controller_state sol" where
  "removeResource sender i st = onlyInitialized st (onlyOwner sender st
     (let resourceToRemove = resourceId st i
      in if resourceToRemove = ADDRESS_ZERO then Inl ''Resource does not exist''
         else case array_remove (c_resources st) resourceToRemove of Inl m \<Rightarrow> Inl m
         | Inr l \<Rightarrow> Inr (st\<lparr>c_resources := l, resourceId := (resourceId st)(i := ADDRESS_ZERO),
                        isResource := (isResource st)(resourceToRemove := False)\<rparr>)))"

definition addFee :: "address \<Rightarrow> address \<Rightarrow> int \<Rightarrow> int \<Rightarrow> controller_state \<Rightarrow> controller_state sol" where
  "addFee sender a feeType newFee st = onlyInitialized st (onlyOwner sender st
     (if \<not> isModule st a then Inl ''Module does not exist''
      else if c_fees st a feeType \<noteq> 0 then Inl ''Fee type already exists on module''
      else Inr (st\<lparr>c_fees := (c_fees st)(a := (c_fees st a)(feeType := newFee))\<rparr>)))"

definition editFee :: "address \<Rightarrow> address \<Rightarrow> int \<Rightarrow> int \<Rightarrow> controller_state \<Rightarrow> controller_state sol" where
  "editFee sender a feeType newFee st = onlyInitialized st (onlyOwner sender st
     (if \<not> isModule st a then Inl ''Module does not exist''
      else if c_fees st a feeType = 0 then Inl ''Fee type does not exist on module''
      else Inr (st\<lparr>c_fees := (c_fees st)(a := (c_fees st a)(feeType := newFee))\<rparr>)))"

definition editFeeRecipient :: "address \<Rightarrow> address \<Rightarrow> controller_state \<Rightarrow> controller_state sol" where
  "editFeeRecipient sender a st = onlyInitialized st (onlyOwner sender st
     (if a = ADDRESS_ZERO then Inl ''Address must not be 0''
      else Inr (st\<lparr>c_feeRecipient := a\<rparr>)))"

definition isSystemContract :: "controller_state \<Rightarrow> address \<Rightarrow> bool" where
  "isSystemContract st a = (isSet st a \<or> isModule st a \<or> isResource st a \<or> isFactory st a \<or> a = c_self st)"

subsection \<open>SetTokenCreator.sol\<close>

fun check_components :: "(address \<times> int) list \<Rightarrow> unit sol" where
  "check_components [] = Inr ()"
| "check_components ((c, u) # cs) =
     (if c = ADDRESS_ZERO then Inl ''Component must not be null address''
      else if \<not> 0 < u then Inl ''Units must be greater than 0'' else check_components cs)"

fun check_modules :: "controller_state \<Rightarrow> address list \<Rightarrow> unit sol" where
  "check_modules st [] = Inr ()"
| "check_modules st (m # ms) = (if isModule st m then check_modules st ms else Inl ''Must be enabled module'')"

text \<open>
  The address of the SetToken the factory creates is a parameter, as is whether its constructor
  (SetToken.sol) accepts its arguments.
\<close>

definition create :: "address \<Rightarrow> bool \<Rightarrow> address \<Rightarrow> address list \<Rightarrow> int list \<Rightarrow> address list \<Rightarrow> address
    \<Rightarrow> controller_state \<Rightarrow> (address \<times> controller_state) sol" where
  "create self constructor_ok setToken components units modules manager st =
     (if components = [] then Inl ''Must have at least 1 component''
      else if length components \<noteq> length units then Inl ''Component and unit lengths must be the same''
      else case hasDuplicate components of Inl m \<Rightarrow> Inl m | Inr dup \<Rightarrow>
       (if dup then Inl ''Components must not have a duplicate''
        else if modules = [] then Inl ''Must have at least 1 module''
        else if manager = ADDRESS_ZERO then Inl ''Manager must not be empty''
        else case check_components (zip components units) of Inl m \<Rightarrow> Inl m | Inr _ \<Rightarrow>
         (case check_modules st modules of Inl m \<Rightarrow> Inl m | Inr _ \<Rightarrow>
           (if \<not> constructor_ok then Inl ''SetToken constructor''
            else map_sum id (Pair setToken) (addSet self setToken st)))))"

subsection \<open>Arrays\<close>

lemma indexOf_from_Some:
  "indexOf_from i A a = Some k \<Longrightarrow> i \<le> k \<and> k - i < length A \<and> A ! (k - i) = a \<and> a \<notin> set (take (k - i) A)"
proof (induction A arbitrary: i)
  case (Cons x A)
  show ?case
  proof (cases "x = a")
    case False
    with Cons have *: "Suc i \<le> k \<and> k - Suc i < length A \<and> A ! (k - Suc i) = a \<and> a \<notin> set (take (k - Suc i) A)"
      by simp
    then have "k - i = Suc (k - Suc i)" by (simp add: Suc_diff_Suc)
    with * False show ?thesis by simp
  qed (use Cons in simp)
qed simp

lemma indexOf_from_None_iff: "indexOf_from i A a = None \<longleftrightarrow> a \<notin> set A"
  by (induction A arbitrary: i) auto

lemma contains_iff [simp]: "contains A a \<longleftrightarrow> a \<in> set A"
  by (simp add: contains_def indexOf_def indexOf_from_None_iff)

lemma duplicate_scan_iff [simp]: "duplicate_scan A \<longleftrightarrow> \<not> distinct A"
  by (induction A) (auto simp: list_ex_iff)

lemma array_remove_eq:
  "array_remove A a = (if a \<in> set A then Inr (remove1 a A) else Inl ''Address not in array.'')"
proof (cases "indexOf_from 0 A a")
  case None
  moreover from this have "a \<notin> set A" by (simp add: indexOf_from_None_iff)
  ultimately show ?thesis by (simp add: array_remove_def indexOf_def)
next
  case (Some k)
  note k = indexOf_from_Some [OF Some, simplified]
  have "A = take k A @ a # drop (Suc k) A" using k by (metis id_take_nth_drop)
  then have "remove1 a A = take k A @ drop (Suc k) A"
    using k remove1_append [of a "take k A" "a # drop (Suc k) A"] by simp
  moreover have "a \<in> set A" using k by (metis nth_mem)
  ultimately show ?thesis using Some k by (simp add: array_remove_def array_pop_def indexOf_def)
qed

subsection \<open>Interface: an array and its membership mapping\<close>

definition registered :: "address list \<Rightarrow> (address \<Rightarrow> bool) \<Rightarrow> bool" where
  "registered l m \<longleftrightarrow> distinct l \<and> (\<forall>a. m a \<longleftrightarrow> a \<in> set l)"

lemma registered_Nil [simp]: "registered [] (\<lambda>_. False)"
  by (simp add: registered_def)

lemma registered_add: "registered l m \<Longrightarrow> \<not> m a \<Longrightarrow> registered (l @ [a]) (m(a := True))"
  by (auto simp: registered_def)

lemma registered_remove: "registered l m \<Longrightarrow> registered (remove1 a l) (m(a := False))"
  by (auto simp: registered_def)

locale registry =
  fixes lst :: "'s \<Rightarrow> address list"
    and flag :: "'s \<Rightarrow> address \<Rightarrow> bool"
    and add :: "address \<Rightarrow> 's \<Rightarrow> 's sol"
    and rem :: "address \<Rightarrow> 's \<Rightarrow> 's sol"
    and may_remove :: "'s \<Rightarrow> bool"
  assumes add_spec: "add a st = Inr st' \<Longrightarrow>
      \<not> flag st a \<and> lst st' = lst st @ [a] \<and> flag st' = (flag st)(a := True)"
    and rem_spec: "rem a st = Inr st' \<Longrightarrow>
      flag st a \<and> array_remove (lst st) a = Inr (lst st') \<and> flag st' = (flag st)(a := False)"
    and rem_defined: "may_remove st \<Longrightarrow> flag st a \<Longrightarrow> a \<in> set (lst st) \<Longrightarrow> \<exists>st'. rem a st = Inr st'"
begin

lemma add_registered: "registered (lst st) (flag st) \<Longrightarrow> add a st = Inr st' \<Longrightarrow> registered (lst st') (flag st')"
  using add_spec [of a st st'] by (simp add: registered_add)

lemma rem_registered: "registered (lst st) (flag st) \<Longrightarrow> rem a st = Inr st' \<Longrightarrow> registered (lst st') (flag st')"
  using rem_spec [of a st st'] registered_remove [of "lst st" "flag st" a]
  by (auto simp: array_remove_eq split: if_splits)

lemma rem_after_add:
  assumes "registered (lst st) (flag st)" "add a st = Inr st'" "rem a st' = Inr st''"
  shows "lst st'' = lst st \<and> flag st'' = flag st"
proof -
  have "a \<notin> set (lst st)" "\<not> flag st a"
    using assms(1) add_spec [OF assms(2)] by (auto simp: registered_def)
  then show ?thesis
    using add_spec [OF assms(2)] rem_spec [OF assms(3)] by (auto simp: array_remove_eq remove1_append fun_eq_iff)
qed

lemma rem_succeeds:
  "registered (lst st) (flag st) \<Longrightarrow> may_remove st \<Longrightarrow> flag st a \<Longrightarrow> \<exists>st'. rem a st = Inr st'"
  by (rule rem_defined) (simp_all add: registered_def)

end

definition owner_may_remove :: "address \<Rightarrow> controller_state \<Rightarrow> bool" where
  "owner_may_remove owner st \<longleftrightarrow> isInitialized st \<and> owner = c_owner st"

interpretation set_registry: registry c_sets isSet "addSet sender" "removeSet owner" "owner_may_remove owner"
  by unfold_locales
    (auto simp: addSet_def removeSet_def modifiers owner_may_remove_def array_remove_eq split: if_splits sum.splits)

interpretation factory_registry: registry c_factories isFactory "addFactory sender" "removeFactory owner"
    "owner_may_remove owner"
  by unfold_locales
    (auto simp: addFactory_def removeFactory_def modifiers owner_may_remove_def array_remove_eq split: if_splits sum.splits)

interpretation module_registry: registry c_modules isModule "addModule sender" "removeModule owner"
    "owner_may_remove owner"
  by unfold_locales
    (auto simp: addModule_def removeModule_def modifiers owner_may_remove_def array_remove_eq split: if_splits sum.splits)

subsection \<open>Batch initialisation\<close>

lemma init_flags_eq:
  "init_flags as m = (if ADDRESS_ZERO \<in> set as then Inl ''Zero address submitted.''
     else Inr (\<lambda>a. m a \<or> a \<in> set as))"
proof (induction as arbitrary: m)
  case (Cons x as)
  have "(\<lambda>a. (m(x := True)) a \<or> a \<in> set as) = (\<lambda>a. m a \<or> a \<in> set (x # as))" by auto
  with Cons show ?case by simp
qed simp

lemma init_resources_Inr:
  assumes "ADDRESS_ZERO \<notin> fst ` set rs" "distinct (map snd rs)" "\<forall>i \<in> snd ` set rs. ids i = ADDRESS_ZERO"
  shows "init_resources rs (m, ids) = Inr (\<lambda>a. m a \<or> a \<in> fst ` set rs,
    \<lambda>i. case map_of (map prod.swap rs) i of Some a \<Rightarrow> a | None \<Rightarrow> ids i)"
  using assms
proof (induction rs arbitrary: m ids)
  case (Cons r rs)
  obtain a i where r: "r = (a, i)" by (cases r)
  have "map_of (map prod.swap rs) i = None"
    using Cons.prems(2) r by (force simp: map_of_eq_None_iff)
  then have ids: "(\<lambda>j. case map_of (map prod.swap rs) j of Some b \<Rightarrow> b | None \<Rightarrow> (ids(i := a)) j)
      = (\<lambda>j. case map_of (map prod.swap (r # rs)) j of Some b \<Rightarrow> b | None \<Rightarrow> ids j)"
    using r by (auto simp: fun_eq_iff split: option.split)
  have flags: "(\<lambda>b. (m(a := True)) b \<or> b \<in> fst ` set rs) = (\<lambda>b. m b \<or> b \<in> fst ` set (r # rs))"
    using r by auto
  have "\<forall>j \<in> snd ` set rs. (ids(i := a)) j = ADDRESS_ZERO" using Cons.prems r by auto
  then have "init_resources rs (m(a := True), ids(i := a)) =
      Inr (\<lambda>b. m b \<or> b \<in> fst ` set (r # rs),
        \<lambda>j. case map_of (map prod.swap (r # rs)) j of Some b \<Rightarrow> b | None \<Rightarrow> ids j)"
    unfolding ids [symmetric] flags [symmetric] using Cons.IH Cons.prems by simp
  then show ?case using Cons.prems r by (simp add: eq_commute [of ADDRESS_ZERO])
qed simp

lemma init_resources_InrD:
  "init_resources rs (m, ids) = Inr r \<Longrightarrow>
     ADDRESS_ZERO \<notin> fst ` set rs \<and> distinct (map snd rs) \<and> (\<forall>i \<in> snd ` set rs. ids i = ADDRESS_ZERO)"
proof (induction rs arbitrary: m ids)
  case (Cons x rs)
  obtain a i where x: "x = (a, i)" by (cases x)
  with Cons.prems have ai: "a \<noteq> ADDRESS_ZERO" "ids i = ADDRESS_ZERO"
    and rest: "init_resources rs (m(a := True), ids(i := a)) = Inr r" by (auto split: if_splits)
  from Cons.IH [OF rest] ai x show ?case by (auto split: if_splits)
qed simp

lemma initialize_Inr_iff:
  "initialize sender fs ms rs ids st = Inr st' \<longleftrightarrow>
     sender = c_owner st \<and> \<not> isInitialized st \<and> length rs = length ids \<and>
     ADDRESS_ZERO \<notin> set fs \<union> set ms \<union> set rs \<and> distinct ids \<and> (\<forall>i \<in> set ids. resourceId st i = ADDRESS_ZERO) \<and>
     st' = st\<lparr>c_factories := fs, c_modules := ms, c_resources := rs,
       isFactory := \<lambda>a. isFactory st a \<or> a \<in> set fs, isModule := \<lambda>a. isModule st a \<or> a \<in> set ms,
       isResource := \<lambda>a. isResource st a \<or> a \<in> set rs,
       resourceId := \<lambda>i. case map_of (zip ids rs) i of Some a \<Rightarrow> a | None \<Rightarrow> resourceId st i,
       isInitialized := True\<rparr>"
  (is "?l \<longleftrightarrow> ?r")
proof (cases "length rs = length ids")
  case True
  then have zips: "map snd (zip rs ids) = ids" "fst ` set (zip rs ids) = set rs" "snd ` set (zip rs ids) = set ids"
    "map prod.swap (zip rs ids) = zip ids rs"
    by (simp_all flip: set_map add: zip_commute [of ids rs] split: prod.split)
  show ?thesis
  proof
    assume ?l
    then have g: "sender = c_owner st" "\<not> isInitialized st" "ADDRESS_ZERO \<notin> set fs \<union> set ms"
      by (auto simp: initialize_def init_flags_eq split: if_splits)
    obtain r where r: "init_resources (zip rs ids) (isResource st, resourceId st) = Inr r"
      using \<open>?l\<close> by (auto simp: initialize_def init_flags_eq split: if_splits sum.splits)
    note ok = init_resources_InrD [OF r, unfolded zips]
    with init_resources_Inr [of "zip rs ids", unfolded zips] \<open>?l\<close> g True show ?r
      by (auto simp: initialize_def init_flags_eq)
  next
    assume ?r
    with init_resources_Inr [of "zip rs ids", unfolded zips] True show ?l
      by (auto simp: initialize_def init_flags_eq)
  qed
qed (auto simp: initialize_def)

subsection \<open>Reachable states\<close>

datatype controller_call =
    Initialize "address list" "address list" "address list" "int list"
  | AddSet address | RemoveSet address
  | AddFactory address | RemoveFactory address
  | AddModule address | RemoveModule address
  | AddResource address int | RemoveResource int
  | AddFee address int int | EditFee address int int
  | EditFeeRecipient address

fun exec :: "address \<Rightarrow> controller_call \<Rightarrow> controller_state \<Rightarrow> controller_state sol" where
  "exec sender (Initialize fs ms rs ids) = initialize sender fs ms rs ids"
| "exec sender (AddSet a) = addSet sender a"
| "exec sender (RemoveSet a) = removeSet sender a"
| "exec sender (AddFactory a) = addFactory sender a"
| "exec sender (RemoveFactory a) = removeFactory sender a"
| "exec sender (AddModule a) = addModule sender a"
| "exec sender (RemoveModule a) = removeModule sender a"
| "exec sender (AddResource a i) = addResource sender a i"
| "exec sender (RemoveResource i) = removeResource sender i"
| "exec sender (AddFee a t f) = addFee sender a t f"
| "exec sender (EditFee a t f) = editFee sender a t f"
| "exec sender (EditFeeRecipient a) = editFeeRecipient sender a"

text \<open>A batch without repetitions; \<^verbatim>\<open>initialize\<close> does not check this.\<close>

fun batch_ok :: "controller_call \<Rightarrow> bool" where
  "batch_ok (Initialize fs ms rs ids) = (distinct fs \<and> distinct ms \<and> distinct rs)"
| "batch_ok _ = True"

text \<open>The states reached from the constructor by any accepted calls of any senders, with the calls made.\<close>

inductive reachable :: "address \<Rightarrow> controller_call list \<Rightarrow> controller_state \<Rightarrow> bool" for owner where
  deployed: "reachable owner [] (new_Controller self owner recipient)"
| called: "reachable owner cs st \<Longrightarrow> exec sender c st = Inr st' \<Longrightarrow> reachable owner (cs @ [c]) st'"

definition resources_ok :: "controller_state \<Rightarrow> bool" where
  "resources_ok st \<longleftrightarrow>
     (\<forall>a. a \<noteq> ADDRESS_ZERO \<longrightarrow> isResource st a = (\<exists>i. resourceId st i = a)) \<and>
     (\<forall>i j. resourceId st i = resourceId st j \<and> resourceId st i \<noteq> ADDRESS_ZERO \<longrightarrow> i = j)"

definition controller_inv :: "controller_state \<Rightarrow> bool" where
  "controller_inv st \<longleftrightarrow>
     registered (c_sets st) (isSet st) \<and> registered (c_factories st) (isFactory st) \<and>
     registered (c_modules st) (isModule st) \<and> registered (c_resources st) (isResource st) \<and>
     resources_ok st \<and>
     (isInitialized st \<or> c_factories st = [] \<and> c_modules st = [] \<and> c_resources st = [] \<and>
        resourceId st = (\<lambda>_. ADDRESS_ZERO))"

lemma new_Controller_inv: "controller_inv (new_Controller self owner recipient)"
  by (simp add: controller_inv_def new_Controller_def resources_ok_def)

lemma registered_batch: "registered [] m \<Longrightarrow> distinct l \<Longrightarrow> registered l (\<lambda>a. m a \<or> a \<in> set l)"
  by (simp add: registered_def)

lemma batch_resources_ok:
  assumes len: "length rs = length ids" and "distinct ids" "distinct rs"
    and res: "resourceId st = (\<lambda>i. case map_of (zip ids rs) i of Some a \<Rightarrow> a | None \<Rightarrow> ADDRESS_ZERO)" (is "_ = ?id")
      "isResource st = (\<lambda>a. a \<in> set rs)"
  shows "resources_ok st"
proof -
  have id_nth: "?id (ids ! k) = rs ! k" if "k < length ids" for k
    using that len assms(2) by (simp add: map_of_zip_nth)
  have id_out: "?id i = ADDRESS_ZERO" if "i \<notin> set ids" for i
  proof -
    have "map_of (zip ids rs) i = None" using that len by (simp add: map_of_zip_is_None)
    then show ?thesis by simp
  qed
  show ?thesis unfolding resources_ok_def res
  proof (intro conjI allI impI)
    fix a assume "a \<noteq> ADDRESS_ZERO"
    show "a \<in> set rs \<longleftrightarrow> (\<exists>i. ?id i = a)"
    proof
      assume "a \<in> set rs"
      then obtain k where "k < length rs" "rs ! k = a" by (auto simp: in_set_conv_nth)
      then show "\<exists>i. ?id i = a" using id_nth [of k] len by (intro exI [of _ "ids ! k"]) simp
    next
      assume "\<exists>i. ?id i = a"
      then obtain i where "?id i = a" ..
      with \<open>a \<noteq> ADDRESS_ZERO\<close> id_out have "i \<in> set ids" by fastforce
      then obtain k where k: "k < length ids" "ids ! k = i" by (auto simp: in_set_conv_nth)
      then have "rs ! k = a" using id_nth [of k] \<open>?id i = a\<close> by simp
      then show "a \<in> set rs" using k(1) len nth_mem [of k rs] by simp
    qed
  next
    fix i j assume eq: "?id i = ?id j \<and> ?id i \<noteq> ADDRESS_ZERO"
    with id_out have "i \<in> set ids" "j \<in> set ids" by fastforce+
    then obtain k l where kl: "k < length ids" "ids ! k = i" "l < length ids" "ids ! l = j"
      by (auto simp: in_set_conv_nth)
    then have "rs ! k = rs ! l" using eq id_nth [of k] id_nth [of l] by simp
    then show "i = j" using kl assms(3) len by (simp add: nth_eq_iff_index_eq)
  qed
qed

lemma initialize_inv:
  assumes "controller_inv st" "initialize sender fs ms rs ids st = Inr st'" "distinct fs" "distinct ms" "distinct rs"
  shows "controller_inv st'"
proof -
  note i = assms(2) [unfolded initialize_Inr_iff]
  then have empty: "resourceId st = (\<lambda>_. ADDRESS_ZERO)"
    and inv: "registered (c_sets st) (isSet st)" "registered [] (isFactory st)" "registered [] (isModule st)"
      "registered [] (isResource st)"
    using assms(1) by (auto simp: controller_inv_def)
  have "resourceId st' = (\<lambda>i. case map_of (zip ids rs) i of Some a \<Rightarrow> a | None \<Rightarrow> resourceId st i)"
    using i by simp
  then have "resourceId st' = (\<lambda>i. case map_of (zip ids rs) i of Some a \<Rightarrow> a | None \<Rightarrow> ADDRESS_ZERO)"
    unfolding empty .
  moreover have "isResource st' = (\<lambda>a. a \<in> set rs)" using i inv(4) by (simp add: registered_def)
  ultimately have "resources_ok st'" using i assms(5) by (intro batch_resources_ok [of rs ids]) simp_all
  then show ?thesis
    using i inv assms(3-5) by (simp add: controller_inv_def registered_batch)
qed

lemma addResource_inv:
  assumes "controller_inv st" "addResource sender a i st = Inr st'"
  shows "controller_inv st'"
proof -
  have st': "st' = st\<lparr>isResource := (isResource st)(a := True), resourceId := (resourceId st)(i := a),
      c_resources := c_resources st @ [a]\<rparr>" and g: "isInitialized st" "\<not> isResource st a"
      "resourceId st i = ADDRESS_ZERO"
    using assms(2) by (auto simp: addResource_def modifiers split: if_splits)
  have ro: "resources_ok st" using assms(1) by (simp add: controller_inv_def)
  have "resources_ok st'" unfolding resources_ok_def
  proof (intro conjI allI impI)
    fix b assume b: "b \<noteq> ADDRESS_ZERO"
    show "isResource st' b = (\<exists>j. resourceId st' j = b)"
      using ro b g st' unfolding resources_ok_def by (cases "b = a") (auto; metis)+
  next
    fix j k assume "resourceId st' j = resourceId st' k \<and> resourceId st' j \<noteq> ADDRESS_ZERO"
    then show "j = k"
      using ro g st' unfolding resources_ok_def by (auto split: if_splits; metis)
  qed
  then show ?thesis using assms(1) g st'
    by (simp add: controller_inv_def registered_add)
qed

lemma removeResource_inv:
  assumes "controller_inv st" "removeResource sender i st = Inr st'"
  shows "controller_inv st'"
proof -
  let ?a = "resourceId st i"
  have st': "st' = st\<lparr>c_resources := remove1 ?a (c_resources st), resourceId := (resourceId st)(i := ADDRESS_ZERO),
      isResource := (isResource st)(?a := False)\<rparr>" and g: "isInitialized st" "?a \<noteq> ADDRESS_ZERO"
    using assms(2) by (auto simp: removeResource_def modifiers Let_def array_remove_eq split: if_splits)
  have ro: "resources_ok st" using assms(1) by (simp add: controller_inv_def)
  have "resources_ok st'" unfolding resources_ok_def
  proof (intro conjI allI impI)
    fix b assume b: "b \<noteq> ADDRESS_ZERO"
    show "isResource st' b = (\<exists>j. resourceId st' j = b)"
      using ro b g st' unfolding resources_ok_def by (cases "b = ?a") (auto; metis)+
  next
    fix j k assume "resourceId st' j = resourceId st' k \<and> resourceId st' j \<noteq> ADDRESS_ZERO"
    then show "j = k"
      using ro g st' unfolding resources_ok_def by (auto split: if_splits)
  qed
  then show ?thesis using assms(1) g st'
    by (simp add: controller_inv_def registered_remove)
qed

lemma resources_ok_update [simp]:
  "resources_ok (st\<lparr>c_sets := l, isSet := m\<rparr>) = resources_ok st"
  "resources_ok (st\<lparr>c_factories := l, isFactory := m\<rparr>) = resources_ok st"
  "resources_ok (st\<lparr>c_modules := l, isModule := m\<rparr>) = resources_ok st"
  "resources_ok (st\<lparr>isSet := m, c_sets := l\<rparr>) = resources_ok st"
  "resources_ok (st\<lparr>isFactory := m, c_factories := l\<rparr>) = resources_ok st"
  "resources_ok (st\<lparr>isModule := m, c_modules := l\<rparr>) = resources_ok st"
  "resources_ok (st\<lparr>c_fees := f\<rparr>) = resources_ok st"
  "resources_ok (st\<lparr>c_feeRecipient := a\<rparr>) = resources_ok st"
  by (simp_all add: resources_ok_def)

lemma exec_inv: "controller_inv st \<Longrightarrow> exec sender c st = Inr st' \<Longrightarrow> batch_ok c \<Longrightarrow> controller_inv st'"
proof (induction c)
  case (Initialize fs ms rs ids)
  then show ?case using initialize_inv [of st sender fs ms rs ids st'] by simp
next
  case (AddSet a)
  then show ?case
    by (auto simp: controller_inv_def addSet_def modifiers registered_add split: if_splits)
next
  case (RemoveSet a)
  then show ?case
    by (auto simp: controller_inv_def removeSet_def modifiers array_remove_eq registered_remove split: if_splits)
next
  case (AddFactory a)
  then show ?case
    by (auto simp: controller_inv_def addFactory_def modifiers registered_add split: if_splits)
next
  case (RemoveFactory a)
  then show ?case
    by (auto simp: controller_inv_def removeFactory_def modifiers array_remove_eq registered_remove split: if_splits)
next
  case (AddModule a)
  then show ?case
    by (auto simp: controller_inv_def addModule_def modifiers registered_add split: if_splits)
next
  case (RemoveModule a)
  then show ?case
    by (auto simp: controller_inv_def removeModule_def modifiers array_remove_eq registered_remove split: if_splits)
next
  case (AddFee a t f)
  then show ?case by (auto simp: controller_inv_def addFee_def modifiers split: if_splits)
next
  case (EditFee a t f)
  then show ?case by (auto simp: controller_inv_def editFee_def modifiers split: if_splits)
next
  case (EditFeeRecipient a)
  then show ?case by (auto simp: controller_inv_def editFeeRecipient_def modifiers split: if_splits)
next
  case (AddResource a i)
  then show ?case using addResource_inv [of st sender a i st'] by simp
next
  case (RemoveResource i)
  then show ?case using removeResource_inv [of st sender i st'] by simp
qed

text \<open>
  What holds whatever was given to \<^verbatim>\<open>initialize\<close>: what a mapping marks is in its array, and the array of resources holds an
  address once for every id that resolves to it.
\<close>

definition listed_inv :: "controller_state \<Rightarrow> bool" where
  "listed_inv st \<longleftrightarrow>
     registered (c_sets st) (isSet st) \<and> (\<forall>a. isFactory st a \<longrightarrow> a \<in> set (c_factories st)) \<and>
     (\<forall>a. isModule st a \<longrightarrow> a \<in> set (c_modules st)) \<and> (\<forall>a. isResource st a \<longrightarrow> a \<in> set (c_resources st)) \<and>
     finite {i. resourceId st i \<noteq> ADDRESS_ZERO} \<and>
     (\<forall>a. a \<noteq> ADDRESS_ZERO \<longrightarrow> count_list (c_resources st) a = card {i. resourceId st i = a}) \<and>
     (isInitialized st \<or> resourceId st = (\<lambda>_. ADDRESS_ZERO) \<and>
       c_factories st = [] \<and> c_modules st = [] \<and> c_resources st = [])"

lemma finite_ids: "finite {i. f i \<noteq> z} \<Longrightarrow> a \<noteq> z \<Longrightarrow> finite {i. f i = a}"
  by (rule finite_subset) auto

lemma count_batch:
  assumes "length rs = length ids" "distinct ids" "a \<noteq> z"
  shows "count_list rs a = card {i. (case map_of (zip ids rs) i of Some b \<Rightarrow> b | None \<Rightarrow> z) = a}"
    "finite {i. (case map_of (zip ids rs) i of Some b \<Rightarrow> b | None \<Rightarrow> z) \<noteq> z}"
proof -
  let ?f = "\<lambda>rs ids i. case map_of (zip ids rs) i of Some b \<Rightarrow> b | None \<Rightarrow> z"
  have "count_list rs a = card {i. ?f rs ids i = a} \<and> finite {i. ?f rs ids i \<noteq> z}"
    using assms
  proof (induction rs ids rule: list_induct2)
    case (Cons r rs i ids)
    have i: "?f rs ids i = z" using Cons.hyps Cons.prems(1) by (simp add: map_of_zip_is_None [of ids rs, THEN iffD2])
    have IH: "count_list rs a = card {j. ?f rs ids j = a}" "finite {j. ?f rs ids j \<noteq> z}" using Cons by simp_all
    have "{j. ?f (r # rs) (i # ids) j = a} = (if r = a then insert i {j. ?f rs ids j = a} else {j. ?f rs ids j = a})"
      using i assms(3) by (auto split: if_splits)
    then have "card {j. ?f (r # rs) (i # ids) j = a} = (if r = a then 1 else 0) + card {j. ?f rs ids j = a}"
      using i assms(3) finite_ids [OF IH(2) assms(3)] by simp
    moreover have "{j. ?f (r # rs) (i # ids) j \<noteq> z} \<subseteq> insert i {j. ?f rs ids j \<noteq> z}" by auto
    then have "finite {j. ?f (r # rs) (i # ids) j \<noteq> z}" by (rule finite_subset) (simp add: IH(2))
    ultimately show ?case using IH(1) by simp
  qed (use assms(3) in simp)
  then show "count_list rs a = card {i. ?f rs ids i = a}" "finite {i. ?f rs ids i \<noteq> z}" by simp_all
qed

lemma count_list_remove1: "count_list (remove1 b l) a = (if a = b \<and> a \<in> set l then count_list l a - 1 else count_list l a)"
  by (induction l) (auto simp: count_list_0_iff)

lemma initialize_listed:
  assumes "listed_inv st" "initialize sender fs ms rs ids st = Inr st'"
  shows "listed_inv st'"
proof -
  note i = assms(2) [unfolded initialize_Inr_iff]
  then have empty: "resourceId st = (\<lambda>_. ADDRESS_ZERO)" and reg: "registered (c_sets st) (isSet st)"
    and none: "isFactory st a = False" "isModule st a = False" "isResource st a = False" for a
    using assms(1) by (auto simp: listed_inv_def)
  have "resourceId st' = (\<lambda>i. case map_of (zip ids rs) i of Some a \<Rightarrow> a | None \<Rightarrow> resourceId st i)" using i by simp
  then have "resourceId st' = (\<lambda>i. case map_of (zip ids rs) i of Some a \<Rightarrow> a | None \<Rightarrow> ADDRESS_ZERO)" unfolding empty .
  note ids = this
  have l: "length rs = length ids" "distinct ids" using i by simp_all
  have "''x'' \<noteq> ADDRESS_ZERO" by (simp add: ADDRESS_ZERO_def)
  then have "finite {j. resourceId st' j \<noteq> ADDRESS_ZERO}" unfolding ids by (rule count_batch(2) [OF l])
  moreover have "count_list rs a = card {j. resourceId st' j = a}" if "a \<noteq> ADDRESS_ZERO" for a
    unfolding ids by (rule count_batch(1) [OF l that])
  ultimately show ?thesis using i reg none by (simp add: listed_inv_def)
qed

lemma addResource_listed:
  assumes "listed_inv st" "addResource sender a i st = Inr st'"
  shows "listed_inv st'"
proof -
  have st': "st' = st\<lparr>isResource := (isResource st)(a := True), resourceId := (resourceId st)(i := a),
      c_resources := c_resources st @ [a]\<rparr>" and g: "isInitialized st" "resourceId st i = ADDRESS_ZERO"
    using assms(2) by (auto simp: addResource_def modifiers split: if_splits)
  have fin: "finite {j. resourceId st j \<noteq> ADDRESS_ZERO}" using assms(1) by (simp add: listed_inv_def)
  have "{j. resourceId st' j \<noteq> ADDRESS_ZERO} \<subseteq> insert i {j. resourceId st j \<noteq> ADDRESS_ZERO}" by (auto simp: st')
  then have fin': "finite {j. resourceId st' j \<noteq> ADDRESS_ZERO}" by (rule finite_subset) (simp add: fin)
  have "card {j. resourceId st' j = b} = card {j. resourceId st j = b} + (if b = a then 1 else 0)" if b: "b \<noteq> ADDRESS_ZERO" for b
  proof -
    have "{j. resourceId st' j = b} = (if b = a then insert i {j. resourceId st j = b} else {j. resourceId st j = b})"
      using g(2) b by (auto simp: st')
    then show ?thesis using finite_ids [OF fin b] g(2) b by auto
  qed
  then show ?thesis using assms(1) fin' g(1) unfolding listed_inv_def by (auto simp: st')
qed

lemma removeResource_listed:
  assumes "listed_inv st" "removeResource sender i st = Inr st'"
  shows "listed_inv st'"
proof -
  let ?a = "resourceId st i"
  have st': "st' = st\<lparr>c_resources := remove1 ?a (c_resources st), resourceId := (resourceId st)(i := ADDRESS_ZERO),
      isResource := (isResource st)(?a := False)\<rparr>" and g: "isInitialized st" "?a \<noteq> ADDRESS_ZERO" "?a \<in> set (c_resources st)"
    using assms(2) by (auto simp: removeResource_def modifiers Let_def array_remove_eq split: if_splits)
  have fin: "finite {j. resourceId st j \<noteq> ADDRESS_ZERO}" using assms(1) by (simp add: listed_inv_def)
  have "{j. resourceId st' j \<noteq> ADDRESS_ZERO} \<subseteq> {j. resourceId st j \<noteq> ADDRESS_ZERO}" by (auto simp: st')
  then have fin': "finite {j. resourceId st' j \<noteq> ADDRESS_ZERO}" using fin by (rule finite_subset)
  have "card {j. resourceId st' j = b} = count_list (c_resources st') b" if b: "b \<noteq> ADDRESS_ZERO" for b
  proof -
    have "{j. resourceId st' j = b} = {j. resourceId st j = b} - (if b = ?a then {i} else {})" using b by (auto simp: st')
    then show ?thesis using finite_ids [OF fin b] assms(1) g b by (auto simp: listed_inv_def st' count_list_remove1)
  qed
  then show ?thesis using assms(1) fin' g(1) unfolding listed_inv_def by (auto simp: st' in_set_remove1)
qed

lemma exec_listed:
  assumes "listed_inv st" "exec sender c st = Inr st'"
  shows "listed_inv st'"
proof (cases c)
  case (Initialize fs ms rs ids)
  then show ?thesis using assms initialize_listed by simp
next
  case (AddResource a i)
  then show ?thesis using assms addResource_listed by simp
next
  case (RemoveResource i)
  then show ?thesis using assms removeResource_listed by simp
qed (use assms in \<open>auto simp: listed_inv_def addSet_def removeSet_def addFactory_def removeFactory_def addModule_def removeModule_def
    addFee_def editFee_def editFeeRecipient_def modifiers array_remove_eq registered_add registered_remove split: if_splits\<close>)

lemma new_Controller_listed: "listed_inv (new_Controller self owner recipient)"
  by (simp add: listed_inv_def new_Controller_def)

lemma reachable_listed: "reachable owner cs st \<Longrightarrow> listed_inv st"
  by (induction rule: reachable.induct) (blast intro: new_Controller_listed exec_listed)+

lemma reachable_inv: "reachable owner cs st \<Longrightarrow> list_all batch_ok cs \<Longrightarrow> controller_inv st"
  by (induction rule: reachable.induct) (auto intro: new_Controller_inv exec_inv)

lemma exec_owner: "exec sender c st = Inr st' \<Longrightarrow> c_owner st' = c_owner st"
  by (cases c) (auto simp: initialize_Inr_iff addSet_def removeSet_def addFactory_def removeFactory_def
      addModule_def removeModule_def addResource_def removeResource_def addFee_def editFee_def
      editFeeRecipient_def modifiers Let_def split: if_splits sum.splits)

lemma reachable_owner: "reachable owner cs st \<Longrightarrow> c_owner st = owner"
  by (induction rule: reachable.induct) (auto simp: new_Controller_def dest: exec_owner)

subsection \<open>Properties\<close>

text \<open>
  C21. The Controller's registries stay consistent. In every state reached from its constructor by accepted calls of any
  senders the array of SetTokens lists without repetition exactly the marked addresses, every marked factory, module and
  resource is in its array, and a resource is listed as often as ids resolve to it. When no array given to \<^verbatim>\<open>initialize\<close>
  repeated an entry, the other three arrays list exactly the marked addresses too, and every resource has exactly one id.
\<close>

theorem controller_registries_consistent:
  assumes "reachable owner cs st"
  shows "registered (c_sets st) (isSet st) \<and> {a. isFactory st a} \<subseteq> set (c_factories st) \<and>
    {a. isModule st a} \<subseteq> set (c_modules st) \<and> {a. isResource st a} \<subseteq> set (c_resources st) \<and>
    (\<forall>a. a \<noteq> ADDRESS_ZERO \<longrightarrow> count_list (c_resources st) a = card {i. resourceId st i = a}) \<and>
    (list_all batch_ok cs \<longrightarrow> registered (c_factories st) (isFactory st) \<and> registered (c_modules st) (isModule st) \<and>
      registered (c_resources st) (isResource st) \<and> (\<forall>a. a \<noteq> ADDRESS_ZERO \<longrightarrow> isResource st a = (\<exists>!i. resourceId st i = a)))"
proof -
  have "isResource st a = (\<exists>!i. resourceId st i = a)" if "a \<noteq> ADDRESS_ZERO" "list_all batch_ok cs" for a
    using reachable_inv [OF assms that(2)] that(1) unfolding controller_inv_def resources_ok_def by metis
  then show ?thesis using reachable_listed [OF assms] reachable_inv [OF assms] by (auto simp: listed_inv_def controller_inv_def)
qed

theorem controller_registries_consistent_witness:
  "\<exists>st. exec ''o'' (Initialize [''f''] [''m'', ''n''] [''r''] [0]) (new_Controller ''c'' ''o'' ''x'') = Inr st \<and>
     registered (c_modules st) (isModule st) \<and> isModule st ''n'' \<and> count_list (c_resources st) ''r'' = card {i. resourceId st i = ''r''}"
proof -
  let ?c = "Initialize [''f''] [''m'', ''n''] [''r''] [0]"
  obtain st where st: "exec ''o'' ?c (new_Controller ''c'' ''o'' ''x'') = Inr st" and n: "isModule st ''n''"
    by (simp add: initialize_def init_flags_eq new_Controller_def ADDRESS_ZERO_def)
  from reachable.called [OF reachable.deployed st] have "reachable ''o'' [?c] st" by simp
  from controller_registries_consistent [OF this] st n show ?thesis by (simp add: ADDRESS_ZERO_def)
qed

text \<open>A batch with a repetition breaks the pairing: the removed module stays in the array.\<close>

lemma repeated_batch_breaks_registry:
  "\<exists>st st'. initialize ''o'' [] [''m'', ''m''] [] [] (new_Controller ''c'' ''o'' ''x'') = Inr st \<and>
     removeModule ''o'' ''m'' st = Inr st' \<and> c_modules st' = [''m''] \<and> \<not> isModule st' ''m''"
  by (simp add: initialize_def init_flags_eq new_Controller_def ADDRESS_ZERO_def removeModule_def
      modifiers array_remove_eq)

text \<open>
  Batch initialisation: \<^verbatim>\<open>initialize\<close> on a Controller with no resources succeeds exactly for the
  owner, before the first initialisation, with as many ids as resources, no zero address and no
  repeated id; afterwards the listed addresses and no others are factories, modules and resources and
  the i-th id resolves to the i-th resource.
\<close>

lemma initialize_registers_batch:
  fixes st :: controller_state
  assumes "\<forall>a. \<not> isFactory st a \<and> \<not> isModule st a \<and> \<not> isResource st a"
    and "\<forall>i. resourceId st i = ADDRESS_ZERO"
  shows "case initialize sender fs ms rs ids st of
      Inl m \<Rightarrow> sender \<noteq> c_owner st \<or> isInitialized st \<or> length rs \<noteq> length ids \<or>
        ADDRESS_ZERO \<in> set fs \<union> set ms \<union> set rs \<or> \<not> distinct ids
    | Inr st' \<Rightarrow> sender = c_owner st \<and> \<not> isInitialized st \<and> length rs = length ids \<and>
        ADDRESS_ZERO \<notin> set fs \<union> set ms \<union> set rs \<and> distinct ids \<and> isInitialized st' \<and>
        {a. isFactory st' a} = set fs \<and> {a. isModule st' a} = set ms \<and> {a. isResource st' a} = set rs \<and>
        map (resourceId st') ids = rs"
proof (cases "initialize sender fs ms rs ids st")
  case (Inl m)
  have "\<exists>st'. initialize sender fs ms rs ids st = Inr st'"
    if "sender = c_owner st" "\<not> isInitialized st" "length rs = length ids"
      "ADDRESS_ZERO \<notin> set fs \<union> set ms \<union> set rs" "distinct ids"
    unfolding initialize_Inr_iff using that assms(2) by blast
  with Inl show ?thesis by auto
next
  case (Inr st')
  note i = Inr [unfolded initialize_Inr_iff]
  then have "map (resourceId st') ids = rs"
    using assms(2) by (auto intro!: nth_equalityI simp: map_of_zip_nth)
  with Inr i assms(1) show ?thesis by auto
qed

lemma initialize_registers_batch_instance:
  "case initialize ''o'' [''f''] [''m''] [''r'', ''s''] [0, 1] (new_Controller ''c'' ''o'' ''x'') of
     Inl m \<Rightarrow> False
   | Inr st' \<Rightarrow> {a. isModule st' a} = {''m''} \<and> map (resourceId st') [0, 1] = [''r'', ''s'']"
proof -
  have z: "ADDRESS_ZERO \<notin> {''f'', ''m'', ''r'', ''s''}" by (simp add: ADDRESS_ZERO_def)
  show ?thesis
    using initialize_registers_batch [where st = "new_Controller ''c'' ''o'' ''x''" and sender = "''o''"
      and fs = "[''f'']" and ms = "[''m'']" and rs = "[''r'', ''s'']" and ids = "[0, 1]"] z
    by (simp add: new_Controller_def split: sum.splits)
qed

text \<open>
  Adding and removing a module is a round trip that cannot get stuck: after the owner has added a
  module in a state reached without repeated batch entries, removing it again succeeds and restores the list and the mapping, and
  every other enabled module can be removed as well.
\<close>

lemma module_add_remove_roundtrip:
  assumes "reachable owner cs st" and "list_all batch_ok cs" and "addModule owner a st = Inr st'"
  shows "(\<exists>st''. removeModule owner a st' = Inr st'' \<and>
      c_modules st'' = c_modules st \<and> isModule st'' = isModule st) \<and>
    (\<forall>b. isModule st' b \<longrightarrow> (\<exists>st''. removeModule owner b st' = Inr st''))"
proof -
  have reg: "registered (c_modules st) (isModule st)"
    using reachable_inv [OF assms(1,2)] by (simp add: controller_inv_def)
  have "exec owner (AddModule a) st = Inr st'" using assms(3) by simp
  from reachable.called [OF assms(1) this] have "reachable owner (cs @ [AddModule a]) st'" .
  then have "owner_may_remove owner st'" and a: "isModule st' a"
    using reachable_owner assms(3) by (auto simp: owner_may_remove_def addModule_def modifiers split: if_splits)
  then have all: "\<exists>st''. removeModule owner b st' = Inr st''" if "isModule st' b" for b
    using module_registry.rem_succeeds module_registry.add_registered [OF reg assms(3)] that by blast
  from all [OF a] obtain st'' where "removeModule owner a st' = Inr st''" ..
  then show ?thesis using module_registry.rem_after_add [OF reg assms(3)] all by blast
qed

lemma module_add_remove_roundtrip_instance:
  "\<exists>st st' st''. initialize ''o'' [] [''m''] [] [] (new_Controller ''c'' ''o'' ''x'') = Inr st \<and>
     addModule ''o'' ''n'' st = Inr st' \<and> removeModule ''o'' ''n'' st' = Inr st'' \<and>
     c_modules st'' = c_modules st \<and> isModule st'' = isModule st"
proof -
  obtain st where st: "exec ''o'' (Initialize [] [''m''] [] []) (new_Controller ''c'' ''o'' ''x'') = Inr st"
    and add: "\<exists>st'. addModule ''o'' ''n'' st = Inr st'"
    by (simp add: initialize_def init_flags_eq new_Controller_def ADDRESS_ZERO_def addModule_def modifiers)
  from reachable.called [OF reachable.deployed st] have r: "reachable ''o'' [Initialize [] [''m''] [] []] st" by simp
  from add obtain st' where st': "addModule ''o'' ''n'' st = Inr st'" ..
  from module_add_remove_roundtrip [OF r _ st'] st st' show ?thesis by auto
qed

lemma check_components_ok: "check_components cs = Inr u \<longleftrightarrow> (\<forall>(c, n) \<in> set cs. c \<noteq> ADDRESS_ZERO \<and> 0 < n)"
  by (induction cs rule: check_components.induct) auto

lemma check_modules_ok: "check_modules st ms = Inr u \<longleftrightarrow> (\<forall>m \<in> set ms. isModule st m)"
  by (induction ms) auto

lemma create_Inr_iff:
  "create self cok setToken components units modules manager st = Inr r \<longleftrightarrow>
     components \<noteq> [] \<and> length components = length units \<and> distinct components \<and> modules \<noteq> [] \<and>
     manager \<noteq> ADDRESS_ZERO \<and> (\<forall>(c, n) \<in> set (zip components units). c \<noteq> ADDRESS_ZERO \<and> 0 < n) \<and>
     (\<forall>m \<in> set modules. isModule st m) \<and> cok \<and>
     (\<exists>st'. addSet self setToken st = Inr st' \<and> r = (setToken, st'))"
  unfolding check_components_ok [symmetric, of _ "()"] check_modules_ok [symmetric, of _ _ "()"]
  by (cases "check_components (zip components units)"; cases "check_modules st modules";
      cases "addSet self setToken st") (auto simp: create_def hasDuplicate_def)

definition create_guards :: "controller_state \<Rightarrow> bool \<Rightarrow> address list \<Rightarrow> int list \<Rightarrow> address list \<Rightarrow> address \<Rightarrow> bool" where
  "create_guards st constructor_ok components units modules manager \<longleftrightarrow>
     components \<noteq> [] \<and> length components = length units \<and> distinct components \<and> modules \<noteq> [] \<and>
     manager \<noteq> ADDRESS_ZERO \<and> list_all (\<lambda>(c, n). c \<noteq> ADDRESS_ZERO \<and> 0 < n) (zip components units) \<and>
     list_all (isModule st) modules \<and> constructor_ok"

text \<open>
  The factory registers what it creates: \<^verbatim>\<open>create\<close> called on an initialised Controller by one of
  its factories, for a new Set address, succeeds exactly for a non-empty list of distinct non-zero
  components with as many positive units, a non-empty list of enabled modules, a non-zero manager and a
  constructor that accepts, and then the address is the newest enabled Set.
\<close>

lemma create_registers_set:
  assumes "isInitialized st" and "isFactory st self" and "\<not> isSet st setToken"
  shows "case create self cok setToken components units modules manager st of
      Inl m \<Rightarrow> \<not> create_guards st cok components units modules manager
    | Inr (a, st') \<Rightarrow> create_guards st cok components units modules manager \<and> a = setToken \<and>
        isSet st' setToken \<and> c_sets st' = c_sets st @ [setToken]"
proof (cases "create self cok setToken components units modules manager st")
  case (Inl m)
  have "addSet self setToken st = Inr (st\<lparr>isSet := (isSet st)(setToken := True), c_sets := c_sets st @ [setToken]\<rparr>)"
    using assms by (simp add: addSet_def modifiers)
  with Inl have "\<not> create_guards st cok components units modules manager"
    using create_Inr_iff [of self cok setToken components units modules manager st]
    by (auto simp: create_guards_def list_all_iff)
  with Inl show ?thesis by simp
next
  case (Inr r)
  note r = Inr [unfolded create_Inr_iff]
  then obtain st' where st': "addSet self setToken st = Inr st'" "r = (setToken, st')" by blast
  then have "isSet st' setToken \<and> c_sets st' = c_sets st @ [setToken]"
    using set_registry.add_spec [OF st'(1)] by simp
  with Inr r st' show ?thesis by (simp add: create_guards_def list_all_iff)
qed

lemma create_registers_set_instance:
  "\<exists>st. initialize ''o'' [''f''] [''m''] [] [] (new_Controller ''c'' ''o'' ''x'') = Inr st \<and>
    (case create ''f'' True ''s'' [''t''] [5] [''m''] ''o'' st of
       Inl m \<Rightarrow> False | Inr (a, st') \<Rightarrow> a = ''s'' \<and> isSet st' ''s'' \<and> c_sets st' = [''s''])"
proof -
  obtain st where st: "initialize ''o'' [''f''] [''m''] [] [] (new_Controller ''c'' ''o'' ''x'') = Inr st"
    and h: "isInitialized st" "isFactory st ''f''" "\<not> isSet st ''s''" "isModule st ''m''" "c_sets st = []"
    by (simp add: initialize_def init_flags_eq new_Controller_def ADDRESS_ZERO_def)
  have "create_guards st True [''t''] [5] [''m''] ''o''"
    using h(4) by (simp add: create_guards_def ADDRESS_ZERO_def)
  then have "case create ''f'' True ''s'' [''t''] [5] [''m''] ''o'' st of
       Inl m \<Rightarrow> False | Inr (a, st') \<Rightarrow> a = ''s'' \<and> isSet st' ''s'' \<and> c_sets st' = [''s'']"
    using create_registers_set [OF h(1-3), of True "[''t'']" "[5]" "[''m'']" "''o''"] h(5)
    by (auto split: sum.splits)
  with st show ?thesis by blast
qed

end
