(* ===== verification/Integration_Registry.thy ===== *)
theory Integration_Registry
  imports Controller_Contract
begin

section \<open>The integration registry\<close>

text \<open>
  Models contracts/protocol/IntegrationRegistry.sol, resource 0 of the system fixture: the adapters of the
  modules by the hash of their name. The Controller is read through its model; keccak256 is the argument
  \<open>hash\<close>. The interface \<open>address_store\<close> states what the add, edit and remove functions promise of a mapping
  whose default is the zero address; the price oracle's pairs are its second instance.
\<close>

subsection \<open>IntegrationRegistry.sol\<close>

record integration_registry =
  ir_owner :: address
  ir_controller :: address
  integrations :: "address \<Rightarrow> bytes \<Rightarrow> address"

definition new_IntegrationRegistry :: "address \<Rightarrow> address \<Rightarrow> integration_registry" where
  "new_IntegrationRegistry sender controller =
     \<lparr>ir_owner = sender, ir_controller = controller, integrations = (\<lambda>_ _. ADDRESS_ZERO)\<rparr>"

definition ir_onlyOwner :: "address \<Rightarrow> integration_registry \<Rightarrow> 'a sol \<Rightarrow> 'a sol" where
  "ir_onlyOwner sender st k = (if sender = ir_owner st then k else Inl ''Ownable: caller is not the owner'')"

definition set_integration :: "address \<Rightarrow> bytes \<Rightarrow> address \<Rightarrow> integration_registry \<Rightarrow> integration_registry" where
  "set_integration m h a st =
     st\<lparr>integrations := (integrations st)(m := (integrations st m)(h := a))\<rparr>"

definition addIntegration :: "(string \<Rightarrow> bytes) \<Rightarrow> controller_state \<Rightarrow> address \<Rightarrow> address \<Rightarrow> string \<Rightarrow> address
    \<Rightarrow> integration_registry \<Rightarrow> integration_registry sol" where
  "addIntegration hash controller sender module' name adapter st = ir_onlyOwner sender st
     (let hashedName = hash name in
      if \<not> isModule controller module' then Inl ''Must be valid module.''
      else if integrations st module' hashedName \<noteq> ADDRESS_ZERO then Inl ''Integration exists already.''
      else if adapter = ADDRESS_ZERO then Inl ''Adapter address must exist.''
      else Inr (set_integration module' hashedName adapter st))"

definition editIntegration :: "(string \<Rightarrow> bytes) \<Rightarrow> controller_state \<Rightarrow> address \<Rightarrow> address \<Rightarrow> string \<Rightarrow> address
    \<Rightarrow> integration_registry \<Rightarrow> integration_registry sol" where
  "editIntegration hash controller sender module' name adapter st = ir_onlyOwner sender st
     (let hashedName = hash name in
      if \<not> isModule controller module' then Inl ''Must be valid module.''
      else if integrations st module' hashedName = ADDRESS_ZERO then Inl ''Integration does not exist.''
      else if adapter = ADDRESS_ZERO then Inl ''Adapter address must exist.''
      else Inr (set_integration module' hashedName adapter st))"

definition batchAddIntegration :: "(string \<Rightarrow> bytes) \<Rightarrow> controller_state \<Rightarrow> address \<Rightarrow> address list \<Rightarrow> string list
    \<Rightarrow> address list \<Rightarrow> integration_registry \<Rightarrow> integration_registry sol" where
  "batchAddIntegration hash controller sender modules' names adapters' st = ir_onlyOwner sender st
     (let modulesCount = length modules' in
      if \<not> modulesCount > 0 then Inl ''Modules must not be empty''
      else if modulesCount \<noteq> length names then Inl ''Module and name lengths mismatch''
      else if modulesCount \<noteq> length adapters' then Inl ''Module and adapter lengths mismatch''
      else each_sol (\<lambda>(m, n, a). addIntegration hash controller sender m n a) (zip modules' (zip names adapters')) st)"

definition batchEditIntegration :: "(string \<Rightarrow> bytes) \<Rightarrow> controller_state \<Rightarrow> address \<Rightarrow> address list \<Rightarrow> string list
    \<Rightarrow> address list \<Rightarrow> integration_registry \<Rightarrow> integration_registry sol" where
  "batchEditIntegration hash controller sender modules' names adapters' st = ir_onlyOwner sender st
     (let modulesCount = length modules' in
      if \<not> modulesCount > 0 then Inl ''Modules must not be empty''
      else if modulesCount \<noteq> length names then Inl ''Module and name lengths mismatch''
      else if modulesCount \<noteq> length adapters' then Inl ''Module and adapter lengths mismatch''
      else each_sol (\<lambda>(m, n, a). editIntegration hash controller sender m n a) (zip modules' (zip names adapters')) st)"

definition removeIntegration :: "(string \<Rightarrow> bytes) \<Rightarrow> address \<Rightarrow> address \<Rightarrow> string
    \<Rightarrow> integration_registry \<Rightarrow> integration_registry sol" where
  "removeIntegration hash sender module' name st = ir_onlyOwner sender st
     (let hashedName = hash name in
      if integrations st module' hashedName = ADDRESS_ZERO then Inl ''Integration does not exist.''
      else Inr (set_integration module' hashedName ADDRESS_ZERO st))"

definition getIntegrationAdapter :: "(string \<Rightarrow> bytes) \<Rightarrow> integration_registry \<Rightarrow> address \<Rightarrow> string \<Rightarrow> address" where
  "getIntegrationAdapter hash st module' name = integrations st module' (hash name)"

definition getIntegrationAdapterWithHash :: "integration_registry \<Rightarrow> address \<Rightarrow> bytes \<Rightarrow> address" where
  "getIntegrationAdapterWithHash st module' nameHash = integrations st module' nameHash"

definition isValidIntegration :: "(string \<Rightarrow> bytes) \<Rightarrow> integration_registry \<Rightarrow> address \<Rightarrow> string \<Rightarrow> bool" where
  "isValidIntegration hash st module' name \<longleftrightarrow> integrations st module' (hash name) \<noteq> ADDRESS_ZERO"

subsection \<open>Interface: a mapping with the zero address as default\<close>

locale address_store =
  fixes lookup :: "'s \<Rightarrow> 'k \<Rightarrow> address"
    and add :: "'k \<Rightarrow> address \<Rightarrow> 's \<Rightarrow> 's sol"
    and edit :: "'k \<Rightarrow> address \<Rightarrow> 's \<Rightarrow> 's sol"
    and del :: "'k \<Rightarrow> 's \<Rightarrow> 's sol"
  assumes add_spec: "add k a st = Inr st' \<Longrightarrow> lookup st k = ADDRESS_ZERO \<and> lookup st' = (lookup st)(k := a)"
    and edit_spec: "edit k a st = Inr st' \<Longrightarrow> lookup st k \<noteq> ADDRESS_ZERO \<and> lookup st' = (lookup st)(k := a)"
    and del_spec: "del k st = Inr st' \<Longrightarrow> lookup st k \<noteq> ADDRESS_ZERO \<and> lookup st' = (lookup st)(k := ADDRESS_ZERO)"
begin

lemma del_after_add: "add k a st = Inr st1 \<Longrightarrow> del k st1 = Inr st2 \<Longrightarrow> lookup st2 = lookup st"
  using add_spec [of k a st st1] del_spec [of k st1 st2] by (auto simp: fun_eq_iff)

lemma edit_after_edit: "edit k a st = Inr st1 \<Longrightarrow> edit k (lookup st k) st1 = Inr st2 \<Longrightarrow> lookup st2 = lookup st"
  using edit_spec [of k a st st1] edit_spec [of k "lookup st k" st1 st2] by (auto simp: fun_eq_iff)

lemma add_twice_reverts: "add k a st = Inr st1 \<Longrightarrow> a \<noteq> ADDRESS_ZERO \<Longrightarrow> add k b st1 \<noteq> Inr st2"
  using add_spec [of k a st st1] add_spec [of k b st1 st2] by auto

text \<open>A batch of additions: the keys are new and different, and the result holds exactly the entries added.\<close>

lemma add_all:
  assumes "each_sol (case_prod add) kas st = Inr st'" "ADDRESS_ZERO \<notin> snd ` set kas"
  shows "distinct (map fst kas) \<and> (\<forall>k \<in> fst ` set kas. lookup st k = ADDRESS_ZERO) \<and>
    lookup st' = (\<lambda>k. case map_of kas k of Some a \<Rightarrow> a | None \<Rightarrow> lookup st k)"
  using assms
proof (induction kas arbitrary: st)
  case (Cons ka kas)
  obtain k a where ka: "ka = (k, a)" by (cases ka)
  with Cons.prems obtain st1 where s1: "add k a st = Inr st1" "each_sol (case_prod add) kas st1 = Inr st'"
    by (auto split: sum.splits)
  note one = add_spec [OF s1(1)] and rest = Cons.IH [OF s1(2)]
  have nz: "a \<noteq> ADDRESS_ZERO" "ADDRESS_ZERO \<notin> snd ` set kas" using Cons.prems(2) ka by auto
  have new: "k \<notin> fst ` set kas" using one rest nz by auto
  moreover have "\<forall>j \<in> fst ` set kas. lookup st j = ADDRESS_ZERO" using one rest nz(2) new by (metis fun_upd_other)
  moreover have "map_of kas k = None" using new by (simp add: map_of_eq_None_iff)
  ultimately show ?case using one rest nz(2) ka by (auto simp: fun_eq_iff split: option.split)
qed simp

lemma edit_all:
  assumes "each_sol (case_prod edit) kas st = Inr st'" "ADDRESS_ZERO \<notin> snd ` set kas"
  shows "\<forall>k. lookup st' k = ADDRESS_ZERO \<longleftrightarrow> lookup st k = ADDRESS_ZERO"
  using assms
proof (induction kas arbitrary: st)
  case (Cons ka kas)
  obtain k a where ka: "ka = (k, a)" by (cases ka)
  with Cons.prems obtain st1 where s1: "edit k a st = Inr st1" "each_sol (case_prod edit) kas st1 = Inr st'"
    by (auto split: sum.splits)
  have "a \<noteq> ADDRESS_ZERO" "ADDRESS_ZERO \<notin> snd ` set kas" using Cons.prems(2) ka by auto
  then show ?case using edit_spec [OF s1(1)] Cons.IH [OF s1(2)] by simp
qed simp

end

definition integration_of :: "integration_registry \<Rightarrow> address \<times> bytes \<Rightarrow> address" where
  "integration_of st = (\<lambda>(m, h). integrations st m h)"

lemma integration_of_set [simp]:
  "integration_of (set_integration m h a st) = (integration_of st)((m, h) := a)"
  by (auto simp: integration_of_def set_integration_def fun_eq_iff)

lemma ir_owner_set [simp]: "ir_owner (set_integration m h a st) = ir_owner st"
  by (simp add: set_integration_def)

text \<open>The operations over keys, pairs of a module and the hash of a name.\<close>

definition add_at :: "controller_state \<Rightarrow> address \<Rightarrow> address \<times> bytes \<Rightarrow> address \<Rightarrow> integration_registry \<Rightarrow> integration_registry sol" where
  "add_at c sender k a = addIntegration (\<lambda>_. snd k) c sender (fst k) [] a"

definition edit_at :: "controller_state \<Rightarrow> address \<Rightarrow> address \<times> bytes \<Rightarrow> address \<Rightarrow> integration_registry \<Rightarrow> integration_registry sol" where
  "edit_at c sender k a = editIntegration (\<lambda>_. snd k) c sender (fst k) [] a"

definition remove_at :: "address \<Rightarrow> address \<times> bytes \<Rightarrow> integration_registry \<Rightarrow> integration_registry sol" where
  "remove_at sender k = removeIntegration (\<lambda>_. snd k) sender (fst k) []"

lemma at_key:
  "addIntegration hash c sender m n a = add_at c sender (m, hash n) a"
  "editIntegration hash c sender m n a = edit_at c sender (m, hash n) a"
  "removeIntegration hash sender m n = remove_at sender (m, hash n)"
  by (simp_all add: add_at_def edit_at_def remove_at_def addIntegration_def editIntegration_def removeIntegration_def fun_eq_iff)

lemma add_at_Inr_iff:
  "add_at c sender k a st = Inr st' \<longleftrightarrow> sender = ir_owner st \<and> isModule c (fst k) \<and>
     integration_of st k = ADDRESS_ZERO \<and> a \<noteq> ADDRESS_ZERO \<and> st' = set_integration (fst k) (snd k) a st"
  by (auto simp: add_at_def addIntegration_def ir_onlyOwner_def integration_of_def case_prod_beta Let_def split: if_splits)

lemma edit_at_Inr_iff:
  "edit_at c sender k a st = Inr st' \<longleftrightarrow> sender = ir_owner st \<and> isModule c (fst k) \<and>
     integration_of st k \<noteq> ADDRESS_ZERO \<and> a \<noteq> ADDRESS_ZERO \<and> st' = set_integration (fst k) (snd k) a st"
  by (auto simp: edit_at_def editIntegration_def ir_onlyOwner_def integration_of_def case_prod_beta Let_def split: if_splits)

lemma remove_at_Inr_iff:
  "remove_at sender k st = Inr st' \<longleftrightarrow> sender = ir_owner st \<and> integration_of st k \<noteq> ADDRESS_ZERO \<and>
     st' = set_integration (fst k) (snd k) ADDRESS_ZERO st"
  by (auto simp: remove_at_def removeIntegration_def ir_onlyOwner_def integration_of_def case_prod_beta Let_def split: if_splits)

lemmas at_iffs = add_at_Inr_iff edit_at_Inr_iff remove_at_Inr_iff

interpretation integration_store: address_store integration_of "add_at c sender" "edit_at c sender" "remove_at sender"
  by unfold_locales (simp_all add: at_iffs)

subsection \<open>Batches\<close>

definition keyed :: "(string \<Rightarrow> bytes) \<Rightarrow> address list \<Rightarrow> string list \<Rightarrow> address list \<Rightarrow> ((address \<times> bytes) \<times> address) list" where
  "keyed hash ms ns as = zip (zip ms (map hash ns)) as"

lemma keyed_zip: "keyed hash ms ns as = map (\<lambda>(m, n, a). ((m, hash n), a)) (zip ms (zip ns as))"
  by (induction ms arbitrary: ns as) (auto simp: keyed_def zip_Cons1 split: list.splits)

lemma each_keyed:
  assumes "\<And>m n a. f m n a = g (m, hash n) a"
  shows "each_sol (\<lambda>(m, n, a). f m n a) (zip ms (zip ns as)) = each_sol (case_prod g) (keyed hash ms ns as)"
proof -
  have "(\<lambda>(m, n, a). f m n a) = (\<lambda>x. case_prod g ((\<lambda>(m, n, a). ((m, hash n), a)) x))"
    by (auto simp: assms fun_eq_iff)
  then show ?thesis unfolding keyed_zip by (intro ext) (simp only: each_sol_map)
qed

lemmas each_add_keyed = each_keyed [of "addIntegration hash c sender" "add_at c sender" hash for hash c sender, OF at_key(1)]
  and each_edit_keyed = each_keyed [of "editIntegration hash c sender" "edit_at c sender" hash for hash c sender, OF at_key(2)]

lemma each_add_frame:
  "each_sol (case_prod (add_at c sender)) kas st = Inr st' \<Longrightarrow>
     (\<forall>(k, a) \<in> set kas. isModule c (fst k) \<and> a \<noteq> ADDRESS_ZERO) \<and> ir_owner st' = ir_owner st"
proof (induction kas arbitrary: st)
  case (Cons ka kas)
  obtain k a where ka: "ka = (k, a)" by (cases ka)
  with Cons.prems have s1: "add_at c sender k a st = Inr (set_integration (fst k) (snd k) a st)"
    "each_sol (case_prod (add_at c sender)) kas (set_integration (fst k) (snd k) a st) = Inr st'"
    by (auto simp: add_at_Inr_iff split: sum.splits)
  with Cons.IH [OF s1(2)] ka show ?case by (simp add: add_at_Inr_iff)
qed simp

lemma each_add_succeeds:
  assumes "sender = ir_owner st" "\<forall>(k, a) \<in> set kas. isModule c (fst k) \<and> a \<noteq> ADDRESS_ZERO"
    "distinct (map fst kas)" "\<forall>k \<in> fst ` set kas. integration_of st k = ADDRESS_ZERO"
  shows "\<exists>st'. each_sol (case_prod (add_at c sender)) kas st = Inr st'"
  using assms
proof (induction kas arbitrary: st)
  case (Cons ka kas)
  obtain k a where ka: "ka = (k, a)" by (cases ka)
  have add: "add_at c sender k a st = Inr (set_integration (fst k) (snd k) a st)"
    using Cons.prems ka by (simp add: add_at_Inr_iff)
  have "\<exists>st'. each_sol (case_prod (add_at c sender)) kas (set_integration (fst k) (snd k) a st) = Inr st'"
    using Cons.prems ka by (intro Cons.IH) auto
  then show ?case using add ka by simp
qed simp

lemma keyed_parts:
  assumes "length ns = length ms" "length as = length ms"
  shows "map fst (keyed hash ms ns as) = zip ms (map hash ns)" "snd ` set (keyed hash ms ns as) = set as"
    "(\<forall>(k, a) \<in> set (keyed hash ms ns as). isModule c (fst k) \<and> a \<noteq> ADDRESS_ZERO) \<longleftrightarrow>
      (\<forall>m \<in> set ms. isModule c m) \<and> ADDRESS_ZERO \<notin> set as"
proof -
  let ?kas = "keyed hash ms ns as"
  have parts: "map fst ?kas = zip ms (map hash ns)" "map snd ?kas = as"
    using assms by (simp_all add: keyed_def)
  then have "map (fst \<circ> fst) ?kas = ms" using assms by (simp flip: map_map)
  then have sets: "(fst \<circ> fst) ` set ?kas = set ms" "snd ` set ?kas = set as" using parts(2) by (metis set_map)+
  show "map fst ?kas = zip ms (map hash ns)" "snd ` set ?kas = set as" using parts(1) sets(2) by simp_all
  show "(\<forall>(k, a) \<in> set ?kas. isModule c (fst k) \<and> a \<noteq> ADDRESS_ZERO) \<longleftrightarrow>
      (\<forall>m \<in> set ms. isModule c m) \<and> ADDRESS_ZERO \<notin> set as"
    unfolding sets [symmetric] by (force simp: case_prod_beta)
qed

lemma batchAddIntegration_Inr_iff:
  "batchAddIntegration hash c sender ms ns as st = Inr st' \<longleftrightarrow>
     sender = ir_owner st \<and> ms \<noteq> [] \<and> length ns = length ms \<and> length as = length ms \<and>
     each_sol (case_prod (add_at c sender)) (keyed hash ms ns as) st = Inr st'"
  by (simp add: batchAddIntegration_def ir_onlyOwner_def Let_def each_add_keyed)

lemma zip_fst_keyed:
  "length ns = length ms \<Longrightarrow> length as = length ms \<Longrightarrow> fst ` set (keyed hash ms ns as) = set (zip ms (map hash ns))"
  by (metis keyed_parts(1) set_map)

text \<open>When a batch is acceptable.\<close>

definition new_batch :: "(string \<Rightarrow> bytes) \<Rightarrow> controller_state \<Rightarrow> address \<Rightarrow> address list \<Rightarrow> string list
    \<Rightarrow> address list \<Rightarrow> integration_registry \<Rightarrow> bool" where
  "new_batch hash c sender ms ns as st \<longleftrightarrow>
     sender = ir_owner st \<and> ms \<noteq> [] \<and> length ns = length ms \<and> length as = length ms \<and>
     (\<forall>m \<in> set ms. isModule c m) \<and> ADDRESS_ZERO \<notin> set as \<and> distinct (zip ms (map hash ns)) \<and>
     (\<forall>k \<in> set (zip ms (map hash ns)). integration_of st k = ADDRESS_ZERO)"

lemma batch_accepted:
  assumes "batchAddIntegration hash c sender ms ns as st = Inr st'"
  shows "new_batch hash c sender ms ns as st \<and> ir_owner st' = ir_owner st \<and>
    integration_of st' = (\<lambda>k. case map_of (keyed hash ms ns as) k of Some a \<Rightarrow> a | None \<Rightarrow> integration_of st k)"
proof -
  let ?kas = "keyed hash ms ns as"
  note b = assms [unfolded batchAddIntegration_Inr_iff]
  then have len: "length ns = length ms" "length as = length ms"
    and run: "each_sol (case_prod (add_at c sender)) ?kas st = Inr st'" by blast+
  note frame = each_add_frame [OF run, unfolded keyed_parts(3) [OF len]]
  then have "ADDRESS_ZERO \<notin> snd ` set ?kas" by (simp add: keyed_parts(2) [OF len])
  from integration_store.add_all [OF run this] frame b show ?thesis
    by (simp add: new_batch_def keyed_parts(1) [OF len] zip_fst_keyed [OF len])
qed

lemma new_batch_accepted:
  assumes "new_batch hash c sender ms ns as st"
  shows "\<exists>st'. batchAddIntegration hash c sender ms ns as st = Inr st'"
proof -
  have len: "length ns = length ms" "length as = length ms" using assms by (simp_all add: new_batch_def)
  have "\<exists>st'. each_sol (case_prod (add_at c sender)) (keyed hash ms ns as) st = Inr st'"
    using assms by (intro each_add_succeeds)
      (simp_all add: new_batch_def keyed_parts [OF len] zip_fst_keyed [OF len])
  then show ?thesis using assms by (simp add: batchAddIntegration_Inr_iff new_batch_def)
qed

lemma each_edit_nonzero: "each_sol (case_prod (edit_at c sender)) kas st = Inr st' \<Longrightarrow> ADDRESS_ZERO \<notin> snd ` set kas"
proof (induction kas arbitrary: st)
  case (Cons ka kas)
  then show ?case by (cases ka) (auto simp: edit_at_Inr_iff split: sum.splits)
qed simp

lemma batch_edit_keeps_domain:
  assumes "batchEditIntegration hash c sender ms ns as st = Inr st'"
  shows "isValidIntegration hash st' m n \<longleftrightarrow> isValidIntegration hash st m n"
proof -
  have "each_sol (case_prod (edit_at c sender)) (keyed hash ms ns as) st = Inr st'"
    using assms by (simp add: batchEditIntegration_def ir_onlyOwner_def Let_def each_edit_keyed split: if_splits)
  moreover from this have "ADDRESS_ZERO \<notin> snd ` set (keyed hash ms ns as)"
    by (rule each_edit_nonzero)
  ultimately show ?thesis
    using integration_store.edit_all by (fastforce simp: isValidIntegration_def integration_of_def)
qed

subsection \<open>Properties\<close>

text \<open>
  A batch of integrations is all or nothing: \<^verbatim>\<open>batchAddIntegration\<close> reverts exactly unless the owner
  sends arrays of the same positive length with enabled modules, non-zero adapters and module and name pairs that are
  different from each other and not registered yet. When it is accepted, every name of the batch resolves to its
  adapter and all other names resolve as before.
\<close>

lemma batch_add_registers_all:
  "case batchAddIntegration hash c sender ms ns as st of
     Inl _ \<Rightarrow> \<not> new_batch hash c sender ms ns as st
   | Inr st' \<Rightarrow> new_batch hash c sender ms ns as st \<and> ir_owner st' = ir_owner st \<and>
       (\<forall>m n. getIntegrationAdapter hash st' m n =
         (case map_of (zip (zip ms (map hash ns)) as) (m, hash n) of
            Some a \<Rightarrow> a | None \<Rightarrow> getIntegrationAdapter hash st m n))"
proof (cases "batchAddIntegration hash c sender ms ns as st")
  case (Inl m)
  then show ?thesis using new_batch_accepted [of hash c sender ms ns as st] by auto
next
  case (Inr st')
  then show ?thesis using batch_accepted [OF Inr]
    by (auto simp: getIntegrationAdapter_def integration_of_def keyed_def fun_eq_iff split: option.split)
qed

end
