(* ===== verification/System_Fixture.thy ===== *)
theory System_Fixture
  imports Deploy_Modules Deploy_Mocks Deploy_External Controller_Contract
begin

section \<open>The system fixture\<close>

text \<open>
  Models utils/fixtures/systemFixture.ts and utils/common/protocolUtils.ts. A field of the class that
  is not assigned yet is \<open>None\<close>: reading its address throws. The properties run the fixture
  against the model of the Controller: the transactions it sends are replayed on it.
\<close>

subsection \<open>protocolUtils.ts\<close>

record Position =
  component :: address
  module :: address
  unit :: int
  positionState :: int
  data :: string

datatype log_error = Invalid_transaction_hash | No_log

text \<open>The query asks for the logs of the latest block; the hash is only tested for presence.\<close>

definition getCreatedSetTokenAddress :: "env \<Rightarrow> string option \<Rightarrow> chain \<Rightarrow> log_error + address" where
  "getCreatedSetTokenAddress e txnHash s =
     (if txnHash = None \<or> txnHash = Some '''' then Inl Invalid_transaction_hash
      else let logs = set_created_logs e (txs s)
           in if logs = [] then Inl No_log else Inr (logs ! (length logs - 1)))"

definition getDefaultPosition :: "address \<Rightarrow> int \<Rightarrow> Position" where
  "getDefaultPosition c u =
     \<lparr>component = c, module = ADDRESS_ZERO, unit = u, positionState = 0, data = EMPTY_BYTES\<rparr>"

definition getExternalPosition :: "address \<Rightarrow> address \<Rightarrow> int \<Rightarrow> string \<Rightarrow> Position" where
  "getExternalPosition c m u d =
     \<lparr>component = c, module = m, unit = u, positionState = 1, data = d\<rparr>"

subsection \<open>The fixture\<close>

record SystemFixture =
  sf_ownerAddress :: address
  sf_deployer :: DeployHelper
  sf_feeRecipient :: "address option"
  sf_controller :: "contract option"
  sf_factory :: "contract option"
  sf_priceOracle :: "contract option"
  sf_integrationRegistry :: "contract option"
  sf_setValuer :: "contract option"
  sf_issuanceModule :: "contract option"
  sf_streamingFeeModule :: "contract option"
  sf_navIssuanceModule :: "contract option"
  sf_weth :: "contract option"
  sf_usdc :: "contract option"
  sf_wbtc :: "contract option"
  sf_dai :: "contract option"
  sf_ETH_USD_Oracle :: "contract option"
  sf_USD_USD_Oracle :: "contract option"
  sf_BTC_USD_Oracle :: "contract option"
  sf_DAI_USD_Oracle :: "contract option"
  sf_component1Price :: "int option"
  sf_component2Price :: "int option"
  sf_component3Price :: "int option"
  sf_component4Price :: "int option"

text \<open>The signer of an account is its address.\<close>

definition new_SystemFixture :: "address \<Rightarrow> SystemFixture" where
  "new_SystemFixture ownerAddress =
     \<lparr>sf_ownerAddress = ownerAddress, sf_deployer = new_DeployHelper ownerAddress,
      sf_feeRecipient = None, sf_controller = None, sf_factory = None, sf_priceOracle = None,
      sf_integrationRegistry = None, sf_setValuer = None, sf_issuanceModule = None,
      sf_streamingFeeModule = None, sf_navIssuanceModule = None, sf_weth = None, sf_usdc = None,
      sf_wbtc = None, sf_dai = None, sf_ETH_USD_Oracle = None, sf_USD_USD_Oracle = None,
      sf_BTC_USD_Oracle = None, sf_DAI_USD_Oracle = None, sf_component1Price = None,
      sf_component2Price = None, sf_component3Price = None, sf_component4Price = None\<rparr>"

definition initializeStandardComponents :: "env \<Rightarrow> SystemFixture \<Rightarrow> chain \<Rightarrow> SystemFixture result" where
  "initializeStandardComponents e this s = do {
     let d = sf_deployer this;
     (weth, s) \<leftarrow> deployWETH e (external d) s;
     amount \<leftarrow> ether 10000;
     (usdc, s) \<leftarrow> deployTokenMock e (mocks d) (sf_ownerAddress this) (Some amount) (Some 6) None None s;
     (wbtc, s) \<leftarrow> deployTokenMock e (mocks d) (sf_ownerAddress this) (Some amount) (Some 8) None None s;
     million \<leftarrow> ether 1000000;
     (dai, s) \<leftarrow> deployTokenMock e (mocks d) (sf_ownerAddress this) (Some million) (Some 18) None None s;
     p1 \<leftarrow> ether 230;
     p2 \<leftarrow> ether 1;
     p3 \<leftarrow> ether 9000;
     p4 \<leftarrow> ether 1;
     (o1, s) \<leftarrow> deployOracleMock e (mocks d) p1 s;
     (o2, s) \<leftarrow> deployOracleMock e (mocks d) p2 s;
     (o3, s) \<leftarrow> deployOracleMock e (mocks d) p3 s;
     (o4, s) \<leftarrow> deployOracleMock e (mocks d) p4 s;
     deposit \<leftarrow> ether 5000;
     s \<leftarrow> call e weth ''deposit'' [Obj [(''value'', Num deposit)]] s;
     issuanceModule \<leftarrow> sf_issuanceModule this;
     s \<leftarrow> call e weth ''approve'' [Addr (cAddress issuanceModule), Num amount] s;
     s \<leftarrow> call e usdc ''approve'' [Addr (cAddress issuanceModule), Num amount] s;
     s \<leftarrow> call e wbtc ''approve'' [Addr (cAddress issuanceModule), Num amount] s;
     s \<leftarrow> call e dai ''approve'' [Addr (cAddress issuanceModule), Num amount] s;
     Some (this\<lparr>sf_weth := Some weth, sf_usdc := Some usdc, sf_wbtc := Some wbtc, sf_dai := Some dai,
       sf_component1Price := Some p1, sf_component2Price := Some p2, sf_component3Price := Some p3,
       sf_component4Price := Some p4, sf_ETH_USD_Oracle := Some o1, sf_USD_USD_Oracle := Some o2,
       sf_BTC_USD_Oracle := Some o3, sf_DAI_USD_Oracle := Some o4\<rparr>, s)
   }"

definition SystemFixture_initialize :: "env \<Rightarrow> SystemFixture \<Rightarrow> chain \<Rightarrow> SystemFixture result" where
  "SystemFixture_initialize e this s = do {
     let d = sf_deployer this;
     feeRecipient \<leftarrow> nth_opt (listAccounts e) 3;
     (controller, s) \<leftarrow> deployController e (core d) feeRecipient s;
     (issuanceModule, s) \<leftarrow> deployBasicIssuanceModule e (modules d) (cAddress controller) s;
     let this = this\<lparr>sf_feeRecipient := Some feeRecipient, sf_controller := Some controller,
       sf_issuanceModule := Some issuanceModule\<rparr>;
     (this, s) \<leftarrow> initializeStandardComponents e this s;
     (integrationRegistry, s) \<leftarrow> deployIntegrationRegistry e (core d) (cAddress controller) s;
     (factory, s) \<leftarrow> deploySetTokenCreator e (core d) (cAddress controller) s;
     weth \<leftarrow> sf_weth this;
     usdc \<leftarrow> sf_usdc this;
     wbtc \<leftarrow> sf_wbtc this;
     dai \<leftarrow> sf_dai this;
     o1 \<leftarrow> sf_ETH_USD_Oracle this;
     o2 \<leftarrow> sf_USD_USD_Oracle this;
     o3 \<leftarrow> sf_BTC_USD_Oracle this;
     o4 \<leftarrow> sf_DAI_USD_Oracle this;
     (priceOracle, s) \<leftarrow> deployPriceOracle e (core d) (cAddress controller) (cAddress usdc) []
       [cAddress weth, cAddress usdc, cAddress wbtc, cAddress dai]
       [cAddress usdc, cAddress usdc, cAddress usdc, cAddress usdc]
       [cAddress o1, cAddress o2, cAddress o3, cAddress o4] s;
     (integrationRegistry, s) \<leftarrow> deployIntegrationRegistry e (core d) (cAddress controller) s;
     (setValuer, s) \<leftarrow> deploySetValuer e (core d) (cAddress controller) s;
     (streamingFeeModule, s) \<leftarrow> deployStreamingFeeModule e (modules d) (cAddress controller) s;
     (navIssuanceModule, s) \<leftarrow>
       deployCustomOracleNavIssuanceModule e (modules d) (cAddress controller) (cAddress weth) s;
     s \<leftarrow> call e controller ''initialize''
       [Addrs [cAddress factory],
        Addrs [cAddress issuanceModule, cAddress streamingFeeModule, cAddress navIssuanceModule],
        Addrs [cAddress integrationRegistry, cAddress priceOracle, cAddress setValuer],
        Nums [0, 1, 2]] s;
     Some (this\<lparr>sf_integrationRegistry := Some integrationRegistry, sf_factory := Some factory,
       sf_priceOracle := Some priceOracle, sf_setValuer := Some setValuer,
       sf_streamingFeeModule := Some streamingFeeModule, sf_navIssuanceModule := Some navIssuanceModule\<rparr>, s)
   }"

definition createSetToken :: "env \<Rightarrow> SystemFixture \<Rightarrow> string \<Rightarrow> address list \<Rightarrow> int list \<Rightarrow> address list \<Rightarrow>
    address option \<Rightarrow> string option \<Rightarrow> string option \<Rightarrow> chain \<Rightarrow> contract result" where
  "createSetToken e this txHash components units modules' manager name symbol s = do {
     let manager = (case manager of None \<Rightarrow> sf_ownerAddress this | Some x \<Rightarrow> x);
     let name = (case name of None \<Rightarrow> ''SetToken'' | Some x \<Rightarrow> x);
     let symbol = (case symbol of None \<Rightarrow> ''SET'' | Some x \<Rightarrow> x);
     factory \<leftarrow> sf_factory this;
     s \<leftarrow> call e factory ''create''
       [Addrs components, Nums units, Addrs modules', Addr manager, Str name, Str symbol] s;
     case getCreatedSetTokenAddress e (Some txHash) s of
       Inl _ \<Rightarrow> None
     | Inr retrievedSetAddress \<Rightarrow> Some (attach ''SetToken'' retrievedSetAddress (sf_ownerAddress this), s)
   }"

definition createNonControllerEnabledSetToken :: "env \<Rightarrow> SystemFixture \<Rightarrow> address list \<Rightarrow> int list \<Rightarrow>
    address list \<Rightarrow> address option \<Rightarrow> string option \<Rightarrow> string option \<Rightarrow> chain \<Rightarrow> contract result" where
  "createNonControllerEnabledSetToken e this components units modules' manager name symbol s = do {
     let manager = (case manager of None \<Rightarrow> sf_ownerAddress this | Some x \<Rightarrow> x);
     let name = (case name of None \<Rightarrow> ''SetToken'' | Some x \<Rightarrow> x);
     let symbol = (case symbol of None \<Rightarrow> ''SET'' | Some x \<Rightarrow> x);
     controller \<leftarrow> sf_controller this;
     deploySetToken e (core (sf_deployer this)) components units modules' (cAddress controller) manager name symbol s
   }"

definition approveAndIssueSetToken :: "env \<Rightarrow> SystemFixture \<Rightarrow> contract \<Rightarrow> int \<Rightarrow> address option \<Rightarrow> chain \<Rightarrow> chain option" where
  "approveAndIssueSetToken e this setToken issueQuantity to s = do {
     let to = (case to of None \<Rightarrow> sf_ownerAddress this | Some x \<Rightarrow> x);
     positions \<leftarrow> as_list (view e setToken ''getPositions'' [] s);
     s \<leftarrow> for_each positions (\<lambda>position s. do {
       component \<leftarrow> as_addr (obj_get ''component'' position);
       let componentInstance = getTokenMock (mocks (sf_deployer this)) component;
       issuanceModule \<leftarrow> sf_issuanceModule this;
       call e componentInstance ''approve'' [Addr (cAddress issuanceModule), Num MAX_UINT_256] s
     }) s;
     issuanceModule \<leftarrow> sf_issuanceModule this;
     call e issuanceModule ''issue'' [Addr (cAddress setToken), Num issueQuantity, Addr to] s
   }"

subsection \<open>Running the Controller along the transactions\<close>

fun addr_list :: "arg list \<Rightarrow> address list option" where
  "addr_list [] = Some []"
| "addr_list (Addr a # xs) = map_option (Cons a) (addr_list xs)"
| "addr_list _ = None"

fun num_list :: "arg list \<Rightarrow> int list option" where
  "num_list [] = Some []"
| "num_list (Num a # xs) = map_option (Cons a) (num_list xs)"
| "num_list _ = None"

lemma addr_list_Addrs [simp]: "addr_list (map Addr xs) = Some xs"
  by (induction xs) auto

lemma num_list_Nums [simp]: "num_list (map Num xs) = Some xs"
  by (induction xs) auto

fun initialize_call :: "address \<Rightarrow> arg list \<Rightarrow> controller_state \<Rightarrow> controller_state option" where
  "initialize_call sender [Lst fs, Lst ms, Lst rs, Lst ids] st = do {
     fs \<leftarrow> addr_list fs;
     ms \<leftarrow> addr_list ms;
     rs \<leftarrow> addr_list rs;
     ids \<leftarrow> num_list ids;
     case initialize sender fs ms rs ids st of Inl _ \<Rightarrow> None | Inr st' \<Rightarrow> Some st'
   }"
| "initialize_call sender _ st = None"

text \<open>The state of the Controller at an address after a sequence of mined transactions.\<close>

fun controller_step :: "address \<Rightarrow> controller_state option \<Rightarrow> tx \<Rightarrow> controller_state option" where
  "controller_step a st (Create f n l args x) =
     (if x = a \<and> n = ''Controller'' then (case args of [Addr r] \<Rightarrow> Some (new_Controller a f r) | _ \<Rightarrow> st) else st)"
| "controller_step a st (Call f x m args) =
     (if x = a \<and> m = ''initialize''
      then (case st of None \<Rightarrow> None | Some c \<Rightarrow>
        (case initialize_call f args c of None \<Rightarrow> Some c | Some c' \<Rightarrow> Some c'))
      else st)"

definition controller_at :: "address \<Rightarrow> tx list \<Rightarrow> controller_state option" where
  "controller_at a ts = foldl (controller_step a) None ts"

text \<open>
  An environment whose node runs the Controller: a call of \<^verbatim>\<open>initialize\<close> is accepted when the
  Controller at that address accepts it; other transactions are accepted.
\<close>

definition runs_controller :: "env \<Rightarrow> bool" where
  "runs_controller e \<longleftrightarrow> (\<forall>ts t. accepts e ts t \<longleftrightarrow>
     (case t of Create f n l args x \<Rightarrow> True
      | Call f x m args \<Rightarrow> m = ''initialize'' \<longrightarrow>
          (\<exists>st. controller_at x ts = Some st \<and> initialize_call f args st \<noteq> None)))"

lemma runs_controllerD:
  assumes "runs_controller e"
  shows "accepts e ts (Create f n l args x)"
    and "m \<noteq> ''initialize'' \<Longrightarrow> accepts e ts (Call f x m args)"
    and "controller_at x ts = Some st \<Longrightarrow> initialize_call f args st = Some st' \<Longrightarrow>
      accepts e ts (Call f x ''initialize'' args)"
  using assms by (auto simp: runs_controller_def)

lemma controller_at_append [simp]:
  "controller_at a (ts @ us) = foldl (controller_step a) (controller_at a ts) us"
  by (simp add: controller_at_def)

text \<open>The chain after a sequence of transactions of one sender.\<close>

definition after :: "address \<Rightarrow> chain \<Rightarrow> tx list \<Rightarrow> chain" where
  "after f s us = s\<lparr>nonces := (nonces s)(f := nonces s f + length us), txs := txs s @ us\<rparr>"

lemma after_Nil: "after f s [] = s"
  by (simp add: after_def)

lemma after_simps [simp]:
  "nonces (after f s us) f = nonces s f + length us" "txs (after f s us) = txs s @ us"
  by (simp_all add: after_def)

lemma submit_after: "tx_from t = f \<Longrightarrow> submit t (after f s us) = after f s (us @ [t])"
  by (simp add: submit_def after_def)

lemma deploy_after:
  "runs_controller e \<Longrightarrow> deploy e f n args (after f s us) =
     Some (attach n (create_address e f (nonces s f + length us)) f,
       after f s (us @ [Create f n [] args (create_address e f (nonces s f + length us))]))"
  by (simp add: deploy_def deploy_linked_def send_def runs_controllerD attach_def submit_after Let_def)

lemma call_after:
  "runs_controller e \<Longrightarrow> cSigner c = f \<Longrightarrow> m \<noteq> ''initialize'' \<Longrightarrow>
     call e c m args (after f s us) = Some (after f s (us @ [Call f (cAddress c) m args]))"
  by (simp add: call_def send_def runs_controllerD submit_after)

lemma bind_weak_cong: "a = b \<Longrightarrow> Option.bind a f = Option.bind b f"
  by simp

lemma attach_simps [simp]: "cAddress (attach n a f) = a" "cSigner (attach n a f) = f" "cName (attach n a f) = n"
  by (simp_all add: attach_def)

lemmas script_defs = deployWETH_def deployOracleMock_def deployController_def deployBasicIssuanceModule_def
  deployIntegrationRegistry_def deploySetTokenCreator_def deployPriceOracle_def deploySetValuer_def
  deployStreamingFeeModule_def deployCustomOracleNavIssuanceModule_def

subsection \<open>What the fixture sets up\<close>

definition addr_of :: "contract option \<Rightarrow> address" where
  "addr_of c = (case c of None \<Rightarrow> [] | Some c \<Rightarrow> cAddress c)"

lemma addr_of_Some [simp]: "addr_of (Some c) = cAddress c"
  by (simp add: addr_of_def)

definition controller_set_up :: "address \<Rightarrow> address \<Rightarrow> SystemFixture \<Rightarrow> tx list \<Rightarrow> bool" where
  "controller_set_up owner feeRecipient this ts =
     (case sf_controller this of None \<Rightarrow> False | Some c \<Rightarrow>
       (case controller_at (cAddress c) ts of None \<Rightarrow> False | Some st \<Rightarrow>
         isInitialized st \<and> c_owner st = owner \<and> c_feeRecipient st = feeRecipient \<and>
         c_factories st = [addr_of (sf_factory this)] \<and>
         c_modules st = [addr_of (sf_issuanceModule this), addr_of (sf_streamingFeeModule this),
           addr_of (sf_navIssuanceModule this)] \<and>
         c_sets st = [] \<and>
         map (resourceId st) [0, 1, 2] = [addr_of (sf_integrationRegistry this), addr_of (sf_priceOracle this),
           addr_of (sf_setValuer this)] \<and>
         controller_inv st))"

definition good_batch :: "address list \<Rightarrow> address list \<Rightarrow> address list \<Rightarrow> int list \<Rightarrow> bool" where
  "good_batch fs ms rs ids \<longleftrightarrow> length rs = length ids \<and> ADDRESS_ZERO \<notin> set fs \<union> set ms \<union> set rs \<and>
     distinct fs \<and> distinct ms \<and> distinct rs \<and> distinct ids"

definition init_state :: "address \<Rightarrow> address \<Rightarrow> address \<Rightarrow> address list \<Rightarrow> address list \<Rightarrow> address list \<Rightarrow> int list
    \<Rightarrow> controller_state" where
  "init_state self owner recipient fs ms rs ids =
     (new_Controller self owner recipient)\<lparr>c_factories := fs, c_modules := ms, c_resources := rs,
       isFactory := \<lambda>a. a \<in> set fs, isModule := \<lambda>a. a \<in> set ms, isResource := \<lambda>a. a \<in> set rs,
       resourceId := \<lambda>i. case map_of (zip ids rs) i of Some a \<Rightarrow> a | None \<Rightarrow> ADDRESS_ZERO,
       isInitialized := True\<rparr>"

lemma initialize_init_state:
  "good_batch fs ms rs ids \<Longrightarrow>
     initialize owner fs ms rs ids (new_Controller self owner recipient) = Inr (init_state self owner recipient fs ms rs ids)"
  by (simp add: initialize_Inr_iff good_batch_def init_state_def new_Controller_def cong: option.case_cong)

lemma initialize_call_init_state:
  "good_batch fs ms rs ids \<Longrightarrow>
     initialize_call owner [Addrs fs, Addrs ms, Addrs rs, Nums ids] (new_Controller self owner recipient)
       = Some (init_state self owner recipient fs ms rs ids)"
  by (simp add: Addrs_def Nums_def initialize_init_state)

lemma call_initialize_after:
  "runs_controller e \<Longrightarrow> cSigner c = f \<Longrightarrow> good_batch fs ms rs ids \<Longrightarrow>
     controller_at (cAddress c) (txs s @ us) = Some (new_Controller (cAddress c) f recipient) \<Longrightarrow>
     call e c ''initialize'' [Addrs fs, Addrs ms, Addrs rs, Nums ids] (after f s us)
       = Some (after f s (us @ [Call f (cAddress c) ''initialize'' [Addrs fs, Addrs ms, Addrs rs, Nums ids]]))"
  using initialize_call_init_state [of fs ms rs ids f "cAddress c" recipient]
  by (simp add: call_def send_def runs_controllerD(3) submit_after)

lemma init_state_inv: "good_batch fs ms rs ids \<Longrightarrow> controller_inv (init_state self owner recipient fs ms rs ids)"
  by (rule initialize_inv [OF new_Controller_inv initialize_init_state]) (simp_all add: good_batch_def)

lemma init_state_simps [simp]:
  "c_factories (init_state self owner recipient fs ms rs ids) = fs"
  "c_modules (init_state self owner recipient fs ms rs ids) = ms"
  "c_sets (init_state self owner recipient fs ms rs ids) = []"
  "c_owner (init_state self owner recipient fs ms rs ids) = owner"
  "c_feeRecipient (init_state self owner recipient fs ms rs ids) = recipient"
  "isInitialized (init_state self owner recipient fs ms rs ids)"
  "resourceId (init_state self owner recipient fs ms rs ids)
    = (\<lambda>i. case map_of (zip ids rs) i of Some a \<Rightarrow> a | None \<Rightarrow> ADDRESS_ZERO)"
  by (simp_all add: init_state_def new_Controller_def)

text \<open>A concrete environment: addresses count the nonce, the node runs the Controller.\<close>

definition concrete_env :: env where
  "concrete_env = \<lparr>create_address = \<lambda>f n. replicate n (CHR ''n'') @ CHR ''c'' # f,
     accepts = \<lambda>ts t. (case t of Create f n l args x \<Rightarrow> True
       | Call f x m args \<Rightarrow> m = ''initialize'' \<longrightarrow>
           (\<exists>st. controller_at x ts = Some st \<and> initialize_call f args st \<noteq> None)),
     view_call = \<lambda>ts a m args. (if m = ''getPositions''
       then Some (Lst [Obj [(''component'', Addr ''t'')], Obj [(''component'', Addr ''u'')]]) else None),
     listAccounts = [''a0'', ''a1'', ''a2'', ''a3''],
     latest_timestamp = \<lambda>ts. 1600000000 + int (length ts),
     set_created_logs = \<lambda>ts. []\<rparr>"

lemma replicate_count_inj:
  "replicate n a @ c # x = replicate m a @ c # y \<Longrightarrow> a \<noteq> c \<Longrightarrow> n = m \<and> x = y"
proof (induction n arbitrary: m)
  case 0 then show ?case by (cases m) auto
next
  case (Suc n) then show ?case by (cases m) auto
qed

lemma concrete_env_ok:
  "runs_controller concrete_env" "collision_free concrete_env" "nth_opt (listAccounts concrete_env) 3 = Some ''a3''"
  "\<forall>n. create_address concrete_env owner n \<noteq> ADDRESS_ZERO"
proof -
  show "runs_controller concrete_env"
    by (auto simp: runs_controller_def concrete_env_def split: tx.split)
  show "collision_free concrete_env"
    unfolding collision_free_def
  proof (rule injI, clarify)
    fix f g :: address and n m
    assume "create_address concrete_env f n = create_address concrete_env g m"
    then have "replicate n (CHR ''n'') @ CHR ''c'' # f = replicate m (CHR ''n'') @ CHR ''c'' # g"
      by (simp add: concrete_env_def)
    from replicate_count_inj [OF this] show "f = g \<and> n = m" by simp
  qed
  show "nth_opt (listAccounts concrete_env) 3 = Some ''a3''" by (simp add: concrete_env_def nth_opt_def)
  show "\<forall>n. create_address concrete_env owner n \<noteq> ADDRESS_ZERO"
  proof
    fix n show "create_address concrete_env owner n \<noteq> ADDRESS_ZERO"
      by (cases n) (simp_all add: concrete_env_def ADDRESS_ZERO_def)
  qed
qed

lemma system_initialize_set_up:
  assumes run: "runs_controller e" and cf: "collision_free e"
    and acc: "nth_opt (listAccounts e) 3 = Some feeRecipient"
    and nz: "\<forall>n. create_address e owner n \<noteq> ADDRESS_ZERO"
  shows "case SystemFixture_initialize e (new_SystemFixture owner) s of
      None \<Rightarrow> False
    | Some (this, s') \<Rightarrow> controller_set_up owner feeRecipient this (txs s')"
proof -
  note addr = collision_freeD [OF cf] nz [rule_format] nz [rule_format, symmetric] good_batch_def
  have "case SystemFixture_initialize e (new_SystemFixture owner) (after owner s []) of None \<Rightarrow> False
      | Some (this, s') \<Rightarrow> controller_set_up owner feeRecipient this (txs s')"
    by (simp add: SystemFixture_initialize_def initializeStandardComponents_def script_defs
        deployTokenMock_some deploy_after [OF run] call_after [OF run] new_SystemFixture_def acc
        cong: bind_weak_cong, subst call_initialize_after [OF run, where recipient = feeRecipient])
      (simp_all add: addr initialize_call_init_state controller_set_up_def init_state_inv)
  then show ?thesis by (simp add: after_Nil)
qed

subsection \<open>Properties\<close>

text \<open>
  C22. The system fixture sets up a working protocol: on a node that runs the Controller (and accepts
  the other transactions), with collision-free non-zero creation addresses and at least four accounts,
  \<^verbatim>\<open>initialize\<close> succeeds from every chain state. Replaying the transactions it sent, the Controller is
  initialised, owned by the owner, with the fixture's factory, its three modules and its resources
  under the ids 0, 1 and 2, and its registries are consistent.
\<close>

theorem system_fixture_sets_up_controller:
  assumes "runs_controller e" and "collision_free e" and "nth_opt (listAccounts e) 3 = Some feeRecipient"
    and "\<forall>n. create_address e owner n \<noteq> ADDRESS_ZERO"
  shows "case SystemFixture_initialize e (new_SystemFixture owner) s of
      None \<Rightarrow> False
    | Some (this, s') \<Rightarrow> controller_set_up owner feeRecipient this (txs s')"
  using assms by (rule system_initialize_set_up)

theorem system_fixture_sets_up_controller_witness:
  "case SystemFixture_initialize concrete_env (new_SystemFixture ''a0'') \<lparr>nonces = \<lambda>_. 0, txs = []\<rparr> of
      None \<Rightarrow> False
    | Some (this, s') \<Rightarrow> controller_set_up ''a0'' ''a3'' this (txs s')"
  by (rule system_fixture_sets_up_controller) (simp_all add: concrete_env_ok)

text \<open>
  The fixture's factory can create Sets: once the Controller is set up, \<^verbatim>\<open>create\<close> through the
  fixture's factory with modules among the fixture's three succeeds for every new Set address and every
  non-empty list of distinct non-zero components with positive units, and registers the Set.
\<close>

lemma fixture_factory_creates_sets:
  assumes "controller_set_up owner feeRecipient this ts" and "sf_controller this = Some c"
    and "modules' \<noteq> []"
    and "set modules' \<subseteq> {addr_of (sf_issuanceModule this), addr_of (sf_streamingFeeModule this),
      addr_of (sf_navIssuanceModule this)}"
    and "components \<noteq> []" and "distinct components" and "ADDRESS_ZERO \<notin> set components"
    and "length units = length components" and "\<forall>u \<in> set units. 0 < u" and "manager \<noteq> ADDRESS_ZERO"
  shows "\<exists>st st'. controller_at (cAddress c) ts = Some st \<and>
    create (addr_of (sf_factory this)) True setToken components units modules' manager st = Inr (setToken, st') \<and>
    isSet st' setToken \<and> controller_inv st'"
proof -
  obtain st where st: "controller_at (cAddress c) ts = Some st" "isInitialized st" "c_sets st = []"
    "c_factories st = [addr_of (sf_factory this)]" "controller_inv st"
    "set (c_modules st) = {addr_of (sf_issuanceModule this), addr_of (sf_streamingFeeModule this),
      addr_of (sf_navIssuanceModule this)}"
    using assms(1,2) by (auto simp: controller_set_up_def split: option.splits)
  then have flags: "isFactory st (addr_of (sf_factory this))" "\<not> isSet st setToken" "\<forall>m \<in> set modules'. isModule st m"
    using assms(4) by (auto simp: controller_inv_def registered_def)
  then obtain st' where add: "addSet (addr_of (sf_factory this)) setToken st = Inr st'"
    using st(2) by (simp add: addSet_def modifiers)
  then have "create (addr_of (sf_factory this)) True setToken components units modules' manager st = Inr (setToken, st')"
    unfolding create_Inr_iff using assms flags by (auto dest: set_zip_leftD set_zip_rightD)
  moreover have "isSet st' setToken" using set_registry.add_spec [OF add] by simp
  moreover have "controller_inv st'" using exec_inv [OF st(5), of _ "AddSet setToken"] add by simp
  ultimately show ?thesis using st(1) by blast
qed

lemma fixture_factory_creates_sets_instance:
  "\<exists>this s' c st st'.
     SystemFixture_initialize concrete_env (new_SystemFixture ''a0'') \<lparr>nonces = \<lambda>_. 0, txs = []\<rparr> = Some (this, s') \<and>
     sf_controller this = Some c \<and> controller_at (cAddress c) (txs s') = Some st \<and>
     create (addr_of (sf_factory this)) True ''set'' [''t''] [5] [addr_of (sf_issuanceModule this)] ''a0'' st
       = Inr (''set'', st') \<and> isSet st' ''set''"
proof -
  obtain this s' where r: "SystemFixture_initialize concrete_env (new_SystemFixture ''a0'')
      \<lparr>nonces = \<lambda>_. 0, txs = []\<rparr> = Some (this, s')" and up: "controller_set_up ''a0'' ''a3'' this (txs s')"
    using system_initialize_set_up [OF concrete_env_ok, of "''a0''" "\<lparr>nonces = \<lambda>_. 0, txs = []\<rparr>"]
    by (auto split: option.splits)
  from up obtain c where c: "sf_controller this = Some c" by (auto simp: controller_set_up_def split: option.splits)
  from fixture_factory_creates_sets [OF up c, of "[addr_of (sf_issuanceModule this)]" "[''t'']" "[5]" "''a0''" "''set''"]
  show ?thesis using r c by (auto simp: ADDRESS_ZERO_def)
qed

text \<open>
  Issuing approves first: when the node accepts the transactions, \<^verbatim>\<open>approveAndIssueSetToken\<close> sends
  exactly one approval of the maximal amount for the issuance module per position, in the order of the
  positions and from the owner, and then the issue call; nothing else is sent.
\<close>

lemma approve_and_issue_sequence:
  assumes "\<forall>ts t. accepts e ts t"
    and "view_call e (txs s) (cAddress setToken) ''getPositions'' [] = Some (Lst (map (\<lambda>c. Obj [(''component'', Addr c)]) cs))"
    and "sf_issuanceModule this = Some im"
  shows "\<exists>s'. approveAndIssueSetToken e this setToken q to s = Some s' \<and>
    txs s' = txs s @
      map (\<lambda>c. Call (deployerSigner (mocks (sf_deployer this))) c ''approve'' [Addr (cAddress im), Num MAX_UINT_256]) cs @
      [Call (cSigner im) (cAddress im) ''issue''
        [Addr (cAddress setToken), Num q, Addr (case to of None \<Rightarrow> sf_ownerAddress this | Some x \<Rightarrow> x)]]"
proof -
  let ?approve = "\<lambda>c. Call (deployerSigner (mocks (sf_deployer this))) c ''approve'' [Addr (cAddress im), Num MAX_UINT_256]"
  let ?f = "\<lambda>position s. do {
       component \<leftarrow> as_addr (obj_get ''component'' position);
       issuanceModule \<leftarrow> sf_issuanceModule this;
       call e (getTokenMock (mocks (sf_deployer this)) component) ''approve''
         [Addr (cAddress issuanceModule), Num MAX_UINT_256] s
     }"
  have "?f (Obj [(''component'', Addr c)]) s = Some (submit (?approve c) s)" for c s
    using assms(1,3) by (simp only: obj_get.simps) (simp add: call_def send_def getTokenMock_def)
  from for_each_submits [of cs ?f "\<lambda>c. Obj [(''component'', Addr c)]" ?approve s, OF this]
  obtain s1 where "for_each (map (\<lambda>c. Obj [(''component'', Addr c)]) cs) ?f s = Some s1"
    "txs s1 = txs s @ map ?approve cs" by blast
  then show ?thesis
    unfolding approveAndIssueSetToken_def Let_def view_def assms(2)
    using assms(1,3) by (simp add: call_def send_def)
qed

lemma approve_and_issue_sequence_instance:
  "\<exists>s'. approveAndIssueSetToken (concrete_env\<lparr>accepts := \<lambda>_ _. True\<rparr>)
      (new_SystemFixture ''a0''\<lparr>sf_issuanceModule := Some (attach ''BasicIssuanceModule'' ''im'' ''a0'')\<rparr>)
      (attach ''SetToken'' ''set'' ''a0'') 7 None \<lparr>nonces = \<lambda>_. 0, txs = []\<rparr> = Some s' \<and>
    txs s' = [Call ''a0'' ''t'' ''approve'' [Addr ''im'', Num MAX_UINT_256],
      Call ''a0'' ''u'' ''approve'' [Addr ''im'', Num MAX_UINT_256],
      Call ''a0'' ''im'' ''issue'' [Addr ''set'', Num 7, Addr ''a0'']]"
  using approve_and_issue_sequence [of "concrete_env\<lparr>accepts := \<lambda>_ _. True\<rparr>" "\<lparr>nonces = \<lambda>_. 0, txs = []\<rparr>"
      "attach ''SetToken'' ''set'' ''a0''" "[''t'', ''u'']"
      "new_SystemFixture ''a0''\<lparr>sf_issuanceModule := Some (attach ''BasicIssuanceModule'' ''im'' ''a0'')\<rparr>"
      "attach ''BasicIssuanceModule'' ''im'' ''a0''" 7 None]
  by (simp add: concrete_env_def new_SystemFixture_def)

text \<open>The other operations of the fixture keep the invariant of the chain.\<close>

lemma deployTokenMock_keeps [keeps_rules]: "keeps e s (deployTokenMock e d a b c n y s)"
  by (simp add: deployTokenMock_def) (intro keeps_rules keeps_bind_pure)

lemma system_initialize_keeps: "keeps e s (SystemFixture_initialize e this s)"
  unfolding SystemFixture_initialize_def initializeStandardComponents_def script_defs Let_def
  by (intro keeps_rules keeps_bind_pure)

lemma create_set_token_keeps: "keeps e s (createSetToken e this h cs us ms m n y s)"
  unfolding createSetToken_def Let_def by (intro keeps_rules keeps_bind_pure)

lemma create_non_controller_set_token_keeps: "keeps e s (createNonControllerEnabledSetToken e this cs us ms m n y s)"
  unfolding createNonControllerEnabledSetToken_def deploySetToken_def Let_def by (intro keeps_rules keeps_bind_pure)

lemma approve_and_issue_keeps: "keeps1 e s (approveAndIssueSetToken e this c q to s)"
  unfolding approveAndIssueSetToken_def Let_def by (intro keeps_rules keeps1_bind_pure)

end
