(* ===== verification/Price_Oracle.thy ===== *)
theory Price_Oracle
  imports Precise_Unit_Math Integration_Registry System_Fixture
begin

section \<open>The price oracle\<close>

text \<open>
  Models contracts/protocol/PriceOracle.sol, resource 1 of the system fixture, and the feed
  contracts/mocks/OracleMock.sol the fixture gives it. Prices are 256 bit words with 18 decimals. The
  feeds and the oracle adapters a price is read from are arguments: \<open>read\<close> and \<open>adapterPrice\<close>, whose
  \<open>Inl\<close> is a revert of the other contract. The property at the end runs the fixture and asks the oracle
  it deployed for the prices of the fixture's tokens.
\<close>

subsection \<open>OracleMock.sol\<close>

record oracle_mock =
  om_price :: uint256

definition new_OracleMock :: "uint256 \<Rightarrow> oracle_mock" where
  "new_OracleMock startingPrice = \<lparr>om_price = startingPrice\<rparr>"

definition updatePrice :: "uint256 \<Rightarrow> oracle_mock \<Rightarrow> oracle_mock" where
  "updatePrice newPrice st = st\<lparr>om_price := newPrice\<rparr>"

definition om_read :: "oracle_mock \<Rightarrow> uint256" where
  "om_read st = om_price st"

subsection \<open>PriceOracle.sol\<close>

record price_oracle =
  po_owner :: address
  po_controller :: address
  po_oracles :: "address \<Rightarrow> address \<Rightarrow> address"
  masterQuoteAsset :: address
  po_adapters :: "address list"

definition set_oracle :: "address \<Rightarrow> address \<Rightarrow> address \<Rightarrow> price_oracle \<Rightarrow> price_oracle" where
  "set_oracle a b r st = st\<lparr>po_oracles := (po_oracles st)(a := (po_oracles st a)(b := r))\<rparr>"

definition new_PriceOracle :: "address \<Rightarrow> address \<Rightarrow> address \<Rightarrow> address list \<Rightarrow> address list \<Rightarrow> address list
    \<Rightarrow> address list \<Rightarrow> price_oracle sol" where
  "new_PriceOracle sender controller master adapters' assetOnes assetTwos feeds =
     (let st = \<lparr>po_owner = sender, po_controller = controller, po_oracles = \<lambda>_ _. ADDRESS_ZERO,
        masterQuoteAsset = master, po_adapters = adapters'\<rparr> in
      if length assetOnes = length assetTwos \<and> length assetTwos = length feeds
      then Inr (foldl (\<lambda>st (a, b, r). set_oracle a b r st) st (zip assetOnes (zip assetTwos feeds)))
      else Inl ''Array lengths do not match.'')"

definition calculateInversePrice :: "(address \<Rightarrow> uint256 sol) \<Rightarrow> address \<Rightarrow> uint256 sol" where
  "calculateInversePrice read inverseOracle =
     (case read inverseOracle of Inl m \<Rightarrow> Inl m
      | Inr inverseValue \<Rightarrow> checked (sol_preciseDiv sol_preciseUnit inverseValue))"

definition getDirectOrInversePrice :: "(address \<Rightarrow> uint256 sol) \<Rightarrow> price_oracle \<Rightarrow> address \<Rightarrow> address
    \<Rightarrow> (bool \<times> uint256) sol" where
  "getDirectOrInversePrice read st assetOne assetTwo =
     (let directOracle = po_oracles st assetOne assetTwo in
      if directOracle \<noteq> ADDRESS_ZERO then map_sum id (Pair True) (read directOracle)
      else let inverseOracle = po_oracles st assetTwo assetOne in
        if inverseOracle \<noteq> ADDRESS_ZERO then map_sum id (Pair True) (calculateInversePrice read inverseOracle)
        else Inr (False, 0))"

definition getPriceFromMasterQuote :: "(address \<Rightarrow> uint256 sol) \<Rightarrow> price_oracle \<Rightarrow> address \<Rightarrow> address
    \<Rightarrow> (bool \<times> uint256) sol" where
  "getPriceFromMasterQuote read st assetOne assetTwo =
     (case getDirectOrInversePrice read st assetOne (masterQuoteAsset st) of Inl m \<Rightarrow> Inl m
      | Inr (priceFoundOne, assetOnePrice) \<Rightarrow>
     (case getDirectOrInversePrice read st assetTwo (masterQuoteAsset st) of Inl m \<Rightarrow> Inl m
      | Inr (priceFoundTwo, assetTwoPrice) \<Rightarrow>
        if priceFoundOne \<and> priceFoundTwo
        then map_sum id (Pair True) (checked (sol_preciseDiv assetOnePrice assetTwoPrice))
        else Inr (False, 0)))"

fun getPriceFromAdapters :: "(address \<Rightarrow> address \<Rightarrow> address \<Rightarrow> (bool \<times> uint256) sol) \<Rightarrow> address list \<Rightarrow> address
    \<Rightarrow> address \<Rightarrow> (bool \<times> uint256) sol" where
  "getPriceFromAdapters adapterPrice [] assetOne assetTwo = Inr (False, 0)"
| "getPriceFromAdapters adapterPrice (adapter # rest) assetOne assetTwo =
     (case adapterPrice adapter assetOne assetTwo of Inl m \<Rightarrow> Inl m
      | Inr (priceFound, price) \<Rightarrow>
        if priceFound then Inr (priceFound, price) else getPriceFromAdapters adapterPrice rest assetOne assetTwo)"

definition getPrice :: "(address \<Rightarrow> uint256 sol) \<Rightarrow> (address \<Rightarrow> address \<Rightarrow> address \<Rightarrow> (bool \<times> uint256) sol)
    \<Rightarrow> controller_state \<Rightarrow> price_oracle \<Rightarrow> address \<Rightarrow> address \<Rightarrow> address \<Rightarrow> uint256 sol" where
  "getPrice read adapterPrice controller st sender assetOne assetTwo =
     (if \<not> isSystemContract controller sender then Inl ''PriceOracle.getPrice: Caller must be system contract.''
      else case getDirectOrInversePrice read st assetOne assetTwo of Inl m \<Rightarrow> Inl m | Inr (priceFound, price) \<Rightarrow>
      (case (if \<not> priceFound then getPriceFromMasterQuote read st assetOne assetTwo else Inr (priceFound, price))
         of Inl m \<Rightarrow> Inl m | Inr (priceFound, price) \<Rightarrow>
      (case (if \<not> priceFound then getPriceFromAdapters adapterPrice (po_adapters st) assetOne assetTwo
             else Inr (priceFound, price)) of Inl m \<Rightarrow> Inl m | Inr (priceFound, price) \<Rightarrow>
        (if priceFound then Inr price else Inl ''PriceOracle.getPrice: Price not found.''))))"

definition po_onlyOwner :: "address \<Rightarrow> price_oracle \<Rightarrow> 'a sol \<Rightarrow> 'a sol" where
  "po_onlyOwner sender st k = (if sender = po_owner st then k else Inl ''Ownable: caller is not the owner'')"

definition addPair :: "address \<Rightarrow> address \<Rightarrow> address \<Rightarrow> address \<Rightarrow> price_oracle \<Rightarrow> price_oracle sol" where
  "addPair sender assetOne assetTwo feed st = po_onlyOwner sender st
     (if po_oracles st assetOne assetTwo \<noteq> ADDRESS_ZERO then Inl ''PriceOracle.addPair: Pair already exists.''
      else Inr (set_oracle assetOne assetTwo feed st))"

definition editPair :: "address \<Rightarrow> address \<Rightarrow> address \<Rightarrow> address \<Rightarrow> price_oracle \<Rightarrow> price_oracle sol" where
  "editPair sender assetOne assetTwo feed st = po_onlyOwner sender st
     (if po_oracles st assetOne assetTwo = ADDRESS_ZERO then Inl ''PriceOracle.editPair: Pair doesn't exist.''
      else Inr (set_oracle assetOne assetTwo feed st))"

definition removePair :: "address \<Rightarrow> address \<Rightarrow> address \<Rightarrow> price_oracle \<Rightarrow> price_oracle sol" where
  "removePair sender assetOne assetTwo st = po_onlyOwner sender st
     (if po_oracles st assetOne assetTwo = ADDRESS_ZERO then Inl ''PriceOracle.removePair: Pair doesn't exist.''
      else Inr (set_oracle assetOne assetTwo ADDRESS_ZERO st))"

definition addAdapter :: "address \<Rightarrow> address \<Rightarrow> price_oracle \<Rightarrow> price_oracle sol" where
  "addAdapter sender adapter st = po_onlyOwner sender st
     (if contains (po_adapters st) adapter then Inl ''PriceOracle.addAdapter: Adapter already exists.''
      else Inr (st\<lparr>po_adapters := po_adapters st @ [adapter]\<rparr>))"

definition removeAdapter :: "address \<Rightarrow> address \<Rightarrow> price_oracle \<Rightarrow> price_oracle sol" where
  "removeAdapter sender adapter st = po_onlyOwner sender st
     (if \<not> contains (po_adapters st) adapter then Inl ''PriceOracle.removeAdapter: Adapter does not exist.''
      else case array_remove (po_adapters st) adapter of Inl m \<Rightarrow> Inl m
      | Inr l \<Rightarrow> Inr (st\<lparr>po_adapters := l\<rparr>))"

definition editMasterQuoteAsset :: "address \<Rightarrow> address \<Rightarrow> price_oracle \<Rightarrow> price_oracle sol" where
  "editMasterQuoteAsset sender newMasterQuoteAsset st = po_onlyOwner sender st
     (Inr (st\<lparr>masterQuoteAsset := newMasterQuoteAsset\<rparr>))"

subsection \<open>The pairs are an address store\<close>

definition oracle_of :: "price_oracle \<Rightarrow> address \<times> address \<Rightarrow> address" where
  "oracle_of st = (\<lambda>(a, b). po_oracles st a b)"

lemma oracle_of_set [simp]: "oracle_of (set_oracle a b r st) = (oracle_of st)((a, b) := r)"
  by (auto simp: oracle_of_def set_oracle_def fun_eq_iff)

definition add_pair_at :: "address \<Rightarrow> address \<times> address \<Rightarrow> address \<Rightarrow> price_oracle \<Rightarrow> price_oracle sol" where
  "add_pair_at sender k r = addPair sender (fst k) (snd k) r"

definition edit_pair_at :: "address \<Rightarrow> address \<times> address \<Rightarrow> address \<Rightarrow> price_oracle \<Rightarrow> price_oracle sol" where
  "edit_pair_at sender k r = editPair sender (fst k) (snd k) r"

definition remove_pair_at :: "address \<Rightarrow> address \<times> address \<Rightarrow> price_oracle \<Rightarrow> price_oracle sol" where
  "remove_pair_at sender k = removePair sender (fst k) (snd k)"

lemmas pair_defs = add_pair_at_def edit_pair_at_def remove_pair_at_def addPair_def editPair_def removePair_def po_onlyOwner_def

interpretation pair_store: address_store oracle_of "add_pair_at sender" "edit_pair_at sender" "remove_pair_at sender"
  by unfold_locales (auto simp: pair_defs split: if_splits, auto simp: oracle_of_def)

subsection \<open>Oracles that quote every token in one asset\<close>

text \<open>
  The configuration of the fixture: every token of the table \<open>p\<close> has a feed against the master quote
  asset, which has the price 1 itself, and there are no other feeds.
\<close>

definition quotes_in_master :: "(address \<Rightarrow> uint256 sol) \<Rightarrow> price_oracle \<Rightarrow> (address \<rightharpoonup> uint256) \<Rightarrow> bool" where
  "quotes_in_master read st p \<longleftrightarrow> p (masterQuoteAsset st) = Some sol_preciseUnit \<and>
     (\<forall>a b. po_oracles st a b \<noteq> ADDRESS_ZERO \<longleftrightarrow> b = masterQuoteAsset st \<and> p a \<noteq> None) \<and>
     (\<forall>a v. p a = Some v \<longrightarrow> read (po_oracles st a (masterQuoteAsset st)) = Inr v)"

lemma master_quote:
  assumes "quotes_in_master read st p" "p a = Some v"
  shows "getDirectOrInversePrice read st a (masterQuoteAsset st) = Inr (True, v)"
proof -
  have "po_oracles st a (masterQuoteAsset st) \<noteq> ADDRESS_ZERO" "read (po_oracles st a (masterQuoteAsset st)) = Inr v"
    using assms unfolding quotes_in_master_def by auto
  then show ?thesis by (simp add: getDirectOrInversePrice_def Let_def)
qed

lemma sol_preciseDiv_value:
  assumes "uint x * PRECISE_UNIT < 2 ^ 256" "y \<noteq> 0"
  shows "sol_preciseDiv x y = Some (word_of_int (uint x * PRECISE_UNIT div uint y))"
proof -
  have "map_option uint (sol_preciseDiv x y) = Some (uint x * PRECISE_UNIT div uint y)"
    using assms sol_preciseDiv_uint [of x y] by (simp add: preciseDiv_def PRECISE_UNIT_def)
  then obtain z where "sol_preciseDiv x y = Some z" "uint z = uint x * PRECISE_UNIT div uint y" by auto
  then show ?thesis by (metis word_of_int_uint)
qed

lemma quoted_price:
  assumes q: "quotes_in_master read st p" and "isSystemContract controller sender"
    and ab: "p a = Some x" "p b = Some y" and ok: "uint x * PRECISE_UNIT < 2 ^ 256" "y \<noteq> 0"
  shows "getPrice read adapterPrice controller st sender a b = Inr (word_of_int (uint x * PRECISE_UNIT div uint y))"
proof -
  let ?M = "masterQuoteAsset st"
  have M: "p ?M = Some sol_preciseUnit" and feeds: "\<And>a b. po_oracles st a b \<noteq> ADDRESS_ZERO \<longleftrightarrow> b = ?M \<and> p a \<noteq> None"
    and reads: "\<And>a v. p a = Some v \<Longrightarrow> read (po_oracles st a ?M) = Inr v"
    using q unfolding quotes_in_master_def by auto
  note div = sol_preciseDiv_value [OF ok]
  show ?thesis
  proof (cases "b = ?M")
    case True
    then have "y = sol_preciseUnit" using ab M by simp
    then have "word_of_int (uint x * PRECISE_UNIT div uint y) = x" by (simp add: PRECISE_UNIT_def)
    then show ?thesis using assms(2) master_quote [OF q ab(1)] True by (simp add: getPrice_def)
  next
    case False
    then have direct: "po_oracles st a b = ADDRESS_ZERO" using feeds [of a b] by simp
    show ?thesis
    proof (cases "a = ?M")
      case True
      then have "x = sol_preciseUnit" using ab M by simp
      moreover have "po_oracles st b a \<noteq> ADDRESS_ZERO" "read (po_oracles st b a) = Inr y"
        using True feeds [of b a] ab reads by simp_all
      ultimately show ?thesis
        using assms(2) direct div by (simp add: getPrice_def getDirectOrInversePrice_def calculateInversePrice_def checked_def)
    next
      case False
      then have "po_oracles st b a = ADDRESS_ZERO" using feeds [of b a] by simp
      with direct have "getDirectOrInversePrice read st a b = Inr (False, 0)" by (simp add: getDirectOrInversePrice_def)
      moreover have "getPriceFromMasterQuote read st a b = Inr (True, word_of_int (uint x * PRECISE_UNIT div uint y))"
        using master_quote [OF q ab(1)] master_quote [OF q ab(2)] div by (simp add: getPriceFromMasterQuote_def checked_def)
      ultimately show ?thesis using assms(2) by (simp add: getPrice_def)
    qed
  qed
qed

subsection \<open>Running the oracle along the transactions\<close>

fun as_addr_lists :: "arg list \<Rightarrow> address list list option" where
  "as_addr_lists [] = Some []"
| "as_addr_lists (Lst xs # args) = do { x \<leftarrow> addr_list xs; map_option (Cons x) (as_addr_lists args) }"
| "as_addr_lists _ = None"

text \<open>The calls that change an oracle, by method name.\<close>

definition price_oracle_call :: "address \<Rightarrow> string \<Rightarrow> arg list \<Rightarrow> price_oracle \<Rightarrow> price_oracle sol" where
  "price_oracle_call f m args st = (case addr_list args of
     Some [a, b, r] \<Rightarrow>
       (if m = ''addPair'' then addPair f a b r st else if m = ''editPair'' then editPair f a b r st else Inl m)
   | Some [a, b] \<Rightarrow> (if m = ''removePair'' then removePair f a b st else Inl m)
   | Some [a] \<Rightarrow>
       (if m = ''addAdapter'' then addAdapter f a st else if m = ''removeAdapter'' then removeAdapter f a st
        else if m = ''editMasterQuoteAsset'' then editMasterQuoteAsset f a st else Inl m)
   | _ \<Rightarrow> Inl m)"

definition price_oracle_created :: "address \<Rightarrow> arg list \<Rightarrow> price_oracle option" where
  "price_oracle_created f args = do {
     heads \<leftarrow> addr_list (take 2 args);
     arrays \<leftarrow> as_addr_lists (drop 2 args);
     case (heads, arrays) of
       ([controller, master], [as, ones, twos, feeds]) \<Rightarrow>
         (case new_PriceOracle f controller master as ones twos feeds of Inl _ \<Rightarrow> None | Inr st \<Rightarrow> Some st)
     | _ \<Rightarrow> None
   }"

fun price_oracle_step :: "address \<Rightarrow> price_oracle option \<Rightarrow> tx \<Rightarrow> price_oracle option" where
  "price_oracle_step a st (Create f n l args x) =
     (if x = a \<and> n = ''PriceOracle'' then price_oracle_created f args else st)"
| "price_oracle_step a st (Call f x m args) =
     (if x = a then (case st of None \<Rightarrow> None | Some po \<Rightarrow>
        (case price_oracle_call f m args po of Inl _ \<Rightarrow> Some po | Inr po' \<Rightarrow> Some po')) else st)"

definition price_oracle_at :: "address \<Rightarrow> tx list \<Rightarrow> price_oracle option" where
  "price_oracle_at a ts = foldl (price_oracle_step a) None ts"

text \<open>The feeds; a number that is not a \<^verbatim>\<open>uint256\<close> is refused by the encoder.\<close>

fun oracle_mock_step :: "address \<Rightarrow> oracle_mock option \<Rightarrow> tx \<Rightarrow> oracle_mock option" where
  "oracle_mock_step a st (Create f n l args x) =
     (if x = a \<and> n = ''OracleMock''
      then (case args of [Num p] \<Rightarrow> if 0 \<le> p \<and> p < 2 ^ 256 then Some (new_OracleMock (word_of_int p)) else st | _ \<Rightarrow> st)
      else st)"
| "oracle_mock_step a st (Call f x m args) =
     (if x = a \<and> m = ''updatePrice''
      then (case args of [Num p] \<Rightarrow> if 0 \<le> p \<and> p < 2 ^ 256 then map_option (updatePrice (word_of_int p)) st else st | _ \<Rightarrow> st)
      else st)"

definition oracle_mock_at :: "address \<Rightarrow> tx list \<Rightarrow> oracle_mock option" where
  "oracle_mock_at a ts = foldl (oracle_mock_step a) None ts"

definition read_at :: "tx list \<Rightarrow> address \<Rightarrow> uint256 sol" where
  "read_at ts a = (case oracle_mock_at a ts of None \<Rightarrow> Inl ''read'' | Some m \<Rightarrow> Inr (om_read m))"

lemma at_append [simp]:
  "price_oracle_at a (ts @ us) = foldl (price_oracle_step a) (price_oracle_at a ts) us"
  "oracle_mock_at a (ts @ us) = foldl (oracle_mock_step a) (oracle_mock_at a ts) us"
  by (simp_all add: price_oracle_at_def oracle_mock_at_def)

lemma price_oracle_created_Addrs:
  "price_oracle_created f [Addr controller, Addr master, Addrs as, Addrs ones, Addrs twos, Addrs feeds] =
     (case new_PriceOracle f controller master as ones twos feeds of Inl _ \<Rightarrow> None | Inr st \<Rightarrow> Some st)"
  by (simp add: price_oracle_created_def Addrs_def numeral_2_eq_2)

subsection \<open>What the fixture's oracle quotes\<close>

text \<open>The tokens of the fixture and their prices in USDC.\<close>

definition token_prices :: "SystemFixture \<Rightarrow> (address \<times> int) list" where
  "token_prices this =
     zip (map addr_of [sf_weth this, sf_usdc this, sf_wbtc this, sf_dai this])
       (map the [sf_component1Price this, sf_component2Price this, sf_component3Price this, sf_component4Price this])"

definition fixture_prices :: "SystemFixture \<Rightarrow> address \<rightharpoonup> uint256" where
  "fixture_prices this = map_of (map (\<lambda>(a, p). (a, word_of_int p)) (token_prices this))"

definition oracle_set_up :: "SystemFixture \<Rightarrow> tx list \<Rightarrow> bool" where
  "oracle_set_up this ts \<longleftrightarrow> (case price_oracle_at (addr_of (sf_priceOracle this)) ts of None \<Rightarrow> False
     | Some po \<Rightarrow> quotes_in_master (read_at ts) po (fixture_prices this) \<and> po_owner po = sf_ownerAddress this \<and>
         po_controller po = addr_of (sf_controller this)) \<and> distinct (map fst (token_prices this)) \<and>
     [sf_component1Price this, sf_component2Price this, sf_component3Price this, sf_component4Price this]
       = map Some [230 * 10 ^ 18, 10 ^ 18, 9000 * 10 ^ 18, 10 ^ 18]"

text \<open>The oracle the fixture's constructor arguments give.\<close>

definition fixture_oracle :: "address \<Rightarrow> address \<Rightarrow> address \<Rightarrow> (address \<times> address) list \<Rightarrow> price_oracle" where
  "fixture_oracle owner controller quote feeds =
     \<lparr>po_owner = owner, po_controller = controller,
      po_oracles = (\<lambda>a b. if b = quote then (case map_of feeds a of Some r \<Rightarrow> r | None \<Rightarrow> ADDRESS_ZERO) else ADDRESS_ZERO),
      masterQuoteAsset = quote, po_adapters = []\<rparr>"

lemma new_fixture_oracle:
  "distinct [w, u, b, d] \<Longrightarrow> new_PriceOracle f c u [] [w, u, b, d] [u, u, u, u] [r1, r2, r3, r4] =
     Inr (fixture_oracle f c u [(w, r1), (u, r2), (b, r3), (d, r4)])"
  by (auto simp: new_PriceOracle_def set_oracle_def fixture_oracle_def fun_eq_iff)

lemma fixture_oracle_quotes:
  assumes "map fst feeds = map fst prices" "map_of prices u = Some sol_preciseUnit"
    and "ADDRESS_ZERO \<notin> snd ` set feeds" "map (read \<circ> snd) feeds = map (Inr \<circ> snd) prices"
  shows "quotes_in_master read (fixture_oracle f c u feeds) (map_of prices)"
proof -
  have dom: "map_of feeds a = None \<longleftrightarrow> map_of prices a = None" for a
    using assms(1) by (metis map_of_eq_None_iff set_map)
  have nz: "map_of feeds a = Some r \<Longrightarrow> r \<noteq> ADDRESS_ZERO" for a r
    using assms(3) by (metis image_eqI map_of_SomeD snd_conv)
  have "read r = Inr v" if "map_of feeds a = Some r" "map_of prices a = Some v" for a r v
    using assms(1,4) that by (induction feeds prices rule: list_induct2') (auto split: if_splits)
  then have reads: "map_of prices a = Some v \<Longrightarrow> read (case map_of feeds a of Some r \<Rightarrow> r | None \<Rightarrow> ADDRESS_ZERO) = Inr v" for a v
    using dom [of a] by (cases "map_of feeds a") simp_all
  have "(case map_of feeds a of Some r \<Rightarrow> r | None \<Rightarrow> ADDRESS_ZERO) \<noteq> ADDRESS_ZERO \<longleftrightarrow> map_of prices a \<noteq> None" for a
    using dom [of a] nz [of a] by (cases "map_of feeds a") simp_all
  with reads assms(2) show ?thesis
    by (simp add: quotes_in_master_def fixture_oracle_def)
qed

lemma fixture_oracle_simps [simp]:
  "po_owner (fixture_oracle f c u feeds) = f" "po_controller (fixture_oracle f c u feeds) = c"
  by (simp_all add: fixture_oracle_def)

lemma system_initialize_oracle:
  assumes run: "runs_controller e" and cf: "collision_free e"
    and acc: "nth_opt (listAccounts e) 3 = Some feeRecipient"
    and nz: "\<forall>n. create_address e owner n \<noteq> ADDRESS_ZERO"
  shows "case SystemFixture_initialize e (new_SystemFixture owner) s of
      None \<Rightarrow> False
    | Some (this, s') \<Rightarrow> oracle_set_up this (txs s')"
proof -
  note addr = collision_freeD [OF cf] nz [rule_format] nz [rule_format, symmetric] good_batch_def
  have "case SystemFixture_initialize e (new_SystemFixture owner) (after owner s []) of None \<Rightarrow> False
      | Some (this, s') \<Rightarrow> oracle_set_up this (txs s')"
    by (simp add: SystemFixture_initialize_def initializeStandardComponents_def script_defs
        deployTokenMock_some deploy_after [OF run] call_after [OF run] new_SystemFixture_def acc
        cong: bind_weak_cong, subst call_initialize_after [OF run, where recipient = feeRecipient])
      (simp_all add: addr initialize_call_init_state oracle_set_up_def price_oracle_created_Addrs new_fixture_oracle
        fixture_prices_def token_prices_def PRECISE_UNIT_def,
       rule fixture_oracle_quotes [where prices = "[(_, _), (_, _), (_, _), (_, _)]", simplified],
       simp_all add: addr read_at_def om_read_def new_OracleMock_def sol_preciseUnit_def)
  then show ?thesis by (simp add: after_Nil)
qed

lemma token_price_ok:
  assumes "oracle_set_up this ts" "(a, p) \<in> set (token_prices this)"
  shows "fixture_prices this a = Some (word_of_int p)" "0 < p" "p * PRECISE_UNIT < 2 ^ 256"
    "uint (word_of_int p :: uint256) = p" "(word_of_int p :: uint256) \<noteq> 0"
proof -
  have "distinct (map fst (map (\<lambda>(a, p). (a, word_of_int p :: uint256)) (token_prices this)))"
    using assms(1) by (simp add: oracle_set_up_def comp_def case_prod_beta)
  moreover have "(a, word_of_int p) \<in> set (map (\<lambda>(a, p). (a, word_of_int p)) (token_prices this))"
    using assms(2) by force
  ultimately show "fixture_prices this a = Some (word_of_int p)"
    unfolding fixture_prices_def by (rule map_of_is_SomeI)
  have "p \<in> {230 * 10 ^ 18, 10 ^ 18, 9000 * 10 ^ 18}"
    using assms by (auto simp: oracle_set_up_def token_prices_def)
  then show "0 < p" "p * PRECISE_UNIT < 2 ^ 256" "uint (word_of_int p :: uint256) = p" "(word_of_int p :: uint256) \<noteq> 0"
    by (auto simp: PRECISE_UNIT_def)
qed

lemma set_up_system_contracts:
  assumes "controller_set_up owner feeRecipient this ts"
  shows "\<exists>st. controller_at (addr_of (sf_controller this)) ts = Some st \<and>
    (\<forall>m \<in> set (map addr_of [sf_issuanceModule this, sf_streamingFeeModule this, sf_navIssuanceModule this]). isSystemContract st m)"
  using assms by (auto simp: controller_set_up_def controller_inv_def registered_def isSystemContract_def split: option.splits)

subsection \<open>Properties\<close>

text \<open>
  C25. The fixture's oracle prices every pair of the fixture's tokens for the fixture's modules: replaying the
  transactions of \<^verbatim>\<open>initialize\<close> on the models of the Controller, the PriceOracle and the feeds, a call of
  \<^verbatim>\<open>getPrice\<close> by one of the three modules returns, for every two of weth, usdc, wbtc and dai, the quotient of their
  component prices, rounded down at 18 decimals; whether the feed is read directly, inverted, or two feeds are
  combined through the master quote asset makes no difference.
\<close>

theorem fixture_oracle_prices_every_pair:
  assumes "runs_controller e" and "collision_free e" and "nth_opt (listAccounts e) 3 = Some feeRecipient"
    and "\<forall>n. create_address e owner n \<noteq> ADDRESS_ZERO"
  shows "\<exists>this s' po controller. SystemFixture_initialize e (new_SystemFixture owner) s = Some (this, s') \<and>
    price_oracle_at (addr_of (sf_priceOracle this)) (txs s') = Some po \<and>
    controller_at (addr_of (sf_controller this)) (txs s') = Some controller \<and>
    (\<forall>caller \<in> set (map addr_of [sf_issuanceModule this, sf_streamingFeeModule this, sf_navIssuanceModule this]).
     \<forall>(a, p) \<in> set (token_prices this). \<forall>(b, q) \<in> set (token_prices this).
       getPrice (read_at (txs s')) adapterPrice controller po caller a b = Inr (word_of_int (p * PRECISE_UNIT div q)))"
proof -
  obtain this s' where run: "SystemFixture_initialize e (new_SystemFixture owner) s = Some (this, s')"
    and up: "controller_set_up owner feeRecipient this (txs s')" and o: "oracle_set_up this (txs s')"
    using system_initialize_set_up [OF assms, of s] system_initialize_oracle [OF assms, of s]
    by (auto split: option.splits)
  obtain controller where c: "controller_at (addr_of (sf_controller this)) (txs s') = Some controller"
    and sys: "\<forall>m \<in> set (map addr_of [sf_issuanceModule this, sf_streamingFeeModule this, sf_navIssuanceModule this]).
      isSystemContract controller m"
    using set_up_system_contracts [OF up] by blast
  obtain po where po: "price_oracle_at (addr_of (sf_priceOracle this)) (txs s') = Some po"
    and q: "quotes_in_master (read_at (txs s')) po (fixture_prices this)"
    using o by (auto simp: oracle_set_up_def split: option.splits)
  have "getPrice (read_at (txs s')) adapterPrice controller po caller a b = Inr (word_of_int (p * PRECISE_UNIT div q))"
    if "isSystemContract controller caller" "(a, p) \<in> set (token_prices this)" "(b, q) \<in> set (token_prices this)" for caller a b p q
    using quoted_price [OF q that(1) token_price_ok(1) [OF o that(2)] token_price_ok(1) [OF o that(3)]]
      token_price_ok(3-5) [OF o that(2)] token_price_ok(3-5) [OF o that(3)] by simp
  with sys have "\<forall>caller \<in> set (map addr_of [sf_issuanceModule this, sf_streamingFeeModule this, sf_navIssuanceModule this]).
     \<forall>(a, p) \<in> set (token_prices this). \<forall>(b, q) \<in> set (token_prices this).
       getPrice (read_at (txs s')) adapterPrice controller po caller a b = Inr (word_of_int (p * PRECISE_UNIT div q))"
    by blast
  with run c po show ?thesis by blast
qed

theorem fixture_oracle_prices_every_pair_witness:
  "\<exists>this s' po controller. SystemFixture_initialize concrete_env (new_SystemFixture ''a0'') \<lparr>nonces = \<lambda>_. 0, txs = []\<rparr> = Some (this, s') \<and>
    getPrice (read_at (txs s')) (\<lambda>_ _ _. Inl []) controller po (addr_of (sf_navIssuanceModule this))
      (addr_of (sf_wbtc this)) (addr_of (sf_weth this)) = Inr 39130434782608695652"
proof -
  let ?s = "\<lparr>nonces = \<lambda>_. 0, txs = []\<rparr>"
  obtain this s' po controller where run: "SystemFixture_initialize concrete_env (new_SystemFixture ''a0'') ?s = Some (this, s')"
    and all: "\<forall>caller \<in> set (map addr_of [sf_issuanceModule this, sf_streamingFeeModule this, sf_navIssuanceModule this]).
     \<forall>(a, p) \<in> set (token_prices this). \<forall>(b, q) \<in> set (token_prices this).
       getPrice (read_at (txs s')) (\<lambda>_ _ _. Inl []) controller po caller a b = Inr (word_of_int (p * PRECISE_UNIT div q))"
    using fixture_oracle_prices_every_pair [OF concrete_env_ok, of "''a0''" ?s "\<lambda>_ _ _. Inl []"] by blast
  have "oracle_set_up this (txs s')" using system_initialize_oracle [OF concrete_env_ok, of "''a0''" ?s] run by simp
  then have "(addr_of (sf_wbtc this), 9000 * 10 ^ 18) \<in> set (token_prices this)" "(addr_of (sf_weth this), 230 * 10 ^ 18) \<in> set (token_prices this)"
    by (auto simp: oracle_set_up_def token_prices_def)
  with all have "getPrice (read_at (txs s')) (\<lambda>_ _ _. Inl []) controller po (addr_of (sf_navIssuanceModule this))
      (addr_of (sf_wbtc this)) (addr_of (sf_weth this)) = Inr (word_of_int (9000 * 10 ^ 18 * PRECISE_UNIT div (230 * 10 ^ 18)))"
    by fastforce
  with run show ?thesis by (auto simp: PRECISE_UNIT_def)
qed

end
