(* ===== verification/Pool_Fixtures.thy ===== *)
theory Pool_Fixtures
  imports Deploy_Mocks Deploy_External Uniswap_Utils
begin

section \<open>Fixtures of the exchanges: Uniswap, Kyber, Balancer, Uniswap V3\<close>

text \<open>
  Models utils/fixtures/uniswapFixture.ts, kyberV3DMMFixture.ts, balancerFixture.ts and
  uniswapV3Fixture.ts. An account is its address. A class field that is not assigned yet is
  \<open>None\<close>. The three copies of \<^verbatim>\<open>getTokenOrder\<close> are instances of the interface \<open>token_order\<close>.
\<close>

subsection \<open>uniswapFixture.ts\<close>

record UniswapFixture =
  uf_ownerSigner :: address
  uf_deployer :: DeployHelper
  uf_owner :: "address option"
  uf_uni :: "contract option"
  uf_governorAlpha :: "contract option"
  uf_timelock :: "contract option"
  uf_factory :: "contract option"
  uf_router :: "contract option"
  uf_wethDaiPool :: "contract option"
  uf_wethDaiStakingRewards :: "contract option"
  uf_wethWbtcPool :: "contract option"
  uf_wethWbtcStakingRewards :: "contract option"
  uf_uniWethPool :: "contract option"

definition new_UniswapFixture :: "address \<Rightarrow> UniswapFixture" where
  "new_UniswapFixture ownerAddress =
     \<lparr>uf_ownerSigner = ownerAddress, uf_deployer = new_DeployHelper ownerAddress, uf_owner = None,
      uf_uni = None, uf_governorAlpha = None, uf_timelock = None, uf_factory = None, uf_router = None,
      uf_wethDaiPool = None, uf_wethDaiStakingRewards = None, uf_wethWbtcPool = None,
      uf_wethWbtcStakingRewards = None, uf_uniWethPool = None\<rparr>"

definition uniswap_createNewPair :: "env \<Rightarrow> UniswapFixture \<Rightarrow> address \<Rightarrow> address \<Rightarrow> chain \<Rightarrow> contract result" where
  "uniswap_createNewPair e this tokenOne tokenTwo s = do {
     factory \<leftarrow> uf_factory this;
     s \<leftarrow> call e factory ''createPair'' [Addr tokenOne, Addr tokenTwo] s;
     n \<leftarrow> as_num (view e factory ''allPairsLength'' [] s);
     poolAddress \<leftarrow> as_addr (view e factory ''allPairs'' [Num (n - 1)] s);
     Some (attach ''UniswapV2Pair'' poolAddress (uf_ownerSigner this), s)
   }"

definition createNewStakingPair :: "env \<Rightarrow> UniswapFixture \<Rightarrow> address \<Rightarrow> address \<Rightarrow> chain \<Rightarrow> (contract \<times> contract) result" where
  "createNewStakingPair e this tokenOne tokenTwo s = do {
     (poolInstance, s) \<leftarrow> uniswap_createNewPair e this tokenOne tokenTwo s;
     owner \<leftarrow> uf_owner this;
     uni \<leftarrow> uf_uni this;
     (stakingInstance, s) \<leftarrow> deployStakingRewards e (external (uf_deployer this)) owner (cAddress uni)
       (cAddress poolInstance) s;
     amount \<leftarrow> ether 5000000;
     s \<leftarrow> call e (connect uni owner) ''transfer'' [Addr (cAddress stakingInstance), Num amount] s;
     s \<leftarrow> call e (connect stakingInstance owner) ''notifyRewardAmount'' [Num amount] s;
     Some ((poolInstance, stakingInstance), s)
   }"

definition UniswapFixture_initialize :: "env \<Rightarrow> UniswapFixture \<Rightarrow> address \<Rightarrow> address \<Rightarrow> address \<Rightarrow> address \<Rightarrow> chain
    \<Rightarrow> UniswapFixture result" where
  "UniswapFixture_initialize e this owner weth wbtc dai s = do {
     let d = external (uf_deployer this);
     (factory, s) \<leftarrow> deployUniswapV2Factory e d owner s;
     (router, s) \<leftarrow> deployUniswapV2Router02 e d (cAddress factory) weth s;
     (uni, s) \<leftarrow> deployUni e d owner owner (latest_timestamp e (txs s) + 2) s;
     (timelock, s) \<leftarrow> deployUniswapTimelock e d owner (ONE_DAY_IN_SECONDS * 2) s;
     (governorAlpha, s) \<leftarrow> deployUniswapGovernorAlpha e d (cAddress timelock) (cAddress uni) s;
     let this = this\<lparr>uf_owner := Some owner, uf_factory := Some factory, uf_router := Some router,
       uf_uni := Some uni, uf_timelock := Some timelock, uf_governorAlpha := Some governorAlpha\<rparr>;
     ((p1, r1), s) \<leftarrow> createNewStakingPair e this weth dai s;
     ((p2, r2), s) \<leftarrow> createNewStakingPair e this weth wbtc s;
     (p3, s) \<leftarrow> uniswap_createNewPair e this weth (cAddress uni) s;
     Some (this\<lparr>uf_wethDaiPool := Some p1, uf_wethDaiStakingRewards := Some r1, uf_wethWbtcPool := Some p2,
       uf_wethWbtcStakingRewards := Some r2, uf_uniWethPool := Some p3\<rparr>, s)
   }"

definition uniswap_getTokenOrder :: "address \<Rightarrow> address \<Rightarrow> address \<times> address" where
  "uniswap_getTokenOrder tokenOne tokenTwo =
     (if js_toLowerCase tokenOne < js_toLowerCase tokenTwo then (tokenOne, tokenTwo) else (tokenTwo, tokenOne))"

definition getForkedUniswapRouter :: "UniswapFixture \<Rightarrow> contract option" where
  "getForkedUniswapRouter this =
     map_option (getForkedUniswapV2Router02 (external (uf_deployer this))) (dependency ''UNISWAP_ROUTER'' 1)"

definition getForkedSushiswapRouter :: "UniswapFixture \<Rightarrow> contract option" where
  "getForkedSushiswapRouter this =
     map_option (getForkedUniswapV2Router02 (external (uf_deployer this))) (dependency ''SUSHISWAP_ROUTER'' 1)"

subsection \<open>kyberV3DMMFixture.ts\<close>

record KyberV3DMMFixture =
  kf_ownerSigner :: address
  kf_deployer :: DeployHelper
  kf_owner :: "address option"
  kf_knc :: "contract option"
  kf_dmmFactory :: "contract option"
  kf_dmmRouter :: "contract option"
  kf_kncWethPool :: "contract option"
  kf_wethDaiPool :: "contract option"
  kf_wethWbtcPool :: "contract option"

definition new_KyberV3DMMFixture :: "address \<Rightarrow> KyberV3DMMFixture" where
  "new_KyberV3DMMFixture ownerAddress =
     \<lparr>kf_ownerSigner = ownerAddress, kf_deployer = new_DeployHelper ownerAddress, kf_owner = None, kf_knc = None,
      kf_dmmFactory = None, kf_dmmRouter = None, kf_kncWethPool = None, kf_wethDaiPool = None, kf_wethWbtcPool = None\<rparr>"

definition kyber_createNewPool :: "env \<Rightarrow> KyberV3DMMFixture \<Rightarrow> address \<Rightarrow> address \<Rightarrow> int \<Rightarrow> chain \<Rightarrow> contract result" where
  "kyber_createNewPool e this tokenA tokenB ampBps s = do {
     dmmFactory \<leftarrow> kf_dmmFactory this;
     s \<leftarrow> call e dmmFactory ''createPool'' [Addr tokenA, Addr tokenB, Num ampBps] s;
     n \<leftarrow> as_num (view e dmmFactory ''allPoolsLength'' [] s);
     poolAddress \<leftarrow> as_addr (view e dmmFactory ''allPools'' [Num (n - 1)] s);
     Some (attach ''DMMPool'' poolAddress (kf_ownerSigner this), s)
   }"

definition KyberV3DMMFixture_initialize :: "env \<Rightarrow> KyberV3DMMFixture \<Rightarrow> address \<Rightarrow> address \<Rightarrow> address \<Rightarrow> address \<Rightarrow> chain
    \<Rightarrow> KyberV3DMMFixture result" where
  "KyberV3DMMFixture_initialize e this owner weth wbtc dai s = do {
     let d = kf_deployer this;
     (dmmFactory, s) \<leftarrow> deployDMMFactory e (external d) owner s;
     (dmmRouter, s) \<leftarrow> deployDMMRouter02 e (external d) (cAddress dmmFactory) weth s;
     amount \<leftarrow> ether 100000;
     (knc, s) \<leftarrow> deployTokenMock e (mocks d) owner (Some amount) (Some 18) None None s;
     let this = this\<lparr>kf_owner := Some owner, kf_dmmFactory := Some dmmFactory, kf_dmmRouter := Some dmmRouter,
       kf_knc := Some knc\<rparr>;
     (p1, s) \<leftarrow> kyber_createNewPool e this weth (cAddress knc) 19000 s;
     (p2, s) \<leftarrow> kyber_createNewPool e this weth dai 10000 s;
     (p3, s) \<leftarrow> kyber_createNewPool e this weth wbtc 15000 s;
     Some (this\<lparr>kf_kncWethPool := Some p1, kf_wethDaiPool := Some p2, kf_wethWbtcPool := Some p3\<rparr>, s)
   }"

definition kyber_getTokenOrder :: "address \<Rightarrow> address \<Rightarrow> address \<times> address" where
  "kyber_getTokenOrder tokenOne tokenTwo =
     (if js_toLowerCase tokenOne < js_toLowerCase tokenTwo then (tokenOne, tokenTwo) else (tokenTwo, tokenOne))"

subsection \<open>balancerFixture.ts\<close>

record BalancerFixture =
  bf_ownerSigner :: address
  bf_deployer :: DeployHelper
  bf_owner :: "address option"
  bf_factory :: "contract option"
  bf_exchange :: "contract option"
  bf_registry :: "contract option"
  bf_wethDaiPool :: "contract option"
  bf_wethWbtcPool :: "contract option"
  bf_wbtcDaiPool :: "contract option"

definition new_BalancerFixture :: "address \<Rightarrow> BalancerFixture" where
  "new_BalancerFixture ownerAddress =
     \<lparr>bf_ownerSigner = ownerAddress, bf_deployer = new_DeployHelper ownerAddress, bf_owner = None, bf_factory = None,
      bf_exchange = None, bf_registry = None, bf_wethDaiPool = None, bf_wethWbtcPool = None, bf_wbtcDaiPool = None\<rparr>"

definition LOG_NEW_POOL_topic :: string where
  "LOG_NEW_POOL_topic = ''0x8ccec77b0cb63ac2cafd0f5de8cdfadab91ce656d262240ba8a6343bccc5f945''"

text \<open>
  A receipt's logs are its lists of topics, or absent. Without a matching log the code reads a field of
  undefined and throws, as it does for absent logs.
\<close>

definition getPoolAddressFromTransaction :: "(tx list \<Rightarrow> string list list option) \<Rightarrow> chain \<Rightarrow> address option" where
  "getPoolAddressFromTransaction receipt_logs s = do {
     logs \<leftarrow> map_option (filter (\<lambda>topics. LOG_NEW_POOL_topic \<in> set topics)) (receipt_logs (txs s));
     topics \<leftarrow> nth_opt logs 0;
     topic \<leftarrow> nth_opt topics 2;
     Some (''0x'' @ drop 26 topic)
   }"

definition balancer_createNewPool :: "(tx list \<Rightarrow> string list list option) \<Rightarrow> env \<Rightarrow> BalancerFixture \<Rightarrow> contract \<Rightarrow> contract \<Rightarrow>
    int \<Rightarrow> int \<Rightarrow> chain \<Rightarrow> contract result" where
  "balancer_createNewPool receipt_logs e this tokenOne tokenTwo tokenOneBalance tokenTwoBalance s = do {
     factory \<leftarrow> bf_factory this;
     s \<leftarrow> call e factory ''newBPool'' [] s;
     poolAddress \<leftarrow> getPoolAddressFromTransaction receipt_logs s;
     let pool = attach ''BPool'' poolAddress (bf_ownerSigner this);
     s \<leftarrow> call e (connect tokenOne (bf_ownerSigner this)) ''approve'' [Addr poolAddress, Num tokenOneBalance] s;
     weight \<leftarrow> ether 5;
     s \<leftarrow> call e (connect pool (bf_ownerSigner this)) ''bind''
       [Addr (cAddress tokenOne), Num tokenOneBalance, Num weight] s;
     s \<leftarrow> call e (connect tokenTwo (bf_ownerSigner this)) ''approve'' [Addr poolAddress, Num tokenTwoBalance] s;
     s \<leftarrow> call e pool ''bind'' [Addr (cAddress tokenTwo), Num tokenTwoBalance, Num weight] s;
     s \<leftarrow> call e pool ''setPublicSwap'' [Bool True] s;
     Some (pool, s)
   }"

definition BalancerFixture_initialize :: "(tx list \<Rightarrow> string list list option) \<Rightarrow> env \<Rightarrow> BalancerFixture \<Rightarrow> address \<Rightarrow>
    contract \<Rightarrow> contract \<Rightarrow> contract \<Rightarrow> chain \<Rightarrow> BalancerFixture result" where
  "BalancerFixture_initialize receipt_logs e this owner weth wbtc dai s = do {
     let d = external (bf_deployer this);
     (factory, s) \<leftarrow> deployB__factory e d s;
     let this = this\<lparr>bf_owner := Some owner, bf_factory := Some factory\<rparr>;
     eth400 \<leftarrow> ether 400;
     eth92000 \<leftarrow> ether 92000;
     (p1, s) \<leftarrow> balancer_createNewPool receipt_logs e this weth dai eth400 eth92000 s;
     eth391 \<leftarrow> ether (3913043 / 10000);
     btc10 \<leftarrow> bitcoin 10;
     (p2, s) \<leftarrow> balancer_createNewPool receipt_logs e this wbtc weth eth391 btc10 s;
     eth90000 \<leftarrow> ether 90000;
     (p3, s) \<leftarrow> balancer_createNewPool receipt_logs e this wbtc dai btc10 eth90000 s;
     (registry, s) \<leftarrow> deployBRegistry e d (cAddress factory) s;
     (exchange, s) \<leftarrow> deployExchangeProxy e d (cAddress weth) s;
     s \<leftarrow> call e registry ''addPoolPair'' [Addr (cAddress p1), Addr (cAddress weth), Addr (cAddress dai)] s;
     s \<leftarrow> call e registry ''addPoolPair'' [Addr (cAddress p2), Addr (cAddress weth), Addr (cAddress wbtc)] s;
     s \<leftarrow> call e registry ''addPoolPair'' [Addr (cAddress p3), Addr (cAddress wbtc), Addr (cAddress dai)] s;
     s \<leftarrow> call e registry ''sortPools'' [Addrs [cAddress weth, cAddress dai], Num 1] s;
     s \<leftarrow> call e registry ''sortPools'' [Addrs [cAddress wbtc, cAddress dai], Num 1] s;
     s \<leftarrow> call e registry ''sortPools'' [Addrs [cAddress weth, cAddress wbtc], Num 1] s;
     s \<leftarrow> call e exchange ''setRegistry'' [Addr (cAddress registry)] s;
     Some (this\<lparr>bf_wethDaiPool := Some p1, bf_wethWbtcPool := Some p2, bf_wbtcDaiPool := Some p3,
       bf_registry := Some registry, bf_exchange := Some exchange\<rparr>, s)
   }"

subsection \<open>uniswapV3Fixture.ts\<close>

text \<open>
  Prices are JavaScript numbers. Their arithmetic is a parameter; \<open>f_sqrt18\<close> stands for
  \<^verbatim>\<open>parseEther(Math.sqrt(x).toFixed(18))\<close>.
\<close>

record 'f float_ops =
  f_mul :: "'f \<Rightarrow> 'f \<Rightarrow> 'f"
  f_div :: "'f \<Rightarrow> 'f \<Rightarrow> 'f"
  f_one :: 'f
  f_pow10 :: "int \<Rightarrow> 'f"
  f_sqrt18 :: "'f \<Rightarrow> int option"

record UniswapV3Fixture =
  u3_ownerSigner :: address
  u3_deployer :: DeployHelper
  u3_factory :: "contract option"
  u3_swapRouter :: "contract option"
  u3_nftPositionManager :: "contract option"
  u3_nftDescriptor :: "contract option"
  u3_quoter :: "contract option"
  u3_wethDaiPool :: "contract option"
  u3_wethWbtcPool :: "contract option"

definition new_UniswapV3Fixture :: "address \<Rightarrow> UniswapV3Fixture" where
  "new_UniswapV3Fixture ownerAddress =
     \<lparr>u3_ownerSigner = ownerAddress, u3_deployer = new_DeployHelper ownerAddress, u3_factory = None, u3_swapRouter = None,
      u3_nftPositionManager = None, u3_nftDescriptor = None, u3_quoter = None, u3_wethDaiPool = None, u3_wethWbtcPool = None\<rparr>"

definition u3_getTokenOrder :: "contract \<Rightarrow> contract \<Rightarrow> contract \<times> contract" where
  "u3_getTokenOrder token0 token1 =
     (if js_toLowerCase (cAddress token0) < js_toLowerCase (cAddress token1) then (token0, token1) else (token1, token0))"

definition getSqrtPriceX96 :: "'f float_ops \<Rightarrow> 'f \<Rightarrow> int option" where
  "getSqrtPriceX96 F ratio = do {
     root \<leftarrow> f_sqrt18 F ratio;
     one \<leftarrow> ether 1;
     bn_div (root * 2 ^ 96) one
   }"

definition u3_getPool :: "env \<Rightarrow> UniswapV3Fixture \<Rightarrow> contract \<Rightarrow> contract \<Rightarrow> int \<Rightarrow> chain \<Rightarrow> contract option" where
  "u3_getPool e this token0 token1 fee s = do {
     let (token0Ordered, token1Ordered) = u3_getTokenOrder token0 token1;
     factory \<leftarrow> u3_factory this;
     poolAddress \<leftarrow> as_addr (view e factory ''getPool''
       [Addr (cAddress token0Ordered), Addr (cAddress token1Ordered), Num fee] s);
     Some (attach ''UniswapV3Pool'' poolAddress (u3_ownerSigner this))
   }"

text \<open>The ratio the pool is initialised with.\<close>

definition pool_ratio :: "'f float_ops \<Rightarrow> contract \<Rightarrow> contract \<Rightarrow> int \<Rightarrow> int \<Rightarrow> 'f \<Rightarrow> 'f" where
  "pool_ratio F token0 token1 decimals0 decimals1 ratio0 =
     (let ratio = f_mul F ratio0 (f_pow10 F (decimals1 - decimals0))
      in if js_toLowerCase (cAddress token0) > js_toLowerCase (cAddress token1) then f_div F (f_one F) ratio else ratio)"

definition u3_createNewPair :: "'f float_ops \<Rightarrow> env \<Rightarrow> UniswapV3Fixture \<Rightarrow> contract \<Rightarrow> contract \<Rightarrow> int \<Rightarrow> 'f \<Rightarrow> chain
    \<Rightarrow> contract result" where
  "u3_createNewPair F e this token0 token1 fee ratio0 s = do {
     decimals1 \<leftarrow> as_num (view e token1 ''decimals'' [] s);
     decimals0 \<leftarrow> as_num (view e token0 ''decimals'' [] s);
     let ratio = pool_ratio F token0 token1 decimals0 decimals1 ratio0;
     let (token0Ordered, token1Ordered) = u3_getTokenOrder token0 token1;
     sqrtPrice \<leftarrow> getSqrtPriceX96 F ratio;
     nft \<leftarrow> u3_nftPositionManager this;
     s \<leftarrow> call e nft ''createAndInitializePoolIfNecessary''
       [Addr (cAddress token0Ordered), Addr (cAddress token1Ordered), Num fee, Num sqrtPrice] s;
     pool \<leftarrow> u3_getPool e this token0 token1 fee s;
     Some (pool, s)
   }"

definition UniswapV3Fixture_initialize :: "'f float_ops \<Rightarrow> env \<Rightarrow> UniswapV3Fixture \<Rightarrow> contract \<Rightarrow> 'f \<Rightarrow> contract \<Rightarrow> 'f \<Rightarrow>
    contract \<Rightarrow> chain \<Rightarrow> UniswapV3Fixture result" where
  "UniswapV3Fixture_initialize F e this weth wethPrice wbtc wbtcPrice dai s = do {
     let d = external (u3_deployer this);
     (factory, s) \<leftarrow> deployUniswapV3Factory e d s;
     (swapRouter, s) \<leftarrow> deploySwapRouter e d (cAddress factory) (cAddress weth) s;
     (nftDescriptor, s) \<leftarrow> deployNFTDescriptor e d s;
     (nft, s) \<leftarrow> deployNftPositionManager e d (cAddress factory) (cAddress weth) (cAddress nftDescriptor) s;
     (quoter, s) \<leftarrow> deployQuoter e d (cAddress factory) (cAddress weth) s;
     let this = this\<lparr>u3_factory := Some factory, u3_swapRouter := Some swapRouter,
       u3_nftDescriptor := Some nftDescriptor, u3_nftPositionManager := Some nft, u3_quoter := Some quoter\<rparr>;
     (p1, s) \<leftarrow> u3_createNewPair F e this weth dai 3000 wethPrice s;
     (p2, s) \<leftarrow> u3_createNewPair F e this weth wbtc 3000 (f_div F wethPrice wbtcPrice) s;
     Some (this\<lparr>u3_wethDaiPool := Some p1, u3_wethWbtcPool := Some p2\<rparr>, s)
   }"

text \<open>A tick argument must be an integer; ethers rejects fractions.\<close>

definition as_integer :: "rat \<Rightarrow> int option" where
  "as_integer x = (if of_int \<lfloor>x\<rfloor> = x then Some \<lfloor>x\<rfloor> else None)"

definition wide_ticks :: "rat \<Rightarrow> rat \<times> rat" where
  "wide_ticks tickSpacing =
     (of_int \<lceil>- 887272 / tickSpacing\<rceil> * tickSpacing, of_int \<lfloor>887272 / tickSpacing\<rfloor> * tickSpacing)"

definition addLiquidityWide :: "env \<Rightarrow> UniswapV3Fixture \<Rightarrow> contract \<Rightarrow> contract \<Rightarrow> int \<Rightarrow> int \<Rightarrow> int \<Rightarrow> address \<Rightarrow> chain
    \<Rightarrow> chain option" where
  "addLiquidityWide e this token0 token1 fee amount0 amount1 recipient s = do {
     let swap = js_toLowerCase (cAddress token0) > js_toLowerCase (cAddress token1);
     let (amount0Ordered, amount1Ordered) = (if swap then (amount1, amount0) else (amount0, amount1));
     let (token0Ordered, token1Ordered) = (if swap then (token1, token0) else (token0, token1));
     let (minValidTick, maxValidTick) = wide_ticks (of_int fee / 50);
     tickLower \<leftarrow> as_integer minValidTick;
     tickUpper \<leftarrow> as_integer maxValidTick;
     nft \<leftarrow> u3_nftPositionManager this;
     call e (connect nft (u3_ownerSigner this)) ''mint''
       [Obj [(''fee'', Num fee), (''token0'', Addr (cAddress token0Ordered)), (''token1'', Addr (cAddress token1Ordered)),
        (''tickLower'', Num tickLower), (''tickUpper'', Num tickUpper), (''amount0Desired'', Num amount0Ordered),
        (''amount1Desired'', Num amount1Ordered), (''amount0Min'', Num 0), (''amount1Min'', Num 0),
        (''deadline'', Num MAX_UINT_256), (''recipient'', Addr recipient)]] s
   }"

subsection \<open>The token order\<close>

interpretation uniswap_order: token_order uniswap_getTokenOrder "\<lambda>a. a"
  by unfold_locales (simp add: uniswap_getTokenOrder_def toLowerCase_less_iff)

interpretation kyber_order: token_order kyber_getTokenOrder "\<lambda>a. a"
  by unfold_locales (simp add: kyber_getTokenOrder_def toLowerCase_less_iff)

interpretation u3_order: token_order u3_getTokenOrder cAddress
  by unfold_locales (simp add: u3_getTokenOrder_def toLowerCase_less_iff)

subsection \<open>The fixtures keep the chain invariant\<close>

lemma uniswap_createNewPair_keeps [keeps_rules]: "keeps e s (uniswap_createNewPair e this a b s)"
  unfolding uniswap_createNewPair_def by (intro keeps_rules keeps_bind_pure)

lemma createNewStakingPair_keeps [keeps_rules]: "keeps e s (createNewStakingPair e this a b s)"
  unfolding createNewStakingPair_def deploy_defs by (intro keeps_rules keeps_bind_pure)

lemma keeps_bind_pair [keeps_rules]:
  "keeps e s m \<Longrightarrow> (\<And>x y s1. keeps e s1 (k x y s1)) \<Longrightarrow> keeps e s (Option.bind m (\<lambda>((x, y), s1). k x y s1))"
  unfolding keeps_def by (fastforce intro: extends_trans)

lemma uniswap_initialize_keeps: "keeps e s (UniswapFixture_initialize e this owner weth wbtc dai s)"
  unfolding UniswapFixture_initialize_def deploy_defs Let_def by (intro keeps_rules keeps_bind_pure)

lemma kyber_createNewPool_keeps [keeps_rules]: "keeps e s (kyber_createNewPool e this a b n s)"
  unfolding kyber_createNewPool_def by (intro keeps_rules keeps_bind_pure)

lemma kyber_initialize_keeps: "keeps e s (KyberV3DMMFixture_initialize e this owner weth wbtc dai s)"
  unfolding KyberV3DMMFixture_initialize_def deploy_defs Let_def by (intro keeps_rules keeps_bind_pure)

lemma balancer_createNewPool_keeps [keeps_rules]: "keeps e s (balancer_createNewPool logs e this a b n m s)"
  unfolding balancer_createNewPool_def Let_def by (intro keeps_rules keeps_bind_pure)

lemma balancer_initialize_keeps: "keeps e s (BalancerFixture_initialize logs e this owner weth wbtc dai s)"
  unfolding BalancerFixture_initialize_def deploy_defs Let_def by (intro keeps_rules keeps_bind_pure)

lemma u3_createNewPair_keeps [keeps_rules]: "keeps e s (u3_createNewPair F e this a b fee r s)"
  unfolding u3_createNewPair_def Let_def case_prod_unfold by (intro keeps_rules keeps_bind_pure)

lemma u3_initialize_keeps: "keeps e s (UniswapV3Fixture_initialize F e this weth p wbtc q dai s)"
  unfolding UniswapV3Fixture_initialize_def deploy_defs Let_def by (intro keeps_rules keeps_bind_pure)

lemma addLiquidityWide_keeps: "keeps1 e s (addLiquidityWide e this a b fee m n r s)"
  unfolding addLiquidityWide_def Let_def case_prod_unfold by (intro keeps_rules keeps1_bind_pure)

subsection \<open>Properties\<close>

text \<open>Concrete arithmetic and a concrete node, for evaluating the fixture.\<close>

definition integer_floats :: "int float_ops" where
  "integer_floats = \<lparr>f_mul = (*), f_div = (div), f_one = 1, f_pow10 = \<lambda>k. 10 ^ nat k, f_sqrt18 = \<lambda>x. Some (x * 10 ^ 18)\<rparr>"

definition pool_env :: env where
  "pool_env = \<lparr>create_address = \<lambda>f n. f, accepts = \<lambda>_ _. True,
     view_call = \<lambda>_ _ m _. if m = ''decimals'' then Some (Num 18) else Some (Addr ''pool''),
     listAccounts = [], latest_timestamp = \<lambda>_. 0, set_created_logs = \<lambda>_. []\<rparr>"

text \<open>
  All three fixtures sort tokens as the factories do: for well-formed addresses, in whatever mixture
  of upper and lower case, the smaller numeric address comes first, and for two different addresses the
  result does not depend on the order of the arguments.
\<close>

lemma token_orders_sort_numerically:
  assumes "valid_address a" and "valid_address b" and "address_value a \<noteq> address_value b"
  shows "uniswap_getTokenOrder a b = (if address_value a < address_value b then (a, b) else (b, a)) \<and>
    kyber_getTokenOrder a b = uniswap_getTokenOrder a b \<and>
    uniswap_getTokenOrder b a = uniswap_getTokenOrder a b \<and>
    map_prod cAddress cAddress (u3_getTokenOrder (attach n a f) (attach m b g)) = uniswap_getTokenOrder a b \<and>
    u3_getTokenOrder (attach m b g) (attach n a f) = u3_getTokenOrder (attach n a f) (attach m b g)"
  using uniswap_order.ord_sorts [OF assms(1,2)] kyber_order.ord_sorts [OF assms(1,2)]
    uniswap_order.ord_commute [OF assms] u3_order.ord_commute [of "attach n a f" "attach m b g"]
    u3_order.ord_sorts [of "attach n a f" "attach m b g"] assms
  by (simp add: attach_def)

lemma token_orders_sort_numerically_instance:
  "uniswap_getTokenOrder ''0xB000000000000000000000000000000000000000'' ''0xa000000000000000000000000000000000000000''
     = (''0xa000000000000000000000000000000000000000'', ''0xB000000000000000000000000000000000000000'')"
proof -
  let ?a = "''0xB000000000000000000000000000000000000000''" and ?b = "''0xa000000000000000000000000000000000000000''"
  have v: "valid_address ?a" "valid_address ?b" by code_simp+
  have "js_toLowerCase ?b < js_toLowerCase ?a" by code_simp
  then have "address_value ?b < address_value ?a" using toLowerCase_less_iff [OF v(2,1)] by blast
  then show ?thesis using token_orders_sort_numerically [OF v] by simp
qed

text \<open>
  Reading the reserves of a pair: for two different addresses written in lower case the helper
  assigns the reserves to the tokens in the order of the pair. On addresses in mixed case, which is how
  ethers prints them, it does not (next lemma): its comparison is case-sensitive.
\<close>

lemma reserves_safe_on_lower_case:
  assumes "js_toLowerCase a = a" and "js_toLowerCase b = b" and "a \<noteq> b"
  shows "getReservesSafe a b (r0, r1) = (if uniswap_getTokenOrder a b = (a, b) then (r0, r1) else (r1, r0))"
  using assms by (auto simp: getReservesSafe_def uniswap_getTokenOrder_def Let_def)

lemma reserves_safe_on_lower_case_instance:
  "getReservesSafe ''0xa'' ''0xb'' (1, 2) = (1, 2)"
proof -
  have "js_toLowerCase ''0xa'' = ''0xa''" "js_toLowerCase ''0xb'' = ''0xb''" by code_simp+
  moreover have "''0xa'' < ''0xb''" by code_simp
  ultimately show ?thesis
    using reserves_safe_on_lower_case [of "''0xa''" "''0xb''" 1 2] by (simp add: uniswap_getTokenOrder_def)
qed

lemma reserves_swapped_on_mixed_case:
  "uniswap_getTokenOrder ''0xB000000000000000000000000000000000000000'' ''0xa000000000000000000000000000000000000000''
     = (''0xa000000000000000000000000000000000000000'', ''0xB000000000000000000000000000000000000000'') \<and>
   getReservesSafe ''0xB000000000000000000000000000000000000000'' ''0xa000000000000000000000000000000000000000'' (1, 2) = (1, 2)"
  by code_simp

text \<open>
  Liquidity over the widest range: for a positive tick spacing up to the maximal tick the bounds are
  the smallest and the largest multiples of the spacing the pool allows, and symmetric.
\<close>

lemma wide_ticks_are_extreme_multiples:
  fixes t :: int
  assumes "0 < t"
  shows "wide_ticks (of_int t) = (of_int (- (887272 div t * t)), of_int (887272 div t * t)) \<and>
    887272 div t * t \<le> 887272 \<and> 887272 < 887272 div t * t + t"
proof -
  have fl: "\<lfloor>887272 / (of_int t :: rat)\<rfloor> = 887272 div t"
    using floor_divide_of_int_eq [of 887272 t, where ?'a = rat] by simp
  have "\<lceil>- (887272 / (of_int t :: rat))\<rceil> = - (887272 div t)"
    by (simp add: ceiling_def fl)
  then have "wide_ticks (of_int t) = (of_int (- (887272 div t * t)), of_int (887272 div t * t))"
    by (simp add: wide_ticks_def fl)
  moreover have "887272 div t * t \<le> 887272" "887272 < 887272 div t * t + t"
    using floor_div_bounds [OF assms, of 887272] by (simp_all add: mult.commute)
  ultimately show ?thesis by blast
qed

lemma wide_ticks_are_extreme_multiples_instance:
  "wide_ticks 60 = (of_int (- 887220), of_int 887220)"
  using wide_ticks_are_extreme_multiples [of 60] by simp

text \<open>
  A new Uniswap V3 pool is priced in the order it is created in: on well-formed different addresses
  the manager gets the numerically smaller token first, and the price ratio is inverted exactly when the
  caller's tokens were swapped.
\<close>

lemma new_pool_priced_in_token_order:
  assumes "valid_address (cAddress t0)" and "valid_address (cAddress t1)"
    and "address_value (cAddress t0) \<noteq> address_value (cAddress t1)"
    and "u3_createNewPair F e this t0 t1 fee r s = Some (pool, s')"
  shows "\<exists>lo hi ratio price (nft :: contract) d0 d1. txs s' = txs s @ [Call (cSigner nft) (cAddress nft)
      ''createAndInitializePoolIfNecessary'' [Addr (cAddress lo), Addr (cAddress hi), Num fee, Num price]] \<and>
    address_value (cAddress lo) < address_value (cAddress hi) \<and> getSqrtPriceX96 F ratio = Some price \<and>
    (if lo = t0 then hi = t1 \<and> ratio = f_mul F r (f_pow10 F (d1 - d0))
     else lo = t1 \<and> hi = t0 \<and> ratio = f_div F (f_one F) (f_mul F r (f_pow10 F (d1 - d0))))"
proof -
  obtain lo hi where ord: "u3_getTokenOrder t0 t1 = (lo, hi)" by fastforce
  obtain d1 d0 price and nft :: contract where run: "getSqrtPriceX96 F (pool_ratio F t0 t1 d0 d1 r) = Some price"
    "txs s' = txs s @ [Call (cSigner nft) (cAddress nft) ''createAndInitializePoolIfNecessary''
      [Addr (cAddress lo), Addr (cAddress hi), Num fee, Num price]]"
    using assms(4) ord by (auto simp: u3_createNewPair_def call_def send_def Let_def split: if_splits)
  have less: "js_toLowerCase (cAddress t1) < js_toLowerCase (cAddress t0) \<longleftrightarrow>
      \<not> address_value (cAddress t0) < address_value (cAddress t1)"
    using toLowerCase_less_iff [OF assms(2,1)] assms(3) by linarith
  have "lo \<noteq> hi" using u3_order.ord_sorts [OF assms(1,2)] ord assms(3) by (auto split: if_splits)
  then show ?thesis
    using u3_order.ord_sorts [OF assms(1,2)] ord run less assms(3)
    by (intro exI [of _ lo] exI [of _ hi] exI [of _ "pool_ratio F t0 t1 d0 d1 r"] exI [of _ price]
        exI [of _ nft] exI [of _ d0] exI [of _ d1]) (auto simp: pool_ratio_def Let_def split: if_splits)
qed

lemma new_pool_priced_in_token_order_instance:
  "\<exists>pool s' (lo :: contract) (hi :: contract). u3_createNewPair integer_floats pool_env
      (new_UniswapV3Fixture ''o''\<lparr>u3_nftPositionManager := Some (attach ''NonfungiblePositionManager'' ''nft'' ''o''),
        u3_factory := Some (attach ''UniswapV3Factory'' ''fac'' ''o'')\<rparr>)
      (attach ''WETH9'' ''0xB000000000000000000000000000000000000000'' ''o'')
      (attach ''StandardTokenMock'' ''0xa000000000000000000000000000000000000000'' ''o'') 3000 1
      \<lparr>nonces = \<lambda>_. 0, txs = []\<rparr> = Some (pool, s') \<and> address_value (cAddress lo) < address_value (cAddress hi) \<and>
    length (txs s') = 1"
proof -
  let ?t0 = "attach ''WETH9'' ''0xB000000000000000000000000000000000000000'' ''o''"
    and ?t1 = "attach ''StandardTokenMock'' ''0xa000000000000000000000000000000000000000'' ''o''"
  have v: "valid_address (cAddress ?t0)" "valid_address (cAddress ?t1)" by (simp_all add: attach_def) code_simp+
  have "js_toLowerCase (cAddress ?t1) < js_toLowerCase (cAddress ?t0)" by (simp add: attach_def) code_simp
  then have "address_value (cAddress ?t0) \<noteq> address_value (cAddress ?t1)"
    using toLowerCase_less_iff [OF v(2,1)] by linarith
  moreover have "\<exists>pool s'. u3_createNewPair integer_floats pool_env
      (new_UniswapV3Fixture ''o''\<lparr>u3_nftPositionManager := Some (attach ''NonfungiblePositionManager'' ''nft'' ''o''),
        u3_factory := Some (attach ''UniswapV3Factory'' ''fac'' ''o'')\<rparr>) ?t0 ?t1 3000 1
      \<lparr>nonces = \<lambda>_. 0, txs = []\<rparr> = Some (pool, s')"
    by (simp add: u3_createNewPair_def u3_getPool_def u3_getTokenOrder_def pool_env_def integer_floats_def
        new_UniswapV3Fixture_def view_def call_def send_def getSqrtPriceX96_def pool_ratio_def attach_def Let_def
        split: prod.split)
  ultimately obtain pool s' where run: "u3_createNewPair integer_floats pool_env
      (new_UniswapV3Fixture ''o''\<lparr>u3_nftPositionManager := Some (attach ''NonfungiblePositionManager'' ''nft'' ''o''),
        u3_factory := Some (attach ''UniswapV3Factory'' ''fac'' ''o'')\<rparr>) ?t0 ?t1 3000 1
      \<lparr>nonces = \<lambda>_. 0, txs = []\<rparr> = Some (pool, s')"
    and ne: "address_value (cAddress ?t0) \<noteq> address_value (cAddress ?t1)" by blast
  obtain lo hi :: contract and price and nft :: contract where
    "txs s' = txs \<lparr>nonces = \<lambda>_. 0, txs = []\<rparr> @ [Call (cSigner nft) (cAddress nft)
      ''createAndInitializePoolIfNecessary'' [Addr (cAddress lo), Addr (cAddress hi), Num 3000, Num price]]"
    "address_value (cAddress lo) < address_value (cAddress hi)"
    using new_pool_priced_in_token_order [OF v ne run] by (elim exE conjE) (rule that)
  then show ?thesis using run by (intro exI [of _ pool] exI [of _ s'] exI [of _ lo] exI [of _ hi]) simp
qed

end
