(* ===== verification/Perp_V2_Fixture.thy ===== *)
theory Perp_V2_Fixture
  imports Deploy_External Deploy_Mocks Encoding_Utils Math_Utils
begin

section \<open>The Perpetual protocol fixture: utils/fixtures/perpV2Fixture.ts\<close>

text \<open>
  The fixture deploys the virtual tokens, the two Uniswap V3 pools, the exchange, the vault and the clearing
  house. An account is its address, a class field that is not assigned yet is \<open>None\<close>, the
  \<^verbatim>\<open>any\<close> objects keyed by token address are maps. The method \<^verbatim>\<open>initialize\<close> is split at its
  comments into five consecutive parts. \<^verbatim>\<open>encodeSqrtRatioX96\<close> of the Uniswap SDK is an argument.
  The loop of \<^verbatim>\<open>_token0Fixture\<close> is a \<open>partial_function\<close>: \<open>None\<close> covers both a rejected
  transaction and a loop that never ends, and both are characterised below.
\<close>

unbundle bit_operations_syntax

subsection \<open>State\<close>

record BaseTokenFixture =
  baseToken :: contract
  mockAggregator :: contract

record TokensFixture =
  token0 :: contract
  token1 :: contract
  mockAggregator0 :: contract
  mockAggregator1 :: contract

record PositionInfo =
  pi_baseToken :: address
  pi_baseBalance :: int
  pi_quoteBalance :: int

record PerpV2Fixture =
  pf_deployer :: DeployHelper
  pf_ownerAddress :: address
  pf_ownerSigner :: address
  pf_feeTier :: int
  pf_usdcDecimals :: "int option"
  pf_priceFeeds :: "address \<rightharpoonup> contract"
  pf_pools :: "address \<rightharpoonup> contract"
  pf_maker :: "address option"
  pf_otherTrader :: "address option"
  pf_usdc :: "contract option"
  pf_clearingHouse :: "contract option"
  pf_orderBook :: "contract option"
  pf_accountBalance :: "contract option"
  pf_marketRegistry :: "contract option"
  pf_clearingHouseConfig :: "contract option"
  pf_quoter :: "contract option"
  pf_exchange :: "contract option"
  pf_vault :: "contract option"
  pf_insuranceFund :: "contract option"
  pf_uniV3Factory :: "contract option"
  pf_vETHPool :: "contract option"
  pf_vBTCPool :: "contract option"
  pf_vETH :: "contract option"
  pf_vBTC :: "contract option"
  pf_ethPriceFeed :: "contract option"
  pf_btcPriceFeed :: "contract option"
  pf_vQuote :: "contract option"
  pf_feeTierPercent :: int

definition new_PerpV2Fixture :: "address \<Rightarrow> PerpV2Fixture option" where
  "new_PerpV2Fixture ownerAddress = do {
     feeTierPercent \<leftarrow> ether (1 / 100);
     Some \<lparr>pf_deployer = new_DeployHelper ownerAddress, pf_ownerAddress = ownerAddress, pf_ownerSigner = ownerAddress,
       pf_feeTier = 10000, pf_usdcDecimals = None, pf_priceFeeds = Map.empty, pf_pools = Map.empty, pf_maker = None,
       pf_otherTrader = None, pf_usdc = None, pf_clearingHouse = None, pf_orderBook = None, pf_accountBalance = None,
       pf_marketRegistry = None, pf_clearingHouseConfig = None, pf_quoter = None, pf_exchange = None, pf_vault = None,
       pf_insuranceFund = None, pf_uniV3Factory = None, pf_vETHPool = None, pf_vBTCPool = None, pf_vETH = None,
       pf_vBTC = None, pf_ethPriceFeed = None, pf_btcPriceFeed = None, pf_vQuote = None,
       pf_feeTierPercent = feeTierPercent\<rparr>
   }"

text \<open>\<^verbatim>\<open>utils.parseUnits\<close> on the decimal string of an integer.\<close>

definition parseUnits :: "int \<Rightarrow> int \<Rightarrow> int option" where
  "parseUnits value decimals = (if 0 \<le> decimals \<and> decimals \<le> 256 then Some (value * 10 ^ nat decimals) else None)"

subsection \<open>Base and quote tokens\<close>

definition createQuoteTokenFixture :: "env \<Rightarrow> PerpV2Fixture \<Rightarrow> string \<Rightarrow> string \<Rightarrow> chain \<Rightarrow> contract result" where
  "createQuoteTokenFixture e this name symbol s = do {
     (quoteToken, s) \<leftarrow> deployPerpV2QuoteToken e (external (pf_deployer this)) s;
     s \<leftarrow> call e quoteToken ''initialize'' [Str name, Str symbol] s;
     Some (quoteToken, s)
   }"

definition createBaseTokenFixture :: "env \<Rightarrow> PerpV2Fixture \<Rightarrow> string \<Rightarrow> string \<Rightarrow> chain \<Rightarrow> BaseTokenFixture result" where
  "createBaseTokenFixture e this name symbol s = do {
     (aggregator, s) \<leftarrow> deployChainlinkAggregatorMock e (mocks (pf_deployer this)) 6 s;
     (chainlinkPriceFeed, s) \<leftarrow> deployPerpV2ChainlinkPriceFeed e (external (pf_deployer this)) s;
     s \<leftarrow> call e chainlinkPriceFeed ''initialize'' [Addr (cAddress aggregator)] s;
     (token, s) \<leftarrow> deployPerpV2BaseToken e (external (pf_deployer this)) s;
     s \<leftarrow> call e token ''initialize'' [Str name, Str symbol, Addr (cAddress chainlinkPriceFeed)] s;
     Some (\<lparr>baseToken = token, mockAggregator = aggregator\<rparr>, s)
   }"

definition isAscendingTokenOrder :: "address \<Rightarrow> address \<Rightarrow> bool" where
  "isAscendingTokenOrder addr0 addr1 \<longleftrightarrow> js_toLowerCase addr0 < js_toLowerCase addr1"

text \<open>Lines 465--486: the branch of \<^verbatim>\<open>_tokensFixture\<close> on the order of the two addresses.\<close>

definition order_fixtures :: "BaseTokenFixture \<Rightarrow> BaseTokenFixture \<Rightarrow> TokensFixture" where
  "order_fixtures f0 f1 =
     (if isAscendingTokenOrder (cAddress (baseToken f0)) (cAddress (baseToken f1))
      then \<lparr>token0 = baseToken f0, token1 = baseToken f1, mockAggregator0 = mockAggregator f0, mockAggregator1 = mockAggregator f1\<rparr>
      else \<lparr>token0 = baseToken f1, token1 = baseToken f0, mockAggregator0 = mockAggregator f1, mockAggregator1 = mockAggregator f0\<rparr>)"

definition tokensFixture :: "env \<Rightarrow> PerpV2Fixture \<Rightarrow> chain \<Rightarrow> TokensFixture result" where
  "tokensFixture e this s = do {
     (f0, s) \<leftarrow> createBaseTokenFixture e this ''RandomTestToken0'' ''randomToken0'' s;
     (f1, s) \<leftarrow> createBaseTokenFixture e this ''RandomTestToken1'' ''randomToken1'' s;
     Some (order_fixtures f0 f1, s)
   }"

text \<open>The loop of \<^verbatim>\<open>_token0Fixture\<close>; its variable is undefined before the first iteration.\<close>

partial_function (option) token0_loop :: "env \<Rightarrow> PerpV2Fixture \<Rightarrow> address \<Rightarrow> BaseTokenFixture option \<Rightarrow> chain \<Rightarrow>
    BaseTokenFixture result" where
  "token0_loop e this token1Addr token0Fixture s =
     (if token0Fixture = None \<or> \<not> isAscendingTokenOrder (cAddress (baseToken (the token0Fixture))) token1Addr
      then Option.bind (createBaseTokenFixture e this ''RandomTestToken0'' ''randomToken0'' s)
        (\<lambda>r. token0_loop e this token1Addr (Some (fst r)) (snd r))
      else Some (the token0Fixture, s))"

definition token0Fixture :: "env \<Rightarrow> PerpV2Fixture \<Rightarrow> address \<Rightarrow> chain \<Rightarrow> BaseTokenFixture result" where
  "token0Fixture e this token1Addr s = token0_loop e this token1Addr None s"

subsection \<open>Pool arithmetic\<close>

text \<open>A tick spacing of zero divides to \<^verbatim>\<open>NaN\<close>, which no call accepts as an argument.\<close>

definition getMinTick :: "int \<Rightarrow> int option" where
  "getMinTick tickSpacing =
     (if tickSpacing = 0 then None else Some (\<lceil>- 887272 / rat_of_int tickSpacing\<rceil> * tickSpacing))"

definition getMaxTick :: "int \<Rightarrow> int option" where
  "getMaxTick tickSpacing =
     (if tickSpacing = 0 then None else Some (\<lfloor>887272 / rat_of_int tickSpacing\<rfloor> * tickSpacing))"

definition encodePriceSqrt :: "(int \<Rightarrow> int \<Rightarrow> int option) \<Rightarrow> int \<Rightarrow> int \<Rightarrow> int option" where
  "encodePriceSqrt encodeSqrtRatioX96 token1Amount token0Amount = encodeSqrtRatioX96 token1Amount token0Amount"

definition getPriceFromSqrtPriceX96 :: "int \<Rightarrow> int option" where
  "getPriceFromSqrtPriceX96 sqrtPriceX96 =
     (let squaredPrice = sqrtPriceX96 * sqrtPriceX96;
          denominator = 2 ^ 192;
          scaledPrice = squaredPrice * 10 ^ 18
      in bn_div scaledPrice denominator)"

subsection \<open>initialize\<close>

text \<open>Lines 118--145: the accounts, the settlement token, the virtual tokens and their price feeds.\<close>

definition initialize_tokens :: "env \<Rightarrow> PerpV2Fixture \<Rightarrow> address \<Rightarrow> address \<Rightarrow> chain \<Rightarrow> PerpV2Fixture result" where
  "initialize_tokens e this maker otherTrader s = do {
     balance \<leftarrow> ether 100000000000000;
     (usdc, s) \<leftarrow> deployTokenMock e (mocks (pf_deployer this)) (pf_ownerAddress this) (Some balance) (Some 6) None None s;
     (tf, s) \<leftarrow> tokensFixture e this s;
     (bf, s) \<leftarrow> token0Fixture e this (cAddress (token1 tf)) s;
     Some (this\<lparr>pf_maker := Some maker, pf_otherTrader := Some otherTrader, pf_usdc := Some usdc, pf_usdcDecimals := Some 6,
       pf_vETH := Some (token0 tf), pf_vBTC := Some (baseToken bf), pf_vQuote := Some (token1 tf),
       pf_ethPriceFeed := Some (mockAggregator0 tf), pf_btcPriceFeed := Some (mockAggregator bf),
       pf_priceFeeds := (pf_priceFeeds this)(cAddress (token0 tf) \<mapsto> mockAggregator0 tf,
         cAddress (baseToken bf) \<mapsto> mockAggregator bf)\<rparr>, s)
   }"

text \<open>Lines 147--203: the factory and its pools, the registry, the exchange, the vault.\<close>

definition initialize_exchange :: "env \<Rightarrow> PerpV2Fixture \<Rightarrow> chain \<Rightarrow> PerpV2Fixture result" where
  "initialize_exchange e this s = do {
     let d = external (pf_deployer this);
     vETH \<leftarrow> pf_vETH this;
     vBTC \<leftarrow> pf_vBTC this;
     vQuote \<leftarrow> pf_vQuote this;
     usdc \<leftarrow> pf_usdc this;
     (factory, s) \<leftarrow> deployUniswapV3Factory e d s;
     (config, s) \<leftarrow> deployPerpV2ClearingHouseConfig e d s;
     s \<leftarrow> call e config ''initialize'' [] s;
     s \<leftarrow> call e factory ''createPool'' [Addr (cAddress vETH), Addr (cAddress vQuote), Num (pf_feeTier this)] s;
     s \<leftarrow> call e factory ''createPool'' [Addr (cAddress vBTC), Addr (cAddress vQuote), Num (pf_feeTier this)] s;
     (registry, s) \<leftarrow> deployPerpV2MarketRegistry e d s;
     s \<leftarrow> call e registry ''initialize'' [Addr (cAddress factory), Addr (cAddress vQuote)] s;
     (book, s) \<leftarrow> deployPerpV2OrderBook e d s;
     s \<leftarrow> call e book ''initialize'' [Addr (cAddress registry)] s;
     (fund, s) \<leftarrow> deployPerpV2InsuranceFund e d s;
     s \<leftarrow> call e fund ''initialize'' [Addr (cAddress usdc)] s;
     (balance, s) \<leftarrow> deployPerpV2AccountBalance e d s;
     (exchange, s) \<leftarrow> deployPerpV2Exchange e d s;
     s \<leftarrow> call e exchange ''initialize'' [Addr (cAddress registry), Addr (cAddress book), Addr (cAddress config)] s;
     let s = call_unawaited e exchange ''setAccountBalance'' [Addr (cAddress balance)] s;
     s \<leftarrow> call e book ''setExchange'' [Addr (cAddress exchange)] s;
     s \<leftarrow> call e balance ''initialize'' [Addr (cAddress config), Addr (cAddress book)] s;
     (vault, s) \<leftarrow> deployPerpV2Vault e d s;
     s \<leftarrow> call e vault ''initialize''
       [Addr (cAddress fund), Addr (cAddress config), Addr (cAddress balance), Addr (cAddress exchange)] s;
     s \<leftarrow> call e fund ''setBorrower'' [Addr (cAddress vault)] s;
     s \<leftarrow> call e balance ''setVault'' [Addr (cAddress vault)] s;
     Some (this\<lparr>pf_uniV3Factory := Some factory, pf_clearingHouseConfig := Some config, pf_marketRegistry := Some registry,
       pf_orderBook := Some book, pf_insuranceFund := Some fund, pf_accountBalance := Some balance,
       pf_exchange := Some exchange, pf_vault := Some vault\<rparr>, s)
   }"

text \<open>Lines 205--228: the pool instances and the whitelists of the virtual tokens.\<close>

definition initialize_pools :: "env \<Rightarrow> PerpV2Fixture \<Rightarrow> chain \<Rightarrow> PerpV2Fixture result" where
  "initialize_pools e this s = do {
     let d = external (pf_deployer this);
     vETH \<leftarrow> pf_vETH this;
     vBTC \<leftarrow> pf_vBTC this;
     vQuote \<leftarrow> pf_vQuote this;
     factory \<leftarrow> pf_uniV3Factory this;
     poolAddrA \<leftarrow> as_addr (view e factory ''getPool''
       [Addr (cAddress vETH), Addr (cAddress vQuote), Num (pf_feeTier this)] s);
     poolAddrB \<leftarrow> as_addr (view e factory ''getPool''
       [Addr (cAddress vBTC), Addr (cAddress vQuote), Num (pf_feeTier this)] s);
     let vETHPool = getUniswapV3PoolInstance d poolAddrA;
     let vBTCPool = getUniswapV3PoolInstance d poolAddrB;
     s \<leftarrow> call e vETH ''addWhitelist'' [Addr poolAddrA] s;
     s \<leftarrow> call e vBTC ''addWhitelist'' [Addr poolAddrB] s;
     s \<leftarrow> call e vQuote ''addWhitelist'' [Addr poolAddrA] s;
     s \<leftarrow> call e vQuote ''addWhitelist'' [Addr poolAddrB] s;
     Some (this\<lparr>pf_vETHPool := Some vETHPool, pf_vBTCPool := Some vBTCPool,
       pf_pools := (pf_pools this)(cAddress vETH \<mapsto> vETHPool, cAddress vBTC \<mapsto> vBTCPool)\<rparr>, s)
   }"

text \<open>Lines 247--259: the tokens the clearing house holds, and everything that must know it.\<close>

definition introduce_clearing_house :: "env \<Rightarrow> contract \<Rightarrow> contract \<Rightarrow> contract \<Rightarrow> contract \<Rightarrow> contract \<Rightarrow> contract \<Rightarrow>
    contract \<Rightarrow> contract \<Rightarrow> contract \<Rightarrow> chain \<Rightarrow> chain option" where
  "introduce_clearing_house e vETH vBTC vQuote registry book exchange balance vault house s = do {
     s \<leftarrow> call e vQuote ''mintMaximumTo'' [Addr (cAddress house)] s;
     s \<leftarrow> call e vETH ''mintMaximumTo'' [Addr (cAddress house)] s;
     s \<leftarrow> call e vBTC ''mintMaximumTo'' [Addr (cAddress house)] s;
     s \<leftarrow> call e vQuote ''addWhitelist'' [Addr (cAddress house)] s;
     s \<leftarrow> call e vETH ''addWhitelist'' [Addr (cAddress house)] s;
     s \<leftarrow> call e vBTC ''addWhitelist'' [Addr (cAddress house)] s;
     s \<leftarrow> call e registry ''setClearingHouse'' [Addr (cAddress house)] s;
     s \<leftarrow> call e book ''setClearingHouse'' [Addr (cAddress house)] s;
     s \<leftarrow> call e exchange ''setClearingHouse'' [Addr (cAddress house)] s;
     s \<leftarrow> call e balance ''setClearingHouse'' [Addr (cAddress house)] s;
     call e vault ''setClearingHouse'' [Addr (cAddress house)] s
   }"

text \<open>Lines 230--259: the clearing house.\<close>

definition initialize_clearing_house :: "env \<Rightarrow> PerpV2Fixture \<Rightarrow> chain \<Rightarrow> PerpV2Fixture result" where
  "initialize_clearing_house e this s = do {
     let d = external (pf_deployer this);
     vETH \<leftarrow> pf_vETH this;
     vBTC \<leftarrow> pf_vBTC this;
     vQuote \<leftarrow> pf_vQuote this;
     config \<leftarrow> pf_clearingHouseConfig this;
     vault \<leftarrow> pf_vault this;
     factory \<leftarrow> pf_uniV3Factory this;
     exchange \<leftarrow> pf_exchange this;
     balance \<leftarrow> pf_accountBalance this;
     fund \<leftarrow> pf_insuranceFund this;
     registry \<leftarrow> pf_marketRegistry this;
     book \<leftarrow> pf_orderBook this;
     (house, s) \<leftarrow> deployPerpV2ClearingHouse e d s;
     s \<leftarrow> call e house ''initialize'' [Addr (cAddress config), Addr (cAddress vault), Addr (cAddress vQuote),
       Addr (cAddress factory), Addr (cAddress exchange), Addr (cAddress balance), Addr (cAddress fund)] s;
     s \<leftarrow> call e config ''setSettlementTokenBalanceCap'' [Num MAX_UINT_256] s;
     (quoter, s) \<leftarrow> deployPerpV2Quoter e d (cAddress registry) s;
     s \<leftarrow> introduce_clearing_house e vETH vBTC vQuote registry book exchange balance vault house s;
     Some (this\<lparr>pf_clearingHouse := Some house, pf_quoter := Some quoter\<rparr>, s)
   }"

definition deposit :: "env \<Rightarrow> PerpV2Fixture \<Rightarrow> address \<Rightarrow> int \<Rightarrow> contract \<Rightarrow> chain \<Rightarrow> chain option" where
  "deposit e this sender amount token s = do {
     decimals \<leftarrow> as_num (view e token ''decimals'' [] s);
     parsedAmount \<leftarrow> parseUnits amount decimals;
     vault \<leftarrow> pf_vault this;
     s \<leftarrow> call e (connect token sender) ''approve'' [Addr (cAddress vault), Num parsedAmount] s;
     call e (connect vault sender) ''deposit'' [Addr (cAddress token), Num parsedAmount] s
   }"

text \<open>Lines 261--269: collateral for the maker and the other trader.\<close>

definition initialize_collateral :: "env \<Rightarrow> PerpV2Fixture \<Rightarrow> chain \<Rightarrow> PerpV2Fixture result" where
  "initialize_collateral e this s = do {
     usdc \<leftarrow> pf_usdc this;
     usdcDecimals \<leftarrow> pf_usdcDecimals this;
     maker \<leftarrow> pf_maker this;
     otherTrader \<leftarrow> pf_otherTrader this;
     makerCollateralAmount \<leftarrow> parseUnits 1000000 usdcDecimals;
     s \<leftarrow> call e usdc ''mint'' [Addr maker, Num makerCollateralAmount] s;
     s \<leftarrow> deposit e this maker 1000000 usdc s;
     otherCollateralAmount \<leftarrow> parseUnits 1000000 usdcDecimals;
     s \<leftarrow> call e usdc ''mint'' [Addr otherTrader, Num otherCollateralAmount] s;
     s \<leftarrow> deposit e this otherTrader 1000000 usdc s;
     Some (this, s)
   }"

definition PerpV2Fixture_initialize :: "env \<Rightarrow> PerpV2Fixture \<Rightarrow> address \<Rightarrow> address \<Rightarrow> chain \<Rightarrow> PerpV2Fixture result" where
  "PerpV2Fixture_initialize e this maker otherTrader s = do {
     (this, s) \<leftarrow> initialize_tokens e this maker otherTrader s;
     (this, s) \<leftarrow> initialize_exchange e this s;
     (this, s) \<leftarrow> initialize_pools e this s;
     (this, s) \<leftarrow> initialize_clearing_house e this s;
     initialize_collateral e this s
   }"

subsection \<open>Liquidity, prices, quotes\<close>

text \<open>
  The argument of \<^verbatim>\<open>increaseObservationCardinalityNext\<close> is written \<^verbatim>\<open>(2 ^ 16) - 1\<close>;
  in JavaScript \<^verbatim>\<open>^\<close> is exclusive or.
\<close>

definition observation_cardinality :: int where
  "observation_cardinality = (2 XOR 16) - 1"

definition add_liquidity_params :: "contract \<Rightarrow> int \<Rightarrow> int \<Rightarrow> int \<Rightarrow> int \<Rightarrow> arg" where
  "add_liquidity_params token baseTokenAmount quoteTokenAmount lowerTick upperTick =
     Obj [(''baseToken'', Addr (cAddress token)), (''base'', Num baseTokenAmount), (''quote'', Num quoteTokenAmount),
       (''lowerTick'', Num lowerTick), (''upperTick'', Num upperTick), (''minBase'', Num 0), (''minQuote'', Num 0),
       (''useTakerBalance'', Bool False), (''deadline'', Num MAX_UINT_256)]"

definition initializePoolWithLiquidityWide :: "(int \<Rightarrow> int \<Rightarrow> int option) \<Rightarrow> env \<Rightarrow> PerpV2Fixture \<Rightarrow> contract \<Rightarrow> int \<Rightarrow> int \<Rightarrow>
    chain \<Rightarrow> chain option" where
  "initializePoolWithLiquidityWide encodeSqrtRatioX96 e this token baseTokenAmount quoteTokenAmount s = do {
     pool \<leftarrow> pf_pools this (cAddress token);
     sqrtPrice \<leftarrow> encodePriceSqrt encodeSqrtRatioX96 quoteTokenAmount baseTokenAmount;
     s \<leftarrow> call e pool ''initialize'' [Num sqrtPrice] s;
     s \<leftarrow> call e pool ''increaseObservationCardinalityNext'' [Num observation_cardinality] s;
     tickSpacing \<leftarrow> as_num (view e pool ''tickSpacing'' [] s);
     lowerTick \<leftarrow> getMinTick tickSpacing;
     upperTick \<leftarrow> getMaxTick tickSpacing;
     registry \<leftarrow> pf_marketRegistry this;
     s \<leftarrow> call e registry ''addPool'' [Addr (cAddress token), Num (pf_feeTier this)] s;
     s \<leftarrow> call e registry ''setFeeRatio'' [Addr (cAddress token), Num (pf_feeTier this)] s;
     house \<leftarrow> pf_clearingHouse this;
     maker \<leftarrow> pf_maker this;
     call e (connect house maker) ''addLiquidity''
       [add_liquidity_params token baseTokenAmount quoteTokenAmount lowerTick upperTick] s
   }"

definition initializePoolWithLiquidityWithinTicks :: "(int \<Rightarrow> int \<Rightarrow> int option) \<Rightarrow> env \<Rightarrow> PerpV2Fixture \<Rightarrow> contract \<Rightarrow> int \<Rightarrow>
    int \<Rightarrow> int \<Rightarrow> int \<Rightarrow> chain \<Rightarrow> chain option" where
  "initializePoolWithLiquidityWithinTicks encodeSqrtRatioX96 e this token baseTokenAmount quoteTokenAmount lowerTick upperTick s = do {
     pool \<leftarrow> pf_pools this (cAddress token);
     sqrtPrice \<leftarrow> encodePriceSqrt encodeSqrtRatioX96 quoteTokenAmount baseTokenAmount;
     s \<leftarrow> call e pool ''initialize'' [Num sqrtPrice] s;
     s \<leftarrow> call e pool ''increaseObservationCardinalityNext'' [Num observation_cardinality] s;
     registry \<leftarrow> pf_marketRegistry this;
     s \<leftarrow> call e registry ''addPool'' [Addr (cAddress token), Num (pf_feeTier this)] s;
     s \<leftarrow> call e registry ''setFeeRatio'' [Addr (cAddress token), Num (pf_feeTier this)] s;
     house \<leftarrow> pf_clearingHouse this;
     maker \<leftarrow> pf_maker this;
     call e (connect house maker) ''addLiquidity''
       [add_liquidity_params token baseTokenAmount quoteTokenAmount lowerTick upperTick] s
   }"

definition setBaseTokenOraclePrice :: "env \<Rightarrow> PerpV2Fixture \<Rightarrow> contract \<Rightarrow> int \<Rightarrow> chain \<Rightarrow> chain option" where
  "setBaseTokenOraclePrice e this token price s = do {
     feed \<leftarrow> pf_priceFeeds this (cAddress token);
     call e feed ''setRoundData'' [Num 0, Num price, Num 0, Num 0, Num 0] s
   }"

definition getSpotPrice :: "env \<Rightarrow> PerpV2Fixture \<Rightarrow> address \<Rightarrow> chain \<Rightarrow> int option" where
  "getSpotPrice e this token s = do {
     pool \<leftarrow> pf_pools this token;
     slot0 \<leftarrow> view e pool ''slot0'' [] s;
     sqrtPriceX96 \<leftarrow> as_num (obj_get ''sqrtPriceX96'' slot0);
     getPriceFromSqrtPriceX96 sqrtPriceX96
   }"

text \<open>
  \<^verbatim>\<open>callStatic\<close> runs the call without mining it; as a view it has the signer as an implicit argument,
  which is passed as the first one.
\<close>

definition getSwapQuote :: "env \<Rightarrow> PerpV2Fixture \<Rightarrow> address \<Rightarrow> int \<Rightarrow> bool \<Rightarrow> chain \<Rightarrow> (int \<times> int) option" where
  "getSwapQuote e this token baseQuantity isBuy s = do {
     house \<leftarrow> pf_clearingHouse this;
     otherTrader \<leftarrow> pf_otherTrader this;
     result \<leftarrow> view e house ''callStatic.openPosition''
       [Addr otherTrader, Obj [(''baseToken'', Addr token), (''isBaseToQuote'', Bool (\<not> isBuy)), (''isExactInput'', Bool (\<not> isBuy)),
         (''amount'', Num baseQuantity), (''oppositeAmountBound'', Num 0), (''deadline'', Num MAX_UINT_256),
         (''sqrtPriceLimitX96'', Num 0), (''referralCode'', Bytes ZERO_BYTES)]] s;
     deltaBase \<leftarrow> as_num (obj_get ''base'' result);
     deltaQuote \<leftarrow> as_num (obj_get ''quote'' result);
     Some (deltaBase, deltaQuote)
   }"

definition getCurrentLeverage :: "env \<Rightarrow> PerpV2Fixture \<Rightarrow> address \<Rightarrow> PositionInfo \<Rightarrow> int \<Rightarrow> chain \<Rightarrow> int option" where
  "getCurrentLeverage e this setToken positionInfo collateral s = do {
     price \<leftarrow> getSpotPrice e this (pi_baseToken positionInfo) s;
     let basePositionAbsoluteValue = \<bar>preciseMul (pi_baseBalance positionInfo) price\<bar>;
     let basePositionNetValue = preciseMul (pi_baseBalance positionInfo) price;
     preciseDiv basePositionAbsoluteValue (basePositionNetValue + pi_quoteBalance positionInfo + collateral)
   }"

definition getVTokenInstance :: "PerpV2Fixture \<Rightarrow> address \<Rightarrow> contract" where
  "getVTokenInstance this token = getVToken (external (pf_deployer this)) token"

subsection \<open>The token loop\<close>

text \<open>The address of the base token of the \<open>k\<close>-th attempt: an attempt uses five nonces of the owner.\<close>

definition base_token_address :: "env \<Rightarrow> address \<Rightarrow> chain \<Rightarrow> nat \<Rightarrow> address" where
  "base_token_address e owner s k = create_address e owner (nonces s owner + 5 * k + 3)"

lemma createBaseTokenFixture_runs:
  assumes "pf_deployer this = new_DeployHelper owner" and "\<And>ts t. accepts e ts t"
  shows "\<exists>f s'. createBaseTokenFixture e this name symbol s = Some (f, s') \<and>
    cAddress (baseToken f) = base_token_address e owner s 0 \<and> nonces s' owner = nonces s owner + 5 \<and>
    length (txs s') = length (txs s) + 5"
  using assms by (simp add: createBaseTokenFixture_def deploy_defs deploy_def deploy_linked_def call_def send_def
      base_token_address_def Let_def numeral_3_eq_3)

lemma createBaseTokenFixture_keeps [keeps_rules]: "keeps e s (createBaseTokenFixture e this name symbol s)"
  unfolding createBaseTokenFixture_def deploy_defs by (intro keeps_rules keeps_bind_pure)

lemma token0_loop_sound:
  assumes "token0_loop e this t cur s = Some r"
  shows "isAscendingTokenOrder (cAddress (baseToken (fst r))) t \<and> extends e s (snd r)"
proof (induction e this t cur s r rule: token0_loop.raw_induct)
  case (1 loop e this t cur s r)
  show ?case
  proof (cases "cur = None \<or> \<not> isAscendingTokenOrder (cAddress (baseToken (the cur))) t")
    case True
    then obtain f s1 where new: "createBaseTokenFixture e this ''RandomTestToken0'' ''randomToken0'' s = Some (f, s1)"
      and "loop e this t (Some f) s1 = Some r"
      using 1(2) by (auto split: Option.bind_splits)
    with 1(1) have "isAscendingTokenOrder (cAddress (baseToken (fst r))) t" "extends e s1 (snd r)" by blast+
    with keepsD [OF createBaseTokenFixture_keeps new] show ?thesis by (blast intro: extends_trans)
  qed (use 1(2) in auto)
qed (rule assms)

lemma token0_loop_finds:
  assumes "pf_deployer this = new_DeployHelper owner" and "\<And>ts t. accepts e ts t"
  shows "cur = None \<or> \<not> isAscendingTokenOrder (cAddress (baseToken (the cur))) t \<Longrightarrow>
    isAscendingTokenOrder (base_token_address e owner s k) t \<Longrightarrow>
    \<forall>j < k. \<not> isAscendingTokenOrder (base_token_address e owner s j) t \<Longrightarrow>
    \<exists>f s'. token0_loop e this t cur s = Some (f, s') \<and> cAddress (baseToken f) = base_token_address e owner s k \<and>
      length (txs s') = length (txs s) + 5 * (k + 1)"
proof (induction k arbitrary: cur s)
  case 0
  obtain f s1 where "createBaseTokenFixture e this ''RandomTestToken0'' ''randomToken0'' s = Some (f, s1)"
    "cAddress (baseToken f) = base_token_address e owner s 0" "length (txs s1) = length (txs s) + 5"
    using createBaseTokenFixture_runs [OF assms] by blast
  with 0 show ?case by (simp add: token0_loop.simps [of e this t cur] token0_loop.simps [of e this t "Some f"])
next
  case (Suc k)
  obtain f s1 where new: "createBaseTokenFixture e this ''RandomTestToken0'' ''randomToken0'' s = Some (f, s1)"
    "cAddress (baseToken f) = base_token_address e owner s 0" "nonces s1 owner = nonces s owner + 5"
    "length (txs s1) = length (txs s) + 5"
    using createBaseTokenFixture_runs [OF assms] by blast
  have shift: "base_token_address e owner s1 j = base_token_address e owner s (Suc j)" for j
    using new(3) by (simp add: base_token_address_def)
  have "\<exists>f' s'. token0_loop e this t (Some f) s1 = Some (f', s') \<and>
      cAddress (baseToken f') = base_token_address e owner s1 k \<and> length (txs s') = length (txs s1) + 5 * (k + 1)"
    by (rule Suc.IH) (use Suc.prems new(2) shift in auto)
  with new(1,4) Suc.prems(1) shift show ?case by (auto simp: token0_loop.simps [of e this t cur])
qed

lemma token0_loop_diverges:
  assumes "pf_deployer this = new_DeployHelper owner" and "\<And>ts t. accepts e ts t"
    and "token0_loop e this t cur s = Some r" and "cur = None \<or> \<not> isAscendingTokenOrder (cAddress (baseToken (the cur))) t"
  shows "\<exists>k. isAscendingTokenOrder (base_token_address e owner s k) t"
  using assms(1,2,4)
proof (induction e this t cur s r rule: token0_loop.raw_induct)
  case (1 loop e this t cur s r)
  obtain f s1 where new: "createBaseTokenFixture e this ''RandomTestToken0'' ''randomToken0'' s = Some (f, s1)"
    "cAddress (baseToken f) = base_token_address e owner s 0" "nonces s1 owner = nonces s owner + 5"
    using createBaseTokenFixture_runs [OF 1(3,4)] by blast
  show ?case
  proof (cases "isAscendingTokenOrder (cAddress (baseToken f)) t")
    case True
    with new(2) show ?thesis by auto
  next
    case False
    moreover have "loop e this t (Some f) s1 = Some r" using 1(2,5) new(1) by simp
    ultimately obtain k where "isAscendingTokenOrder (base_token_address e owner s1 k) t"
      using 1(1) [of e this t "Some f" s1 r] 1(3,4) by auto
    then have "isAscendingTokenOrder (base_token_address e owner s (Suc k)) t"
      using new(3) by (simp add: base_token_address_def)
    then show ?thesis by blast
  qed
qed (rule assms(3))

subsection \<open>The parts of initialize\<close>

lemma tokensFixture_keeps [keeps_rules]: "keeps e s (tokensFixture e this s)"
  unfolding tokensFixture_def by (intro keeps_rules keeps_bind_pure)

lemma token0Fixture_keeps [keeps_rules]: "keeps e s (token0Fixture e this t s)"
  using token0_loop_sound by (fastforce simp: keeps_def token0Fixture_def)

lemma initialize_tokens_keeps [keeps_rules]: "keeps e s (initialize_tokens e this maker trader s)"
  unfolding initialize_tokens_def deploy_defs Let_def by (intro keeps_rules keeps_bind_pure)

lemma initialize_exchange_keeps [keeps_rules]: "keeps e s (initialize_exchange e this s)"
  unfolding initialize_exchange_def deploy_defs Let_def by (intro keeps_rules keeps_bind_pure)

lemma initialize_pools_keeps [keeps_rules]: "keeps e s (initialize_pools e this s)"
  unfolding initialize_pools_def deploy_defs Let_def by (intro keeps_rules keeps_bind_pure)

lemma introduce_clearing_house_keeps [keeps_rules]:
  "keeps1 e s (introduce_clearing_house e vETH vBTC vQuote registry book exchange balance vault house s)"
  unfolding introduce_clearing_house_def by (intro keeps_rules)

lemma initialize_clearing_house_keeps [keeps_rules]: "keeps e s (initialize_clearing_house e this s)"
  unfolding initialize_clearing_house_def deploy_defs Let_def by (intro keeps_rules keeps_bind_pure)

lemma deposit_keeps [keeps_rules]: "keeps1 e s (deposit e this sender amount token s)"
  unfolding deposit_def by (intro keeps_rules keeps1_bind_pure)

lemma initialize_collateral_keeps [keeps_rules]: "keeps e s (initialize_collateral e this s)"
  unfolding initialize_collateral_def by (intro keeps_rules keeps_bind_pure)

text \<open>The fields a later part does not assign.\<close>

definition same_tokens :: "PerpV2Fixture \<Rightarrow> PerpV2Fixture \<Rightarrow> bool" where
  "same_tokens this this' \<longleftrightarrow> pf_vETH this' = pf_vETH this \<and> pf_vBTC this' = pf_vBTC this \<and> pf_vQuote this' = pf_vQuote this \<and>
     pf_usdc this' = pf_usdc this \<and> pf_usdcDecimals this' = pf_usdcDecimals this \<and>
     pf_maker this' = pf_maker this \<and> pf_otherTrader this' = pf_otherTrader this"

lemma initialize_exchange_same:
  "initialize_exchange e this s = Some (this', s') \<Longrightarrow> same_tokens this this'"
  by (auto simp: initialize_exchange_def same_tokens_def Let_def)

lemma initialize_pools_result:
  assumes "initialize_pools e this s = Some (this', s')"
  shows "same_tokens this this'"
    and "\<exists>vETH vBTC vQuote a b. pf_vETH this = Some vETH \<and> pf_vBTC this = Some vBTC \<and> pf_vQuote this = Some vQuote \<and>
      pf_pools this' = (pf_pools this)(cAddress vETH := pf_vETHPool this', cAddress vBTC := pf_vBTCPool this') \<and>
      pf_vETHPool this' = Some a \<and> pf_vBTCPool this' = Some b \<and>
      {Call (cSigner vETH) (cAddress vETH) ''addWhitelist'' [Addr (cAddress a)],
       Call (cSigner vBTC) (cAddress vBTC) ''addWhitelist'' [Addr (cAddress b)],
       Call (cSigner vQuote) (cAddress vQuote) ''addWhitelist'' [Addr (cAddress a)],
       Call (cSigner vQuote) (cAddress vQuote) ''addWhitelist'' [Addr (cAddress b)]} \<subseteq> set (txs s')"
  using assms by (auto simp: initialize_pools_def same_tokens_def Let_def call_def send_def getUniswapV3PoolInstance_def attach_def
      split: if_splits)

lemma initialize_clearing_house_result:
  assumes "initialize_clearing_house e this s = Some (this', s')"
  shows "same_tokens this this' \<and> pf_pools this' = pf_pools this \<and> pf_vETHPool this' = pf_vETHPool this \<and>
    pf_vBTCPool this' = pf_vBTCPool this \<and> pf_vault this' = pf_vault this"
  using assms by (auto simp: initialize_clearing_house_def same_tokens_def Let_def)

text \<open>The calls that make the clearing house known, and the tokens it holds.\<close>

definition house_calls :: "PerpV2Fixture \<Rightarrow> address \<Rightarrow> tx set" where
  "house_calls this house =
     {Call (cSigner t) (cAddress t) m [Addr house] | t m.
        m \<in> {''mintMaximumTo'', ''addWhitelist''} \<and> Some t \<in> {pf_vETH this, pf_vBTC this, pf_vQuote this}} \<union>
     {Call (cSigner c) (cAddress c) ''setClearingHouse'' [Addr house] | c.
        Some c \<in> {pf_marketRegistry this, pf_orderBook this, pf_exchange this, pf_accountBalance this, pf_vault this}}"

lemma introduce_clearing_house_calls:
  "issues ((\<lambda>(c, m). Call (cSigner c) (cAddress c) m [Addr (cAddress house)]) `
      set [(vQuote, ''mintMaximumTo''), (vETH, ''mintMaximumTo''), (vBTC, ''mintMaximumTo''), (vQuote, ''addWhitelist''),
       (vETH, ''addWhitelist''), (vBTC, ''addWhitelist''), (registry, ''setClearingHouse''), (book, ''setClearingHouse''),
       (exchange, ''setClearingHouse''), (balance, ''setClearingHouse''), (vault, ''setClearingHouse'')])
    s (introduce_clearing_house e vETH vBTC vQuote registry book exchange balance vault house s)"
  unfolding introduce_clearing_house_def list.set image_insert image_empty prod.case by (intro issues_rules)

lemma initialize_clearing_house_calls:
  assumes "initialize_clearing_house e this s = Some (this', s')"
  shows "\<exists>house. pf_clearingHouse this' = Some house \<and> house_calls this (cAddress house) \<subseteq> set (txs s')"
proof -
  obtain vETH vBTC vQuote registry book exchange balance vault house s1 where
    "pf_vETH this = Some vETH" "pf_vBTC this = Some vBTC" "pf_vQuote this = Some vQuote"
    "pf_marketRegistry this = Some registry" "pf_orderBook this = Some book" "pf_exchange this = Some exchange"
    "pf_accountBalance this = Some balance" "pf_vault this = Some vault" "pf_clearingHouse this' = Some house"
    "introduce_clearing_house e vETH vBTC vQuote registry book exchange balance vault house s1 = Some s'"
    using assms by (auto simp: initialize_clearing_house_def Let_def)
  with introduce_clearing_house_calls [of house vQuote vETH vBTC registry book exchange balance vault s1 e]
  show ?thesis by (auto simp: house_calls_def issues_def)
qed

lemma order_fixtures_sorted: "\<not> isAscendingTokenOrder (cAddress (token1 (order_fixtures f0 f1))) (cAddress (token0 (order_fixtures f0 f1)))"
  by (cases "isAscendingTokenOrder (cAddress (baseToken f0)) (cAddress (baseToken f1))")
    (auto simp: order_fixtures_def isAscendingTokenOrder_def)

lemma initialize_tokens_sorted:
  assumes "initialize_tokens e this maker trader s = Some (this', s')"
  shows "\<exists>a b q. pf_vETH this' = Some a \<and> pf_vBTC this' = Some b \<and> pf_vQuote this' = Some q \<and>
    \<not> isAscendingTokenOrder (cAddress q) (cAddress a) \<and> isAscendingTokenOrder (cAddress b) (cAddress q)"
proof -
  obtain tf s1 bf s2 s3 where tokens: "tokensFixture e this s1 = Some (tf, s2)" "token0Fixture e this (cAddress (token1 tf)) s2 = Some (bf, s3)"
    and this': "pf_vETH this' = Some (token0 tf)" "pf_vBTC this' = Some (baseToken bf)" "pf_vQuote this' = Some (token1 tf)"
    using assms by (auto simp: initialize_tokens_def)
  have "\<not> isAscendingTokenOrder (cAddress (token1 tf)) (cAddress (token0 tf))"
    using tokens(1) by (auto simp: tokensFixture_def order_fixtures_sorted)
  moreover have "isAscendingTokenOrder (cAddress (baseToken bf)) (cAddress (token1 tf))"
    using token0_loop_sound [of e this "cAddress (token1 tf)" None s2 "(bf, s3)"] tokens(2) by (simp add: token0Fixture_def)
  ultimately show ?thesis using this' by simp
qed

subsection \<open>The fixture succeeds on a willing chain\<close>

lemma initialize_exchange_succeeds:
  assumes "\<And>ts t. accepts e ts t"
    and "pf_vETH this = Some a" "pf_vBTC this = Some b" "pf_vQuote this = Some q" "pf_usdc this = Some u"
  shows "initialize_exchange e this s \<noteq> None"
  unfolding initialize_exchange_def deploy_defs Let_def assms(2-) Option.bind.simps
  by (intro succeeds_rules assms(1))

lemma initialize_pools_succeeds:
  assumes "\<And>ts t. accepts e ts t" and "\<And>ts c args. view_call e ts c ''getPool'' args = Some (Addr p)"
    and "pf_vETH this = Some a" "pf_vBTC this = Some b" "pf_vQuote this = Some q" "pf_uniV3Factory this = Some f"
  shows "initialize_pools e this s \<noteq> None"
  unfolding initialize_pools_def view_def Let_def assms(2-) Option.bind.simps as_addr.simps
  by (intro succeeds_rules assms(1))

lemma initialize_clearing_house_succeeds:
  assumes "\<And>ts t. accepts e ts t"
    and "pf_vETH this = Some a" "pf_vBTC this = Some b" "pf_vQuote this = Some q" "pf_uniV3Factory this = Some f"
      "pf_clearingHouseConfig this = Some c" "pf_vault this = Some v" "pf_exchange this = Some x" "pf_accountBalance this = Some y"
      "pf_insuranceFund this = Some i" "pf_marketRegistry this = Some r" "pf_orderBook this = Some o'"
  shows "initialize_clearing_house e this s \<noteq> None"
  unfolding initialize_clearing_house_def introduce_clearing_house_def deploy_defs Let_def assms(2-) Option.bind.simps bind_assoc
  by (intro succeeds_rules assms(1))

lemma deposit_succeeds:
  assumes "\<And>ts t. accepts e ts t" and "\<And>ts c args. view_call e ts c ''decimals'' args = Some (Num 6)" and "pf_vault this = Some v"
  shows "deposit e this sender amount token s \<noteq> None"
  unfolding deposit_def view_def assms(2-) Option.bind.simps as_num.simps
  by (simp add: parseUnits_def call_def send_def assms(1))

lemma initialize_collateral_succeeds:
  assumes "\<And>ts t. accepts e ts t" and "\<And>ts c args. view_call e ts c ''decimals'' args = Some (Num 6)"
    and "pf_vault this = Some v" "pf_usdc this = Some u" "pf_usdcDecimals this = Some 6" "pf_maker this = Some m" "pf_otherTrader this = Some o'"
  shows "initialize_collateral e this s \<noteq> None"
proof -
  have d: "\<exists>s'. deposit e this sender amount token s = Some s'" for sender amount token s
    using deposit_succeeds [of e this v sender amount token s] assms(1-3) by auto
  have c: "\<exists>s'. call e u mm args s = Some s'" for mm args s by (simp add: call_def send_def assms(1))
  obtain s1 where 1: "call e u ''mint'' [Addr m, Num (1000000 * 10 ^ 6)] s = Some s1" using c by blast
  obtain s2 where 2: "deposit e this m 1000000 u s1 = Some s2" using d by blast
  obtain s3 where 3: "call e u ''mint'' [Addr o', Num (1000000 * 10 ^ 6)] s2 = Some s3" using c by blast
  obtain s4 where 4: "deposit e this o' 1000000 u s3 = Some s4" using d by blast
  show ?thesis using 1 2 3 4 by (simp add: initialize_collateral_def assms parseUnits_def)
qed

lemma perp_initialize_succeeds:
  assumes "\<And>ts t. accepts e ts t" and "\<And>ts c args. view_call e ts c ''getPool'' args = Some (Addr p)"
    and "\<And>ts c args. view_call e ts c ''decimals'' args = Some (Num 6)"
    and "initialize_tokens e this maker trader s = Some (t1, s1)"
  shows "\<exists>this' s'. PerpV2Fixture_initialize e this maker trader s = Some (this', s') \<and> same_tokens t1 this'"
proof -
  have t1: "pf_usdcDecimals t1 = Some 6" "pf_maker t1 = Some maker" "pf_otherTrader t1 = Some trader"
    using assms(4) by (auto simp: initialize_tokens_def)
  obtain a b q u where tok: "pf_vETH t1 = Some a" "pf_vBTC t1 = Some b" "pf_vQuote t1 = Some q" "pf_usdc t1 = Some u"
    using assms(4) by (auto simp: initialize_tokens_def)
  obtain t2 s2 where 2: "initialize_exchange e t1 s1 = Some (t2, s2)"
    using initialize_exchange_succeeds [OF assms(1) tok, of s1] by auto
  obtain f c v x y i r o' where f2: "pf_uniV3Factory t2 = Some f" "pf_clearingHouseConfig t2 = Some c" "pf_vault t2 = Some v"
      "pf_exchange t2 = Some x" "pf_accountBalance t2 = Some y" "pf_insuranceFund t2 = Some i" "pf_marketRegistry t2 = Some r"
      "pf_orderBook t2 = Some o'"
    using 2 by (auto simp: initialize_exchange_def Let_def)
  have tok2: "pf_vETH t2 = Some a" "pf_vBTC t2 = Some b" "pf_vQuote t2 = Some q"
    using initialize_exchange_same [OF 2] tok by (simp_all add: same_tokens_def)
  obtain t3 s3 where 3: "initialize_pools e t2 s2 = Some (t3, s3)"
    using initialize_pools_succeeds [OF assms(1,2) tok2 f2(1), of s2] by auto
  have f3: "pf_vETH t3 = Some a" "pf_vBTC t3 = Some b" "pf_vQuote t3 = Some q" "pf_uniV3Factory t3 = Some f"
      "pf_clearingHouseConfig t3 = Some c" "pf_vault t3 = Some v" "pf_exchange t3 = Some x" "pf_accountBalance t3 = Some y"
      "pf_insuranceFund t3 = Some i" "pf_marketRegistry t3 = Some r" "pf_orderBook t3 = Some o'"
    using 3 tok2 f2 by (auto simp: initialize_pools_def Let_def)
  obtain t4 s4 where 4: "initialize_clearing_house e t3 s3 = Some (t4, s4)"
    using initialize_clearing_house_succeeds [OF assms(1) f3, of s3] by auto
  have same: "same_tokens t1 t4" "pf_vault t4 = Some v"
    using initialize_exchange_same [OF 2] initialize_pools_result(1) [OF 3] initialize_clearing_house_result [OF 4] f3
    by (simp_all add: same_tokens_def)
  then have f4: "pf_vault t4 = Some v" "pf_usdc t4 = Some u" "pf_usdcDecimals t4 = Some 6" "pf_maker t4 = Some maker" "pf_otherTrader t4 = Some trader"
    using t1 tok by (simp_all add: same_tokens_def)
  obtain s5 where "initialize_collateral e t4 s4 = Some (t4, s5)"
    using initialize_collateral_succeeds [OF assms(1,3) f4, of s4] by (auto simp: initialize_collateral_def)
  with 2 3 4 assms(4) same show ?thesis by (simp add: PerpV2Fixture_initialize_def)
qed

text \<open>A concrete node: later creation addresses are smaller, every transaction is accepted.\<close>

definition perp_env :: env where
  "perp_env = \<lparr>create_address = \<lambda>f n. ''0x'' @ replicate n (CHR ''0'') @ replicate (40 - n) (CHR ''1''),
     accepts = \<lambda>_ _. True,
     view_call = \<lambda>_ _ m _. if m = ''decimals'' then Some (Num 6) else Some (Addr ''pool''),
     listAccounts = [], latest_timestamp = \<lambda>_. 0, set_created_logs = \<lambda>_. []\<rparr>"

definition perp_fixture :: PerpV2Fixture where
  "perp_fixture = the (new_PerpV2Fixture ''owner'')"

definition genesis :: chain where
  "genesis = \<lparr>nonces = \<lambda>_. 0, txs = []\<rparr>"

declare token0_loop.simps [code]

lemma perp_env_accepts: "accepts perp_env ts t" and perp_env_pool: "view_call perp_env ts c ''getPool'' args = Some (Addr ''pool'')"
  and perp_env_decimals: "view_call perp_env ts c ''decimals'' args = Some (Num 6)"
  by (simp_all add: perp_env_def)

lemma perp_fixture_simps: "pf_deployer perp_fixture = new_DeployHelper ''owner''"
proof -
  have "ether (1 / 100) = Some (10 ^ 16)" by (rule ether_ratio) simp
  then show ?thesis by (simp add: perp_fixture_def new_PerpV2Fixture_def)
qed

abbreviation perp_address :: "nat \<Rightarrow> address" where
  "perp_address n \<equiv> create_address perp_env ''owner'' n"

lemma perp_addresses:
  "isAscendingTokenOrder (perp_address 9) (perp_address 4)" "isAscendingTokenOrder (perp_address 14) (perp_address 4)"
  "\<not> isAscendingTokenOrder (perp_address 4) (perp_address 9)"
  "isAscendingTokenOrder (perp_address 14) (perp_address 9)"
  "valid_address (perp_address 4)" "valid_address (perp_address 9)" "valid_address (perp_address 14)"
  by code_simp+

lemma perp_tokens:
  "\<exists>t s' a b q. initialize_tokens perp_env perp_fixture maker trader genesis = Some (t, s') \<and> pf_vETH t = Some a \<and> pf_vBTC t = Some b \<and>
     pf_vQuote t = Some q \<and> cAddress a = perp_address 9 \<and> cAddress b = perp_address 14 \<and> cAddress q = perp_address 4"
proof -
  note runs = createBaseTokenFixture_runs [OF perp_fixture_simps perp_env_accepts]
  obtain u s1 where 1: "deployTokenMock perp_env (mocks (pf_deployer perp_fixture)) (pf_ownerAddress perp_fixture)
      (Some (100000000000000 * 10 ^ 18)) (Some 6) None None genesis = Some (u, s1)" "nonces s1 ''owner'' = 1"
    by (simp add: deployTokenMock_some deploy_def deploy_linked_def send_def perp_env_accepts perp_fixture_simps genesis_def
        new_DeployHelper_def Let_def)
  obtain f0 s2 where 2: "createBaseTokenFixture perp_env perp_fixture ''RandomTestToken0'' ''randomToken0'' s1 = Some (f0, s2)"
    "cAddress (baseToken f0) = perp_address 4" "nonces s2 ''owner'' = 6"
    using runs [of "''RandomTestToken0''" "''randomToken0''" s1] 1(2) by (auto simp: base_token_address_def)
  obtain f1 s3 where 3: "createBaseTokenFixture perp_env perp_fixture ''RandomTestToken1'' ''randomToken1'' s2 = Some (f1, s3)"
    "cAddress (baseToken f1) = perp_address 9" "nonces s3 ''owner'' = 11"
    using runs [of "''RandomTestToken1''" "''randomToken1''" s2] 2(3) by (auto simp: base_token_address_def)
  have addr: "base_token_address perp_env ''owner'' s3 0 = perp_address 14" using 3(3) by (simp add: base_token_address_def)
  obtain f s4 where 4: "token0Fixture perp_env perp_fixture (perp_address 4) s3 = Some (f, s4)" "cAddress (baseToken f) = perp_address 14"
    using token0_loop_finds [OF perp_fixture_simps perp_env_accepts, of None "perp_address 4" s3 0] addr perp_addresses(2)
    by (auto simp: token0Fixture_def)
  have "order_fixtures f0 f1 = \<lparr>token0 = baseToken f1, token1 = baseToken f0, mockAggregator0 = mockAggregator f1, mockAggregator1 = mockAggregator f0\<rparr>"
    using 2(2) 3(2) perp_addresses(3) by (simp add: order_fixtures_def)
  then have "tokensFixture perp_env perp_fixture s1 = Some (\<lparr>token0 = baseToken f1, token1 = baseToken f0, mockAggregator0 = mockAggregator f1, mockAggregator1 = mockAggregator f0\<rparr>, s3)"
    using 2(1) 3(1) by (simp add: tokensFixture_def)
  with 1(1) 4 2(2) 3(2) show ?thesis by (simp add: initialize_tokens_def)
qed

subsection \<open>Properties\<close>

text \<open>
  C34. The retry loop for the second base token: on a chain that accepts the transactions it returns exactly
  when some later creation address sorts below the quote token, and then with the first such token, after
  five transactions per attempt. Otherwise it never returns.
\<close>

theorem token_loop_returns_first_smaller_address:
  assumes "pf_deployer this = new_DeployHelper owner" and "\<And>ts t. accepts e ts t"
  shows "(case token0Fixture e this quote s of
      None \<Rightarrow> \<forall>k. \<not> isAscendingTokenOrder (base_token_address e owner s k) quote
    | Some (f, s') \<Rightarrow> \<exists>k. cAddress (baseToken f) = base_token_address e owner s k \<and>
        isAscendingTokenOrder (base_token_address e owner s k) quote \<and>
        (\<forall>j < k. \<not> isAscendingTokenOrder (base_token_address e owner s j) quote) \<and>
        length (txs s') = length (txs s) + 5 * (k + 1))"
proof (cases "\<exists>k. isAscendingTokenOrder (base_token_address e owner s k) quote")
  case True
  define k where "k = (LEAST k. isAscendingTokenOrder (base_token_address e owner s k) quote)"
  have k: "isAscendingTokenOrder (base_token_address e owner s k) quote"
    "\<forall>j < k. \<not> isAscendingTokenOrder (base_token_address e owner s j) quote"
    unfolding k_def using LeastI_ex [OF True] by (auto dest: not_less_Least)
  show ?thesis using token0_loop_finds [OF assms, of None quote s k] k by (auto simp: token0Fixture_def)
next
  case False
  then have "token0Fixture e this quote s = None"
    using token0_loop_diverges [OF assms, of quote None s] by (cases "token0Fixture e this quote s") (auto simp: token0Fixture_def)
  with False show ?thesis by simp
qed

theorem token_loop_returns_first_smaller_address_witness:
  "\<exists>f s'. token0Fixture perp_env perp_fixture (perp_address 4) \<lparr>nonces = \<lambda>_. 11, txs = []\<rparr> = Some (f, s') \<and>
     (\<exists>k. cAddress (baseToken f) = base_token_address perp_env ''owner'' \<lparr>nonces = \<lambda>_. 11, txs = []\<rparr> k)"
proof -
  let ?s = "\<lparr>nonces = \<lambda>_. 11, txs = []\<rparr> :: chain"
  have "isAscendingTokenOrder (base_token_address perp_env ''owner'' ?s 0) (perp_address 4)"
    using perp_addresses(2) by (simp add: base_token_address_def)
  then show ?thesis
    using token_loop_returns_first_smaller_address [OF perp_fixture_simps perp_env_accepts, where quote = "perp_address 4" and s = ?s]
    by (auto split: option.splits)
qed

text \<open>
  The fixture's assumption that (base, quote) is (token0, token1) of both pools: when
  \<^verbatim>\<open>initialize\<close> returns and the three token addresses are well formed and numerically distinct, both
  base tokens sort below the quote token, and each base token finds its own pool.
\<close>

lemma perp_base_tokens_sort_below_quote:
  assumes "PerpV2Fixture_initialize e this maker trader s = Some (this', s')"
    and "pf_vETH this' = Some a" and "pf_vBTC this' = Some b" and "pf_vQuote this' = Some q"
    and "list_all valid_address (map cAddress [a, b, q])" and "distinct (map (address_value \<circ> cAddress) [a, b, q])"
  shows "address_value (cAddress a) < address_value (cAddress q) \<and> address_value (cAddress b) < address_value (cAddress q) \<and>
    pf_pools this' (cAddress a) = pf_vETHPool this' \<and> pf_pools this' (cAddress b) = pf_vBTCPool this'"
proof -
  obtain t1 s1 t2 s2 t3 s3 t4 s4 where parts: "initialize_tokens e this maker trader s = Some (t1, s1)"
    "initialize_exchange e t1 s1 = Some (t2, s2)" "initialize_pools e t2 s2 = Some (t3, s3)"
    "initialize_clearing_house e t3 s3 = Some (t4, s4)" "initialize_collateral e t4 s4 = Some (this', s')"
    using assms(1) by (auto simp: PerpV2Fixture_initialize_def)
  have "t4 = this'" using parts(5) by (auto simp: initialize_collateral_def)
  note same = initialize_exchange_same [OF parts(2)] initialize_pools_result [OF parts(3)]
    initialize_clearing_house_result [OF parts(4), unfolded \<open>t4 = this'\<close>]
  have tokens: "pf_vETH t1 = Some a" "pf_vBTC t1 = Some b" "pf_vQuote t1 = Some q" "pf_vETH t2 = Some a" "pf_vBTC t2 = Some b"
    using same(1,2,4) assms(2-4) by (simp_all add: same_tokens_def)
  have "pf_pools this' = (pf_pools t2)(cAddress a := pf_vETHPool this', cAddress b := pf_vBTCPool this')"
    using same(3,4) tokens by auto
  moreover have "\<not> address_value (cAddress q) < address_value (cAddress a)" "address_value (cAddress b) < address_value (cAddress q)"
    using initialize_tokens_sorted [OF parts(1)] tokens assms(5) by (auto simp: isAscendingTokenOrder_def toLowerCase_less_iff)
  ultimately show ?thesis using assms(6) by auto
qed

lemma perp_base_tokens_sort_below_quote_instance:
  "\<exists>this' s' a q. PerpV2Fixture_initialize perp_env perp_fixture ''maker'' ''trader'' genesis = Some (this', s') \<and>
     pf_vETH this' = Some a \<and> pf_vQuote this' = Some q \<and> address_value (cAddress a) < address_value (cAddress q)"
proof -
  obtain t s1 a b q where t: "initialize_tokens perp_env perp_fixture ''maker'' ''trader'' genesis = Some (t, s1)"
    "pf_vETH t = Some a" "pf_vBTC t = Some b" "pf_vQuote t = Some q"
    and addr: "cAddress a = perp_address 9" "cAddress b = perp_address 14" "cAddress q = perp_address 4"
    using perp_tokens by blast
  obtain this' s' where run: "PerpV2Fixture_initialize perp_env perp_fixture ''maker'' ''trader'' genesis = Some (this', s')"
    "same_tokens t this'"
    using perp_initialize_succeeds [OF perp_env_accepts perp_env_pool perp_env_decimals t(1)] by blast
  have f: "pf_vETH this' = Some a" "pf_vBTC this' = Some b" "pf_vQuote this' = Some q"
    using run(2) t by (simp_all add: same_tokens_def)
  have "distinct (map (address_value \<circ> cAddress) [a, b, q])"
    using perp_addresses by (auto simp: addr isAscendingTokenOrder_def toLowerCase_less_iff)
  moreover have "list_all valid_address (map cAddress [a, b, q])" using perp_addresses by (simp add: addr)
  ultimately show ?thesis using perp_base_tokens_sort_below_quote [OF run(1) f] run f by blast
qed

text \<open>
  The clearing house is introduced everywhere: after \<^verbatim>\<open>initialize\<close> the three virtual tokens have minted to
  it and whitelisted it, and the registry, the order book, the exchange, the account balance and the vault
  have been told its address.
\<close>

lemma clearing_house_is_introduced:
  assumes "PerpV2Fixture_initialize e this maker trader s = Some (this', s')"
  shows "\<exists>house. pf_clearingHouse this' = Some house \<and> house_calls this' (cAddress house) \<subseteq> set (txs s')"
proof -
  obtain t3 s3 t4 s4 where parts: "initialize_clearing_house e t3 s3 = Some (t4, s4)" "initialize_collateral e t4 s4 = Some (this', s')"
    using assms by (auto simp: PerpV2Fixture_initialize_def)
  have "t4 = this'" using parts(2) by (auto simp: initialize_collateral_def)
  moreover have "house_calls t4 = house_calls t3"
    using parts(1) by (auto simp: initialize_clearing_house_def house_calls_def Let_def)
  moreover have "set (txs s4) \<subseteq> set (txs s')"
    using keepsD [OF initialize_collateral_keeps parts(2)] by (rule extends_txs)
  ultimately show ?thesis using initialize_clearing_house_calls [OF parts(1)] by fastforce
qed

lemma clearing_house_is_introduced_instance:
  "\<exists>this' s' house. PerpV2Fixture_initialize perp_env perp_fixture ''maker'' ''trader'' genesis = Some (this', s') \<and>
     pf_clearingHouse this' = Some house \<and> house_calls this' (cAddress house) \<subseteq> set (txs s')"
proof -
  obtain t s1 where "initialize_tokens perp_env perp_fixture ''maker'' ''trader'' genesis = Some (t, s1)" using perp_tokens by blast
  then obtain this' s' where run: "PerpV2Fixture_initialize perp_env perp_fixture ''maker'' ''trader'' genesis = Some (this', s')"
    using perp_initialize_succeeds [OF perp_env_accepts perp_env_pool perp_env_decimals] by blast
  from clearing_house_is_introduced [OF run] run show ?thesis by blast
qed

text \<open>
  The spot price is the square of the root price with 18 decimals, rounded down, and exact on root
  prices that are whole multiples of 2 to the 96. It is never negative and never fails.
\<close>

lemma spot_price_is_floored_square:
  "\<exists>v. getPriceFromSqrtPriceX96 p = Some v \<and> 0 \<le> v \<and> v * 2 ^ 192 \<le> p * p * 10 ^ 18 \<and> p * p * 10 ^ 18 < (v + 1) * 2 ^ 192 \<and>
     getPriceFromSqrtPriceX96 (n * 2 ^ 96) = Some (n * n * 10 ^ 18)"
proof -
  have floor: "getPriceFromSqrtPriceX96 x = Some (x * x * 10 ^ 18 div 2 ^ 192)" for x
    by (simp add: getPriceFromSqrtPriceX96_def Let_def sdiv_nonneg)
  have "(2 :: int) ^ 192 > 0" by simp
  note bounds = floor_div_bounds [OF this, of "p * p * 10 ^ 18"]
  have "n * 2 ^ 96 * (n * 2 ^ 96) * 10 ^ 18 = n * n * 10 ^ 18 * 2 ^ 192" by simp
  then have "getPriceFromSqrtPriceX96 (n * 2 ^ 96) = Some (n * n * 10 ^ 18)" unfolding floor by (simp only:) simp
  moreover have "0 \<le> p * p * 10 ^ 18 div 2 ^ 192" by (simp add: pos_imp_zdiv_nonneg_iff)
  ultimately show ?thesis using floor [of p] bounds by (simp add: algebra_simps)
qed

end
