(* ===== verification/Timelock_Contract.thy ===== *)
theory Timelock_Contract
  imports Math_Utils "HOL-Library.Countable"
begin

section \<open>The Timelock the Compound fixture drives: external/contracts/compound/CompoundTimelock.sol\<close>

text \<open>
  Every function of the contract that changes state. Block time is an argument; the hash of the encoded
  transaction and the packing of a signature with its data are parameters, and so is the effect of the
  call the Timelock makes to the target. Numbers are integers below 2 to the 256, and the additions of
  SafeMath revert at the bound.
\<close>

record timelock_tx =
  tt_target :: address
  tt_value :: int
  tt_signature :: string
  tt_data :: bytes
  tt_eta :: int

record timelock_state =
  tl_self :: address
  tl_admin :: address
  tl_pendingAdmin :: address
  tl_delay :: int
  queuedTransactions :: "bytes \<Rightarrow> bool"

definition GRACE_PERIOD :: int where "GRACE_PERIOD = 14 * ONE_DAY_IN_SECONDS"

definition MINIMUM_DELAY :: int where "MINIMUM_DELAY = 2 * ONE_DAY_IN_SECONDS"

definition MAXIMUM_DELAY :: int where "MAXIMUM_DELAY = 30 * ONE_DAY_IN_SECONDS"

definition add_uint :: "int \<Rightarrow> int \<Rightarrow> int sol" where
  "add_uint a b = (if a + b < 2 ^ 256 then Inr (a + b) else Inl ''SafeMath: addition overflow'')"

subsection \<open>Operations\<close>

definition new_Timelock :: "address \<Rightarrow> address \<Rightarrow> int \<Rightarrow> timelock_state sol" where
  "new_Timelock self admin delay =
     (if delay < MINIMUM_DELAY then Inl ''Timelock::constructor: Delay must exceed minimum delay.''
      else if delay > MAXIMUM_DELAY then Inl ''Timelock::setDelay: Delay must not exceed maximum delay.''
      else Inr \<lparr>tl_self = self, tl_admin = admin, tl_pendingAdmin = ADDRESS_ZERO, tl_delay = delay,
        queuedTransactions = \<lambda>_. False\<rparr>)"

definition setDelay :: "address \<Rightarrow> int \<Rightarrow> timelock_state \<Rightarrow> timelock_state sol" where
  "setDelay sender delay st =
     (if sender \<noteq> tl_self st then Inl ''Timelock::setDelay: Call must come from Timelock.''
      else if delay < MINIMUM_DELAY then Inl ''Timelock::setDelay: Delay must exceed minimum delay.''
      else if delay > MAXIMUM_DELAY then Inl ''Timelock::setDelay: Delay must not exceed maximum delay.''
      else Inr (st\<lparr>tl_delay := delay\<rparr>))"

definition acceptAdmin :: "address \<Rightarrow> timelock_state \<Rightarrow> timelock_state sol" where
  "acceptAdmin sender st =
     (if sender \<noteq> tl_pendingAdmin st then Inl ''Timelock::acceptAdmin: Call must come from pendingAdmin.''
      else Inr (st\<lparr>tl_admin := sender, tl_pendingAdmin := ADDRESS_ZERO\<rparr>))"

definition setPendingAdmin :: "address \<Rightarrow> address \<Rightarrow> timelock_state \<Rightarrow> timelock_state sol" where
  "setPendingAdmin sender pendingAdmin st =
     (if sender \<noteq> tl_self st then Inl ''Timelock::setPendingAdmin: Call must come from Timelock.''
      else Inr (st\<lparr>tl_pendingAdmin := pendingAdmin\<rparr>))"

definition queueTransaction :: "(timelock_tx \<Rightarrow> bytes) \<Rightarrow> int \<Rightarrow> address \<Rightarrow> timelock_tx \<Rightarrow> timelock_state \<Rightarrow> timelock_state sol" where
  "queueTransaction hash now sender t st =
     (if sender \<noteq> tl_admin st then Inl ''Timelock::queueTransaction: Call must come from admin.''
      else case add_uint now (tl_delay st) of Inl m \<Rightarrow> Inl m | Inr earliest \<Rightarrow>
        (if tt_eta t < earliest then Inl ''Timelock::queueTransaction: Estimated execution block must satisfy delay.''
         else Inr (st\<lparr>queuedTransactions := (queuedTransactions st)(hash t := True)\<rparr>)))"

definition cancelTransaction :: "(timelock_tx \<Rightarrow> bytes) \<Rightarrow> address \<Rightarrow> timelock_tx \<Rightarrow> timelock_state \<Rightarrow> timelock_state sol" where
  "cancelTransaction hash sender t st =
     (if sender \<noteq> tl_admin st then Inl ''Timelock::cancelTransaction: Call must come from admin.''
      else Inr (st\<lparr>queuedTransactions := (queuedTransactions st)(hash t := False)\<rparr>))"

text \<open>The checks of \<^verbatim>\<open>executeTransaction\<close>, up to the removal from the queue.\<close>

definition begin_execute :: "(timelock_tx \<Rightarrow> bytes) \<Rightarrow> int \<Rightarrow> address \<Rightarrow> timelock_tx \<Rightarrow> timelock_state \<Rightarrow> timelock_state sol" where
  "begin_execute hash now sender t st =
     (if sender \<noteq> tl_admin st then Inl ''Timelock::executeTransaction: Call must come from admin.''
      else if \<not> queuedTransactions st (hash t) then Inl ''Timelock::executeTransaction: Transaction hasn't been queued.''
      else if now < tt_eta t then Inl ''Timelock::executeTransaction: Transaction hasn't surpassed time lock.''
      else case add_uint (tt_eta t) GRACE_PERIOD of Inl m \<Rightarrow> Inl m | Inr latest \<Rightarrow>
        (if now > latest then Inl ''Timelock::executeTransaction: Transaction is stale.''
         else Inr (st\<lparr>queuedTransactions := (queuedTransactions st)(hash t := False)\<rparr>)))"

definition executeTransaction :: "(timelock_tx \<Rightarrow> bytes) \<Rightarrow> (string \<Rightarrow> bytes \<Rightarrow> bytes) \<Rightarrow>
    (address \<Rightarrow> int \<Rightarrow> bytes \<Rightarrow> timelock_state \<Rightarrow> timelock_state option) \<Rightarrow>
    int \<Rightarrow> address \<Rightarrow> timelock_tx \<Rightarrow> timelock_state \<Rightarrow> timelock_state sol" where
  "executeTransaction hash encodePacked callee now sender t st =
     (case begin_execute hash now sender t st of Inl m \<Rightarrow> Inl m | Inr st \<Rightarrow>
       (let callData = (if tt_signature t = '''' then tt_data t else encodePacked (tt_signature t) (tt_data t))
        in case callee (tt_target t) (tt_value t) callData st of
             None \<Rightarrow> Inl ''Timelock::executeTransaction: Transaction execution reverted.''
           | Some st' \<Rightarrow> Inr st'))"

subsection \<open>Runs of the contract\<close>

text \<open>
  A run is a sequence of calls by anybody at non-decreasing times, with a log of what was queued, cancelled
  and executed. An execution is its checks followed by whatever the target does, which can only be further
  calls of the contract; they are steps of their own.
\<close>

datatype timelock_event =
    Queued timelock_tx int
  | Cancelled timelock_tx
  | Executed timelock_tx int

inductive timelock_run :: "(timelock_tx \<Rightarrow> bytes) \<Rightarrow> int \<Rightarrow> timelock_state \<Rightarrow> timelock_event list \<Rightarrow> bool" for hash where
  deployed: "new_Timelock self admin delay = Inr st \<Longrightarrow> timelock_run hash now st []"
| later: "timelock_run hash now st evs \<Longrightarrow> now \<le> now' \<Longrightarrow> timelock_run hash now' st evs"
| set_delay: "timelock_run hash now st evs \<Longrightarrow> setDelay sender d st = Inr st' \<Longrightarrow> timelock_run hash now st' evs"
| accept: "timelock_run hash now st evs \<Longrightarrow> acceptAdmin sender st = Inr st' \<Longrightarrow> timelock_run hash now st' evs"
| set_pending: "timelock_run hash now st evs \<Longrightarrow> setPendingAdmin sender a st = Inr st' \<Longrightarrow> timelock_run hash now st' evs"
| queued: "timelock_run hash now st evs \<Longrightarrow> queueTransaction hash now sender t st = Inr st' \<Longrightarrow>
    timelock_run hash now st' (evs @ [Queued t now])"
| cancelled: "timelock_run hash now st evs \<Longrightarrow> cancelTransaction hash sender t st = Inr st' \<Longrightarrow>
    timelock_run hash now st' (evs @ [Cancelled t])"
| executed: "timelock_run hash now st evs \<Longrightarrow> begin_execute hash now sender t st = Inr st' \<Longrightarrow>
    timelock_run hash now st' (evs @ [Executed t now])"

fun queue_count :: "timelock_tx \<Rightarrow> timelock_event list \<Rightarrow> nat" where
  "queue_count t [] = 0"
| "queue_count t (Queued u n # evs) = (if u = t then 1 else 0) + queue_count t evs"
| "queue_count t (_ # evs) = queue_count t evs"

fun execute_count :: "timelock_tx \<Rightarrow> timelock_event list \<Rightarrow> nat" where
  "execute_count t [] = 0"
| "execute_count t (Executed u n # evs) = (if u = t then 1 else 0) + execute_count t evs"
| "execute_count t (_ # evs) = execute_count t evs"

lemma queue_count_append [simp]: "queue_count t (evs @ evs') = queue_count t evs + queue_count t evs'"
  by (induction t evs rule: queue_count.induct) auto

lemma execute_count_append [simp]: "execute_count t (evs @ evs') = execute_count t evs + execute_count t evs'"
  by (induction t evs rule: execute_count.induct) auto

subsection \<open>The invariant\<close>

definition waited :: "timelock_event list \<Rightarrow> timelock_tx \<Rightarrow> int \<Rightarrow> bool" where
  "waited evs t now \<longleftrightarrow> (\<exists>q. Queued t q \<in> set evs \<and> q + MINIMUM_DELAY \<le> tt_eta t \<and> tt_eta t \<le> now \<and> now \<le> tt_eta t + GRACE_PERIOD)"

definition timelock_inv :: "(timelock_tx \<Rightarrow> bytes) \<Rightarrow> timelock_state \<Rightarrow> timelock_event list \<Rightarrow> bool" where
  "timelock_inv hash st evs \<longleftrightarrow>
     MINIMUM_DELAY \<le> tl_delay st \<and> tl_delay st \<le> MAXIMUM_DELAY \<and>
     (\<forall>t. queuedTransactions st (hash t) \<longrightarrow> (\<exists>q. Queued t q \<in> set evs \<and> q + MINIMUM_DELAY \<le> tt_eta t)) \<and>
     (\<forall>t. execute_count t evs \<le> queue_count t evs) \<and>
     (\<forall>t. queuedTransactions st (hash t) \<longrightarrow> execute_count t evs < queue_count t evs) \<and>
     (\<forall>t n. Executed t n \<in> set evs \<longrightarrow> waited evs t n)"

lemma waited_append: "waited evs t n \<Longrightarrow> waited (evs @ evs') t n"
  by (auto simp: waited_def)

lemma timelock_inv_new: "new_Timelock self admin delay = Inr st \<Longrightarrow> timelock_inv hash st []"
  by (auto simp: new_Timelock_def timelock_inv_def split: if_splits)

lemma timelock_inv_admin:
  "timelock_inv hash st evs \<Longrightarrow> setDelay sender d st = Inr st' \<Longrightarrow> timelock_inv hash st' evs"
  "timelock_inv hash st evs \<Longrightarrow> acceptAdmin sender st = Inr st' \<Longrightarrow> timelock_inv hash st' evs"
  "timelock_inv hash st evs \<Longrightarrow> setPendingAdmin sender a st = Inr st' \<Longrightarrow> timelock_inv hash st' evs"
  by (auto simp: setDelay_def acceptAdmin_def setPendingAdmin_def timelock_inv_def split: if_splits)

lemma queueTransaction_Inr:
  "queueTransaction hash now sender t st = Inr st' \<longleftrightarrow> sender = tl_admin st \<and> now + tl_delay st < 2 ^ 256 \<and>
     now + tl_delay st \<le> tt_eta t \<and> st' = st\<lparr>queuedTransactions := (queuedTransactions st)(hash t := True)\<rparr>"
  by (auto simp: queueTransaction_def add_uint_def)

lemma begin_execute_Inr:
  "begin_execute hash now sender t st = Inr st' \<longleftrightarrow> sender = tl_admin st \<and> queuedTransactions st (hash t) \<and>
     tt_eta t \<le> now \<and> tt_eta t + GRACE_PERIOD < 2 ^ 256 \<and> now \<le> tt_eta t + GRACE_PERIOD \<and>
     st' = st\<lparr>queuedTransactions := (queuedTransactions st)(hash t := False)\<rparr>"
  by (auto simp: begin_execute_def add_uint_def)

lemma timelock_inv_queue:
  assumes "inj hash" "timelock_inv hash st evs" "queueTransaction hash now sender t st = Inr st'"
  shows "timelock_inv hash st' (evs @ [Queued t now])"
proof -
  have st': "st' = st\<lparr>queuedTransactions := (queuedTransactions st)(hash t := True)\<rparr>" and eta: "now + MINIMUM_DELAY \<le> tt_eta t"
    using assms(2,3) by (auto simp: queueTransaction_Inr timelock_inv_def)
  show ?thesis
    using assms(2) eta by (auto simp: timelock_inv_def st' inj_eq [OF assms(1)] less_Suc_eq_le le_SucI intro: waited_append)
qed

lemma timelock_inv_clear:
  assumes "inj hash" "timelock_inv hash st evs"
  shows "timelock_inv hash (st\<lparr>queuedTransactions := (queuedTransactions st)(hash t := False)\<rparr>) evs"
  using assms by (auto simp: timelock_inv_def inj_eq [OF assms(1)])

lemma timelock_inv_cancel:
  assumes "inj hash" "timelock_inv hash st evs" "cancelTransaction hash sender t st = Inr st'"
  shows "timelock_inv hash st' (evs @ [Cancelled t])"
proof -
  have "timelock_inv hash st' evs"
    using timelock_inv_clear [OF assms(1,2)] assms(3) by (auto simp: cancelTransaction_def split: if_splits)
  then show ?thesis by (auto simp: timelock_inv_def intro: waited_append)
qed

lemma timelock_inv_execute:
  assumes "inj hash" "timelock_inv hash st evs" "begin_execute hash now sender t st = Inr st'"
  shows "timelock_inv hash st' (evs @ [Executed t now])"
proof -
  have ex: "queuedTransactions st (hash t)" "tt_eta t \<le> now" "now \<le> tt_eta t + GRACE_PERIOD"
    and st': "st' = st\<lparr>queuedTransactions := (queuedTransactions st)(hash t := False)\<rparr>"
    using assms(3) by (auto simp: begin_execute_Inr)
  have inv: "timelock_inv hash st' evs" unfolding st' by (rule timelock_inv_clear [OF assms(1,2)])
  have "waited evs t now" using assms(2) ex by (auto simp: timelock_inv_def waited_def)
  moreover have "execute_count t evs < queue_count t evs"
    using assms(2) ex(1) by (simp add: timelock_inv_def)
  moreover have "\<not> queuedTransactions st' (hash t)" by (simp add: st')
  ultimately show ?thesis using inv by (auto simp: timelock_inv_def intro: waited_append)
qed

lemma timelock_run_inv: "timelock_run hash now st evs \<Longrightarrow> inj hash \<Longrightarrow> timelock_inv hash st evs"
  by (induction rule: timelock_run.induct)
    (blast intro: timelock_inv_new timelock_inv_admin timelock_inv_queue timelock_inv_cancel timelock_inv_execute)+

text \<open>A complete execution is a run when its target only calls the contract back.\<close>

lemma executeTransaction_run:
  assumes "timelock_run hash now st evs" and "executeTransaction hash encodePacked callee now sender t st = Inr st'"
    and "\<And>a v d st1 st2 evs1. timelock_run hash now st1 evs1 \<Longrightarrow> callee a v d st1 = Some st2 \<Longrightarrow> \<exists>evs2. timelock_run hash now st2 (evs1 @ evs2)"
  shows "\<exists>evs'. timelock_run hash now st' (evs @ Executed t now # evs')"
proof -
  obtain st1 where st1: "begin_execute hash now sender t st = Inr st1"
    and callee: "\<exists>d. callee (tt_target t) (tt_value t) d st1 = Some st'"
    using assms(2) by (auto simp: executeTransaction_def Let_def split: sum.splits option.splits)
  have "timelock_run hash now st1 (evs @ [Executed t now])" by (rule timelock_run.executed [OF assms(1) st1])
  with callee assms(3) obtain evs2 where "timelock_run hash now st' ((evs @ [Executed t now]) @ evs2)" by blast
  then show ?thesis by auto
qed

subsection \<open>Properties\<close>

text \<open>A concrete injective hash.\<close>

definition unary_hash :: "timelock_tx \<Rightarrow> bytes" where
  "unary_hash t = replicate (to_nat (tt_target t, tt_value t, tt_signature t, tt_data t, tt_eta t)) (CHR ''h'')"

lemma inj_unary_hash: "inj unary_hash"
  by (rule injI) (simp add: unary_hash_def replicate_eq_replicate timelock_tx.equality)

definition sample_tx :: timelock_tx where
  "sample_tx = \<lparr>tt_target = ''timelock'', tt_value = 0, tt_signature = [], tt_data = ''0x'', tt_eta = 172801\<rparr>"

text \<open>
  C35. The Timelock enforces its delay: in every run by any callers, if transaction hashes do not collide, the
  delay stays between two and thirty days, a transaction is executed only after it was queued at least the
  minimum delay earlier, not before its time and at most the grace period after it, and never more often
  than it was queued.
\<close>

theorem timelock_enforces_delay:
  assumes "inj hash" and "timelock_run hash now st evs"
  shows "2 * ONE_DAY_IN_SECONDS \<le> tl_delay st \<and> tl_delay st \<le> 30 * ONE_DAY_IN_SECONDS \<and>
    execute_count t evs \<le> queue_count t evs \<and>
    (\<forall>n. Executed t n \<in> set evs \<longrightarrow> (\<exists>q. Queued t q \<in> set evs \<and> q + 2 * ONE_DAY_IN_SECONDS \<le> n \<and>
      tt_eta t \<le> n \<and> n \<le> tt_eta t + 14 * ONE_DAY_IN_SECONDS))"
proof -
  have inv: "timelock_inv hash st evs" by (rule timelock_run_inv [OF assms(2,1)])
  then have "execute_count t evs \<le> queue_count t evs" by (simp add: timelock_inv_def)
  moreover have "\<exists>q. Queued t q \<in> set evs \<and> q + 2 * ONE_DAY_IN_SECONDS \<le> n \<and> tt_eta t \<le> n \<and> n \<le> tt_eta t + 14 * ONE_DAY_IN_SECONDS"
    if "Executed t n \<in> set evs" for n
  proof -
    from that inv have "waited evs t n" by (simp add: timelock_inv_def)
    then show ?thesis by (fastforce simp: waited_def MINIMUM_DELAY_def GRACE_PERIOD_def)
  qed
  ultimately show ?thesis using inv by (auto simp: timelock_inv_def MINIMUM_DELAY_def MAXIMUM_DELAY_def)
qed

theorem timelock_enforces_delay_witness:
  "\<exists>st evs. timelock_run unary_hash 172802 st evs \<and> Executed sample_tx 172802 \<in> set evs \<and>
     execute_count sample_tx evs \<le> queue_count sample_tx evs"
proof -
  note defs = MINIMUM_DELAY_def MAXIMUM_DELAY_def GRACE_PERIOD_def ONE_DAY_IN_SECONDS_def sample_tx_def
  obtain st where st: "new_Timelock ''timelock'' ''admin'' 172800 = Inr st" "tl_admin st = ''admin''" "tl_delay st = 172800"
    by (simp add: new_Timelock_def defs)
  obtain st1 where st1: "queueTransaction unary_hash 0 ''admin'' sample_tx st = Inr st1"
    "st1 = st\<lparr>queuedTransactions := (queuedTransactions st)(unary_hash sample_tx := True)\<rparr>"
    using st by (simp add: queueTransaction_Inr) (simp add: defs)
  obtain st2 where st2: "begin_execute unary_hash 172802 ''admin'' sample_tx st1 = Inr st2"
    using st st1(2) by (simp add: begin_execute_Inr) (simp add: defs)
  have "timelock_run unary_hash 0 st1 ([] @ [Queued sample_tx 0])"
    by (rule timelock_run.queued [OF timelock_run.deployed [OF st(1)] st1(1)])
  then have "timelock_run unary_hash 172802 st1 ([] @ [Queued sample_tx 0])" by (rule timelock_run.later) simp
  from timelock_run.executed [OF this st2]
  have run: "timelock_run unary_hash 172802 st2 [Queued sample_tx 0, Executed sample_tx 172802]" by simp
  with timelock_enforces_delay [OF inj_unary_hash run, of sample_tx] show ?thesis
    by (intro exI [of _ st2] exI [of _ "[Queued sample_tx 0, Executed sample_tx 172802]"]) simp
qed

end
