(* ===== verification/Protocol_Fixtures.thy ===== *)
theory Protocol_Fixtures
  imports Deploy_External Deploy_Mocks Dependencies Timelock_Contract
begin

section \<open>Fixtures of lending and vault protocols: yearnFixture.ts, curveFixture.ts, compoundFixture.ts, aaveV2Fixture.ts\<close>

text \<open>
  As in the other fixtures an account is its address and an unassigned class field is \<open>None\<close>. Optional
  parameters of a method are options; their defaults are read from the fixture as the source does. The calldata
  encoder of ethers and the random wallets are arguments (\<open>random n\<close> is the address of the \<open>n\<close>-th one).
  Requests to the Hardhat node that change its clock are entries of the history like transactions, sent by
  \<open>node_account\<close>, so that block times can depend on them.
\<close>

subsection \<open>yearnFixture.ts\<close>

record YearnFixture =
  yf_deployer :: DeployHelper
  yf_ownerAddress :: address
  yf_ownerSigner :: address
  yf_registry :: "contract option"

definition new_YearnFixture :: "address \<Rightarrow> YearnFixture" where
  "new_YearnFixture ownerAddress = \<lparr>yf_deployer = new_DeployHelper ownerAddress, yf_ownerAddress = ownerAddress,
     yf_ownerSigner = ownerAddress, yf_registry = None\<rparr>"

definition YearnFixture_initialize :: "env \<Rightarrow> YearnFixture \<Rightarrow> chain \<Rightarrow> YearnFixture result" where
  "YearnFixture_initialize e this s = do {
     (registry, s) \<leftarrow> deployRegistry e (external (yf_deployer this)) s;
     Some (this\<lparr>yf_registry := Some registry\<rparr>, s)
   }"

definition createAndEnableVaultWithStrategyMock :: "env \<Rightarrow> YearnFixture \<Rightarrow> address \<Rightarrow> address \<Rightarrow> address \<Rightarrow> address \<Rightarrow> string \<Rightarrow>
    string \<Rightarrow> int \<Rightarrow> chain \<Rightarrow> contract result" where
  "createAndEnableVaultWithStrategyMock e this underlying governance guardian rewards name symbol depositLimit s = do {
     let d = external (yf_deployer this);
     (emptyVault, s) \<leftarrow> deployVault e d s;
     s \<leftarrow> call e emptyVault ''initialize(address,address,address,string,string,address)''
       [Addr underlying, Addr governance, Addr rewards, Str name, Str symbol, Addr guardian] s;
     s \<leftarrow> call e emptyVault ''setGovernance'' [Addr (yf_ownerAddress this)] s;
     s \<leftarrow> call e emptyVault ''acceptGovernance'' [] s;
     registry \<leftarrow> yf_registry this;
     s \<leftarrow> call e registry ''newRelease'' [Addr (cAddress emptyVault)] s;
     s \<leftarrow> call e registry ''newVault(address,address,address,string,string)''
       [Addr underlying, Addr guardian, Addr rewards, Str name, Str symbol] s;
     vaultAddress \<leftarrow> as_addr (view e registry ''latestVault'' [Addr underlying] s);
     let vault = getVault d vaultAddress;
     s \<leftarrow> call e vault ''setDepositLimit'' [Num depositLimit] s;
     s \<leftarrow> call e vault ''setManagementFee'' [Num 0] s;
     (strategy, s) \<leftarrow> deployYearnStrategyMock e (mocks (yf_deployer this)) (cAddress vault) s;
     s \<leftarrow> call e vault ''addStrategy'' [Addr (cAddress strategy), Num 9800, Num 0, Num 1000, Num 0] s;
     s \<leftarrow> call e strategy ''setKeeper'' [Addr (yf_ownerAddress this)] s;
     s \<leftarrow> call e strategy ''setRewards'' [Addr rewards] s;
     Some (vault, s)
   }"

subsection \<open>curveFixture.ts\<close>

record CurveFixture =
  cf_deployer :: DeployHelper
  cf_ownerSigner :: address
  cf_poolToken :: "contract option"
  cf_stableSwap :: "contract option"
  cf_deposit :: "contract option"
  cf_crvToken :: "contract option"
  cf_gaugeController :: "contract option"
  cf_minter :: "contract option"

definition new_CurveFixture :: "address \<Rightarrow> CurveFixture" where
  "new_CurveFixture ownerAddress = \<lparr>cf_deployer = new_DeployHelper ownerAddress, cf_ownerSigner = ownerAddress,
     cf_poolToken = None, cf_stableSwap = None, cf_deposit = None, cf_crvToken = None, cf_gaugeController = None, cf_minter = None\<rparr>"

definition initializePool :: "env \<Rightarrow> CurveFixture \<Rightarrow> string list \<Rightarrow> chain \<Rightarrow> CurveFixture result" where
  "initializePool e this tokens s = do {
     let d = external (cf_deployer this);
     (poolToken, s) \<leftarrow> deployCurvePoolERC20 e d ''Curve.fi DAI/USDC/USDT/sUSD'' ''crvUSD'' (Some 18) 0 s;
     (stableSwap, s) \<leftarrow> deployStableswap e d tokens tokens (cAddress poolToken) None None s;
     (deposit, s) \<leftarrow> deployCurveDeposit e d tokens tokens (cAddress stableSwap) (cAddress poolToken) s;
     s \<leftarrow> call e poolToken ''set_minter'' [Addr (cAddress stableSwap)] s;
     Some (this\<lparr>cf_poolToken := Some poolToken, cf_stableSwap := Some stableSwap, cf_deposit := Some deposit\<rparr>, s)
   }"

definition initializeDAO :: "env \<Rightarrow> CurveFixture \<Rightarrow> chain \<Rightarrow> CurveFixture result" where
  "initializeDAO e this s = do {
     let d = external (cf_deployer this);
     (crvToken, s) \<leftarrow> deployCrvToken e d ''Curve DAO Token'' ''CRV'' None s;
     (gaugeController, s) \<leftarrow> deployGaugeController e d (cAddress crvToken) (cAddress crvToken) s;
     weight \<leftarrow> ether (1 / 2);
     s \<leftarrow> call e gaugeController ''add_type(string,uint256)'' [Str ''Liquidity'', Num weight] s;
     (minter, s) \<leftarrow> deployMinter e d (cAddress crvToken) (cAddress gaugeController) s;
     s \<leftarrow> call e crvToken ''set_minter'' [Addr (cAddress minter)] s;
     Some (this\<lparr>cf_crvToken := Some crvToken, cf_gaugeController := Some gaugeController, cf_minter := Some minter\<rparr>, s)
   }"

definition initializeGauge :: "env \<Rightarrow> CurveFixture \<Rightarrow> string \<Rightarrow> chain \<Rightarrow> contract result" where
  "initializeGauge e this lpToken s = do {
     minter \<leftarrow> cf_minter this;
     (gauge, s) \<leftarrow> deployLiquidityGauge e (external (cf_deployer this)) lpToken (cAddress minter) s;
     gaugeController \<leftarrow> cf_gaugeController this;
     weight \<leftarrow> ether 1;
     s \<leftarrow> call e gaugeController ''add_gauge(address,int128,uint256)'' [Addr (cAddress gauge), Num 0, Num weight] s;
     Some (gauge, s)
   }"

definition initializeGaugeRewards :: "env \<Rightarrow> CurveFixture \<Rightarrow> string \<Rightarrow> string \<Rightarrow> string \<Rightarrow> chain \<Rightarrow> contract result" where
  "initializeGaugeRewards e this lpToken rewardContract rewardedToken s = do {
     minter \<leftarrow> cf_minter this;
     (gauge, s) \<leftarrow> deployLiquidityGaugeReward e (external (cf_deployer this)) lpToken (cAddress minter) rewardContract rewardedToken s;
     gaugeController \<leftarrow> cf_gaugeController this;
     weight \<leftarrow> ether 1;
     s \<leftarrow> call e gaugeController ''add_gauge(address,int128,uint256)'' [Addr (cAddress gauge), Num 0, Num weight] s;
     Some (gauge, s)
   }"

definition getForkedCurveStEthStableswapPool :: "CurveFixture \<Rightarrow> contract option" where
  "getForkedCurveStEthStableswapPool this = getCurveStEthStableswapMock (external (cf_deployer this))"

definition getForkedWethStethCurveStableswapPool :: "CurveFixture \<Rightarrow> contract option" where
  "getForkedWethStethCurveStableswapPool this = getCurveWethStethStableswapMock (external (cf_deployer this))"

subsection \<open>compoundFixture.ts\<close>

record CompoundFixture =
  co_deployer :: DeployHelper
  co_ownerAddress :: address
  co_ownerSigner :: address
  co_unitroller :: "contract option"
  co_comp :: "contract option"
  co_compoundTimelock :: "contract option"
  co_compoundGovernorAlpha :: "contract option"
  co_compoundGovernorBravoDelegate :: "contract option"
  co_compoundGovernorBravoDelegator :: "contract option"
  co_comptroller :: "contract option"
  co_interestRateModel :: "contract option"
  co_priceOracle :: "contract option"
  co_priceOracleProxy :: "contract option"

definition new_CompoundFixture :: "address \<Rightarrow> CompoundFixture" where
  "new_CompoundFixture ownerAddress = \<lparr>co_deployer = new_DeployHelper ownerAddress, co_ownerAddress = ownerAddress,
     co_ownerSigner = ownerAddress, co_unitroller = None, co_comp = None, co_compoundTimelock = None,
     co_compoundGovernorAlpha = None, co_compoundGovernorBravoDelegate = None, co_compoundGovernorBravoDelegator = None,
     co_comptroller = None, co_interestRateModel = None, co_priceOracle = None, co_priceOracleProxy = None\<rparr>"

definition CompoundFixture_initialize :: "env \<Rightarrow> CompoundFixture \<Rightarrow> chain \<Rightarrow> CompoundFixture result" where
  "CompoundFixture_initialize e this s = do {
     let d = external (co_deployer this);
     (priceOracle, s) \<leftarrow> deployCompoundPriceOracleMock e d s;
     (priceOracleProxy, s) \<leftarrow> deployPriceOracleProxy e d ADDRESS_ZERO (cAddress priceOracle) ADDRESS_ZERO ADDRESS_ZERO
       ADDRESS_ZERO ADDRESS_ZERO ADDRESS_ZERO s;
     (unitroller, s) \<leftarrow> deployUnitroller e d s;
     (comptroller, s) \<leftarrow> deployComptroller e d s;
     s \<leftarrow> call e unitroller ''_setPendingImplementation'' [Addr (cAddress comptroller)] s;
     s \<leftarrow> call e comptroller ''_become'' [Addr (cAddress unitroller), Num 0, Lst [], Lst []] s;
     s \<leftarrow> call e comptroller ''_setPriceOracle'' [Addr (cAddress priceOracle)] s;
     s \<leftarrow> call e comptroller ''_setMaxAssets'' [Num 10] s;
     closeFactor \<leftarrow> ether (1 / 2);
     s \<leftarrow> call e comptroller ''_setCloseFactor'' [Num closeFactor] s;
     incentive \<leftarrow> ether (108 / 100);
     s \<leftarrow> call e comptroller ''_setLiquidationIncentive'' [Num incentive] s;
     rate \<leftarrow> ether 1;
     (interestRateModel, s) \<leftarrow> deployWhitePaperInterestRateModel e d rate rate s;
     (comp', s) \<leftarrow> deployComp e d (co_ownerAddress this) s;
     amount \<leftarrow> ether 400000;
     s \<leftarrow> call e comp' ''transfer'' [Addr (cAddress comptroller), Num amount] s;
     (timelock, s) \<leftarrow> deployCompoundTimelock e d (co_ownerAddress this) (ONE_DAY_IN_SECONDS * 2) s;
     (alpha, s) \<leftarrow> deployCompoundGovernorAlpha e d (cAddress timelock) (cAddress comp') (co_ownerAddress this) s;
     Some (this\<lparr>co_priceOracle := Some priceOracle, co_priceOracleProxy := Some priceOracleProxy,
       co_unitroller := Some unitroller, co_comptroller := Some comptroller, co_interestRateModel := Some interestRateModel,
       co_comp := Some comp', co_compoundTimelock := Some timelock, co_compoundGovernorAlpha := Some alpha\<rparr>, s)
   }"

definition node_account :: address where
  "node_account = ''hardhat''"

definition increaseTime :: "env \<Rightarrow> int \<Rightarrow> chain \<Rightarrow> chain option" where
  "increaseTime e duration s = do {
     s \<leftarrow> send e (Call node_account node_account ''evm_increaseTime'' [Num duration]) s;
     send e (Call node_account node_account ''evm_mine'' []) s
   }"

definition initializeGovernorBravo :: "(string \<Rightarrow> arg list \<Rightarrow> bytes) \<Rightarrow> env \<Rightarrow> CompoundFixture \<Rightarrow> chain \<Rightarrow> CompoundFixture result" where
  "initializeGovernorBravo encodeFunctionData e this s = do {
     let d = external (co_deployer this);
     (delegate, s) \<leftarrow> deployCompoundGovernorBravoDelegate e d s;
     timelock \<leftarrow> co_compoundTimelock this;
     comp' \<leftarrow> co_comp this;
     threshold \<leftarrow> ether 100000;
     (delegator, s) \<leftarrow> deployCompoundGovernorBravoDelegator e d (cAddress timelock) (cAddress comp') (co_ownerAddress this)
       (cAddress delegate) 10000 1 threshold s;
     let setAdminData = encodeFunctionData ''setPendingAdmin'' [Addr (cAddress delegator)];
     let eta = latest_timestamp e (txs s) + ONE_DAY_IN_SECONDS * 2 + 1;
     s \<leftarrow> call e timelock ''queueTransaction'' [Addr (cAddress timelock), Num 0, Str [], Bytes setAdminData, Num eta] s;
     s \<leftarrow> increaseTime e (ONE_DAY_IN_SECONDS * 2 + 2) s;
     s \<leftarrow> call e timelock ''executeTransaction'' [Addr (cAddress timelock), Num 0, Str [], Bytes setAdminData, Num eta] s;
     s \<leftarrow> call e comp' ''delegate'' [Addr (co_ownerAddress this)] s;
     alpha \<leftarrow> co_compoundGovernorAlpha this;
     s \<leftarrow> call e (connect alpha (co_ownerSigner this)) ''propose''
       [Addrs [ADDRESS_ZERO], Nums [0], Strs [[]], Lst [Bytes ZERO_BYTES], Str ''dummy prop''] s;
     let initiateCallData = encodeFunctionData ''_initiate'' [Addr (cAddress alpha)];
     s \<leftarrow> call e delegator ''fallback'' [Obj [(''data'', Bytes initiateCallData)]] s;
     Some (this\<lparr>co_compoundGovernorBravoDelegate := Some delegate, co_compoundGovernorBravoDelegator := Some delegator\<rparr>, s)
   }"

text \<open>A default parameter: the value given, or else the address of a contract of the fixture.\<close>

definition address_or :: "address option \<Rightarrow> contract option \<Rightarrow> address option" where
  "address_or given other = (case given of Some a \<Rightarrow> Some a | None \<Rightarrow> map_option cAddress other)"

definition or_else :: "'a option \<Rightarrow> 'a \<Rightarrow> 'a" where
  "or_else given other = (case given of Some a \<Rightarrow> a | None \<Rightarrow> other)"

definition createAndEnableCToken :: "env \<Rightarrow> CompoundFixture \<Rightarrow> address \<Rightarrow> int \<Rightarrow> address option \<Rightarrow> address option \<Rightarrow> string option \<Rightarrow>
    string option \<Rightarrow> int option \<Rightarrow> int \<Rightarrow> int \<Rightarrow> chain \<Rightarrow> contract result" where
  "createAndEnableCToken e this underlying initialExchangeRateMantissa comptroller interestRateModel name symbol decimals
      collateralFactor currentPrice s = do {
     comptroller \<leftarrow> address_or comptroller (co_unitroller this);
     interestRateModel \<leftarrow> address_or interestRateModel (co_interestRateModel this);
     (newCToken, s) \<leftarrow> deployCeRc20 e (external (co_deployer this)) underlying comptroller interestRateModel
       initialExchangeRateMantissa (or_else name ''CToken'') (or_else symbol ''CT'') (or_else decimals 8) s;
     control \<leftarrow> co_comptroller this;
     oracle \<leftarrow> co_priceOracle this;
     s \<leftarrow> call e control ''_supportMarket'' [Addr (cAddress newCToken)] s;
     s \<leftarrow> call e oracle ''setUnderlyingPrice'' [Addr (cAddress newCToken), Num currentPrice] s;
     s \<leftarrow> call e control ''_setCollateralFactor'' [Addr (cAddress newCToken), Num collateralFactor] s;
     Some (newCToken, s)
   }"

definition createAndEnableCEther :: "env \<Rightarrow> CompoundFixture \<Rightarrow> int \<Rightarrow> address option \<Rightarrow> address option \<Rightarrow> string option \<Rightarrow>
    string option \<Rightarrow> int option \<Rightarrow> int \<Rightarrow> int \<Rightarrow> chain \<Rightarrow> contract result" where
  "createAndEnableCEther e this initialExchangeRateMantissa comptroller interestRateModel name symbol decimals
      collateralFactor currentPrice s = do {
     comptroller \<leftarrow> address_or comptroller (co_unitroller this);
     interestRateModel \<leftarrow> address_or interestRateModel (co_interestRateModel this);
     (newCToken, s) \<leftarrow> deployCEther e (external (co_deployer this)) comptroller interestRateModel
       initialExchangeRateMantissa (or_else name ''CEther'') (or_else symbol ''CETH'') (or_else decimals 8) s;
     control \<leftarrow> co_comptroller this;
     oracle \<leftarrow> co_priceOracle this;
     s \<leftarrow> call e control ''_supportMarket'' [Addr (cAddress newCToken)] s;
     s \<leftarrow> call e oracle ''setUnderlyingPrice'' [Addr (cAddress newCToken), Num currentPrice] s;
     s \<leftarrow> call e control ''_setCollateralFactor'' [Addr (cAddress newCToken), Num collateralFactor] s;
     Some (newCToken, s)
   }"

subsection \<open>aaveV2Fixture.ts\<close>

record ReserveTokens =
  rt_aToken :: contract
  rt_stableDebtToken :: contract
  rt_variableDebtToken :: contract

record AaveV2Fixture =
  aa_deployer :: DeployHelper
  aa_ownerSigner :: address
  aa_wethReserveTokens :: "ReserveTokens option"
  aa_daiReserveTokens :: "ReserveTokens option"
  aa_genericLogicLibraryAddress :: "address option"
  aa_reserveLogicAddress :: "address option"
  aa_validationLogicAddress :: "address option"
  aa_marketId :: "string option"
  aa_lendingPool :: "contract option"
  aa_protocolDataProvider :: "contract option"
  aa_lendingPoolConfigurator :: "contract option"
  aa_lendingPoolCollateralManager :: "contract option"
  aa_lendingPoolAddressesProvider :: "contract option"
  aa_reserveInterestRateStrategy :: "contract option"
  aa_priceOracle :: "contract option"
  aa_fallbackOracle :: "contract option"
  aa_lendingRateOracle :: "contract option"
  aa_treasuryAddress :: "address option"
  aa_incentivesControllerAddress :: "address option"
  aa_aaveToken :: "contract option"
  aa_stkAaveToken :: "contract option"
  aa_aaveGovernanceV2 :: "contract option"
  aa_executor :: "contract option"
  aa_governanceStrategy :: "contract option"

definition new_AaveV2Fixture :: "address \<Rightarrow> AaveV2Fixture" where
  "new_AaveV2Fixture ownerAddress = \<lparr>aa_deployer = new_DeployHelper ownerAddress, aa_ownerSigner = ownerAddress,
     aa_wethReserveTokens = None, aa_daiReserveTokens = None, aa_genericLogicLibraryAddress = None, aa_reserveLogicAddress = None,
     aa_validationLogicAddress = None, aa_marketId = None, aa_lendingPool = None, aa_protocolDataProvider = None,
     aa_lendingPoolConfigurator = None, aa_lendingPoolCollateralManager = None, aa_lendingPoolAddressesProvider = None,
     aa_reserveInterestRateStrategy = None, aa_priceOracle = None, aa_fallbackOracle = None, aa_lendingRateOracle = None,
     aa_treasuryAddress = None, aa_incentivesControllerAddress = None, aa_aaveToken = None, aa_stkAaveToken = None,
     aa_aaveGovernanceV2 = None, aa_executor = None, aa_governanceStrategy = None\<rparr>"

text \<open>\<^verbatim>\<open>contract.attach(address)\<close>: the same interface and signer at another address.\<close>

definition attach_at :: "contract \<Rightarrow> address \<Rightarrow> contract" where
  "attach_at c a = c\<lparr>cAddress := a\<rparr>"

definition setAssetPriceInOracle :: "env \<Rightarrow> AaveV2Fixture \<Rightarrow> address \<Rightarrow> int \<Rightarrow> chain \<Rightarrow> chain option" where
  "setAssetPriceInOracle e this asset priceInEth s = do {
     oracle \<leftarrow> aa_fallbackOracle this;
     call e oracle ''setAssetPrice'' [Addr asset, Num priceInEth] s
   }"

definition setMarketBorrowRate :: "env \<Rightarrow> AaveV2Fixture \<Rightarrow> address \<Rightarrow> int \<Rightarrow> chain \<Rightarrow> chain option" where
  "setMarketBorrowRate e this asset rate s = do {
     oracle \<leftarrow> aa_lendingRateOracle this;
     call e oracle ''setMarketBorrowRate'' [Addr asset, Num rate] s
   }"

definition reserve_input :: "contract \<Rightarrow> contract \<Rightarrow> contract \<Rightarrow> address \<Rightarrow> string \<Rightarrow> int \<Rightarrow> address \<Rightarrow> address \<Rightarrow> address \<Rightarrow> arg" where
  "reserve_input aToken stableDebtToken variableDebtToken underlyingAsset assetSymbol decimals treasury incentives strategy =
     Obj [(''aTokenImpl'', Addr (cAddress aToken)), (''stableDebtTokenImpl'', Addr (cAddress stableDebtToken)),
       (''variableDebtTokenImpl'', Addr (cAddress variableDebtToken)), (''underlyingAssetDecimals'', Num decimals),
       (''interestRateStrategyAddress'', Addr strategy), (''underlyingAsset'', Addr underlyingAsset),
       (''treasury'', Addr treasury), (''incentivesController'', Addr incentives), (''underlyingAssetName'', Str assetSymbol),
       (''aTokenName'', Str (''Aave interest bearing '' @ assetSymbol)), (''aTokenSymbol'', Str (''a'' @ assetSymbol)),
       (''variableDebtTokenName'', Str (''Aave variable debt bearing '' @ assetSymbol)), (''variableDebtTokenSymbol'', Str (''variableDebt'' @ assetSymbol)),
       (''stableDebtTokenName'', Str (''Aave stable debt bearing '' @ assetSymbol)), (''stableDebtTokenSymbol'', Str (''stableDebt'' @ assetSymbol)),
       (''params'', Bytes ''0x'')]"

definition createAndEnableReserve :: "env \<Rightarrow> AaveV2Fixture \<Rightarrow> address \<Rightarrow> string \<Rightarrow> int \<Rightarrow> int \<Rightarrow> int \<Rightarrow> int \<Rightarrow> int \<Rightarrow> bool \<Rightarrow> bool \<Rightarrow>
    address option \<Rightarrow> address option \<Rightarrow> address option \<Rightarrow> chain \<Rightarrow> ReserveTokens result" where
  "createAndEnableReserve e this underlyingAsset assetSymbol decimals baseLTV liquidationThreshold liquidationBonus reserveFactor
      borrowingEnabled stableBorrowingEnabled treasury incentives strategy s = do {
     treasury \<leftarrow> (case treasury of Some a \<Rightarrow> Some a | None \<Rightarrow> aa_treasuryAddress this);
     incentives \<leftarrow> (case incentives of Some a \<Rightarrow> Some a | None \<Rightarrow> aa_incentivesControllerAddress this);
     strategy \<leftarrow> address_or strategy (aa_reserveInterestRateStrategy this);
     let d = external (aa_deployer this);
     (aToken, s) \<leftarrow> deployAaveV2AToken e d s;
     (stableDebtToken, s) \<leftarrow> deployAaveV2StableDebtToken e d s;
     (variableDebtToken, s) \<leftarrow> deployAaveV2VariableDebtToken e d s;
     configurator \<leftarrow> aa_lendingPoolConfigurator this;
     s \<leftarrow> call e configurator ''batchInitReserve''
       [Lst [reserve_input aToken stableDebtToken variableDebtToken underlyingAsset assetSymbol decimals treasury incentives strategy]] s;
     s \<leftarrow> call e configurator ''configureReserveAsCollateral''
       [Addr underlyingAsset, Num baseLTV, Num liquidationThreshold, Num liquidationBonus] s;
     s \<leftarrow> (if borrowingEnabled
       then call e configurator ''enableBorrowingOnReserve'' [Addr underlyingAsset, Bool stableBorrowingEnabled] s else Some s);
     s \<leftarrow> call e configurator ''setReserveFactor'' [Addr underlyingAsset, Num reserveFactor] s;
     provider \<leftarrow> aa_protocolDataProvider this;
     proxies \<leftarrow> as_list (view e provider ''getReserveTokensAddresses'' [Addr underlyingAsset] s);
     aTokenProxy \<leftarrow> as_addr (nth_opt proxies 0);
     stableDebtTokenProxy \<leftarrow> as_addr (nth_opt proxies 1);
     variableDebtTokenProxy \<leftarrow> as_addr (nth_opt proxies 2);
     Some (\<lparr>rt_aToken = attach_at aToken aTokenProxy, rt_stableDebtToken = attach_at stableDebtToken stableDebtTokenProxy,
       rt_variableDebtToken = attach_at variableDebtToken variableDebtTokenProxy\<rparr>, s)
   }"

text \<open>The transfers at the end of \<^verbatim>\<open>initializeGovernance\<close> are not awaited.\<close>

definition initializeGovernance :: "(nat \<Rightarrow> address) \<Rightarrow> env \<Rightarrow> AaveV2Fixture \<Rightarrow> chain \<Rightarrow> AaveV2Fixture result" where
  "initializeGovernance random e this s = do {
     let d = external (aa_deployer this);
     quorum \<leftarrow> ether 100;
     (executor, s) \<leftarrow> deployExecutor e d (aa_ownerSigner this) 0 0 0 MAX_UINT_256 50 100 50 quorum s;
     amount \<leftarrow> ether 100000;
     (aaveToken, s) \<leftarrow> deployAaveTokenV2Mintable e d s;
     s \<leftarrow> call e aaveToken ''mint'' [Addr (aa_ownerSigner this), Num amount] s;
     (stkAaveToken, s) \<leftarrow> deployAaveTokenV2Mintable e d s;
     s \<leftarrow> call e stkAaveToken ''mint'' [Addr (aa_ownerSigner this), Num amount] s;
     (strategy, s) \<leftarrow> deployGovernanceStrategy e d (cAddress aaveToken) (cAddress stkAaveToken) s;
     (governance, s) \<leftarrow> deployAaveGovernanceV2 e d (cAddress strategy) 0 (aa_ownerSigner this) [cAddress executor] s;
     let s = call_unawaited e (connect aaveToken (aa_ownerSigner this)) ''transfer'' [Addr (random 1), Num 100] s;
     let s = call_unawaited e (connect stkAaveToken (aa_ownerSigner this)) ''transfer'' [Addr (random 2), Num 100] s;
     (_, s) \<leftarrow> deployAaveV2StakedTokenIncentivesController e d (cAddress stkAaveToken) (cAddress executor) s;
     (incentives, s) \<leftarrow> deployAaveV2StakedTokenIncentivesController e d (cAddress stkAaveToken) (cAddress executor) s;
     Some (this\<lparr>aa_executor := Some executor, aa_aaveToken := Some aaveToken, aa_stkAaveToken := Some stkAaveToken,
       aa_governanceStrategy := Some strategy, aa_aaveGovernanceV2 := Some governance,
       aa_incentivesControllerAddress := Some (cAddress incentives)\<rparr>, s)
   }"

text \<open>Lines 78--100: the libraries, the pool contracts and the oracles.\<close>

definition aave_deploy_contracts :: "env \<Rightarrow> AaveV2Fixture \<Rightarrow> address \<Rightarrow> string \<Rightarrow> chain \<Rightarrow> AaveV2Fixture result" where
  "aave_deploy_contracts e this weth marketId s = do {
     let d = external (aa_deployer this);
     (generic, s) \<leftarrow> deployGeneralLogic e d s;
     (reserve, s) \<leftarrow> deployReserveLogic e d s;
     (validation, s) \<leftarrow> deployValidationLogic e d (cAddress generic) s;
     (configurator, s) \<leftarrow> deployAaveV2LendingPoolConfigurator e d s;
     (manager, s) \<leftarrow> deployAaveV2LendingPoolCollateralManager e d s;
     (pool, s) \<leftarrow> deployAaveV2LendingPool e d (cAddress validation) (cAddress reserve) s;
     (provider, s) \<leftarrow> deployAaveV2LendingPoolAddressesProvider e d marketId s;
     (dataProvider, s) \<leftarrow> deployAaveV2ProtocolDataProvider e d (cAddress provider) s;
     (strategy, s) \<leftarrow> deployAaveV2DefaultReserveInterestRateStrategy e d (cAddress provider) None None None None None None s;
     (rateOracle, s) \<leftarrow> deployAaveV2LendingRateOracle e d s;
     (fallbackOracle, s) \<leftarrow> deployAaveV2PriceOracle e d s;
     (priceOracle, s) \<leftarrow> deployAaveV2Oracle e d [] [] (cAddress fallbackOracle) weth s;
     Some (this\<lparr>aa_marketId := Some marketId, aa_genericLogicLibraryAddress := Some (cAddress generic),
       aa_reserveLogicAddress := Some (cAddress reserve), aa_validationLogicAddress := Some (cAddress validation),
       aa_lendingPoolConfigurator := Some configurator, aa_lendingPoolCollateralManager := Some manager, aa_lendingPool := Some pool,
       aa_lendingPoolAddressesProvider := Some provider, aa_protocolDataProvider := Some dataProvider,
       aa_reserveInterestRateStrategy := Some strategy, aa_lendingRateOracle := Some rateOracle,
       aa_fallbackOracle := Some fallbackOracle, aa_priceOracle := Some priceOracle\<rparr>, s)
   }"

text \<open>Lines 102--122: the addresses provider, and the proxies it creates.\<close>

definition aave_set_addresses :: "env \<Rightarrow> AaveV2Fixture \<Rightarrow> chain \<Rightarrow> AaveV2Fixture result" where
  "aave_set_addresses e this s = do {
     provider \<leftarrow> aa_lendingPoolAddressesProvider this;
     priceOracle \<leftarrow> aa_priceOracle this;
     rateOracle \<leftarrow> aa_lendingRateOracle this;
     manager \<leftarrow> aa_lendingPoolCollateralManager this;
     dataProvider \<leftarrow> aa_protocolDataProvider this;
     pool \<leftarrow> aa_lendingPool this;
     configurator \<leftarrow> aa_lendingPoolConfigurator this;
     s \<leftarrow> call e provider ''setPriceOracle'' [Addr (cAddress priceOracle)] s;
     s \<leftarrow> call e provider ''setLendingRateOracle'' [Addr (cAddress rateOracle)] s;
     s \<leftarrow> call e provider ''setPoolAdmin'' [Addr (aa_ownerSigner this)] s;
     s \<leftarrow> call e provider ''setLendingPoolCollateralManager'' [Addr (cAddress manager)] s;
     s \<leftarrow> call e provider ''setAddress''
       [Bytes ''0x0100000000000000000000000000000000000000000000000000000000000000'', Addr (cAddress dataProvider)] s;
     s \<leftarrow> call e provider ''setLendingPoolImpl'' [Addr (cAddress pool)] s;
     proxyPool \<leftarrow> as_addr (view e provider ''getLendingPool'' [] s);
     s \<leftarrow> call e provider ''setLendingPoolConfiguratorImpl'' [Addr (cAddress configurator)] s;
     proxyConfigurator \<leftarrow> as_addr (view e provider ''getLendingPoolConfigurator'' [] s);
     Some (this\<lparr>aa_lendingPool := Some (attach_at pool proxyPool),
       aa_lendingPoolConfigurator := Some (attach_at configurator proxyConfigurator)\<rparr>, s)
   }"

definition AaveV2Fixture_initialize :: "(nat \<Rightarrow> address) \<Rightarrow> env \<Rightarrow> AaveV2Fixture \<Rightarrow> address \<Rightarrow> address \<Rightarrow> string option \<Rightarrow> int option \<Rightarrow>
    chain \<Rightarrow> AaveV2Fixture result" where
  "AaveV2Fixture_initialize random e this weth dai marketId daiPriceInEth s = do {
     daiPriceInEth \<leftarrow> (case daiPriceInEth of Some p \<Rightarrow> Some p | None \<Rightarrow> ether (1 / 1000));
     (this, s) \<leftarrow> aave_deploy_contracts e this weth (or_else marketId ''Commons'') s;
     (this, s) \<leftarrow> aave_set_addresses e this s;
     let this = this\<lparr>aa_treasuryAddress := Some (random 0), aa_incentivesControllerAddress := Some ADDRESS_ZERO\<rparr>;
     s \<leftarrow> setAssetPriceInOracle e this dai daiPriceInEth s;
     let oneRay = 10 ^ 27;
     wethRate \<leftarrow> bn_div (oneRay * 3) 100;
     s \<leftarrow> setMarketBorrowRate e this weth wethRate s;
     daiRate \<leftarrow> bn_div (oneRay * 39) 1000;
     s \<leftarrow> setMarketBorrowRate e this dai daiRate s;
     (wethReserve, s) \<leftarrow> createAndEnableReserve e this weth ''WETH'' 18 8000 8250 10500 1000 True True None None None s;
     let this = this\<lparr>aa_wethReserveTokens := Some wethReserve\<rparr>;
     (daiReserve, s) \<leftarrow> createAndEnableReserve e this dai ''DAI'' 18 7500 8000 10500 1000 True True None None None s;
     let this = this\<lparr>aa_daiReserveTokens := Some daiReserve\<rparr>;
     initializeGovernance random e this s
   }"

definition fixture_getForkedAaveLendingPoolAddressesProvider :: "AaveV2Fixture \<Rightarrow> contract option" where
  "fixture_getForkedAaveLendingPoolAddressesProvider this =
     map_option (getForkedAaveLendingPoolAddressesProvider (external (aa_deployer this))) (dependency ''AAVE_LENDING_POOL_ADDRESSES_PROVIDER'' 1)"

definition fixture_getForkedAaveV2ProtocolDataProvider :: "AaveV2Fixture \<Rightarrow> contract option" where
  "fixture_getForkedAaveV2ProtocolDataProvider this =
     map_option (getForkedAaveV2ProtocolDataProvider (external (aa_deployer this))) (dependency ''AAVE_PROTOCOL_DATA_PROVIDER'' 1)"

subsection \<open>The fixtures keep the chain invariant\<close>

lemma createAndEnableVault_keeps: "keeps e s (createAndEnableVaultWithStrategyMock e this u g gu r n y l s)"
  unfolding createAndEnableVaultWithStrategyMock_def deploy_defs Let_def by (intro keeps_rules keeps_bind_pure)

lemma curve_keeps:
  "keeps e s (initializePool e this' ts s)" "keeps e s (initializeDAO e this' s)"
  "keeps e s (initializeGauge e this' lp s)" "keeps e s (initializeGaugeRewards e this' lp r t s)"
  unfolding initializePool_def initializeDAO_def initializeGauge_def initializeGaugeRewards_def deploy_defs Let_def
  by (intro keeps_rules keeps_bind_pure)+

lemma compound_keeps:
  "keeps e s (CompoundFixture_initialize e this s)"
  "keeps e s (createAndEnableCToken e this u i c m n y d f p s)" "keeps e s (createAndEnableCEther e this i c m n y d f p s)"
  unfolding CompoundFixture_initialize_def createAndEnableCToken_def createAndEnableCEther_def deploy_defs Let_def
  by (intro keeps_rules keeps_bind_pure)+

lemma yearn_initialize_keeps: "keeps e s (YearnFixture_initialize e this s)"
  unfolding YearnFixture_initialize_def deploy_defs by (intro keeps_rules)

lemma increaseTime_keeps [keeps_rules]: "keeps1 e s (increaseTime e d s)"
  unfolding increaseTime_def keeps1_def
  by (auto split: Option.bind_splits intro: extends_trans send_extends)

lemma initializeGovernorBravo_keeps: "keeps e s (initializeGovernorBravo enc e this s)"
  unfolding initializeGovernorBravo_def deploy_defs Let_def by (intro keeps_rules keeps_bind_pure)

lemma aave_parts_keep [keeps_rules]:
  "keeps e s (createAndEnableReserve e this a y d l h b f en st t i r s)" "keeps e s (initializeGovernance random e this s)"
  "keeps e s (aave_deploy_contracts e this w m s)" "keeps e s (aave_set_addresses e this s)"
  "keeps1 e s (setAssetPriceInOracle e this a n s)" "keeps1 e s (setMarketBorrowRate e this a n s)"
  unfolding createAndEnableReserve_def initializeGovernance_def aave_deploy_contracts_def aave_set_addresses_def
    setAssetPriceInOracle_def setMarketBorrowRate_def deploy_defs Let_def
  by (intro keeps_rules keeps_bind_pure keeps1_bind_pure)+

lemma aave_initialize_keeps: "keeps e s (AaveV2Fixture_initialize random e this weth dai m p s)"
  unfolding AaveV2Fixture_initialize_def Let_def by (intro keeps_rules keeps_bind_pure)

subsection \<open>Histories\<close>

lemma call_history: "call e c m a s = Some s' \<Longrightarrow> txs s' = txs s @ [Call (cSigner c) (cAddress c) m a]"
  by (auto simp: call_def send_def split: if_splits)

lemma deploy_history:
  "deploy e f n a s = Some (c, s') \<Longrightarrow> txs s' = txs s @ [Create f n [] a (cAddress c)]"
  by (auto simp: deploy_def deploy_linked_def send_def Let_def split: if_splits)

lemma increaseTime_history:
  "increaseTime e d s = Some s' \<Longrightarrow> txs s' = txs s @
     [Call node_account node_account ''evm_increaseTime'' [Num d], Call node_account node_account ''evm_mine'' []]"
  by (auto simp: increaseTime_def send_def split: if_splits Option.bind_splits)

lemma initializeGovernorBravo_history:
  assumes "initializeGovernorBravo enc e this s = Some (this', s')" and "co_compoundTimelock this = Some lock"
  shows "\<exists>delegator pre post eta args. co_compoundGovernorBravoDelegator this' = Some delegator \<and>
    eta = latest_timestamp e (txs s @ pre) + 2 * ONE_DAY_IN_SECONDS + 1 \<and>
    args = [Addr (cAddress lock), Num 0, Str [], Bytes (enc ''setPendingAdmin'' [Addr (cAddress delegator)]), Num eta] \<and>
    txs s' = txs s @ pre @
      [Call (cSigner lock) (cAddress lock) ''queueTransaction'' args,
       Call node_account node_account ''evm_increaseTime'' [Num (2 * ONE_DAY_IN_SECONDS + 2)],
       Call node_account node_account ''evm_mine'' [],
       Call (cSigner lock) (cAddress lock) ''executeTransaction'' args] @ post"
proof -
  obtain delegate delegator s1 s2 s3 s4 s5 s6 s7 eta args where
    d: "\<exists>n a. deploy e (deployerSigner (external (co_deployer this))) n a s = Some (delegate, s1)"
      "\<exists>n a. deploy e (deployerSigner (external (co_deployer this))) n a s1 = Some (delegator, s2)"
    and eta: "eta = latest_timestamp e (txs s2) + ONE_DAY_IN_SECONDS * 2 + 1"
    and args: "args = [Addr (cAddress lock), Num 0, Str [], Bytes (enc ''setPendingAdmin'' [Addr (cAddress delegator)]), Num eta]"
    and c: "call e lock ''queueTransaction'' args s2 = Some s3" "increaseTime e (ONE_DAY_IN_SECONDS * 2 + 2) s3 = Some s4"
      "call e lock ''executeTransaction'' args s4 = Some s5"
      "\<exists>c m a. call e c m a s5 = Some s6" "\<exists>c m a. call e c m a s6 = Some s7" "\<exists>c m a. call e c m a s7 = Some s'"
    and this': "co_compoundGovernorBravoDelegator this' = Some delegator"
    using assms by (auto simp: initializeGovernorBravo_def deploy_defs Let_def) blast
  obtain pre where "txs s2 = txs s @ pre" using d by (auto dest!: deploy_history)
  moreover obtain post where "txs s' = txs s5 @ post" using c(4-6) by (auto dest!: call_history)
  ultimately show ?thesis
    using this' eta args call_history [OF c(1)] increaseTime_history [OF c(2)] call_history [OF c(3)]
    by (intro exI [of _ delegator] exI [of _ pre] exI [of _ post] exI [of _ eta] exI [of _ args]) (simp add: mult.commute)
qed

lemma as_list_Some: "as_list x = Some xs \<longleftrightarrow> x = Some (Lst xs)"
  by (cases x rule: as_list.cases) auto

lemma as_addr_Some: "as_addr x = Some a \<longleftrightarrow> x = Some (Addr a)"
  by (cases x rule: as_addr.cases) auto

lemma createAndEnableReserve_history:
  assumes "createAndEnableReserve e this asset assetSymbol decimals ltv threshold bonus factor borrow stableRate treasury incentives strategy s = Some (rt, s')"
  shows "\<exists>aT sT vT conf prov t i r proxies. aa_lendingPoolConfigurator this = Some conf \<and> aa_protocolDataProvider this = Some prov \<and>
    or_else treasury (the (aa_treasuryAddress this)) = t \<and> or_else incentives (the (aa_incentivesControllerAddress this)) = i \<and>
    address_or strategy (aa_reserveInterestRateStrategy this) = Some r \<and>
    txs s' = txs s @
      [Create (deployerSigner (external (aa_deployer this))) ''AaveV2AToken'' [] [] (cAddress aT),
       Create (deployerSigner (external (aa_deployer this))) ''AaveV2StableDebtToken'' [] [] (cAddress sT),
       Create (deployerSigner (external (aa_deployer this))) ''AaveV2VariableDebtToken'' [] [] (cAddress vT),
       Call (cSigner conf) (cAddress conf) ''batchInitReserve'' [Lst [reserve_input aT sT vT asset assetSymbol decimals t i r]],
       Call (cSigner conf) (cAddress conf) ''configureReserveAsCollateral'' [Addr asset, Num ltv, Num threshold, Num bonus]] @
      (if borrow then [Call (cSigner conf) (cAddress conf) ''enableBorrowingOnReserve'' [Addr asset, Bool stableRate]] else []) @
      [Call (cSigner conf) (cAddress conf) ''setReserveFactor'' [Addr asset, Num factor]] \<and>
    view_call e (txs s') (cAddress prov) ''getReserveTokensAddresses'' [Addr asset] = Some (Lst proxies) \<and>
    take 3 proxies = map (Addr \<circ> cAddress) [rt_aToken rt, rt_stableDebtToken rt, rt_variableDebtToken rt]"
proof -
  obtain aT sT vT s1 s2 s3 s4 s5 s6 conf prov t i r proxies where
    f: "aa_lendingPoolConfigurator this = Some conf" "aa_protocolDataProvider this = Some prov"
      "(case treasury of Some a \<Rightarrow> Some a | None \<Rightarrow> aa_treasuryAddress this) = Some t"
      "(case incentives of Some a \<Rightarrow> Some a | None \<Rightarrow> aa_incentivesControllerAddress this) = Some i"
      "address_or strategy (aa_reserveInterestRateStrategy this) = Some r"
    and d: "deploy e (deployerSigner (external (aa_deployer this))) ''AaveV2AToken'' [] s = Some (aT, s1)"
      "deploy e (deployerSigner (external (aa_deployer this))) ''AaveV2StableDebtToken'' [] s1 = Some (sT, s2)"
      "deploy e (deployerSigner (external (aa_deployer this))) ''AaveV2VariableDebtToken'' [] s2 = Some (vT, s3)"
    and c: "call e conf ''batchInitReserve'' [Lst [reserve_input aT sT vT asset assetSymbol decimals t i r]] s3 = Some s4"
      "call e conf ''configureReserveAsCollateral'' [Addr asset, Num ltv, Num threshold, Num bonus] s4 = Some s5"
      "(if borrow then call e conf ''enableBorrowingOnReserve'' [Addr asset, Bool stableRate] s5 else Some s5) = Some s6"
      "call e conf ''setReserveFactor'' [Addr asset, Num factor] s6 = Some s'"
    and v: "as_list (view e prov ''getReserveTokensAddresses'' [Addr asset] s') = Some proxies"
      "as_addr (nth_opt proxies 0) = Some (cAddress (rt_aToken rt))"
      "as_addr (nth_opt proxies 1) = Some (cAddress (rt_stableDebtToken rt))"
      "as_addr (nth_opt proxies 2) = Some (cAddress (rt_variableDebtToken rt))"
    using assms by (auto simp: createAndEnableReserve_def deploy_defs Let_def attach_at_def)
  have "txs s6 = txs s5 @ (if borrow then [Call (cSigner conf) (cAddress conf) ''enableBorrowingOnReserve'' [Addr asset, Bool stableRate]] else [])"
    using c(3) by (auto dest: call_history split: if_splits)
  then have h: "txs s' = txs s @
      [Create (deployerSigner (external (aa_deployer this))) ''AaveV2AToken'' [] [] (cAddress aT),
       Create (deployerSigner (external (aa_deployer this))) ''AaveV2StableDebtToken'' [] [] (cAddress sT),
       Create (deployerSigner (external (aa_deployer this))) ''AaveV2VariableDebtToken'' [] [] (cAddress vT),
       Call (cSigner conf) (cAddress conf) ''batchInitReserve'' [Lst [reserve_input aT sT vT asset assetSymbol decimals t i r]],
       Call (cSigner conf) (cAddress conf) ''configureReserveAsCollateral'' [Addr asset, Num ltv, Num threshold, Num bonus]] @
      (if borrow then [Call (cSigner conf) (cAddress conf) ''enableBorrowingOnReserve'' [Addr asset, Bool stableRate]] else []) @
      [Call (cSigner conf) (cAddress conf) ''setReserveFactor'' [Addr asset, Num factor]]"
    unfolding call_history [OF c(4)] call_history [OF c(2)] call_history [OF c(1)]
      deploy_history [OF d(3)] deploy_history [OF d(2)] deploy_history [OF d(1)]
    by (simp only: append.assoc append_Cons append_Nil call_history [OF c(2)] call_history [OF c(1)]
      deploy_history [OF d(3)] deploy_history [OF d(2)] deploy_history [OF d(1)])
  have v': "view_call e (txs s') (cAddress prov) ''getReserveTokensAddresses'' [Addr asset] = Some (Lst proxies)"
    using v(1) by (simp add: view_def as_list_Some)
  have p: "take 3 proxies = map (Addr \<circ> cAddress) [rt_aToken rt, rt_stableDebtToken rt, rt_variableDebtToken rt]"
    using v(2-4) by (auto simp: as_addr_Some nth_opt_def numeral_3_eq_3 numeral_2_eq_2 take_Suc_conv_app_nth split: if_splits)
  have o: "or_else treasury (the (aa_treasuryAddress this)) = t" "or_else incentives (the (aa_incentivesControllerAddress this)) = i"
    using f(3,4) by (auto simp: or_else_def split: option.splits)
  show ?thesis by (intro exI conjI) (rule f(1), rule f(2), rule o(1), rule o(2), rule f(5), rule h, rule v', rule p)
qed

lemma initializeGovernorBravo_succeeds:
  assumes "\<And>ts t. accepts e ts t"
    and "co_compoundTimelock this = Some lock" "co_comp this = Some comp'" "co_compoundGovernorAlpha this = Some alpha"
  shows "initializeGovernorBravo enc e this s \<noteq> None"
proof -
  have time: "Option.bind (increaseTime e d s) k \<noteq> None" if "\<And>s1. k s1 \<noteq> None" for d s and k :: "chain \<Rightarrow> 'x option"
    using that by (simp add: increaseTime_def send_def assms(1))
  show ?thesis
    unfolding initializeGovernorBravo_def deploy_defs Let_def assms(2-) Option.bind.simps ether_numeral
    by (intro succeeds_rules time assms(1))
qed

text \<open>A concrete node that accepts everything, and a fixture in place.\<close>

definition lending_env :: env where
  "lending_env = \<lparr>create_address = \<lambda>f n. replicate n (CHR ''n'') @ CHR ''c'' # f, accepts = \<lambda>_ _. True,
     view_call = \<lambda>_ _ _ _. Some (Lst [Addr ''pa'', Addr ''ps'', Addr ''pv'']), listAccounts = [],
     latest_timestamp = \<lambda>_. 1600000000, set_created_logs = \<lambda>_. []\<rparr>"

definition compound_fixture :: CompoundFixture where
  "compound_fixture = (new_CompoundFixture ''o'')\<lparr>co_compoundTimelock := Some (attach ''CompoundTimelock'' ''tl'' ''o''),
     co_comp := Some (attach ''Comp'' ''comp'' ''o''), co_compoundGovernorAlpha := Some (attach ''CompoundGovernorAlpha'' ''ga'' ''o'')\<rparr>"

definition aave_fixture :: AaveV2Fixture where
  "aave_fixture = (new_AaveV2Fixture ''o'')\<lparr>aa_lendingPoolConfigurator := Some (attach ''AaveV2LendingPoolConfigurator'' ''conf'' ''o''),
     aa_protocolDataProvider := Some (attach ''AaveV2ProtocolDataProvider'' ''prov'' ''o''), aa_treasuryAddress := Some ''t'',
     aa_incentivesControllerAddress := Some ADDRESS_ZERO,
     aa_reserveInterestRateStrategy := Some (attach ''AaveV2DefaultReserveInterestRateStrategy'' ''r'' ''o'')\<rparr>"

text \<open>The calls of the Timelock to itself, by the calldata encoding of \<^verbatim>\<open>setPendingAdmin\<close>.\<close>

definition self_call :: "(string \<Rightarrow> arg list \<Rightarrow> bytes) \<Rightarrow> address \<Rightarrow> (address \<Rightarrow> int \<Rightarrow> bytes \<Rightarrow> timelock_state \<Rightarrow> timelock_state option) \<Rightarrow> bool" where
  "self_call enc self callee \<longleftrightarrow> (\<forall>a st. callee self 0 (enc ''setPendingAdmin'' [Addr a]) st =
     (case setPendingAdmin self a st of Inl m \<Rightarrow> None | Inr st' \<Rightarrow> Some st'))"

subsection \<open>Properties\<close>

text \<open>
  C36. The fixture hands the Timelock over to the new governor: the transaction it queues and the one it
  executes are the same, due two days and a second after the block the fixture read its time from, and if the
  queue call is mined within a second of the block the fixture read its time from and the execution after the
  time the fixture skips (and within the grace period), a Timelock administered by the fixture's signer with a
  delay of two days accepts both and ends with the governor as its pending admin.
\<close>

theorem governor_becomes_pending_admin:
  assumes "initializeGovernorBravo enc e this s = Some (this', s')" and "co_compoundTimelock this = Some lock"
    and "tl_admin st = cSigner lock" and "tl_self st = cAddress lock" and "tl_delay st = 2 * ONE_DAY_IN_SECONDS"
    and "self_call enc (cAddress lock) callee"
  shows "\<exists>delegator u pre post. co_compoundGovernorBravoDelegator this' = Some delegator \<and>
    tt_eta u = latest_timestamp e (txs s @ pre) + 2 * ONE_DAY_IN_SECONDS + 1 \<and>
    (let args = [Addr (tt_target u), Num (tt_value u), Str (tt_signature u), Bytes (tt_data u), Num (tt_eta u)] in
     txs s' = txs s @ pre @
      [Call (cSigner lock) (cAddress lock) ''queueTransaction'' args,
       Call node_account node_account ''evm_increaseTime'' [Num (2 * ONE_DAY_IN_SECONDS + 2)],
       Call node_account node_account ''evm_mine'' [],
       Call (cSigner lock) (cAddress lock) ''executeTransaction'' args] @ post) \<and>
    (\<forall>tq te. latest_timestamp e (txs s @ pre) \<le> tq \<and> tq \<le> latest_timestamp e (txs s @ pre) + 1 \<and>
       tq + (2 * ONE_DAY_IN_SECONDS + 2) \<le> te \<and> te \<le> tt_eta u + 14 * ONE_DAY_IN_SECONDS \<and> te < 2 ^ 255 \<longrightarrow>
       (\<exists>st1 st2. queueTransaction hash tq (cSigner lock) u st = Inr st1 \<and>
          executeTransaction hash pack callee te (cSigner lock) u st1 = Inr st2 \<and> tl_pendingAdmin st2 = cAddress delegator))"
proof -
  obtain delegator pre post eta args where d: "co_compoundGovernorBravoDelegator this' = Some delegator"
    and eta: "eta = latest_timestamp e (txs s @ pre) + 2 * ONE_DAY_IN_SECONDS + 1"
    and args: "args = [Addr (cAddress lock), Num 0, Str [], Bytes (enc ''setPendingAdmin'' [Addr (cAddress delegator)]), Num eta]"
    and run: "txs s' = txs s @ pre @
      [Call (cSigner lock) (cAddress lock) ''queueTransaction'' args,
       Call node_account node_account ''evm_increaseTime'' [Num (2 * ONE_DAY_IN_SECONDS + 2)],
       Call node_account node_account ''evm_mine'' [],
       Call (cSigner lock) (cAddress lock) ''executeTransaction'' args] @ post"
    using initializeGovernorBravo_history [OF assms(1,2)] by blast
  define u where "u = \<lparr>tt_target = cAddress lock, tt_value = 0, tt_signature = [],
    tt_data = enc ''setPendingAdmin'' [Addr (cAddress delegator)], tt_eta = eta\<rparr>"
  have "\<exists>st1 st2. queueTransaction hash tq (cSigner lock) u st = Inr st1 \<and>
      executeTransaction hash pack callee te (cSigner lock) u st1 = Inr st2 \<and> tl_pendingAdmin st2 = cAddress delegator"
    if t: "latest_timestamp e (txs s @ pre) \<le> tq" "tq \<le> latest_timestamp e (txs s @ pre) + 1"
      "tq + (2 * ONE_DAY_IN_SECONDS + 2) \<le> te" "te \<le> eta + 14 * ONE_DAY_IN_SECONDS" "te < 2 ^ 255" for tq te
  proof -
    let ?st1 = "st\<lparr>queuedTransactions := (queuedTransactions st)(hash u := True)\<rparr>"
    let ?st2 = "st\<lparr>queuedTransactions := (queuedTransactions st)(hash u := False)\<rparr>"
    have day: "ONE_DAY_IN_SECONDS < 100000" "0 < ONE_DAY_IN_SECONDS" by (simp_all add: ONE_DAY_IN_SECONDS_def)
    have "queueTransaction hash tq (cSigner lock) u st = Inr ?st1"
      using t eta day assms(3,5) by (simp add: queueTransaction_Inr u_def)
    moreover have "begin_execute hash te (cSigner lock) u ?st1 = Inr ?st2"
      using t eta day assms(3) by (simp add: begin_execute_Inr u_def GRACE_PERIOD_def)
    then have "executeTransaction hash pack callee te (cSigner lock) u ?st1 = Inr (?st2\<lparr>tl_pendingAdmin := cAddress delegator\<rparr>)"
      using assms(4,6) by (simp add: executeTransaction_def u_def self_call_def setPendingAdmin_def)
    ultimately show ?thesis by simp
  qed
  with d eta run args show ?thesis
    by (intro exI [of _ delegator] exI [of _ u] exI [of _ pre] exI [of _ post]) (simp add: u_def)
qed

theorem governor_becomes_pending_admin_witness:
  "\<exists>this' s' delegator u tq te st1 st2.
     initializeGovernorBravo (\<lambda>m args. case args of [Addr a] \<Rightarrow> a | _ \<Rightarrow> []) lending_env compound_fixture
       \<lparr>nonces = \<lambda>_. 0, txs = []\<rparr> = Some (this', s') \<and> co_compoundGovernorBravoDelegator this' = Some delegator \<and>
     queueTransaction unary_hash tq ''o'' u \<lparr>tl_self = ''tl'', tl_admin = ''o'', tl_pendingAdmin = ADDRESS_ZERO,
       tl_delay = 2 * ONE_DAY_IN_SECONDS, queuedTransactions = \<lambda>_. False\<rparr> = Inr st1 \<and>
     executeTransaction unary_hash (\<lambda>s d. d)
       (\<lambda>t v a st. case setPendingAdmin ''tl'' a st of Inl m \<Rightarrow> None | Inr st' \<Rightarrow> Some st') te ''o'' u st1 = Inr st2 \<and>
     tl_pendingAdmin st2 = cAddress delegator"
proof -
  let ?enc = "\<lambda>(m :: string) args. case args of [Addr a] \<Rightarrow> a | _ \<Rightarrow> []"
  let ?lock = "attach ''CompoundTimelock'' ''tl'' ''o''"
  let ?st = "\<lparr>tl_self = ''tl'', tl_admin = ''o'', tl_pendingAdmin = ADDRESS_ZERO, tl_delay = 2 * ONE_DAY_IN_SECONDS,
    queuedTransactions = \<lambda>_. False\<rparr>"
  have "initializeGovernorBravo ?enc lending_env compound_fixture \<lparr>nonces = \<lambda>_. 0, txs = []\<rparr> \<noteq> None"
    by (rule initializeGovernorBravo_succeeds) (auto simp: lending_env_def compound_fixture_def)
  then obtain this' s' where run: "initializeGovernorBravo ?enc lending_env compound_fixture \<lparr>nonces = \<lambda>_. 0, txs = []\<rparr> = Some (this', s')"
    by auto
  have lock: "co_compoundTimelock compound_fixture = Some ?lock" by (simp add: compound_fixture_def)
  have self: "self_call ?enc (cAddress ?lock) (\<lambda>t v a st. case setPendingAdmin ''tl'' a st of Inl m \<Rightarrow> None | Inr st' \<Rightarrow> Some st')"
    by (simp add: self_call_def attach_def)
  have st: "tl_admin ?st = cSigner ?lock" "tl_self ?st = cAddress ?lock" "tl_delay ?st = 2 * ONE_DAY_IN_SECONDS"
    by (simp_all add: attach_def)
  let ?callee = "\<lambda>t v a st. case setPendingAdmin ''tl'' a st of Inl m \<Rightarrow> None | Inr st' \<Rightarrow> Some st'"
  have time: "latest_timestamp lending_env ts = 1600000000" for ts by (simp add: lending_env_def)
  obtain delegator u where d: "co_compoundGovernorBravoDelegator this' = Some delegator"
    and eta: "tt_eta u = 1600000000 + 2 * ONE_DAY_IN_SECONDS + 1"
    and ok: "\<forall>tq te. 1600000000 \<le> tq \<and> tq \<le> 1600000000 + 1 \<and> tq + (2 * ONE_DAY_IN_SECONDS + 2) \<le> te \<and>
        te \<le> tt_eta u + 14 * ONE_DAY_IN_SECONDS \<and> te < 2 ^ 255 \<longrightarrow>
      (\<exists>st1 st2. queueTransaction unary_hash tq (cSigner ?lock) u ?st = Inr st1 \<and>
         executeTransaction unary_hash (\<lambda>s d. d) ?callee te (cSigner ?lock) u st1 = Inr st2 \<and> tl_pendingAdmin st2 = cAddress delegator)"
    using governor_becomes_pending_admin [OF run lock st self, where hash = unary_hash and pack = "\<lambda>s d. d"] unfolding time
    by (elim exE conjE) (rule that)
  obtain st1 st2 where "queueTransaction unary_hash 1600000000 (cSigner ?lock) u ?st = Inr st1"
    "executeTransaction unary_hash (\<lambda>s d. d) ?callee (1600000000 + (2 * ONE_DAY_IN_SECONDS + 2)) (cSigner ?lock) u st1 = Inr st2"
    "tl_pendingAdmin st2 = cAddress delegator"
    using ok [rule_format, of 1600000000 "1600000000 + (2 * ONE_DAY_IN_SECONDS + 2)"]
    by (auto simp: eta ONE_DAY_IN_SECONDS_def)
  moreover have "cSigner ?lock = ''o''" by (simp add: attach_def)
  ultimately show ?thesis using run d by (metis (no_types, lifting))
qed

text \<open>
  Creating an Aave reserve: the fixture deploys the three implementations, registers exactly them for the
  asset with its treasury, incentives controller and strategy, configures the reserve, enables borrowing
  exactly when asked to, and returns the proxies the data provider reports afterwards, not the
  implementations.
\<close>

lemma aave_reserve_returns_proxies:
  assumes "createAndEnableReserve e this asset assetSymbol decimals ltv threshold bonus factor borrow stableRate None None None s = Some (rt, s')"
  shows "\<exists>aT sT vT conf prov strategy proxies. aa_lendingPoolConfigurator this = Some conf \<and> aa_protocolDataProvider this = Some prov \<and>
    aa_reserveInterestRateStrategy this = Some strategy \<and>
    txs s' = txs s @
      [Create (deployerSigner (external (aa_deployer this))) ''AaveV2AToken'' [] [] (cAddress aT),
       Create (deployerSigner (external (aa_deployer this))) ''AaveV2StableDebtToken'' [] [] (cAddress sT),
       Create (deployerSigner (external (aa_deployer this))) ''AaveV2VariableDebtToken'' [] [] (cAddress vT),
       Call (cSigner conf) (cAddress conf) ''batchInitReserve'' [Lst [reserve_input aT sT vT asset assetSymbol decimals
         (the (aa_treasuryAddress this)) (the (aa_incentivesControllerAddress this)) (cAddress strategy)]],
       Call (cSigner conf) (cAddress conf) ''configureReserveAsCollateral'' [Addr asset, Num ltv, Num threshold, Num bonus]] @
      (if borrow then [Call (cSigner conf) (cAddress conf) ''enableBorrowingOnReserve'' [Addr asset, Bool stableRate]] else []) @
      [Call (cSigner conf) (cAddress conf) ''setReserveFactor'' [Addr asset, Num factor]] \<and>
    view_call e (txs s') (cAddress prov) ''getReserveTokensAddresses'' [Addr asset] = Some (Lst proxies) \<and>
    take 3 proxies = map (Addr \<circ> cAddress) [rt_aToken rt, rt_stableDebtToken rt, rt_variableDebtToken rt]"
  using createAndEnableReserve_history [OF assms] by (fastforce simp: or_else_def address_or_def)

lemma aave_reserve_returns_proxies_instance:
  "\<exists>rt s'. createAndEnableReserve lending_env aave_fixture ''weth'' ''WETH'' 18 8000 8250 10500 1000 True True None None None
      \<lparr>nonces = \<lambda>_. 0, txs = []\<rparr> = Some (rt, s') \<and> cAddress (rt_aToken rt) = ''pa''"
proof -
  have "\<exists>rt s'. createAndEnableReserve lending_env aave_fixture ''weth'' ''WETH'' 18 8000 8250 10500 1000 True True None None None
      \<lparr>nonces = \<lambda>_. 0, txs = []\<rparr> = Some (rt, s')"
    by (simp add: createAndEnableReserve_def deploy_defs deploy_def deploy_linked_def call_def send_def view_def nth_opt_def
        lending_env_def aave_fixture_def new_AaveV2Fixture_def address_or_def Let_def)
  then obtain rt s' where run: "createAndEnableReserve lending_env aave_fixture ''weth'' ''WETH'' 18 8000 8250 10500 1000 True True None None None
      \<lparr>nonces = \<lambda>_. 0, txs = []\<rparr> = Some (rt, s')" by blast
  obtain prov :: contract and proxies where "view_call lending_env (txs s') (cAddress prov) ''getReserveTokensAddresses'' [Addr ''weth''] = Some (Lst proxies)"
    "take 3 proxies = map (Addr \<circ> cAddress) [rt_aToken rt, rt_stableDebtToken rt, rt_variableDebtToken rt]"
    using aave_reserve_returns_proxies [OF run] by (elim exE conjE) (rule that)
  then have "cAddress (rt_aToken rt) = ''pa''" by (auto simp: lending_env_def)
  with run show ?thesis by blast
qed

end
