(* ===== verification/Account_Utils.thy ===== *)
theory Account_Utils
  imports Deploy_Mocks Dependencies Encoding_Utils Protocol_Fixtures
begin

section \<open>Accounts and forked tokens: utils/test/accountUtils.ts, utils/common/addressUtils.ts\<close>

text \<open>
  The signers of the node and its balances are arguments. A missing array element is
  \<^verbatim>\<open>undefined\<close>, hence \<open>None\<close>. The request that impersonates an account is an entry of the
  history, as the clock requests are.
\<close>

record Account =
  acc_address :: address
  acc_wallet :: address

definition getWallets :: "address list \<Rightarrow> address list" where
  "getWallets signers = signers"

definition getAccounts :: "address list \<Rightarrow> Account list" where
  "getAccounts signers = map (\<lambda>w. \<lparr>acc_address = w, acc_wallet = w\<rparr>) (getWallets signers)"

definition getRandomAccount :: "address list \<Rightarrow> Account option" where
  "getRandomAccount signers = (let accounts = getAccounts signers in
     if accounts = [] then None else Some (accounts ! (length accounts - 1)))"

definition getEthBalance :: "(address \<Rightarrow> int option) \<Rightarrow> address \<Rightarrow> int option" where
  "getEthBalance getBalance account = getBalance account"

text \<open>\<^verbatim>\<open>Wallet.createRandom()\<close> yields a wallet of the library and \<^verbatim>\<open>getAddress\<close> reads the address of its key.\<close>

definition getRandomAddress :: "('r \<Rightarrow> 'wallet \<times> 'r) \<Rightarrow> ('wallet \<Rightarrow> address) \<Rightarrow> 'r \<Rightarrow> address \<times> 'r" where
  "getRandomAddress createRandom getAddress r = (let (wallet, r) = createRandom r in (getAddress wallet, r))"

definition getForkedDependencyAddresses :: "string option list \<times> string option list" where
  "getForkedDependencyAddresses =
     (map dependency_single [''DAI_WHALE'', ''WETH_WHALE'', ''WBTC_WHALE'', ''USDC_WHALE'', ''STETH_WHALE'', ''RETH_WHALE''],
      map (\<lambda>n. dependency n 1) [''DAI'', ''WETH'', ''WBTC'', ''USDC'', ''STETH'', ''RETH''])"

record ForkedTokens =
  ft_dai :: contract
  ft_weth :: contract
  ft_wbtc :: contract
  ft_usdc :: contract
  ft_steth :: contract
  ft_reth :: contract

text \<open>\<^verbatim>\<open>IERC20__factory.connect(tokens[i], provider.getSigner(whales[i]))\<close>.\<close>

definition forked_token :: "nat \<Rightarrow> contract option" where
  "forked_token i = do {
     let (whales, tokens) = getForkedDependencyAddresses;
     token \<leftarrow> Option.bind (nth_opt tokens i) id;
     whale \<leftarrow> Option.bind (nth_opt whales i) id;
     Some (attach ''IERC20'' token whale)
   }"

definition getForkedTokens :: "ForkedTokens option" where
  "getForkedTokens = do {
     dai \<leftarrow> forked_token 0;
     weth \<leftarrow> forked_token 1;
     wbtc \<leftarrow> forked_token 2;
     usdc \<leftarrow> forked_token 3;
     steth \<leftarrow> forked_token 4;
     reth \<leftarrow> forked_token 5;
     Some \<lparr>ft_dai = dai, ft_weth = weth, ft_wbtc = wbtc, ft_usdc = usdc, ft_steth = steth, ft_reth = reth\<rparr>
   }"

definition fund_whale :: "env \<Rightarrow> DeployHelper \<Rightarrow> string \<Rightarrow> chain \<Rightarrow> chain option" where
  "fund_whale e deployer whale s = do {
     s \<leftarrow> send e (Call node_account node_account ''hardhat_impersonateAccount'' [Addr whale]) s;
     (funder, s) \<leftarrow> deployForceFunderMock e (mocks deployer) s;
     gas \<leftarrow> ether 100;
     call e funder ''fund'' [Addr whale, Obj [(''value'', Num gas)]] s
   }"

definition initializeForkedTokens :: "env \<Rightarrow> DeployHelper \<Rightarrow> chain \<Rightarrow> chain option" where
  "initializeForkedTokens e deployer s = do {
     let (whales, tokens) = getForkedDependencyAddresses;
     for_each whales (\<lambda>whale s. Option.bind whale (\<lambda>whale. fund_whale e deployer whale s)) s
   }"

subsection \<open>Funding\<close>

text \<open>The three entries of the history for one whale, with the address of its funder.\<close>

definition funding :: "address \<Rightarrow> string \<times> address \<Rightarrow> tx list" where
  "funding signer = (\<lambda>(whale, funder).
     [Call node_account node_account ''hardhat_impersonateAccount'' [Addr whale],
      Create signer ''ForceFunderMock'' [] [] funder,
      Call signer funder ''fund'' [Addr whale, Obj [(''value'', Num (100 * 10 ^ 18))]]])"

lemma fund_whale_history:
  assumes "\<And>ts t. accepts e ts t"
  shows "\<exists>s' a. fund_whale e d whale s = Some s' \<and> txs s' = txs s @ funding (deployerSigner (mocks d)) (whale, a)"
  by (simp add: fund_whale_def deployForceFunderMock_def deploy_def deploy_linked_def call_def send_def funding_def assms Let_def)

lemma fund_whales_history:
  assumes "\<And>ts t. accepts e ts t"
  shows "\<exists>s' as. for_each (map Some ws) (\<lambda>whale s. Option.bind whale (\<lambda>whale. fund_whale e d whale s)) s = Some s' \<and>
    length as = length ws \<and> txs s' = txs s @ concat (map (funding (deployerSigner (mocks d))) (zip ws as))"
proof (induction ws arbitrary: s)
  case (Cons w ws)
  obtain s1 a where 1: "fund_whale e d w s = Some s1" "txs s1 = txs s @ funding (deployerSigner (mocks d)) (w, a)"
    using fund_whale_history [of e d w s] assms by blast
  obtain s2 as where "for_each (map Some ws) (\<lambda>whale s. Option.bind whale (\<lambda>whale. fund_whale e d whale s)) s1 = Some s2"
    "length as = length ws" "txs s2 = txs s1 @ concat (map (funding (deployerSigner (mocks d))) (zip ws as))"
    using Cons.IH [of s1] by blast
  with 1 show ?case by (intro exI [of _ s2] exI [of _ "a # as"]) simp
qed simp

definition whale_list :: "string list" where
  "whale_list = [''0x47ac0Fb4F2D84898e4D9E7b4DaB3C24507a6D503'', ''0x2f0b23f53734252bda2277357e97e1517d6b042a'',
     ''0x2260fac5e5542a773aa44fbcfedf7c193bc2c599'', ''0x47ac0Fb4F2D84898e4D9E7b4DaB3C24507a6D503'',
     ''0xdc24316b9ae028f1497c275eb9192a3ea0f67022'', ''0x11036bcC3E77B7042fEE78d3b970ccF39f64b11F'']"

lemma forked_whales: "fst getForkedDependencyAddresses = map Some whale_list"
  by code_simp

lemma forked_tokens_signed:
  "case getForkedTokens of None \<Rightarrow> False
   | Some ft \<Rightarrow> map cSigner [ft_dai ft, ft_weth ft, ft_wbtc ft, ft_usdc ft, ft_steth ft, ft_reth ft] = whale_list"
  by code_simp

subsection \<open>Properties\<close>

text \<open>
  Forked tokens can be used: every token and every holder is in the dependency table, and on a node that
  accepts the requests \<^verbatim>\<open>initializeForkedTokens\<close> impersonates the signer of each forked token, in order,
  and sends it one hundred ether for gas from a funder of its own.
\<close>

lemma forked_tokens_are_funded:
  assumes "\<And>ts t. accepts e ts t"
  shows "\<exists>ft s' as. getForkedTokens = Some ft \<and> initializeForkedTokens e d s = Some s' \<and> length as = 6 \<and>
    txs s' = txs s @ concat (map (funding (deployerSigner (mocks d)))
      (zip (map cSigner [ft_dai ft, ft_weth ft, ft_wbtc ft, ft_usdc ft, ft_steth ft, ft_reth ft]) as))"
proof -
  obtain ft where ft: "getForkedTokens = Some ft"
    "map cSigner [ft_dai ft, ft_weth ft, ft_wbtc ft, ft_usdc ft, ft_steth ft, ft_reth ft] = whale_list"
    using forked_tokens_signed by (auto split: option.splits)
  obtain s' as where s': "for_each (map Some whale_list) (\<lambda>whale s. Option.bind whale (\<lambda>whale. fund_whale e d whale s)) s = Some s'"
    "length as = length whale_list" "txs s' = txs s @ concat (map (funding (deployerSigner (mocks d))) (zip whale_list as))"
    using fund_whales_history [OF assms, where ws = whale_list and d = d and s = s] by blast
  have "initializeForkedTokens e d s = Some s'"
    using s'(1) forked_whales by (simp add: initializeForkedTokens_def case_prod_unfold)
  moreover have "length whale_list = 6" by (simp add: whale_list_def)
  ultimately show ?thesis using ft s'(2,3) by (intro exI [of _ ft] exI [of _ s'] exI [of _ as]) (simp only: ft(2) simp_thms)
qed

lemma forked_tokens_are_funded_instance:
  "\<exists>s'. initializeForkedTokens lending_env (new_DeployHelper ''o'') \<lparr>nonces = \<lambda>_. 0, txs = []\<rparr> = Some s'"
  using forked_tokens_are_funded [of lending_env "new_DeployHelper ''o''" "\<lparr>nonces = \<lambda>_. 0, txs = []\<rparr>"]
  by (auto simp: lending_env_def)

lemma wbtc_whale_is_the_token:
  "map_option js_toLowerCase (dependency ''WBTC'' 1) = dependency_single ''WBTC_WHALE''"
  by code_simp

end
