(* ===== verification/Snapshots.thy ===== *)
theory Snapshots
  imports Chain_Model Math_Utils
begin

section \<open>Test sandboxing: Blockchain and the snapshot hooks\<close>

text \<open>
  Models utils/common/blockchainUtils.ts and utils/test/testingUtils.ts. The provider is a parameter
  \<open>rpc\<close>, a step function on an abstract node state: the result of a JSON-RPC request and the node
  afterwards, \<open>None\<close> if the request is rejected. What the hooks rely on is the documented
  behaviour of \<^verbatim>\<open>evm_snapshot\<close> and \<^verbatim>\<open>evm_revert\<close>, stated as \<open>snapshot_rpc\<close>: a snapshot has a
  new id, reverting restores the chain and deletes the snapshot and every later one.
\<close>

type_synonym 'n rpc = "'n \<Rightarrow> string \<Rightarrow> arg list \<Rightarrow> (arg \<times> 'n) option"

subsection \<open>blockchainUtils.ts\<close>

record blockchain =
  snapshotId :: arg

definition new_Blockchain :: blockchain where
  "new_Blockchain = \<lparr>snapshotId = Num 0\<rparr>"

definition sendJSONRpcRequestAsync :: "'n rpc \<Rightarrow> string \<Rightarrow> arg list \<Rightarrow> 'n \<Rightarrow> (arg \<times> 'n) option" where
  "sendJSONRpcRequestAsync rpc method params n = rpc n method params"

definition saveSnapshotAsync :: "'n rpc \<Rightarrow> blockchain \<Rightarrow> 'n \<Rightarrow> (arg \<times> blockchain \<times> 'n) option" where
  "saveSnapshotAsync rpc this n = do {
     (response, n) \<leftarrow> sendJSONRpcRequestAsync rpc ''evm_snapshot'' [] n;
     Some (response, this\<lparr>snapshotId := response\<rparr>, n)
   }"

definition revertAsync :: "'n rpc \<Rightarrow> blockchain \<Rightarrow> 'n \<Rightarrow> 'n option" where
  "revertAsync rpc this n = map_option snd (sendJSONRpcRequestAsync rpc ''evm_revert'' [snapshotId this] n)"

definition revertByIdAsync :: "'n rpc \<Rightarrow> arg \<Rightarrow> 'n \<Rightarrow> 'n option" where
  "revertByIdAsync rpc i n = map_option snd (sendJSONRpcRequestAsync rpc ''evm_revert'' [i] n)"

definition resetAsync :: "'n rpc \<Rightarrow> 'n \<Rightarrow> 'n option" where
  "resetAsync rpc n = map_option snd (sendJSONRpcRequestAsync rpc ''evm_revert'' [Str ''0x1''] n)"

definition blockchain_increaseTimeAsync :: "'n rpc \<Rightarrow> int \<Rightarrow> 'n \<Rightarrow> 'n option" where
  "blockchain_increaseTimeAsync rpc duration n =
     map_option snd (sendJSONRpcRequestAsync rpc ''evm_increaseTime'' [Num duration] n)"

text \<open>Despite its name it returns the latest block, not its timestamp.\<close>

definition getCurrentTimestamp :: "('n \<Rightarrow> int option) \<Rightarrow> ('n \<Rightarrow> int \<Rightarrow> 'block option) \<Rightarrow> 'n \<Rightarrow> 'block option" where
  "getCurrentTimestamp getBlockNumber getBlock n = Option.bind (getBlockNumber n) (getBlock n)"

definition setNextBlockTimestamp :: "'n rpc \<Rightarrow> int \<Rightarrow> 'n \<Rightarrow> 'n option" where
  "setNextBlockTimestamp rpc timestamp n =
     map_option snd (sendJSONRpcRequestAsync rpc ''evm_setNextBlockTimestamp'' [Num timestamp] n)"

fun waitBlocksAsync :: "'n rpc \<Rightarrow> nat \<Rightarrow> 'n \<Rightarrow> 'n option" where
  "waitBlocksAsync rpc 0 n = Some n"
| "waitBlocksAsync rpc (Suc count) n =
     Option.bind (sendJSONRpcRequestAsync rpc ''evm_mine'' [] n) (\<lambda>(_, n). waitBlocksAsync rpc count n)"

subsection \<open>testingUtils.ts: the hooks\<close>

text \<open>The two hooks of \<^verbatim>\<open>addSnapshotBeforeRestoreAfterEach\<close>; they share one Blockchain object.\<close>

definition snapshot_beforeEach :: "'n rpc \<Rightarrow> blockchain \<times> 'n \<Rightarrow> (blockchain \<times> 'n) option" where
  "snapshot_beforeEach rpc = (\<lambda>(blockchain, n). map_option snd (saveSnapshotAsync rpc blockchain n))"

definition restore_afterEach :: "'n rpc \<Rightarrow> blockchain \<times> 'n \<Rightarrow> (blockchain \<times> 'n) option" where
  "restore_afterEach rpc = (\<lambda>(blockchain, n). map_option (Pair blockchain) (revertAsync rpc blockchain n))"

text \<open>
  \<^verbatim>\<open>cacheBeforeEach\<close>: the module's array SNAPSHOTS is shared by all suites, the flag is the closure's
  own. The initializer is a parameter.
\<close>

record 'n cache_state =
  SNAPSHOTS :: "arg list"
  cache_node :: 'n

definition cache_beforeEach :: "'n rpc \<Rightarrow> ('n \<Rightarrow> 'n option) \<Rightarrow> bool \<Rightarrow> 'n cache_state \<Rightarrow> (bool \<times> 'n cache_state) option" where
  "cache_beforeEach rpc initializer initialized st =
     (if \<not> initialized then do {
        n \<leftarrow> initializer (cache_node st);
        (i, _, n) \<leftarrow> saveSnapshotAsync rpc new_Blockchain n;
        Some (True, \<lparr>SNAPSHOTS = SNAPSHOTS st @ [i], cache_node = n\<rparr>)
      } else if SNAPSHOTS st = [] then None
      else do {
        let snapshotId = last (SNAPSHOTS st);
        n \<leftarrow> revertByIdAsync rpc snapshotId (cache_node st);
        (i, _, n) \<leftarrow> saveSnapshotAsync rpc new_Blockchain n;
        Some (True, \<lparr>SNAPSHOTS = butlast (SNAPSHOTS st) @ [i], cache_node = n\<rparr>)
      })"

definition cache_after :: "bool \<Rightarrow> 'n cache_state \<Rightarrow> 'n cache_state" where
  "cache_after initialized st = (if initialized then st\<lparr>SNAPSHOTS := butlast (SNAPSHOTS st)\<rparr> else st)"

subsection \<open>testingUtils.ts: time and amounts\<close>

record tx_response =
  txr_hash :: string
  txr_blockNumber :: "int option"
  txr_block :: "int option"

text \<open>The code reads the field \<^verbatim>\<open>block\<close>; the block number of a response is in \<^verbatim>\<open>blockNumber\<close>.\<close>

definition getTransactionTimestamp :: "(int option \<Rightarrow> int option) \<Rightarrow> tx_response \<Rightarrow> int option" where
  "getTransactionTimestamp getBlock txData = getBlock (txr_block txData)"

definition getLastBlockTimestamp :: "(string \<Rightarrow> int option) \<Rightarrow> int option" where
  "getLastBlockTimestamp getBlock = getBlock ''latest''"

text \<open>
  The module has a \<^verbatim>\<open>sendJSONRpcRequestAsync\<close> of its own, beside the method of \<^verbatim>\<open>Blockchain\<close>; both send the
  method and its parameters to the provider as they are.
\<close>

definition testing_sendJSONRpcRequestAsync :: "'n rpc \<Rightarrow> string \<Rightarrow> arg list \<Rightarrow> 'n \<Rightarrow> (arg \<times> 'n) option" where
  "testing_sendJSONRpcRequestAsync provider_send method params n = provider_send n method params"

definition mineBlockAsync :: "'n rpc \<Rightarrow> 'n \<Rightarrow> 'n option" where
  "mineBlockAsync rpc n = map_option snd (testing_sendJSONRpcRequestAsync rpc ''evm_mine'' [] n)"

definition increaseTimeAsync :: "'n rpc \<Rightarrow> int \<Rightarrow> 'n \<Rightarrow> 'n option" where
  "increaseTimeAsync rpc duration n = do {
     d \<leftarrow> (if \<bar>duration\<bar> < 2 ^ 53 then Some duration else None);
     (_, n) \<leftarrow> testing_sendJSONRpcRequestAsync rpc ''evm_increaseTime'' [Num d] n;
     mineBlockAsync rpc n
   }"

definition convertNotionalToPosition :: "int \<Rightarrow> int \<Rightarrow> int option" where
  "convertNotionalToPosition notionalAmount totalSupply = bn_div (notionalAmount * 10 ^ 18) totalSupply"

definition convertPositionToNotional :: "int \<Rightarrow> int \<Rightarrow> int option" where
  "convertPositionToNotional positionAmount totalSupply = bn_div (positionAmount * totalSupply) (10 ^ 18)"

definition impersonateAccount :: "'n rpc \<Rightarrow> address \<Rightarrow> 'n \<Rightarrow> (address \<times> 'n) option" where
  "impersonateAccount rpc a n = map_option (Pair a \<circ> snd) (rpc n ''hardhat_impersonateAccount'' [Addr a])"

subsection \<open>What the hooks rely on\<close>

text \<open>
  \<open>cur\<close> is the chain of a node, \<open>saved\<close> its live snapshots, newest first.
\<close>

definition snapshot_rpc :: "'n rpc \<Rightarrow> ('n \<Rightarrow> 'c) \<Rightarrow> ('n \<Rightarrow> (arg \<times> 'c) list) \<Rightarrow> bool" where
  "snapshot_rpc rpc cur saved \<longleftrightarrow>
     (\<forall>n. \<exists>i n'. rpc n ''evm_snapshot'' [] = Some (i, n') \<and> i \<notin> fst ` set (saved n) \<and>
        cur n' = cur n \<and> saved n' = (i, cur n) # saved n) \<and>
     (\<forall>n newer i c older. saved n = newer @ (i, c) # older \<longrightarrow> i \<notin> fst ` set newer \<longrightarrow>
        (\<exists>r n'. rpc n ''evm_revert'' [i] = Some (r, n') \<and> cur n' = c \<and> saved n' = older))"

text \<open>A test body may change the chain and take snapshots of its own.\<close>

definition well_behaved :: "('n \<Rightarrow> (arg \<times> 'c) list) \<Rightarrow> ('n \<Rightarrow> 'n) \<Rightarrow> bool" where
  "well_behaved saved body \<longleftrightarrow>
     (\<forall>n. distinct (map fst (saved n)) \<longrightarrow>
        (\<exists>newer. saved (body n) = newer @ saved n \<and> distinct (map fst (newer @ saved n))))"

lemma snapshot_taken:
  assumes "snapshot_rpc rpc cur saved"
  obtains i n' where "saveSnapshotAsync rpc b n = Some (i, b\<lparr>snapshotId := i\<rparr>, n')"
    "i \<notin> fst ` set (saved n)" "cur n' = cur n" "saved n' = (i, cur n) # saved n"
proof -
  obtain i n' where "rpc n ''evm_snapshot'' [] = Some (i, n')" "i \<notin> fst ` set (saved n)" "cur n' = cur n"
    "saved n' = (i, cur n) # saved n"
    using assms unfolding snapshot_rpc_def by blast
  then show thesis by (intro that [of i n']) (simp_all add: saveSnapshotAsync_def sendJSONRpcRequestAsync_def)
qed

lemma snapshot_reverted:
  assumes "snapshot_rpc rpc cur saved" "saved n = newer @ (i, c) # older" "i \<notin> fst ` set newer"
  obtains n' where "revertByIdAsync rpc i n = Some n'" "cur n' = c" "saved n' = older"
proof -
  obtain r n' where "rpc n ''evm_revert'' [i] = Some (r, n')" "cur n' = c" "saved n' = older"
    using assms unfolding snapshot_rpc_def by blast
  then show thesis by (intro that [of n']) (simp_all add: revertByIdAsync_def sendJSONRpcRequestAsync_def)
qed

subsection \<open>The stack of cached snapshots\<close>

text \<open>
  The entries of SNAPSHOTS, top first, each with the chain it stands for: they are live snapshots of the
  node, and deeper entries are older ones.
\<close>

fun cached :: "(arg \<times> 'c) list \<Rightarrow> (arg \<times> 'c) list \<Rightarrow> bool" where
  "cached [] sv = True"
| "cached ((i, c) # stk) sv =
     (\<exists>newer older. sv = newer @ (i, c) # older \<and> i \<notin> fst ` set newer \<and> cached stk older)"

lemma cached_top: "cached stk sv \<Longrightarrow> cached ((i, c) # stk) ((i, c) # sv)"
  by (auto intro: exI [of _ "[]"])

lemma cached_extend: "cached stk sv \<Longrightarrow> distinct (map fst (nw @ sv)) \<Longrightarrow> cached stk (nw @ sv)"
proof (cases stk)
  case (Cons a stk')
  obtain i c where a: "a = (i, c)" by (cases a)
  assume "cached stk sv" "distinct (map fst (nw @ sv))"
  with Cons a obtain newer older where s: "sv = newer @ (i, c) # older" "cached stk' older" by auto
  have "nw @ sv = (nw @ newer) @ (i, c) # older \<and> i \<notin> fst ` set (nw @ newer)"
    using s(1) \<open>distinct (map fst (nw @ sv))\<close> by auto
  with Cons a s(2) show ?thesis by (simp only: cached.simps) blast
qed simp

definition cache_ok :: "('n \<Rightarrow> (arg \<times> 'c) list) \<Rightarrow> (arg \<times> 'c) list \<Rightarrow> 'n cache_state \<Rightarrow> bool" where
  "cache_ok saved stk st \<longleftrightarrow> SNAPSHOTS st = rev (map fst stk) \<and> cached stk (saved (cache_node st)) \<and>
     distinct (map fst (saved (cache_node st)))"

lemma cache_first:
  assumes "snapshot_rpc rpc cur saved" "cache_ok saved stk st" "well_behaved saved init"
  obtains i st' where "cache_beforeEach rpc (\<lambda>n. Some (init n)) False st = Some (True, st')"
    "cache_ok saved ((i, cur (init (cache_node st))) # stk) st'" "cur (cache_node st') = cur (init (cache_node st))"
proof -
  let ?n = "init (cache_node st)"
  obtain nw where nw: "saved ?n = nw @ saved (cache_node st)" "distinct (map fst (nw @ saved (cache_node st)))"
    using assms(2,3) unfolding cache_ok_def well_behaved_def by blast
  obtain i n' where s: "saveSnapshotAsync rpc new_Blockchain ?n = Some (i, new_Blockchain\<lparr>snapshotId := i\<rparr>, n')"
    "i \<notin> fst ` set (saved ?n)" "cur n' = cur ?n" "saved n' = (i, cur ?n) # saved ?n"
    using snapshot_taken [OF assms(1)] by blast
  have "cached stk (saved ?n)" unfolding nw(1) using assms(2) cached_extend nw(2) by (auto simp: cache_ok_def)
  then have "cached ((i, cur ?n) # stk) (saved n')" unfolding s(4) by (rule cached_top)
  moreover have "distinct (map fst (saved n'))" using s(2,4) nw by (simp add: image_Un)
  ultimately show thesis using s(1,3) assms(2)
    by (intro that [of "\<lparr>SNAPSHOTS = SNAPSHOTS st @ [i], cache_node = n'\<rparr>" i])
       (simp_all add: cache_beforeEach_def cache_ok_def)
qed

lemma cache_again:
  assumes "snapshot_rpc rpc cur saved" "cache_ok saved ((i, c) # stk) st"
  obtains j st' where "cache_beforeEach rpc initializer True st = Some (True, st')"
    "cache_ok saved ((j, c) # stk) st'" "cur (cache_node st') = c"
proof -
  obtain newer older where sv: "saved (cache_node st) = newer @ (i, c) # older" "i \<notin> fst ` set newer" "cached stk older"
    using assms(2) by (auto simp: cache_ok_def)
  obtain n where n: "revertByIdAsync rpc i (cache_node st) = Some n" "cur n = c" "saved n = older"
    using snapshot_reverted [OF assms(1) sv(1,2)] by blast
  obtain j n' where s: "saveSnapshotAsync rpc new_Blockchain n = Some (j, new_Blockchain\<lparr>snapshotId := j\<rparr>, n')"
    "j \<notin> fst ` set (saved n)" "cur n' = cur n" "saved n' = (j, cur n) # saved n"
    using snapshot_taken [OF assms(1)] by blast
  have "cached ((j, c) # stk) (saved n')" using cached_top [OF sv(3)] by (simp add: s(4) n del: cached.simps(2))
  moreover have "distinct (map fst (saved n'))" using s(2,4) n(3) sv(1) assms(2) by (simp add: cache_ok_def)
  ultimately show thesis using s(1,3) n assms(2)
    by (intro that [of "\<lparr>SNAPSHOTS = butlast (SNAPSHOTS st) @ [j], cache_node = n'\<rparr>" j])
       (simp_all add: cache_beforeEach_def cache_ok_def)
qed

lemma cache_body:
  assumes "cache_ok saved stk st" "well_behaved saved body"
  shows "cache_ok saved stk (st\<lparr>cache_node := body (cache_node st)\<rparr>)"
proof -
  obtain nw where "saved (body (cache_node st)) = nw @ saved (cache_node st)"
    "distinct (map fst (nw @ saved (cache_node st)))"
    using assms unfolding cache_ok_def well_behaved_def by blast
  with assms(1) cached_extend [of stk "saved (cache_node st)" nw] show ?thesis by (simp add: cache_ok_def)
qed

lemma cache_done: "cache_ok saved ((i, c) # stk) st \<Longrightarrow> cache_ok saved stk (cache_after True st)"
proof -
  assume ok: "cache_ok saved ((i, c) # stk) st"
  then obtain newer older where sv: "saved (cache_node st) = newer @ (i, c) # older" "cached stk older"
    by (auto simp: cache_ok_def)
  have "cached stk ((newer @ [(i, c)]) @ older)"
    using ok sv by (intro cached_extend) (auto simp: cache_ok_def)
  then show ?thesis using ok sv by (simp add: cache_ok_def cache_after_def)
qed

subsection \<open>Suites\<close>

text \<open>
  A suite with a cached initializer: before every test its hook runs. The function returns the chain
  each test body starts from, and the state after the suite's final hook. \<open>inner\<close> is what runs inside a
  test (a body, or a nested suite with its own hook).
\<close>

fun run_cached :: "'n rpc \<Rightarrow> ('n \<Rightarrow> 'c) \<Rightarrow> ('n \<Rightarrow> 'n option) \<Rightarrow> ('n \<Rightarrow> 'n) list \<Rightarrow> bool \<Rightarrow> 'n cache_state
    \<Rightarrow> ('c list \<times> bool \<times> 'n cache_state) option" where
  "run_cached rpc cur initializer [] initialized st = Some ([], initialized, st)"
| "run_cached rpc cur initializer (body # bodies) initialized st = do {
     (initialized, st) \<leftarrow> cache_beforeEach rpc initializer initialized st;
     let st' = st\<lparr>cache_node := body (cache_node st)\<rparr>;
     (cs, initialized, st'') \<leftarrow> run_cached rpc cur initializer bodies initialized st';
     Some (cur (cache_node st) # cs, initialized, st'')
   }"

lemma run_cached_again:
  assumes "snapshot_rpc rpc cur saved" "\<forall>body \<in> set bodies. well_behaved saved body"
    and "cache_ok saved ((i, c) # stk) st"
  shows "\<exists>j st'. run_cached rpc cur initializer bodies True st = Some (replicate (length bodies) c, True, st') \<and>
    cache_ok saved ((j, c) # stk) st'"
  using assms(2,3)
proof (induction bodies arbitrary: i st)
  case (Cons body bodies)
  obtain j st' where h: "cache_beforeEach rpc initializer True st = Some (True, st')"
    "cache_ok saved ((j, c) # stk) st'" "cur (cache_node st') = c"
    using cache_again [OF assms(1) Cons.prems(2)] by blast
  have "well_behaved saved body" "\<forall>body \<in> set bodies. well_behaved saved body" using Cons.prems by simp_all
  with Cons.IH cache_body [OF h(2)] obtain k st'' where
    "run_cached rpc cur initializer bodies True (st'\<lparr>cache_node := body (cache_node st')\<rparr>)
      = Some (replicate (length bodies) c, True, st'')" "cache_ok saved ((k, c) # stk) st''" by blast
  then show ?case using h by auto
qed auto

text \<open>A suite with the plain hooks: snapshot before and restore after every test.\<close>

fun run_sandboxed :: "'n rpc \<Rightarrow> ('n \<Rightarrow> 'c) \<Rightarrow> ('n \<Rightarrow> 'n) list \<Rightarrow> blockchain \<times> 'n \<Rightarrow> ('c list \<times> blockchain \<times> 'n) option" where
  "run_sandboxed rpc cur [] st = Some ([], st)"
| "run_sandboxed rpc cur (body # bodies) st = do {
     (b, n) \<leftarrow> snapshot_beforeEach rpc st;
     st \<leftarrow> restore_afterEach rpc (b, body n);
     (cs, st) \<leftarrow> run_sandboxed rpc cur bodies st;
     Some (cur n # cs, st)
   }"

lemma run_sandboxed_isolates:
  assumes "snapshot_rpc rpc cur saved" "\<forall>body \<in> set bodies. well_behaved saved body" "distinct (map fst (saved n))"
  shows "\<exists>b' n'. run_sandboxed rpc cur bodies (b, n) = Some (replicate (length bodies) (cur n), b', n') \<and>
    cur n' = cur n \<and> saved n' = saved n"
  using assms(2,3)
proof (induction bodies arbitrary: b n)
  case (Cons body bodies)
  obtain i n1 where s: "saveSnapshotAsync rpc b n = Some (i, b\<lparr>snapshotId := i\<rparr>, n1)"
    "i \<notin> fst ` set (saved n)" "cur n1 = cur n" "saved n1 = (i, cur n) # saved n"
    using snapshot_taken [OF assms(1)] by blast
  have "distinct (map fst (saved n1))" using s(2,4) Cons.prems(2) by simp
  moreover have "well_behaved saved body" using Cons.prems by simp
  ultimately obtain nw where nw: "saved (body n1) = nw @ saved n1" "distinct (map fst (nw @ saved n1))"
    unfolding well_behaved_def by blast
  then have "saved (body n1) = nw @ (i, cur n) # saved n" "i \<notin> fst ` set nw" using s(4) by auto
  from snapshot_reverted [OF assms(1) this] obtain n2 where
    n2: "revertByIdAsync rpc i (body n1) = Some n2" "cur n2 = cur n" "saved n2 = saved n" by blast
  have "\<forall>body \<in> set bodies. well_behaved saved body" "distinct (map fst (saved n2))" using Cons.prems n2(3) by simp_all
  from Cons.IH [OF this, of "b\<lparr>snapshotId := i\<rparr>"] n2 s show ?case
    by (auto simp: snapshot_beforeEach_def restore_afterEach_def revertAsync_def revertByIdAsync_def)
qed simp

text \<open>The reference node of the witnesses: snapshots are numbered, reverting follows the documentation.\<close>

record node =
  node_chain :: "string list"
  node_saved :: "(arg \<times> string list) list"

fun id_weight :: "arg \<Rightarrow> nat" where
  "id_weight (Num k) = nat \<bar>k\<bar>"
| "id_weight _ = 0"

definition fresh_id :: "node \<Rightarrow> arg" where
  "fresh_id n = Num (1 + int (sum_list (map (id_weight \<circ> fst) (node_saved n))))"

definition node_rpc :: "node rpc" where
  "node_rpc n method params =
     (if method = ''evm_snapshot''
      then Some (fresh_id n, n\<lparr>node_saved := (fresh_id n, node_chain n) # node_saved n\<rparr>)
      else if method = ''evm_revert'' then (case dropWhile (\<lambda>x. [fst x] \<noteq> params) (node_saved n) of
          [] \<Rightarrow> None
        | (i, c) # older \<Rightarrow> Some (Bool True, n\<lparr>node_chain := c, node_saved := older\<rparr>))
      else Some (Bool True, n))"

lemma fresh_id_fresh: "fresh_id n \<notin> fst ` set (node_saved n)"
proof
  assume "fresh_id n \<in> fst ` set (node_saved n)"
  then have "id_weight (fresh_id n) \<in> set (map (id_weight \<circ> fst) (node_saved n))" by force
  then have "id_weight (fresh_id n) \<le> sum_list (map (id_weight \<circ> fst) (node_saved n))"
    by (rule member_le_sum_list) simp
  then show False by (simp add: fresh_id_def)
qed

lemma node_rpc_ok: "snapshot_rpc node_rpc node_chain node_saved"
  unfolding snapshot_rpc_def
proof (intro conjI allI impI)
  fix n :: node
  show "\<exists>i n'. node_rpc n ''evm_snapshot'' [] = Some (i, n') \<and> i \<notin> fst ` set (node_saved n) \<and>
        node_chain n' = node_chain n \<and> node_saved n' = (i, node_chain n) # node_saved n"
    using fresh_id_fresh [of n] by (simp add: node_rpc_def)
next
  fix n :: node and newer i c older
  assume sv: "node_saved n = newer @ (i, c) # older" "i \<notin> fst ` set newer"
  then have "dropWhile (\<lambda>x. [fst x] \<noteq> [i]) (node_saved n) = (i, c) # older"
    by (subst sv(1), subst dropWhile_append2) auto
  then show "\<exists>r n'. node_rpc n ''evm_revert'' [i] = Some (r, n') \<and> node_chain n' = c \<and> node_saved n' = older"
    by (simp add: node_rpc_def)
qed

lemma push_well_behaved: "well_behaved node_saved (\<lambda>n. n\<lparr>node_chain := t # node_chain n\<rparr>)"
  by (auto simp: well_behaved_def)

subsection \<open>Properties\<close>

text \<open>
  Snapshot hooks isolate tests: with a node that behaves as documented, every test of a suite with
  \<^verbatim>\<open>addSnapshotBeforeRestoreAfterEach\<close> starts from the chain the suite started from, whatever the bodies
  do to the chain and whatever snapshots they take, no hook fails, and the suite leaves the chain and the
  node's snapshots as they were.
\<close>

lemma snapshot_hooks_isolate_tests:
  assumes "snapshot_rpc rpc cur saved" and "\<forall>body \<in> set bodies. well_behaved saved body"
    and "distinct (map fst (saved n))"
  shows "\<exists>b' n'. run_sandboxed rpc cur bodies (b, n) = Some (replicate (length bodies) (cur n), b', n') \<and>
    cur n' = cur n \<and> saved n' = saved n"
  using assms by (rule run_sandboxed_isolates)

lemma snapshot_hooks_isolate_tests_instance:
  "\<exists>b' n'. run_sandboxed node_rpc node_chain
      [\<lambda>n. n\<lparr>node_chain := ''x'' # node_chain n\<rparr>, \<lambda>n. n\<lparr>node_chain := ''y'' # node_chain n\<rparr>]
      (new_Blockchain, \<lparr>node_chain = [''g''], node_saved = []\<rparr>) = Some ([[''g''], [''g'']], b', n') \<and>
    node_chain n' = [''g''] \<and> node_saved n' = []"
  using snapshot_hooks_isolate_tests [OF node_rpc_ok,
      of "[\<lambda>n. n\<lparr>node_chain := ''x'' # node_chain n\<rparr>, \<lambda>n. n\<lparr>node_chain := ''y'' # node_chain n\<rparr>]"
         "\<lparr>node_chain = [''g''], node_saved = []\<rparr>" new_Blockchain]
  by (simp add: push_well_behaved numeral_2_eq_2)

text \<open>
  C26. Cached initialisation: a suite with \<^verbatim>\<open>cacheBeforeEach\<close> runs its initializer once, every test body
  starts from the chain the initializer left, no hook fails, and after the suite's final hook the shared
  stack holds exactly the entries of the enclosing suites, still backed by live snapshots.
\<close>

theorem cached_suite_starts_every_test_alike:
  assumes "snapshot_rpc rpc cur saved" and "cache_ok saved stk st" and "well_behaved saved init"
    and "\<forall>body \<in> set (body # bodies). well_behaved saved body"
  shows "\<exists>st'. run_cached rpc cur (\<lambda>n. Some (init n)) (body # bodies) False st =
      Some (replicate (length (body # bodies)) (cur (init (cache_node st))), True, st') \<and>
    cache_ok saved stk (cache_after True st')"
proof -
  let ?c = "cur (init (cache_node st))" and ?i = "\<lambda>n. Some (init n)"
  obtain i st1 where h: "cache_beforeEach rpc ?i False st = Some (True, st1)"
    "cache_ok saved ((i, ?c) # stk) st1" "cur (cache_node st1) = ?c"
    using cache_first [OF assms(1-3)] by blast
  have "well_behaved saved body" "\<forall>body \<in> set bodies. well_behaved saved body" using assms(4) by simp_all
  from run_cached_again [OF assms(1) this(2) cache_body [OF h(2) this(1)]] obtain j st' where
    "run_cached rpc cur ?i bodies True (st1\<lparr>cache_node := body (cache_node st1)\<rparr>)
      = Some (replicate (length bodies) ?c, True, st')" "cache_ok saved ((j, ?c) # stk) st'" by blast
  then show ?thesis using h cache_done by auto
qed

theorem cached_suite_starts_every_test_alike_witness:
  "\<exists>st'. run_cached node_rpc node_chain (\<lambda>n. Some (n\<lparr>node_chain := ''setup'' # node_chain n\<rparr>))
      [\<lambda>n. n\<lparr>node_chain := ''x'' # node_chain n\<rparr>, \<lambda>n. n\<lparr>node_chain := ''y'' # node_chain n\<rparr>] False
      \<lparr>SNAPSHOTS = [], cache_node = \<lparr>node_chain = [''g''], node_saved = []\<rparr>\<rparr>
    = Some ([[''setup'', ''g''], [''setup'', ''g'']], True, st') \<and> SNAPSHOTS (cache_after True st') = []"
  using cached_suite_starts_every_test_alike [OF node_rpc_ok, of "[]"
      "\<lparr>SNAPSHOTS = [], cache_node = \<lparr>node_chain = [''g''], node_saved = []\<rparr>\<rparr>"
      "\<lambda>n. n\<lparr>node_chain := ''setup'' # node_chain n\<rparr>" "\<lambda>n. n\<lparr>node_chain := ''x'' # node_chain n\<rparr>"
      "[\<lambda>n. n\<lparr>node_chain := ''y'' # node_chain n\<rparr>]"]
  by (simp add: push_well_behaved cache_ok_def) blast

text \<open>
  Nested caches: the hook of an outer suite pops the snapshot of the inner one, because the stack is
  shared. Still, before a further test of the inner suite the two hooks together restore the inner
  suite's chain, and after the inner suite's final hook the outer hook restores the outer suite's chain.
\<close>

lemma nested_caches_restore_both_levels:
  assumes "snapshot_rpc rpc cur saved" and "cache_ok saved ((i, inner) # (j, outer) # stk) st"
    and "well_behaved saved body"
  shows "\<exists>st1 st2 st3. cache_beforeEach rpc outer_init True st = Some (True, st1) \<and>
    cache_beforeEach rpc inner_init True st1 = Some (True, st2) \<and> cur (cache_node st2) = inner \<and>
    cache_beforeEach rpc outer_init True (cache_after True (st2\<lparr>cache_node := body (cache_node st2)\<rparr>)) = Some (True, st3) \<and>
    cur (cache_node st3) = outer"
proof -
  obtain k st1 where 1: "cache_beforeEach rpc outer_init True st = Some (True, st1)"
    "cache_ok saved ((k, inner) # (j, outer) # stk) st1"
    using cache_again [OF assms(1,2)] by blast
  obtain l st2 where 2: "cache_beforeEach rpc inner_init True st1 = Some (True, st2)"
    "cache_ok saved ((l, inner) # (j, outer) # stk) st2" "cur (cache_node st2) = inner"
    using cache_again [OF assms(1) 1(2)] by blast
  obtain m st3 where "cache_beforeEach rpc outer_init True
      (cache_after True (st2\<lparr>cache_node := body (cache_node st2)\<rparr>)) = Some (True, st3)" "cur (cache_node st3) = outer"
    using cache_again [OF assms(1) cache_done [OF cache_body [OF 2(2) assms(3)]]] by blast
  with 1 2 show ?thesis by blast
qed

lemma nested_caches_restore_both_levels_instance:
  "\<exists>st1 st2 st3. cache_beforeEach node_rpc Some True
      \<lparr>SNAPSHOTS = [Num 1, Num 2], cache_node = \<lparr>node_chain = [''t'', ''in'', ''out''],
         node_saved = [(Num 2, [''in'', ''out'']), (Num 1, [''out''])]\<rparr>\<rparr> = Some (True, st1) \<and>
    cache_beforeEach node_rpc Some True st1 = Some (True, st2) \<and> node_chain (cache_node st2) = [''in'', ''out''] \<and>
    cache_beforeEach node_rpc Some True (cache_after True
      (st2\<lparr>cache_node := (cache_node st2)\<lparr>node_chain := ''u'' # node_chain (cache_node st2)\<rparr>\<rparr>)) = Some (True, st3) \<and>
    node_chain (cache_node st3) = [''out'']"
proof (rule nested_caches_restore_both_levels [OF node_rpc_ok, where i = "Num 2" and j = "Num 1" and stk = "[]"
      and body = "\<lambda>n. n\<lparr>node_chain := ''u'' # node_chain n\<rparr>"])
  show "cache_ok node_saved [(Num 2, [''in'', ''out'']), (Num 1, [''out''])]
     \<lparr>SNAPSHOTS = [Num 1, Num 2], cache_node = \<lparr>node_chain = [''t'', ''in'', ''out''],
         node_saved = [(Num 2, [''in'', ''out'']), (Num 1, [''out''])]\<rparr>\<rparr>"
    by (simp add: cache_ok_def cached_top del: cached.simps(2))
qed (rule push_well_behaved)

text \<open>
  Converting a notional amount to a position unit and back never gives more than the amount, and
  loses less than the supply measured in whole Sets, plus one.
\<close>

lemma notional_position_roundtrip:
  assumes "0 < totalSupply" and "0 \<le> amount"
  shows "\<exists>p a. convertNotionalToPosition amount totalSupply = Some p \<and>
    convertPositionToNotional p totalSupply = Some a \<and> a \<le> amount \<and> (amount - a - 1) * 10 ^ 18 < totalSupply"
proof -
  let ?p = "amount * 10 ^ 18 div totalSupply"
  let ?a = "?p * totalSupply div 10 ^ 18"
  have p: "0 \<le> ?p" using assms by (simp add: pos_imp_zdiv_nonneg_iff)
  note lo = floor_div_bounds [of totalSupply "amount * 10 ^ 18", OF assms(1)]
  note hi = floor_div_bounds [of "10 ^ 18" "?p * totalSupply"]
  have "?p * totalSupply \<le> amount * 10 ^ 18" "amount * 10 ^ 18 < ?p * totalSupply + totalSupply"
    using lo by (simp_all add: mult.commute)
  then have "?a \<le> amount" "(amount - ?a - 1) * 10 ^ 18 < totalSupply"
    using hi by (simp_all add: left_diff_distrib)
  moreover have "convertNotionalToPosition amount totalSupply = Some ?p"
    using assms by (simp add: convertNotionalToPosition_def bn_div_def)
  moreover have "convertPositionToNotional ?p totalSupply = Some ?a"
    using assms p by (simp add: convertPositionToNotional_def bn_div_def)
  ultimately show ?thesis by blast
qed

lemma notional_position_roundtrip_instance:
  "\<exists>p a. convertNotionalToPosition 7 (3 * 10 ^ 18) = Some p \<and> convertPositionToNotional p (3 * 10 ^ 18) = Some a \<and>
    a \<le> 7 \<and> (7 - a - 1) * 10 ^ 18 < 3 * 10 ^ 18"
  by (rule notional_position_roundtrip) simp_all

end
