(* ===== verification/Artifact_Tasks.thy ===== *)
theory Artifact_Tasks
  imports Chain_Model Encoding_Utils
begin

section \<open>Build tasks and configuration\<close>

text \<open>
  Models utils/tasks/artifactUtils.ts, utils/tasks/setupNativeSolc.ts, tasks/subtasks.ts,
  utils/wallets.ts and hardhat.config.ts. Hardhat, typechain, the file system and the solc binary are
  parameters; environment variables are arguments. A parsed JSON object is a list of fields in order.
\<close>

subsection \<open>artifactUtils.ts\<close>

type_synonym json_object = "(string \<times> arg) list"
type_synonym abi = "json_object list"

definition is_function :: "json_object \<Rightarrow> bool" where
  "is_function abiElement = (map_of abiElement ''type'' = Some (Str ''function''))"

text \<open>The gas limit: the coverage tool's when the variable COVERAGE is \<^verbatim>\<open>true\<close>, else the network's.\<close>

definition gas_limit :: "string option \<Rightarrow> int \<Rightarrow> int \<Rightarrow> string" where
  "gas_limit COVERAGE coverageGas networkGas =
     bn_toHexString ((if COVERAGE = Some ''true'' then coverageGas else networkGas) - 1000000)"

definition addGasToAbiMethods :: "string \<Rightarrow> abi \<Rightarrow> abi" where
  "addGasToAbiMethods gasLimit abi =
     map (\<lambda>abiElement. if \<not> is_function abiElement then abiElement
       else AList.update ''gas'' (Str gasLimit) abiElement) abi"

definition removeGasFromAbiMethods :: "abi \<Rightarrow> abi" where
  "removeGasFromAbiMethods abi =
     map (\<lambda>abiElement. if \<not> is_function abiElement then abiElement else AList.delete ''gas'' abiElement) abi"

subsection \<open>setupNativeSolc.ts\<close>

record solc_run =
  solc_logs :: "string list"
  isFirstRun :: bool

definition log_if_first :: "string list \<Rightarrow> solc_run \<Rightarrow> solc_run" where
  "log_if_first ls st = (if isFirstRun st then st\<lparr>solc_logs := solc_logs st @ ls\<rparr> else st)"

text \<open>An undefined version is searched for as the text \<^verbatim>\<open>undefined\<close>.\<close>

definition setupNativeSolc :: "string option \<Rightarrow> string option \<Rightarrow> 'out option \<Rightarrow> 'out option \<Rightarrow> solc_run
    \<Rightarrow> solc_run \<times> 'out option" where
  "setupNativeSolc solcVersion configVersion runSuper nativeCompile st =
     (let solcVersionOutput = (case solcVersion of None \<Rightarrow> '''' | Some v \<Rightarrow> v);
          st = log_if_first [''Local native solc version: '', solcVersionOutput] st;
          version = (case configVersion of None \<Rightarrow> ''undefined'' | Some v \<Rightarrow> v)
      in if \<not> js_includes solcVersionOutput version
         then ((log_if_first [''Using solcjs''] st)\<lparr>isFirstRun := False\<rparr>, runSuper)
         else ((log_if_first [''Using native solc''] st)\<lparr>isFirstRun := False\<rparr>, nativeCompile))"

subsection \<open>subtasks.ts\<close>

record artifact =
  artifact_abi :: abi
  artifact_rest :: json_object

definition artifact_from_compilation :: "string option \<Rightarrow> string \<Rightarrow> artifact option \<Rightarrow> artifact option" where
  "artifact_from_compilation SKIP_ABI_GAS_MODS gasLimit runSuper = do {
     artifact \<leftarrow> runSuper;
     Some (if SKIP_ABI_GAS_MODS = None \<or> SKIP_ABI_GAS_MODS = Some ''''
       then artifact\<lparr>artifact_abi := addGasToAbiMethods gasLimit (artifact_abi artifact)\<rparr> else artifact)
   }"

text \<open>
  The typechain task. The file system maps paths to artifacts; a missing file, or a failure of the
  original task, ends it with the files as they are at that point (\<open>Inl\<close>).
\<close>

type_synonym files = "string \<Rightarrow> artifact option"

definition artifact_path :: "string \<Rightarrow> string \<Rightarrow> string \<Rightarrow> string" where
  "artifact_path cwd project file = cwd @ ''/'' @ project @ ''/'' @ file"

fun add_gas_loop :: "string \<Rightarrow> string list \<Rightarrow> files \<Rightarrow> (artifact \<times> string) list \<Rightarrow> files + files \<times> (artifact \<times> string) list" where
  "add_gas_loop gasLimit [] fs artifacts = Inr (fs, artifacts)"
| "add_gas_loop gasLimit (artifactPath # paths) fs artifacts = (case fs artifactPath of
     None \<Rightarrow> Inl fs
   | Some a \<Rightarrow> (let a' = a\<lparr>artifact_abi := addGasToAbiMethods gasLimit (artifact_abi a)\<rparr>
       in add_gas_loop gasLimit paths (fs(artifactPath := Some a')) (artifacts @ [(a', artifactPath)])))"

fun restore_loop :: "(artifact \<times> string) list \<Rightarrow> files \<Rightarrow> files" where
  "restore_loop [] fs = fs"
| "restore_loop ((a, artifactPath) # items) fs =
     restore_loop items
       (fs(artifactPath := Some (a\<lparr>artifact_abi := removeGasFromAbiMethods (artifact_abi a)\<rparr>)))"

definition artifact_paths :: "string \<Rightarrow> string list \<Rightarrow> (string \<Rightarrow> string list) \<Rightarrow> string list" where
  "artifact_paths cwd projects readdirSync =
     concat (map (\<lambda>project. map (artifact_path cwd project) (readdirSync project)) projects)"

definition typechain_generate_types :: "string \<Rightarrow> string \<Rightarrow> string list \<Rightarrow> (string \<Rightarrow> string list) \<Rightarrow>
    (files \<Rightarrow> files option) \<Rightarrow> files \<Rightarrow> files + files" where
  "typechain_generate_types gasLimit cwd externalGasMods readdirSync runSuper fs =
     (case add_gas_loop gasLimit (artifact_paths cwd externalGasMods readdirSync) fs [] of
        Inl fs \<Rightarrow> Inl fs
      | Inr (fs, artifacts) \<Rightarrow> (case runSuper fs of
          None \<Rightarrow> Inl fs
        | Some fs \<Rightarrow> Inr (restore_loop artifacts fs)))"

subsection \<open>wallets.ts and hardhat.config.ts\<close>

definition privateKeys :: "string list" where
  "privateKeys =
    [''0xf2f48ee19680706196e2e339e5da3491186e0c4c5030670656b0e0164837257d'',
     ''0x5d862464fe9303452126c8bc94274b8c5f9874cbd219789b3eb2128075a76f72'',
     ''0xdf02719c4df8b9b8ac7f551fcb5d9ef48fa27eef7a66453879f4d8fdc6e78fb1'',
     ''0xff12e391b79415e941a94de3bf3a9aee577aed0731e297d5cfa0b8a1e02fa1d0'',
     ''0x752dd9cf65e68cfaba7d60225cbdbc1f4729dd5e5507def72815ed0d8abc6249'',
     ''0xefb595a0178eb79a8df953f87c5148402a224cdf725e88c0146727c6aceadccd'',
     ''0x83c6d2cc5ddcf9711a6d59b417dc20eb48afd58d45290099e5987e3d768f328f'',
     ''0xbb2d3f7c9583780a7d3904a2f55d792707c345f21de1bacb2d389934d82796b2'',
     ''0xb2fd4d29c1390b71b8795ae81196bfd60293adf99f9d32a0aff06288fcdac55f'']"

definition generatedWallets :: "(string \<Rightarrow> 'provider \<Rightarrow> 'wallet) \<Rightarrow> 'provider \<Rightarrow> 'wallet list" where
  "generatedWallets Wallet provider = map (\<lambda>key. Wallet key provider) privateKeys"

definition getHardhatPrivateKeys :: "(string \<times> string) list" where
  "getHardhatPrivateKeys =
     (let ONE_MILLION_ETH = ''1000000000000000000000000'' in map (\<lambda>key. (key, ONE_MILLION_ETH)) privateKeys)"

text \<open>A variable is truthy when it is set and not empty.\<close>

definition truthy :: "string option \<Rightarrow> bool" where
  "truthy v = (v \<noteq> None \<and> v \<noteq> Some '''')"

record mocha_config =
  grep :: string
  invert :: bool
  timeout :: int

definition mochaConfig :: "string option \<Rightarrow> mocha_config" where
  "mochaConfig FORK = \<lparr>grep = ''@forked-mainnet'', invert = (if truthy FORK then False else True),
     timeout = (if truthy FORK then 100000 else 40000)\<rparr>"

text \<open>A variable spliced into a text is the text \<^verbatim>\<open>undefined\<close> when it is not set.\<close>

definition env_text :: "string option \<Rightarrow> string" where
  "env_text v = (case v of None \<Rightarrow> ''undefined'' | Some t \<Rightarrow> t)"

definition forkingConfig :: "string option \<Rightarrow> string \<times> int" where
  "forkingConfig ALCHEMY_TOKEN =
     (''https://eth-mainnet.alchemyapi.io/v2/'' @ env_text ALCHEMY_TOKEN, 16889000)"

text \<open>The check ends the process (\<open>None\<close>).\<close>

definition checkForkedProviderEnvironment :: "string option \<Rightarrow> string option \<Rightarrow> unit option" where
  "checkForkedProviderEnvironment FORK ALCHEMY_TOKEN =
     (if truthy FORK \<and> (\<not> truthy ALCHEMY_TOKEN \<or> ALCHEMY_TOKEN = Some ''fake_alchemy_token'') then None else Some ())"

datatype network_accounts =
    Funded_keys "(string \<times> string) list"
  | Private_keys "string list"

record network_config =
  net_url :: "string option"
  net_timeout :: "int option"
  net_allowUnlimitedContractSize :: "bool option"
  net_forking :: "(string \<times> int) option"
  net_accounts :: "network_accounts option"
  net_gas :: "int option"
  net_blockGasLimit :: "int option"

definition deployNetwork :: "string \<Rightarrow> string option \<Rightarrow> string option \<Rightarrow> network_config" where
  "deployNetwork prefix INFURA_TOKEN deployKey =
     \<lparr>net_url = Some (prefix @ env_text INFURA_TOKEN), net_timeout = None, net_allowUnlimitedContractSize = None, net_forking = None,
      net_accounts = Some (Private_keys [''0x'' @ env_text deployKey]), net_gas = None, net_blockGasLimit = None\<rparr>"

definition hardhatNetworks :: "string option \<Rightarrow> string option \<Rightarrow> string option \<Rightarrow> string option \<Rightarrow> (string \<times> network_config) list" where
  "hardhatNetworks INFURA_TOKEN KOVAN_KEY STAGING_KEY PRODUCTION_KEY =
     [(''kovan'', deployNetwork ''https://kovan.infura.io/v3/'' INFURA_TOKEN KOVAN_KEY),
      (''staging_mainnet'', deployNetwork ''https://mainnet.infura.io/v3/'' INFURA_TOKEN STAGING_KEY),
      (''production'', deployNetwork ''https://mainnet.infura.io/v3/'' INFURA_TOKEN PRODUCTION_KEY)]"

definition networks :: "string option \<Rightarrow> string option \<Rightarrow> string option \<Rightarrow> string option \<Rightarrow> string option \<Rightarrow> string option \<Rightarrow>
    (string \<times> network_config) list" where
  "networks FORK ALCHEMY_TOKEN INFURA_TOKEN KOVAN_KEY STAGING_KEY PRODUCTION_KEY =
     [(''hardhat'', \<lparr>net_url = None, net_timeout = None, net_allowUnlimitedContractSize = Some False,
         net_forking = (if truthy FORK then Some (forkingConfig ALCHEMY_TOKEN) else None),
         net_accounts = Some (Funded_keys getHardhatPrivateKeys), net_gas = Some 12000000, net_blockGasLimit = Some 12000000\<rparr>),
      (''localhost'', \<lparr>net_url = Some ''http://127.0.0.1:8545'', net_timeout = Some 200000, net_allowUnlimitedContractSize = None,
         net_forking = None, net_accounts = None, net_gas = Some 12000000, net_blockGasLimit = Some 12000000\<rparr>),
      (''coverage'', \<lparr>net_url = Some ''http://127.0.0.1:8555'', net_timeout = Some 200000, net_allowUnlimitedContractSize = None,
         net_forking = None, net_accounts = None, net_gas = None, net_blockGasLimit = None\<rparr>)]
     @ (if truthy KOVAN_KEY then hardhatNetworks INFURA_TOKEN KOVAN_KEY STAGING_KEY PRODUCTION_KEY else [])"

definition externalGasMods :: "string list" where
  "externalGasMods = [''external/abi/perp'']"

text \<open>The compile tasks: the Hardhat tasks run in order, each by name and source file.\<close>

datatype task_run =
    Dependency_graph "string list"
  | Compilation_job "string option"
  | Compile_job "string option"
  | Typechain

definition compile_source :: "(string \<Rightarrow> string option) \<Rightarrow> (string list \<Rightarrow> string list) \<Rightarrow> string \<Rightarrow> task_run list option" where
  "compile_source readArtifact getResolvedFiles contractName = do {
     sourceName \<leftarrow> readArtifact contractName;
     let resolvedFiles = filter (\<lambda>f. f = sourceName) (getResolvedFiles [sourceName]);
     let file = (if resolvedFiles = [] then None else Some (hd resolvedFiles));
     Some [Dependency_graph [sourceName], Compilation_job file, Compile_job file]
   }"

definition compile_one :: "(string \<Rightarrow> string option) \<Rightarrow> (string list \<Rightarrow> string list) \<Rightarrow> string \<Rightarrow> task_run list option" where
  "compile_one readArtifact getResolvedFiles contractName =
     map_option (\<lambda>ts. ts @ [Typechain]) (compile_source readArtifact getResolvedFiles contractName)"

fun compile_all :: "(string \<Rightarrow> string option) \<Rightarrow> (string list \<Rightarrow> string list) \<Rightarrow> string list \<Rightarrow> task_run list option" where
  "compile_all readArtifact getResolvedFiles [] = Some []"
| "compile_all readArtifact getResolvedFiles (contractName # rest) = do {
     ts \<leftarrow> compile_source readArtifact getResolvedFiles contractName;
     us \<leftarrow> compile_all readArtifact getResolvedFiles rest;
     Some (ts @ us)
   }"

subsection \<open>Gas fields\<close>

definition gas_free :: "abi \<Rightarrow> bool" where
  "gas_free abi \<longleftrightarrow> list_all (\<lambda>el. is_function el \<longrightarrow> ''gas'' \<notin> fst ` set el) abi"

lemma is_function_update [simp]: "is_function (AList.update ''gas'' v el) = is_function el"
  by (simp add: is_function_def update_conv')

lemma delete_update: "AList.delete k (AList.update k v al) = AList.delete k al"
  by (induction al) (auto simp: AList.delete_eq)

lemma delete_absent: "k \<notin> fst ` set al \<Longrightarrow> AList.delete k al = al"
  by (induction al) (auto simp: AList.delete_eq)

lemma update_update: "AList.update k w (AList.update k v al) = AList.update k w al"
  by (induction al) auto

lemma remove_add_gas: "removeGasFromAbiMethods (addGasToAbiMethods g abi) = removeGasFromAbiMethods abi"
  by (auto simp: removeGasFromAbiMethods_def addGasToAbiMethods_def delete_update)

lemma remove_gas_free: "gas_free abi \<Longrightarrow> removeGasFromAbiMethods abi = abi"
  by (auto simp: removeGasFromAbiMethods_def gas_free_def list_all_iff delete_absent intro!: map_idI)

definition gasify :: "string \<Rightarrow> artifact \<Rightarrow> artifact" where
  "gasify g a = a\<lparr>artifact_abi := addGasToAbiMethods g (artifact_abi a)\<rparr>"

definition ungasify :: "artifact \<Rightarrow> artifact" where
  "ungasify a = a\<lparr>artifact_abi := removeGasFromAbiMethods (artifact_abi a)\<rparr>"

lemma ungasify_gasify: "gas_free (artifact_abi a) \<Longrightarrow> ungasify (gasify g a) = a"
  by (simp add: ungasify_def gasify_def remove_add_gas remove_gas_free)

lemma add_gas_loop_eq:
  "distinct paths \<Longrightarrow> \<forall>p \<in> set paths. fs p \<noteq> None \<Longrightarrow>
     add_gas_loop g paths fs acc =
       Inr (\<lambda>p. if p \<in> set paths then map_option (gasify g) (fs p) else fs p,
         acc @ map (\<lambda>p. (gasify g (the (fs p)), p)) paths)"
proof (induction paths arbitrary: fs acc)
  case (Cons p paths)
  obtain b where b: "fs p = Some b" using Cons.prems by auto
  let ?fs = "fs(p := Some (gasify g b))"
  have "\<forall>q \<in> set paths. ?fs q \<noteq> None" using Cons.prems by auto
  with Cons have "add_gas_loop g paths ?fs (acc @ [(gasify g b, p)]) =
      Inr (\<lambda>q. if q \<in> set paths then map_option (gasify g) (?fs q) else ?fs q,
        (acc @ [(gasify g b, p)]) @ map (\<lambda>q. (gasify g (the (?fs q)), q)) paths)"
    by (intro Cons.IH) simp_all
  moreover have "(\<lambda>q. if q \<in> set paths then map_option (gasify g) (?fs q) else ?fs q)
      = (\<lambda>q. if q \<in> set (p # paths) then map_option (gasify g) (fs q) else fs q)"
    using Cons.prems(1) b by auto
  moreover have "map (\<lambda>q. (gasify g (the (?fs q)), q)) paths = map (\<lambda>q. (gasify g (the (fs q)), q)) paths"
    using Cons.prems(1) by auto
  ultimately show ?case using b by (simp add: Let_def gasify_def [symmetric])
qed simp

lemma restore_loop_eq:
  "distinct paths \<Longrightarrow>
     restore_loop (map (\<lambda>p. (h p, p)) paths) fs = (\<lambda>p. if p \<in> set paths then Some (ungasify (h p)) else fs p)"
  by (induction paths arbitrary: fs) (auto simp: ungasify_def)

lemma typechain_result:
  assumes "distinct (artifact_paths cwd projects readdir)"
    and "\<forall>p \<in> set (artifact_paths cwd projects readdir). fs p \<noteq> None"
  shows "typechain_generate_types g cwd projects readdir runSuper fs =
    (let fs1 = (\<lambda>p. if p \<in> set (artifact_paths cwd projects readdir) then map_option (gasify g) (fs p) else fs p)
     in case runSuper fs1 of None \<Rightarrow> Inl fs1
        | Some fs2 \<Rightarrow> Inr (\<lambda>p. if p \<in> set (artifact_paths cwd projects readdir) then Some (ungasify (gasify g (the (fs p)))) else fs2 p))"
  unfolding typechain_generate_types_def
  using add_gas_loop_eq [OF assms] restore_loop_eq [OF assms(1)]
  by (simp add: Let_def split: option.split)

subsection \<open>Properties\<close>

text \<open>
  Gas fields are a reversible annotation: removing them after adding them restores every ABI whose
  functions have none, adding twice is adding once, and both leave the elements that are not functions
  as they are, in place.
\<close>

lemma gas_annotation_roundtrip:
  assumes "gas_free abi"
  shows "removeGasFromAbiMethods (addGasToAbiMethods g abi) = abi \<and>
    addGasToAbiMethods g (addGasToAbiMethods h abi) = addGasToAbiMethods g abi \<and>
    map (map_of \<circ> AList.delete ''gas'') (addGasToAbiMethods g abi) = map (map_of \<circ> AList.delete ''gas'') abi \<and>
    list_all2 (\<lambda>x y. if is_function x then map_of y ''gas'' = Some (Str g) else y = x) abi (addGasToAbiMethods g abi)"
proof -
  have "list_all2 (\<lambda>x y. if is_function x then map_of y ''gas'' = Some (Str g) else y = x) abi (addGasToAbiMethods g abi)"
    unfolding addGasToAbiMethods_def list.rel_map by (rule list_all2_refl) (simp add: update_conv')
  moreover have "map (map_of \<circ> AList.delete ''gas'') (addGasToAbiMethods g abi) = map (map_of \<circ> AList.delete ''gas'') abi"
    by (simp add: addGasToAbiMethods_def delete_update)
  moreover have "addGasToAbiMethods g (addGasToAbiMethods h abi) = addGasToAbiMethods g abi"
    by (simp add: addGasToAbiMethods_def update_update)
  ultimately show ?thesis using assms by (simp add: remove_add_gas remove_gas_free)
qed

lemma gas_annotation_roundtrip_instance:
  "removeGasFromAbiMethods (addGasToAbiMethods ''0xa7d8c0''
      [[(''type'', Str ''function''), (''name'', Str ''f'')], [(''type'', Str ''event'')]])
    = [[(''type'', Str ''function''), (''name'', Str ''f'')], [(''type'', Str ''event'')]]"
  using gas_annotation_roundtrip [of "[[(''type'', Str ''function''), (''name'', Str ''f'')], [(''type'', Str ''event'')]]"
      "''0xa7d8c0''"]
  by (simp add: gas_free_def)

text \<open>
  C33. The typechain task leaves no trace in the artifacts when it succeeds: if the listed artifacts exist,
  are listed once and have no gas fields, the original task sees them with the network's gas limit and
  afterwards every one is what it was; all other files are as the original task left them. When the
  original task fails, the annotated artifacts stay on disk.
\<close>

theorem typechain_task_restores_artifacts:
  assumes "distinct (artifact_paths cwd projects readdir)"
    and "\<forall>p \<in> set (artifact_paths cwd projects readdir).
      \<exists>a. fs p = Some a \<and> gas_free (artifact_abi a)"
  shows "case typechain_generate_types g cwd projects readdir runSuper fs of
      Inr fs' \<Rightarrow> (\<exists>fs1 fs2. runSuper fs1 = Some fs2 \<and>
        (\<forall>p. if p \<in> set (artifact_paths cwd projects readdir)
             then fs1 p = map_option (gasify g) (fs p) \<and> fs' p = fs p
             else fs1 p = fs p \<and> fs' p = fs2 p))
    | Inl fs' \<Rightarrow> runSuper fs' = None \<and>
        (\<forall>p. fs' p = (if p \<in> set (artifact_paths cwd projects readdir)
             then map_option (gasify g) (fs p) else fs p))"
proof -
  let ?paths = "artifact_paths cwd projects readdir"
  let ?fs1 = "\<lambda>p. if p \<in> set ?paths then map_option (gasify g) (fs p) else fs p"
  have "\<forall>p \<in> set ?paths. fs p \<noteq> None" using assms(2) by fastforce
  note run = typechain_result [OF assms(1) this, of g runSuper]
  show ?thesis
  proof (cases "runSuper ?fs1")
    case None then show ?thesis unfolding run Let_def by simp
  next
    case (Some fs2)
    have "Some (ungasify (gasify g (the (fs p)))) = fs p" if "p \<in> set ?paths" for p
      using assms(2) that ungasify_gasify by fastforce
    note restored = this
    show ?thesis unfolding run Let_def Some option.case sum.case
      by (rule exI [of _ ?fs1], rule exI [of _ fs2]) (simp add: Some restored)
  qed
qed

theorem typechain_task_restores_artifacts_witness:
  "case typechain_generate_types ''0x1'' ''/w'' [''p''] (\<lambda>_. [''A.json'']) Some
      [''/w/p/A.json'' \<mapsto> \<lparr>artifact_abi = [[(''type'', Str ''function'')]], artifact_rest = []\<rparr>] of
     Inr fs' \<Rightarrow> fs' ''/w/p/A.json'' = Some \<lparr>artifact_abi = [[(''type'', Str ''function'')]], artifact_rest = []\<rparr>
   | Inl fs' \<Rightarrow> False"
  using typechain_task_restores_artifacts [where cwd = "''/w''" and projects = "[''p'']" and readdir = "\<lambda>_. [''A.json'']"
      and g = "''0x1''" and runSuper = Some and
      fs = "[''/w/p/A.json'' \<mapsto> \<lparr>artifact_abi = [[(''type'', Str ''function'')]], artifact_rest = []\<rparr>]"]
  by (auto simp: artifact_paths_def artifact_path_def gas_free_def split: sum.splits)

text \<open>The nine private keys are distinct 32 byte words, and each account is funded.\<close>

lemma private_keys_well_formed:
  "distinct privateKeys \<and> length getHardhatPrivateKeys = 9 \<and>
   list_all (\<lambda>k. length k = 66 \<and> js_startsWith ''0x'' k \<and> list_all is_hex (drop 2 k)) privateKeys"
  by code_simp

end
