(* ===== verification/ERC20_Token.thy ===== *)
theory ERC20_Token
  imports Precise_Unit_Math
begin

section \<open>ERC20 tokens\<close>

text \<open>
  A SetToken inherits its balances from the ERC20 contract of a package outside the repository. What it
  uses of that contract is a parameter of the model, the record \<open>erc20_ops\<close>, and the behaviour documented for
  it is the interface \<open>erc20_token\<close>. The repository carries a copy of such a contract in
  external/contracts/aave/v1/AaveTokenV2Mintable.sol (contract ERC20); its model is the instance of the
  interface.
\<close>

subsection \<open>The interface\<close>

record 'e erc20_ops =
  e_mint :: "address \<Rightarrow> uint256 \<Rightarrow> 'e \<Rightarrow> 'e sol"
  e_burn :: "address \<Rightarrow> uint256 \<Rightarrow> 'e \<Rightarrow> 'e sol"
  e_transfer :: "address \<Rightarrow> address \<Rightarrow> uint256 \<Rightarrow> 'e \<Rightarrow> 'e sol"
  e_totalSupply :: "'e \<Rightarrow> uint256"
  e_balanceOf :: "'e \<Rightarrow> address \<Rightarrow> uint256"

locale erc20_token =
  fixes ops :: "'e erc20_ops"
  assumes mint_supply: "e_mint ops a q t = Inr t' \<Longrightarrow> uint (e_totalSupply ops t') = uint (e_totalSupply ops t) + uint q"
    and mint_balance: "e_mint ops a q t = Inr t' \<Longrightarrow>
      uint (e_balanceOf ops t' b) = uint (e_balanceOf ops t b) + (if b = a then uint q else 0)"
    and burn_supply: "e_burn ops a q t = Inr t' \<Longrightarrow> uint (e_totalSupply ops t') = uint (e_totalSupply ops t) - uint q"
    and burn_balance: "e_burn ops a q t = Inr t' \<Longrightarrow>
      uint (e_balanceOf ops t' b) = uint (e_balanceOf ops t b) - (if b = a then uint q else 0)"
    and transfer_supply: "e_transfer ops a b q t = Inr t' \<Longrightarrow> e_totalSupply ops t' = e_totalSupply ops t"
begin

lemma burn_bounded: "e_burn ops a q t = Inr t' \<Longrightarrow> uint q \<le> uint (e_totalSupply ops t) \<and> uint q \<le> uint (e_balanceOf ops t a)"
  using burn_supply [of a q t t'] burn_balance [of a q t t' a] uint_ge_0 [of "e_totalSupply ops t'"]
    uint_ge_0 [of "e_balanceOf ops t' a"] by simp

end

subsection \<open>The contract ERC20\<close>

record erc20 =
  balances :: "address \<Rightarrow> uint256"
  allowances :: "address \<Rightarrow> address \<Rightarrow> uint256"
  totalSupply :: uint256

definition new_ERC20 :: erc20 where
  "new_ERC20 = \<lparr>balances = \<lambda>_. 0, allowances = \<lambda>_ _. 0, totalSupply = 0\<rparr>"

definition erc20_mint :: "address \<Rightarrow> uint256 \<Rightarrow> erc20 \<Rightarrow> erc20 sol" where
  "erc20_mint account amount t =
     (if account = ADDRESS_ZERO then Inl ''ERC20: mint to the zero address''
      else case safe_add (totalSupply t) amount of None \<Rightarrow> Inl ''SafeMath: addition overflow''
      | Some supply \<Rightarrow> (case safe_add (balances t account) amount of None \<Rightarrow> Inl ''SafeMath: addition overflow''
        | Some b \<Rightarrow> Inr (t\<lparr>totalSupply := supply, balances := (balances t)(account := b)\<rparr>)))"

definition erc20_burn :: "address \<Rightarrow> uint256 \<Rightarrow> erc20 \<Rightarrow> erc20 sol" where
  "erc20_burn account amount t =
     (if account = ADDRESS_ZERO then Inl ''ERC20: burn from the zero address''
      else case safe_sub (balances t account) amount of None \<Rightarrow> Inl ''ERC20: burn amount exceeds balance''
      | Some b \<Rightarrow> (case safe_sub (totalSupply t) amount of None \<Rightarrow> Inl ''SafeMath: subtraction overflow''
        | Some supply \<Rightarrow> Inr (t\<lparr>balances := (balances t)(account := b), totalSupply := supply\<rparr>)))"

definition erc20_transfer_internal :: "address \<Rightarrow> address \<Rightarrow> uint256 \<Rightarrow> erc20 \<Rightarrow> erc20 sol" where
  "erc20_transfer_internal sender recipient amount t =
     (if sender = ADDRESS_ZERO then Inl ''ERC20: transfer from the zero address''
      else if recipient = ADDRESS_ZERO then Inl ''ERC20: transfer to the zero address''
      else case safe_sub (balances t sender) amount of None \<Rightarrow> Inl ''ERC20: transfer amount exceeds balance''
      | Some b \<Rightarrow> (let bal = (balances t)(sender := b) in
        case safe_add (bal recipient) amount of None \<Rightarrow> Inl ''SafeMath: addition overflow''
        | Some r \<Rightarrow> Inr (t\<lparr>balances := bal(recipient := r)\<rparr>)))"

definition erc20_approve_internal :: "address \<Rightarrow> address \<Rightarrow> uint256 \<Rightarrow> erc20 \<Rightarrow> erc20 sol" where
  "erc20_approve_internal owner spender amount t =
     (if owner = ADDRESS_ZERO then Inl ''ERC20: approve from the zero address''
      else if spender = ADDRESS_ZERO then Inl ''ERC20: approve to the zero address''
      else Inr (t\<lparr>allowances := (allowances t)(owner := (allowances t owner)(spender := amount))\<rparr>))"

definition erc20_transfer :: "address \<Rightarrow> address \<Rightarrow> uint256 \<Rightarrow> erc20 \<Rightarrow> erc20 sol" where
  "erc20_transfer sender recipient amount t = erc20_transfer_internal sender recipient amount t"

definition erc20_approve :: "address \<Rightarrow> address \<Rightarrow> uint256 \<Rightarrow> erc20 \<Rightarrow> erc20 sol" where
  "erc20_approve sender spender amount t = erc20_approve_internal sender spender amount t"

definition erc20_transferFrom :: "address \<Rightarrow> address \<Rightarrow> address \<Rightarrow> uint256 \<Rightarrow> erc20 \<Rightarrow> erc20 sol" where
  "erc20_transferFrom caller sender recipient amount t =
     (case erc20_transfer_internal sender recipient amount t of Inl m \<Rightarrow> Inl m
      | Inr t \<Rightarrow> (case safe_sub (allowances t sender caller) amount of
          None \<Rightarrow> Inl ''ERC20: transfer amount exceeds allowance''
        | Some rest \<Rightarrow> erc20_approve_internal sender caller rest t))"

definition erc20_contract :: "erc20 erc20_ops" where
  "erc20_contract = \<lparr>e_mint = erc20_mint, e_burn = erc20_burn, e_transfer = erc20_transfer,
     e_totalSupply = totalSupply, e_balanceOf = balances\<rparr>"

lemma erc20_contract_simps [simp]:
  "e_mint erc20_contract = erc20_mint" "e_burn erc20_contract = erc20_burn" "e_transfer erc20_contract = erc20_transfer"
  "e_totalSupply erc20_contract = totalSupply" "e_balanceOf erc20_contract = balances"
  by (simp_all add: erc20_contract_def)

lemmas erc20_defs = erc20_mint_def erc20_burn_def erc20_transfer_def erc20_transfer_internal_def

interpretation repository_erc20: erc20_token erc20_contract
  by unfold_locales
    (auto simp: erc20_defs Let_def dest!: safe_add_Some safe_sub_Some split: if_splits option.splits)

subsection \<open>The supply is the sum of the balances\<close>

definition erc20_inv :: "erc20 \<Rightarrow> bool" where
  "erc20_inv t \<longleftrightarrow> (\<exists>A. finite A \<and> (\<forall>a. a \<notin> A \<longrightarrow> balances t a = 0) \<and> uint (totalSupply t) = (\<Sum>a\<in>A. uint (balances t a)))"

lemma erc20_inv_extend:
  assumes "erc20_inv t"
  shows "\<exists>A. finite A \<and> set bs \<subseteq> A \<and> (\<forall>a. a \<notin> A \<longrightarrow> balances t a = 0) \<and>
    uint (totalSupply t) = (\<Sum>a\<in>A. uint (balances t a))"
proof -
  from assms obtain A where A: "finite A" "\<forall>a. a \<notin> A \<longrightarrow> balances t a = 0"
    "uint (totalSupply t) = (\<Sum>a\<in>A. uint (balances t a))" unfolding erc20_inv_def by blast
  have "(\<Sum>a\<in>A \<union> set bs. uint (balances t a)) = (\<Sum>a\<in>A. uint (balances t a))"
    using A by (intro sum.mono_neutral_right) auto
  with A show ?thesis by (intro exI [of _ "A \<union> set bs"]) auto
qed

lemma sum_update:
  "finite A \<Longrightarrow> b \<in> A \<Longrightarrow> (\<Sum>a\<in>A. uint ((f(b := v)) a)) = (\<Sum>a\<in>A. uint (f a)) - uint (f b) + uint v"
  for f :: "address \<Rightarrow> uint256"
proof -
  assume "finite A" "b \<in> A"
  moreover have "(\<Sum>a\<in>A - {b}. uint ((f(b := v)) a)) = (\<Sum>a\<in>A - {b}. uint (f a))" by (intro sum.cong) auto
  ultimately show ?thesis by (simp add: sum.remove)
qed

lemma balance_le_supply:
  assumes "erc20_inv t"
  shows "uint (balances t a) \<le> uint (totalSupply t)"
proof -
  from erc20_inv_extend [OF assms, of "[a]"] obtain A where "finite A" "a \<in> A"
    "uint (totalSupply t) = (\<Sum>a\<in>A. uint (balances t a))" by auto
  then show ?thesis using member_le_sum [of a A "\<lambda>a. uint (balances t a)"] by simp
qed

lemma new_ERC20_inv: "erc20_inv new_ERC20"
  unfolding erc20_inv_def new_ERC20_def by (rule exI [of _ "{}"]) simp

lemma erc20_mint_inv:
  assumes "erc20_inv t" "erc20_mint a q t = Inr t'"
  shows "erc20_inv t'"
proof -
  from erc20_inv_extend [OF assms(1), of "[a]"] obtain A where A: "finite A" "a \<in> A" "\<forall>a. a \<notin> A \<longrightarrow> balances t a = 0"
    "uint (totalSupply t) = (\<Sum>a\<in>A. uint (balances t a))" by auto
  from assms(2) obtain s b where n: "safe_add (totalSupply t) q = Some s" "safe_add (balances t a) q = Some b"
    "t' = t\<lparr>totalSupply := s, balances := (balances t)(a := b)\<rparr>"
    by (auto simp: erc20_mint_def split: if_splits option.splits)
  have "uint s = uint (totalSupply t) + uint q" "uint b = uint (balances t a) + uint q"
    using n safe_add_Some by blast+
  then have "uint s = (\<Sum>x\<in>A. uint (((balances t)(a := b)) x))"
    using A by (simp only: sum_update)
  then show ?thesis unfolding erc20_inv_def using A(1-3) n(3) by (intro exI [of _ A]) auto
qed

lemma erc20_burn_inv:
  assumes "erc20_inv t" "erc20_burn a q t = Inr t'"
  shows "erc20_inv t'"
proof -
  from erc20_inv_extend [OF assms(1), of "[a]"] obtain A where A: "finite A" "a \<in> A" "\<forall>a. a \<notin> A \<longrightarrow> balances t a = 0"
    "uint (totalSupply t) = (\<Sum>a\<in>A. uint (balances t a))" by auto
  from assms(2) obtain s b where n: "safe_sub (totalSupply t) q = Some s" "safe_sub (balances t a) q = Some b"
    "t' = t\<lparr>balances := (balances t)(a := b), totalSupply := s\<rparr>"
    by (auto simp: erc20_burn_def split: if_splits option.splits)
  have "uint s = uint (totalSupply t) - uint q" "uint b = uint (balances t a) - uint q"
    using n safe_sub_Some by blast+
  then have "uint s = (\<Sum>x\<in>A. uint (((balances t)(a := b)) x))"
    using A by (simp only: sum_update)
  then show ?thesis unfolding erc20_inv_def using A(1-3) n(3) by (intro exI [of _ A]) auto
qed

lemma erc20_transfer_inv:
  assumes "erc20_inv t" "erc20_transfer a b q t = Inr t'"
  shows "erc20_inv t'"
proof -
  from erc20_inv_extend [OF assms(1), of "[a, b]"] obtain A where A: "finite A" "a \<in> A" "b \<in> A"
    "\<forall>a. a \<notin> A \<longrightarrow> balances t a = 0" "uint (totalSupply t) = (\<Sum>a\<in>A. uint (balances t a))" by auto
  from assms(2) obtain x y where n: "safe_sub (balances t a) q = Some x"
    "safe_add (((balances t)(a := x)) b) q = Some y" "t' = t\<lparr>balances := ((balances t)(a := x))(b := y)\<rparr>"
    by (auto simp: erc20_transfer_def erc20_transfer_internal_def Let_def split: if_splits option.splits)
  have "uint x = uint (balances t a) - uint q" "uint y = uint (((balances t)(a := x)) b) + uint q"
    using n safe_sub_Some safe_add_Some by blast+
  then have "uint (totalSupply t) = (\<Sum>z\<in>A. uint ((((balances t)(a := x))(b := y)) z))"
    using A(1-3,5) by (simp only: sum_update)
  then show ?thesis unfolding erc20_inv_def using A(1-4) n(3) by (intro exI [of _ A]) auto
qed

text \<open>Minting in a consistent state fails only for the zero address or when the supply overflows.\<close>

lemma erc20_mint_succeeds:
  assumes "erc20_inv t" "a \<noteq> ADDRESS_ZERO" "uint (totalSupply t) + uint q < 2 ^ 256"
  shows "\<exists>t'. erc20_mint a q t = Inr t'"
proof -
  have "uint (balances t a) + uint q < 2 ^ 256" using balance_le_supply [OF assms(1), of a] assms(3) by linarith
  then show ?thesis using assms(2,3) by (simp add: erc20_mint_def safe_add_def)
qed

end
