(* ===== verification/Set_Token.thy ===== *)
theory Set_Token
  imports ERC20_Token Controller_Contract
begin

section \<open>The SetToken\<close>

text \<open>
  Models contracts/protocol/SetToken.sol with the structs of contracts/interfaces/ISetToken.sol, the
  token the fixtures create and issue: every function that changes state, the views and the conversion between
  virtual and real units, on 256 bit words. The state of the Controller it reads is the argument \<open>c\<close>, the
  caller is \<open>sender\<close>; the inherited ERC20 is the parameter \<open>ops\<close>. Events are left out. A reverting
  call is \<open>Inl\<close> of its reason.
\<close>

subsection \<open>State\<close>

datatype ModuleState = NONE | PENDING | INITIALIZED

record ExternalPosition =
  ep_virtualUnit :: int256
  ep_data :: bytes

record ComponentPosition =
  virtualUnit :: int256
  externalPositionModules :: "address list"
  externalPositions :: "address \<Rightarrow> ExternalPosition"

record SetPosition =
  sp_component :: address
  sp_module :: address
  sp_unit :: int256
  sp_positionState :: nat
  sp_data :: bytes

record 'e set_token =
  st_controller :: address
  st_manager :: address
  st_locker :: address
  st_modules :: "address list"
  moduleStates :: "address \<Rightarrow> ModuleState"
  isLocked :: bool
  st_components :: "address list"
  componentPositions :: "address \<Rightarrow> ComponentPosition"
  positionMultiplier :: int256
  st_erc20 :: 'e

subsection \<open>Arrays in storage and casts\<close>

text \<open>\<^verbatim>\<open>AddressArrayUtils.removeStorage\<close> moves the last element into the gap.\<close>

definition removeStorage :: "address list \<Rightarrow> address \<Rightarrow> address list sol" where
  "removeStorage A a = (case indexOf A a of
     None \<Rightarrow> Inl ''Address not in array.''
   | Some index \<Rightarrow> (let lastIndex = length A - 1;
        A = (if index \<noteq> lastIndex then A[index := A ! lastIndex] else A)
      in Inr (butlast A)))"

definition toUint256 :: "int256 \<Rightarrow> uint256 sol" where
  "toUint256 a = (if 0 \<le> sint a then Inr a else Inl ''SafeCast: value must be positive'')"

definition toInt256 :: "uint256 \<Rightarrow> int256 sol" where
  "toInt256 a = (if uint a < 2 ^ 255 then Inr a else Inl ''SafeCast: value doesn't fit in an int256'')"

subsection \<open>Constructor\<close>

definition no_position :: ComponentPosition where
  "no_position = \<lparr>virtualUnit = 0, externalPositionModules = [], externalPositions = \<lambda>_. \<lparr>ep_virtualUnit = 0, ep_data = []\<rparr>\<rparr>"

text \<open>The units are read at the indices of the components: a shorter array of units panics.\<close>

fun set_units :: "address list \<Rightarrow> int256 list \<Rightarrow> (address \<Rightarrow> ComponentPosition) \<Rightarrow> (address \<Rightarrow> ComponentPosition) sol" where
  "set_units [] us p = Inr p"
| "set_units (c # cs) [] p = Inl ''invalid opcode''"
| "set_units (c # cs) (u # us) p = set_units cs us (p(c := (p c)\<lparr>virtualUnit := u\<rparr>))"

definition new_SetToken :: "'e \<Rightarrow> address list \<Rightarrow> int256 list \<Rightarrow> address list \<Rightarrow> address \<Rightarrow> address \<Rightarrow> 'e set_token sol" where
  "new_SetToken erc20 components units modules' controller manager =
     (case set_units components units (\<lambda>_. no_position) of Inl m \<Rightarrow> Inl m
      | Inr positions \<Rightarrow> Inr \<lparr>st_controller = controller, st_manager = manager, st_locker = ADDRESS_ZERO,
          st_modules = [], moduleStates = foldl (\<lambda>f m. f(m := PENDING)) (\<lambda>_. NONE) modules', isLocked = False,
          st_components = components, componentPositions = positions, positionMultiplier = sol_preciseUnit,
          st_erc20 = erc20\<rparr>)"

subsection \<open>Modifiers\<close>

definition validateOnlyModule :: "controller_state \<Rightarrow> address \<Rightarrow> 'e set_token \<Rightarrow> 'a sol \<Rightarrow> 'a sol" where
  "validateOnlyModule c sender st k =
     (if moduleStates st sender \<noteq> INITIALIZED then Inl ''Only the module can call''
      else if \<not> isModule c sender then Inl ''Module must be enabled on controller'' else k)"

definition validateOnlyManager :: "address \<Rightarrow> 'e set_token \<Rightarrow> 'a sol \<Rightarrow> 'a sol" where
  "validateOnlyManager sender st k = (if sender \<noteq> st_manager st then Inl ''Only manager can call'' else k)"

definition validateWhenLockedOnlyLocker :: "address \<Rightarrow> 'e set_token \<Rightarrow> 'a sol \<Rightarrow> 'a sol" where
  "validateWhenLockedOnlyLocker sender st k =
     (if isLocked st \<and> sender \<noteq> st_locker st then Inl ''When locked, only the locker can call'' else k)"

definition privileged :: "controller_state \<Rightarrow> address \<Rightarrow> 'e set_token \<Rightarrow> 'a sol \<Rightarrow> 'a sol" where
  "privileged c sender st k = validateOnlyModule c sender st (validateWhenLockedOnlyLocker sender st k)"

lemmas st_guards = validateOnlyModule_def validateOnlyManager_def validateWhenLockedOnlyLocker_def privileged_def

subsection \<open>Views and unit conversion\<close>

definition isComponent :: "'e set_token \<Rightarrow> address \<Rightarrow> bool" where
  "isComponent st component = contains (st_components st) component"

definition isExternalPositionModule :: "'e set_token \<Rightarrow> address \<Rightarrow> address \<Rightarrow> bool" where
  "isExternalPositionModule st component m = contains (externalPositionModules (componentPositions st component)) m"

definition isInitializedModule :: "'e set_token \<Rightarrow> address \<Rightarrow> bool" where
  "isInitializedModule st m \<longleftrightarrow> moduleStates st m = INITIALIZED"

definition isPendingModule :: "'e set_token \<Rightarrow> address \<Rightarrow> bool" where
  "isPendingModule st m \<longleftrightarrow> moduleStates st m = PENDING"

definition defaultPositionVirtualUnit :: "'e set_token \<Rightarrow> address \<Rightarrow> int256" where
  "defaultPositionVirtualUnit st component = virtualUnit (componentPositions st component)"

definition getExternalPositionModules :: "'e set_token \<Rightarrow> address \<Rightarrow> address list" where
  "getExternalPositionModules st component = externalPositionModules (componentPositions st component)"

definition externalPositionVirtualUnit :: "'e set_token \<Rightarrow> address \<Rightarrow> address \<Rightarrow> int256" where
  "externalPositionVirtualUnit st component m = ep_virtualUnit (externalPositions (componentPositions st component) m)"

definition getExternalPositionData :: "'e set_token \<Rightarrow> address \<Rightarrow> address \<Rightarrow> bytes" where
  "getExternalPositionData st component m = ep_data (externalPositions (componentPositions st component) m)"

definition convertVirtualToRealUnit :: "'e set_token \<Rightarrow> int256 \<Rightarrow> int256 sol" where
  "convertVirtualToRealUnit st v = checked (sol_conservativePreciseMul v (positionMultiplier st))"

definition convertRealToVirtualUnit :: "'e set_token \<Rightarrow> int256 \<Rightarrow> int256 sol" where
  "convertRealToVirtualUnit st realUnit =
     (case checked (sol_conservativePreciseDiv realUnit (positionMultiplier st)) of Inl m \<Rightarrow> Inl m
      | Inr v \<Rightarrow>
        if 0 < sint realUnit \<and> v = 0 then Inl ''Real to Virtual unit conversion invalid''
        else if 0 < sint realUnit
        then (case convertVirtualToRealUnit st v of Inl m \<Rightarrow> Inl m
              | Inr r \<Rightarrow> if r = 0 then Inl ''Virtual to Real unit conversion invalid'' else Inr v)
        else Inr v)"

definition getDefaultPositionRealUnit :: "'e set_token \<Rightarrow> address \<Rightarrow> int256 sol" where
  "getDefaultPositionRealUnit st component = convertVirtualToRealUnit st (defaultPositionVirtualUnit st component)"

definition getExternalPositionRealUnit :: "'e set_token \<Rightarrow> address \<Rightarrow> address \<Rightarrow> int256 sol" where
  "getExternalPositionRealUnit st component m = convertVirtualToRealUnit st (externalPositionVirtualUnit st component m)"

text \<open>\<^verbatim>\<open>SignedSafeMath.add\<close>.\<close>

definition ssafe_add :: "int256 \<Rightarrow> int256 \<Rightarrow> int256 option" where
  "ssafe_add a b = (if in_int256 (sint a + sint b) then Some (a + b) else None)"

fun total_units :: "'e set_token \<Rightarrow> address \<Rightarrow> address list \<Rightarrow> int256 \<Rightarrow> int256 sol" where
  "total_units st component [] totalUnits = Inr totalUnits"
| "total_units st component (m # ms) totalUnits =
     (case getExternalPositionRealUnit st component m of Inl e \<Rightarrow> Inl e
      | Inr u \<Rightarrow> (case checked (ssafe_add totalUnits u) of Inl e \<Rightarrow> Inl e
        | Inr t \<Rightarrow> total_units st component ms t))"

definition getTotalComponentRealUnits :: "'e set_token \<Rightarrow> address \<Rightarrow> int256 sol" where
  "getTotalComponentRealUnits st component =
     (case getDefaultPositionRealUnit st component of Inl e \<Rightarrow> Inl e
      | Inr totalUnits \<Rightarrow> total_units st component (getExternalPositionModules st component) totalUnits)"

subsection \<open>The list of positions\<close>

fun position_count :: "'e set_token \<Rightarrow> address list \<Rightarrow> nat \<Rightarrow> nat" where
  "position_count st [] n = n"
| "position_count st (component # cs) n =
     (let n = (if 0 < sint (defaultPositionVirtualUnit st component) then n + 1 else n);
          externalModules = getExternalPositionModules st component
      in position_count st cs (if length externalModules > 0 then n + length externalModules else n))"

definition getPositionCount :: "'e set_token \<Rightarrow> nat" where
  "getPositionCount st = position_count st (st_components st) 0"

text \<open>A write to the array of positions; an index out of range panics.\<close>

definition put_position :: "SetPosition \<Rightarrow> SetPosition list \<times> nat \<Rightarrow> (SetPosition list \<times> nat) sol" where
  "put_position p = (\<lambda>(positions, positionCount).
     if positionCount < length positions then Inr (positions[positionCount := p], positionCount + 1)
     else Inl ''invalid opcode'')"

definition put_default :: "'e set_token \<Rightarrow> address \<Rightarrow> SetPosition list \<times> nat \<Rightarrow> (SetPosition list \<times> nat) sol" where
  "put_default st component a =
     (if 0 < sint (defaultPositionVirtualUnit st component)
      then (case getDefaultPositionRealUnit st component of Inl e \<Rightarrow> Inl e
        | Inr u \<Rightarrow> put_position \<lparr>sp_component = component, sp_module = ADDRESS_ZERO, sp_unit = u,
            sp_positionState = 0, sp_data = []\<rparr> a)
      else Inr a)"

definition put_external :: "'e set_token \<Rightarrow> address \<Rightarrow> address \<Rightarrow> SetPosition list \<times> nat \<Rightarrow> (SetPosition list \<times> nat) sol" where
  "put_external st component currentModule a =
     (case getExternalPositionRealUnit st component currentModule of Inl e \<Rightarrow> Inl e
      | Inr u \<Rightarrow> put_position \<lparr>sp_component = component, sp_module = currentModule, sp_unit = u,
          sp_positionState = 1, sp_data = getExternalPositionData st component currentModule\<rparr> a)"

definition put_component :: "'e set_token \<Rightarrow> address \<Rightarrow> SetPosition list \<times> nat \<Rightarrow> (SetPosition list \<times> nat) sol" where
  "put_component st component a = (case put_default st component a of Inl e \<Rightarrow> Inl e
     | Inr a \<Rightarrow> each_sol (put_external st component) (getExternalPositionModules st component) a)"

definition empty_position :: SetPosition where
  "empty_position = \<lparr>sp_component = ADDRESS_ZERO, sp_module = ADDRESS_ZERO, sp_unit = 0, sp_positionState = 0, sp_data = []\<rparr>"

definition getPositions :: "'e set_token \<Rightarrow> SetPosition list sol" where
  "getPositions st = map_sum id fst
     (each_sol (put_component st) (st_components st) (replicate (getPositionCount st) empty_position, 0))"

subsection \<open>The multiplier check\<close>

definition absoluteValue :: "int256 \<Rightarrow> uint256 sol" where
  "absoluteValue a = (if 0 \<le> sint a then toUint256 a else toUint256 (- a))"

definition smaller_unit :: "uint256 sol \<Rightarrow> uint256 \<Rightarrow> uint256 sol" where
  "smaller_unit u minimumUnit = (case u of Inl e \<Rightarrow> Inl e
     | Inr u \<Rightarrow> Inr (if 0 < u \<and> u < minimumUnit then u else minimumUnit))"

definition min_component :: "'e set_token \<Rightarrow> address \<Rightarrow> uint256 \<Rightarrow> uint256 sol" where
  "min_component st component minimumUnit =
     (case smaller_unit (toUint256 (defaultPositionVirtualUnit st component)) minimumUnit of Inl e \<Rightarrow> Inl e
      | Inr minimumUnit \<Rightarrow> each_sol (\<lambda>m. smaller_unit (absoluteValue (externalPositionVirtualUnit st component m)))
          (getExternalPositionModules st component) minimumUnit)"

definition getPositionsAbsMinimumVirtualUnit :: "'e set_token \<Rightarrow> int256 sol" where
  "getPositionsAbsMinimumVirtualUnit st = (case each_sol (min_component st) (st_components st) (- 1) of Inl e \<Rightarrow> Inl e
     | Inr minimumUnit \<Rightarrow> toInt256 minimumUnit)"

definition validateNewMultiplier :: "'e set_token \<Rightarrow> int256 \<Rightarrow> 'a sol \<Rightarrow> 'a sol" where
  "validateNewMultiplier st newMultiplier k =
     (case getPositionsAbsMinimumVirtualUnit st of Inl e \<Rightarrow> Inl e
      | Inr minVirtualUnit \<Rightarrow> (case checked (sol_conservativePreciseMul minVirtualUnit newMultiplier) of Inl e \<Rightarrow> Inl e
        | Inr p \<Rightarrow> if 0 < sint p then k else Inl ''New multiplier too small''))"

subsection \<open>Privileged functions of the modules\<close>

definition set_position :: "address \<Rightarrow> (ComponentPosition \<Rightarrow> ComponentPosition) \<Rightarrow> 'e set_token \<Rightarrow> 'e set_token" where
  "set_position component f st =
     st\<lparr>componentPositions := (componentPositions st)(component := f (componentPositions st component))\<rparr>"

text \<open>
  \<^verbatim>\<open>invoke\<close> makes a call from the SetToken: \<open>functionCall\<close> is what the target does with the state \<open>w\<close> of the
  other contracts.
\<close>

definition st_invoke :: "(address \<Rightarrow> uint256 \<Rightarrow> bytes \<Rightarrow> 'w \<Rightarrow> (bytes \<times> 'w) sol) \<Rightarrow> controller_state \<Rightarrow> address \<Rightarrow>
    address \<Rightarrow> uint256 \<Rightarrow> bytes \<Rightarrow> 'e set_token \<Rightarrow> 'w \<Rightarrow> (bytes \<times> 'w) sol" where
  "st_invoke functionCall c sender target val data' st w = privileged c sender st (functionCall target val data' w)"

definition addComponent :: "controller_state \<Rightarrow> address \<Rightarrow> address \<Rightarrow> 'e set_token \<Rightarrow> 'e set_token sol" where
  "addComponent c sender component st = privileged c sender st
     (if isComponent st component then Inl ''Must not be component''
      else Inr (st\<lparr>st_components := st_components st @ [component]\<rparr>))"

definition removeComponent :: "controller_state \<Rightarrow> address \<Rightarrow> address \<Rightarrow> 'e set_token \<Rightarrow> 'e set_token sol" where
  "removeComponent c sender component st = privileged c sender st
     (case removeStorage (st_components st) component of Inl m \<Rightarrow> Inl m
      | Inr l \<Rightarrow> Inr (st\<lparr>st_components := l\<rparr>))"

definition editDefaultPositionUnit :: "controller_state \<Rightarrow> address \<Rightarrow> address \<Rightarrow> int256 \<Rightarrow> 'e set_token \<Rightarrow> 'e set_token sol" where
  "editDefaultPositionUnit c sender component realUnit st = privileged c sender st
     (case convertRealToVirtualUnit st realUnit of Inl m \<Rightarrow> Inl m
      | Inr v \<Rightarrow> Inr (set_position component (virtualUnit_update (\<lambda>_. v)) st))"

definition addExternalPositionModule :: "controller_state \<Rightarrow> address \<Rightarrow> address \<Rightarrow> address \<Rightarrow> 'e set_token \<Rightarrow> 'e set_token sol" where
  "addExternalPositionModule c sender component positionModule st = privileged c sender st
     (if isExternalPositionModule st component positionModule then Inl ''Module already added''
      else Inr (set_position component (externalPositionModules_update (\<lambda>l. l @ [positionModule])) st))"

definition removeExternalPositionModule :: "controller_state \<Rightarrow> address \<Rightarrow> address \<Rightarrow> address \<Rightarrow> 'e set_token \<Rightarrow> 'e set_token sol" where
  "removeExternalPositionModule c sender component positionModule st = privileged c sender st
     (case removeStorage (externalPositionModules (componentPositions st component)) positionModule of Inl m \<Rightarrow> Inl m
      | Inr l \<Rightarrow> Inr (set_position component (\<lambda>p. p\<lparr>externalPositionModules := l,
          externalPositions := (externalPositions p)(positionModule := \<lparr>ep_virtualUnit = 0, ep_data = []\<rparr>)\<rparr>) st))"

definition set_external :: "address \<Rightarrow> address \<Rightarrow> (ExternalPosition \<Rightarrow> ExternalPosition) \<Rightarrow> 'e set_token \<Rightarrow> 'e set_token" where
  "set_external component positionModule f st = set_position component
     (\<lambda>p. p\<lparr>externalPositions := (externalPositions p)(positionModule := f (externalPositions p positionModule))\<rparr>) st"

definition editExternalPositionUnit :: "controller_state \<Rightarrow> address \<Rightarrow> address \<Rightarrow> address \<Rightarrow> int256 \<Rightarrow> 'e set_token \<Rightarrow> 'e set_token sol" where
  "editExternalPositionUnit c sender component positionModule realUnit st = privileged c sender st
     (case convertRealToVirtualUnit st realUnit of Inl m \<Rightarrow> Inl m
      | Inr v \<Rightarrow> Inr (set_external component positionModule (ep_virtualUnit_update (\<lambda>_. v)) st))"

definition editExternalPositionData :: "controller_state \<Rightarrow> address \<Rightarrow> address \<Rightarrow> address \<Rightarrow> bytes \<Rightarrow> 'e set_token \<Rightarrow> 'e set_token sol" where
  "editExternalPositionData c sender component positionModule data' st = privileged c sender st
     (Inr (set_external component positionModule (ep_data_update (\<lambda>_. data')) st))"

definition editPositionMultiplier :: "controller_state \<Rightarrow> address \<Rightarrow> int256 \<Rightarrow> 'e set_token \<Rightarrow> 'e set_token sol" where
  "editPositionMultiplier c sender newMultiplier st = privileged c sender st
     (validateNewMultiplier st newMultiplier (Inr (st\<lparr>positionMultiplier := newMultiplier\<rparr>)))"

definition st_mint :: "'e erc20_ops \<Rightarrow> controller_state \<Rightarrow> address \<Rightarrow> address \<Rightarrow> uint256 \<Rightarrow> 'e set_token \<Rightarrow> 'e set_token sol" where
  "st_mint ops c sender account quantity st = privileged c sender st
     (case e_mint ops account quantity (st_erc20 st) of Inl m \<Rightarrow> Inl m | Inr t \<Rightarrow> Inr (st\<lparr>st_erc20 := t\<rparr>))"

definition st_burn :: "'e erc20_ops \<Rightarrow> controller_state \<Rightarrow> address \<Rightarrow> address \<Rightarrow> uint256 \<Rightarrow> 'e set_token \<Rightarrow> 'e set_token sol" where
  "st_burn ops c sender account quantity st = privileged c sender st
     (case e_burn ops account quantity (st_erc20 st) of Inl m \<Rightarrow> Inl m | Inr t \<Rightarrow> Inr (st\<lparr>st_erc20 := t\<rparr>))"

definition st_lock :: "controller_state \<Rightarrow> address \<Rightarrow> 'e set_token \<Rightarrow> 'e set_token sol" where
  "st_lock c sender st = validateOnlyModule c sender st
     (if isLocked st then Inl ''Must not be locked'' else Inr (st\<lparr>st_locker := sender, isLocked := True\<rparr>))"

definition st_unlock :: "controller_state \<Rightarrow> address \<Rightarrow> 'e set_token \<Rightarrow> 'e set_token sol" where
  "st_unlock c sender st = validateOnlyModule c sender st
     (if \<not> isLocked st then Inl ''Must be locked''
      else if st_locker st \<noteq> sender then Inl ''Must be locker''
      else Inr (st\<lparr>st_locker := ADDRESS_ZERO, isLocked := False\<rparr>))"

subsection \<open>Functions of the manager and of pending modules\<close>

definition st_addModule :: "controller_state \<Rightarrow> address \<Rightarrow> address \<Rightarrow> 'e set_token \<Rightarrow> 'e set_token sol" where
  "st_addModule c sender m st = validateOnlyManager sender st
     (if moduleStates st m \<noteq> NONE then Inl ''Module must not be added''
      else if \<not> isModule c m then Inl ''Must be enabled on Controller''
      else Inr (st\<lparr>moduleStates := (moduleStates st)(m := PENDING)\<rparr>))"

text \<open>\<open>removed\<close> is the answer of the module to the call of its own \<^verbatim>\<open>removeModule\<close>.\<close>

definition st_removeModule :: "unit sol \<Rightarrow> address \<Rightarrow> address \<Rightarrow> 'e set_token \<Rightarrow> 'e set_token sol" where
  "st_removeModule removed sender m st = validateOnlyManager sender st
     (if isLocked st then Inl ''Only when unlocked''
      else if moduleStates st m \<noteq> INITIALIZED then Inl ''Module must be added''
      else case removed of Inl e \<Rightarrow> Inl e
      | Inr _ \<Rightarrow> (case removeStorage (st_modules st) m of Inl e \<Rightarrow> Inl e
        | Inr l \<Rightarrow> Inr (st\<lparr>moduleStates := (moduleStates st)(m := NONE), st_modules := l\<rparr>)))"

definition removePendingModule :: "address \<Rightarrow> address \<Rightarrow> 'e set_token \<Rightarrow> 'e set_token sol" where
  "removePendingModule sender m st = validateOnlyManager sender st
     (if isLocked st then Inl ''Only when unlocked''
      else if moduleStates st m \<noteq> PENDING then Inl ''Module must be pending''
      else Inr (st\<lparr>moduleStates := (moduleStates st)(m := NONE)\<rparr>))"

definition initializeModule :: "address \<Rightarrow> 'e set_token \<Rightarrow> 'e set_token sol" where
  "initializeModule sender st =
     (if isLocked st then Inl ''Only when unlocked''
      else if moduleStates st sender \<noteq> PENDING then Inl ''Module must be pending''
      else Inr (st\<lparr>moduleStates := (moduleStates st)(sender := INITIALIZED), st_modules := st_modules st @ [sender]\<rparr>))"

definition setManager :: "address \<Rightarrow> address \<Rightarrow> 'e set_token \<Rightarrow> 'e set_token sol" where
  "setManager sender manager st = validateOnlyManager sender st
     (if isLocked st then Inl ''Only when unlocked'' else Inr (st\<lparr>st_manager := manager\<rparr>))"

lemmas privileged_defs = addComponent_def removeComponent_def editDefaultPositionUnit_def addExternalPositionModule_def
  removeExternalPositionModule_def editExternalPositionUnit_def editExternalPositionData_def editPositionMultiplier_def
  st_mint_def st_burn_def
lemmas other_defs = st_lock_def st_unlock_def st_addModule_def st_removeModule_def removePendingModule_def
  initializeModule_def setManager_def

subsection \<open>The contract as a state machine\<close>

text \<open>
  A call by \<open>sender\<close> that is accepted. The Controller may be in any state, a module may answer its removal as
  it likes, and holders move the token through the inherited functions.
\<close>

inductive set_step :: "'e erc20_ops \<Rightarrow> address \<Rightarrow> 'e set_token \<Rightarrow> 'e set_token \<Rightarrow> bool" for ops sender st where
  step_addComponent: "addComponent c sender a st = Inr st' \<Longrightarrow> set_step ops sender st st'"
| step_removeComponent: "removeComponent c sender a st = Inr st' \<Longrightarrow> set_step ops sender st st'"
| step_editDefaultPositionUnit: "editDefaultPositionUnit c sender a u st = Inr st' \<Longrightarrow> set_step ops sender st st'"
| step_addExternalPositionModule: "addExternalPositionModule c sender a m st = Inr st' \<Longrightarrow> set_step ops sender st st'"
| step_removeExternalPositionModule: "removeExternalPositionModule c sender a m st = Inr st' \<Longrightarrow> set_step ops sender st st'"
| step_editExternalPositionUnit: "editExternalPositionUnit c sender a m u st = Inr st' \<Longrightarrow> set_step ops sender st st'"
| step_editExternalPositionData: "editExternalPositionData c sender a m d st = Inr st' \<Longrightarrow> set_step ops sender st st'"
| step_editPositionMultiplier: "editPositionMultiplier c sender p st = Inr st' \<Longrightarrow> set_step ops sender st st'"
| step_mint: "st_mint ops c sender a q st = Inr st' \<Longrightarrow> set_step ops sender st st'"
| step_burn: "st_burn ops c sender a q st = Inr st' \<Longrightarrow> set_step ops sender st st'"
| step_lock: "st_lock c sender st = Inr st' \<Longrightarrow> set_step ops sender st st'"
| step_unlock: "st_unlock c sender st = Inr st' \<Longrightarrow> set_step ops sender st st'"
| step_addModule: "st_addModule c sender m st = Inr st' \<Longrightarrow> set_step ops sender st st'"
| step_removeModule: "st_removeModule removed sender m st = Inr st' \<Longrightarrow> set_step ops sender st st'"
| step_removePendingModule: "removePendingModule sender m st = Inr st' \<Longrightarrow> set_step ops sender st st'"
| step_initializeModule: "initializeModule sender st = Inr st' \<Longrightarrow> set_step ops sender st st'"
| step_setManager: "setManager sender m st = Inr st' \<Longrightarrow> set_step ops sender st st'"
| step_transfer: "e_transfer ops sender a q (st_erc20 st) = Inr t \<Longrightarrow> set_step ops sender st (st\<lparr>st_erc20 := t\<rparr>)"

inductive_cases set_stepE: "set_step ops sender st st'"

inductive set_reachable :: "'e erc20_ops \<Rightarrow> 'e set_token \<Rightarrow> bool" for ops where
  created: "distinct cs \<Longrightarrow> new_SetToken t cs us ms c m = Inr st \<Longrightarrow> set_reachable ops st"
| stepped: "set_reachable ops st \<Longrightarrow> set_step ops sender st st' \<Longrightarrow> set_reachable ops st'"

definition set_inv :: "'e set_token \<Rightarrow> bool" where
  "set_inv st \<longleftrightarrow> distinct (st_components st) \<and>
     distinct (st_modules st) \<and> (\<forall>m. m \<in> set (st_modules st) \<longleftrightarrow> moduleStates st m = INITIALIZED) \<and>
     (\<forall>c. distinct (externalPositionModules (componentPositions st c))) \<and>
     (if isLocked st then st_locker st \<in> set (st_modules st) else st_locker st = ADDRESS_ZERO) \<and>
     0 < sint (positionMultiplier st)"

subsection \<open>Removing from an array in storage\<close>

lemma indexOf_None_iff: "indexOf A a = None \<longleftrightarrow> a \<notin> set A"
  by (simp add: indexOf_def indexOf_from_None_iff)

lemma removeStorage_Inr:
  assumes "removeStorage A a = Inr l" "distinct A"
  shows "a \<in> set A \<and> distinct l \<and> set l = set A - {a}"
proof -
  obtain k where k: "indexOf A a = Some k" using assms(1) by (auto simp: removeStorage_def split: option.splits)
  then have A: "k < length A" "A ! k = a" using indexOf_from_Some [of 0 A a k] by (simp_all add: indexOf_def)
  then have ne: "A \<noteq> []" by auto
  define B where "B = butlast A"
  define z where "z = last A"
  have Bz: "A = B @ [z]" using ne by (simp add: B_def z_def)
  show ?thesis
  proof (cases "k = length B")
    case True
    then have "l = B" "z = a" using assms(1) k A(2) by (simp_all add: removeStorage_def Bz)
    then show ?thesis using assms(2) Bz by auto
  next
    case False
    then have kB: "k < length B" "B ! k = a" using A by (simp_all add: Bz nth_append)
    then have l: "l = B[k := z]" using assms(1) k False by (simp add: removeStorage_def Bz list_update_append butlast_append)
    have dB: "distinct B" "z \<notin> set B" using assms(2) Bz by simp_all
    have "set l = set B - {a} \<union> {z}" using kB dB l by (simp add: set_update_distinct)
    moreover have "distinct l" using kB dB l by (simp add: distinct_list_update)
    moreover have "a \<noteq> z" "a \<in> set B" using kB dB(2) nth_mem [OF kB(1)] by auto
    ultimately show ?thesis using Bz by auto
  qed
qed

subsection \<open>Units\<close>

lemma conservativePreciseMul_Some:
  "sol_conservativePreciseMul a b = Some r \<longleftrightarrow>
     in_int256 (sint a * sint b) \<and> r = word_of_int (sint a * sint b div PRECISE_UNIT)"
proof -
  have "map_option sint (sol_conservativePreciseMul a b) =
      (if in_int256 (sint a * sint b) then Some (sint a * sint b div PRECISE_UNIT) else None)"
    by (simp add: sol_conservativePreciseMul_sint divDown_floor PRECISE_UNIT_def)
  moreover have of_sint: "w = word_of_int k" if "sint w = k" for w :: int256 and k using that by auto
  ultimately show ?thesis by (cases "sol_conservativePreciseMul a b") (auto split: if_splits dest!: of_sint)
qed

lemma floor_in_int256: "in_int256 a \<Longrightarrow> 0 < b \<Longrightarrow> in_int256 (a div b)"
proof -
  assume a: "in_int256 a" and b: "0 < b"
  have "a div b \<le> a" if "0 \<le> a" using that b zdiv_mono2 [of a 1 b] by simp
  moreover have "a \<le> a div b" if "a < 0" using that b zdiv_mono2_neg [of a 1 b] by simp
  moreover have "a div b \<le> 0" if "a < 0" using that b by (simp add: div_neg_pos_less0 order_less_imp_le)
  moreover have "0 \<le> a div b" if "0 \<le> a" using that b by (simp add: pos_imp_zdiv_nonneg_iff)
  ultimately show ?thesis using a unfolding in_int256_def by (cases "0 \<le> a") (auto intro: order_le_less_trans)
qed

lemma real_unit:
  "convertVirtualToRealUnit st v = Inr r \<longleftrightarrow> in_int256 (sint v * sint (positionMultiplier st)) \<and>
     r = word_of_int (sint v * sint (positionMultiplier st) div PRECISE_UNIT)"
  by (simp add: convertVirtualToRealUnit_def conservativePreciseMul_Some)

lemma real_unit_sint:
  "convertVirtualToRealUnit st v = Inr r \<Longrightarrow> sint r = sint v * sint (positionMultiplier st) div PRECISE_UNIT"
  by (auto simp: real_unit sint_word_of_int_256 floor_in_int256)

lemma conservativePreciseDiv_Some:
  assumes "sol_conservativePreciseDiv a b = Some r"
  shows "sint b \<noteq> 0 \<and> sint r = sint a * PRECISE_UNIT div sint b"
proof -
  from assms obtain p where p: "ssafe_mul a sol_preciseUnit = Some p" "sol_divDown p b = Some r"
    by (auto simp: sol_conservativePreciseDiv_def)
  note ssafe_mul_Some [OF p(1)]
  then have "sint p = sint a * PRECISE_UNIT" by simp
  then show ?thesis using sol_divDown_sint [of p b] p(2)
    by (auto simp: divDown_floor split: if_splits)
qed

text \<open>The least unit the multiplier check looks at.\<close>

lemma smaller_unit_Inr:
  "smaller_unit u k = Inr l \<Longrightarrow> 0 < k \<Longrightarrow> 0 < l \<and> l \<le> k \<and> (\<exists>v. u = Inr v \<and> (0 < v \<longrightarrow> l \<le> v))"
  by (auto simp: smaller_unit_def split: sum.splits if_splits)

lemma each_smaller_unit:
  assumes "each_sol (\<lambda>x. smaller_unit (f x)) xs k = Inr l" "0 < k"
  shows "0 < l \<and> l \<le> k \<and> (\<forall>x \<in> set xs. \<exists>v. f x = Inr v \<and> (0 < v \<longrightarrow> l \<le> v))"
  using assms
proof (induction xs arbitrary: k)
  case (Cons x xs)
  from Cons.prems obtain k1 where k1: "smaller_unit (f x) k = Inr k1" "each_sol (\<lambda>x. smaller_unit (f x)) xs k1 = Inr l"
    by (auto split: sum.splits)
  note one = smaller_unit_Inr [OF k1(1) Cons.prems(2)]
  then have "0 < k1" by simp
  from Cons.IH [OF k1(2) this] one show ?case by (auto intro: order_trans)
qed simp

lemma min_component_Inr:
  assumes "min_component st a k = Inr l" "0 < k"
  shows "0 < l \<and> l \<le> k \<and> (\<exists>v. toUint256 (defaultPositionVirtualUnit st a) = Inr v \<and> (0 < v \<longrightarrow> l \<le> v)) \<and>
    (\<forall>m \<in> set (getExternalPositionModules st a). \<exists>v. absoluteValue (externalPositionVirtualUnit st a m) = Inr v \<and> (0 < v \<longrightarrow> l \<le> v))"
proof -
  from assms obtain k1 where k1: "smaller_unit (toUint256 (defaultPositionVirtualUnit st a)) k = Inr k1"
    "each_sol (\<lambda>m. smaller_unit (absoluteValue (externalPositionVirtualUnit st a m))) (getExternalPositionModules st a) k1 = Inr l"
    by (auto simp: min_component_def split: sum.splits)
  note one = smaller_unit_Inr [OF k1(1) assms(2)]
  then have "0 < k1" by simp
  from each_smaller_unit [OF k1(2) this] one show ?thesis by (auto intro: order_trans)
qed

lemma each_min_component:
  assumes "each_sol (min_component st) cs k = Inr l" "0 < k"
  shows "0 < l \<and> l \<le> k \<and> (\<forall>a \<in> set cs. (\<exists>v. toUint256 (defaultPositionVirtualUnit st a) = Inr v \<and> (0 < v \<longrightarrow> l \<le> v)) \<and>
    (\<forall>m \<in> set (getExternalPositionModules st a). \<exists>v. absoluteValue (externalPositionVirtualUnit st a m) = Inr v \<and> (0 < v \<longrightarrow> l \<le> v)))"
  using assms
proof (induction cs arbitrary: k)
  case (Cons a cs)
  from Cons.prems obtain k1 where k1: "min_component st a k = Inr k1" "each_sol (min_component st) cs k1 = Inr l"
    by (auto split: sum.splits)
  note one = min_component_Inr [OF k1(1) Cons.prems(2)]
  then have "0 < k1" by simp
  note rest = Cons.IH [OF k1(2) this]
  have le: "0 < v \<longrightarrow> l \<le> v" if "0 < v \<longrightarrow> k1 \<le> v" for v using that rest by (auto intro: order_trans)
  show ?case using one rest le by (auto intro: order_trans)
qed simp

lemma toUint256_Inr [simp]: "toUint256 a = Inr v \<longleftrightarrow> 0 \<le> sint a \<and> v = a"
  by (auto simp: toUint256_def)

lemma toInt256_Inr [simp]: "toInt256 a = Inr v \<longleftrightarrow> uint a < 2 ^ 255 \<and> v = a"
  by (auto simp: toInt256_def)

lemma sint_nonneg_uint: "0 \<le> sint a \<Longrightarrow> sint a = uint a" for a :: uint256
  using in_int256_sint [of a] by (simp add: uint_sint take_bit_int_eq_self in_int256_def del: in_int256_sint)

lemma uint_small_sint: "uint a < 2 ^ 255 \<Longrightarrow> sint a = uint a" for a :: uint256
  using signed_take_bit_int_eq_self [of 255 "uint a"] order_trans [OF _ uint_ge_0 [of a], of "- (2 ^ 255)"]
  by (simp add: sint_uint)

lemma validateNewMultiplier_Inr:
  assumes "validateNewMultiplier st new k = Inr x"
  shows "k = Inr x \<and> 0 < sint new \<and> (\<exists>l. 0 < uint l \<and> PRECISE_UNIT \<le> uint l * sint new \<and>
    (\<forall>a \<in> set (st_components st). (\<exists>v. toUint256 (defaultPositionVirtualUnit st a) = Inr v \<and> (0 < v \<longrightarrow> l \<le> v)) \<and>
    (\<forall>m \<in> set (getExternalPositionModules st a). \<exists>v. absoluteValue (externalPositionVirtualUnit st a m) = Inr v \<and> (0 < v \<longrightarrow> l \<le> v))))"
proof -
  obtain l p where k: "k = Inr x" and l: "each_sol (min_component st) (st_components st) (- 1) = Inr l" "uint l < 2 ^ 255"
    and p: "sol_conservativePreciseMul l new = Some p" "0 < sint p"
    using assms by (auto simp: validateNewMultiplier_def getPositionsAbsMinimumVirtualUnit_def split: sum.splits if_splits)
  have "(- 1 :: uint256) \<noteq> 0" by simp
  then have "0 < (- 1 :: uint256)" by (simp only: word_neq_0_conv)
  note min = each_min_component [OF l(1) this]
  have ul: "0 < uint l" using min by (simp add: word_less_def)
  have "in_int256 (sint l * sint new)" "p = word_of_int (sint l * sint new div PRECISE_UNIT)"
    using p(1) by (simp_all add: conservativePreciseMul_Some)
  then have "0 < uint l * sint new div PRECISE_UNIT"
    using p(2) uint_small_sint [OF l(2)] by (simp add: sint_word_of_int_256 floor_in_int256)
  then have "PRECISE_UNIT \<le> uint l * sint new" by (simp add: pos_imp_zdiv_pos_iff)
  moreover from this have "0 < uint l * sint new" using PRECISE_UNIT_pos by linarith
  then have "0 < sint new" using ul by (simp add: zero_less_mult_iff)
  ultimately show ?thesis using k ul min by blast
qed

subsection \<open>Every step keeps the invariant\<close>

lemma new_SetToken_inv: "distinct cs \<Longrightarrow> new_SetToken t cs us ms c m = Inr st \<Longrightarrow> set_inv st"
proof -
  have pos: "set_units cs us p = Inr q \<Longrightarrow> externalPositionModules (q a) = externalPositionModules (p a)" for cs us p q a
    by (induction cs us p rule: set_units.induct) (auto split: if_splits)
  have ms: "foldl (\<lambda>f m. f(m := PENDING)) f ms a \<noteq> INITIALIZED" if "f a \<noteq> INITIALIZED" for f and ms :: "address list" and a
    using that by (induction ms arbitrary: f) auto
  assume "distinct cs" "new_SetToken t cs us ms c m = Inr st"
  then show ?thesis
    by (auto simp: new_SetToken_def set_inv_def ms pos no_position_def PRECISE_UNIT_def split: sum.splits)
qed

lemma privileged_Inr: "privileged c sender st k = Inr x \<longleftrightarrow> moduleStates st sender = INITIALIZED \<and> isModule c sender \<and>
    (isLocked st \<longrightarrow> sender = st_locker st) \<and> k = Inr x"
  by (auto simp: st_guards)

lemma guard_Inr:
  "validateOnlyModule c sender st k = Inr x \<longleftrightarrow> moduleStates st sender = INITIALIZED \<and> isModule c sender \<and> k = Inr x"
  "validateOnlyManager sender st k = Inr x \<longleftrightarrow> sender = st_manager st \<and> k = Inr x"
  by (auto simp: st_guards)

lemmas step_simps = privileged_defs other_defs privileged_Inr guard_Inr set_position_def set_external_def
  isComponent_def isExternalPositionModule_def

lemma set_step_inv:
  assumes "set_step ops sender st st'" "set_inv st"
  shows "set_inv st'"
  using assms
proof (cases rule: set_step.cases)
  case (step_editPositionMultiplier c p)
  then have "st' = st\<lparr>positionMultiplier := p\<rparr>" "0 < sint p"
    by (auto simp: step_simps dest!: validateNewMultiplier_Inr)
  then show ?thesis using assms(2) by (auto simp: set_inv_def)
qed (auto simp: set_inv_def step_simps dest!: removeStorage_Inr split: sum.splits if_splits)

subsection \<open>What the list of positions holds\<close>

definition real_unit_of :: "'e set_token \<Rightarrow> int256 \<Rightarrow> int256" where
  "real_unit_of st v = word_of_int (sint v * sint (positionMultiplier st) div PRECISE_UNIT)"

definition unit_fits :: "'e set_token \<Rightarrow> int256 \<Rightarrow> bool" where
  "unit_fits st v \<longleftrightarrow> in_int256 (sint v * sint (positionMultiplier st))"

definition default_position :: "'e set_token \<Rightarrow> address \<Rightarrow> SetPosition" where
  "default_position st c = \<lparr>sp_component = c, sp_module = ADDRESS_ZERO,
     sp_unit = real_unit_of st (defaultPositionVirtualUnit st c), sp_positionState = 0, sp_data = []\<rparr>"

definition external_position :: "'e set_token \<Rightarrow> address \<Rightarrow> address \<Rightarrow> SetPosition" where
  "external_position st c m = \<lparr>sp_component = c, sp_module = m,
     sp_unit = real_unit_of st (externalPositionVirtualUnit st c m), sp_positionState = 1,
     sp_data = getExternalPositionData st c m\<rparr>"

text \<open>The positions of a component, and whether their real units are representable.\<close>

definition positions_of :: "'e set_token \<Rightarrow> address \<Rightarrow> SetPosition list" where
  "positions_of st c = (if 0 < sint (defaultPositionVirtualUnit st c) then [default_position st c] else []) @
     map (external_position st c) (getExternalPositionModules st c)"

definition positions_fit :: "'e set_token \<Rightarrow> address \<Rightarrow> bool" where
  "positions_fit st c \<longleftrightarrow> (0 < sint (defaultPositionVirtualUnit st c) \<longrightarrow> unit_fits st (defaultPositionVirtualUnit st c)) \<and>
     (\<forall>m \<in> set (getExternalPositionModules st c). unit_fits st (externalPositionVirtualUnit st c m))"

lemma convert_eq: "convertVirtualToRealUnit st v = (if unit_fits st v then Inr (real_unit_of st v) else Inl ''SafeMath'')"
  using real_unit [of st v "real_unit_of st v"] conservativePreciseMul_Some [of v "positionMultiplier st"]
  by (auto simp: convertVirtualToRealUnit_def unit_fits_def real_unit_of_def checked_def split: option.split)

text \<open>The array during the loop: the positions written so far and the slots that are left.\<close>

definition slots :: "SetPosition list \<Rightarrow> nat \<Rightarrow> SetPosition list \<times> nat" where
  "slots ds k = (ds @ replicate k empty_position, length ds)"

lemma put_position_slots: "put_position p (slots ds (Suc k)) = Inr (slots (ds @ [p]) k)"
  by (simp add: put_position_def slots_def list_update_append)

lemma put_externals:
  "each_sol (put_external st c) ms (slots ds (length ms + k)) =
     (if \<forall>m \<in> set ms. unit_fits st (externalPositionVirtualUnit st c m)
      then Inr (slots (ds @ map (external_position st c) ms) k) else Inl ''SafeMath'')"
  by (induction ms arbitrary: ds)
    (auto simp: put_external_def getExternalPositionRealUnit_def convert_eq put_position_slots external_position_def)

lemma put_component_slots:
  "put_component st c (slots ds (length (positions_of st c) + k)) =
     (if positions_fit st c then Inr (slots (ds @ positions_of st c) k) else Inl ''SafeMath'')"
  by (auto simp: put_component_def put_default_def getDefaultPositionRealUnit_def convert_eq positions_fit_def
      positions_of_def put_position_slots put_externals default_position_def)

lemma put_components_slots:
  "each_sol (put_component st) cs (slots ds (length (concat (map (positions_of st) cs)) + k)) =
     (if \<forall>c \<in> set cs. positions_fit st c then Inr (slots (ds @ concat (map (positions_of st) cs)) k) else Inl ''SafeMath'')"
proof (induction cs arbitrary: ds)
  case (Cons c cs)
  have "length (concat (map (positions_of st) (c # cs))) + k =
      length (positions_of st c) + (length (concat (map (positions_of st) cs)) + k)" by simp
  then show ?case using Cons by (simp only: each_sol.simps put_component_slots) simp
qed simp

lemma position_count_eq: "position_count st cs n = n + length (concat (map (positions_of st) cs))"
  by (induction cs arbitrary: n) (auto simp: positions_of_def Let_def)

lemma getPositions_eq:
  "getPositions st = (if \<forall>c \<in> set (st_components st). positions_fit st c
     then Inr (concat (map (positions_of st) (st_components st))) else Inl ''SafeMath'')"
  using put_components_slots [of st "st_components st" "[]" 0]
  by (simp add: getPositions_def getPositionCount_def position_count_eq slots_def)

subsection \<open>Writing a unit and changing the multiplier\<close>

lemma editDefaultPositionUnit_Inr:
  assumes "editDefaultPositionUnit c sender a r st = Inr st'"
  obtains v where "st' = set_position a (virtualUnit_update (\<lambda>_. v)) st"
    "sint v = sint r * PRECISE_UNIT div sint (positionMultiplier st)" "in_int256 (sint r * PRECISE_UNIT)"
    "0 < sint r \<longrightarrow> (\<exists>u. convertVirtualToRealUnit st v = Inr u \<and> u \<noteq> 0)"
proof -
  from assms obtain v where v: "convertRealToVirtualUnit st r = Inr v" "st' = set_position a (virtualUnit_update (\<lambda>_. v)) st"
    by (auto simp: editDefaultPositionUnit_def privileged_Inr split: sum.splits)
  have div: "sol_conservativePreciseDiv r (positionMultiplier st) = Some v"
    and again: "0 < sint r \<longrightarrow> (\<exists>u. convertVirtualToRealUnit st v = Inr u \<and> u \<noteq> 0)"
    using v(1) by (auto simp: convertRealToVirtualUnit_def split: sum.splits if_splits)
  have "in_int256 (sint r * PRECISE_UNIT)"
    using div by (auto simp: sol_conservativePreciseDiv_def dest: ssafe_mul_Some)
  then show ?thesis using that v(2) conservativePreciseDiv_Some [OF div] again by blast
qed

lemma default_unit_set [simp]:
  "defaultPositionVirtualUnit (set_position a (virtualUnit_update (\<lambda>_. v)) st) b =
     (if b = a then v else defaultPositionVirtualUnit st b)"
  "positionMultiplier (set_position a f st) = positionMultiplier st"
  by (simp_all add: defaultPositionVirtualUnit_def set_position_def)

lemma scaled_at_least_unit:
  fixes l m v :: int
  assumes "PRECISE_UNIT \<le> l * m" "l \<le> v" "0 < m"
  shows "0 < v * m div PRECISE_UNIT"
proof -
  have "l * m \<le> v * m" using assms by (intro mult_right_mono) simp_all
  then show ?thesis using assms(1) PRECISE_UNIT_pos by (simp only: pos_imp_zdiv_pos_iff)
qed

lemma scaled_at_most_minus_unit:
  fixes l m v :: int
  assumes "PRECISE_UNIT \<le> l * m" "l \<le> - v" "0 < m"
  shows "v * m div PRECISE_UNIT < 0"
proof -
  have "l * m \<le> - v * m" using assms by (intro mult_right_mono) simp_all
  then have "v * m < 0" using assms(1) PRECISE_UNIT_pos by linarith
  then show ?thesis using PRECISE_UNIT_pos by (simp only: pos_imp_zdiv_neg_iff)
qed

lemma absoluteValue_Inr: "absoluteValue x = Inr v \<Longrightarrow> uint v = \<bar>sint x\<bar>"
proof (cases "0 \<le> sint x")
  case False
  assume "absoluteValue x = Inr v"
  then have v: "v = - x" "0 \<le> sint (- x)" using False by (auto simp: absoluteValue_def)
  have "- (2 ^ 255) \<le> sint x" using in_int256_sint [of x] unfolding in_int256_def by simp
  moreover have "sint x \<noteq> - (2 ^ 255)"
  proof
    assume "sint x = - (2 ^ 255)"
    then show False using v(2) by (simp add: sint_word_ariths signed_take_bit_int_eq_self_iff)
  qed
  ultimately have "in_int256 (- sint x)" using False by (simp add: in_int256_def)
  then have "sint (- x) = - sint x" by (simp add: sint_word_ariths signed_take_bit_int_eq_self in_int256_def)
  then show ?thesis using v False sint_nonneg_uint [of "- x"] by simp
qed (auto simp: absoluteValue_def sint_nonneg_uint)

text \<open>Writing a non-negative real unit and reading it back.\<close>

lemma editDefaultPositionUnit_read:
  assumes "editDefaultPositionUnit c sender a r st = Inr st'" and "0 < sint (positionMultiplier st)" and "0 \<le> sint r"
  shows "(\<exists>u. getDefaultPositionRealUnit st' a = Inr u \<and> sint u \<le> sint r \<and> 0 \<le> sint u \<and> (0 < sint r \<longrightarrow> 0 < sint u) \<and>
      (sint r - sint u - 1) * PRECISE_UNIT < sint (positionMultiplier st)) \<and>
    (\<forall>b. b \<noteq> a \<longrightarrow> getDefaultPositionRealUnit st' b = getDefaultPositionRealUnit st b)"
proof -
  let ?m = "sint (positionMultiplier st)" and ?P = PRECISE_UNIT
  obtain v where st': "st' = set_position a (virtualUnit_update (\<lambda>_. v)) st" and v: "sint v = sint r * ?P div ?m"
    and fit: "in_int256 (sint r * ?P)" and pos: "0 < sint r \<longrightarrow> (\<exists>u. convertVirtualToRealUnit st v = Inr u \<and> u \<noteq> 0)"
    by (rule editDefaultPositionUnit_Inr [OF assms(1)])
  have P: "0 < ?P" by (rule PRECISE_UNIT_pos)
  have vm: "sint v * ?m \<le> sint r * ?P" "sint r * ?P < sint v * ?m + ?m" "0 \<le> sint v"
    using floor_div_bounds [OF assms(2), of "sint r * ?P"] assms(2,3) P v
    by (simp_all add: algebra_simps pos_imp_zdiv_nonneg_iff)
  have nn: "0 \<le> sint v * ?m" using vm(3) assms(2) by simp
  with vm(1) fit have fits: "unit_fits st v" by (auto simp: unit_fits_def in_int256_def)
  define u where "u = real_unit_of st v"
  have u: "sint u = sint v * ?m div ?P" using real_unit_sint [of st v u] fits by (simp add: convert_eq u_def)
  have b: "sint u * ?P \<le> sint v * ?m" "sint v * ?m < sint u * ?P + ?P"
    using floor_div_bounds [OF P, of "sint v * ?m"] unfolding u by (simp_all add: mult.commute)
  have u0: "0 \<le> sint u" using nn P u by (simp add: pos_imp_zdiv_nonneg_iff)
  have "sint u * ?P \<le> sint r * ?P" using b(1) vm(1) by linarith
  then have ur: "sint u \<le> sint r" using P by simp
  have "(sint r - sint u - 1) * ?P < ?m" using b(2) vm(2) by (simp add: algebra_simps)
  moreover have "0 < sint r \<longrightarrow> 0 < sint u" using pos fits u0 by (auto simp: convert_eq u_def order_less_le)
  ultimately have "getDefaultPositionRealUnit st' a = Inr u \<and> sint u \<le> sint r \<and> 0 \<le> sint u \<and> (0 < sint r \<longrightarrow> 0 < sint u) \<and>
      (sint r - sint u - 1) * ?P < ?m"
    using st' fits ur u0 by (simp add: getDefaultPositionRealUnit_def convert_eq unit_fits_def real_unit_of_def u_def)
  moreover have "\<forall>b. b \<noteq> a \<longrightarrow> getDefaultPositionRealUnit st' b = getDefaultPositionRealUnit st b"
    using st' by (simp add: getDefaultPositionRealUnit_def convertVirtualToRealUnit_def)
  ultimately show ?thesis by blast
qed

text \<open>A concrete token with one component and one module.\<close>

definition sample_controller :: controller_state where
  "sample_controller = (new_Controller ''c'' ''o'' ''f'')\<lparr>isInitialized := True, c_modules := [''m'', ''n''],
     isModule := (\<lambda>_. False)(''m'' := True, ''n'' := True)\<rparr>"

definition sample_token :: "erc20 set_token" where
  "sample_token = \<lparr>st_controller = ''c'', st_manager = ''o'', st_locker = ADDRESS_ZERO, st_modules = [''m''],
     moduleStates = (\<lambda>_. NONE)(''m'' := INITIALIZED), isLocked = False, st_components = [''t''],
     componentPositions = (\<lambda>_. no_position)(''t'' := no_position\<lparr>virtualUnit := 2 * 10 ^ 18\<rparr>),
     positionMultiplier = sol_preciseUnit, st_erc20 = new_ERC20\<rparr>"

lemma sample_guards [simp]:
  "privileged sample_controller ''m'' sample_token k = k" "st_manager sample_token = ''o''"
  "st_components sample_token = [''t'']" "positionMultiplier sample_token = sol_preciseUnit" "\<not> isLocked sample_token"
  by (simp_all add: privileged_def st_guards sample_token_def sample_controller_def)

subsection \<open>Properties\<close>

text \<open>
  C24. In every state a SetToken can reach, whatever its modules, its manager and its holders do and however the
  Controller changes meanwhile: no component is listed twice, the array of modules lists without repetition
  exactly the initialised ones, no external position is listed twice, the locker is an initialised module while the
  token is locked and the zero address otherwise, and the position multiplier is positive.
\<close>

theorem set_token_invariant: "set_reachable ops st \<Longrightarrow> set_inv st"
  by (induction rule: set_reachable.induct) (auto intro: new_SetToken_inv set_step_inv)

theorem set_token_invariant_witness:
  "\<exists>st. new_SetToken new_ERC20 [''t''] [5] [''m''] ''c'' ''o'' = Inr st \<and> (\<exists>st'. initializeModule ''m'' st = Inr st' \<and> set_inv st')"
proof -
  obtain st where st: "new_SetToken new_ERC20 [''t''] [5] [''m''] ''c'' ''o'' = Inr st" by (simp add: new_SetToken_def)
  moreover from this obtain st' where st': "initializeModule ''m'' st = Inr st'"
    by (auto simp: new_SetToken_def initializeModule_def)
  moreover have "set_reachable erc20_contract st'"
    by (rule stepped [OF created [OF _ st] step_initializeModule [OF st']]) simp
  then have "set_inv st'" by (rule set_token_invariant)
  ultimately show ?thesis by blast
qed


text \<open>
  C27. The lock excludes the other modules: while a SetToken is locked, an accepted call of anybody but the locker
  leaves components, positions, multiplier, supply, modules, manager and the lock itself as they are; only the manager
  can bring a new module into the pending state.
\<close>

theorem lock_excludes_others:
  assumes "set_step ops sender st st'" and "isLocked st" and "sender \<noteq> st_locker st" and "erc20_token ops"
  shows "st_components st' = st_components st \<and> componentPositions st' = componentPositions st \<and>
    positionMultiplier st' = positionMultiplier st \<and>
    e_totalSupply ops (st_erc20 st') = e_totalSupply ops (st_erc20 st) \<and>
    st_modules st' = st_modules st \<and> st_manager st' = st_manager st \<and> st_locker st' = st_locker st \<and> isLocked st' \<and>
    (\<forall>m. moduleStates st' m = moduleStates st m \<or>
       sender = st_manager st \<and> moduleStates st m = NONE \<and> moduleStates st' m = PENDING)"
  using assms(1)
proof (cases rule: set_step.cases)
  case (step_transfer a q t)
  then show ?thesis using assms(2) erc20_token.transfer_supply [OF assms(4)] by simp
qed (use assms(2,3) in \<open>auto simp: step_simps split: if_splits\<close>)

theorem lock_excludes_others_witness:
  "\<exists>st st'. st_lock sample_controller ''m'' sample_token = Inr st \<and> st_addModule sample_controller ''o'' ''n'' st = Inr st' \<and>
     st_components st' = [''t''] \<and> st_locker st' = ''m''"
proof -
  let ?st = "sample_token\<lparr>st_locker := ''m'', isLocked := True\<rparr>"
  have lock: "st_lock sample_controller ''m'' sample_token = Inr ?st"
    by (simp add: st_lock_def st_guards sample_token_def sample_controller_def)
  obtain st' where add: "st_addModule sample_controller ''o'' ''n'' ?st = Inr st'"
    by (simp add: st_addModule_def st_guards sample_token_def sample_controller_def)
  have "st_components st' = [''t''] \<and> st_locker st' = ''m''"
    using lock_excludes_others [OF step_addModule [OF add] _ _ repository_erc20.erc20_token_axioms] by simp
  with lock add show ?thesis by blast
qed


text \<open>
  \<^verbatim>\<open>getPositions\<close> never runs out of its array, whose length is counted beforehand, and fills it completely: for
  every component, in order, the default position if its unit is positive and then one position per external module,
  with real units. It reverts exactly when some real unit overflows.
\<close>

lemma get_positions_lists_all:
  "getPositions st = (if list_all (positions_fit st) (st_components st)
     then Inr (concat (map (positions_of st) (st_components st))) else Inl ''SafeMath'') \<and>
   getPositionCount st = length (concat (map (positions_of st) (st_components st)))"
  by (simp add: getPositions_eq list_all_iff getPositionCount_def position_count_eq)

text \<open>
  Writing a non-negative real unit and reading it back rounds down: the unit read is at most the unit written, it
  is positive if that was, it is short by at most one more than the multiplier, and no other component changes.
\<close>

lemma edited_unit_rounds_down:
  assumes "editDefaultPositionUnit c sender a r st = Inr st'" and "0 < sint (positionMultiplier st)" and "0 \<le> sint r"
  shows "(\<exists>u. getDefaultPositionRealUnit st' a = Inr u \<and> sint u \<le> sint r \<and> 0 \<le> sint u \<and> (0 < sint r \<longrightarrow> 0 < sint u) \<and>
      (sint r - sint u - 1) * PRECISE_UNIT < sint (positionMultiplier st)) \<and>
    (\<forall>b. b \<noteq> a \<longrightarrow> getDefaultPositionRealUnit st' b = getDefaultPositionRealUnit st b)"
  by (rule editDefaultPositionUnit_read [OF assms])

lemma edited_unit_rounds_down_instance:
  "\<exists>st' u. editDefaultPositionUnit sample_controller ''m'' ''t'' 7 sample_token = Inr st' \<and>
     getDefaultPositionRealUnit st' ''t'' = Inr u \<and> 6 \<le> sint u \<and> sint u \<le> 7"
proof -
  have "sol_conservativePreciseDiv 7 sol_preciseUnit = Some 7" by code_simp
  moreover have "convertVirtualToRealUnit sample_token 7 = Inr 7"
    by (simp add: real_unit PRECISE_UNIT_def in_int256_def)
  ultimately obtain st' where e: "editDefaultPositionUnit sample_controller ''m'' ''t'' 7 sample_token = Inr st'"
    by (simp add: editDefaultPositionUnit_def convertRealToVirtualUnit_def)
  have "0 < sint (positionMultiplier sample_token)" by (simp add: PRECISE_UNIT_def)
  from edited_unit_rounds_down [OF e this] e show ?thesis by (auto simp: PRECISE_UNIT_def)
qed


text \<open>
  C40. A new multiplier wipes out no position: when \<^verbatim>\<open>editPositionMultiplier\<close> is accepted, every default position
  with a positive virtual unit still has a positive real unit and every external position with a virtual unit other
  than zero a real unit of the same sign, as far as those are representable.
\<close>

theorem new_multiplier_keeps_positions:
  assumes "editPositionMultiplier c sender p st = Inr st'" and "a \<in> set (st_components st)"
  shows "0 < sint (positionMultiplier st') \<and>
    (0 < sint (defaultPositionVirtualUnit st a) \<and> unit_fits st' (defaultPositionVirtualUnit st a) \<longrightarrow>
      (\<exists>u. getDefaultPositionRealUnit st' a = Inr u \<and> 0 < sint u)) \<and>
    (\<forall>m \<in> set (getExternalPositionModules st a). let v = externalPositionVirtualUnit st a m in
      v \<noteq> 0 \<and> unit_fits st' v \<longrightarrow> (\<exists>u. getExternalPositionRealUnit st' a m = Inr u \<and> sgn (sint u) = sgn (sint v)))"
proof -
  obtain l where st': "st' = st\<lparr>positionMultiplier := p\<rparr>" and p: "0 < sint p" and l: "0 < uint l" "PRECISE_UNIT \<le> uint l * sint p"
    and d: "\<exists>v. toUint256 (defaultPositionVirtualUnit st a) = Inr v \<and> (0 < v \<longrightarrow> l \<le> v)"
    and x: "\<forall>m \<in> set (getExternalPositionModules st a). \<exists>v. absoluteValue (externalPositionVirtualUnit st a m) = Inr v \<and> (0 < v \<longrightarrow> l \<le> v)"
    using assms by (auto simp: editPositionMultiplier_def privileged_Inr dest!: validateNewMultiplier_Inr)
  have real: "convertVirtualToRealUnit st' v = Inr u \<Longrightarrow> sint u = sint v * sint p div PRECISE_UNIT" for v u
    using real_unit_sint [of st' v u] st' by simp
  have pos: "\<exists>u. convertVirtualToRealUnit st' v = Inr u \<and> 0 < sint u" if "unit_fits st' v" "uint l \<le> sint v" for v
    using that scaled_at_least_unit [OF l(2) that(2) p] real [of v "real_unit_of st' v"] by (simp add: convert_eq)
  have neg: "\<exists>u. convertVirtualToRealUnit st' v = Inr u \<and> sint u < 0" if "unit_fits st' v" "uint l \<le> - sint v" for v
    using that scaled_at_most_minus_unit [OF l(2) that(2) p] real [of v "real_unit_of st' v"] by (simp add: convert_eq)
  have default: "uint l \<le> sint v" if "v = defaultPositionVirtualUnit st a" "0 < sint v" for v
    using d that sint_nonneg_uint [of v] by (auto simp: word_le_def word_less_def)
  have external: "uint l \<le> \<bar>sint v\<bar>"
    if "m \<in> set (getExternalPositionModules st a)" "v = externalPositionVirtualUnit st a m" "v \<noteq> 0" for m v
    using x that by (fastforce simp: word_le_def word_less_def dest: absoluteValue_Inr)
  have sign: "\<exists>u. convertVirtualToRealUnit st' v = Inr u \<and> sgn (sint u) = sgn (sint v)"
    if "unit_fits st' v" "uint l \<le> \<bar>sint v\<bar>" for v
  proof (cases "0 \<le> sint v")
    case True
    with that pos [of v] l(1) show ?thesis by auto
  next
    case False
    with that neg [of v] show ?thesis by auto
  qed
  show ?thesis using p st' default pos external sign
    unfolding getDefaultPositionRealUnit_def getExternalPositionRealUnit_def
    by (simp add: Let_def) (simp add: defaultPositionVirtualUnit_def externalPositionVirtualUnit_def)
qed

theorem new_multiplier_keeps_positions_witness:
  "\<exists>st' u. editPositionMultiplier sample_controller ''m'' (9 * 10 ^ 17) sample_token = Inr st' \<and>
     getDefaultPositionRealUnit st' ''t'' = Inr u \<and> 0 < sint u"
proof -
  have unit: "defaultPositionVirtualUnit sample_token ''t'' = 2 * 10 ^ 18" "getExternalPositionModules sample_token ''t'' = []"
    by (simp_all add: defaultPositionVirtualUnit_def getExternalPositionModules_def sample_token_def no_position_def)
  have "(2 * 10 ^ 18 :: uint256) < - 1" "(0 :: uint256) < 2 * 10 ^ 18" by code_simp+
  then have "getPositionsAbsMinimumVirtualUnit sample_token = Inr (2 * 10 ^ 18)"
    by (simp add: getPositionsAbsMinimumVirtualUnit_def min_component_def smaller_unit_def unit toUint256_def toInt256_def)
  moreover have "sol_conservativePreciseMul (2 * 10 ^ 18) (9 * 10 ^ 17) = Some (18 * 10 ^ 17)"
    by (simp add: conservativePreciseMul_Some PRECISE_UNIT_def in_int256_def)
  ultimately have e: "editPositionMultiplier sample_controller ''m'' (9 * 10 ^ 17) sample_token
      = Inr (sample_token\<lparr>positionMultiplier := 9 * 10 ^ 17\<rparr>)"
    by (simp add: editPositionMultiplier_def validateNewMultiplier_def)
  have "unit_fits (sample_token\<lparr>positionMultiplier := 9 * 10 ^ 17\<rparr>) (2 * 10 ^ 18)" by (simp add: unit_fits_def in_int256_def)
  with new_multiplier_keeps_positions [OF e, of "''t''"] e show ?thesis by (simp add: unit)
qed


end
