(* ===== verification/Issuance_Module.thy ===== *)
theory Issuance_Module
  imports Set_Token Chain_Model
begin

section \<open>Issuing and redeeming SetTokens\<close>

text \<open>
  Models contracts/protocol/modules/v1/BasicIssuanceModule.sol, which the system fixture deploys and
  \<^verbatim>\<open>approveAndIssueSetToken\<close> calls, with the guards of contracts/protocol/lib/ModuleBase.sol and the
  transfers of contracts/lib/ExplicitERC20.sol and contracts/protocol/lib/Invoke.sol. The component tokens are other
  contracts: the record \<open>externals\<close> holds what a call of them does to the state \<open>w\<close> of the world outside.
  The module checks the balances around every transfer, so nothing has to be assumed of a token but that calling
  it leaves the SetToken's balances of other tokens alone. The components are tokens other than the SetToken.
  Calls are atomic: \<^verbatim>\<open>nonReentrant\<close> has no counterpart.
\<close>

subsection \<open>Calls of other contracts\<close>

record 'w externals =
  x_balanceOf :: "'w \<Rightarrow> address \<Rightarrow> address \<Rightarrow> uint256"
  x_safeTransferFrom :: "address \<Rightarrow> address \<Rightarrow> address \<Rightarrow> address \<Rightarrow> uint256 \<Rightarrow> 'w \<Rightarrow> 'w sol"
  x_functionCall :: "address \<Rightarrow> address \<Rightarrow> uint256 \<Rightarrow> bytes \<Rightarrow> 'w \<Rightarrow> (bytes \<times> 'w) sol"
  x_encode :: "string \<Rightarrow> arg list \<Rightarrow> bytes"

text \<open>\<^verbatim>\<open>ExplicitERC20.transferFrom\<close>, called by the module \<open>this\<close>.\<close>

definition explicit_transferFrom :: "'w externals \<Rightarrow> address \<Rightarrow> address \<Rightarrow> address \<Rightarrow> address \<Rightarrow> uint256 \<Rightarrow> 'w \<Rightarrow> 'w sol" where
  "explicit_transferFrom x this token from to quantity w =
     (if 0 < quantity
      then let existingBalance = x_balanceOf x w token to in
        case x_safeTransferFrom x this token from to quantity w of Inl m \<Rightarrow> Inl m
        | Inr w \<Rightarrow> (let newBalance = x_balanceOf x w token to in
          case checked (safe_add existingBalance quantity) of Inl m \<Rightarrow> Inl m
          | Inr expected \<Rightarrow> if newBalance = expected then Inr w else Inl ''Invalid post transfer balance'')
      else Inr w)"

text \<open>The functions of \<^verbatim>\<open>Invoke\<close>: the module \<open>this\<close> makes the SetToken \<open>self\<close> call a token.\<close>

definition invokeApprove :: "'w externals \<Rightarrow> controller_state \<Rightarrow> address \<Rightarrow> address \<Rightarrow> address \<Rightarrow> address \<Rightarrow> uint256
    \<Rightarrow> 'e set_token \<Rightarrow> 'w \<Rightarrow> 'w sol" where
  "invokeApprove x c this self token spender quantity st w = map_sum id snd
     (st_invoke (x_functionCall x self) c this token 0
       (x_encode x ''approve(address,uint256)'' [Addr spender, Num (uint quantity)]) st w)"

definition invokeTransfer :: "'w externals \<Rightarrow> controller_state \<Rightarrow> address \<Rightarrow> address \<Rightarrow> address \<Rightarrow> address \<Rightarrow> uint256
    \<Rightarrow> 'e set_token \<Rightarrow> 'w \<Rightarrow> 'w sol" where
  "invokeTransfer x c this self token to quantity st w =
     (if 0 < quantity
      then map_sum id snd (st_invoke (x_functionCall x self) c this token 0
        (x_encode x ''transfer(address,uint256)'' [Addr to, Num (uint quantity)]) st w)
      else Inr w)"

definition strictInvokeTransfer :: "'w externals \<Rightarrow> controller_state \<Rightarrow> address \<Rightarrow> address \<Rightarrow> address \<Rightarrow> address \<Rightarrow> uint256
    \<Rightarrow> 'e set_token \<Rightarrow> 'w \<Rightarrow> 'w sol" where
  "strictInvokeTransfer x c this self token to quantity st w =
     (if 0 < quantity
      then let existingBalance = x_balanceOf x w token self in
        case invokeTransfer x c this self token to quantity st w of Inl m \<Rightarrow> Inl m
        | Inr w \<Rightarrow> (let newBalance = x_balanceOf x w token self in
          case checked (safe_sub existingBalance quantity) of Inl m \<Rightarrow> Inl m
          | Inr expected \<Rightarrow> if newBalance = expected then Inr w else Inl ''Invalid post transfer balance'')
      else Inr w)"

definition invokeUnwrapWETH :: "'w externals \<Rightarrow> controller_state \<Rightarrow> address \<Rightarrow> address \<Rightarrow> address \<Rightarrow> uint256
    \<Rightarrow> 'e set_token \<Rightarrow> 'w \<Rightarrow> 'w sol" where
  "invokeUnwrapWETH x c this self weth quantity st w = map_sum id snd
     (st_invoke (x_functionCall x self) c this weth 0 (x_encode x ''withdraw(uint256)'' [Num (uint quantity)]) st w)"

definition invokeWrapWETH :: "'w externals \<Rightarrow> controller_state \<Rightarrow> address \<Rightarrow> address \<Rightarrow> address \<Rightarrow> uint256
    \<Rightarrow> 'e set_token \<Rightarrow> 'w \<Rightarrow> 'w sol" where
  "invokeWrapWETH x c this self weth quantity st w = map_sum id snd
     (st_invoke (x_functionCall x self) c this weth quantity (x_encode x ''deposit()'' []) st w)"

subsection \<open>ModuleBase.sol\<close>

definition isSetManager :: "'e set_token \<Rightarrow> address \<Rightarrow> bool" where
  "isSetManager st toCheck \<longleftrightarrow> st_manager st = toCheck"

definition isSetValidAndInitialized :: "controller_state \<Rightarrow> address \<Rightarrow> address \<Rightarrow> 'e set_token \<Rightarrow> bool" where
  "isSetValidAndInitialized c this self st \<longleftrightarrow> isSet c self \<and> isInitializedModule st this"

definition onlySetManager :: "'e set_token \<Rightarrow> address \<Rightarrow> 'a sol \<Rightarrow> 'a sol" where
  "onlySetManager st caller k = (if isSetManager st caller then k else Inl ''Must be the SetToken manager'')"

definition onlyManagerAndValidSet :: "controller_state \<Rightarrow> address \<Rightarrow> address \<Rightarrow> address \<Rightarrow> 'e set_token \<Rightarrow> 'a sol \<Rightarrow> 'a sol" where
  "onlyManagerAndValidSet c this self sender st k =
     (if \<not> isSetManager st sender then Inl ''Must be the SetToken manager''
      else if \<not> isSetValidAndInitialized c this self st then Inl ''Must be a valid and initialized SetToken'' else k)"

definition onlyValidAndInitializedSet :: "controller_state \<Rightarrow> address \<Rightarrow> address \<Rightarrow> 'e set_token \<Rightarrow> 'a sol \<Rightarrow> 'a sol" where
  "onlyValidAndInitializedSet c this self st k =
     (if isSetValidAndInitialized c this self st then k else Inl ''Must be a valid and initialized SetToken'')"

definition onlyValidAndPendingSet :: "controller_state \<Rightarrow> address \<Rightarrow> address \<Rightarrow> 'e set_token \<Rightarrow> 'a sol \<Rightarrow> 'a sol" where
  "onlyValidAndPendingSet c this self st k =
     (if \<not> isSet c self then Inl ''Must be controller-enabled SetToken''
      else if \<not> isPendingModule st this then Inl ''Must be pending initialization'' else k)"

text \<open>The protocol fee of the module; \<^verbatim>\<open>Controller.getModuleFee\<close> reads the fee table.\<close>

definition getModuleFee :: "controller_state \<Rightarrow> address \<Rightarrow> int \<Rightarrow> uint256 \<Rightarrow> uint256 sol" where
  "getModuleFee c this feeIndex quantity = checked (sol_preciseMul quantity (word_of_int (c_fees c this feeIndex)))"

lemmas module_guards = onlySetManager_def onlyManagerAndValidSet_def onlyValidAndInitializedSet_def
  onlyValidAndPendingSet_def isSetValidAndInitialized_def isSetManager_def

subsection \<open>BasicIssuanceModule.sol\<close>

record issuance_module =
  im_address :: address
  managerIssuanceHook :: "address \<Rightarrow> address"

definition new_BasicIssuanceModule :: "address \<Rightarrow> issuance_module" where
  "new_BasicIssuanceModule this = \<lparr>im_address = this, managerIssuanceHook = \<lambda>_. ADDRESS_ZERO\<rparr>"

definition hasExternalPosition :: "'e set_token \<Rightarrow> address \<Rightarrow> bool" where
  "hasExternalPosition st component \<longleftrightarrow> length (getExternalPositionModules st component) > 0"

fun notional_units :: "'e set_token \<Rightarrow> uint256 \<Rightarrow> address list \<Rightarrow> uint256 list sol" where
  "notional_units st quantity [] = Inr []"
| "notional_units st quantity (component # cs) =
     (if hasExternalPosition st component then Inl ''Only default positions are supported''
      else case getDefaultPositionRealUnit st component of Inl m \<Rightarrow> Inl m
      | Inr u \<Rightarrow> (case toUint256 u of Inl m \<Rightarrow> Inl m
        | Inr u \<Rightarrow> (case checked (sol_preciseMulCeil u quantity) of Inl m \<Rightarrow> Inl m
          | Inr q \<Rightarrow> map_sum id (Cons q) (notional_units st quantity cs))))"

definition getRequiredComponentUnitsForIssue :: "controller_state \<Rightarrow> address \<Rightarrow> address \<Rightarrow> uint256 \<Rightarrow> 'e set_token
    \<Rightarrow> (address list \<times> uint256 list) sol" where
  "getRequiredComponentUnitsForIssue c this self quantity st = onlyValidAndInitializedSet c this self st
     (map_sum id (Pair (st_components st)) (notional_units st quantity (st_components st)))"

text \<open>
  A hook of the manager is another contract again; \<open>hook\<close> is what its call does to the SetToken and the world.
\<close>

definition callPreIssueHooks :: "(address \<Rightarrow> address \<Rightarrow> uint256 \<Rightarrow> address \<Rightarrow> address \<Rightarrow> 's \<Rightarrow> 's sol) \<Rightarrow> issuance_module
    \<Rightarrow> address \<Rightarrow> uint256 \<Rightarrow> address \<Rightarrow> address \<Rightarrow> 's \<Rightarrow> 's sol" where
  "callPreIssueHooks hook im self quantity caller to s =
     (let preIssueHook = managerIssuanceHook im self in
      if preIssueHook \<noteq> ADDRESS_ZERO then hook preIssueHook self quantity caller to s else Inr s)"

definition issue :: "'e erc20_ops \<Rightarrow> 'w externals \<Rightarrow>
    (address \<Rightarrow> address \<Rightarrow> uint256 \<Rightarrow> address \<Rightarrow> address \<Rightarrow> 'e set_token \<times> 'w \<Rightarrow> ('e set_token \<times> 'w) sol) \<Rightarrow> controller_state
    \<Rightarrow> issuance_module \<Rightarrow> address \<Rightarrow> address \<Rightarrow> uint256 \<Rightarrow> address \<Rightarrow> 'e set_token \<times> 'w \<Rightarrow> ('e set_token \<times> 'w) sol" where
  "issue ops x hook c im self sender quantity to s =
     onlyValidAndInitializedSet c (im_address im) self (fst s)
     (if \<not> 0 < quantity then Inl ''Issue quantity must be > 0''
      else case callPreIssueHooks hook im self quantity sender to s of Inl m \<Rightarrow> Inl m
      | Inr (st, w) \<Rightarrow> (case getRequiredComponentUnitsForIssue c (im_address im) self quantity st of Inl m \<Rightarrow> Inl m
        | Inr (components, componentQuantities) \<Rightarrow>
          (case each_sol (\<lambda>(t, q). explicit_transferFrom x (im_address im) t sender self q)
              (zip components componentQuantities) w of Inl m \<Rightarrow> Inl m
           | Inr w \<Rightarrow> (case st_mint ops c (im_address im) to quantity st of Inl m \<Rightarrow> Inl m
             | Inr st \<Rightarrow> Inr (st, w)))))"

definition redeem_component :: "'w externals \<Rightarrow> controller_state \<Rightarrow> address \<Rightarrow> address \<Rightarrow> uint256 \<Rightarrow> address
    \<Rightarrow> 'e set_token \<Rightarrow> address \<Rightarrow> 'w \<Rightarrow> 'w sol" where
  "redeem_component x c this self quantity to st component w =
     (if hasExternalPosition st component then Inl ''Only default positions are supported''
      else case getDefaultPositionRealUnit st component of Inl m \<Rightarrow> Inl m
      | Inr u \<Rightarrow> (case toUint256 u of Inl m \<Rightarrow> Inl m
        | Inr u \<Rightarrow> (case checked (sol_preciseMul quantity u) of Inl m \<Rightarrow> Inl m
          | Inr componentQuantity \<Rightarrow> strictInvokeTransfer x c this self component to componentQuantity st w)))"

definition redeem :: "'e erc20_ops \<Rightarrow> 'w externals \<Rightarrow> controller_state \<Rightarrow> issuance_module \<Rightarrow> address \<Rightarrow> address
    \<Rightarrow> uint256 \<Rightarrow> address \<Rightarrow> 'e set_token \<times> 'w \<Rightarrow> ('e set_token \<times> 'w) sol" where
  "redeem ops x c im self sender quantity to = (\<lambda>(st, w). onlyValidAndInitializedSet c (im_address im) self st
     (if \<not> 0 < quantity then Inl ''Redeem quantity must be > 0''
      else case st_burn ops c (im_address im) sender quantity st of Inl m \<Rightarrow> Inl m
      | Inr st \<Rightarrow> map_sum id (Pair st)
          (each_sol (redeem_component x c (im_address im) self quantity to st) (st_components st) w)))"

definition im_initialize :: "controller_state \<Rightarrow> address \<Rightarrow> address \<Rightarrow> address \<Rightarrow> issuance_module \<times> 'e set_token
    \<Rightarrow> (issuance_module \<times> 'e set_token) sol" where
  "im_initialize c self sender preIssueHook = (\<lambda>(im, st). onlySetManager st sender
     (onlyValidAndPendingSet c (im_address im) self st
       (case initializeModule (im_address im) st of Inl m \<Rightarrow> Inl m
        | Inr st \<Rightarrow> Inr (im\<lparr>managerIssuanceHook := (managerIssuanceHook im)(self := preIssueHook)\<rparr>, st))))"

definition im_removeModule :: "unit sol" where
  "im_removeModule = Inl ''The BasicIssuanceModule module cannot be removed''"

subsection \<open>Transfers\<close>

text \<open>What is assumed of the tokens: a call of one token leaves the SetToken's balances of the others alone.\<close>

definition tokens_isolated :: "'w externals \<Rightarrow> address \<Rightarrow> bool" where
  "tokens_isolated x self \<longleftrightarrow>
     (\<forall>this t from q w w'. x_safeTransferFrom x this t from self q w = Inr w' \<longrightarrow>
        (\<forall>t'. t' \<noteq> t \<longrightarrow> x_balanceOf x w' t' self = x_balanceOf x w t' self)) \<and>
     (\<forall>t v m args w r w'. m \<in> {''transfer(address,uint256)'', ''approve(address,uint256)''} \<longrightarrow>
        x_functionCall x self t v (x_encode x m args) w = Inr (r, w') \<longrightarrow>
        (\<forall>t'. t' \<noteq> t \<longrightarrow> x_balanceOf x w' t' self = x_balanceOf x w t' self))"

lemma explicit_transferFrom_balance:
  assumes "explicit_transferFrom x this t from self q w = Inr w'" "tokens_isolated x self"
  shows "uint (x_balanceOf x w' t' self) = uint (x_balanceOf x w t' self) + (if t' = t then uint q else 0)"
proof (cases "0 < q")
  case True
  with assms(1) obtain b where b: "x_safeTransferFrom x this t from self q w = Inr w'"
    "safe_add (x_balanceOf x w t self) q = Some b" "x_balanceOf x w' t self = b"
    by (auto simp: explicit_transferFrom_def Let_def split: sum.splits if_splits)
  then show ?thesis using assms(2) safe_add_Some [OF b(2)] by (auto simp: tokens_isolated_def)
next
  case False
  then have "q = 0" by (simp add: word_neq_0_conv [symmetric])
  then show ?thesis using assms(1) by (simp add: explicit_transferFrom_def)
qed

lemma strictInvokeTransfer_balance:
  assumes "strictInvokeTransfer x c this self t to q st w = Inr w'" "tokens_isolated x self"
  shows "uint (x_balanceOf x w' t' self) = uint (x_balanceOf x w t' self) - (if t' = t then uint q else 0)"
proof (cases "0 < q")
  case True
  with assms(1) obtain b args r where b: "x_functionCall x self t 0 (x_encode x ''transfer(address,uint256)'' args) w = Inr (r, w')"
    "safe_sub (x_balanceOf x w t self) q = Some b" "x_balanceOf x w' t self = b"
    by (auto simp: strictInvokeTransfer_def invokeTransfer_def st_invoke_def privileged_Inr Let_def map_sum_def split: sum.splits if_splits)
  have "t' \<noteq> t \<Longrightarrow> x_balanceOf x w' t' self = x_balanceOf x w t' self"
    using assms(2) b(1) unfolding tokens_isolated_def by blast
  then show ?thesis using b(3) safe_sub_Some [OF b(2)] by simp
next
  case False
  then have "q = 0" by (simp add: word_neq_0_conv [symmetric])
  then show ?thesis using assms(1) by (simp add: strictInvokeTransfer_def)
qed

text \<open>A loop that moves one token per element, each token once.\<close>

lemma each_sol_balances:
  fixes B :: "'w \<Rightarrow> 'k \<Rightarrow> int"
  assumes "each_sol f xs w = Inr w'" "distinct (map key xs)"
    and "\<And>x w w' t. x \<in> set xs \<Longrightarrow> f x w = Inr w' \<Longrightarrow> B w' t = B w t + (if t = key x then d x else 0)"
  shows "(\<forall>x \<in> set xs. B w' (key x) = B w (key x) + d x) \<and> (\<forall>t. t \<notin> key ` set xs \<longrightarrow> B w' t = B w t)"
  using assms
proof (induction xs arbitrary: w)
  case (Cons y ys)
  from Cons.prems(1) obtain w1 where w1: "f y w = Inr w1" "each_sol f ys w1 = Inr w'" by (auto split: sum.splits)
  have one: "B w1 t = B w t + (if t = key y then d y else 0)" for t using Cons.prems(3) [OF _ w1(1)] by simp
  have "(\<forall>x \<in> set ys. B w' (key x) = B w1 (key x) + d x) \<and> (\<forall>t. t \<notin> key ` set ys \<longrightarrow> B w' t = B w1 t)"
    using Cons.IH [OF w1(2)] Cons.prems(2,3) by simp
  moreover have "\<forall>x \<in> set ys. key x \<noteq> key y" "key y \<notin> key ` set ys" using Cons.prems(2) by (auto simp: image_iff)
  ultimately show ?case using one by auto
qed simp

lemma notional_units_Inr:
  "notional_units st quantity cs = Inr qs \<Longrightarrow> length qs = length cs \<and>
     (\<forall>(t, q) \<in> set (zip cs qs). \<not> hasExternalPosition st t \<and> (\<exists>u. getDefaultPositionRealUnit st t = Inr u \<and> 0 \<le> sint u \<and>
        sol_preciseMulCeil u quantity = Some q))"
proof (induction cs arbitrary: qs)
  case (Cons c cs)
  then obtain u q rest where "\<not> hasExternalPosition st c" "getDefaultPositionRealUnit st c = Inr u" "0 \<le> sint u"
    "sol_preciseMulCeil u quantity = Some q" "notional_units st quantity cs = Inr rest" "qs = q # rest"
    by (auto split: sum.splits if_splits simp: map_sum_def)
  with Cons.IH [of rest] show ?case by simp
qed simp

subsection \<open>Collateral\<close>

text \<open>
  The SetToken holds, of every component, at least the real unit times the supply: exactly, or up to an amount \<open>D\<close>, in
  fractions of a token that count eighteen decimals more.
\<close>

definition covered :: "int \<Rightarrow> 'e erc20_ops \<Rightarrow> 'w externals \<Rightarrow> address \<Rightarrow> 'e set_token \<times> 'w \<Rightarrow> bool" where
  "covered D ops x self = (\<lambda>(st, w). 0 \<le> D \<and> (\<forall>t \<in> set (st_components st). \<forall>u. getDefaultPositionRealUnit st t = Inr u \<longrightarrow>
     uint (e_totalSupply ops (st_erc20 st)) * sint u \<le> uint (x_balanceOf x w t self) * PRECISE_UNIT + D))"

abbreviation collateralised :: "'e erc20_ops \<Rightarrow> 'w externals \<Rightarrow> address \<Rightarrow> 'e set_token \<times> 'w \<Rightarrow> bool" where
  "collateralised \<equiv> covered 0"

lemma real_unit_erc20 [simp]:
  "getDefaultPositionRealUnit (st\<lparr>st_erc20 := t\<rparr>) a = getDefaultPositionRealUnit st a"
  "hasExternalPosition (st\<lparr>st_erc20 := t\<rparr>) a = hasExternalPosition st a"
  "getExternalPositionModules (st\<lparr>st_erc20 := t\<rparr>) a = getExternalPositionModules st a"
  by (simp_all add: getDefaultPositionRealUnit_def convertVirtualToRealUnit_def defaultPositionVirtualUnit_def
      hasExternalPosition_def getExternalPositionModules_def)

lemma preciseMulCeil_bound:
  assumes "sol_preciseMulCeil a b = Some q"
  shows "uint a * uint b \<le> uint q * PRECISE_UNIT"
proof -
  have "uint q = preciseMulCeil (uint a) (uint b)" using assms sol_preciseMulCeil_uint [of a b] by (auto split: if_splits)
  then show ?thesis using mul_up.upper [of "(uint a, uint b)"] by (simp add: mult.commute)
qed

lemma preciseMul_bound:
  assumes "sol_preciseMul a b = Some q"
  shows "uint q * PRECISE_UNIT \<le> uint a * uint b"
proof -
  have "uint q = uint a * uint b div PRECISE_UNIT"
    using assms sol_preciseMul_uint [of a b] by (auto simp: preciseMul_def split: if_splits)
  then show ?thesis using floor_div_bounds(1) [of PRECISE_UNIT "uint a * uint b"] by (simp add: mult.commute)
qed

lemma issue_parts:
  assumes "issue ops x hook c im self sender quantity to s = Inr (st', w')"
  obtains st w qs t where "callPreIssueHooks hook im self quantity sender to s = Inr (st, w)"
    "notional_units st quantity (st_components st) = Inr qs"
    "each_sol (\<lambda>(t, q). explicit_transferFrom x (im_address im) t sender self q) (zip (st_components st) qs) w = Inr w'"
    "e_mint ops to quantity (st_erc20 st) = Inr t" "st' = st\<lparr>st_erc20 := t\<rparr>" "0 < quantity"
  using assms by (auto simp: issue_def module_guards getRequiredComponentUnitsForIssue_def st_mint_def privileged_Inr map_sum_def
      split: sum.splits if_splits prod.splits)

lemma issue_keeps_collateral:
  assumes "issue ops x hook c im self sender quantity to s = Inr (st', w')"
    and hook: "callPreIssueHooks hook im self quantity sender to s = Inr s1" "covered D ops x self s1" "set_inv (fst s1)"
    and "tokens_isolated x self" "erc20_token ops"
  shows "covered D ops x self (st', w')"
proof -
  obtain st w qs t where p: "s1 = (st, w)" "notional_units st quantity (st_components st) = Inr qs"
    "each_sol (\<lambda>(t, q). explicit_transferFrom x (im_address im) t sender self q) (zip (st_components st) qs) w = Inr w'"
    "e_mint ops to quantity (st_erc20 st) = Inr t" "st' = st\<lparr>st_erc20 := t\<rparr>"
    using issue_parts [OF assms(1)] hook(1) by (metis sum.inject(2))
  note n = notional_units_Inr [OF p(2)]
  have "distinct (map fst (zip (st_components st) qs))" using hook(3) n p(1) by (simp add: set_inv_def)
  from each_sol_balances [OF p(3) this, of "\<lambda>w t. uint (x_balanceOf x w t self)" "\<lambda>(t, q). uint q"]
  have bal: "\<forall>(t, q) \<in> set (zip (st_components st) qs). uint (x_balanceOf x w' t self) = uint (x_balanceOf x w t self) + uint q"
    using explicit_transferFrom_balance [OF _ assms(5)] by fastforce
  have sup: "uint (e_totalSupply ops t) = uint (e_totalSupply ops (st_erc20 st)) + uint quantity"
    by (rule erc20_token.mint_supply [OF assms(6) p(4)])
  have D: "0 \<le> D" using hook(2) p(1) by (simp add: covered_def)
  show ?thesis unfolding covered_def p(5)
  proof (clarsimp simp: D)
    fix a u assume a: "a \<in> set (st_components st)" and u: "getDefaultPositionRealUnit st a = Inr u"
    obtain q where q: "(a, q) \<in> set (zip (st_components st) qs)" using a n by (metis in_set_impl_in_set_zip1)
    then have "0 \<le> sint u" and ceil: "uint u * uint quantity \<le> uint q * PRECISE_UNIT"
      using n u preciseMulCeil_bound by fastforce+
    then have "sint u = uint u" by (simp add: sint_nonneg_uint)
    moreover have "uint (e_totalSupply ops (st_erc20 st)) * sint u \<le> uint (x_balanceOf x w a self) * PRECISE_UNIT + D"
      using hook(2) a u p(1) by (simp add: covered_def)
    ultimately show "uint (e_totalSupply ops t) * sint u \<le> uint (x_balanceOf x w' a self) * PRECISE_UNIT + D"
      using ceil sup bal q by (auto simp: algebra_simps)
  qed
qed

lemma redeem_component_Inr:
  assumes "redeem_component x c this self quantity to st a w = Inr w'"
  obtains u q where "\<not> hasExternalPosition st a" "getDefaultPositionRealUnit st a = Inr u" "0 \<le> sint u"
    "sol_preciseMul quantity u = Some q" "strictInvokeTransfer x c this self a to q st w = Inr w'"
  using assms by (auto simp: redeem_component_def split: sum.splits if_splits)

lemma redeem_parts:
  assumes "redeem ops x c im self sender quantity to (st, w) = Inr (st', w')"
  obtains t where "e_burn ops sender quantity (st_erc20 st) = Inr t" "st' = st\<lparr>st_erc20 := t\<rparr>" "0 < quantity"
    "each_sol (redeem_component x c (im_address im) self quantity to st') (st_components st) w = Inr w'"
  using assms by (auto simp: redeem_def module_guards st_burn_def privileged_Inr map_sum_def split: sum.splits if_splits)

text \<open>What a component pays out, as a number.\<close>

definition payout :: "'e set_token \<Rightarrow> uint256 \<Rightarrow> address \<Rightarrow> int" where
  "payout st quantity a = (case getDefaultPositionRealUnit st a of Inl _ \<Rightarrow> 0
     | Inr u \<Rightarrow> (case sol_preciseMul quantity u of None \<Rightarrow> 0 | Some q \<Rightarrow> uint q))"

lemma redeem_component_balance:
  assumes "redeem_component x c this self quantity to st a w = Inr w'" "tokens_isolated x self"
  shows "uint (x_balanceOf x w' b self) = uint (x_balanceOf x w b self) + (if b = a then - payout st quantity a else 0)"
proof -
  from assms(1) obtain u q where q: "getDefaultPositionRealUnit st a = Inr u" "sol_preciseMul quantity u = Some q"
    "strictInvokeTransfer x c this self a to q st w = Inr w'" by (rule redeem_component_Inr)
  then show ?thesis using strictInvokeTransfer_balance [OF q(3) assms(2), of b] by (simp add: payout_def)
qed

lemma redeem_balances:
  assumes "each_sol (redeem_component x c this self quantity to st) cs w = Inr w'" "distinct cs" "tokens_isolated x self"
  shows "\<forall>a \<in> set cs. uint (x_balanceOf x w' a self) = uint (x_balanceOf x w a self) - payout st quantity a"
proof -
  have "(\<forall>a \<in> set cs. uint (x_balanceOf x w' (id a) self) = uint (x_balanceOf x w (id a) self) + - payout st quantity a) \<and>
      (\<forall>t. t \<notin> id ` set cs \<longrightarrow> uint (x_balanceOf x w' t self) = uint (x_balanceOf x w t self))"
    by (rule each_sol_balances [OF assms(1)]) (simp_all add: assms(2) redeem_component_balance [OF _ assms(3)])
  then show ?thesis by simp
qed

lemma redeem_keeps_collateral:
  assumes "redeem ops x c im self sender quantity to (st, w) = Inr (st', w')"
    and "covered D ops x self (st, w)" "set_inv st" "tokens_isolated x self" "erc20_token ops"
  shows "covered D ops x self (st', w')"
proof -
  obtain t where p: "e_burn ops sender quantity (st_erc20 st) = Inr t" "st' = st\<lparr>st_erc20 := t\<rparr>"
    "each_sol (redeem_component x c (im_address im) self quantity to st') (st_components st) w = Inr w'"
    by (rule redeem_parts [OF assms(1)])
  have "distinct (st_components st)" using assms(3) by (simp add: set_inv_def)
  then have bal: "\<forall>a \<in> set (st_components st). uint (x_balanceOf x w' a self) = uint (x_balanceOf x w a self) - payout st' quantity a"
    by (rule redeem_balances [OF p(3) _ assms(4)])
  have sup: "uint (e_totalSupply ops t) = uint (e_totalSupply ops (st_erc20 st)) - uint quantity"
    by (rule erc20_token.burn_supply [OF assms(5) p(1)])
  have le: "uint quantity \<le> uint (e_totalSupply ops (st_erc20 st))"
    using erc20_token.burn_bounded [OF assms(5) p(1)] by simp
  have D: "0 \<le> D" using assms(2) by (simp add: covered_def)
  show ?thesis unfolding covered_def
  proof (clarsimp simp: p(2) D)
    fix a u assume a: "a \<in> set (st_components st)" and u: "getDefaultPositionRealUnit st a = Inr u"
    have pay: "payout st' quantity a * PRECISE_UNIT \<le> uint quantity * sint u" if "0 \<le> sint u"
      using u that preciseMul_bound [of quantity u] by (simp add: payout_def p(2) sint_nonneg_uint split: option.split)
    show "uint (e_totalSupply ops t) * sint u \<le> uint (x_balanceOf x w' a self) * PRECISE_UNIT + D"
    proof (cases "0 \<le> sint u")
      case True
      have "uint (e_totalSupply ops (st_erc20 st)) * sint u \<le> uint (x_balanceOf x w a self) * PRECISE_UNIT + D"
        using assms(2) a u by (simp add: covered_def)
      moreover have "uint (x_balanceOf x w' a self) = uint (x_balanceOf x w a self) - payout st' quantity a" using bal a by simp
      ultimately show ?thesis using pay [OF True] unfolding sup by (simp only: left_diff_distrib)
    next
      case False
      have "uint (e_totalSupply ops t) * sint u \<le> 0" using False by (simp add: mult_nonneg_nonpos)
      also have "0 \<le> uint (x_balanceOf x w' a self) * PRECISE_UNIT + D" using D by simp
      finally show ?thesis .
    qed
  qed
qed

subsection \<open>Redeeming is always possible\<close>

text \<open>A component token that transfers what the SetToken owns.\<close>

definition pays_out :: "'w externals \<Rightarrow> address \<Rightarrow> address \<Rightarrow> address \<Rightarrow> bool" where
  "pays_out x self to t \<longleftrightarrow> (\<forall>w q. q \<le> x_balanceOf x w t self \<longrightarrow>
     (\<exists>r w'. x_functionCall x self t 0 (x_encode x ''transfer(address,uint256)'' [Addr to, Num (uint q)]) w = Inr (r, w') \<and>
        x_balanceOf x w' t self = x_balanceOf x w t self - q))"

text \<open>The module may act on the SetToken and every component is a plain default position of a representable size.\<close>

definition redeemable :: "controller_state \<Rightarrow> address \<Rightarrow> address \<Rightarrow> uint256 \<Rightarrow> 'e set_token \<Rightarrow> bool" where
  "redeemable c this self quantity st \<longleftrightarrow> isSet c self \<and> isModule c this \<and> moduleStates st this = INITIALIZED \<and>
     (isLocked st \<longrightarrow> st_locker st = this) \<and> 0 < quantity \<and>
     (\<forall>a \<in> set (st_components st). \<not> hasExternalPosition st a \<and>
       (\<exists>u. getDefaultPositionRealUnit st a = Inr u \<and> 0 \<le> sint u \<and> uint quantity * uint u < 2 ^ 256))"

lemma strictInvokeTransfer_succeeds:
  assumes "pays_out x self to t" "q \<le> x_balanceOf x w t self" "redeemable c this self k st"
  shows "\<exists>w'. strictInvokeTransfer x c this self t to q st w = Inr w'"
proof (cases "0 < q")
  case True
  from assms(1,2) obtain r w' where r: "x_functionCall x self t 0 (x_encode x ''transfer(address,uint256)'' [Addr to, Num (uint q)]) w = Inr (r, w')"
    "x_balanceOf x w' t self = x_balanceOf x w t self - q" unfolding pays_out_def by blast
  have "safe_sub (x_balanceOf x w t self) q = Some (x_balanceOf x w t self - q)"
    using assms(2) by (simp add: safe_sub_def word_le_def)
  with r True assms(3) show ?thesis
    by (simp add: strictInvokeTransfer_def invokeTransfer_def st_invoke_def privileged_def st_guards redeemable_def)
qed (simp add: strictInvokeTransfer_def)

lemma redeem_components_succeed:
  assumes "redeemable c this self k st" "\<forall>a \<in> set cs. pays_out x self to a" "tokens_isolated x self"
    and "distinct cs" "set cs \<subseteq> set (st_components st)" "\<forall>a \<in> set cs. payout st k a \<le> uint (x_balanceOf x w a self)"
  shows "\<exists>w'. each_sol (redeem_component x c this self k to st) cs w = Inr w'"
  using assms(2,4-6)
proof (induction cs arbitrary: w)
  case (Cons a cs)
  obtain u where u: "\<not> hasExternalPosition st a" "getDefaultPositionRealUnit st a = Inr u" "0 \<le> sint u" "uint k * uint u < 2 ^ 256"
    using assms(1) Cons.prems(3) by (auto simp: redeemable_def)
  obtain q where q: "sol_preciseMul k u = Some q" using u(4) sol_preciseMul_uint [of k u] by (cases "sol_preciseMul k u") auto
  then have "q \<le> x_balanceOf x w a self" using Cons.prems(4) u(2) by (simp add: payout_def word_le_def)
  with Cons.prems(1) obtain w1 where "strictInvokeTransfer x c this self a to q st w = Inr w1"
    using strictInvokeTransfer_succeeds [OF _ _ assms(1)] by (metis list.set_intros(1))
  then have w1: "redeem_component x c this self k to st a w = Inr w1" using u q by (simp add: redeem_component_def toUint256_def)
  have "\<forall>b \<in> set cs. payout st k b \<le> uint (x_balanceOf x w1 b self)"
    using Cons.prems(2,4) redeem_component_balance [OF w1 assms(3)] by auto
  then show ?case using Cons.IH [of w1] Cons.prems(1-3) w1 by simp
qed simp

lemma payout_covered:
  assumes "collateralised ops x self (st, w)" "a \<in> set (st_components st)" "uint k \<le> uint (e_totalSupply ops (st_erc20 st))"
    and "getDefaultPositionRealUnit st a = Inr u" "0 \<le> sint u"
  shows "payout st k a \<le> uint (x_balanceOf x w a self)"
proof -
  have "payout st k a * PRECISE_UNIT \<le> uint k * sint u"
    using assms(4,5) preciseMul_bound [of k u] by (simp add: payout_def sint_nonneg_uint split: option.split)
  also have "\<dots> \<le> uint (e_totalSupply ops (st_erc20 st)) * sint u" using assms(3,5) by (rule mult_right_mono)
  also have "\<dots> \<le> uint (x_balanceOf x w a self) * PRECISE_UNIT" using assms(1,2,4) by (simp add: covered_def)
  finally show ?thesis by simp
qed

subsection \<open>Sequences of calls\<close>

datatype issuance_call = Issue address uint256 address | Redeem address uint256 address

definition exec_issuance :: "'e erc20_ops \<Rightarrow> 'w externals \<Rightarrow>
    (address \<Rightarrow> address \<Rightarrow> uint256 \<Rightarrow> address \<Rightarrow> address \<Rightarrow> 'e set_token \<times> 'w \<Rightarrow> ('e set_token \<times> 'w) sol) \<Rightarrow> issuance_module
    \<Rightarrow> address \<Rightarrow> controller_state \<times> issuance_call \<Rightarrow> 'e set_token \<times> 'w \<Rightarrow> ('e set_token \<times> 'w) sol" where
  "exec_issuance ops x hook im self = (\<lambda>(c, ic). case ic of
     Issue sender q to \<Rightarrow> issue ops x hook c im self sender q to
   | Redeem sender q to \<Rightarrow> redeem ops x c im self sender q to)"

text \<open>What is assumed of a manager's hook: it keeps the SetToken consistent and as well covered as before.\<close>

definition hook_safe :: "'e erc20_ops \<Rightarrow> 'w externals \<Rightarrow>
    (address \<Rightarrow> address \<Rightarrow> uint256 \<Rightarrow> address \<Rightarrow> address \<Rightarrow> 'e set_token \<times> 'w \<Rightarrow> ('e set_token \<times> 'w) sol) \<Rightarrow> address \<Rightarrow> bool" where
  "hook_safe ops x hook self \<longleftrightarrow> (\<forall>h q caller to s s'. hook h self q caller to s = Inr s' \<longrightarrow>
     (\<forall>D. covered D ops x self s \<and> set_inv (fst s) \<longrightarrow> covered D ops x self s' \<and> set_inv (fst s')))"

lemma set_inv_erc20 [simp]: "set_inv (st\<lparr>st_erc20 := t\<rparr>) = set_inv st"
  by (simp add: set_inv_def)

lemma exec_issuance_keeps:
  assumes "exec_issuance ops x hook im self cic s = Inr s'" "covered D ops x self s \<and> set_inv (fst s)"
    and "tokens_isolated x self" "erc20_token ops" "hook_safe ops x hook self"
  shows "covered D ops x self s' \<and> set_inv (fst s')"
proof -
  obtain c cl where cic: "cic = (c, cl)" by (cases cic)
  obtain st w st' w' where s: "s = (st, w)" "s' = (st', w')" by (cases s; cases s')
  show ?thesis
  proof (cases cl)
    case (Issue sender q to)
    then have i: "issue ops x hook c im self sender q to s = Inr (st', w')" using assms(1) by (simp add: exec_issuance_def cic s)
    obtain s1 w1 t where h: "callPreIssueHooks hook im self q sender to s = Inr (s1, w1)" "st' = s1\<lparr>st_erc20 := t\<rparr>"
      by (rule issue_parts [OF i])
    have "covered D ops x self (s1, w1) \<and> set_inv (fst (s1, w1))"
    proof (cases "managerIssuanceHook im self = ADDRESS_ZERO")
      case False
      then have "hook (managerIssuanceHook im self) self q sender to s = Inr (s1, w1)"
        using h(1) by (simp add: callPreIssueHooks_def)
      then show ?thesis using assms(2,5) unfolding hook_safe_def by blast
    qed (use h(1) assms(2) in \<open>simp add: callPreIssueHooks_def\<close>)
    with issue_keeps_collateral [OF i h(1) _ _ assms(3,4)] h(2) show ?thesis by (simp add: s)
  next
    case (Redeem sender q to)
    then have r: "redeem ops x c im self sender q to (st, w) = Inr (st', w')" using assms(1) by (simp add: exec_issuance_def cic s)
    obtain t where "st' = st\<lparr>st_erc20 := t\<rparr>" by (rule redeem_parts [OF r])
    with redeem_keeps_collateral [OF r] assms(2-4) show ?thesis by (simp add: s)
  qed
qed

text \<open>Tokens that keep a balance per account and move it as asked, and an encoding they understand.\<close>

definition sample_move :: "address \<Rightarrow> address \<Rightarrow> address \<Rightarrow> uint256 \<Rightarrow> (address \<Rightarrow> address \<Rightarrow> uint256) \<Rightarrow> (address \<Rightarrow> address \<Rightarrow> uint256) sol" where
  "sample_move t from to q w = (if q \<le> w t from
     then Inr (w(t := (let b = (w t)(from := w t from - q) in b(to := b to + q)))) else Inl ''balance'')"

definition sample_externals :: "(address \<Rightarrow> address \<Rightarrow> uint256) externals" where
  "sample_externals = \<lparr>x_balanceOf = \<lambda>w t a. w t a, x_safeTransferFrom = \<lambda>this t from to q w. sample_move t from to q w,
     x_functionCall = \<lambda>self t v d w. map_sum id (Pair [])
       (sample_move t self (tl (dropWhile (\<lambda>c. c = CHR ''1'') d)) (of_nat (length (takeWhile (\<lambda>c. c = CHR ''1'') d))) w),
     x_encode = \<lambda>m args. case args of [Addr a, Num q] \<Rightarrow> replicate (nat q) (CHR ''1'') @ CHR '':'' # a | _ \<Rightarrow> []\<rparr>"

lemma sample_isolated: "tokens_isolated sample_externals self"
  by (auto simp: tokens_isolated_def sample_externals_def sample_move_def split: if_splits)

lemma sample_pays_out: "to \<noteq> self \<Longrightarrow> pays_out sample_externals self to t"
  by (simp add: pays_out_def sample_externals_def sample_move_def Let_def takeWhile_append dropWhile_append)

subsection \<open>Properties\<close>

text \<open>
  Issuance and redemption never leave a SetToken undercollateralised: after any sequence of accepted \<^verbatim>\<open>issue\<close> and
  \<^verbatim>\<open>redeem\<close> calls, by anybody, with any quantities and whatever the Controller's state at each of them, the SetToken
  still holds of every component at least its real unit times the supply, and its own invariant holds. Nothing is
  assumed of the tokens but that a call of one leaves the SetToken's balances of the others alone, and of a
  pre-issue hook that it does no harm itself.
\<close>

lemma issuance_keeps_sets_collateralised:
  assumes "each_sol (exec_issuance ops x hook im self) calls s = Inr s'"
    and "collateralised ops x self s" and "set_inv (fst s)"
    and "tokens_isolated x self" and "erc20_token ops" and "hook_safe ops x hook self"
  shows "collateralised ops x self s' \<and> set_inv (fst s')"
  using each_sol_invariant [OF assms(1), of "\<lambda>s. collateralised ops x self s \<and> set_inv (fst s)"] assms(2,3)
    exec_issuance_keeps [OF _ _ assms(4-6)] by blast

lemma issuance_keeps_sets_collateralised_instance:
  "\<exists>st w. each_sol (exec_issuance erc20_contract sample_externals (\<lambda>_ _ _ _ _ _. Inl []) (new_BasicIssuanceModule ''m'') ''set'')
      [(sample_controller\<lparr>isSet := \<lambda>_. True\<rparr>, Issue ''u'' 3 ''u''), (sample_controller\<lparr>isSet := \<lambda>_. True\<rparr>, Redeem ''u'' 1 ''v'')]
      (sample_token, (\<lambda>_ _. 0)(''t'' := (\<lambda>_. 0)(''u'' := 100))) = Inr (st, w) \<and>
    collateralised erc20_contract sample_externals ''set'' (st, w) \<and> totalSupply (st_erc20 st) = 2 \<and> w ''t'' ''v'' = 2"
proof -
  let ?s = "(sample_token, (\<lambda>_ _. 0)(''t'' := (\<lambda>_. 0)(''u'' := 100 :: uint256)))"
  let ?run = "each_sol (exec_issuance erc20_contract sample_externals (\<lambda>_ _ _ _ _ _. Inl []) (new_BasicIssuanceModule ''m'') ''set'')
      [(sample_controller\<lparr>isSet := \<lambda>_. True\<rparr>, Issue ''u'' 3 ''u''), (sample_controller\<lparr>isSet := \<lambda>_. True\<rparr>, Redeem ''u'' 1 ''v'')] ?s"
  have "map_sum id (\<lambda>(st, w). (totalSupply (st_erc20 st), w ''t'' ''v'')) ?run = Inr (2, 2)" by code_simp
  then obtain st w where r: "?run = Inr (st, w)" "totalSupply (st_erc20 st) = 2" "w ''t'' ''v'' = 2"
    by (cases ?run) auto
  have "set_inv sample_token" "collateralised erc20_contract sample_externals ''set'' ?s"
    by (auto simp: set_inv_def sample_token_def no_position_def PRECISE_UNIT_def covered_def new_ERC20_def)
  with issuance_keeps_sets_collateralised [OF r(1)] have "collateralised erc20_contract sample_externals ''set'' (st, w)"
    by (simp add: sample_isolated repository_erc20.erc20_token_axioms hook_safe_def)
  with r show ?thesis by blast
qed

text \<open>
  C23. Holders can always redeem: for a collateralised SetToken whose components are plain default positions, with tokens
  that transfer what the SetToken owns, an accepted burn of the caller's tokens is all \<^verbatim>\<open>redeem\<close> needs; it then
  succeeds, and of every component exactly the quantity times the real unit, rounded down, has left the SetToken.
\<close>

theorem redemption_is_always_possible:
  assumes "redeemable c (im_address im) self quantity st" and "collateralised ops x self (st, w)" and "set_inv st"
    and "\<forall>t \<in> set (st_components st). pays_out x self to t" and "tokens_isolated x self" and "erc20_token ops"
    and "e_burn ops sender quantity (st_erc20 st) = Inr t"
  shows "\<exists>w'. redeem ops x c im self sender quantity to (st, w) = Inr (st\<lparr>st_erc20 := t\<rparr>, w') \<and>
    (\<forall>a \<in> set (st_components st). uint (x_balanceOf x w' a self) = uint (x_balanceOf x w a self) - payout st quantity a)"
proof -
  let ?st = "st\<lparr>st_erc20 := t\<rparr>" and ?mod = "im_address im"
  have r: "redeemable c ?mod self quantity ?st" using assms(1) by (simp add: redeemable_def)
  have pay: "payout ?st quantity = payout st quantity" by (simp add: payout_def fun_eq_iff)
  have "uint quantity \<le> uint (e_totalSupply ops (st_erc20 st))" using erc20_token.burn_bounded [OF assms(6,7)] by simp
  then have "\<forall>a \<in> set (st_components st). payout st quantity a \<le> uint (x_balanceOf x w a self)"
    using payout_covered [OF assms(2)] assms(1) unfolding redeemable_def by blast
  then obtain w' where w': "each_sol (redeem_component x c ?mod self quantity to ?st) (st_components st) w = Inr w'"
    using redeem_components_succeed [OF r assms(4,5), of w] assms(3) pay by (auto simp: set_inv_def)
  have "distinct (st_components st)" using assms(3) by (simp add: set_inv_def)
  from redeem_balances [OF w' this assms(5)]
  have "\<forall>a \<in> set (st_components st). uint (x_balanceOf x w' a self) = uint (x_balanceOf x w a self) - payout st quantity a"
    by (simp only: pay)
  moreover have "redeem ops x c im self sender quantity to (st, w) = Inr (?st, w')"
    using assms(1,7) w' by (simp add: redeem_def module_guards redeemable_def st_burn_def privileged_def st_guards isInitializedModule_def)
  ultimately show ?thesis by blast
qed

theorem redemption_is_always_possible_witness:
  "\<exists>st' w'. redeem erc20_contract sample_externals (sample_controller\<lparr>isSet := \<lambda>_. True\<rparr>) (new_BasicIssuanceModule ''m'') ''set'' ''u'' 2 ''v''
      (sample_token\<lparr>st_erc20 := \<lparr>balances = (\<lambda>_. 0)(''u'' := 3), allowances = \<lambda>_ _. 0, totalSupply = 3\<rparr>\<rparr>,
       (\<lambda>_ _. 0)(''t'' := (\<lambda>_. 0)(''set'' := 6))) = Inr (st', w') \<and> uint (w' ''t'' ''set'') = 2"
proof -
  let ?st = "sample_token\<lparr>st_erc20 := \<lparr>balances = (\<lambda>_. 0)(''u'' := 3), allowances = \<lambda>_ _. 0, totalSupply = 3\<rparr>\<rparr>"
  let ?w = "(\<lambda>_ _. 0)(''t'' := (\<lambda>_. 0)(''set'' := 6 :: uint256))"
  let ?c = "sample_controller\<lparr>isSet := \<lambda>_. True\<rparr>"
  have unit: "getDefaultPositionRealUnit ?st ''t'' = Inr (2 * 10 ^ 18)"
    by (simp add: getDefaultPositionRealUnit_def real_unit defaultPositionVirtualUnit_def sample_token_def PRECISE_UNIT_def in_int256_def)
  have ext: "getExternalPositionModules sample_token ''t'' = []"
    by (simp add: getExternalPositionModules_def sample_token_def no_position_def)
  have fields: "st_components sample_token = [''t'']" "moduleStates sample_token ''m'' = INITIALIZED"
    "isLocked sample_token = False" "isModule sample_controller ''m''"
    by (simp_all add: sample_token_def sample_controller_def)
  have r: "redeemable ?c (im_address (new_BasicIssuanceModule ''m'')) ''set'' 2 ?st"
    using unit by (simp add: redeemable_def new_BasicIssuanceModule_def hasExternalPosition_def ext fields)
  have col: "collateralised erc20_contract sample_externals ''set'' (?st, ?w)"
    using unit by (simp add: covered_def sample_externals_def PRECISE_UNIT_def)
  have inv: "set_inv ?st" by (simp add: set_inv_def sample_token_def no_position_def PRECISE_UNIT_def)
  obtain t where burn: "e_burn erc20_contract ''u'' 2 (st_erc20 ?st) = Inr t"
    by (simp add: erc20_burn_def safe_sub_def ADDRESS_ZERO_def)
  have "payout ?st 2 ''t'' = 4"
  proof -
    have "sol_preciseMul 2 (2 * 10 ^ 18) = Some 4" by code_simp
    then show ?thesis using unit by (simp add: payout_def)
  qed
  moreover have "\<forall>t \<in> set (st_components ?st). pays_out sample_externals ''set'' ''v'' t" by (simp add: sample_pays_out)
  ultimately show ?thesis
    using redemption_is_always_possible [OF r col inv _ sample_isolated repository_erc20.erc20_token_axioms burn, of "''v''"]
    by (auto simp: sample_externals_def)
qed

end
