(* ===== verification/Streaming_Fee_Module.thy ===== *)
theory Streaming_Fee_Module
  imports Issuance_Module Fee_Module_Utils
begin

section \<open>Streaming fees on the contract side\<close>

text \<open>
  Models contracts/protocol/modules/v1/StreamingFeeModule.sol on the SetToken of \<open>Set_Token\<close>; its two
  calculations are those of \<open>Fee_Module_Utils\<close>, next to the helpers that predict them. A call takes the state of the
  module and of the SetToken \<open>self\<close> and the time of the block, \<open>now\<close>. Calls are atomic.
\<close>

subsection \<open>State\<close>

record FeeState =
  fs_feeRecipient :: address
  fs_maxStreamingFeePercentage :: uint256
  fs_streamingFeePercentage :: uint256
  fs_lastStreamingFeeTimestamp :: uint256

record fee_module =
  fm_address :: address
  feeStates :: "address \<Rightarrow> FeeState"

definition no_fee :: FeeState where
  "no_fee = \<lparr>fs_feeRecipient = ADDRESS_ZERO, fs_maxStreamingFeePercentage = 0, fs_streamingFeePercentage = 0,
     fs_lastStreamingFeeTimestamp = 0\<rparr>"

definition new_StreamingFeeModule :: "address \<Rightarrow> fee_module" where
  "new_StreamingFeeModule this = \<lparr>fm_address = this, feeStates = \<lambda>_. no_fee\<rparr>"

definition edit_fee :: "address \<Rightarrow> (FeeState \<Rightarrow> FeeState) \<Rightarrow> fee_module \<Rightarrow> fee_module" where
  "edit_fee self f fm = fm\<lparr>feeStates := (feeStates fm)(self := f (feeStates fm self))\<rparr>"

subsection \<open>Internal functions\<close>

definition sf_calculateStreamingFee :: "fee_module \<Rightarrow> address \<Rightarrow> uint256 \<Rightarrow> uint256 sol" where
  "sf_calculateStreamingFee fm self now = checked (sol_calculateStreamingFee now
     (fs_lastStreamingFeeTimestamp (feeStates fm self)) (fs_streamingFeePercentage (feeStates fm self)))"

definition sf_calculateStreamingFeeInflation :: "'e erc20_ops \<Rightarrow> uint256 \<Rightarrow> 'e set_token \<Rightarrow> uint256 sol" where
  "sf_calculateStreamingFeeInflation ops feePercentage st =
     checked (sol_calculateStreamingFeeInflation (e_totalSupply ops (st_erc20 st)) feePercentage)"

definition sf_mintManagerAndProtocolFee :: "'e erc20_ops \<Rightarrow> controller_state \<Rightarrow> fee_module \<Rightarrow> address \<Rightarrow> uint256 \<Rightarrow> 'e set_token
    \<Rightarrow> ('e set_token \<times> uint256 \<times> uint256) sol" where
  "sf_mintManagerAndProtocolFee ops c fm self feeQuantity st =
     (case getModuleFee c (fm_address fm) 0 feeQuantity of Inl m \<Rightarrow> Inl m
      | Inr protocolFeeAmount \<Rightarrow> (case checked (safe_sub feeQuantity protocolFeeAmount) of Inl m \<Rightarrow> Inl m
      | Inr managerFeeAmount \<Rightarrow>
        (case st_mint ops c (fm_address fm) (fs_feeRecipient (feeStates fm self)) managerFeeAmount st of Inl m \<Rightarrow> Inl m
        | Inr st \<Rightarrow> (if 0 < protocolFeeAmount
            then (case st_mint ops c (fm_address fm) (c_feeRecipient c) protocolFeeAmount st of Inl m \<Rightarrow> Inl m
              | Inr st \<Rightarrow> Inr (st, managerFeeAmount, protocolFeeAmount))
            else Inr (st, managerFeeAmount, protocolFeeAmount)))))"

definition sf_editPositionMultiplier :: "controller_state \<Rightarrow> fee_module \<Rightarrow> uint256 \<Rightarrow> 'e set_token \<Rightarrow> 'e set_token sol" where
  "sf_editPositionMultiplier c fm inflationFee st =
     (let currentMultipler = positionMultiplier st in
      case checked (safe_sub sol_preciseUnit inflationFee) of Inl m \<Rightarrow> Inl m
      | Inr d \<Rightarrow> (case toInt256 d of Inl m \<Rightarrow> Inl m
        | Inr d \<Rightarrow> (case checked (sol_preciseMulInt currentMultipler d) of Inl m \<Rightarrow> Inl m
          | Inr newMultiplier \<Rightarrow> editPositionMultiplier c (fm_address fm) newMultiplier st)))"

subsection \<open>External functions\<close>

text \<open>\<^verbatim>\<open>accrueFee\<close> returns the fees its event reports.\<close>

definition accrueFee :: "'e erc20_ops \<Rightarrow> controller_state \<Rightarrow> address \<Rightarrow> uint256 \<Rightarrow> fee_module \<times> 'e set_token
    \<Rightarrow> ((fee_module \<times> 'e set_token) \<times> uint256 \<times> uint256) sol" where
  "accrueFee ops c self now = (\<lambda>(fm, st). onlyValidAndInitializedSet c (fm_address fm) self st
     (let fm' = edit_fee self (fs_lastStreamingFeeTimestamp_update (\<lambda>_. now)) fm in
      if 0 < fs_streamingFeePercentage (feeStates fm self)
      then (case sf_calculateStreamingFee fm self now of Inl m \<Rightarrow> Inl m
        | Inr inflationFeePercentage \<Rightarrow>
          (case sf_calculateStreamingFeeInflation ops inflationFeePercentage st of Inl m \<Rightarrow> Inl m
          | Inr feeQuantity \<Rightarrow> (case sf_mintManagerAndProtocolFee ops c fm self feeQuantity st of Inl m \<Rightarrow> Inl m
            | Inr (st, managerFee, protocolFee) \<Rightarrow>
              (case sf_editPositionMultiplier c fm inflationFeePercentage st of Inl m \<Rightarrow> Inl m
              | Inr st \<Rightarrow> Inr ((fm', st), managerFee, protocolFee)))))
      else Inr ((fm', st), 0, 0)))"

definition sf_initialize :: "controller_state \<Rightarrow> address \<Rightarrow> address \<Rightarrow> uint256 \<Rightarrow> FeeState \<Rightarrow> fee_module \<times> 'e set_token
    \<Rightarrow> (fee_module \<times> 'e set_token) sol" where
  "sf_initialize c self sender now settings = (\<lambda>(fm, st). onlySetManager st sender
     (onlyValidAndPendingSet c (fm_address fm) self st
       (if fs_feeRecipient settings = ADDRESS_ZERO then Inl ''Fee Recipient must be non-zero address.''
        else if \<not> fs_maxStreamingFeePercentage settings < sol_preciseUnit then Inl ''Max fee must be < 100%.''
        else if \<not> fs_streamingFeePercentage settings \<le> fs_maxStreamingFeePercentage settings then Inl ''Fee must be <= max.''
        else let fm' = edit_fee self (\<lambda>_. settings\<lparr>fs_lastStreamingFeeTimestamp := now\<rparr>) fm in
          case initializeModule (fm_address fm) st of Inl m \<Rightarrow> Inl m | Inr st \<Rightarrow> Inr (fm', st))))"

definition sf_removeModule :: "address \<Rightarrow> fee_module \<Rightarrow> fee_module" where
  "sf_removeModule sender fm = edit_fee sender (\<lambda>_. no_fee) fm"

definition updateStreamingFee :: "'e erc20_ops \<Rightarrow> controller_state \<Rightarrow> address \<Rightarrow> address \<Rightarrow> uint256 \<Rightarrow> uint256
    \<Rightarrow> fee_module \<times> 'e set_token \<Rightarrow> (fee_module \<times> 'e set_token) sol" where
  "updateStreamingFee ops c self sender now newFee = (\<lambda>(fm, st). onlySetManager st sender
     (onlyValidAndInitializedSet c (fm_address fm) self st
       (if \<not> newFee < fs_maxStreamingFeePercentage (feeStates fm self) then Inl ''Fee must be less than max''
        else case accrueFee ops c self now (fm, st) of Inl m \<Rightarrow> Inl m
        | Inr ((fm, st), _) \<Rightarrow> Inr (edit_fee self (fs_streamingFeePercentage_update (\<lambda>_. newFee)) fm, st))))"

definition updateFeeRecipient :: "controller_state \<Rightarrow> address \<Rightarrow> address \<Rightarrow> address \<Rightarrow> fee_module \<times> 'e set_token
    \<Rightarrow> (fee_module \<times> 'e set_token) sol" where
  "updateFeeRecipient c self sender newFeeRecipient = (\<lambda>(fm, st). onlySetManager st sender
     (onlyValidAndInitializedSet c (fm_address fm) self st
       (if newFeeRecipient = ADDRESS_ZERO then Inl ''Fee Recipient must be non-zero address.''
        else Inr (edit_fee self (fs_feeRecipient_update (\<lambda>_. newFeeRecipient)) fm, st))))"

definition sf_getFee :: "fee_module \<Rightarrow> address \<Rightarrow> uint256 \<Rightarrow> uint256 sol" where
  "sf_getFee fm self now = sf_calculateStreamingFee fm self now"

subsection \<open>What the module can reach\<close>

text \<open>
  A step is an accepted call of the module, with the Controller and the SetToken in any state: what they do between the
  calls is not restricted.
\<close>

inductive fee_step :: "'e erc20_ops \<Rightarrow> fee_module \<Rightarrow> fee_module \<Rightarrow> bool" for ops fm where
  fee_accrue: "accrueFee ops c self now (fm, st) = Inr ((fm', st'), fees) \<Longrightarrow> fee_step ops fm fm'"
| fee_initialize: "sf_initialize c self sender now settings (fm, st :: 'e set_token) = Inr (fm', st') \<Longrightarrow> fee_step ops fm fm'"
| fee_update: "updateStreamingFee ops c self sender now newFee (fm, st) = Inr (fm', st') \<Longrightarrow> fee_step ops fm fm'"
| fee_recipient: "updateFeeRecipient c self sender recipient (fm, st :: 'e set_token) = Inr (fm', st') \<Longrightarrow> fee_step ops fm fm'"
| fee_remove: "fee_step ops fm (sf_removeModule sender fm)"

inductive fee_reachable :: "'e erc20_ops \<Rightarrow> fee_module \<Rightarrow> bool" for ops where
  fee_created: "fee_reachable ops (new_StreamingFeeModule this)"
| fee_stepped: "fee_reachable ops fm \<Longrightarrow> fee_step ops fm fm' \<Longrightarrow> fee_reachable ops fm'"

definition fee_capped :: "FeeState \<Rightarrow> bool" where
  "fee_capped s \<longleftrightarrow> fs_streamingFeePercentage s \<le> fs_maxStreamingFeePercentage s \<and>
     fs_maxStreamingFeePercentage s < sol_preciseUnit"

text \<open>The real units of the default positions, in the order of the components.\<close>

definition each_unit :: "'e set_token \<Rightarrow> int sol list" where
  "each_unit st = map (\<lambda>a. map_sum id sint (getDefaultPositionRealUnit st a)) (st_components st)"


lemma edit_fee_simps [simp]:
  "feeStates (edit_fee self f fm) = (feeStates fm)(self := f (feeStates fm self))"
  "fm_address (edit_fee self f fm) = fm_address fm"
  by (simp_all add: edit_fee_def)

lemma fee_capped_simps [simp]:
  "fee_capped no_fee" "fee_capped (s\<lparr>fs_lastStreamingFeeTimestamp := t\<rparr>) = fee_capped s"
  "fee_capped (s\<lparr>fs_feeRecipient := r\<rparr>) = fee_capped s"
  by (simp_all add: fee_capped_def no_fee_def word_less_def)

subsection \<open>The parts of an accrual\<close>

lemma accrueFee_module:
  "accrueFee ops c self now (fm, st) = Inr ((fm', st'), fees) \<Longrightarrow>
     fm' = edit_fee self (fs_lastStreamingFeeTimestamp_update (\<lambda>_. now)) fm"
  by (auto simp: accrueFee_def module_guards Let_def split: sum.splits if_splits)

lemma fee_step_capped:
  "fee_step ops fm fm' \<Longrightarrow> \<forall>a. fee_capped (feeStates fm a) \<Longrightarrow> \<forall>a. fee_capped (feeStates fm' a)"
proof (induction rule: fee_step.induct)
  case (fee_update c self sender now newFee st fm' st')
  then obtain fm1 where "newFee < fs_maxStreamingFeePercentage (feeStates fm self)"
    "fm1 = edit_fee self (fs_lastStreamingFeeTimestamp_update (\<lambda>_. now)) fm"
    "fm' = edit_fee self (fs_streamingFeePercentage_update (\<lambda>_. newFee)) fm1"
    by (auto simp: updateStreamingFee_def module_guards dest: accrueFee_module split: sum.splits if_splits)
  with fee_update.prems show ?case by (auto simp: fee_capped_def)
next
  case (fee_initialize c self sender now settings st fm' st')
  then show ?case by (auto simp: sf_initialize_def module_guards Let_def fee_capped_def split: sum.splits if_splits)
qed (auto dest!: accrueFee_module simp: sf_removeModule_def updateFeeRecipient_def module_guards split: if_splits)

lemma sf_mint_parts:
  assumes "sf_mintManagerAndProtocolFee ops c fm self q st = Inr (st', mf, pf)" "erc20_token ops"
  shows "\<exists>t. st' = st\<lparr>st_erc20 := t\<rparr> \<and> uint (e_totalSupply ops t) = uint (e_totalSupply ops (st_erc20 st)) + uint q"
    and "uint mf + uint pf = uint q"
proof -
  obtain st1 where pf: "getModuleFee c (fm_address fm) 0 q = Inr pf" and mf: "safe_sub q pf = Some mf"
    and m: "st_mint ops c (fm_address fm) (fs_feeRecipient (feeStates fm self)) mf st = Inr st1"
    and p: "if 0 < pf then st_mint ops c (fm_address fm) (c_feeRecipient c) pf st1 = Inr st' else st' = st1"
    using assms(1) unfolding sf_mintManagerAndProtocolFee_def by (auto split: sum.splits if_splits)
  show sum: "uint mf + uint pf = uint q" using safe_sub_Some [OF mf] by simp
  obtain t1 where t1: "st1 = st\<lparr>st_erc20 := t1\<rparr>" "uint (e_totalSupply ops t1) = uint (e_totalSupply ops (st_erc20 st)) + uint mf"
    using m erc20_token.mint_supply [OF assms(2)] by (auto simp: st_mint_def privileged_Inr split: sum.splits)
  show "\<exists>t. st' = st\<lparr>st_erc20 := t\<rparr> \<and> uint (e_totalSupply ops t) = uint (e_totalSupply ops (st_erc20 st)) + uint q"
  proof (cases "0 < pf")
    case True
    then obtain t where "st' = st1\<lparr>st_erc20 := t\<rparr>" "uint (e_totalSupply ops t) = uint (e_totalSupply ops t1) + uint pf"
      using p t1(1) erc20_token.mint_supply [OF assms(2)] by (auto simp: st_mint_def privileged_Inr split: sum.splits)
    then show ?thesis using t1 sum by auto
  next
    case False
    then have "pf = 0" by (simp add: word_neq_0_conv [symmetric])
    then show ?thesis using p t1 sum by auto
  qed
qed

lemma sf_multiplier_parts:
  assumes "sf_editPositionMultiplier c fm f st = Inr st'"
  shows "uint f \<le> PRECISE_UNIT \<and> (\<exists>new. st' = st\<lparr>positionMultiplier := new\<rparr> \<and> 0 < sint new \<and>
    sint new = preciseMul (sint (positionMultiplier st)) (PRECISE_UNIT - uint f))"
proof -
  obtain d new where d: "safe_sub sol_preciseUnit f = Some d" "uint d < 2 ^ 255"
    and new: "sol_preciseMulInt (positionMultiplier st) d = Some new" "editPositionMultiplier c (fm_address fm) new st = Inr st'"
    using assms by (auto simp: sf_editPositionMultiplier_def Let_def split: sum.splits)
  have ud: "uint f \<le> PRECISE_UNIT" "sint d = PRECISE_UNIT - uint f"
    using safe_sub_Some [OF d(1)] uint_small_sint [OF d(2)] by simp_all
  have "sint new = preciseMul (sint (positionMultiplier st)) (sint d)"
    using new(1) sint_MulInt [of "positionMultiplier st" d] by (auto split: if_splits)
  moreover have "st' = st\<lparr>positionMultiplier := new\<rparr>" "0 < sint new"
    using new(2) validateNewMultiplier_Inr [of st new "Inr (st\<lparr>positionMultiplier := new\<rparr>)" st']
    by (auto simp: editPositionMultiplier_def privileged_Inr)
  ultimately show ?thesis using ud by auto
qed

text \<open>An accepted accrual in the integers: the fee \<open>f\<close>, the minted amount and the scaled multiplier.\<close>

lemma accrual_parts:
  assumes "accrueFee ops c self now (fm, st) = Inr ((fm', st'), mf, pf)" "erc20_token ops"
    and "0 < fs_streamingFeePercentage (feeStates fm self)"
  obtains f t new where "sf_getFee fm self now = Inr f" "uint f < PRECISE_UNIT"
    "getStreamingFeeInflationAmount (uint f) (uint (e_totalSupply ops (st_erc20 st))) = Some (uint mf + uint pf)"
    "st' = st\<lparr>st_erc20 := t, positionMultiplier := new\<rparr>" "0 < sint new"
    "uint (e_totalSupply ops t) = uint (e_totalSupply ops (st_erc20 st)) + (uint mf + uint pf)"
    "sint new = preciseMul (sint (positionMultiplier st)) (PRECISE_UNIT - uint f)"
proof -
  obtain f q st1 where f: "sf_calculateStreamingFee fm self now = Inr f"
    and q: "sf_calculateStreamingFeeInflation ops f st = Inr q"
    and m: "sf_mintManagerAndProtocolFee ops c fm self q st = Inr (st1, mf, pf)"
    and e: "sf_editPositionMultiplier c fm f st1 = Inr st'"
    using assms(1,3) by (auto simp: accrueFee_def module_guards Let_def split: sum.splits if_splits)
  obtain t where t: "st1 = st\<lparr>st_erc20 := t\<rparr>" "uint (e_totalSupply ops t) = uint (e_totalSupply ops (st_erc20 st)) + uint q"
    using sf_mint_parts(1) [OF m assms(2)] by blast
  note n = sf_multiplier_parts [OF e]
  then obtain new where new: "st' = st1\<lparr>positionMultiplier := new\<rparr>" "0 < sint new"
    "sint new = preciseMul (sint (positionMultiplier st)) (PRECISE_UNIT - uint f)" using t(1) by auto
  have "uint f \<noteq> PRECISE_UNIT" using new(2,3) by (auto simp: preciseMul_def)
  moreover have "getStreamingFeeInflationAmount (uint f) (uint (e_totalSupply ops (st_erc20 st))) = Some (uint q)"
    using q sol_inflation_uint [of "e_totalSupply ops (st_erc20 st)" f]
    by (auto simp: sf_calculateStreamingFeeInflation_def split: if_splits)
  ultimately show ?thesis
    using that [of f new t] f n t new sf_mint_parts(2) [OF m assms(2)] by (simp add: sf_getFee_def)
qed

lemma getFee_helper:
  assumes "sf_getFee fm self now = Inr f"
  shows "getStreamingFee states self (uint (fs_lastStreamingFeeTimestamp (feeStates fm self))) (uint now)
      (Some (uint (fs_streamingFeePercentage (feeStates fm self)))) = Some (uint f) \<and>
    uint (fs_lastStreamingFeeTimestamp (feeStates fm self)) \<le> uint now"
  using assms sol_calculateStreamingFee_uint [of now "fs_lastStreamingFeeTimestamp (feeStates fm self)"
      "fs_streamingFeePercentage (feeStates fm self)" states self]
  by (auto simp: sf_getFee_def sf_calculateStreamingFee_def split: if_splits)

lemma accrual_no_fee:
  assumes "accrueFee ops c self now (fm, st) = Inr ((fm', st'), mf, pf)" "\<not> 0 < fs_streamingFeePercentage (feeStates fm self)"
  shows "st' = st \<and> mf = 0 \<and> pf = 0"
  using assms by (auto simp: accrueFee_def module_guards Let_def split: if_splits)

lemma fee_reachable_capped: "fee_reachable ops fm \<Longrightarrow> \<forall>a. fee_capped (feeStates fm a)"
  by (induction rule: fee_reachable.induct) (simp_all add: new_StreamingFeeModule_def fee_step_capped)

text \<open>The elapsed time is positive and the share of the year's fee is at most the stated one.\<close>

lemma getFee_bound:
  assumes "sf_getFee fm self now = Inr f" "fee_capped (feeStates fm self)"
  shows "uint f * ONE_YEAR_IN_SECONDS \<le>
    (uint now - uint (fs_lastStreamingFeeTimestamp (feeStates fm self))) * uint (fs_maxStreamingFeePercentage (feeStates fm self))"
proof -
  let ?d = "uint now - uint (fs_lastStreamingFeeTimestamp (feeStates fm self))"
  note h = getFee_helper [OF assms(1)]
  then have d: "0 \<le> ?d" by simp
  have "uint f = ?d * uint (fs_streamingFeePercentage (feeStates fm self)) div ONE_YEAR_IN_SECONDS"
    using h d by (auto simp: getStreamingFee_def Let_def ONE_YEAR_IN_SECONDS_def)
  then have "uint f * ONE_YEAR_IN_SECONDS \<le> ?d * uint (fs_streamingFeePercentage (feeStates fm self))"
    using floor_div_bounds(1) [of ONE_YEAR_IN_SECONDS] by (simp add: ONE_YEAR_IN_SECONDS_def mult.commute)
  also have "\<dots> \<le> ?d * uint (fs_maxStreamingFeePercentage (feeStates fm self))"
    using d assms(2) by (intro mult_left_mono) (simp_all add: fee_capped_def word_le_def)
  finally show ?thesis .
qed

lemma scaled_claims:
  fixes n m p d s s' :: int
  assumes "n * p \<le> m * d" "d * s' \<le> s * p" "0 \<le> m" "0 \<le> s'" "0 < p"
  shows "n * s' \<le> m * s"
proof -
  have "p * (n * s') = n * p * s'" by simp
  also have "\<dots> \<le> m * d * s'" using assms(1,4) by (rule mult_right_mono)
  also have "\<dots> = m * (d * s')" by simp
  also have "\<dots> \<le> m * (s * p)" using assms(2,3) by (rule mult_left_mono)
  finally have "p * (n * s') \<le> p * (m * s)" by (simp only: ac_simps)
  then show ?thesis using assms(5) by simp
qed

lemma in_int256_shrink:
  assumes "in_int256 (v * k)" "0 \<le> d" "d \<le> k"
  shows "in_int256 (v * d)"
proof (cases "0 \<le> v")
  case True
  then show ?thesis
    using mult_left_mono [OF assms(3), of v] mult_nonneg_nonneg [OF True assms(2)] assms(1) unfolding in_int256_def by linarith
next
  case False
  then show ?thesis
    using mult_left_mono_neg [OF assms(3), of v] mult_nonpos_nonneg [of v d] assms(1,2) unfolding in_int256_def by linarith
qed

lemma accrual_claims:
  assumes "accrueFee ops c self now (fm, st) = Inr ((fm', st'), managerFee, protocolFee)" and "erc20_token ops"
    and "0 < sint (positionMultiplier st)"
  shows "uint (e_totalSupply ops (st_erc20 st')) =
      uint (e_totalSupply ops (st_erc20 st)) + uint managerFee + uint protocolFee \<and>
    sint (positionMultiplier st') * uint (e_totalSupply ops (st_erc20 st')) \<le>
      sint (positionMultiplier st) * uint (e_totalSupply ops (st_erc20 st)) \<and>
    st_components st' = st_components st \<and> componentPositions st' = componentPositions st"
proof (cases "0 < fs_streamingFeePercentage (feeStates fm self)")
  case True
  then obtain f t new where p: "sf_getFee fm self now = Inr f" "uint f < PRECISE_UNIT"
    "getStreamingFeeInflationAmount (uint f) (uint (e_totalSupply ops (st_erc20 st))) = Some (uint managerFee + uint protocolFee)"
    "st' = st\<lparr>st_erc20 := t, positionMultiplier := new\<rparr>" "0 < sint new"
    "uint (e_totalSupply ops t) = uint (e_totalSupply ops (st_erc20 st)) + (uint managerFee + uint protocolFee)"
    "sint new = preciseMul (sint (positionMultiplier st)) (PRECISE_UNIT - uint f)"
    by (rule accrual_parts [OF assms(1,2)])
  let ?S = "uint (e_totalSupply ops (st_erc20 st))" and ?q = "uint managerFee + uint protocolFee"
    and ?m = "sint (positionMultiplier st)"
  have "?q = uint f * ?S div (PRECISE_UNIT - uint f)" using p(2,3) by (simp add: inflation_amount_floor)
  then have "?q * PRECISE_UNIT \<le> uint f * (?S + ?q)" using inflation_share_iff [of "uint f" ?q ?S] p(2) by simp
  then have grown: "(PRECISE_UNIT - uint f) * (?S + ?q) \<le> ?S * PRECISE_UNIT" by (simp add: algebra_simps)
  have "sint new = ?m * (PRECISE_UNIT - uint f) div PRECISE_UNIT" using p(2,7) assms(3) by (simp add: preciseMul_nonneg)
  then have new: "sint new * PRECISE_UNIT \<le> ?m * (PRECISE_UNIT - uint f)"
    using floor_div_bounds(1) [of PRECISE_UNIT] by (simp add: mult.commute)
  have "sint new * (?S + ?q) \<le> ?m * ?S"
    by (rule scaled_claims [OF new grown]) (use assms(3) in simp_all)
  then show ?thesis using p(4,6) by (simp add: add.assoc)
qed (use accrual_no_fee [OF assms(1)] in simp)

lemma scaled_real_unit:
  assumes "sint (positionMultiplier st) = PRECISE_UNIT" "componentPositions st' = componentPositions st"
    and "sint (positionMultiplier st') = PRECISE_UNIT - p" "0 \<le> p" "p \<le> PRECISE_UNIT"
    and "getDefaultPositionRealUnit st a = Inr u"
  shows "map_sum id sint (getDefaultPositionRealUnit st' a) = Inr (sint u * (PRECISE_UNIT - p) div PRECISE_UNIT)"
proof -
  let ?v = "sint (defaultPositionVirtualUnit st a)"
  have u: "in_int256 (?v * PRECISE_UNIT)" "sint u = ?v"
    using assms(1,6) real_unit_sint [of st _ u] by (simp_all add: getDefaultPositionRealUnit_def real_unit)
  have fits: "in_int256 (?v * (PRECISE_UNIT - p))" by (rule in_int256_shrink [OF u(1)]) (use assms(4,5) in simp_all)
  have "defaultPositionVirtualUnit st' a = defaultPositionVirtualUnit st a"
    using assms(2) by (simp add: defaultPositionVirtualUnit_def)
  then have "getDefaultPositionRealUnit st' a = Inr (word_of_int (?v * (PRECISE_UNIT - p) div PRECISE_UNIT))"
    using fits assms(3) by (simp add: getDefaultPositionRealUnit_def real_unit)
  then show ?thesis using u(2) fits by (simp add: sint_word_of_int_256 floor_in_int256)
qed

lemma overdue_accrual_reverts:
  assumes "PRECISE_UNIT * ONE_YEAR_IN_SECONDS \<le> (uint now - uint (fs_lastStreamingFeeTimestamp (feeStates fm self))) *
      uint (fs_streamingFeePercentage (feeStates fm self))"
  shows "\<exists>e. accrueFee ops c self now (fm, st) = Inl e"
proof (rule ccontr)
  assume "\<nexists>e. accrueFee ops c self now (fm, st) = Inl e"
  then obtain fm' st' mf pf where run: "accrueFee ops c self now (fm, st) = Inr ((fm', st'), mf, pf)"
    by (cases "accrueFee ops c self now (fm, st)") (auto simp: split_paired_all)
  have "uint (fs_streamingFeePercentage (feeStates fm self)) \<noteq> 0"
    using assms by (auto simp: PRECISE_UNIT_def ONE_YEAR_IN_SECONDS_def)
  then have rate: "0 < fs_streamingFeePercentage (feeStates fm self)" by (simp add: word_neq_0_conv [symmetric])
  then obtain f q where f: "sf_getFee fm self now = Inr f" and q: "sol_calculateStreamingFeeInflation (e_totalSupply ops (st_erc20 st)) f = Some q"
    using run by (auto simp: accrueFee_def module_guards Let_def sf_getFee_def sf_calculateStreamingFeeInflation_def
        split: sum.splits if_splits)
  have "uint f = (uint now - uint (fs_lastStreamingFeeTimestamp (feeStates fm self))) *
      uint (fs_streamingFeePercentage (feeStates fm self)) div ONE_YEAR_IN_SECONDS"
    using getFee_helper [OF f, of "\<lambda>_. undefined"] by (auto simp: getStreamingFee_def ONE_YEAR_IN_SECONDS_def)
  then have "PRECISE_UNIT \<le> uint f" using assms by (simp add: int_le_div_iff ONE_YEAR_IN_SECONDS_def)
  moreover have "getStreamingFeeInflationAmount (uint f) (uint (e_totalSupply ops (st_erc20 st))) = Some (uint q)" "uint f \<le> PRECISE_UNIT"
    using q sol_inflation_uint [of "e_totalSupply ops (st_erc20 st)" f] by (auto split: if_splits)
  then have "uint f < PRECISE_UNIT" by (cases "uint f = PRECISE_UNIT") (auto simp: getStreamingFeeInflationAmount_def)
  ultimately show False by linarith
qed

text \<open>A module that takes two percent a year of the sample token, which has one hundred tokens.\<close>

definition sample_fees :: "uint256 \<Rightarrow> FeeState" where
  "sample_fees rate = \<lparr>fs_feeRecipient = ''r'', fs_maxStreamingFeePercentage = 2 * 10 ^ 17, fs_streamingFeePercentage = rate,
     fs_lastStreamingFeeTimestamp = 0\<rparr>"

definition sample_fee_module :: "uint256 \<Rightarrow> fee_module" where
  "sample_fee_module rate = edit_fee ''set'' (\<lambda>_. sample_fees rate) (new_StreamingFeeModule ''m'')"

definition enabled_controller :: controller_state where
  "enabled_controller = sample_controller\<lparr>isSet := \<lambda>_. True\<rparr>"

definition minted_token :: "erc20 set_token" where
  "minted_token = sample_token\<lparr>st_erc20 := \<lparr>balances = (\<lambda>_. 0)(''u'' := 10 ^ 20), allowances = \<lambda>_ _. 0, totalSupply = 10 ^ 20\<rparr>\<rparr>"

text \<open>What a run shows: supply, position multiplier, units and the two fees.\<close>

definition outcome :: "((fee_module \<times> erc20 set_token) \<times> uint256 \<times> uint256) sol \<Rightarrow> (int \<times> int \<times> int sol list \<times> int \<times> int) sol" where
  "outcome r = map_sum id (\<lambda>((fm, st), mf, pf). (uint (totalSupply (st_erc20 st)), sint (positionMultiplier st),
     each_unit st, uint mf, uint pf)) r"

lemma outcome_Inr:
  assumes "outcome r = Inr (s, m, us, mf, pf)"
  obtains fm' st' mf' pf' where "r = Inr ((fm', st'), mf', pf')" "uint (totalSupply (st_erc20 st')) = s"
    "sint (positionMultiplier st') = m" "each_unit st' = us" "uint mf' = mf" "uint pf' = pf"
  using assms by (cases r) (auto simp: outcome_def)

lemma sample_accrual:
  "outcome (accrueFee erc20_contract enabled_controller ''set'' 31557600 (sample_fee_module (2 * 10 ^ 16), minted_token)) =
     Inr (102040816326530612244, 98 * 10 ^ 16, [Inr (196 * 10 ^ 16)], 2040816326530612244, 0)"
  by code_simp

lemma sample_reachable: "fee_reachable erc20_contract (sample_fee_module (2 * 10 ^ 16))"
proof -
  let ?st = "sample_token\<lparr>moduleStates := (\<lambda>_. NONE)(''m'' := PENDING)\<rparr>"
  have "sf_initialize enabled_controller ''set'' ''o'' 0 (sample_fees (2 * 10 ^ 16)) (new_StreamingFeeModule ''m'', ?st) =
      Inr (sample_fee_module (2 * 10 ^ 16), ?st\<lparr>moduleStates := (\<lambda>_. NONE)(''m'' := INITIALIZED), st_modules := st_modules ?st @ [''m'']\<rparr>)"
    by (simp add: sf_initialize_def module_guards isPendingModule_def enabled_controller_def new_StreamingFeeModule_def
        sample_fees_def sample_fee_module_def initializeModule_def ADDRESS_ZERO_def word_less_def word_le_def PRECISE_UNIT_def)
  from fee_stepped [OF fee_created fee_initialize [OF this]] show ?thesis .
qed

subsection \<open>Properties\<close>

text \<open>
  C28. Accruing the streaming fee never inflates the claims on a SetToken's components: with supply and position
  multiplier before and after, the product of the two does not grow, although new tokens are minted, and no component
  and no virtual unit is touched. The supply grows by exactly the two reported fees.
\<close>

theorem accrual_never_inflates_claims:
  assumes "accrueFee ops c self now (fm, st) = Inr ((fm', st'), managerFee, protocolFee)" and "erc20_token ops"
    and "0 < sint (positionMultiplier st)"
  shows "uint (e_totalSupply ops (st_erc20 st')) =
      uint (e_totalSupply ops (st_erc20 st)) + uint managerFee + uint protocolFee \<and>
    sint (positionMultiplier st') * uint (e_totalSupply ops (st_erc20 st')) \<le>
      sint (positionMultiplier st) * uint (e_totalSupply ops (st_erc20 st)) \<and>
    st_components st' = st_components st \<and> componentPositions st' = componentPositions st"
  using assms by (rule accrual_claims)

theorem accrual_never_inflates_claims_witness:
  "\<exists>fm' st' mf pf. accrueFee erc20_contract enabled_controller ''set'' 31557600 (sample_fee_module (2 * 10 ^ 16), minted_token)
      = Inr ((fm', st'), mf, pf) \<and> uint mf = 2040816326530612244 \<and>
    sint (positionMultiplier st') * uint (totalSupply (st_erc20 st')) \<le> 10 ^ 38"
proof -
  obtain fm' st' mf pf where r: "accrueFee erc20_contract enabled_controller ''set'' 31557600
      (sample_fee_module (2 * 10 ^ 16), minted_token) = Inr ((fm', st'), mf, pf)" "uint mf = 2040816326530612244"
    by (rule outcome_Inr [OF sample_accrual])
  have m: "sint (positionMultiplier minted_token) = 10 ^ 18" "uint (totalSupply (st_erc20 minted_token)) = 10 ^ 20"
    by (simp_all add: minted_token_def PRECISE_UNIT_def)
  show ?thesis
    using r accrual_never_inflates_claims [OF r(1) repository_erc20.erc20_token_axioms] m by auto
qed

text \<open>
  C29. A manager cannot take more than he committed to: whatever calls the module has accepted, in whatever states of the
  Controller and of the SetTokens, the tokens that an accrual mints are at most the committed maximum percentage, for the
  time since the last accrual, of the supply that results.
\<close>

theorem managers_never_exceed_commitment:
  assumes "fee_reachable ops fm" and "erc20_token ops"
    and "accrueFee ops c self now (fm, st) = Inr ((fm', st'), managerFee, protocolFee)"
    and "fs_lastStreamingFeeTimestamp (feeStates fm self) \<le> now"
  shows "(uint managerFee + uint protocolFee) * PRECISE_UNIT * ONE_YEAR_IN_SECONDS \<le>
    (uint now - uint (fs_lastStreamingFeeTimestamp (feeStates fm self))) *
      uint (fs_maxStreamingFeePercentage (feeStates fm self)) * uint (e_totalSupply ops (st_erc20 st'))"
proof (cases "0 < fs_streamingFeePercentage (feeStates fm self)")
  case True
  then obtain f t new where p: "sf_getFee fm self now = Inr f" "uint f < PRECISE_UNIT"
    "getStreamingFeeInflationAmount (uint f) (uint (e_totalSupply ops (st_erc20 st))) = Some (uint managerFee + uint protocolFee)"
    "st' = st\<lparr>st_erc20 := t, positionMultiplier := new\<rparr>" "0 < sint new"
    "uint (e_totalSupply ops t) = uint (e_totalSupply ops (st_erc20 st)) + (uint managerFee + uint protocolFee)"
    "sint new = preciseMul (sint (positionMultiplier st)) (PRECISE_UNIT - uint f)"
    by (rule accrual_parts [OF assms(3,2)])
  let ?S = "uint (e_totalSupply ops (st_erc20 st))" and ?q = "uint managerFee + uint protocolFee"
  have "?q = uint f * ?S div (PRECISE_UNIT - uint f)" using p(2,3) by (simp add: inflation_amount_floor)
  then have "?q * PRECISE_UNIT \<le> uint f * (?S + ?q)" using inflation_share_iff [of "uint f" ?q ?S] p(2) by simp
  then have "?q * PRECISE_UNIT * ONE_YEAR_IN_SECONDS \<le> uint f * (?S + ?q) * ONE_YEAR_IN_SECONDS"
    by (intro mult_right_mono) (simp_all add: ONE_YEAR_IN_SECONDS_def)
  also have "\<dots> = uint f * ONE_YEAR_IN_SECONDS * (?S + ?q)" by simp
  also have "\<dots> \<le> (uint now - uint (fs_lastStreamingFeeTimestamp (feeStates fm self))) *
      uint (fs_maxStreamingFeePercentage (feeStates fm self)) * (?S + ?q)"
    using getFee_bound [OF p(1)] fee_reachable_capped [OF assms(1)] by (intro mult_right_mono) simp_all
  finally show ?thesis using p(4,6) by simp
next
  case False
  with accrual_no_fee [OF assms(3)] assms(4) show ?thesis by (simp add: word_le_def)
qed

theorem managers_never_exceed_commitment_witness:
  "\<exists>fm' st' mf pf. accrueFee erc20_contract enabled_controller ''set'' 31557600 (sample_fee_module (2 * 10 ^ 16), minted_token)
      = Inr ((fm', st'), mf, pf) \<and>
    (uint mf + uint pf) * PRECISE_UNIT * ONE_YEAR_IN_SECONDS \<le> 31557600 * (2 * 10 ^ 17) * uint (totalSupply (st_erc20 st'))"
proof -
  obtain fm' st' mf pf where r: "accrueFee erc20_contract enabled_controller ''set'' 31557600
      (sample_fee_module (2 * 10 ^ 16), minted_token) = Inr ((fm', st'), mf, pf)"
    by (rule outcome_Inr [OF sample_accrual])
  have "feeStates (sample_fee_module (2 * 10 ^ 16)) ''set'' = sample_fees (2 * 10 ^ 16)" by (simp add: sample_fee_module_def)
  with r managers_never_exceed_commitment [OF sample_reachable repository_erc20.erc20_token_axioms r]
  show ?thesis by (simp add: sample_fees_def)
qed

text \<open>
  C30. The helpers of the tests predict a SetToken's first accrual exactly: with the initial position multiplier, the
  tokens minted to manager and protocol together are the predicted inflation amount, and the unit of every default
  position, asset or debt, is the predicted unit after the fee.
\<close>

theorem first_accrual_is_predicted:
  assumes "accrueFee ops c self now (fm, st) = Inr ((fm', st'), managerFee, protocolFee)" and "erc20_token ops"
    and "positionMultiplier st = sol_preciseUnit" and "sf_getFee fm self now = Inr f"
    and "each_unit st = map Inr units"
  shows "getStreamingFeeInflationAmount (uint f) (uint (e_totalSupply ops (st_erc20 st))) =
      Some (uint managerFee + uint protocolFee) \<and>
    each_unit st' = map Inr (getPostFeePositionUnits units (uint f))"
proof -
  have parts: "getStreamingFeeInflationAmount (uint f) (uint (e_totalSupply ops (st_erc20 st))) =
      Some (uint managerFee + uint protocolFee) \<and> uint f \<le> PRECISE_UNIT \<and>
    sint (positionMultiplier st') = PRECISE_UNIT - uint f \<and>
    st_components st' = st_components st \<and> componentPositions st' = componentPositions st"
  proof (cases "0 < fs_streamingFeePercentage (feeStates fm self)")
    case True
    then show ?thesis
      by (rule accrual_parts [OF assms(1,2)]) (use assms(3,4) in \<open>simp add: preciseMul_nonneg\<close>)
  next
    case False
    then have "fs_streamingFeePercentage (feeStates fm self) = 0" by (simp add: word_neq_0_conv [symmetric])
    then have "uint f = 0" using getFee_helper [OF assms(4), of "\<lambda>_. undefined"]
      by (simp add: getStreamingFee_def ONE_YEAR_IN_SECONDS_def)
    then show ?thesis using accrual_no_fee [OF assms(1) False] assms(3) by (simp add: inflation_amount_floor)
  qed
  have "map_sum id sint (getDefaultPositionRealUnit st' a) =
      map_sum id (\<lambda>u. u * (PRECISE_UNIT - uint f) div PRECISE_UNIT) (map_sum id sint (getDefaultPositionRealUnit st a))"
    if "a \<in> set (st_components st)" for a
  proof -
    have "map_sum id sint (getDefaultPositionRealUnit st a) \<in> set (map Inr units)"
      using assms(5) that by (simp add: each_unit_def del: set_map) (metis imageI set_map)
    then obtain u where u: "getDefaultPositionRealUnit st a = Inr u" by (cases "getDefaultPositionRealUnit st a") auto
    then show ?thesis using parts assms(3) by (simp add: scaled_real_unit [OF _ _ _ _ _ u])
  qed
  then have "each_unit st' = map (map_sum id (\<lambda>u. u * (PRECISE_UNIT - uint f) div PRECISE_UNIT)) (each_unit st)"
    using parts by (simp add: each_unit_def)
  then show ?thesis using parts assms(5) by (simp add: getPostFeePositionUnits_map)
qed

theorem first_accrual_is_predicted_witness:
  "\<exists>fm' st' mf pf. accrueFee erc20_contract enabled_controller ''set'' 31557600 (sample_fee_module (2 * 10 ^ 16), minted_token)
      = Inr ((fm', st'), mf, pf) \<and>
    getStreamingFeeInflationAmount (2 * 10 ^ 16) (10 ^ 20) = Some (uint mf + uint pf) \<and>
    each_unit st' = map Inr (getPostFeePositionUnits [2 * 10 ^ 18] (2 * 10 ^ 16))"
proof -
  obtain fm' st' mf pf where r: "accrueFee erc20_contract enabled_controller ''set'' 31557600
      (sample_fee_module (2 * 10 ^ 16), minted_token) = Inr ((fm', st'), mf, pf)"
    by (rule outcome_Inr [OF sample_accrual])
  have m: "positionMultiplier minted_token = sol_preciseUnit" "uint (totalSupply (st_erc20 minted_token)) = 10 ^ 20"
    by (simp_all add: minted_token_def)
  have f: "sf_getFee (sample_fee_module (2 * 10 ^ 16)) ''set'' 31557600 = Inr (2 * 10 ^ 16)" by code_simp
  have u: "each_unit minted_token = map Inr [2 * 10 ^ 18]" by code_simp
  show ?thesis using r first_accrual_is_predicted [OF r repository_erc20.erc20_token_axioms m(1) f u] by (simp add: m)
qed

text \<open>
  C31. A fee left to run too long locks the module: once the fee due since the last accrual reaches one hundred percent,
  \<^verbatim>\<open>accrueFee\<close> reverts whatever the token's state, and \<^verbatim>\<open>updateStreamingFee\<close>, which accrues first, reverts
  for every new rate, so that the rate can never be corrected either.
\<close>

theorem overdue_fee_locks_module:
  assumes "PRECISE_UNIT * ONE_YEAR_IN_SECONDS \<le> (uint now - uint (fs_lastStreamingFeeTimestamp (feeStates fm self))) *
      uint (fs_streamingFeePercentage (feeStates fm self))"
  shows "(\<exists>e. accrueFee ops c self now (fm, st) = Inl e) \<and> (\<exists>e. updateStreamingFee ops c self sender now newFee (fm, st) = Inl e)"
proof -
  obtain e where "accrueFee ops c self now (fm, st) = Inl e" using overdue_accrual_reverts [OF assms] by blast
  then show ?thesis by (simp add: updateStreamingFee_def module_guards)
qed

theorem overdue_fee_locks_module_witness:
  "(\<exists>e. accrueFee erc20_contract enabled_controller ''set'' (50 * 31557600) (sample_fee_module (2 * 10 ^ 16), minted_token) = Inl e) \<and>
   (\<exists>e. updateStreamingFee erc20_contract enabled_controller ''set'' ''o'' (50 * 31557600) 0 (sample_fee_module (2 * 10 ^ 16), minted_token) = Inl e)"
  by (rule overdue_fee_locks_module)
     (simp add: sample_fee_module_def sample_fees_def PRECISE_UNIT_def ONE_YEAR_IN_SECONDS_def)

subsection \<open>Later accruals\<close>

text \<open>
  From the second accrual on the prediction can be off: the contract scales the multiplier and rounds once, the helper
  scales the unit, which is rounded already.
\<close>

lemma later_accruals_are_not_predicted:
  "\<exists>fm' st' mf pf st. accrueFee erc20_contract enabled_controller ''set'' 31557600 (sample_fee_module (10 ^ 17), st)
      = Inr ((fm', st'), mf, pf) \<and> each_unit st = [Inr 1] \<and> each_unit st' = [Inr 1] \<and>
    getPostFeePositionUnits [1] (10 ^ 17) = [0]"
proof -
  let ?st = "minted_token\<lparr>componentPositions := (\<lambda>_. no_position)(''t'' := no_position\<lparr>virtualUnit := 3\<rparr>),
    positionMultiplier := 5 * 10 ^ 17\<rparr>"
  have "outcome (accrueFee erc20_contract enabled_controller ''set'' 31557600 (sample_fee_module (10 ^ 17), ?st)) =
      Inr (111111111111111111111, 45 * 10 ^ 16, [Inr 1], 11111111111111111111, 0)"
    by code_simp
  then obtain fm' st' mf pf where "accrueFee erc20_contract enabled_controller ''set'' 31557600 (sample_fee_module (10 ^ 17), ?st)
      = Inr ((fm', st'), mf, pf)" "each_unit st' = [Inr 1]" by (rule outcome_Inr)
  moreover have "each_unit ?st = [Inr 1]" "getPostFeePositionUnits [1] (10 ^ 17) = [0]" by code_simp+
  ultimately show ?thesis by blast
qed

end
