(* ===== verification/Position_Lib.thy ===== *)
theory Position_Lib
  imports Issuance_Module
begin

section \<open>The library of positions\<close>

text \<open>
  Models contracts/protocol/lib/Position.sol, with which the modules read and edit the positions of a SetToken. The
  functions run in the module \<open>this\<close>, which is the sender of their calls of the SetToken.
\<close>

subsection \<open>Views\<close>

definition hasDefaultPosition :: "'e set_token \<Rightarrow> address \<Rightarrow> bool sol" where
  "hasDefaultPosition st component = map_sum id (\<lambda>u. 0 < sint u) (getDefaultPositionRealUnit st component)"

definition hasSufficientDefaultUnits :: "'e set_token \<Rightarrow> address \<Rightarrow> uint256 \<Rightarrow> bool sol" where
  "hasSufficientDefaultUnits st component unit =
     (case getDefaultPositionRealUnit st component of Inl m \<Rightarrow> Inl m
      | Inr u \<Rightarrow> map_sum id (\<lambda>n. sint n \<le> sint u) (toInt256 unit))"

definition hasSufficientExternalUnits :: "'e set_token \<Rightarrow> address \<Rightarrow> address \<Rightarrow> uint256 \<Rightarrow> bool sol" where
  "hasSufficientExternalUnits st component positionModule unit =
     (case getExternalPositionRealUnit st component positionModule of Inl m \<Rightarrow> Inl m
      | Inr u \<Rightarrow> map_sum id (\<lambda>n. sint n \<le> sint u) (toInt256 unit))"

definition getDefaultTotalNotional :: "uint256 \<Rightarrow> uint256 \<Rightarrow> uint256 sol" where
  "getDefaultTotalNotional setTokenSupply positionUnit = checked (sol_preciseMul setTokenSupply positionUnit)"

definition getDefaultPositionUnit :: "uint256 \<Rightarrow> uint256 \<Rightarrow> uint256 sol" where
  "getDefaultPositionUnit setTokenSupply totalNotional = checked (sol_preciseDiv totalNotional setTokenSupply)"

definition getDefaultTrackedBalance :: "'e erc20_ops \<Rightarrow> 'e set_token \<Rightarrow> address \<Rightarrow> uint256 sol" where
  "getDefaultTrackedBalance ops st component =
     (case getDefaultPositionRealUnit st component of Inl m \<Rightarrow> Inl m
      | Inr positionUnit \<Rightarrow> (case toUint256 positionUnit of Inl m \<Rightarrow> Inl m
        | Inr u \<Rightarrow> checked (sol_preciseMul (e_totalSupply ops (st_erc20 st)) u)))"

subsection \<open>Edits\<close>

definition editDefaultPosition :: "controller_state \<Rightarrow> address \<Rightarrow> address \<Rightarrow> uint256 \<Rightarrow> 'e set_token \<Rightarrow> 'e set_token sol" where
  "editDefaultPosition c this component newUnit st =
     (case hasDefaultPosition st component of Inl m \<Rightarrow> Inl m
      | Inr isPositionFound \<Rightarrow>
        (case (if \<not> isPositionFound \<and> 0 < newUnit
               then (if \<not> hasExternalPosition st component then addComponent c this component st else Inr st)
               else if isPositionFound \<and> newUnit = 0
               then (if \<not> hasExternalPosition st component then removeComponent c this component st else Inr st)
               else Inr st) of Inl m \<Rightarrow> Inl m
         | Inr st \<Rightarrow> (case toInt256 newUnit of Inl m \<Rightarrow> Inl m
           | Inr u \<Rightarrow> editDefaultPositionUnit c this component u st)))"

definition editExternalPosition :: "controller_state \<Rightarrow> address \<Rightarrow> address \<Rightarrow> address \<Rightarrow> int256 \<Rightarrow> bytes \<Rightarrow> 'e set_token
    \<Rightarrow> 'e set_token sol" where
  "editExternalPosition c this component m newUnit data' st =
     (if newUnit \<noteq> 0
      then (case (if \<not> isComponent st component
                  then (case addComponent c this component st of Inl e \<Rightarrow> Inl e
                    | Inr st \<Rightarrow> addExternalPositionModule c this component m st)
                  else if \<not> isExternalPositionModule st component m then addExternalPositionModule c this component m st
                  else Inr st) of Inl e \<Rightarrow> Inl e
        | Inr st \<Rightarrow> (case editExternalPositionUnit c this component m newUnit st of Inl e \<Rightarrow> Inl e
          | Inr st \<Rightarrow> editExternalPositionData c this component m data' st))
      else if data' \<noteq> [] then Inl ''Passed data must be null''
      else (case getExternalPositionRealUnit st component m of Inl e \<Rightarrow> Inl e
        | Inr external \<Rightarrow> if external \<noteq> 0
          then (let positionModules = getExternalPositionModules st component in
            case getDefaultPositionRealUnit st component of Inl e \<Rightarrow> Inl e
            | Inr defaultUnit \<Rightarrow>
              (case (if defaultUnit = 0 \<and> length positionModules = 1
                     then (if positionModules ! 0 \<noteq> m then Inl ''External positions must be 0 to remove component''
                       else removeComponent c this component st)
                     else Inr st) of Inl e \<Rightarrow> Inl e
               | Inr st \<Rightarrow> removeExternalPositionModule c this component m st))
          else Inr st))"

definition calculateDefaultEditPositionUnit :: "uint256 \<Rightarrow> uint256 \<Rightarrow> uint256 \<Rightarrow> uint256 \<Rightarrow> uint256 option" where
  "calculateDefaultEditPositionUnit setTokenSupply preTotalNotional postTotalNotional prePositionUnit = do {
     tracked \<leftarrow> sol_preciseMul prePositionUnit setTokenSupply;
     airdroppedAmount \<leftarrow> safe_sub preTotalNotional tracked;
     rest \<leftarrow> safe_sub postTotalNotional airdroppedAmount;
     sol_preciseDiv rest setTokenSupply
   }"

text \<open>\<open>currentBalance\<close> is the token's answer to \<^verbatim>\<open>balanceOf\<close>. Returned: it, the unit before and the unit after.\<close>

definition calculateAndEditDefaultPosition :: "controller_state \<Rightarrow> address \<Rightarrow> address \<Rightarrow> uint256 \<Rightarrow> uint256 \<Rightarrow> uint256
    \<Rightarrow> 'e set_token \<Rightarrow> ('e set_token \<times> uint256 \<times> uint256 \<times> uint256) sol" where
  "calculateAndEditDefaultPosition c this component setTotalSupply componentPreviousBalance currentBalance st =
     (case getDefaultPositionRealUnit st component of Inl m \<Rightarrow> Inl m
      | Inr u \<Rightarrow> (case toUint256 u of Inl m \<Rightarrow> Inl m
      | Inr positionUnit \<Rightarrow>
        (case (if 0 < currentBalance
               then checked (calculateDefaultEditPositionUnit setTotalSupply componentPreviousBalance currentBalance positionUnit)
               else Inr 0) of Inl m \<Rightarrow> Inl m
         | Inr newTokenUnit \<Rightarrow> (case editDefaultPosition c this component newTokenUnit st of Inl m \<Rightarrow> Inl m
           | Inr st \<Rightarrow> Inr (st, currentBalance, positionUnit, newTokenUnit)))))"

subsection \<open>What an edit changes\<close>

lemma removeComponent_Inr:
  assumes "removeComponent c s a st = Inr st'" "distinct (st_components st)"
  obtains l where "st' = st\<lparr>st_components := l\<rparr>" "set l = set (st_components st) - {a}" "distinct l"
  using assms by (auto simp: removeComponent_def privileged_Inr split: sum.splits dest!: removeStorage_Inr)

text \<open>The first half of an edit changes only the array of components.\<close>

lemma editDefaultPosition_parts:
  assumes "editDefaultPosition c this a n st = Inr st'" "distinct (st_components st)"
  obtains l u where "toInt256 n = Inr u" "editDefaultPositionUnit c this a u (st\<lparr>st_components := l\<rparr>) = Inr st'"
    "distinct l" "set l \<subseteq> insert a (set (st_components st))" "set (st_components st) - {a} \<subseteq> set l"
    "a \<in> set l \<or> n = 0 \<or> (\<exists>u. getDefaultPositionRealUnit st a = Inr u \<and> 0 < sint u) \<or> hasExternalPosition st a"
proof -
  obtain found st1 u where found: "hasDefaultPosition st a = Inr found" and u: "toInt256 n = Inr u"
    and st1: "(if \<not> found \<and> 0 < n then (if \<not> hasExternalPosition st a then addComponent c this a st else Inr st)
               else if found \<and> n = 0 then (if \<not> hasExternalPosition st a then removeComponent c this a st else Inr st)
               else Inr st) = Inr st1"
    and edit: "editDefaultPositionUnit c this a u st1 = Inr st'"
    using assms(1) unfolding editDefaultPosition_def by (auto split: sum.splits)
  have id: "st\<lparr>st_components := st_components st\<rparr> = st" by simp
  consider (add) "\<not> found" "0 < n" "\<not> hasExternalPosition st a" | (remove) "found" "n = 0" "\<not> hasExternalPosition st a"
    | (same) "st1 = st" "found \<or> n = 0 \<or> hasExternalPosition st a"
    using st1 by (auto split: if_splits simp: word_neq_0_conv [symmetric])
  then show ?thesis
  proof cases
    case add
    then have "addComponent c this a st = Inr st1" using st1 by simp
    then have "st1 = st\<lparr>st_components := st_components st @ [a]\<rparr>" "a \<notin> set (st_components st)"
      by (auto simp: addComponent_def privileged_Inr isComponent_def contains_def indexOf_None_iff split: if_splits)
    then show ?thesis using that [OF u, of "st_components st @ [a]"] edit assms(2) by auto
  next
    case remove
    then have "removeComponent c this a st = Inr st1" using st1 by simp
    then obtain l where "st1 = st\<lparr>st_components := l\<rparr>" "set l = set (st_components st) - {a}" "distinct l"
      using removeComponent_Inr [OF _ assms(2)] by blast
    then show ?thesis using that [OF u, of l] edit remove(2) by auto
  next
    case same
    have "found \<Longrightarrow> \<exists>u. getDefaultPositionRealUnit st a = Inr u \<and> 0 < sint u"
      using found by (cases "getDefaultPositionRealUnit st a") (auto simp: hasDefaultPosition_def)
    then show ?thesis using that [OF u, of "st_components st"] edit same assms(2) id by auto
  qed
qed

lemma real_unit_components [simp]:
  "getDefaultPositionRealUnit (st\<lparr>st_components := l\<rparr>) a = getDefaultPositionRealUnit st a"
  "positionMultiplier (st\<lparr>st_components := l\<rparr>) = positionMultiplier st"
  by (simp_all add: getDefaultPositionRealUnit_def convertVirtualToRealUnit_def defaultPositionVirtualUnit_def)

text \<open>What an edit leaves alone.\<close>

definition same_but_positions :: "'e set_token \<Rightarrow> 'e set_token \<Rightarrow> bool" where
  "same_but_positions st st' \<longleftrightarrow> st_erc20 st' = st_erc20 st \<and> positionMultiplier st' = positionMultiplier st \<and>
     st_manager st' = st_manager st \<and> moduleStates st' = moduleStates st \<and> st_modules st' = st_modules st \<and>
     isLocked st' = isLocked st \<and> st_locker st' = st_locker st \<and>
     (\<forall>b. getExternalPositionModules st' b = getExternalPositionModules st b)"

lemma same_but_positions_trans:
  "same_but_positions st st1 \<Longrightarrow> same_but_positions st1 st2 \<Longrightarrow> same_but_positions st st2"
  by (simp add: same_but_positions_def)

lemma editDefaultPosition_Inr:
  assumes "editDefaultPosition c this a n st = Inr st'" "set_inv st"
  shows "same_but_positions st st' \<and> set_inv st' \<and> set (st_components st') \<subseteq> insert a (set (st_components st)) \<and>
    set (st_components st) - {a} \<subseteq> set (st_components st') \<and>
    (\<exists>u. getDefaultPositionRealUnit st' a = Inr u \<and> sint u \<le> uint n \<and> 0 \<le> sint u \<and> (0 < uint n \<longrightarrow> 0 < sint u) \<and>
      (uint n - sint u - 1) * PRECISE_UNIT < sint (positionMultiplier st)) \<and>
    (\<forall>b. b \<noteq> a \<longrightarrow> getDefaultPositionRealUnit st' b = getDefaultPositionRealUnit st b)"
proof -
  have d: "distinct (st_components st)" and m: "0 < sint (positionMultiplier st)" using assms(2) by (simp_all add: set_inv_def)
  obtain l u where l: "toInt256 n = Inr u" "editDefaultPositionUnit c this a u (st\<lparr>st_components := l\<rparr>) = Inr st'"
    "distinct l" "set l \<subseteq> insert a (set (st_components st))" "set (st_components st) - {a} \<subseteq> set l"
    by (rule editDefaultPosition_parts [OF assms(1) d])
  have u: "u = n" "sint u = uint n" using l(1) by (simp_all add: uint_small_sint)
  obtain v where v: "st' = set_position a (virtualUnit_update (\<lambda>_. v)) (st\<lparr>st_components := l\<rparr>)"
    by (rule editDefaultPositionUnit_Inr [OF l(2)])
  have "same_but_positions st st'"
    by (simp add: v same_but_positions_def set_position_def getExternalPositionModules_def)
  moreover have "set_inv st'" using assms(2) l(3) by (auto simp: v set_inv_def set_position_def)
  moreover have "st_components st' = l" by (simp add: v set_position_def)
  moreover note editDefaultPositionUnit_read [OF l(2)]
  ultimately show ?thesis using l(4,5) m u(2) by simp
qed

lemma sol_preciseMul_floor: "sol_preciseMul a b = Some q \<Longrightarrow> uint q = uint a * uint b div PRECISE_UNIT"
  using sol_preciseMul_uint [of a b] by (auto simp: preciseMul_def split: if_splits)

lemma sol_preciseDiv_floor: "sol_preciseDiv a b = Some q \<Longrightarrow> uint b \<noteq> 0 \<and> uint q = uint a * PRECISE_UNIT div uint b"
  using sol_preciseDiv_uint [of a b] by (cases "uint b = 0") (auto simp: preciseDiv_def split: if_splits)

lemma calculateDefaultEditPositionUnit_Inr:
  assumes "calculateDefaultEditPositionUnit S pre post unit = Some n"
  shows "uint S \<noteq> 0 \<and> uint unit * uint S div PRECISE_UNIT \<le> uint pre \<and> 0 \<le> uint post - (uint pre - uint unit * uint S div PRECISE_UNIT) \<and>
    uint n = (uint post - (uint pre - uint unit * uint S div PRECISE_UNIT)) * PRECISE_UNIT div uint S"
proof -
  obtain tr air rest where s: "sol_preciseMul unit S = Some tr" "safe_sub pre tr = Some air" "safe_sub post air = Some rest"
    "sol_preciseDiv rest S = Some n"
    using assms by (auto simp: calculateDefaultEditPositionUnit_def)
  have "uint rest = uint post - uint air" "uint air \<le> uint post" using safe_sub_Some [OF s(3)] by simp_all
  moreover have "uint air = uint pre - uint tr" "uint tr \<le> uint pre" using safe_sub_Some [OF s(2)] by simp_all
  ultimately show ?thesis using sol_preciseMul_floor [OF s(1)] sol_preciseDiv_floor [OF s(4)] by simp
qed

text \<open>The edit after a transfer: the new unit is covered by the balance that is not an airdrop.\<close>

lemma calculateAndEdit_Inr:
  assumes "calculateAndEditDefaultPosition c this a S pre cur st = Inr (st', cur', pu, n)" "set_inv st"
  obtains "cur' = cur" "getDefaultPositionRealUnit st a = Inr pu" "0 \<le> sint pu" "editDefaultPosition c this a n st = Inr st'"
    "if 0 < cur then calculateDefaultEditPositionUnit S pre cur pu = Some n else n = 0"
    "uint n * uint S \<le> uint cur * PRECISE_UNIT"
proof -
  have parts: "cur' = cur" "getDefaultPositionRealUnit st a = Inr pu" "0 \<le> sint pu" "editDefaultPosition c this a n st = Inr st'"
    "if 0 < cur then calculateDefaultEditPositionUnit S pre cur pu = Some n else n = 0"
    using assms(1) by (auto simp: calculateAndEditDefaultPosition_def split: sum.splits if_splits)
  have "uint n * uint S \<le> uint cur * PRECISE_UNIT"
  proof (cases "0 < cur")
    case True
    then have "calculateDefaultEditPositionUnit S pre cur pu = Some n" using parts(5) by simp
    note d = calculateDefaultEditPositionUnit_Inr [OF this]
    define r where "r = uint cur - (uint pre - uint pu * uint S div PRECISE_UNIT)"
    have "0 < uint S" using d by (simp add: order_less_le)
    then have "uint n * uint S \<le> r * PRECISE_UNIT"
      using d floor_div_bounds(1) [of "uint S" "r * PRECISE_UNIT"] by (simp add: r_def mult.commute)
    moreover have "r \<le> uint cur" using d by (simp add: r_def)
    then have "r * PRECISE_UNIT \<le> uint cur * PRECISE_UNIT" by (simp add: mult_right_mono)
    ultimately show ?thesis by linarith
  qed (use parts(5) in simp)
  then show ?thesis using parts that by blast
qed

lemma calculateAndEdit_covered:
  assumes "calculateAndEditDefaultPosition c this a S pre cur st = Inr (st', cur', pu, n)" "set_inv st"
  shows "same_but_positions st st' \<and> set_inv st' \<and> set (st_components st') \<subseteq> insert a (set (st_components st)) \<and>
    (\<exists>u. getDefaultPositionRealUnit st' a = Inr u \<and> uint S * sint u \<le> uint cur * PRECISE_UNIT \<and> 0 \<le> sint u) \<and>
    (\<forall>b. b \<noteq> a \<longrightarrow> getDefaultPositionRealUnit st' b = getDefaultPositionRealUnit st b)"
proof (rule calculateAndEdit_Inr [OF assms])
  assume e: "editDefaultPosition c this a n st = Inr st'" and n: "uint n * uint S \<le> uint cur * PRECISE_UNIT"
  note r = editDefaultPosition_Inr [OF e assms(2)]
  then obtain u where u: "getDefaultPositionRealUnit st' a = Inr u" "sint u \<le> uint n" "0 \<le> sint u" by blast
  have "uint S * sint u \<le> uint S * uint n" using u(2) by (simp add: mult_left_mono)
  also have "\<dots> \<le> uint cur * PRECISE_UNIT" using n by (simp add: mult.commute)
  finally show ?thesis using r u by blast
qed

subsection \<open>External positions\<close>

lemma removeStorage_last: "a \<notin> set A \<Longrightarrow> removeStorage (A @ [a]) a = Inr A"
proof -
  have "indexOf_from k (A @ [a]) a = Some (k + length A)" if "a \<notin> set A" for k
    using that by (induction A arbitrary: k) auto
  moreover assume "a \<notin> set A"
  ultimately show ?thesis by (simp add: removeStorage_def indexOf_def)
qed

text \<open>A negative unit is stored as a negative virtual unit and read back as a negative unit.\<close>

lemma floor_floor_nonzero:
  fixes u m :: int
  assumes "u \<noteq> 0" "0 < m" "0 < u \<longrightarrow> u * PRECISE_UNIT div m * m div PRECISE_UNIT \<noteq> 0"
  shows "u * PRECISE_UNIT div m * m div PRECISE_UNIT \<noteq> 0"
proof (cases "0 < u")
  case False
  then have "u * PRECISE_UNIT < 0" using assms(1) by (simp add: mult_neg_pos)
  moreover have "u * PRECISE_UNIT div m * m \<le> u * PRECISE_UNIT"
    using floor_div_bounds(1) [OF assms(2), of "u * PRECISE_UNIT"] by (simp add: mult.commute)
  ultimately have "u * PRECISE_UNIT div m * m < 0" by linarith
  then have "u * PRECISE_UNIT div m * m div PRECISE_UNIT < 0" using PRECISE_UNIT_pos by (simp only: pos_imp_zdiv_neg_iff)
  then show ?thesis by simp
qed (use assms(3) in simp)

lemma editExternalPositionUnit_Inr:
  assumes "editExternalPositionUnit c sender a m r st = Inr st'" "0 < sint (positionMultiplier st)" "r \<noteq> 0"
  obtains v where "st' = set_external a m (ep_virtualUnit_update (\<lambda>_. v)) st"
    "\<And>u. convertVirtualToRealUnit st v = Inr u \<Longrightarrow> u \<noteq> 0"
proof -
  from assms(1) obtain v where v: "convertRealToVirtualUnit st r = Inr v" "st' = set_external a m (ep_virtualUnit_update (\<lambda>_. v)) st"
    by (auto simp: editExternalPositionUnit_def privileged_Inr split: sum.splits)
  have div: "sol_conservativePreciseDiv r (positionMultiplier st) = Some v"
    and again: "0 < sint r \<longrightarrow> (\<exists>u. convertVirtualToRealUnit st v = Inr u \<and> u \<noteq> 0)"
    using v(1) by (auto simp: convertRealToVirtualUnit_def split: sum.splits if_splits)
  have sv: "sint v = sint r * PRECISE_UNIT div sint (positionMultiplier st)" using conservativePreciseDiv_Some [OF div] by simp
  have r0: "sint r \<noteq> 0" using assms(3) by (simp add: signed_eq_0_iff)
  have "u \<noteq> 0" if u: "convertVirtualToRealUnit st v = Inr u" for u
  proof -
    have su: "sint u = sint v * sint (positionMultiplier st) div PRECISE_UNIT" by (rule real_unit_sint [OF u])
    have "0 < sint r \<longrightarrow> sint u \<noteq> 0" using again u by (auto simp: signed_eq_0_iff)
    then have "sint u \<noteq> 0" using floor_floor_nonzero [OF r0 assms(2)] su sv by simp
    then show ?thesis by auto
  qed
  then show ?thesis using that v(2) by blast
qed

subsection \<open>Properties\<close>

text \<open>
  C19. An external position that is opened and then closed leaves no trace, on every component that is listed exactly when
  it has a position, held or not, with or without positions of other modules, asset or debt: closing it restores
  the SetToken exactly, so a component enters and leaves the list with its only position and stays with any other.
\<close>

theorem external_position_roundtrip:
  assumes "editExternalPosition c this a m u data' st = Inr st1" and "u \<noteq> 0" and "set_inv st"
    and "m \<notin> set (getExternalPositionModules st a)" and "externalPositions (componentPositions st a) m = \<lparr>ep_virtualUnit = 0, ep_data = []\<rparr>"
    and "getDefaultPositionRealUnit st a = Inr d" and "isComponent st a \<longleftrightarrow> d \<noteq> 0 \<or> getExternalPositionModules st a \<noteq> []"
    and "getExternalPositionRealUnit st1 a m = Inr r"
  shows "editExternalPosition c this a m 0 [] st1 = Inr st"
proof -
  let ?mods = "getExternalPositionModules st a"
  let ?comps = "if isComponent st a then st_components st else st_components st @ [a]"
  let ?add = "set_position a (externalPositionModules_update (\<lambda>l. l @ [m])) (st\<lparr>st_components := ?comps\<rparr>)"
  have mult: "0 < sint (positionMultiplier st)" using assms(3) by (simp add: set_inv_def)
  have fresh: "\<not> isExternalPositionModule st a m"
    using assms(4) by (simp add: isExternalPositionModule_def getExternalPositionModules_def contains_def indexOf_None_iff)
  obtain st2 where unit: "editExternalPositionUnit c this a m u ?add = Inr st2" and dat: "editExternalPositionData c this a m data' st2 = Inr st1"
    and p: "moduleStates st this = INITIALIZED" "isModule c this" "isLocked st \<longrightarrow> this = st_locker st"
    using assms(1,2) fresh by (auto simp: editExternalPosition_def addComponent_def addExternalPositionModule_def privileged_Inr split: sum.splits if_splits)
  obtain v where v: "st2 = set_external a m (ep_virtualUnit_update (\<lambda>_. v)) ?add"
    "\<And>u. convertVirtualToRealUnit ?add v = Inr u \<Longrightarrow> u \<noteq> 0"
    by (rule editExternalPositionUnit_Inr [OF unit]) (use mult assms(2) in \<open>simp_all add: set_position_def\<close>)
  have "st1 = set_external a m (ep_data_update (\<lambda>_. data')) st2" using dat by (simp add: editExternalPositionData_def privileged_Inr)
  note st1 = this [unfolded v(1)] and flds = set_external_def set_position_def
  have "convertVirtualToRealUnit ?add v = Inr r"
    using assms(8) by (simp add: st1 getExternalPositionRealUnit_def convertVirtualToRealUnit_def externalPositionVirtualUnit_def flds)
  then have r: "r \<noteq> 0" by (rule v(2))
  have mods: "getExternalPositionModules st1 a = ?mods @ [m]" by (simp add: st1 getExternalPositionModules_def flds)
  have dflt: "getDefaultPositionRealUnit st1 a = Inr d"
    using assms(6) by (simp add: st1 getDefaultPositionRealUnit_def convertVirtualToRealUnit_def defaultPositionVirtualUnit_def flds)
  have last: "d = 0 \<and> length (?mods @ [m]) = 1 \<longleftrightarrow> \<not> isComponent st a" using assms(7) by auto
  have rem: "\<not> isComponent st a \<Longrightarrow> removeComponent c this a st1 = Inr (st1\<lparr>st_components := st_components st\<rparr>)"
    using p by (simp add: removeComponent_def privileged_Inr st1 flds removeStorage_last isComponent_def contains_def indexOf_None_iff)
  have "removeExternalPositionModule c this a m (st1\<lparr>st_components := st_components st\<rparr>) = Inr st"
    using p assms(4,5) removeStorage_last [of m ?mods]
    by (simp add: removeExternalPositionModule_def privileged_Inr st1 flds getExternalPositionModules_def)
      (simp add: fun_upd_idem)
  moreover have "isComponent st a \<Longrightarrow> st1\<lparr>st_components := st_components st\<rparr> = st1" by (simp add: st1 flds)
  ultimately show ?thesis using assms(8) r mods dflt rem last by (cases "isComponent st a") (auto simp: editExternalPosition_def Let_def)
qed

theorem external_position_roundtrip_witness:
  "\<exists>st1 st2. editExternalPosition sample_controller ''m'' ''d'' ''m'' (- 5) ''debt'' sample_token = Inr st1 \<and>
     st_components st1 = [''t'', ''d''] \<and> editExternalPosition sample_controller ''m'' ''d'' ''m'' 0 [] st1 = Inr sample_token \<and>
     editExternalPosition sample_controller ''m'' ''t'' ''m'' 7 [] sample_token = Inr st2 \<and>
     st_components st2 = [''t''] \<and> editExternalPosition sample_controller ''m'' ''t'' ''m'' 0 [] st2 = Inr sample_token"
proof -
  let ?run = "\<lambda>a u data'. editExternalPosition sample_controller ''m'' a ''m'' u data' sample_token"
  have "map_sum id (\<lambda>st. (st_components st, getExternalPositionRealUnit st ''d'' ''m'')) (?run ''d'' (- 5) ''debt'') = Inr ([''t'', ''d''], Inr (- 5))"
    "map_sum id (\<lambda>st. (st_components st, getExternalPositionRealUnit st ''t'' ''m'')) (?run ''t'' 7 []) = Inr ([''t''], Inr 7)" by code_simp+
  then obtain st1 st2 where r: "?run ''d'' (- 5) ''debt'' = Inr st1" "getExternalPositionRealUnit st1 ''d'' ''m'' = Inr (- 5)" "st_components st1 = [''t'', ''d'']"
    "?run ''t'' 7 [] = Inr st2" "getExternalPositionRealUnit st2 ''t'' ''m'' = Inr 7" "st_components st2 = [''t'']"
    by (cases "?run ''d'' (- 5) ''debt''"; cases "?run ''t'' 7 []") auto
  have inv: "set_inv sample_token" by (simp add: set_inv_def sample_token_def no_position_def PRECISE_UNIT_def)
  have d: "getDefaultPositionRealUnit sample_token ''d'' = Inr 0" "getDefaultPositionRealUnit sample_token ''t'' = Inr (2 * 10 ^ 18)" by code_simp+
  have p: "isComponent sample_token ''t''" "\<not> isComponent sample_token ''d''" "getExternalPositionModules sample_token b = []"
    "externalPositions (componentPositions sample_token b) ''m'' = \<lparr>ep_virtualUnit = 0, ep_data = []\<rparr>" for b
    by (simp_all add: isComponent_def contains_def indexOf_None_iff getExternalPositionModules_def sample_token_def no_position_def)
  have "editExternalPosition sample_controller ''m'' ''d'' ''m'' 0 [] st1 = Inr sample_token"
    by (rule external_position_roundtrip [OF r(1) _ inv _ _ d(1) _ r(2)]) (simp_all add: p)
  moreover have "editExternalPosition sample_controller ''m'' ''t'' ''m'' 0 [] st2 = Inr sample_token"
    by (rule external_position_roundtrip [OF r(4) _ inv _ _ d(2) _ r(5)]) (simp_all add: p)
  ultimately show ?thesis using r by blast
qed

end
