(* ===== verification/Auction_Price_Adapters.thy ===== *)
theory Auction_Price_Adapters
  imports Precise_Unit_Math
begin

section \<open>Price adapters of the auctions\<close>

text \<open>
  Models the four adapters under contracts/protocol/integration/auction-price: the constant price, and the bounded
  prices that move in steps, linearly, exponentially and logarithmically. The functions \<open>expWad\<close> and \<open>lnWad\<close> of the
  fixed point library, a package outside the repository, are parameters; its \<^verbatim>\<open>max\<close> and \<^verbatim>\<open>min\<close> are those of the
  unsigned order. Arithmetic is checked: an overflow panics. Configurations are ABI encoded words.
\<close>

subsection \<open>ABI encoding of words\<close>

fun be_bytes :: "nat \<Rightarrow> int \<Rightarrow> bytes" where
  "be_bytes 0 n = []"
| "be_bytes (Suc k) n = be_bytes k (n div 256) @ [char_of n]"

definition be_value :: "bytes \<Rightarrow> int" where
  "be_value bs = foldl (\<lambda>a c. a * 256 + of_char c) 0 bs"

definition abi_encode :: "uint256 list \<Rightarrow> bytes" where
  "abi_encode ws = concat (map (\<lambda>w. be_bytes 32 (uint w)) ws)"

fun abi_decode :: "nat \<Rightarrow> bytes \<Rightarrow> uint256 list sol" where
  "abi_decode 0 bs = Inr []"
| "abi_decode (Suc n) bs = (if length bs < 32 then Inl []
     else map_sum id (Cons (word_of_int (be_value (take 32 bs)))) (abi_decode n (drop 32 bs)))"

definition bool_word :: "bool \<Rightarrow> uint256" where
  "bool_word b = (if b then 1 else 0)"

definition word_bool :: "uint256 \<Rightarrow> bool sol" where
  "word_bool w = (if w = 0 then Inr False else if w = 1 then Inr True else Inl [])"

lemma length_be_bytes [simp]: "length (be_bytes k n) = k"
  by (induction k arbitrary: n) auto

lemma be_value_be_bytes: "be_value (be_bytes k n) = n mod 256 ^ k"
proof (induction k arbitrary: n)
  case (Suc k)
  have "be_value (be_bytes (Suc k) n) = n div 256 mod 256 ^ k * 256 + n mod 256"
    using Suc [of "n div 256"] by (simp add: be_value_def of_char_of)
  also have "\<dots> = n mod (256 * 256 ^ k)" by (simp add: mod_mult2_eq [of _ 256 "256 ^ k"] zmod_zmult2_eq mult.commute)
  finally show ?case by simp
qed (simp add: be_value_def)

lemma abi_roundtrip: "abi_decode (length ws) (abi_encode ws) = Inr ws"
proof (induction ws)
  case (Cons w ws)
  have "be_value (be_bytes 32 (uint w)) = uint w"
    using uint_less_256 [of w] by (simp add: be_value_be_bytes)
  then show ?case using Cons by (simp add: abi_encode_def)
qed (simp add: abi_encode_def)

subsection \<open>ConstantPriceAdapter.sol\<close>

definition constant_getEncodedData :: "uint256 \<Rightarrow> bytes" where
  "constant_getEncodedData price = abi_encode [price]"

definition constant_getDecodedData :: "bytes \<Rightarrow> uint256 sol" where
  "constant_getDecodedData data' = map_sum id hd (abi_decode 1 data')"

definition constant_getPrice :: "uint256 \<Rightarrow> bytes \<Rightarrow> uint256 sol" where
  "constant_getPrice timeElapsed config =
     (case constant_getDecodedData config of Inl m \<Rightarrow> Inl m
      | Inr price \<Rightarrow> if 0 < price then Inr price else Inl ''ConstantPriceAdapter: Price must be greater than 0'')"

definition constant_isValid :: "bytes \<Rightarrow> bool sol" where
  "constant_isValid config = map_sum id (\<lambda>price. 0 < price) (constant_getDecodedData config)"

subsection \<open>BoundedStepwiseLinearPriceAdapter.sol\<close>

definition linear_areParamsValid :: "uint256 \<Rightarrow> uint256 \<Rightarrow> uint256 \<Rightarrow> uint256 \<Rightarrow> uint256 \<Rightarrow> bool" where
  "linear_areParamsValid initialPrice slope bucketSize maxPrice minPrice \<longleftrightarrow>
     0 < initialPrice \<and> 0 < slope \<and> 0 < bucketSize \<and> initialPrice \<le> maxPrice \<and> minPrice \<le> initialPrice"

definition linear_getEncodedData :: "uint256 \<Rightarrow> uint256 \<Rightarrow> uint256 \<Rightarrow> bool \<Rightarrow> uint256 \<Rightarrow> uint256 \<Rightarrow> bytes" where
  "linear_getEncodedData initialPrice slope bucketSize isDecreasing maxPrice minPrice =
     abi_encode [initialPrice, slope, bucketSize, bool_word isDecreasing, maxPrice, minPrice]"

definition linear_getDecodedData :: "bytes \<Rightarrow> (uint256 \<times> uint256 \<times> uint256 \<times> bool \<times> uint256 \<times> uint256) sol" where
  "linear_getDecodedData data' = (case abi_decode 6 data' of Inl m \<Rightarrow> Inl m
     | Inr ws \<Rightarrow> map_sum id (\<lambda>d. (ws ! 0, ws ! 1, ws ! 2, d, ws ! 4, ws ! 5)) (word_bool (ws ! 3)))"

text \<open>The last steps the three moving prices share: the change is taken from or added to the initial price.\<close>

definition bounded_price :: "bool \<Rightarrow> uint256 \<Rightarrow> uint256 \<Rightarrow> uint256 \<Rightarrow> uint256 \<Rightarrow> uint256" where
  "bounded_price isDecreasing initialPrice priceChange maxPrice minPrice =
     (if isDecreasing
      then (if initialPrice < priceChange then minPrice else max (initialPrice - priceChange) minPrice)
      else (if - 1 - initialPrice < priceChange then maxPrice else min (initialPrice + priceChange) maxPrice))"

definition getBoundaryPrice :: "bool \<Rightarrow> uint256 \<Rightarrow> uint256 \<Rightarrow> uint256" where
  "getBoundaryPrice isDecreasing maxPrice minPrice = (if isDecreasing then minPrice else maxPrice)"

definition linear_price :: "uint256 \<Rightarrow> uint256 \<times> uint256 \<times> uint256 \<times> bool \<times> uint256 \<times> uint256 \<Rightarrow> uint256 sol" where
  "linear_price timeElapsed = (\<lambda>(initialPrice, slope, bucketSize, isDecreasing, maxPrice, minPrice).
     if \<not> linear_areParamsValid initialPrice slope bucketSize maxPrice minPrice
     then Inl ''BoundedStepwiseLinearPriceAdapter: Invalid params''
     else let bucket = timeElapsed div bucketSize in
       if (- 1) div slope < bucket then Inr (getBoundaryPrice isDecreasing maxPrice minPrice)
       else Inr (bounded_price isDecreasing initialPrice (bucket * slope) maxPrice minPrice))"

definition linear_getPrice :: "uint256 \<Rightarrow> bytes \<Rightarrow> uint256 sol" where
  "linear_getPrice timeElapsed config =
     (case linear_getDecodedData config of Inl m \<Rightarrow> Inl m | Inr params \<Rightarrow> linear_price timeElapsed params)"

definition linear_isValid :: "bytes \<Rightarrow> bool sol" where
  "linear_isValid config = map_sum id (\<lambda>(initialPrice, slope, bucketSize, _, maxPrice, minPrice).
     linear_areParamsValid initialPrice slope bucketSize maxPrice minPrice) (linear_getDecodedData config)"

subsection \<open>BoundedStepwiseExponentialPriceAdapter.sol and BoundedStepwiseLogarithmicPriceAdapter.sol\<close>

definition curve_areParamsValid :: "uint256 \<Rightarrow> uint256 \<Rightarrow> uint256 \<Rightarrow> uint256 \<Rightarrow> uint256 \<Rightarrow> uint256 \<Rightarrow> bool" where
  "curve_areParamsValid initialPrice scalingFactor timeCoefficient bucketSize maxPrice minPrice \<longleftrightarrow>
     0 < initialPrice \<and> 0 < scalingFactor \<and> 0 < timeCoefficient \<and> 0 < bucketSize \<and> initialPrice \<le> maxPrice \<and> minPrice \<le> initialPrice"

definition curve_getEncodedData :: "uint256 \<Rightarrow> uint256 \<Rightarrow> uint256 \<Rightarrow> uint256 \<Rightarrow> bool \<Rightarrow> uint256 \<Rightarrow> uint256 \<Rightarrow> bytes" where
  "curve_getEncodedData initialPrice scalingFactor timeCoefficient bucketSize isDecreasing maxPrice minPrice =
     abi_encode [initialPrice, scalingFactor, timeCoefficient, bucketSize, bool_word isDecreasing, maxPrice, minPrice]"

definition curve_getDecodedData :: "bytes \<Rightarrow> (uint256 \<times> uint256 \<times> uint256 \<times> uint256 \<times> bool \<times> uint256 \<times> uint256) sol" where
  "curve_getDecodedData data' = (case abi_decode 7 data' of Inl m \<Rightarrow> Inl m
     | Inr ws \<Rightarrow> map_sum id (\<lambda>d. (ws ! 0, ws ! 1, ws ! 2, ws ! 3, d, ws ! 5, ws ! 6)) (word_bool (ws ! 4)))"

definition MAX_EXP_ARG :: int where "MAX_EXP_ARG = 100 * 10 ^ 18"
definition MAX_LOG_ARG :: int where "MAX_LOG_ARG = 2 ^ 254 - 1"

text \<open>The product of two words is cast to a signed word, which may turn it negative.\<close>

definition exponential_price :: "(int256 \<Rightarrow> int256 sol) \<Rightarrow> uint256
    \<Rightarrow> uint256 \<times> uint256 \<times> uint256 \<times> uint256 \<times> bool \<times> uint256 \<times> uint256 \<Rightarrow> uint256 sol" where
  "exponential_price expWad timeElapsed =
    (\<lambda>(initialPrice, scalingFactor, timeCoefficient, bucketSize, isDecreasing, maxPrice, minPrice).
     if \<not> curve_areParamsValid initialPrice scalingFactor timeCoefficient bucketSize maxPrice minPrice
     then Inl ''BoundedStepwiseExponentialPriceAdapter: Invalid params''
     else let timeBucket = timeElapsed div bucketSize; boundary = getBoundaryPrice isDecreasing maxPrice minPrice in
       if (- 1) div timeCoefficient < timeBucket then Inr boundary
       else let expArgument = timeCoefficient * timeBucket in
         if MAX_EXP_ARG < sint expArgument then Inr boundary
         else case expWad expArgument of Inl m \<Rightarrow> Inl m
         | Inr expExpression \<Rightarrow>
           if expExpression = 0 then Inl ''Panic: division by zero''
           else if (- 1) div expExpression < scalingFactor then Inr boundary
           else (case safe_sub (scalingFactor * expExpression) sol_preciseUnit of None \<Rightarrow> Inl ''Panic: underflow''
             | Some priceChange \<Rightarrow> Inr (bounded_price isDecreasing initialPrice priceChange maxPrice minPrice)))"

definition exponential_getPrice :: "(int256 \<Rightarrow> int256 sol) \<Rightarrow> uint256 \<Rightarrow> bytes \<Rightarrow> uint256 sol" where
  "exponential_getPrice expWad timeElapsed config =
     (case curve_getDecodedData config of Inl m \<Rightarrow> Inl m | Inr params \<Rightarrow> exponential_price expWad timeElapsed params)"

definition logarithmic_price :: "(int256 \<Rightarrow> int256 sol) \<Rightarrow> uint256
    \<Rightarrow> uint256 \<times> uint256 \<times> uint256 \<times> uint256 \<times> bool \<times> uint256 \<times> uint256 \<Rightarrow> uint256 sol" where
  "logarithmic_price lnWad timeElapsed =
    (\<lambda>(initialPrice, scalingFactor, timeCoefficient, bucketSize, isDecreasing, maxPrice, minPrice).
     if \<not> curve_areParamsValid initialPrice scalingFactor timeCoefficient bucketSize maxPrice minPrice
     then Inl ''BoundedStepwiseLogarithmicPriceAdapter: Invalid params''
     else let timeBucket = timeElapsed div bucketSize; boundary = getBoundaryPrice isDecreasing maxPrice minPrice in
       if (- 1) div timeCoefficient < timeBucket then Inr boundary
       else let lnArgument = timeBucket * timeCoefficient in
         if MAX_LOG_ARG < sint lnArgument then Inr boundary
         else if \<not> in_int256 (sint lnArgument + PRECISE_UNIT) then Inl ''Panic: overflow''
         else case lnWad (lnArgument + sol_preciseUnit) of Inl m \<Rightarrow> Inl m
         | Inr lnExpression \<Rightarrow>
           if (- 1) div scalingFactor < lnExpression then Inr boundary
           else Inr (bounded_price isDecreasing initialPrice (scalingFactor * lnExpression) maxPrice minPrice))"

definition logarithmic_getPrice :: "(int256 \<Rightarrow> int256 sol) \<Rightarrow> uint256 \<Rightarrow> bytes \<Rightarrow> uint256 sol" where
  "logarithmic_getPrice lnWad timeElapsed config =
     (case curve_getDecodedData config of Inl m \<Rightarrow> Inl m | Inr params \<Rightarrow> logarithmic_price lnWad timeElapsed params)"

definition curve_isValid :: "bytes \<Rightarrow> bool sol" where
  "curve_isValid config = map_sum id (\<lambda>(initialPrice, scalingFactor, timeCoefficient, bucketSize, _, maxPrice, minPrice).
     curve_areParamsValid initialPrice scalingFactor timeCoefficient bucketSize maxPrice minPrice) (curve_getDecodedData config)"

subsection \<open>Round trips\<close>

lemma word_bool_word [simp]: "word_bool (bool_word b) = Inr b"
  by (simp add: word_bool_def bool_word_def)

lemma linear_decode_encode: "linear_getDecodedData (linear_getEncodedData i s b d mx mn) = Inr (i, s, b, d, mx, mn)"
  using abi_roundtrip [of "[i, s, b, bool_word d, mx, mn]"]
  by (simp add: linear_getDecodedData_def linear_getEncodedData_def numeral_eq_Suc)

lemma curve_decode_encode: "curve_getDecodedData (curve_getEncodedData i s c b d mx mn) = Inr (i, s, c, b, d, mx, mn)"
  using abi_roundtrip [of "[i, s, c, b, bool_word d, mx, mn]"]
  by (simp add: curve_getDecodedData_def curve_getEncodedData_def numeral_eq_Suc)

lemma constant_decode_encode: "constant_getDecodedData (constant_getEncodedData p) = Inr p"
  using abi_roundtrip [of "[p]"] by (simp add: constant_getDecodedData_def constant_getEncodedData_def)

subsection \<open>The bounded price in the integers\<close>

definition clamped :: "bool \<Rightarrow> int \<Rightarrow> int \<Rightarrow> int \<Rightarrow> int \<Rightarrow> int" where
  "clamped isDecreasing initial change mx mn = (if isDecreasing then max (initial - change) mn else min (initial + change) mx)"

lemma uint_minus_one: "uint (- 1 :: uint256) = 2 ^ 256 - 1"
  by (simp add: unsigned_minus_1_eq_mask mask_eq_exp_minus_1)

lemma uint_max_minus: "uint (- 1 - i :: uint256) = 2 ^ 256 - 1 - uint i"
proof -
  have "uint i \<le> uint (- 1 :: uint256)" using uint_less_256 [of i] unfolding uint_minus_one by linarith
  then have "uint (- 1 - i) = uint (- 1 :: uint256) - uint i" by (rule uint_sub_lem [THEN iffD1])
  then show ?thesis by (simp only: uint_minus_one)
qed

lemma uint_min_max: "uint (max a b) = max (uint a) (uint b)" "uint (min a b) = min (uint a) (uint b)" for a b :: uint256
  by (simp_all add: max_def min_def word_le_def)

lemma bounded_price_uint:
  assumes "i \<le> mx" "mn \<le> i"
  shows "uint (bounded_price d i c mx mn) = clamped d (uint i) (uint c) (uint mx) (uint mn)"
proof -
  have down: "c \<le> i \<Longrightarrow> uint (i - c) = uint i - uint c" by (simp add: word_le_def uint_sub_lem)
  have up: "uint (i + c) = uint i + uint c" if "\<not> - 1 - i < c"
  proof -
    have "uint c \<le> 2 ^ 256 - 1 - uint i" using that unfolding word_less_def uint_max_minus by linarith
    then show ?thesis using uint_safe_add [of i c] by (simp add: safe_add_def split: if_splits)
  qed
  have over: "- 1 - i < c \<Longrightarrow> uint mx \<le> uint i + uint c"
    using uint_less_256 [of mx] unfolding word_less_def uint_max_minus by linarith
  have under: "i < c \<Longrightarrow> uint i - uint c \<le> uint mn" using uint_ge_0 [of mn] unfolding word_less_def by linarith
  show ?thesis using down up over under by (auto simp: bounded_price_def clamped_def uint_min_max)
qed

text \<open>The division guards the product.\<close>

lemma product_guard:
  fixes s b :: uint256
  assumes "0 < s"
  shows "(- 1) div s < b \<longleftrightarrow> 2 ^ 256 \<le> uint b * uint s"
proof -
  have s: "0 < uint s" using assms by (simp add: word_less_def)
  have "(- 1) div s < b \<longleftrightarrow> (2 ^ 256 - 1) div uint s < uint b" by (simp only: word_less_def uint_div uint_minus_one)
  also have "\<dots> \<longleftrightarrow> \<not> uint b \<le> (2 ^ 256 - 1) div uint s" by auto
  also have "\<dots> \<longleftrightarrow> \<not> uint b * uint s \<le> 2 ^ 256 - 1" using s by (simp only: int_le_div_iff)
  finally show ?thesis by auto
qed

lemma uint_guarded: "\<not> 2 ^ 256 \<le> uint b * uint s \<Longrightarrow> uint (b * s) = uint b * uint s" for s b :: uint256
  using uint_safe_mul [of b s] by (simp add: safe_mul_def split: if_splits)

lemma boundary_clamped:
  assumes "i \<le> mx" "mn \<le> i" "2 ^ 256 \<le> c"
  shows "uint (getBoundaryPrice d mx mn) = clamped d (uint i) c (uint mx) (uint mn)"
proof -
  have "uint i - c \<le> uint mn" "uint mx \<le> uint i + c"
    using assms(3) uint_less_256 [of i] uint_less_256 [of mx] uint_ge_0 [of i] uint_ge_0 [of mn] by linarith+
  then show ?thesis by (simp add: getBoundaryPrice_def clamped_def)
qed

lemma clamped_bounds: "mn \<le> i \<Longrightarrow> i \<le> mx \<Longrightarrow> 0 \<le> c \<Longrightarrow> mn \<le> clamped d i c mx mn \<and> clamped d i c mx mn \<le> mx"
  by (auto simp: clamped_def)

lemma clamped_mono: "c \<le> c' \<Longrightarrow> if d then clamped d i c' mx mn \<le> clamped d i c mx mn else clamped d i c mx mn \<le> clamped d i c' mx mn"
  by (auto simp: clamped_def)

lemma linear_price_clamped:
  assumes "linear_areParamsValid i s b mx mn"
  shows "map_sum id uint (linear_price t (i, s, b, d, mx, mn)) =
    Inr (clamped d (uint i) (uint t div uint b * uint s) (uint mx) (uint mn))"
proof -
  have v: "i \<le> mx" "mn \<le> i" "0 < s" using assms by (simp_all add: linear_areParamsValid_def)
  have tb: "uint (t div b) = uint t div uint b" by (rule uint_div)
  show ?thesis
  proof (cases "(- 1) div s < t div b")
    case True
    then have "2 ^ 256 \<le> uint (t div b) * uint s" using product_guard [OF v(3)] by blast
    from boundary_clamped [OF v(1,2) this] True assms show ?thesis by (simp add: linear_price_def tb)
  next
    case False
    then have "uint (t div b * s) = uint (t div b) * uint s" using product_guard [OF v(3)] uint_guarded by blast
    with bounded_price_uint [OF v(1,2), of d "t div b * s"] False assms show ?thesis by (simp add: linear_price_def tb)
  qed
qed

subsection \<open>Interface: an adapter with bounds\<close>

text \<open>
  What an auction relies on: a price is only quoted for a configuration the adapter calls valid, and it lies between
  two bounds that depend on the configuration alone.
\<close>

locale price_adapter =
  fixes getPrice :: "uint256 \<Rightarrow> bytes \<Rightarrow> uint256 sol" and isValid :: "bytes \<Rightarrow> bool sol"
    and low :: "bytes \<Rightarrow> uint256" and high :: "bytes \<Rightarrow> uint256"
  assumes accepted: "getPrice t config = Inr p \<Longrightarrow> isValid config = Inr True"
    and bounded: "getPrice t config = Inr p \<Longrightarrow> low config \<le> p \<and> p \<le> high config"
begin

lemma invalid_reverts: "isValid config \<noteq> Inr True \<Longrightarrow> \<exists>m. getPrice t config = Inl m"
  using accepted by (cases "getPrice t config") auto

text \<open>The quote asset for a quantity at a quoted price, rounded up for a sale and down for a purchase.\<close>

lemma sale_proceeds:
  assumes "getPrice t config = Inr p" "sol_preciseMulCeil q p = Some r"
  shows "uint q * uint (low config) \<le> uint r * PRECISE_UNIT \<and> uint r * PRECISE_UNIT < uint q * uint (high config) + PRECISE_UNIT"
proof -
  have "uint (low config) \<le> uint p" "uint p \<le> uint (high config)" using bounded [OF assms(1)] by (simp_all add: word_le_def)
  then have "uint q * uint (low config) \<le> uint q * uint p" "uint q * uint p \<le> uint q * uint (high config)"
    by (simp_all add: mult_left_mono)
  moreover have "uint r = preciseMulCeil (uint q) (uint p)" using assms(2) sol_preciseMulCeil_uint [of q p] by (auto split: if_splits)
  then have "uint q * uint p \<le> PRECISE_UNIT * uint r" "PRECISE_UNIT * uint r < uint q * uint p + PRECISE_UNIT"
    using mul_up.upper [of "(uint q, uint p)"] mul_up.close [of "(uint q, uint p)"] by simp_all
  ultimately show ?thesis by (simp add: mult.commute)
qed

lemma purchase_cost:
  assumes "getPrice t config = Inr p" "sol_preciseMul q p = Some r"
  shows "uint r * PRECISE_UNIT \<le> uint q * uint (high config) \<and> uint q * uint (low config) < uint r * PRECISE_UNIT + PRECISE_UNIT"
proof -
  have "uint (low config) \<le> uint p" "uint p \<le> uint (high config)" using bounded [OF assms(1)] by (simp_all add: word_le_def)
  then have "uint q * uint (low config) \<le> uint q * uint p" "uint q * uint p \<le> uint q * uint (high config)"
    by (simp_all add: mult_left_mono)
  moreover have "uint r = uint q * uint p div PRECISE_UNIT"
    using assms(2) sol_preciseMul_uint [of q p] by (auto simp: preciseMul_def split: if_splits)
  then have "PRECISE_UNIT * uint r \<le> uint q * uint p" "uint q * uint p < PRECISE_UNIT * uint r + PRECISE_UNIT"
    using floor_div_bounds [OF PRECISE_UNIT_pos(1), of "uint q * uint p"] by simp_all
  ultimately show ?thesis by (simp add: mult.commute)
qed

end

definition constant_bound :: "bytes \<Rightarrow> uint256" where
  "constant_bound config = (case constant_getDecodedData config of Inr p \<Rightarrow> p | Inl _ \<Rightarrow> 0)"

definition linear_low :: "bytes \<Rightarrow> uint256" where
  "linear_low config = (case linear_getDecodedData config of Inr (_, _, _, _, _, mn) \<Rightarrow> mn | Inl _ \<Rightarrow> 0)"

definition linear_high :: "bytes \<Rightarrow> uint256" where
  "linear_high config = (case linear_getDecodedData config of Inr (_, _, _, _, mx, _) \<Rightarrow> mx | Inl _ \<Rightarrow> 0)"

definition curve_low :: "bytes \<Rightarrow> uint256" where
  "curve_low config = (case curve_getDecodedData config of Inr (_, _, _, _, _, _, mn) \<Rightarrow> mn | Inl _ \<Rightarrow> 0)"

definition curve_high :: "bytes \<Rightarrow> uint256" where
  "curve_high config = (case curve_getDecodedData config of Inr (_, _, _, _, _, mx, _) \<Rightarrow> mx | Inl _ \<Rightarrow> 0)"

lemma bounded_price_bounds: "i \<le> mx \<Longrightarrow> mn \<le> i \<Longrightarrow> mn \<le> bounded_price d i c mx mn \<and> bounded_price d i c mx mn \<le> mx"
  using bounded_price_uint [of i mx mn d c] clamped_bounds [of "uint mn" "uint i" "uint mx" "uint c" d] by (simp add: word_le_def)

lemma getBoundaryPrice_bounds: "i \<le> mx \<Longrightarrow> mn \<le> i \<Longrightarrow> mn \<le> getBoundaryPrice d mx mn \<and> getBoundaryPrice d mx mn \<le> mx"
  by (auto simp: getBoundaryPrice_def)

interpretation constant_adapter: price_adapter constant_getPrice constant_isValid constant_bound constant_bound
  by unfold_locales (auto simp: constant_getPrice_def constant_isValid_def constant_bound_def split: sum.splits if_splits)

interpretation linear_adapter: price_adapter linear_getPrice linear_isValid linear_low linear_high
  by unfold_locales (auto simp: linear_getPrice_def linear_price_def linear_isValid_def linear_low_def linear_high_def linear_areParamsValid_def
      Let_def bounded_price_bounds getBoundaryPrice_bounds split: sum.splits prod.splits if_splits)

interpretation exponential_adapter: price_adapter "exponential_getPrice expWad" curve_isValid curve_low curve_high for expWad
  by unfold_locales (auto simp: exponential_getPrice_def exponential_price_def curve_isValid_def curve_low_def curve_high_def curve_areParamsValid_def
      Let_def bounded_price_bounds getBoundaryPrice_bounds split: sum.splits prod.splits if_splits option.splits)

interpretation logarithmic_adapter: price_adapter "logarithmic_getPrice lnWad" curve_isValid curve_low curve_high for lnWad
  by unfold_locales (auto simp: logarithmic_getPrice_def logarithmic_price_def curve_isValid_def curve_low_def curve_high_def curve_areParamsValid_def
      Let_def bounded_price_bounds getBoundaryPrice_bounds split: sum.splits prod.splits if_splits)

subsection \<open>The exponential curve in the integers\<close>

lemma sint_small: "0 \<le> n \<Longrightarrow> n < 2 ^ 255 \<Longrightarrow> sint (word_of_int n :: uint256) = n"
  by (rule sint_word_of_int_256) (simp add: in_int256_def)

lemma word_of_int_wrap: "(word_of_int n :: uint256) = word_of_int (n - 2 ^ 256)"
  by (simp add: word_of_int_eq_iff take_bit_eq_mod)

lemma sint_large:
  assumes "2 ^ 255 \<le> n" "n < 2 ^ 256"
  shows "sint (word_of_int n :: uint256) = n - 2 ^ 256"
proof -
  note word_of_int_wrap [of n]
  moreover have "sint (word_of_int (n - 2 ^ 256) :: uint256) = n - 2 ^ 256"
    by (rule sint_word_of_int_256) (use assms in \<open>simp add: in_int256_def\<close>)
  ultimately show ?thesis by (simp only:)
qed

lemma curve_argument:
  fixes c t b :: uint256
  shows "c * (t div b) = word_of_int (uint c * (uint t div uint b))"
    and "0 < c \<Longrightarrow> (- 1) div c < t div b \<longleftrightarrow> 2 ^ 256 \<le> uint c * (uint t div uint b)"
proof -
  have "uint (t div b) = uint t div uint b" by (rule uint_div)
  then show "0 < c \<Longrightarrow> (- 1) div c < t div b \<longleftrightarrow> 2 ^ 256 \<le> uint c * (uint t div uint b)"
    using product_guard [of c "t div b"] by (simp add: mult.commute)
  show "c * (t div b) = word_of_int (uint c * (uint t div uint b))"
    by (simp only: of_int_mult word_of_int_uint uint_div [symmetric])
qed

lemma curve_getPrice_encoded:
  "exponential_getPrice expWad t (curve_getEncodedData i s c b d mx mn) = exponential_price expWad t (i, s, c, b, d, mx, mn)"
  "logarithmic_getPrice lnWad t (curve_getEncodedData i s c b d mx mn) = logarithmic_price lnWad t (i, s, c, b, d, mx, mn)"
  by (simp_all add: exponential_getPrice_def logarithmic_getPrice_def curve_decode_encode)

text \<open>The value of a 256-bit integer cast to a signed word.\<close>

definition cast_int256 :: "int \<Rightarrow> int" where
  "cast_int256 n = (if n < 2 ^ 255 then n else n - 2 ^ 256)"

lemma cast_int256: "0 \<le> n \<Longrightarrow> n < 2 ^ 256 \<Longrightarrow> sint (word_of_int n :: uint256) = cast_int256 n"
  by (simp add: cast_int256_def sint_small sint_large)

lemma cast_int256_word: "(word_of_int (cast_int256 n) :: uint256) = word_of_int n"
  using word_of_int_wrap [of n] by (simp add: cast_int256_def)

text \<open>The scaled exponential less one, wherever it is computed, whatever the exponential returned.\<close>

lemma exponential_price_cases:
  assumes "curve_areParamsValid i s c b mx mn" and "n = uint c * (uint t div uint b)" "n < 2 ^ 256" "cast_int256 n \<le> MAX_EXP_ARG"
    and "expWad (word_of_int n) = Inr e"
  shows "map_sum id uint (exponential_price expWad t (i, s, c, b, d, mx, mn)) =
    (if e = 0 then Inl ''Panic: division by zero''
     else if 2 ^ 256 \<le> uint s * uint e then Inr (if d then uint mn else uint mx)
     else if uint s * uint e < PRECISE_UNIT then Inl ''Panic: underflow''
     else Inr (clamped d (uint i) (uint s * uint e - PRECISE_UNIT) (uint mx) (uint mn)))"
proof -
  have v: "i \<le> mx" "mn \<le> i" "0 < c" using assms(1) by (simp_all add: curve_areParamsValid_def)
  have n: "0 \<le> n" using assms(2) by (simp add: div_int_pos_iff)
  have price: "exponential_price expWad t (i, s, c, b, d, mx, mn) =
      (if e = 0 then Inl ''Panic: division by zero''
       else if (- 1) div e < s then Inr (getBoundaryPrice d mx mn)
       else case safe_sub (s * e) sol_preciseUnit of None \<Rightarrow> Inl ''Panic: underflow''
         | Some priceChange \<Rightarrow> Inr (bounded_price d i priceChange mx mn))"
    using assms(1,3,4,5) curve_argument(2) [OF v(3), of t b] cast_int256 [OF n assms(3)]
    by (simp add: exponential_price_def Let_def curve_argument(1) assms(2) [symmetric])
  show ?thesis
  proof (cases "e = 0 \<or> 2 ^ 256 \<le> uint s * uint e")
    case True
    then show ?thesis using product_guard [of e s] by (auto simp: price getBoundaryPrice_def word_neq_0_conv)
  next
    case False
    then have e: "0 < e" "\<not> 2 ^ 256 \<le> uint s * uint e" by (simp_all add: word_neq_0_conv)
    have "uint (s * e) = uint s * uint e" by (rule uint_guarded [OF e(2)])
    then show ?thesis
      using False product_guard [OF e(1), of s] uint_safe_sub [of "s * e" sol_preciseUnit] bounded_price_uint [OF v(1,2), of d]
      by (auto simp: price split: if_splits option.splits)
  qed
qed

subsection \<open>Properties\<close>

text \<open>
  C16. The linear adapter quotes a staircase between its bounds: for a valid configuration the price after any time is
  the initial price moved by the slope once per full bucket, cut off at the bound, for all 256-bit parameters, and it
  never moves back.
\<close>

theorem linear_price_is_bounded_staircase:
  assumes "linear_areParamsValid i s b mx mn" and "t \<le> t'"
    and "config = linear_getEncodedData i s b d mx mn"
  shows "map_sum id uint (linear_getPrice t config) = Inr (if d then max (uint i - uint t div uint b * uint s) (uint mn)
      else min (uint i + uint t div uint b * uint s) (uint mx)) \<and>
    (\<exists>p p'. linear_getPrice t config = Inr p \<and> linear_getPrice t' config = Inr p' \<and> (if d then p' \<le> p else p \<le> p'))"
proof -
  let ?price = "\<lambda>t. linear_getPrice t config"
  have p: "map_sum id uint (?price t) = Inr (clamped d (uint i) (uint t div uint b * uint s) (uint mx) (uint mn))" for t
    using linear_price_clamped [OF assms(1), of t d] by (simp add: assms(3) linear_getPrice_def linear_decode_encode)
  obtain q q' where q: "?price t = Inr q" "?price t' = Inr q'" using p [of t] p [of t'] by (cases "?price t"; cases "?price t'") auto
  have "0 < uint b" using assms(1) by (simp add: linear_areParamsValid_def word_less_def)
  then have "uint t div uint b * uint s \<le> uint t' div uint b * uint s"
    using assms(2) by (intro mult_right_mono zdiv_mono1) (simp_all add: word_le_def)
  from clamped_mono [OF this, of d "uint i" "uint mx" "uint mn"] have "if d then q' \<le> q else q \<le> q'"
    using p [of t] p [of t'] q by (simp add: word_le_def split: if_splits)
  with q p [of t] show ?thesis by (simp add: clamped_def)
qed

theorem linear_price_is_bounded_staircase_witness:
  "map_sum id uint (linear_getPrice 25 (linear_getEncodedData 100 7 10 True 200 50)) = Inr 86"
  using linear_price_is_bounded_staircase [of 100 7 10 200 50 25 1000 _ True] by (simp add: linear_areParamsValid_def)

text \<open>
  C17. The exponential adapter in the integers, for every valid configuration and every time. Let \<open>n\<close> be the time
  coefficient times the bucket and \<open>x\<close> its value as a signed word. The bound is quoted when \<open>n\<close> exceeds 256 bits,
  when \<open>x\<close> exceeds the largest argument, and when the scaled exponential exceeds 256 bits. Otherwise the initial
  price is moved by the scaled exponential less one unit and cut off at the bound. It reverts only for \<open>n\<close> from \<open>2\<^sup>2\<^sup>5\<^sup>5\<close> and
  below \<open>2\<^sup>2\<^sup>5\<^sup>6\<close>, where the cast makes \<open>x\<close> negative and the exponential can be zero or the scaled exponential less than one unit.
\<close>

theorem exponential_price_follows_curve:
  assumes "curve_areParamsValid i s c b mx mn" and "n = uint c * (uint t div uint b)"
    and "x = (if n < 2 ^ 255 then n else n - 2 ^ 256)"
    and "\<And>k. - (2 ^ 255) \<le> k \<Longrightarrow> k \<le> MAX_EXP_ARG \<Longrightarrow> expWad (word_of_int k) = Inr (e k) \<and> (0 \<le> k \<longrightarrow> PRECISE_UNIT \<le> uint (e k))"
  shows "map_sum id uint (exponential_getPrice expWad t (curve_getEncodedData i s c b d mx mn)) =
     (if 2 ^ 256 \<le> n \<or> MAX_EXP_ARG < x then Inr (if d then uint mn else uint mx)
      else if e x = 0 then Inl ''Panic: division by zero''
      else if 2 ^ 256 \<le> uint s * uint (e x) then Inr (if d then uint mn else uint mx)
      else if uint s * uint (e x) < PRECISE_UNIT then Inl ''Panic: underflow''
      else Inr (if d then max (uint i - (uint s * uint (e x) - PRECISE_UNIT)) (uint mn)
        else min (uint i + (uint s * uint (e x) - PRECISE_UNIT)) (uint mx))) \<and>
    (n < 2 ^ 255 \<or> 2 ^ 256 \<le> n \<longrightarrow> (\<exists>p. exponential_getPrice expWad t (curve_getEncodedData i s c b d mx mn) = Inr p))"
    (is "?price = ?curve \<and> _")
proof -
  have v: "0 < c" "0 < s" using assms(1) by (simp_all add: curve_areParamsValid_def)
  have n: "0 \<le> n" using assms(2) by (simp add: div_int_pos_iff)
  have x: "x = cast_int256 n" by (simp add: assms(3) cast_int256_def)
  have price: "?price = ?curve"
  proof (cases "2 ^ 256 \<le> n \<or> MAX_EXP_ARG < x")
    case True
    then have "exponential_price expWad t (i, s, c, b, d, mx, mn) = Inr (getBoundaryPrice d mx mn)"
      using assms(1,2) curve_argument(2) [OF v(1), of t b] cast_int256 [OF n]
      by (auto simp: exponential_price_def Let_def curve_argument(1) x)
    then show ?thesis using True by (simp add: curve_getPrice_encoded getBoundaryPrice_def)
  next
    case False
    then have b: "n < 2 ^ 256" "x \<le> MAX_EXP_ARG" "- (2 ^ 255) \<le> x" using n assms(3) by auto
    have "(word_of_int x :: uint256) = word_of_int n" unfolding x by (rule cast_int256_word)
    then have "expWad (word_of_int n) = Inr (e x)" using assms(4) [OF b(3,2)] by simp
    with b show ?thesis
      using exponential_price_cases [where d = d, OF assms(1,2)] False by (simp add: curve_getPrice_encoded clamped_def x)
  qed
  have "\<exists>r. ?curve = Inr r" if "n < 2 ^ 255 \<or> 2 ^ 256 \<le> n"
  proof (cases "2 ^ 256 \<le> n \<or> MAX_EXP_ARG < x")
    case False
    then have "x = n" using that assms(3) by auto
    then have e: "PRECISE_UNIT \<le> uint (e x)" using assms(4) [of x] False n by simp
    have "1 \<le> uint s" using v(2) by (simp add: word_less_def)
    then have "1 * uint (e x) \<le> uint s * uint (e x)" by (rule mult_right_mono) simp
    then have "\<not> uint s * uint (e x) < PRECISE_UNIT" using e by linarith
    moreover have "e x \<noteq> 0" using e by (auto simp: PRECISE_UNIT_def)
    ultimately show ?thesis using False by simp
  qed simp
  then show ?thesis using price by (cases "exponential_getPrice expWad t (curve_getEncodedData i s c b d mx mn)") auto
qed

definition sample_exp :: "int256 \<Rightarrow> int256 sol" where
  "sample_exp x = (if sint x \<le> - 42139678854452767551 then Inr 0 else if sint x \<le> 0 then Inr (10 ^ 18) else Inr (3 * 10 ^ 18))"

definition sample_ln :: "int256 \<Rightarrow> int256 sol" where
  "sample_ln x = (if sint x \<le> 0 then Inl ''LnWadUndefined()'' else Inr (10 ^ 18))"

lemma sample_exp_arg: "- (2 ^ 255) \<le> k \<Longrightarrow> k \<le> MAX_EXP_ARG \<Longrightarrow>
    sample_exp (word_of_int k) = Inr (if k \<le> - 42139678854452767551 then 0 else if k \<le> 0 then 10 ^ 18 else 3 * 10 ^ 18)"
  using sint_word_of_int_256 [of k] by (simp add: sample_exp_def MAX_EXP_ARG_def in_int256_def)

theorem exponential_price_follows_curve_witness:
  "map_sum id uint (exponential_getPrice sample_exp 12 (curve_getEncodedData (9 * 10 ^ 18) 2 5 10 True (10 ^ 20) 7)) = Inr (4 * 10 ^ 18) \<and>
   map_sum id uint (exponential_getPrice sample_exp 1 (curve_getEncodedData 5 1 (2 ^ 255) 1 False 9 2)) = Inl ''Panic: division by zero''"
proof -
  let ?e = "\<lambda>k :: int. if k \<le> - 42139678854452767551 then 0 else if k \<le> 0 then 10 ^ 18 else 3 * 10 ^ 18 :: uint256"
  have e: "sample_exp (word_of_int k) = Inr (?e k) \<and> (0 \<le> k \<longrightarrow> PRECISE_UNIT \<le> uint (?e k))" if "- (2 ^ 255) \<le> k" "k \<le> MAX_EXP_ARG" for k
    using sample_exp_arg [OF that] by (simp add: PRECISE_UNIT_def)
  have v: "curve_areParamsValid (9 * 10 ^ 18) 2 5 10 (10 ^ 20) 7" "curve_areParamsValid 5 1 (2 ^ 255) 1 9 2" by (simp_all add: curve_areParamsValid_def)
  from exponential_price_follows_curve [OF v(1) refl refl e, of 12 True] exponential_price_follows_curve [OF v(2) refl refl e, of 1 False]
  show ?thesis by (simp add: MAX_EXP_ARG_def PRECISE_UNIT_def)
qed

text \<open>
  C18. Between the two guards the curves have a hole: when the product of time coefficient and bucket exceeds the signed
  range without exceeding the unsigned one, the cast makes the argument negative, the guard against large arguments does
  not fire, and for nearly the whole of this range both adapters revert, with a division by the exponential that is zero
  or with a logarithm that is undefined, where every smaller or larger product would be quoted at the bound.
\<close>

theorem wrapped_arguments_revert:
  assumes "curve_areParamsValid i s c b mx mn" and "n = uint c * (uint t div uint b)"
    and "2 ^ 255 \<le> n" and "n \<le> 2 ^ 256 - 42139678854452767551"
    and "\<And>x. sint x \<le> - 42139678854452767551 \<Longrightarrow> expWad x = Inr 0" and "\<And>x. sint x \<le> 0 \<Longrightarrow> \<exists>m. lnWad x = Inl m"
  shows "curve_isValid (curve_getEncodedData i s c b d mx mn) = Inr True \<and>
    exponential_getPrice expWad t (curve_getEncodedData i s c b d mx mn) = Inl ''Panic: division by zero'' \<and>
    (\<exists>m. logarithmic_getPrice lnWad t (curve_getEncodedData i s c b d mx mn) = Inl m)"
proof -
  have c: "0 < c" using assms(1) by (simp add: curve_areParamsValid_def)
  note arg = curve_argument(1) [of c t b, folded assms(2)]
  have guard: "\<not> (- 1) div c < t div b" using curve_argument(2) [OF c, of t b] assms(2,4) by simp
  have n: "sint (word_of_int n :: uint256) = n - 2 ^ 256" using sint_large [of n] assms(3,4) by simp
  have ex: "expWad (word_of_int n) = Inr 0" by (rule assms(5)) (use n assms(4) in simp)
  have "sint ((word_of_int n :: uint256) + sol_preciseUnit) = n - 2 ^ 256 + PRECISE_UNIT"
  proof -
    have "(word_of_int n :: uint256) + sol_preciseUnit = word_of_int (n - 2 ^ 256 + PRECISE_UNIT)"
      by (simp only: of_int_add word_of_int_wrap [of n, symmetric]) (simp add: sol_preciseUnit_def PRECISE_UNIT_def)
    moreover have "sint (word_of_int (n - 2 ^ 256 + PRECISE_UNIT) :: uint256) = n - 2 ^ 256 + PRECISE_UNIT"
      by (rule sint_word_of_int_256) (use assms(3,4) in \<open>simp add: in_int256_def PRECISE_UNIT_def\<close>)
    ultimately show ?thesis by (simp only:)
  qed
  then obtain m where ln: "lnWad (word_of_int n + sol_preciseUnit) = Inl m"
    using assms(6) [of "word_of_int n + sol_preciseUnit"] assms(4) by (auto simp: PRECISE_UNIT_def)
  have "exponential_price expWad t (i, s, c, b, d, mx, mn) = Inl ''Panic: division by zero''"
    using assms(1) guard n assms(4) ex by (simp add: exponential_price_def Let_def arg MAX_EXP_ARG_def)
  moreover have "\<exists>m. logarithmic_price lnWad t (i, s, c, b, d, mx, mn) = Inl m"
    using assms(1) guard n assms(4) ln by (simp add: logarithmic_price_def Let_def arg mult.commute [of _ c] MAX_LOG_ARG_def)
  moreover have "curve_isValid (curve_getEncodedData i s c b d mx mn) = Inr True"
    using assms(1) by (simp add: curve_isValid_def curve_decode_encode)
  ultimately show ?thesis by (simp add: curve_getPrice_encoded)
qed

theorem wrapped_arguments_revert_witness:
  "curve_isValid (curve_getEncodedData 5 1 (2 ^ 255) 1 False 9 2) = Inr True \<and>
    exponential_getPrice sample_exp 1 (curve_getEncodedData 5 1 (2 ^ 255) 1 False 9 2) = Inl ''Panic: division by zero'' \<and>
    (\<exists>m. logarithmic_getPrice sample_ln 1 (curve_getEncodedData 5 1 (2 ^ 255) 1 False 9 2) = Inl m)"
  by (rule wrapped_arguments_revert [where n = "2 ^ 255"]) (auto simp: curve_areParamsValid_def sample_exp_def sample_ln_def)

text \<open>
  Every adapter quotes only for configurations it calls valid and only within their bounds, at every time, for
  every configuration, encoded or not, and for every exponential and logarithm.
\<close>

lemma quotes_within_bounds:
  "(case constant_getPrice t config of Inl m \<Rightarrow> True | Inr p \<Rightarrow>
      constant_isValid config = Inr True \<and> 0 < p \<and> constant_getDecodedData config = Inr p) \<and>
   (case linear_getPrice t config of Inl m \<Rightarrow> True | Inr p \<Rightarrow>
      linear_isValid config = Inr True \<and> linear_low config \<le> p \<and> p \<le> linear_high config) \<and>
   (case exponential_getPrice expWad t config of Inl m \<Rightarrow> True | Inr p \<Rightarrow>
      curve_isValid config = Inr True \<and> curve_low config \<le> p \<and> p \<le> curve_high config) \<and>
   (case logarithmic_getPrice lnWad t config of Inl m \<Rightarrow> True | Inr p \<Rightarrow>
      curve_isValid config = Inr True \<and> curve_low config \<le> p \<and> p \<le> curve_high config)"
  using constant_adapter.accepted [of t config] linear_adapter.accepted [of t config] linear_adapter.bounded [of t config]
    exponential_adapter.accepted [of expWad t config] exponential_adapter.bounded [of expWad t config]
    logarithmic_adapter.accepted [of lnWad t config] logarithmic_adapter.bounded [of lnWad t config]
  by (auto simp: constant_getPrice_def split: sum.splits if_splits)

text \<open>
  A configuration survives its encoding: each adapter decodes what it encoded to the same parameters, and accepts it
  exactly when the parameters are valid.
\<close>

lemma configurations_roundtrip:
  "constant_getDecodedData (constant_getEncodedData p) = Inr p \<and>
   linear_getDecodedData (linear_getEncodedData i s b d mx mn) = Inr (i, s, b, d, mx, mn) \<and>
   curve_getDecodedData (curve_getEncodedData i s c b d mx mn) = Inr (i, s, c, b, d, mx, mn) \<and>
   constant_isValid (constant_getEncodedData p) = Inr (0 < p) \<and>
   linear_isValid (linear_getEncodedData i s b d mx mn) = Inr (linear_areParamsValid i s b mx mn) \<and>
   curve_isValid (curve_getEncodedData i s c b d mx mn) = Inr (curve_areParamsValid i s c b mx mn)"
  by (simp add: constant_isValid_def linear_isValid_def curve_isValid_def constant_decode_encode linear_decode_encode curve_decode_encode)

end
