(* ===== verification/Auction_Rebalance.thy ===== *)
theory Auction_Rebalance
  imports Position_Lib Integration_Registry
begin

section \<open>Rebalancing by auction\<close>

text \<open>
  Models contracts/protocol/modules/v1/AuctionRebalanceModuleV1.sol: the manager of a SetToken sets target units, and
  bidders exchange components for the quote asset at the price of an adapter until the targets are met. The module
  works on the SetToken of \<open>Set_Token\<close> and on the component tokens of \<open>Issuance_Module\<close>. The record \<open>auction_env\<close> is what a
  call finds around it: the inherited ERC20, the tokens, the Controller, the integration registry with the hash of
  names, the answers of the price adapters and the time of the block. Calls are atomic.
\<close>

subsection \<open>State\<close>

record AuctionExecutionParams =
  targetUnit :: uint256
  priceAdapterName :: string
  priceAdapterConfigData :: bytes

record BidPermissionInfo =
  isAnyoneAllowedToBid :: bool
  biddersHistory :: "address list"
  bidAllowList :: "address \<Rightarrow> bool"

record RebalanceInfo =
  quoteAsset :: address
  rebalanceStartTime :: uint256
  rebalanceDuration :: uint256
  ri_positionMultiplier :: uint256
  raiseTargetPercentage :: uint256
  rebalanceComponents :: "address list"

record BidInfo =
  sendToken :: address
  receiveToken :: address
  priceAdapter :: address
  bi_priceAdapterConfigData :: bytes
  isSellAuction :: bool
  auctionQuantity :: uint256
  componentPrice :: uint256
  quantitySentBySet :: uint256
  quantityReceivedBySet :: uint256
  preBidTokenSentBalance :: uint256
  preBidTokenReceivedBalance :: uint256
  setTotalSupply :: uint256

record auction_module =
  am_address :: address
  executionInfo :: "address \<Rightarrow> address \<Rightarrow> AuctionExecutionParams"
  permissionInfo :: "address \<Rightarrow> BidPermissionInfo"
  rebalanceInfo :: "address \<Rightarrow> RebalanceInfo"

record ('e, 'w) auction_env =
  v_ops :: "'e erc20_ops"
  v_externals :: "'w externals"
  v_controller :: controller_state
  v_registry :: integration_registry
  v_hash :: "string \<Rightarrow> bytes"
  v_getPrice :: "address \<Rightarrow> address \<Rightarrow> address \<Rightarrow> uint256 \<Rightarrow> uint256 \<Rightarrow> uint256 \<Rightarrow> bytes \<Rightarrow> uint256 sol"
  v_isPriceAdapterConfigDataValid :: "address \<Rightarrow> bytes \<Rightarrow> bool sol"
  v_now :: uint256

definition no_permissions :: BidPermissionInfo where
  "no_permissions = \<lparr>isAnyoneAllowedToBid = False, biddersHistory = [], bidAllowList = \<lambda>_. False\<rparr>"

definition no_rebalance :: RebalanceInfo where
  "no_rebalance = \<lparr>quoteAsset = ADDRESS_ZERO, rebalanceStartTime = 0, rebalanceDuration = 0,
     ri_positionMultiplier = 0, raiseTargetPercentage = 0, rebalanceComponents = []\<rparr>"

definition no_execution :: AuctionExecutionParams where
  "no_execution = \<lparr>targetUnit = 0, priceAdapterName = [], priceAdapterConfigData = []\<rparr>"

definition new_AuctionRebalanceModuleV1 :: "address \<Rightarrow> auction_module" where
  "new_AuctionRebalanceModuleV1 this = \<lparr>am_address = this, executionInfo = \<lambda>_ _. no_execution,
     permissionInfo = \<lambda>_. no_permissions, rebalanceInfo = \<lambda>_. no_rebalance\<rparr>"

definition edit_execution :: "address \<Rightarrow> address \<Rightarrow> (AuctionExecutionParams \<Rightarrow> AuctionExecutionParams) \<Rightarrow> auction_module \<Rightarrow> auction_module" where
  "edit_execution self component f am = am\<lparr>executionInfo := (executionInfo am)(self :=
     (executionInfo am self)(component := f (executionInfo am self component)))\<rparr>"

definition edit_permission :: "address \<Rightarrow> (BidPermissionInfo \<Rightarrow> BidPermissionInfo) \<Rightarrow> auction_module \<Rightarrow> auction_module" where
  "edit_permission self f am = am\<lparr>permissionInfo := (permissionInfo am)(self := f (permissionInfo am self))\<rparr>"

definition edit_rebalance :: "address \<Rightarrow> (RebalanceInfo \<Rightarrow> RebalanceInfo) \<Rightarrow> auction_module \<Rightarrow> auction_module" where
  "edit_rebalance self f am = am\<lparr>rebalanceInfo := (rebalanceInfo am)(self := f (rebalanceInfo am self))\<rparr>"

subsection \<open>Price adapters and parameters\<close>

definition getAndValidateAdapterWithHash :: "integration_registry \<Rightarrow> address \<Rightarrow> bytes \<Rightarrow> address sol" where
  "getAndValidateAdapterWithHash reg this integrationHash =
     (let adapter = getIntegrationAdapterWithHash reg this integrationHash in
      if adapter \<noteq> ADDRESS_ZERO then Inr adapter else Inl ''Must be valid adapter'')"

definition getAndValidateAdapter :: "integration_registry \<Rightarrow> (string \<Rightarrow> bytes) \<Rightarrow> address \<Rightarrow> string \<Rightarrow> address sol" where
  "getAndValidateAdapter reg hash this integrationName = getAndValidateAdapterWithHash reg this (hash integrationName)"

definition validateAuctionExecutionPriceParams :: "('e, 'w) auction_env \<Rightarrow> address \<Rightarrow> AuctionExecutionParams \<Rightarrow> unit sol" where
  "validateAuctionExecutionPriceParams v this auctionParams =
     (case getAndValidateAdapter (v_registry v) (v_hash v) this (priceAdapterName auctionParams) of Inl m \<Rightarrow> Inl m
      | Inr adapter \<Rightarrow>
        (case v_isPriceAdapterConfigDataValid v adapter (priceAdapterConfigData auctionParams) of Inl m \<Rightarrow> Inl m
         | Inr valid \<Rightarrow> if valid then Inr () else Inl ''Price adapter config data invalid''))"

definition concatAndValidateAuctionParams :: "('e, 'w) auction_env \<Rightarrow> address \<Rightarrow> AuctionExecutionParams list
    \<Rightarrow> AuctionExecutionParams list \<Rightarrow> AuctionExecutionParams list sol" where
  "concatAndValidateAuctionParams v this oldAuctionParams newAuctionParams =
     (case each_sol (\<lambda>p _. validateAuctionExecutionPriceParams v this p) oldAuctionParams () of Inl m \<Rightarrow> Inl m
      | Inr _ \<Rightarrow>
        (case each_sol (\<lambda>p _. if \<not> 0 < targetUnit p then Inl ''New component target unit must be greater than 0''
             else validateAuctionExecutionPriceParams v this p) newAuctionParams () of Inl m \<Rightarrow> Inl m
         | Inr _ \<Rightarrow> Inr (oldAuctionParams @ newAuctionParams)))"

definition aggregateComponentsAndAuctionParams :: "('e, 'w) auction_env \<Rightarrow> address \<Rightarrow> address list \<Rightarrow> address list
    \<Rightarrow> AuctionExecutionParams list \<Rightarrow> AuctionExecutionParams list \<Rightarrow> (address list \<times> AuctionExecutionParams list) sol" where
  "aggregateComponentsAndAuctionParams v this currentComponents newComponents newComponentsAuctionParams oldComponentsAuctionParams =
     (if length newComponents \<noteq> length newComponentsAuctionParams then Inl ''New components and params length mismatch''
      else if length currentComponents \<noteq> length oldComponentsAuctionParams then Inl ''Old components and params length mismatch''
      else let aggregateComponents = currentComponents @ newComponents in
        case hasDuplicate aggregateComponents of Inl m \<Rightarrow> Inl m
        | Inr d \<Rightarrow> if d then Inl ''Cannot have duplicate components''
          else map_sum id (Pair aggregateComponents)
            (concatAndValidateAuctionParams v this oldComponentsAuctionParams newComponentsAuctionParams))"

subsection \<open>Targets\<close>

definition ar_getDefaultPositionRealUnit :: "'e set_token \<Rightarrow> address \<Rightarrow> uint256 sol" where
  "ar_getDefaultPositionRealUnit st component =
     (case getDefaultPositionRealUnit st component of Inl m \<Rightarrow> Inl m | Inr u \<Rightarrow> toUint256 u)"

definition getNormalizedTargetUnit :: "auction_module \<Rightarrow> address \<Rightarrow> 'e set_token \<Rightarrow> address \<Rightarrow> uint256 sol" where
  "getNormalizedTargetUnit am self st component =
     (case toUint256 (positionMultiplier st) of Inl m \<Rightarrow> Inl m
      | Inr current \<Rightarrow> checked (do {
          scaled \<leftarrow> safe_mul (targetUnit (executionInfo am self component)) current;
          safe_div scaled (ri_positionMultiplier (rebalanceInfo am self)) }))"

text \<open>\<^verbatim>\<open>PreciseUnitMath.approximatelyEquals\<close>: the second comparison is evaluated only after the first holds.\<close>

definition approximatelyEquals :: "uint256 \<Rightarrow> uint256 \<Rightarrow> uint256 \<Rightarrow> bool sol" where
  "approximatelyEquals a b range' =
     (case checked (safe_add b range') of Inl m \<Rightarrow> Inl m
      | Inr upper \<Rightarrow> if a \<le> upper then map_sum id (\<lambda>lower. lower \<le> a) (checked (safe_sub b range')) else Inr False)"

definition targetUnmet :: "auction_module \<Rightarrow> address \<Rightarrow> 'e set_token \<Rightarrow> address \<Rightarrow> bool sol" where
  "targetUnmet am self st component =
     (if component = quoteAsset (rebalanceInfo am self) then Inr False
      else case getNormalizedTargetUnit am self st component of Inl m \<Rightarrow> Inl m
      | Inr normalizedTargetUnit \<Rightarrow> (case ar_getDefaultPositionRealUnit st component of Inl m \<Rightarrow> Inl m
        | Inr currentUnit \<Rightarrow>
          if 0 < normalizedTargetUnit then map_sum id Not (approximatelyEquals normalizedTargetUnit currentUnit 1)
          else Inr (normalizedTargetUnit \<noteq> currentUnit)))"

fun targets_met :: "auction_module \<Rightarrow> address \<Rightarrow> 'e set_token \<Rightarrow> address list \<Rightarrow> bool sol" where
  "targets_met am self st [] = Inr True"
| "targets_met am self st (component # cs) =
     (case targetUnmet am self st component of Inl m \<Rightarrow> Inl m
      | Inr unmet \<Rightarrow> if unmet then Inr False else targets_met am self st cs)"

definition allTargetsMet :: "auction_module \<Rightarrow> address \<Rightarrow> 'e set_token \<Rightarrow> bool sol" where
  "allTargetsMet am self st = targets_met am self st (rebalanceComponents (rebalanceInfo am self))"

definition isQuoteAssetExcessOrAtTarget :: "auction_module \<Rightarrow> address \<Rightarrow> 'e set_token \<Rightarrow> bool sol" where
  "isQuoteAssetExcessOrAtTarget am self st =
     (let quote = quoteAsset (rebalanceInfo am self) in
      case ar_getDefaultPositionRealUnit st quote of Inl m \<Rightarrow> Inl m
      | Inr unit \<Rightarrow> (case getNormalizedTargetUnit am self st quote of Inl m \<Rightarrow> Inl m
        | Inr target \<Rightarrow> map_sum id (\<lambda>isAtTarget. target < unit \<or> isAtTarget) (approximatelyEquals unit target 1)))"

definition canUnlockEarly :: "auction_module \<Rightarrow> address \<Rightarrow> 'e set_token \<Rightarrow> bool sol" where
  "canUnlockEarly am self st =
     (case allTargetsMet am self st of Inl m \<Rightarrow> Inl m
      | Inr met \<Rightarrow> if \<not> met then Inr False
        else map_sum id (\<lambda>q. q \<and> raiseTargetPercentage (rebalanceInfo am self) = 0) (isQuoteAssetExcessOrAtTarget am self st))"

definition canRaiseAssetTargets :: "auction_module \<Rightarrow> address \<Rightarrow> 'e set_token \<Rightarrow> bool sol" where
  "canRaiseAssetTargets am self st =
     (let quote = quoteAsset (rebalanceInfo am self) in
      case ar_getDefaultPositionRealUnit st quote of Inl m \<Rightarrow> Inl m
      | Inr unit \<Rightarrow> (case getNormalizedTargetUnit am self st quote of Inl m \<Rightarrow> Inl m
        | Inr target \<Rightarrow> map_sum id (\<lambda>met. met \<and> target < unit) (allTargetsMet am self st)))"

definition isRebalanceDurationElapsed :: "('e, 'w) auction_env \<Rightarrow> auction_module \<Rightarrow> address \<Rightarrow> bool sol" where
  "isRebalanceDurationElapsed v am self =
     map_sum id (\<lambda>finish. finish \<le> v_now v)
       (checked (safe_add (rebalanceStartTime (rebalanceInfo am self)) (rebalanceDuration (rebalanceInfo am self))))"

definition isAllowedBidder :: "auction_module \<Rightarrow> address \<Rightarrow> address \<Rightarrow> bool" where
  "isAllowedBidder am self bidder \<longleftrightarrow>
     (let permissions = permissionInfo am self in isAnyoneAllowedToBid permissions \<or> bidAllowList permissions bidder)"

definition onlyAllowedBidder :: "auction_module \<Rightarrow> address \<Rightarrow> address \<Rightarrow> 'a sol \<Rightarrow> 'a sol" where
  "onlyAllowedBidder am self sender k =
     (if isAllowedBidder am self sender then k else Inl ''Address not permitted to bid'')"

subsection \<open>Functions of the manager\<close>

definition set_execution :: "address \<Rightarrow> 'e set_token \<Rightarrow> address \<times> AuctionExecutionParams \<Rightarrow> auction_module \<Rightarrow> auction_module sol" where
  "set_execution self st = (\<lambda>(component, params) am.
     if hasExternalPosition st component then Inl ''External positions not allowed''
     else Inr (edit_execution self component (\<lambda>_. params) am))"

definition startRebalance :: "('e, 'w) auction_env \<Rightarrow> address \<Rightarrow> address \<Rightarrow> address \<Rightarrow> address list \<Rightarrow> AuctionExecutionParams list
    \<Rightarrow> AuctionExecutionParams list \<Rightarrow> bool \<Rightarrow> uint256 \<Rightarrow> uint256 \<Rightarrow> auction_module \<times> 'e set_token \<Rightarrow> (auction_module \<times> 'e set_token) sol" where
  "startRebalance v self sender quote newComponents newComponentsAuctionParams oldComponentsAuctionParams
       shouldLockSetToken duration initialPositionMultiplier = (\<lambda>(am, st).
     let c = v_controller v; this = am_address am in
     onlyManagerAndValidSet c this self sender st
       (case (if shouldLockSetToken \<and> st_locker st \<noteq> this then st_lock c this st else Inr st) of Inl m \<Rightarrow> Inl m
        | Inr st \<Rightarrow> (case aggregateComponentsAndAuctionParams v this (st_components st) newComponents
              newComponentsAuctionParams oldComponentsAuctionParams of Inl m \<Rightarrow> Inl m
          | Inr (allComponents, allAuctionParams) \<Rightarrow>
            (case each_sol (set_execution self st) (zip allComponents allAuctionParams) am of Inl m \<Rightarrow> Inl m
             | Inr am \<Rightarrow> Inr (edit_rebalance self (\<lambda>r. r\<lparr>quoteAsset := quote, rebalanceStartTime := v_now v,
                 rebalanceDuration := duration, ri_positionMultiplier := initialPositionMultiplier,
                 rebalanceComponents := allComponents\<rparr>) am, st)))))"

definition setRaiseTargetPercentage :: "('e, 'w) auction_env \<Rightarrow> address \<Rightarrow> address \<Rightarrow> uint256 \<Rightarrow> auction_module \<times> 'e set_token
    \<Rightarrow> auction_module sol" where
  "setRaiseTargetPercentage v self sender percentage = (\<lambda>(am, st).
     onlyManagerAndValidSet (v_controller v) (am_address am) self sender st
       (if \<not> 0 < percentage then Inl ''Target percentage must be greater than 0''
        else Inr (edit_rebalance self (raiseTargetPercentage_update (\<lambda>_. percentage)) am)))"

definition updateBiddersHistory :: "address \<Rightarrow> address \<Rightarrow> bool \<Rightarrow> auction_module \<Rightarrow> auction_module sol" where
  "updateBiddersHistory self bidder status am =
     (let history = biddersHistory (permissionInfo am self) in
      if status \<and> \<not> contains history bidder
      then Inr (edit_permission self (biddersHistory_update (\<lambda>h. h @ [bidder])) am)
      else if \<not> status \<and> contains history bidder
      then (case removeStorage history bidder of Inl m \<Rightarrow> Inl m
        | Inr l \<Rightarrow> Inr (edit_permission self (biddersHistory_update (\<lambda>_. l)) am))
      else Inr am)"

definition set_bidder :: "address \<Rightarrow> address \<times> bool \<Rightarrow> auction_module \<Rightarrow> auction_module sol" where
  "set_bidder self = (\<lambda>(bidder, status) am. case updateBiddersHistory self bidder status am of Inl m \<Rightarrow> Inl m
     | Inr am \<Rightarrow> Inr (edit_permission self (bidAllowList_update (\<lambda>l. l(bidder := status))) am))"

definition validateLengthAndUniqueness :: "address list \<Rightarrow> unit sol" where
  "validateLengthAndUniqueness A = (if A = [] then Inl ''Array length must be > 0''
     else case hasDuplicate A of Inl m \<Rightarrow> Inl m | Inr d \<Rightarrow> if d then Inl ''Cannot duplicate addresses'' else Inr ())"

definition validatePairsWithArray :: "address list \<Rightarrow> 'b list \<Rightarrow> unit sol" where
  "validatePairsWithArray A B = (if length A \<noteq> length B then Inl ''Array length mismatch'' else validateLengthAndUniqueness A)"

definition setBidderStatus :: "('e, 'w) auction_env \<Rightarrow> address \<Rightarrow> address \<Rightarrow> address list \<Rightarrow> bool list \<Rightarrow> auction_module \<times> 'e set_token
    \<Rightarrow> auction_module sol" where
  "setBidderStatus v self sender bidders statuses = (\<lambda>(am, st).
     onlyManagerAndValidSet (v_controller v) (am_address am) self sender st
       (case validatePairsWithArray bidders statuses of Inl m \<Rightarrow> Inl m
        | Inr _ \<Rightarrow> each_sol (set_bidder self) (zip bidders statuses) am))"

definition setAnyoneBid :: "('e, 'w) auction_env \<Rightarrow> address \<Rightarrow> address \<Rightarrow> bool \<Rightarrow> auction_module \<times> 'e set_token \<Rightarrow> auction_module sol" where
  "setAnyoneBid v self sender status = (\<lambda>(am, st).
     onlyManagerAndValidSet (v_controller v) (am_address am) self sender st
       (Inr (edit_permission self (isAnyoneAllowedToBid_update (\<lambda>_. status)) am)))"

definition init_target :: "address \<Rightarrow> SetPosition \<Rightarrow> auction_module \<Rightarrow> auction_module sol" where
  "init_target self position am =
     (if sp_positionState position \<noteq> 0 then Inl ''External positions not allowed''
      else case toUint256 (sp_unit position) of Inl m \<Rightarrow> Inl m
      | Inr u \<Rightarrow> Inr (edit_execution self (sp_component position) (targetUnit_update (\<lambda>_. u)) am))"

definition ar_initialize :: "('e, 'w) auction_env \<Rightarrow> address \<Rightarrow> address \<Rightarrow> auction_module \<times> 'e set_token
    \<Rightarrow> (auction_module \<times> 'e set_token) sol" where
  "ar_initialize v self sender = (\<lambda>(am, st). onlySetManager st sender
     (onlyValidAndPendingSet (v_controller v) (am_address am) self st
       (case getPositions st of Inl m \<Rightarrow> Inl m
        | Inr positions \<Rightarrow> (case each_sol (init_target self) positions am of Inl m \<Rightarrow> Inl m
          | Inr am \<Rightarrow> (case toUint256 (positionMultiplier st) of Inl m \<Rightarrow> Inl m
            | Inr mult \<Rightarrow> (case initializeModule (am_address am) st of Inl m \<Rightarrow> Inl m
              | Inr st \<Rightarrow> Inr (edit_rebalance self (ri_positionMultiplier_update (\<lambda>_. mult)) am, st)))))))"

text \<open>\<^verbatim>\<open>delete\<close> of a struct clears its fields but not the mapping inside, which the loop does; the targets stay.\<close>

definition ar_removeModule :: "address \<Rightarrow> auction_module \<Rightarrow> auction_module" where
  "ar_removeModule sender am =
     (let p = permissionInfo am sender;
          allow = foldl (\<lambda>f b. f(b := False)) (bidAllowList p) (biddersHistory p)
      in edit_permission sender (\<lambda>_. no_permissions\<lparr>bidAllowList := allow\<rparr>) (edit_rebalance sender (\<lambda>_. no_rebalance) am))"

subsection \<open>Functions of the bidders\<close>

definition raiseAssetTargets :: "('e, 'w) auction_env \<Rightarrow> address \<Rightarrow> address \<Rightarrow> auction_module \<times> 'e set_token \<Rightarrow> auction_module sol" where
  "raiseAssetTargets v self sender = (\<lambda>(am, st). onlyAllowedBidder am self sender
     (case isRebalanceDurationElapsed v am self of Inl m \<Rightarrow> Inl m
      | Inr elapsed \<Rightarrow> if elapsed then Inl ''Rebalance must be in progress''
        else (case canRaiseAssetTargets am self st of Inl m \<Rightarrow> Inl m
        | Inr can \<Rightarrow> if \<not> can then Inl ''Targets not met or quote asset =~ 0''
          else (case checked (do {
              divisor \<leftarrow> safe_add sol_preciseUnit (raiseTargetPercentage (rebalanceInfo am self));
              sol_preciseDiv (ri_positionMultiplier (rebalanceInfo am self)) divisor }) of Inl m \<Rightarrow> Inl m
            | Inr newPositionMultiplier \<Rightarrow> Inr (edit_rebalance self (ri_positionMultiplier_update (\<lambda>_. newPositionMultiplier)) am)))))"

definition ar_unlock :: "('e, 'w) auction_env \<Rightarrow> address \<Rightarrow> auction_module \<times> 'e set_token \<Rightarrow> (auction_module \<times> 'e set_token) sol" where
  "ar_unlock v self = (\<lambda>(am, st).
     case isRebalanceDurationElapsed v am self of Inl m \<Rightarrow> Inl m
     | Inr elapsed \<Rightarrow> (case canUnlockEarly am self st of Inl m \<Rightarrow> Inl m
       | Inr early \<Rightarrow> if \<not> (elapsed \<or> early) then Inl ''Cannot unlock early unless all targets are met and raiseTargetPercentage is zero''
         else let am = (if early then edit_rebalance self (rebalanceDuration_update (\<lambda>_. 0)) am else am) in
           map_sum id (Pair am) (st_unlock (v_controller v) (am_address am) st)))"

subsection \<open>Bids\<close>

definition validateBidTargets :: "('e, 'w) auction_env \<Rightarrow> auction_module \<Rightarrow> address \<Rightarrow> 'e set_token \<Rightarrow> address \<Rightarrow> unit sol" where
  "validateBidTargets v am self st component =
     (if component = quoteAsset (rebalanceInfo am self) then Inl ''Cannot bid explicitly on Quote Asset''
      else if \<not> contains (rebalanceComponents (rebalanceInfo am self)) component then Inl ''Component not part of rebalance''
      else if hasExternalPosition st component then Inl ''External positions not allowed''
      else case isRebalanceDurationElapsed v am self of Inl m \<Rightarrow> Inl m
      | Inr elapsed \<Rightarrow> if elapsed then Inl ''Rebalance must be in progress'' else Inr ())"

text \<open>Returned: current unit, target unit, current notional amount, target notional amount.\<close>

definition getUnitsAndNotionalAmounts :: "auction_module \<Rightarrow> address \<Rightarrow> 'e set_token \<Rightarrow> address \<Rightarrow> uint256
    \<Rightarrow> (uint256 \<times> uint256 \<times> uint256 \<times> uint256) sol" where
  "getUnitsAndNotionalAmounts am self st component totalSupply' =
     (case ar_getDefaultPositionRealUnit st component of Inl m \<Rightarrow> Inl m
      | Inr currentUnit \<Rightarrow> (case getNormalizedTargetUnit am self st component of Inl m \<Rightarrow> Inl m
      | Inr target \<Rightarrow> (case getDefaultTotalNotional totalSupply' currentUnit of Inl m \<Rightarrow> Inl m
      | Inr currentNotional \<Rightarrow> (case checked (sol_preciseMulCeil totalSupply' target) of Inl m \<Rightarrow> Inl m
      | Inr targetNotional \<Rightarrow> Inr (currentUnit, target, currentNotional, targetNotional)))))"

definition calculateAuctionSizeAndDirection :: "('e, 'w) auction_env \<Rightarrow> auction_module \<Rightarrow> address \<Rightarrow> 'e set_token \<Rightarrow> address
    \<Rightarrow> uint256 \<Rightarrow> (bool \<times> uint256) sol" where
  "calculateAuctionSizeAndDirection v am self st component totalSupply' =
     (let protocolFee = word_of_int (c_fees (v_controller v) (am_address am) 0) in
      case getUnitsAndNotionalAmounts am self st component totalSupply' of Inl m \<Rightarrow> Inl m
      | Inr (currentUnit, target, currentNotional, targetNotional) \<Rightarrow>
        if currentUnit = target then Inl ''Target already met''
        else let isSell = targetNotional < currentNotional in
          map_sum id (Pair isSell) (checked (if isSell then safe_sub currentNotional targetNotional
            else do { d \<leftarrow> safe_sub targetNotional currentNotional;
                      share \<leftarrow> safe_sub sol_preciseUnit protocolFee;
                      sol_preciseDiv d share })))"

definition getSendAndReceiveTokens :: "auction_module \<Rightarrow> bool \<Rightarrow> address \<Rightarrow> address \<Rightarrow> address \<times> address" where
  "getSendAndReceiveTokens am isSell self component =
     (if isSell then (component, quoteAsset (rebalanceInfo am self)) else (quoteAsset (rebalanceInfo am self), component))"

definition calculateQuoteAssetQuantity :: "bool \<Rightarrow> uint256 \<Rightarrow> uint256 \<Rightarrow> uint256 option" where
  "calculateQuoteAssetQuantity isSell componentQuantity price =
     (if isSell then sol_preciseMulCeil componentQuantity price else sol_preciseMul componentQuantity price)"

definition validateQuoteAssetQuantity :: "bool \<Rightarrow> uint256 \<Rightarrow> uint256 \<Rightarrow> uint256 \<Rightarrow> unit sol" where
  "validateQuoteAssetQuantity isSell quoteAssetQuantity quoteQuantityLimit preBidSent =
     (if isSell then (if quoteAssetQuantity \<le> quoteQuantityLimit then Inr () else Inl ''Quote asset quantity exceeds limit'')
      else if \<not> quoteQuantityLimit \<le> quoteAssetQuantity then Inl ''Quote asset quantity below limit''
      else if \<not> quoteAssetQuantity \<le> preBidSent then Inl ''Insufficient quote asset balance''
      else Inr ())"

definition calculateQuantitiesForBid :: "bool \<Rightarrow> uint256 \<Rightarrow> uint256 \<Rightarrow> uint256 \<times> uint256" where
  "calculateQuantitiesForBid isSell componentQuantity quoteAssetQuantity =
     (if isSell then (componentQuantity, quoteAssetQuantity) else (quoteAssetQuantity, componentQuantity))"

definition createBidInfo :: "('e, 'w) auction_env \<Rightarrow> auction_module \<Rightarrow> address \<Rightarrow> 'e set_token \<Rightarrow> address \<Rightarrow> uint256 \<Rightarrow> uint256
    \<Rightarrow> 'w \<Rightarrow> BidInfo sol" where
  "createBidInfo v am self st component componentQuantity quoteQuantityLimit w =
     (let params = executionInfo am self component;
          info = rebalanceInfo am self;
          supply' = e_totalSupply (v_ops v) (st_erc20 st) in
      case getAndValidateAdapter (v_registry v) (v_hash v) (am_address am) (priceAdapterName params) of Inl m \<Rightarrow> Inl m
      | Inr adapter \<Rightarrow> (case calculateAuctionSizeAndDirection v am self st component supply' of Inl m \<Rightarrow> Inl m
      | Inr (isSell, auctionSize) \<Rightarrow>
        if \<not> componentQuantity \<le> auctionSize then Inl ''Bid size exceeds auction quantity''
        else let (sent, received) = getSendAndReceiveTokens am isSell self component in
        (case checked (safe_sub (v_now v) (rebalanceStartTime info)) of Inl m \<Rightarrow> Inl m
        | Inr elapsed \<Rightarrow>
        (case v_getPrice v adapter self component componentQuantity elapsed (rebalanceDuration info) (priceAdapterConfigData params) of Inl m \<Rightarrow> Inl m
        | Inr price \<Rightarrow> (case checked (calculateQuoteAssetQuantity isSell componentQuantity price) of Inl m \<Rightarrow> Inl m
        | Inr quoteAssetQuantity \<Rightarrow>
          let preSent = x_balanceOf (v_externals v) w sent self;
              preReceived = x_balanceOf (v_externals v) w received self in
          (case validateQuoteAssetQuantity isSell quoteAssetQuantity quoteQuantityLimit preSent of Inl m \<Rightarrow> Inl m
           | Inr _ \<Rightarrow> let (qSent, qReceived) = calculateQuantitiesForBid isSell componentQuantity quoteAssetQuantity in
             Inr \<lparr>sendToken = sent, receiveToken = received, priceAdapter = adapter,
               bi_priceAdapterConfigData = priceAdapterConfigData params, isSellAuction = isSell, auctionQuantity = auctionSize,
               componentPrice = price, quantitySentBySet = qSent, quantityReceivedBySet = qReceived,
               preBidTokenSentBalance = preSent, preBidTokenReceivedBalance = preReceived, setTotalSupply = supply'\<rparr>))))))"

definition executeBid :: "('e, 'w) auction_env \<Rightarrow> address \<Rightarrow> address \<Rightarrow> address \<Rightarrow> BidInfo \<Rightarrow> 'e set_token \<Rightarrow> 'w \<Rightarrow> 'w sol" where
  "executeBid v this self sender bidInfo st w =
     (case explicit_transferFrom (v_externals v) this (receiveToken bidInfo) sender self (quantityReceivedBySet bidInfo) w of Inl m \<Rightarrow> Inl m
      | Inr w \<Rightarrow> strictInvokeTransfer (v_externals v) (v_controller v) this self (sendToken bidInfo) sender (quantitySentBySet bidInfo) st w)"

definition payProtocolFeeFromSetToken :: "'w externals \<Rightarrow> controller_state \<Rightarrow> address \<Rightarrow> address \<Rightarrow> address \<Rightarrow> uint256
    \<Rightarrow> 'e set_token \<Rightarrow> 'w \<Rightarrow> 'w sol" where
  "payProtocolFeeFromSetToken x c this self token feeQuantity st w =
     (if 0 < feeQuantity then strictInvokeTransfer x c this self token (c_feeRecipient c) feeQuantity st w else Inr w)"

definition accrueProtocolFee :: "('e, 'w) auction_env \<Rightarrow> address \<Rightarrow> address \<Rightarrow> BidInfo \<Rightarrow> 'e set_token \<Rightarrow> 'w \<Rightarrow> ('w \<times> uint256) sol" where
  "accrueProtocolFee v this self bidInfo st w =
     (case checked (safe_sub (x_balanceOf (v_externals v) w (receiveToken bidInfo) self) (preBidTokenReceivedBalance bidInfo)) of Inl m \<Rightarrow> Inl m
      | Inr exchangedQuantity \<Rightarrow> (case getModuleFee (v_controller v) this 0 exchangedQuantity of Inl m \<Rightarrow> Inl m
        | Inr protocolFee \<Rightarrow>
          (case payProtocolFeeFromSetToken (v_externals v) (v_controller v) this self (receiveToken bidInfo) protocolFee st w of Inl m \<Rightarrow> Inl m
           | Inr w \<Rightarrow> Inr (w, protocolFee))))"

text \<open>Returned: the SetToken and the net amounts sent and received.\<close>

definition updatePositionState :: "('e, 'w) auction_env \<Rightarrow> address \<Rightarrow> address \<Rightarrow> BidInfo \<Rightarrow> 'e set_token \<Rightarrow> 'w
    \<Rightarrow> ('e set_token \<times> uint256 \<times> uint256) sol" where
  "updatePositionState v this self bidInfo st w =
     (case calculateAndEditDefaultPosition (v_controller v) this (sendToken bidInfo) (setTotalSupply bidInfo)
          (preBidTokenSentBalance bidInfo) (x_balanceOf (v_externals v) w (sendToken bidInfo) self) st of Inl m \<Rightarrow> Inl m
      | Inr (st, postSent, _) \<Rightarrow>
        (case calculateAndEditDefaultPosition (v_controller v) this (receiveToken bidInfo) (setTotalSupply bidInfo)
            (preBidTokenReceivedBalance bidInfo) (x_balanceOf (v_externals v) w (receiveToken bidInfo) self) st of Inl m \<Rightarrow> Inl m
         | Inr (st, postReceived, _) \<Rightarrow>
           (case checked (safe_sub (preBidTokenSentBalance bidInfo) postSent) of Inl m \<Rightarrow> Inl m
            | Inr netSend \<Rightarrow> (case checked (safe_sub postReceived (preBidTokenReceivedBalance bidInfo)) of Inl m \<Rightarrow> Inl m
              | Inr netReceive \<Rightarrow> Inr (st, netSend, netReceive)))))"

text \<open>Returned with the new state: what the event reports, the bid, the net amounts and the protocol fee.\<close>

definition ar_bid :: "('e, 'w) auction_env \<Rightarrow> auction_module \<Rightarrow> address \<Rightarrow> address \<Rightarrow> address \<Rightarrow> uint256 \<Rightarrow> uint256
    \<Rightarrow> 'e set_token \<times> 'w \<Rightarrow> (('e set_token \<times> 'w) \<times> BidInfo \<times> uint256 \<times> uint256 \<times> uint256) sol" where
  "ar_bid v am self sender component componentAmount quoteAssetLimit = (\<lambda>(st, w). onlyAllowedBidder am self sender
     (case validateBidTargets v am self st component of Inl m \<Rightarrow> Inl m
      | Inr _ \<Rightarrow> (case createBidInfo v am self st component componentAmount quoteAssetLimit w of Inl m \<Rightarrow> Inl m
      | Inr bidInfo \<Rightarrow> (case executeBid v (am_address am) self sender bidInfo st w of Inl m \<Rightarrow> Inl m
      | Inr w \<Rightarrow> (case accrueProtocolFee v (am_address am) self bidInfo st w of Inl m \<Rightarrow> Inl m
      | Inr (w, protocolFeeAmount) \<Rightarrow> (case updatePositionState v (am_address am) self bidInfo st w of Inl m \<Rightarrow> Inl m
      | Inr (st, netAmountSent, netAmountReceived) \<Rightarrow>
        Inr ((st, w), bidInfo, netAmountSent, netAmountReceived, protocolFeeAmount)))))))"

subsection \<open>Views\<close>

definition getAuctionSizeAndDirection :: "('e, 'w) auction_env \<Rightarrow> auction_module \<Rightarrow> address \<Rightarrow> 'e set_token \<Rightarrow> address \<Rightarrow> (bool \<times> uint256) sol" where
  "getAuctionSizeAndDirection v am self st component = onlyValidAndInitializedSet (v_controller v) (am_address am) self st
     (if \<not> contains (rebalanceComponents (rebalanceInfo am self)) component then Inl ''Component not part of rebalance''
      else calculateAuctionSizeAndDirection v am self st component (e_totalSupply (v_ops v) (st_erc20 st)))"

definition getBidPreview :: "('e, 'w) auction_env \<Rightarrow> auction_module \<Rightarrow> address \<Rightarrow> 'e set_token \<Rightarrow> address \<Rightarrow> uint256 \<Rightarrow> uint256 \<Rightarrow> 'w \<Rightarrow> BidInfo sol" where
  "getBidPreview v am self st component componentQuantity quoteQuantityLimit w =
     onlyValidAndInitializedSet (v_controller v) (am_address am) self st
     (case validateBidTargets v am self st component of Inl m \<Rightarrow> Inl m
      | Inr _ \<Rightarrow> createBidInfo v am self st component componentQuantity quoteQuantityLimit w)"

definition getQuoteAssetBalance :: "('e, 'w) auction_env \<Rightarrow> auction_module \<Rightarrow> address \<Rightarrow> 'w \<Rightarrow> uint256" where
  "getQuoteAssetBalance v am self w = x_balanceOf (v_externals v) w (quoteAsset (rebalanceInfo am self)) self"

definition getRebalanceComponents :: "('e, 'w) auction_env \<Rightarrow> auction_module \<Rightarrow> address \<Rightarrow> 'e set_token \<Rightarrow> address list sol" where
  "getRebalanceComponents v am self st = onlyValidAndInitializedSet (v_controller v) (am_address am) self st
     (Inr (rebalanceComponents (rebalanceInfo am self)))"

definition getAllowedBidders :: "('e, 'w) auction_env \<Rightarrow> auction_module \<Rightarrow> address \<Rightarrow> 'e set_token \<Rightarrow> address list sol" where
  "getAllowedBidders v am self st = onlyValidAndInitializedSet (v_controller v) (am_address am) self st
     (Inr (biddersHistory (permissionInfo am self)))"

end
