(* ===== verification/Trade_Module.thy ===== *)
theory Trade_Module
  imports Auction_Rebalance
begin

section \<open>Trades on exchanges\<close>

text \<open>
  Models contracts/protocol/modules/v1/TradeModule.sol: the manager of a SetToken exchanges one component for another
  through an exchange adapter of the integration registry. The adapter's answers (the spender and the call of the
  exchange) are fields of the environment, the effect of the call is that of \<^verbatim>\<open>x_functionCall\<close> in the outside world.
  The module keeps no state of its own but its address.
\<close>

subsection \<open>Data\<close>

record TradeInfo =
  ti_exchangeAdapter :: address
  ti_sendToken :: address
  ti_receiveToken :: address
  ti_setTotalSupply :: uint256
  totalSendQuantity :: uint256
  totalMinReceiveQuantity :: uint256
  preTradeSendTokenBalance :: uint256
  preTradeReceiveTokenBalance :: uint256

record ('e, 'w) trade_env =
  te_ops :: "'e erc20_ops"
  te_externals :: "'w externals"
  te_controller :: controller_state
  te_registry :: integration_registry
  te_hash :: "string \<Rightarrow> bytes"
  te_getSpender :: "address \<Rightarrow> address sol"
  te_getTradeCalldata :: "address \<Rightarrow> address \<Rightarrow> address \<Rightarrow> address \<Rightarrow> uint256 \<Rightarrow> uint256 \<Rightarrow> bytes \<Rightarrow> (address \<times> uint256 \<times> bytes) sol"

subsection \<open>Functions\<close>

definition tm_initialize :: "('e, 'w) trade_env \<Rightarrow> address \<Rightarrow> address \<Rightarrow> address \<Rightarrow> 'e set_token \<Rightarrow> 'e set_token sol" where
  "tm_initialize te this self sender st = onlyValidAndPendingSet (te_controller te) this self st
     (onlySetManager st sender (initializeModule this st))"

definition tm_removeModule :: "unit sol" where
  "tm_removeModule = Inr ()"

definition createTradeInfo :: "('e, 'w) trade_env \<Rightarrow> address \<Rightarrow> address \<Rightarrow> string \<Rightarrow> address \<Rightarrow> address \<Rightarrow> uint256 \<Rightarrow> uint256
    \<Rightarrow> 'e set_token \<Rightarrow> 'w \<Rightarrow> TradeInfo sol" where
  "createTradeInfo te this self exchangeName sent received sendQuantity minReceiveQuantity st w =
     (case getAndValidateAdapter (te_registry te) (te_hash te) this exchangeName of Inl m \<Rightarrow> Inl m
      | Inr adapter \<Rightarrow> let supply' = e_totalSupply (te_ops te) (st_erc20 st) in
        (case getDefaultTotalNotional supply' sendQuantity of Inl m \<Rightarrow> Inl m
         | Inr totalSend \<Rightarrow> (case getDefaultTotalNotional supply' minReceiveQuantity of Inl m \<Rightarrow> Inl m
           | Inr totalMin \<Rightarrow> Inr \<lparr>ti_exchangeAdapter = adapter, ti_sendToken = sent, ti_receiveToken = received,
               ti_setTotalSupply = supply', totalSendQuantity = totalSend, totalMinReceiveQuantity = totalMin,
               preTradeSendTokenBalance = x_balanceOf (te_externals te) w sent self,
               preTradeReceiveTokenBalance = x_balanceOf (te_externals te) w received self\<rparr>)))"

definition validatePreTradeData :: "TradeInfo \<Rightarrow> uint256 \<Rightarrow> 'e set_token \<Rightarrow> unit sol" where
  "validatePreTradeData tradeInfo sendQuantity st =
     (if \<not> 0 < totalSendQuantity tradeInfo then Inl ''Token to sell must be nonzero''
      else case hasSufficientDefaultUnits st (ti_sendToken tradeInfo) sendQuantity of Inl m \<Rightarrow> Inl m
      | Inr sufficient \<Rightarrow> if sufficient then Inr () else Inl ''Unit cant be greater than existing'')"

definition executeTrade :: "('e, 'w) trade_env \<Rightarrow> address \<Rightarrow> address \<Rightarrow> TradeInfo \<Rightarrow> bytes \<Rightarrow> 'e set_token \<Rightarrow> 'w \<Rightarrow> 'w sol" where
  "executeTrade te this self tradeInfo data' st w =
     (let x = te_externals te; c = te_controller te in
      case te_getSpender te (ti_exchangeAdapter tradeInfo) of Inl m \<Rightarrow> Inl m
      | Inr spender \<Rightarrow>
        (case invokeApprove x c this self (ti_sendToken tradeInfo) spender (totalSendQuantity tradeInfo) st w of Inl m \<Rightarrow> Inl m
         | Inr w \<Rightarrow>
           (case te_getTradeCalldata te (ti_exchangeAdapter tradeInfo) (ti_sendToken tradeInfo) (ti_receiveToken tradeInfo) self
               (totalSendQuantity tradeInfo) (totalMinReceiveQuantity tradeInfo) data' of Inl m \<Rightarrow> Inl m
            | Inr (targetExchange, callValue, methodData) \<Rightarrow>
              map_sum id snd (st_invoke (x_functionCall x self) c this targetExchange callValue methodData st w))))"

definition validatePostTrade :: "('e, 'w) trade_env \<Rightarrow> address \<Rightarrow> TradeInfo \<Rightarrow> 'w \<Rightarrow> uint256 sol" where
  "validatePostTrade te self tradeInfo w =
     (case checked (safe_sub (x_balanceOf (te_externals te) w (ti_receiveToken tradeInfo) self) (preTradeReceiveTokenBalance tradeInfo)) of Inl m \<Rightarrow> Inl m
      | Inr exchangedQuantity \<Rightarrow>
        if totalMinReceiveQuantity tradeInfo \<le> exchangedQuantity then Inr exchangedQuantity else Inl ''Slippage greater than allowed'')"

definition tm_accrueProtocolFee :: "('e, 'w) trade_env \<Rightarrow> address \<Rightarrow> address \<Rightarrow> TradeInfo \<Rightarrow> uint256 \<Rightarrow> 'e set_token \<Rightarrow> 'w \<Rightarrow> ('w \<times> uint256) sol" where
  "tm_accrueProtocolFee te this self tradeInfo exchangedQuantity st w =
     (case getModuleFee (te_controller te) this 0 exchangedQuantity of Inl m \<Rightarrow> Inl m
      | Inr protocolFeeTotal \<Rightarrow>
        (case payProtocolFeeFromSetToken (te_externals te) (te_controller te) this self (ti_receiveToken tradeInfo) protocolFeeTotal st w of Inl m \<Rightarrow> Inl m
         | Inr w \<Rightarrow> Inr (w, protocolFeeTotal)))"

definition updateSetTokenPositions :: "('e, 'w) trade_env \<Rightarrow> address \<Rightarrow> address \<Rightarrow> TradeInfo \<Rightarrow> 'e set_token \<Rightarrow> 'w
    \<Rightarrow> ('e set_token \<times> uint256 \<times> uint256) sol" where
  "updateSetTokenPositions te this self tradeInfo st w =
     (case calculateAndEditDefaultPosition (te_controller te) this (ti_sendToken tradeInfo) (ti_setTotalSupply tradeInfo)
          (preTradeSendTokenBalance tradeInfo) (x_balanceOf (te_externals te) w (ti_sendToken tradeInfo) self) st of Inl m \<Rightarrow> Inl m
      | Inr (st, currentSendTokenBalance, _) \<Rightarrow>
        (case calculateAndEditDefaultPosition (te_controller te) this (ti_receiveToken tradeInfo) (ti_setTotalSupply tradeInfo)
            (preTradeReceiveTokenBalance tradeInfo) (x_balanceOf (te_externals te) w (ti_receiveToken tradeInfo) self) st of Inl m \<Rightarrow> Inl m
         | Inr (st, currentReceiveTokenBalance, _) \<Rightarrow>
           (case checked (safe_sub (preTradeSendTokenBalance tradeInfo) currentSendTokenBalance) of Inl m \<Rightarrow> Inl m
            | Inr netSend \<Rightarrow> (case checked (safe_sub currentReceiveTokenBalance (preTradeReceiveTokenBalance tradeInfo)) of Inl m \<Rightarrow> Inl m
              | Inr netReceive \<Rightarrow> Inr (st, netSend, netReceive)))))"

text \<open>Returned with the new state: what the event reports.\<close>

definition trade :: "('e, 'w) trade_env \<Rightarrow> address \<Rightarrow> address \<Rightarrow> address \<Rightarrow> string \<Rightarrow> address \<Rightarrow> uint256 \<Rightarrow> address \<Rightarrow> uint256 \<Rightarrow> bytes
    \<Rightarrow> 'e set_token \<times> 'w \<Rightarrow> (('e set_token \<times> 'w) \<times> uint256 \<times> uint256 \<times> uint256) sol" where
  "trade te this self sender exchangeName sent sendQuantity received minReceiveQuantity data' = (\<lambda>(st, w).
     onlyManagerAndValidSet (te_controller te) this self sender st
     (case createTradeInfo te this self exchangeName sent received sendQuantity minReceiveQuantity st w of Inl m \<Rightarrow> Inl m
      | Inr tradeInfo \<Rightarrow> (case validatePreTradeData tradeInfo sendQuantity st of Inl m \<Rightarrow> Inl m
      | Inr _ \<Rightarrow> (case executeTrade te this self tradeInfo data' st w of Inl m \<Rightarrow> Inl m
      | Inr w \<Rightarrow> (case validatePostTrade te self tradeInfo w of Inl m \<Rightarrow> Inl m
      | Inr exchangedQuantity \<Rightarrow> (case tm_accrueProtocolFee te this self tradeInfo exchangedQuantity st w of Inl m \<Rightarrow> Inl m
      | Inr (w, protocolFee) \<Rightarrow> (case updateSetTokenPositions te this self tradeInfo st w of Inl m \<Rightarrow> Inl m
      | Inr (st, netSendAmount, netReceiveAmount) \<Rightarrow> Inr ((st, w), netSendAmount, netReceiveAmount, protocolFee))))))))"

subsection \<open>The parts of a trade\<close>

lemma payProtocolFee_balance:
  assumes "payProtocolFeeFromSetToken x c this self t q st w = Inr w'" "tokens_isolated x self"
  shows "uint (x_balanceOf x w' t' self) = uint (x_balanceOf x w t' self) - (if t' = t then uint q else 0)"
proof (cases "0 < q")
  case True
  then show ?thesis using assms by (simp add: payProtocolFeeFromSetToken_def strictInvokeTransfer_balance)
next
  case False
  then have "q = 0" by (simp add: word_neq_0_conv [symmetric])
  then show ?thesis using assms(1) by (simp add: payProtocolFeeFromSetToken_def)
qed

text \<open>
  What is assumed of an exchange: the call its adapter asks for leaves the SetToken at least what it had of every token
  but the two that are traded.
\<close>

definition exchange_isolated :: "('e, 'w) trade_env \<Rightarrow> address \<Rightarrow> bool" where
  "exchange_isolated te self \<longleftrightarrow> (\<forall>adapter sent received q m data' target val d w r w'.
     te_getTradeCalldata te adapter sent received self q m data' = Inr (target, val, d) \<longrightarrow>
     x_functionCall (te_externals te) self target val d w = Inr (r, w') \<longrightarrow>
     (\<forall>t. t \<noteq> sent \<and> t \<noteq> received \<longrightarrow> x_balanceOf (te_externals te) w t self \<le> x_balanceOf (te_externals te) w' t self))"

lemma trade_parts:
  assumes "trade te this self sender name sent sendQuantity received minReceive data' (st, w) = Inr ((st', w'), netSend, netReceive, fee)"
  obtains ti w1 n where "st_manager st = sender" "createTradeInfo te this self name sent received sendQuantity minReceive st w = Inr ti"
    "validatePreTradeData ti sendQuantity st = Inr ()" "executeTrade te this self ti data' st w = Inr w1"
    "validatePostTrade te self ti w1 = Inr n" "tm_accrueProtocolFee te this self ti n st w1 = Inr (w', fee)"
    "updateSetTokenPositions te this self ti st w' = Inr (st', netSend, netReceive)"
  using assms by (auto simp: trade_def onlyManagerAndValidSet_def isSetManager_def split: sum.splits if_splits)

lemma createTradeInfo_Inr:
  assumes "createTradeInfo te this self name sent received q m st w = Inr ti"
  shows "ti_sendToken ti = sent" "ti_receiveToken ti = received" "ti_setTotalSupply ti = e_totalSupply (te_ops te) (st_erc20 st)"
    "preTradeSendTokenBalance ti = x_balanceOf (te_externals te) w sent self"
    "preTradeReceiveTokenBalance ti = x_balanceOf (te_externals te) w received self"
    "uint (totalSendQuantity ti) = uint (ti_setTotalSupply ti) * uint q div PRECISE_UNIT"
    "uint (totalMinReceiveQuantity ti) = uint (ti_setTotalSupply ti) * uint m div PRECISE_UNIT"
  using assms by (auto simp: createTradeInfo_def getDefaultTotalNotional_def Let_def dest!: sol_preciseMul_floor split: sum.splits)

text \<open>The two approvals and the exchange touch no third token.\<close>

lemma executeTrade_balance:
  assumes "executeTrade te this self ti data' st w = Inr w'" "tokens_isolated (te_externals te) self" "exchange_isolated te self"
    and "t \<noteq> ti_sendToken ti" "t \<noteq> ti_receiveToken ti"
  shows "x_balanceOf (te_externals te) w t self \<le> x_balanceOf (te_externals te) w' t self"
proof -
  let ?x = "te_externals te"
  obtain spender w1 target val d r where e: "invokeApprove ?x (te_controller te) this self (ti_sendToken ti) spender (totalSendQuantity ti) st w = Inr w1"
    "te_getTradeCalldata te (ti_exchangeAdapter ti) (ti_sendToken ti) (ti_receiveToken ti) self (totalSendQuantity ti)
       (totalMinReceiveQuantity ti) data' = Inr (target, val, d)" "x_functionCall ?x self target val d w1 = Inr (r, w')"
    using assms(1) by (auto simp: executeTrade_def st_invoke_def privileged_Inr Let_def map_sum_def split: sum.splits)
  obtain r1 where "x_functionCall ?x self (ti_sendToken ti) 0 (x_encode ?x ''approve(address,uint256)''
      [Addr spender, Num (uint (totalSendQuantity ti))]) w = Inr (r1, w1)"
    using e(1) by (auto simp: invokeApprove_def st_invoke_def privileged_Inr map_sum_def split: sum.splits)
  then have "x_balanceOf ?x w1 t self = x_balanceOf ?x w t self" using assms(2,4) unfolding tokens_isolated_def by blast
  moreover have "x_balanceOf ?x w1 t self \<le> x_balanceOf ?x w' t self" using assms(3-5) e(2,3) unfolding exchange_isolated_def by blast
  ultimately show ?thesis by simp
qed

lemma calculateAndEdit_current: "calculateAndEditDefaultPosition c this a S pre cur st = Inr (st1, cur', pu, n) \<Longrightarrow> cur' = cur"
  by (auto simp: calculateAndEditDefaultPosition_def split: sum.splits)

lemma updateSetTokenPositions_Inr:
  assumes "updateSetTokenPositions te this self ti st w = Inr (st', netSend, netReceive)"
  obtains st1 ps ns pr nr where
    "calculateAndEditDefaultPosition (te_controller te) this (ti_sendToken ti) (ti_setTotalSupply ti) (preTradeSendTokenBalance ti)
       (x_balanceOf (te_externals te) w (ti_sendToken ti) self) st = Inr (st1, x_balanceOf (te_externals te) w (ti_sendToken ti) self, ps, ns)"
    "calculateAndEditDefaultPosition (te_controller te) this (ti_receiveToken ti) (ti_setTotalSupply ti) (preTradeReceiveTokenBalance ti)
       (x_balanceOf (te_externals te) w (ti_receiveToken ti) self) st1 = Inr (st', x_balanceOf (te_externals te) w (ti_receiveToken ti) self, pr, nr)"
    "safe_sub (preTradeSendTokenBalance ti) (x_balanceOf (te_externals te) w (ti_sendToken ti) self) = Some netSend"
    "safe_sub (x_balanceOf (te_externals te) w (ti_receiveToken ti) self) (preTradeReceiveTokenBalance ti) = Some netReceive"
proof -
  obtain st1 cs ps ns cr pr nr where e:
    "calculateAndEditDefaultPosition (te_controller te) this (ti_sendToken ti) (ti_setTotalSupply ti) (preTradeSendTokenBalance ti)
       (x_balanceOf (te_externals te) w (ti_sendToken ti) self) st = Inr (st1, cs, ps, ns)"
    "calculateAndEditDefaultPosition (te_controller te) this (ti_receiveToken ti) (ti_setTotalSupply ti) (preTradeReceiveTokenBalance ti)
       (x_balanceOf (te_externals te) w (ti_receiveToken ti) self) st1 = Inr (st', cr, pr, nr)"
    "safe_sub (preTradeSendTokenBalance ti) cs = Some netSend" "safe_sub cr (preTradeReceiveTokenBalance ti) = Some netReceive"
    using assms by (auto simp: updateSetTokenPositions_def split: sum.splits)
  show ?thesis by (rule that) (use e calculateAndEdit_current [OF e(1)] calculateAndEdit_current [OF e(2)] in simp_all)
qed

text \<open>Two positions computed from the balances, the others untouched: the common end of bids and trades.\<close>

lemma two_positions_covered:
  assumes "calculateAndEditDefaultPosition c this a S pa (x_balanceOf x w' a self) st = Inr (st1, ca, ua, na)"
    and "calculateAndEditDefaultPosition c this b S pb (x_balanceOf x w' b self) st1 = Inr (st', cb, ub, nb)"
    and "S = e_totalSupply ops (st_erc20 st)" "set_inv st" "covered D ops x self (st, w)"
    and "\<And>t. t \<noteq> a \<Longrightarrow> t \<noteq> b \<Longrightarrow> x_balanceOf x w t self \<le> x_balanceOf x w' t self"
  shows "covered D ops x self (st', w') \<and> set_inv st'"
proof -
  note c1 = calculateAndEdit_covered [OF assms(1,4)]
  then have "set_inv st1" by blast
  note c2 = calculateAndEdit_covered [OF assms(2) this]
  have D: "0 \<le> D" using assms(5) by (simp add: covered_def)
  have erc: "st_erc20 st' = st_erc20 st" using c1 c2 by (simp add: same_but_positions_def)
  have "uint S * sint u \<le> uint (x_balanceOf x w' t self) * PRECISE_UNIT + D"
    if t: "t \<in> set (st_components st')" and u: "getDefaultPositionRealUnit st' t = Inr u" for t u
  proof -
    consider (r) "t = b" | (s) "t = a" "t \<noteq> b" | (o) "t \<noteq> a" "t \<noteq> b" by blast
    then show ?thesis
    proof cases
      case r
      then show ?thesis using c2 u D by fastforce
    next
      case s
      then show ?thesis using c1 c2 u D by fastforce
    next
      case o
      then have "t \<in> set (st_components st)" "getDefaultPositionRealUnit st t = Inr u" using c1 c2 t u by auto
      then have "uint S * sint u \<le> uint (x_balanceOf x w t self) * PRECISE_UNIT + D" using assms(3,5) by (simp add: covered_def)
      also have "\<dots> \<le> uint (x_balanceOf x w' t self) * PRECISE_UNIT + D"
        using assms(6) [OF o] by (intro add_right_mono mult_right_mono) (simp_all add: word_le_def)
      finally show ?thesis .
    qed
  qed
  then show ?thesis using erc c2 D assms(3) by (simp add: covered_def)
qed

lemma trade_keeps_collateral:
  assumes "trade te this self sender name sent sendQuantity received minReceive data' (st, w) = Inr ((st', w'), netSend, netReceive, fee)"
    and "covered D (te_ops te) (te_externals te) self (st, w)" "set_inv st"
    and "tokens_isolated (te_externals te) self" "exchange_isolated te self"
  shows "covered D (te_ops te) (te_externals te) self (st', w') \<and> set_inv st'"
proof -
  obtain ti w1 n where p: "createTradeInfo te this self name sent received sendQuantity minReceive st w = Inr ti"
    "executeTrade te this self ti data' st w = Inr w1" "tm_accrueProtocolFee te this self ti n st w1 = Inr (w', fee)"
    "updateSetTokenPositions te this self ti st w' = Inr (st', netSend, netReceive)"
    by (rule trade_parts [OF assms(1)])
  note ti = createTradeInfo_Inr [OF p(1)]
  have pay: "payProtocolFeeFromSetToken (te_externals te) (te_controller te) this self (ti_receiveToken ti) fee st w1 = Inr w'"
    using p(3) by (auto simp: tm_accrueProtocolFee_def split: sum.splits)
  have "x_balanceOf (te_externals te) w t self \<le> x_balanceOf (te_externals te) w' t self"
    if "t \<noteq> ti_sendToken ti" "t \<noteq> ti_receiveToken ti" for t
    using executeTrade_balance [OF p(2) assms(4,5) that] payProtocolFee_balance [OF pay assms(4), of t] that
    by (simp add: word_le_def)
  note moved = this
  show ?thesis
    by (rule updateSetTokenPositions_Inr [OF p(4)], erule (1) two_positions_covered) (use assms(2,3) ti(3) moved in simp_all)
qed

subsection \<open>A concrete exchange\<close>

text \<open>Three raw units of the SetToken hold six of token t; the exchange gives five of token q for two of t.\<close>

definition swap_externals :: "(address \<Rightarrow> address \<Rightarrow> uint256) externals" where
  "swap_externals = sample_externals\<lparr>x_functionCall := \<lambda>self t v d w.
       if d = ''swap'' then (case sample_move ''t'' self ''dex'' 2 w of Inl m \<Rightarrow> Inl m
         | Inr w \<Rightarrow> map_sum id (Pair []) (sample_move ''q'' ''dex'' self 5 w))
       else if d = ''ok'' then Inr ([], w) else x_functionCall sample_externals self t v d w,
     x_encode := \<lambda>m args. if m = ''approve(address,uint256)'' then ''ok'' else CHR ''1'' # x_encode sample_externals m args\<rparr>"

definition sample_trade_env :: "(erc20, address \<Rightarrow> address \<Rightarrow> uint256) trade_env" where
  "sample_trade_env = \<lparr>te_ops = erc20_contract, te_externals = swap_externals, te_controller = sample_controller\<lparr>isSet := \<lambda>_. True\<rparr>,
     te_registry = (new_IntegrationRegistry ''o'' ''c'')\<lparr>integrations := \<lambda>_ _. ''adapter''\<rparr>, te_hash = \<lambda>s. s,
     te_getSpender = \<lambda>_. Inr ''dex'', te_getTradeCalldata = \<lambda>_ _ _ _ _ _ _. Inr (''dex'', 0, ''swap'')\<rparr>"

definition trade_token :: "erc20 set_token" where
  "trade_token = sample_token\<lparr>st_erc20 := \<lparr>balances = (\<lambda>_. 0)(''u'' := 3), allowances = \<lambda>_ _. 0, totalSupply = 3\<rparr>\<rparr>"

definition trade_balances :: "address \<Rightarrow> address \<Rightarrow> uint256" where
  "trade_balances = (\<lambda>_ _. 0)(''t'' := (\<lambda>_. 0)(''set'' := 6), ''q'' := (\<lambda>_. 0)(''dex'' := 100))"

lemma swap_isolated: "tokens_isolated swap_externals self"
  using sample_isolated [of self]
  by (auto simp: tokens_isolated_def swap_externals_def sample_externals_def sample_move_def map_sum_def split: if_splits sum.splits)

subsection \<open>Properties\<close>

text \<open>
  C3. A trade gives what the manager asked for: it is accepted only from the manager, for a positive quantity that the
  default position of the sold token covers; the SetToken receives at least the minimum unit times the supply before
  the protocol fee, which is the Controller's share of what was received; and its balances of the two tokens change by
  exactly the amounts reported.
\<close>

theorem trades_honour_minimum:
  assumes "trade te this self sender name sent sendQuantity received minReceive data' (st, w) = Inr ((st', w'), netSend, netReceive, fee)"
    and "tokens_isolated (te_externals te) self"
  shows "st_manager st = sender \<and>
    (\<exists>u. getDefaultPositionRealUnit st sent = Inr u \<and> 0 < uint sendQuantity \<and> uint sendQuantity \<le> sint u) \<and>
    (\<exists>n. uint (e_totalSupply (te_ops te) (st_erc20 st)) * uint minReceive div PRECISE_UNIT \<le> uint n \<and>
      getModuleFee (te_controller te) this 0 n = Inr fee \<and> uint netReceive = uint n - uint fee) \<and>
    uint (x_balanceOf (te_externals te) w' sent self) = uint (x_balanceOf (te_externals te) w sent self) - uint netSend \<and>
    uint (x_balanceOf (te_externals te) w' received self) = uint (x_balanceOf (te_externals te) w received self) + uint netReceive"
proof -
  obtain ti w1 n where p: "st_manager st = sender" "createTradeInfo te this self name sent received sendQuantity minReceive st w = Inr ti"
    "validatePreTradeData ti sendQuantity st = Inr ()" "validatePostTrade te self ti w1 = Inr n"
    "tm_accrueProtocolFee te this self ti n st w1 = Inr (w', fee)" "updateSetTokenPositions te this self ti st w' = Inr (st', netSend, netReceive)"
    by (rule trade_parts [OF assms(1)])
  note ti = createTradeInfo_Inr [OF p(2)]
  obtain st1 ps ns pr nr where net: "safe_sub (preTradeSendTokenBalance ti) (x_balanceOf (te_externals te) w' (ti_sendToken ti) self) = Some netSend"
    "safe_sub (x_balanceOf (te_externals te) w' (ti_receiveToken ti) self) (preTradeReceiveTokenBalance ti) = Some netReceive"
    by (rule updateSetTokenPositions_Inr [OF p(6)])
  have pay: "payProtocolFeeFromSetToken (te_externals te) (te_controller te) this self received fee st w1 = Inr w'"
    and fee: "getModuleFee (te_controller te) this 0 n = Inr fee"
    using p(5) by (auto simp: tm_accrueProtocolFee_def ti(2) split: sum.splits)
  have n: "safe_sub (x_balanceOf (te_externals te) w1 received self) (x_balanceOf (te_externals te) w received self) = Some n"
    "totalMinReceiveQuantity ti \<le> n"
    using p(4) by (auto simp: validatePostTrade_def ti(2,5) split: sum.splits if_splits)
  have "0 < totalSendQuantity ti" and suf: "hasSufficientDefaultUnits st sent sendQuantity = Inr True"
    using p(3) by (auto simp: validatePreTradeData_def ti(1) split: sum.splits if_splits)
  then have pos: "0 < uint sendQuantity" using ti(6) by (auto simp: word_less_def order_less_le)
  from suf obtain u where u: "getDefaultPositionRealUnit st sent = Inr u" "uint sendQuantity \<le> sint u"
    by (auto simp: hasSufficientDefaultUnits_def map_sum_def uint_small_sint split: sum.splits)
  have "uint netReceive = uint n - uint fee"
    using safe_sub_Some [OF net(2)] safe_sub_Some [OF n(1)] payProtocolFee_balance [OF pay assms(2), of received] ti(2,5) by simp
  moreover have "uint (e_totalSupply (te_ops te) (st_erc20 st)) * uint minReceive div PRECISE_UNIT \<le> uint n"
    using n(2) ti(3,7) by (simp add: word_le_def)
  ultimately show ?thesis using p(1) u pos fee safe_sub_Some [OF net(1)] safe_sub_Some [OF net(2)] ti by auto
qed

theorem trades_honour_minimum_witness:
  "\<exists>st' w'. trade sample_trade_env ''m'' ''set'' ''o'' ''D'' ''t'' (666666666666666667) ''q'' (10 ^ 18) [] (trade_token, trade_balances) =
      Inr ((st', w'), 2, 5, 0) \<and> w' ''t'' ''set'' = 4 \<and> w' ''q'' ''set'' = 5"
proof -
  let ?r = "trade sample_trade_env ''m'' ''set'' ''o'' ''D'' ''t'' (666666666666666667) ''q'' (10 ^ 18) [] (trade_token, trade_balances)"
  have "map_sum id (\<lambda>((st, w), ns, nr, fee). (ns, nr, fee)) ?r = Inr (2, 5, 0)" by code_simp
  then obtain st' w' where r: "?r = Inr ((st', w'), 2, 5, 0)" by (cases ?r) auto
  have "tokens_isolated (te_externals sample_trade_env) ''set''" by (simp add: sample_trade_env_def swap_isolated)
  note t = trades_honour_minimum [OF r this]
  have x: "x_balanceOf (te_externals sample_trade_env) = (\<lambda>w t a. w t a)" by (simp add: sample_trade_env_def swap_externals_def sample_externals_def)
  have "uint (w' ''t'' ''set'') = uint (4 :: uint256)" "uint (w' ''q'' ''set'') = uint (5 :: uint256)"
    using t by (simp_all add: x trade_balances_def)
  then show ?thesis using r by (metis word_uint_eq_iff)
qed

end
