(* ===== verification/Airdrop_Module.thy ===== *)
theory Airdrop_Module
  imports Trade_Module
begin

section \<open>Airdrops\<close>

text \<open>
  Models contracts/protocol/modules/v1/AirdropModule.sol: tokens that arrive unasked are absorbed into the positions of a
  SetToken, less a fee that manager and protocol share. The record \<open>airdrop_module\<close> is the contract's storage; calls are
  atomic.
\<close>

subsection \<open>State\<close>

record AirdropSettings =
  airdrops :: "address list"
  as_feeRecipient :: address
  airdropFee :: uint256
  anyoneAbsorb :: bool

record airdrop_module =
  ad_address :: address
  airdropSettings :: "address \<Rightarrow> AirdropSettings"
  isAirdrop :: "address \<Rightarrow> address \<Rightarrow> bool"

definition no_airdrops :: AirdropSettings where
  "no_airdrops = \<lparr>airdrops = [], as_feeRecipient = ADDRESS_ZERO, airdropFee = 0, anyoneAbsorb = False\<rparr>"

definition new_AirdropModule :: "address \<Rightarrow> airdrop_module" where
  "new_AirdropModule this = \<lparr>ad_address = this, airdropSettings = \<lambda>_. no_airdrops, isAirdrop = \<lambda>_ _. False\<rparr>"

definition edit_settings :: "address \<Rightarrow> (AirdropSettings \<Rightarrow> AirdropSettings) \<Rightarrow> airdrop_module \<Rightarrow> airdrop_module" where
  "edit_settings self f ad = ad\<lparr>airdropSettings := (airdropSettings ad)(self := f (airdropSettings ad self))\<rparr>"

definition set_airdrop :: "address \<Rightarrow> bool \<Rightarrow> address \<Rightarrow> airdrop_module \<Rightarrow> airdrop_module" where
  "set_airdrop self b token ad = ad\<lparr>isAirdrop := (isAirdrop ad)(self := (isAirdrop ad self)(token := b))\<rparr>"

subsection \<open>Internal functions\<close>

text \<open>Returned: the outside world, the manager's share, the protocol's share and the total.\<close>

definition handleFees :: "'w externals \<Rightarrow> controller_state \<Rightarrow> airdrop_module \<Rightarrow> address \<Rightarrow> address \<Rightarrow> uint256 \<Rightarrow> 'e set_token \<Rightarrow> 'w
    \<Rightarrow> ('w \<times> uint256 \<times> uint256 \<times> uint256) sol" where
  "handleFees x c ad self component amountAirdropped st w =
     (let fee = airdropFee (airdropSettings ad self); this = ad_address ad in
      if 0 < fee
      then (case checked (sol_preciseMul amountAirdropped fee) of Inl m \<Rightarrow> Inl m
        | Inr totalFees \<Rightarrow> (case getModuleFee c this 0 totalFees of Inl m \<Rightarrow> Inl m
        | Inr protocolTake \<Rightarrow> (case checked (safe_sub totalFees protocolTake) of Inl m \<Rightarrow> Inl m
        | Inr netManagerTake \<Rightarrow>
          (case strictInvokeTransfer x c this self component (as_feeRecipient (airdropSettings ad self)) netManagerTake st w of Inl m \<Rightarrow> Inl m
           | Inr w \<Rightarrow> (case payProtocolFeeFromSetToken x c this self component protocolTake st w of Inl m \<Rightarrow> Inl m
             | Inr w \<Rightarrow> Inr (w, netManagerTake, protocolTake, totalFees))))))
      else Inr (w, 0, 0, 0))"

definition getPostAirdropUnit :: "'e erc20_ops \<Rightarrow> 'e set_token \<Rightarrow> uint256 \<Rightarrow> uint256 \<Rightarrow> uint256 sol" where
  "getPostAirdropUnit ops st totalComponentBalance totalFeesPaid =
     (case checked (safe_sub totalComponentBalance totalFeesPaid) of Inl m \<Rightarrow> Inl m
      | Inr net \<Rightarrow> getDefaultPositionUnit (e_totalSupply ops (st_erc20 st)) net)"

definition handleAirdropPosition :: "'e erc20_ops \<Rightarrow> 'w externals \<Rightarrow> controller_state \<Rightarrow> airdrop_module \<Rightarrow> address \<Rightarrow> address
    \<Rightarrow> 'e set_token \<times> 'w \<Rightarrow> ('e set_token \<times> 'w) sol" where
  "handleAirdropPosition ops x c ad self token = (\<lambda>(st, w).
     let preFeeTokenBalance = x_balanceOf x w token self in
     case getDefaultTrackedBalance ops st token of Inl m \<Rightarrow> Inl m
     | Inr tracked \<Rightarrow> (case checked (safe_sub preFeeTokenBalance tracked) of Inl m \<Rightarrow> Inl m
     | Inr amountAirdropped \<Rightarrow>
       if 0 < amountAirdropped
       then (case handleFees x c ad self token amountAirdropped st w of Inl m \<Rightarrow> Inl m
         | Inr (w, managerTake, protocolTake, totalFees) \<Rightarrow>
           (case getPostAirdropUnit ops st preFeeTokenBalance totalFees of Inl m \<Rightarrow> Inl m
            | Inr newUnit \<Rightarrow> map_sum id (\<lambda>st. (st, w)) (editDefaultPosition c (ad_address ad) token newUnit st)))
       else Inr (st, w)))"

definition absorb_token :: "'e erc20_ops \<Rightarrow> 'w externals \<Rightarrow> controller_state \<Rightarrow> airdrop_module \<Rightarrow> address \<Rightarrow> address
    \<Rightarrow> 'e set_token \<times> 'w \<Rightarrow> ('e set_token \<times> 'w) sol" where
  "absorb_token ops x c ad self token s =
     (if \<not> isAirdrop ad self token then Inl ''Must be approved token.'' else handleAirdropPosition ops x c ad self token s)"

definition isValidCaller :: "airdrop_module \<Rightarrow> address \<Rightarrow> 'e set_token \<Rightarrow> address \<Rightarrow> bool" where
  "isValidCaller ad self st sender \<longleftrightarrow> anyoneAbsorb (airdropSettings ad self) \<or> isSetManager st sender"

subsection \<open>External functions\<close>

definition batchAbsorb :: "'e erc20_ops \<Rightarrow> 'w externals \<Rightarrow> controller_state \<Rightarrow> airdrop_module \<Rightarrow> address \<Rightarrow> address \<Rightarrow> address list
    \<Rightarrow> 'e set_token \<times> 'w \<Rightarrow> ('e set_token \<times> 'w) sol" where
  "batchAbsorb ops x c ad self sender tokens = (\<lambda>(st, w).
     if \<not> isValidCaller ad self st sender then Inl ''Must be valid caller''
     else onlyValidAndInitializedSet c (ad_address ad) self st (each_sol (absorb_token ops x c ad self) tokens (st, w)))"

definition absorb :: "'e erc20_ops \<Rightarrow> 'w externals \<Rightarrow> controller_state \<Rightarrow> airdrop_module \<Rightarrow> address \<Rightarrow> address \<Rightarrow> address
    \<Rightarrow> 'e set_token \<times> 'w \<Rightarrow> ('e set_token \<times> 'w) sol" where
  "absorb ops x c ad self sender token = (\<lambda>(st, w).
     if \<not> isValidCaller ad self st sender then Inl ''Must be valid caller''
     else onlyValidAndInitializedSet c (ad_address ad) self st (absorb_token ops x c ad self token (st, w)))"

definition addAirdrop :: "controller_state \<Rightarrow> address \<Rightarrow> address \<Rightarrow> address \<Rightarrow> 'e set_token \<Rightarrow> airdrop_module \<Rightarrow> airdrop_module sol" where
  "addAirdrop c self sender token st ad = onlyManagerAndValidSet c (ad_address ad) self sender st
     (if isAirdrop ad self token then Inl ''Token already added.''
      else Inr (set_airdrop self True token (edit_settings self (airdrops_update (\<lambda>l. l @ [token])) ad)))"

definition removeAirdrop :: "controller_state \<Rightarrow> address \<Rightarrow> address \<Rightarrow> address \<Rightarrow> 'e set_token \<Rightarrow> airdrop_module \<Rightarrow> airdrop_module sol" where
  "removeAirdrop c self sender token st ad = onlyManagerAndValidSet c (ad_address ad) self sender st
     (if \<not> isAirdrop ad self token then Inl ''Token not added.''
      else case removeStorage (airdrops (airdropSettings ad self)) token of Inl m \<Rightarrow> Inl m
      | Inr l \<Rightarrow> Inr (set_airdrop self False token (edit_settings self (airdrops_update (\<lambda>_. l)) ad)))"

definition updateAnyoneAbsorb :: "controller_state \<Rightarrow> address \<Rightarrow> address \<Rightarrow> bool \<Rightarrow> 'e set_token \<Rightarrow> airdrop_module \<Rightarrow> airdrop_module sol" where
  "updateAnyoneAbsorb c self sender b st ad = onlyManagerAndValidSet c (ad_address ad) self sender st
     (Inr (edit_settings self (anyoneAbsorb_update (\<lambda>_. b)) ad))"

definition ad_updateFeeRecipient :: "controller_state \<Rightarrow> address \<Rightarrow> address \<Rightarrow> address \<Rightarrow> 'e set_token \<Rightarrow> airdrop_module \<Rightarrow> airdrop_module sol" where
  "ad_updateFeeRecipient c self sender newFeeRecipient st ad = onlyManagerAndValidSet c (ad_address ad) self sender st
     (if newFeeRecipient = ADDRESS_ZERO then Inl ''Passed address must be non-zero''
      else Inr (edit_settings self (as_feeRecipient_update (\<lambda>_. newFeeRecipient)) ad))"

definition updateAirdropFee :: "'e erc20_ops \<Rightarrow> 'w externals \<Rightarrow> controller_state \<Rightarrow> address \<Rightarrow> address \<Rightarrow> uint256 \<Rightarrow> airdrop_module
    \<Rightarrow> 'e set_token \<times> 'w \<Rightarrow> (airdrop_module \<times> 'e set_token \<times> 'w) sol" where
  "updateAirdropFee ops x c self sender newFee ad = (\<lambda>(st, w). onlySetManager st sender
     (onlyValidAndInitializedSet c (ad_address ad) self st
       (if \<not> newFee \<le> sol_preciseUnit then Inl ''Airdrop fee can't exceed 100%''
        else case each_sol (absorb_token ops x c ad self) (airdrops (airdropSettings ad self)) (st, w) of Inl m \<Rightarrow> Inl m
        | Inr (st, w) \<Rightarrow> Inr (edit_settings self (airdropFee_update (\<lambda>_. newFee)) ad, st, w))))"

definition ad_initialize :: "controller_state \<Rightarrow> address \<Rightarrow> address \<Rightarrow> AirdropSettings \<Rightarrow> airdrop_module \<times> 'e set_token
    \<Rightarrow> (airdrop_module \<times> 'e set_token) sol" where
  "ad_initialize c self sender settings = (\<lambda>(ad, st). onlySetManager st sender
     (onlyValidAndPendingSet c (ad_address ad) self st
       (if \<not> airdropFee settings \<le> sol_preciseUnit then Inl ''Fee must be <= 100%.''
        else if as_feeRecipient settings = ADDRESS_ZERO then Inl ''Zero fee address passed''
        else case (if length (airdrops settings) > 0 then hasDuplicate (airdrops settings) else Inr False) of Inl m \<Rightarrow> Inl m
        | Inr dup \<Rightarrow> if dup then Inl ''Duplicate airdrop token passed''
          else map_sum id (Pair (foldl (\<lambda>ad t. set_airdrop self True t ad) (edit_settings self (\<lambda>_. settings) ad) (airdrops settings)))
            (initializeModule (ad_address ad) st))))"

definition ad_removeModule :: "address \<Rightarrow> airdrop_module \<Rightarrow> airdrop_module" where
  "ad_removeModule sender ad = edit_settings sender (\<lambda>_. no_airdrops)
     (foldl (\<lambda>ad t. set_airdrop sender False t ad) ad (airdrops (airdropSettings ad sender)))"

definition getAirdrops :: "airdrop_module \<Rightarrow> address \<Rightarrow> address list" where
  "getAirdrops ad self = airdrops (airdropSettings ad self)"

subsection \<open>The parts of an absorption\<close>

lemma duplicate_scan_distinct: "duplicate_scan A \<longleftrightarrow> \<not> distinct A"
  by (induction A) (auto simp: list_ex_iff)

lemma handleFees_Inr:
  assumes "handleFees x c ad self a n st w = Inr (w', managerTake, protocolTake, totalFees)" "tokens_isolated x self"
  shows "uint totalFees = uint n * uint (airdropFee (airdropSettings ad self)) div PRECISE_UNIT"
    and "uint managerTake + uint protocolTake = uint totalFees"
    and "uint (x_balanceOf x w' t self) = uint (x_balanceOf x w t self) - (if t = a then uint totalFees else 0)"
proof -
  let ?fee = "airdropFee (airdropSettings ad self)"
  have "uint totalFees = uint n * uint ?fee div PRECISE_UNIT \<and> uint managerTake + uint protocolTake = uint totalFees \<and>
    uint (x_balanceOf x w' t self) = uint (x_balanceOf x w t self) - (if t = a then uint totalFees else 0)"
  proof (cases "0 < ?fee")
    case True
    then obtain w1 where f: "sol_preciseMul n ?fee = Some totalFees" "safe_sub totalFees protocolTake = Some managerTake"
      "strictInvokeTransfer x c (ad_address ad) self a (as_feeRecipient (airdropSettings ad self)) managerTake st w = Inr w1"
      "payProtocolFeeFromSetToken x c (ad_address ad) self a protocolTake st w1 = Inr w'"
      using assms(1) by (auto simp: handleFees_def Let_def split: sum.splits)
    then show ?thesis
      using strictInvokeTransfer_balance [OF f(3) assms(2), of t] payProtocolFee_balance [OF f(4) assms(2), of t]
        safe_sub_Some [OF f(2)] sol_preciseMul_floor [OF f(1)] by simp
  next
    case False
    then have "uint ?fee = 0" by (simp add: word_less_def order_less_le)
    then show ?thesis using assms(1) False by (simp add: handleFees_def Let_def)
  qed
  then show "uint totalFees = uint n * uint ?fee div PRECISE_UNIT" "uint managerTake + uint protocolTake = uint totalFees"
    "uint (x_balanceOf x w' t self) = uint (x_balanceOf x w t self) - (if t = a then uint totalFees else 0)" by blast+
qed

lemma absorb_token_parts:
  assumes "absorb_token ops x c ad self a (st, w) = Inr (st', w')" "st' \<noteq> st \<or> w' \<noteq> w"
  obtains tracked n mt pt tf u where "isAirdrop ad self a" "getDefaultTrackedBalance ops st a = Inr tracked"
    "safe_sub (x_balanceOf x w a self) tracked = Some n" "0 < n" "handleFees x c ad self a n st w = Inr (w', mt, pt, tf)"
    "getPostAirdropUnit ops st (x_balanceOf x w a self) tf = Inr u" "editDefaultPosition c (ad_address ad) a u st = Inr st'"
  using assms by (auto simp: absorb_token_def handleAirdropPosition_def Let_def map_sum_def split: sum.splits if_splits)

lemma getPostAirdropUnit_Inr:
  assumes "getPostAirdropUnit ops st bal fees = Inr u"
  shows "uint fees \<le> uint bal" "uint (e_totalSupply ops (st_erc20 st)) \<noteq> 0"
    "uint u = (uint bal - uint fees) * PRECISE_UNIT div uint (e_totalSupply ops (st_erc20 st))"
proof -
  obtain net where n: "safe_sub bal fees = Some net" "sol_preciseDiv net (e_totalSupply ops (st_erc20 st)) = Some u"
    using assms by (auto simp: getPostAirdropUnit_def getDefaultPositionUnit_def split: sum.splits)
  show "uint fees \<le> uint bal" "uint (e_totalSupply ops (st_erc20 st)) \<noteq> 0"
    "uint u = (uint bal - uint fees) * PRECISE_UNIT div uint (e_totalSupply ops (st_erc20 st))"
    using safe_sub_Some [OF n(1)] sol_preciseDiv_floor [OF n(2)] by simp_all
qed

lemma absorb_token_keeps:
  assumes "absorb_token ops x c ad self a (st, w) = Inr (st', w')"
    and "covered D ops x self (st, w)" "set_inv st" "tokens_isolated x self"
  shows "covered D ops x self (st', w') \<and> set_inv st' \<and> same_but_positions st st'"
proof (cases "st' \<noteq> st \<or> w' \<noteq> w")
  case True
  obtain n mt pt tf u where p: "handleFees x c ad self a n st w = Inr (w', mt, pt, tf)"
    "getPostAirdropUnit ops st (x_balanceOf x w a self) tf = Inr u" "editDefaultPosition c (ad_address ad) a u st = Inr st'"
    by (rule absorb_token_parts [OF assms(1) True])
  note bal = handleFees_Inr(3) [OF p(1) assms(4)] and u = getPostAirdropUnit_Inr [OF p(2)] and e = editDefaultPosition_Inr [OF p(3) assms(3)]
  let ?S = "uint (e_totalSupply ops (st_erc20 st))"
  have D: "0 \<le> D" using assms(2) by (simp add: covered_def)
  have "0 < ?S" using u(2) by (simp add: order_less_le)
  then have top: "?S * uint u \<le> uint (x_balanceOf x w' a self) * PRECISE_UNIT"
    unfolding u(3) bal [of a] using floor_div_bounds(1) [of ?S] by simp
  have "?S * sint v \<le> uint (x_balanceOf x w' t self) * PRECISE_UNIT + D"
    if t: "t \<in> set (st_components st')" and v: "getDefaultPositionRealUnit st' t = Inr v" for t v
  proof (cases "t = a")
    case True
    then have "sint v \<le> uint u" using e v by auto
    then have "?S * sint v \<le> ?S * uint u" by (simp add: mult_left_mono)
    then show ?thesis using top True D by simp
  next
    case False
    then have "t \<in> set (st_components st)" "getDefaultPositionRealUnit st t = Inr v" using e t v by auto
    then show ?thesis using assms(2) bal [of t] False by (simp add: covered_def)
  qed
  moreover have "st_erc20 st' = st_erc20 st" using e by (simp add: same_but_positions_def)
  ultimately show ?thesis using e D by (simp add: covered_def)
qed (use assms in \<open>simp add: same_but_positions_def\<close>)

lemma absorb_loop_keeps:
  assumes "each_sol (absorb_token ops x c ad self) ts (st, w) = Inr (st', w')"
    and "covered D ops x self (st, w)" "set_inv st" "tokens_isolated x self"
  shows "covered D ops x self (st', w') \<and> set_inv st' \<and> same_but_positions st st'"
  using assms(1-3)
proof (induction ts arbitrary: st w)
  case (Cons a ts)
  then obtain st1 w1 where a: "absorb_token ops x c ad self a (st, w) = Inr (st1, w1)"
    "each_sol (absorb_token ops x c ad self) ts (st1, w1) = Inr (st', w')" by (auto split: sum.splits)
  from absorb_token_keeps [OF a(1) Cons.prems(2,3) assms(4)] Cons.IH [OF a(2)] show ?case
    using same_but_positions_trans by blast
qed (simp add: same_but_positions_def)

subsection \<open>Calls that absorb\<close>

datatype absorb_call = Absorb address address | BatchAbsorb address "address list" | UpdateAirdropFee address uint256

definition exec_absorb :: "'e erc20_ops \<Rightarrow> 'w externals \<Rightarrow> controller_state \<Rightarrow> airdrop_module \<Rightarrow> address \<Rightarrow> absorb_call
    \<Rightarrow> 'e set_token \<times> 'w \<Rightarrow> ('e set_token \<times> 'w) sol" where
  "exec_absorb ops x c ad self ac s = (case ac of Absorb sender token \<Rightarrow> absorb ops x c ad self sender token s
     | BatchAbsorb sender tokens \<Rightarrow> batchAbsorb ops x c ad self sender tokens s
     | UpdateAirdropFee sender fee \<Rightarrow> map_sum id snd (updateAirdropFee ops x c self sender fee ad s))"

lemma exec_absorb_keeps:
  assumes "exec_absorb ops x c ad self ac (st, w) = Inr (st', w')"
    and "covered D ops x self (st, w)" "set_inv st" "tokens_isolated x self"
  shows "covered D ops x self (st', w') \<and> set_inv st' \<and> same_but_positions st st'"
proof -
  obtain ts where "each_sol (absorb_token ops x c ad self) ts (st, w) = Inr (st', w')"
  proof (cases ac)
    case (Absorb sender token)
    then have "absorb_token ops x c ad self token (st, w) = Inr (st', w')" using assms(1)
      by (auto simp: exec_absorb_def absorb_def onlyValidAndInitializedSet_def split: if_splits)
    then have "each_sol (absorb_token ops x c ad self) [token] (st, w) = Inr (st', w')" by simp
    then show ?thesis by (rule that)
  next
    case (BatchAbsorb sender tokens)
    then show ?thesis using assms(1) that by (auto simp: exec_absorb_def batchAbsorb_def onlyValidAndInitializedSet_def split: if_splits)
  next
    case (UpdateAirdropFee sender fee)
    then show ?thesis using assms(1) that
      by (auto simp: exec_absorb_def updateAirdropFee_def onlySetManager_def onlyValidAndInitializedSet_def map_sum_def split: sum.splits if_splits)
  qed
  then show ?thesis by (rule absorb_loop_keeps) (use assms(2-4) in simp_all)
qed

subsection \<open>The module and one SetToken together\<close>

text \<open>
  Steps of the module and a SetToken: the module's functions, its removal, which the SetToken announces to it, all other
  steps of the SetToken, and calls of the module for other SetTokens.
\<close>

inductive airdrop_step :: "'e erc20_ops \<Rightarrow> 'w externals \<Rightarrow> address \<Rightarrow> airdrop_module \<times> 'e set_token \<times> 'w
    \<Rightarrow> airdrop_module \<times> 'e set_token \<times> 'w \<Rightarrow> bool" for ops x self where
  airdrop_add: "addAirdrop c self sender t st ad = Inr ad' \<Longrightarrow> airdrop_step ops x self (ad, st, w) (ad', st, w)"
| airdrop_remove: "removeAirdrop c self sender t st ad = Inr ad' \<Longrightarrow> airdrop_step ops x self (ad, st, w) (ad', st, w)"
| airdrop_anyone: "updateAnyoneAbsorb c self sender b st ad = Inr ad' \<Longrightarrow> airdrop_step ops x self (ad, st, w) (ad', st, w)"
| airdrop_recipient: "ad_updateFeeRecipient c self sender r st ad = Inr ad' \<Longrightarrow> airdrop_step ops x self (ad, st, w) (ad', st, w)"
| airdrop_absorb: "absorb ops x c ad self sender t (st, w) = Inr (st', w') \<Longrightarrow> airdrop_step ops x self (ad, st, w) (ad, st', w')"
| airdrop_batch: "batchAbsorb ops x c ad self sender ts (st, w) = Inr (st', w') \<Longrightarrow> airdrop_step ops x self (ad, st, w) (ad, st', w')"
| airdrop_fee: "updateAirdropFee ops x c self sender fee ad (st, w) = Inr (ad', st', w') \<Longrightarrow> airdrop_step ops x self (ad, st, w) (ad', st', w')"
| airdrop_initialize: "ad_initialize c self sender settings (ad, st) = Inr (ad', st') \<Longrightarrow> airdrop_step ops x self (ad, st, w) (ad', st', w)"
| airdrop_removed: "st_removeModule (Inr ()) sender (ad_address ad) st = Inr st' \<Longrightarrow>
    airdrop_step ops x self (ad, st, w) (ad_removeModule self ad, st', w)"
| airdrop_other: "set_step ops sender st st' \<Longrightarrow>
    (moduleStates st' (ad_address ad) = INITIALIZED) = (moduleStates st (ad_address ad) = INITIALIZED) \<Longrightarrow>
    airdrop_step ops x self (ad, st, w) (ad, st', w')"
| airdrop_elsewhere: "airdropSettings ad' self = airdropSettings ad self \<Longrightarrow> isAirdrop ad' self = isAirdrop ad self \<Longrightarrow>
    ad_address ad' = ad_address ad \<Longrightarrow> airdrop_step ops x self (ad, st, w) (ad', st, w)"

definition airdrops_consistent :: "address \<Rightarrow> airdrop_module \<times> 'e set_token \<times> 'w \<Rightarrow> bool" where
  "airdrops_consistent self = (\<lambda>(ad, st, w). distinct (airdrops (airdropSettings ad self)) \<and>
     (\<forall>t. t \<in> set (airdrops (airdropSettings ad self)) \<longleftrightarrow> isAirdrop ad self t) \<and>
     (moduleStates st (ad_address ad) \<noteq> INITIALIZED \<longrightarrow> airdrops (airdropSettings ad self) = []))"

lemma settings_simps [simp]:
  "airdropSettings (edit_settings self f ad) self = f (airdropSettings ad self)" "isAirdrop (edit_settings self f ad) = isAirdrop ad"
  "ad_address (edit_settings self f ad) = ad_address ad" "airdropSettings (set_airdrop self b t ad) = airdropSettings ad"
  "isAirdrop (set_airdrop self b t ad) self = (isAirdrop ad self)(t := b)" "ad_address (set_airdrop self b t ad) = ad_address ad"
  by (simp_all add: edit_settings_def set_airdrop_def)

lemma set_airdrops_simps [simp]:
  "airdropSettings (foldl (\<lambda>ad t. set_airdrop self b t ad) ad ts) = airdropSettings ad"
  "ad_address (foldl (\<lambda>ad t. set_airdrop self b t ad) ad ts) = ad_address ad"
  "isAirdrop (foldl (\<lambda>ad t. set_airdrop self b t ad) ad ts) self t = (if t \<in> set ts then b else isAirdrop ad self t)"
  by (induction ts arbitrary: ad) auto

lemma absorb_loop_modules:
  assumes "each_sol (absorb_token ops x c ad self) ts (st, w) = Inr (st', w')" "set_inv st"
  shows "moduleStates st' = moduleStates st \<and> set_inv st'"
  using assms
proof (induction ts arbitrary: st w)
  case (Cons a ts)
  then obtain st1 w1 where a: "absorb_token ops x c ad self a (st, w) = Inr (st1, w1)"
    "each_sol (absorb_token ops x c ad self) ts (st1, w1) = Inr (st', w')" by (auto split: sum.splits)
  have "moduleStates st1 = moduleStates st \<and> set_inv st1"
  proof (cases "st1 \<noteq> st \<or> w1 \<noteq> w")
    case True
    then show ?thesis using absorb_token_parts [OF a(1)] editDefaultPosition_Inr Cons.prems(2) unfolding same_but_positions_def by metis
  qed (use Cons.prems(2) in simp)
  with Cons.IH [OF a(2)] show ?case by simp
qed simp

lemma airdrop_step_consistent:
  assumes "airdrop_step ops x self s s'" "airdrops_consistent self s \<and> set_inv (fst (snd s))"
  shows "airdrops_consistent self s' \<and> set_inv (fst (snd s'))"
  using assms
proof (cases rule: airdrop_step.cases)
  case (airdrop_remove c sender t st ad ad' w)
  then show ?thesis using assms(2)
    by (auto simp: airdrops_consistent_def removeAirdrop_def onlyManagerAndValidSet_def isSetValidAndInitialized_def isInitializedModule_def
        dest!: removeStorage_Inr split: sum.splits if_splits)
next
  case (airdrop_absorb c ad sender t st w st' w')
  then have "each_sol (absorb_token ops x c ad self) [t] (st, w) = Inr (st', w')"
    by (auto simp: absorb_def onlyValidAndInitializedSet_def split: if_splits)
  from absorb_loop_modules [OF this] airdrop_absorb assms(2) show ?thesis by (simp add: airdrops_consistent_def)
next
  case (airdrop_batch c ad sender ts st w st' w')
  then have "each_sol (absorb_token ops x c ad self) ts (st, w) = Inr (st', w')"
    by (auto simp: batchAbsorb_def onlyValidAndInitializedSet_def split: if_splits)
  from absorb_loop_modules [OF this] airdrop_batch assms(2) show ?thesis by (simp add: airdrops_consistent_def)
next
  case (airdrop_fee c sender fee ad st w ad' st' w')
  then have l: "each_sol (absorb_token ops x c ad self) (airdrops (airdropSettings ad self)) (st, w) = Inr (st', w')"
    "ad' = edit_settings self (airdropFee_update (\<lambda>_. fee)) ad"
    by (auto simp: updateAirdropFee_def onlySetManager_def onlyValidAndInitializedSet_def split: sum.splits if_splits)
  from absorb_loop_modules [OF l(1)] airdrop_fee l(2) assms(2) show ?thesis by (simp add: airdrops_consistent_def)
next
  case (airdrop_initialize c sender settings ad st ad' st' w)
  then have i: "moduleStates st (ad_address ad) = PENDING" "initializeModule (ad_address ad) st = Inr st'" "distinct (airdrops settings)"
    "ad' = foldl (\<lambda>ad t. set_airdrop self True t ad) (edit_settings self (\<lambda>_. settings) ad) (airdrops settings)"
    by (auto simp: ad_initialize_def onlySetManager_def onlyValidAndPendingSet_def isPendingModule_def hasDuplicate_def duplicate_scan_distinct
        map_sum_def split: sum.splits if_splits)
  have "set_inv st'" using set_step_inv [OF step_initializeModule [OF i(2)]] airdrop_initialize assms(2) by simp
  moreover have "moduleStates st' (ad_address ad') = INITIALIZED" using i(2,4) by (auto simp: initializeModule_def split: if_splits)
  moreover have "\<not> isAirdrop ad self t" for t using assms(2) airdrop_initialize i(1) by (auto simp: airdrops_consistent_def)
  ultimately show ?thesis using airdrop_initialize i(3,4) by (simp add: airdrops_consistent_def)
next
  case (airdrop_removed sender ad st st' w)
  have "set_inv st'" using set_step_inv [OF step_removeModule [OF airdrop_removed(3)]] airdrop_removed assms(2) by simp
  then show ?thesis using airdrop_removed assms(2)
    by (auto simp: airdrops_consistent_def ad_removeModule_def no_airdrops_def)
next
  case (airdrop_other sender st st' ad w w')
  then show ?thesis using set_step_inv [OF airdrop_other(3)] assms(2) by (simp add: airdrops_consistent_def)
qed (auto simp: airdrops_consistent_def addAirdrop_def updateAnyoneAbsorb_def ad_updateFeeRecipient_def onlyManagerAndValidSet_def
    isSetValidAndInitialized_def isInitializedModule_def split: if_splits)

subsection \<open>A concrete airdrop\<close>

text \<open>Ten base units arrive at a SetToken that tracks six; a tenth goes to the fee recipient.\<close>

definition sample_settings :: AirdropSettings where
  "sample_settings = \<lparr>airdrops = [''t''], as_feeRecipient = ''r'', airdropFee = 10 ^ 17, anyoneAbsorb = True\<rparr>"

definition sample_airdrop :: airdrop_module where
  "sample_airdrop = set_airdrop ''set'' True ''t'' (edit_settings ''set'' (\<lambda>_. sample_settings) (new_AirdropModule ''m''))"

definition airdrop_balances :: "address \<Rightarrow> address \<Rightarrow> uint256" where
  "airdrop_balances = (\<lambda>_ _. 0)(''t'' := (\<lambda>_. 0)(''set'' := 16))"

lemma trade_token_ok: "set_inv trade_token" "moduleStates trade_token ''m'' = INITIALIZED"
  by (auto simp: trade_token_def set_inv_def sample_token_def no_position_def PRECISE_UNIT_def)

subsection \<open>Properties\<close>

text \<open>
  C4. An airdrop is credited to the holders: a call of \<^verbatim>\<open>absorb\<close> comes from the manager or, if that was opened, from
  anybody, for an allowed token; of what the SetToken holds beyond its tracked balance exactly the fee leaves it, and the
  unit stored afterwards is all that remains per token, up to the rounding of the stored unit.
\<close>

theorem absorb_credits_holders:
  assumes "absorb ops x c ad self sender t (st, w) = Inr (st', w')" and "getDefaultTrackedBalance ops st t = Inr tracked"
    and "uint tracked < uint (x_balanceOf x w t self)" and "tokens_isolated x self" and "set_inv st"
  shows "isAirdrop ad self t \<and> (anyoneAbsorb (airdropSettings ad self) \<or> st_manager st = sender) \<and>
    (\<exists>u. getDefaultPositionRealUnit st' t = Inr u \<and>
      uint (x_balanceOf x w' t self) = uint (x_balanceOf x w t self) -
        (uint (x_balanceOf x w t self) - uint tracked) * uint (airdropFee (airdropSettings ad self)) div PRECISE_UNIT \<and>
      uint (e_totalSupply ops (st_erc20 st')) * sint u \<le> uint (x_balanceOf x w' t self) * PRECISE_UNIT \<and>
      (uint (x_balanceOf x w' t self) * PRECISE_UNIT div uint (e_totalSupply ops (st_erc20 st')) - sint u - 1) * PRECISE_UNIT
        < sint (positionMultiplier st))"
proof -
  have caller: "anyoneAbsorb (airdropSettings ad self) \<or> st_manager st = sender" and a: "absorb_token ops x c ad self t (st, w) = Inr (st', w')"
    using assms(1) by (auto simp: absorb_def isValidCaller_def isSetManager_def onlyValidAndInitializedSet_def split: if_splits)
  have allowed: "isAirdrop ad self t" using a by (simp add: absorb_token_def split: if_splits)
  obtain n where n: "safe_sub (x_balanceOf x w t self) tracked = Some n" "uint n = uint (x_balanceOf x w t self) - uint tracked"
    using assms(3) uint_safe_sub [of "x_balanceOf x w t self" tracked] by auto
  then have "0 < n" using assms(3) by (simp add: word_less_def)
  then obtain mt pt tf u where p: "handleFees x c ad self t n st w = Inr (w', mt, pt, tf)"
    "getPostAirdropUnit ops st (x_balanceOf x w t self) tf = Inr u" "editDefaultPosition c (ad_address ad) t u st = Inr st'"
    using a allowed n(1) assms(2) by (auto simp: absorb_token_def handleAirdropPosition_def Let_def map_sum_def split: sum.splits if_splits)
  note fees = handleFees_Inr [OF p(1) assms(4)] and unit = getPostAirdropUnit_Inr [OF p(2)] and e = editDefaultPosition_Inr [OF p(3) assms(5)]
  let ?S = "uint (e_totalSupply ops (st_erc20 st))"
  obtain v where v: "getDefaultPositionRealUnit st' t = Inr v" "sint v \<le> uint u" "(uint u - sint v - 1) * PRECISE_UNIT < sint (positionMultiplier st)"
    using e by blast
  have S: "st_erc20 st' = st_erc20 st" "0 < ?S" using e unit(2) by (simp_all add: same_but_positions_def order_less_le)
  have B: "uint (x_balanceOf x w' t self) = uint (x_balanceOf x w t self) - uint tf" using fees(3) [of t] by simp
  have "?S * sint v \<le> ?S * uint u" using v(2) by (simp add: mult_left_mono)
  also have "\<dots> \<le> uint (x_balanceOf x w' t self) * PRECISE_UNIT" unfolding unit(3) B using floor_div_bounds(1) [OF S(2)] by simp
  finally show ?thesis using caller allowed v fees(1) n(2) unit(3) B S(1) by auto
qed

theorem absorb_credits_holders_witness:
  "\<exists>st' w'. absorb erc20_contract sample_externals (sample_controller\<lparr>isSet := \<lambda>_. True\<rparr>) sample_airdrop ''set'' ''b'' ''t''
      (trade_token, airdrop_balances) = Inr (st', w') \<and> uint (w' ''t'' ''set'') = 15 \<and>
     (\<exists>u. getDefaultPositionRealUnit st' ''t'' = Inr u \<and> uint (e_totalSupply erc20_contract (st_erc20 st')) * sint u \<le> 15 * PRECISE_UNIT)"
proof -
  let ?r = "absorb erc20_contract sample_externals (sample_controller\<lparr>isSet := \<lambda>_. True\<rparr>) sample_airdrop ''set'' ''b'' ''t'' (trade_token, airdrop_balances)"
  have "map_sum id (\<lambda>_. ()) ?r = Inr ()" by code_simp
  then obtain st' w' where r: "?r = Inr (st', w')" by (cases ?r) auto
  have t: "getDefaultTrackedBalance erc20_contract trade_token ''t'' = Inr 6" by code_simp
  have x: "x_balanceOf sample_externals = (\<lambda>w t a. w t a)" by (simp add: sample_externals_def)
  have fee: "airdropFee (airdropSettings sample_airdrop ''set'') = 10 ^ 17" by (simp add: sample_airdrop_def sample_settings_def)
  have "uint (w' ''t'' ''set'') = 15 \<and> (\<exists>u. getDefaultPositionRealUnit st' ''t'' = Inr u \<and>
      uint (e_totalSupply erc20_contract (st_erc20 st')) * sint u \<le> 15 * PRECISE_UNIT)"
    using absorb_credits_holders [OF r t _ sample_isolated trade_token_ok(1)]
    by (auto simp: x fee airdrop_balances_def PRECISE_UNIT_def)
  with r show ?thesis by blast
qed

text \<open>
  The two records of allowed tokens agree in every state that the module and a SetToken can reach together: the list has
  no repetition and holds exactly the tokens whose flag is set, and both are empty whenever the module is not initialised
  on the SetToken, also after it was removed and added again.
\<close>

lemma airdrop_lists_consistent:
  assumes "rtranclp (airdrop_step ops x self) (new_AirdropModule this, st, w) (ad', st', w')"
    and "set_inv st" and "moduleStates st this \<noteq> INITIALIZED"
  shows "distinct (getAirdrops ad' self) \<and> set (getAirdrops ad' self) = {t. isAirdrop ad' self t} \<and>
    (moduleStates st' (ad_address ad') \<noteq> INITIALIZED \<longrightarrow> getAirdrops ad' self = [])"
proof -
  have "airdrops_consistent self (ad', st', w') \<and> set_inv (fst (snd (ad', st', w')))"
    using assms(1)
  proof (induction rule: rtranclp_induct)
    case base
    then show ?case using assms(2,3) by (simp add: airdrops_consistent_def new_AirdropModule_def no_airdrops_def)
  next
    case (step s s')
    then show ?case using airdrop_step_consistent by blast
  qed
  then show ?thesis by (auto simp: airdrops_consistent_def getAirdrops_def)
qed

lemma airdrop_lists_consistent_instance:
  "\<exists>ad' st'. rtranclp (airdrop_step erc20_contract sample_externals ''set'')
      (new_AirdropModule ''n'', sample_token\<lparr>moduleStates := (moduleStates sample_token)(''n'' := PENDING)\<rparr>, airdrop_balances) (ad', st', airdrop_balances) \<and>
     set (getAirdrops ad' ''set'') = {t. isAirdrop ad' ''set'' t} \<and> isAirdrop ad' ''set'' ''t'' \<and> moduleStates st' ''n'' = INITIALIZED"
proof -
  let ?st = "sample_token\<lparr>moduleStates := (moduleStates sample_token)(''n'' := PENDING)\<rparr>"
  let ?r = "ad_initialize (sample_controller\<lparr>isSet := \<lambda>_. True\<rparr>) ''set'' ''o'' sample_settings (new_AirdropModule ''n'', ?st)"
  have "map_sum id (\<lambda>(ad, st). (isAirdrop ad ''set'' ''t'', moduleStates st ''n'')) ?r = Inr (True, INITIALIZED)" by code_simp
  then obtain ad' st' where r: "?r = Inr (ad', st')" "isAirdrop ad' ''set'' ''t''" "moduleStates st' ''n'' = INITIALIZED" by (cases ?r) auto
  have run: "rtranclp (airdrop_step erc20_contract sample_externals ''set'') (new_AirdropModule ''n'', ?st, airdrop_balances) (ad', st', airdrop_balances)"
    by (rule r_into_rtranclp, rule airdrop_initialize [OF r(1)])
  have "set_inv ?st" by (auto simp: set_inv_def sample_token_def no_position_def PRECISE_UNIT_def)
  with airdrop_lists_consistent [OF run] r run show ?thesis by auto
qed

end
