(* ===== verification/Auction_Proofs.thy ===== *)
theory Auction_Proofs
  imports Airdrop_Module Auction_Price_Adapters
begin

section \<open>What the auctions guarantee\<close>

text \<open>
  The parts of an accepted bid, the balances and units after it, runs of bids mixed with issues and redemptions, the
  targets and their end, the permissions of bidders.
\<close>

subsection \<open>The parts of a bid\<close>

lemma onlyAllowedBidder_Inr: "onlyAllowedBidder am self sender k = Inr r \<longleftrightarrow> isAllowedBidder am self sender \<and> k = Inr r"
  by (simp add: onlyAllowedBidder_def)

lemma validateBidTargets_Inr:
  "validateBidTargets v am self st a = Inr u \<longleftrightarrow> a \<noteq> quoteAsset (rebalanceInfo am self) \<and>
     contains (rebalanceComponents (rebalanceInfo am self)) a \<and> \<not> hasExternalPosition st a \<and>
     isRebalanceDurationElapsed v am self = Inr False"
  by (auto simp: validateBidTargets_def split: sum.splits)

lemma bid_parts:
  assumes "ar_bid v am self sender a q cap (st, w) = Inr ((st', w'), bi, netSent, netReceived, fee)"
  obtains w1 where "isAllowedBidder am self sender" "validateBidTargets v am self st a = Inr ()"
    "createBidInfo v am self st a q cap w = Inr bi" "executeBid v (am_address am) self sender bi st w = Inr w1"
    "accrueProtocolFee v (am_address am) self bi st w1 = Inr (w', fee)"
    "updatePositionState v (am_address am) self bi st w' = Inr (st', netSent, netReceived)"
  using assms by (auto simp: ar_bid_def onlyAllowedBidder_Inr split: sum.splits)

text \<open>The record of a bid.\<close>

lemma createBidInfo_Inr:
  assumes "createBidInfo v am self st a q cap w = Inr bi"
  shows "calculateAuctionSizeAndDirection v am self st a (e_totalSupply (v_ops v) (st_erc20 st)) = Inr (isSellAuction bi, auctionQuantity bi)"
    and "q \<le> auctionQuantity bi" "(sendToken bi, receiveToken bi) = getSendAndReceiveTokens am (isSellAuction bi) self a"
    and "\<exists>quote. calculateQuoteAssetQuantity (isSellAuction bi) q (componentPrice bi) = Some quote \<and>
      validateQuoteAssetQuantity (isSellAuction bi) quote cap (preBidTokenSentBalance bi) = Inr () \<and>
      (quantitySentBySet bi, quantityReceivedBySet bi) = calculateQuantitiesForBid (isSellAuction bi) q quote"
    and "preBidTokenSentBalance bi = x_balanceOf (v_externals v) w (sendToken bi) self"
    and "preBidTokenReceivedBalance bi = x_balanceOf (v_externals v) w (receiveToken bi) self"
    and "setTotalSupply bi = e_totalSupply (v_ops v) (st_erc20 st)"
  using assms by (auto simp: createBidInfo_def Let_def split: sum.splits prod.splits if_splits)

text \<open>The balances after a bid: what was sent, what was received less the protocol fee.\<close>

lemma bid_balances:
  assumes "executeBid v this self sender bi st w = Inr w1" "accrueProtocolFee v this self bi st w1 = Inr (w', fee)"
    and "tokens_isolated (v_externals v) self" "sendToken bi \<noteq> receiveToken bi"
    and "preBidTokenReceivedBalance bi = x_balanceOf (v_externals v) w (receiveToken bi) self"
  shows "uint (x_balanceOf (v_externals v) w' t self) = uint (x_balanceOf (v_externals v) w t self)
      - (if t = sendToken bi then uint (quantitySentBySet bi) else 0)
      + (if t = receiveToken bi then uint (quantityReceivedBySet bi) - uint fee else 0)"
    and "getModuleFee (v_controller v) this 0 (quantityReceivedBySet bi) = Inr fee"
proof -
  let ?x = "v_externals v" and ?c = "v_controller v"
  obtain w0 where w0: "explicit_transferFrom ?x this (receiveToken bi) sender self (quantityReceivedBySet bi) w = Inr w0"
    "strictInvokeTransfer ?x ?c this self (sendToken bi) sender (quantitySentBySet bi) st w0 = Inr w1"
    using assms(1) by (auto simp: executeBid_def split: sum.splits)
  obtain ex where ex: "safe_sub (x_balanceOf ?x w1 (receiveToken bi) self) (preBidTokenReceivedBalance bi) = Some ex"
    "getModuleFee ?c this 0 ex = Inr fee" "payProtocolFeeFromSetToken ?x ?c this self (receiveToken bi) fee st w1 = Inr w'"
    using assms(2) by (auto simp: accrueProtocolFee_def split: sum.splits)
  note b = explicit_transferFrom_balance [OF w0(1) assms(3)] strictInvokeTransfer_balance [OF w0(2) assms(3)]
    payProtocolFee_balance [OF ex(3) assms(3)]
  have "uint ex = uint (quantityReceivedBySet bi)" using b(1,2) [of "receiveToken bi"] safe_sub_Some [OF ex(1)] assms(4,5) by simp
  then show "getModuleFee ?c this 0 (quantityReceivedBySet bi) = Inr fee" using ex(2) by (metis word_uint_eq_iff)
  show "uint (x_balanceOf ?x w' t self) = uint (x_balanceOf ?x w t self)
      - (if t = sendToken bi then uint (quantitySentBySet bi) else 0)
      + (if t = receiveToken bi then uint (quantityReceivedBySet bi) - uint fee else 0)"
    using b [of t] by simp
qed

lemma updatePositionState_Inr:
  assumes "updatePositionState v this self bi st w = Inr (st', netSent, netReceived)"
  obtains st1 ps ns pr nr where
    "calculateAndEditDefaultPosition (v_controller v) this (sendToken bi) (setTotalSupply bi) (preBidTokenSentBalance bi)
       (x_balanceOf (v_externals v) w (sendToken bi) self) st = Inr (st1, x_balanceOf (v_externals v) w (sendToken bi) self, ps, ns)"
    "calculateAndEditDefaultPosition (v_controller v) this (receiveToken bi) (setTotalSupply bi) (preBidTokenReceivedBalance bi)
       (x_balanceOf (v_externals v) w (receiveToken bi) self) st1 = Inr (st', x_balanceOf (v_externals v) w (receiveToken bi) self, pr, nr)"
proof -
  obtain st1 cs ps ns cr pr nr where e:
    "calculateAndEditDefaultPosition (v_controller v) this (sendToken bi) (setTotalSupply bi) (preBidTokenSentBalance bi)
       (x_balanceOf (v_externals v) w (sendToken bi) self) st = Inr (st1, cs, ps, ns)"
    "calculateAndEditDefaultPosition (v_controller v) this (receiveToken bi) (setTotalSupply bi) (preBidTokenReceivedBalance bi)
       (x_balanceOf (v_externals v) w (receiveToken bi) self) st1 = Inr (st', cr, pr, nr)"
    using assms by (auto simp: updatePositionState_def split: sum.splits)
  show ?thesis by (rule that) (use e calculateAndEdit_current [OF e(1)] calculateAndEdit_current [OF e(2)] in simp_all)
qed

subsection \<open>Collateral\<close>

lemma bid_keeps_collateral:
  assumes "ar_bid v am self sender a q cap (st, w) = Inr ((st', w'), bi, netSent, netReceived, fee)"
    and "covered D (v_ops v) (v_externals v) self (st, w)" "set_inv st" "tokens_isolated (v_externals v) self"
  shows "covered D (v_ops v) (v_externals v) self (st', w') \<and> set_inv st'"
proof -
  let ?B = "\<lambda>w t. uint (x_balanceOf (v_externals v) w t self)" and ?S = "e_totalSupply (v_ops v) (st_erc20 st)"
  obtain w1 where p: "validateBidTargets v am self st a = Inr ()" "createBidInfo v am self st a q cap w = Inr bi"
    "executeBid v (am_address am) self sender bi st w = Inr w1" "accrueProtocolFee v (am_address am) self bi st w1 = Inr (w', fee)"
    "updatePositionState v (am_address am) self bi st w' = Inr (st', netSent, netReceived)"
    by (rule bid_parts [OF assms(1)])
  note bi = createBidInfo_Inr [OF p(2)]
  have ne: "sendToken bi \<noteq> receiveToken bi"
    using bi(3) p(1) by (auto simp: getSendAndReceiveTokens_def validateBidTargets_Inr split: if_splits)
  note bal = bid_balances(1) [OF p(3,4) assms(4) ne bi(6)]
  have "x_balanceOf (v_externals v) w t self \<le> x_balanceOf (v_externals v) w' t self" if "t \<noteq> sendToken bi" "t \<noteq> receiveToken bi" for t
    using bal [of t] that by (simp add: word_le_def)
  note moved = this
  show ?thesis
    by (rule updatePositionState_Inr [OF p(5)], erule (1) two_positions_covered) (use assms(2,3) bi(7) moved in simp_all)
qed

subsection \<open>Sizes\<close>

lemma sol_preciseMulCeil_close:
  assumes "sol_preciseMulCeil a b = Some q"
  shows "uint a * uint b \<le> uint q * PRECISE_UNIT \<and> uint q * PRECISE_UNIT < uint a * uint b + PRECISE_UNIT"
proof -
  have "uint q = preciseMulCeil (uint a) (uint b)" using assms sol_preciseMulCeil_uint [of a b] by (auto split: if_splits)
  then show ?thesis using mul_up.upper [of "(uint a, uint b)"] mul_up.close [of "(uint a, uint b)"] by (simp add: mult.commute)
qed

lemma ar_unit_Inr: "ar_getDefaultPositionRealUnit st a = Inr u \<longleftrightarrow> getDefaultPositionRealUnit st a = Inr u \<and> 0 \<le> sint u"
  by (auto simp: ar_getDefaultPositionRealUnit_def split: sum.splits)

text \<open>The largest bid: what is missing or left over, in the case of a purchase with the fee on top.\<close>

lemma auction_size_Inr:
  assumes "calculateAuctionSizeAndDirection v am self st a S = Inr (isSell, n)"
  obtains cu tu cn tn :: uint256 where "ar_getDefaultPositionRealUnit st a = Inr cu" "getNormalizedTargetUnit am self st a = Inr tu" "cu \<noteq> tu"
    "uint cn = uint S * uint cu div PRECISE_UNIT"
    "uint S * uint tu \<le> uint tn * PRECISE_UNIT" "uint tn * PRECISE_UNIT < uint S * uint tu + PRECISE_UNIT"
    "isSell \<longleftrightarrow> uint tn < uint cn"
    "isSell \<longrightarrow> uint n = uint cn - uint tn"
    "\<not> isSell \<longrightarrow> uint (word_of_int (c_fees (v_controller v) (am_address am) 0) :: uint256) \<le> PRECISE_UNIT \<and> uint n * (PRECISE_UNIT - uint (word_of_int (c_fees (v_controller v) (am_address am) 0) :: uint256)) \<le> (uint tn - uint cn) * PRECISE_UNIT"
proof -
  let ?fee = "word_of_int (c_fees (v_controller v) (am_address am) 0) :: uint256"
  obtain cu tu cn tn where u: "ar_getDefaultPositionRealUnit st a = Inr cu" "getNormalizedTargetUnit am self st a = Inr tu" "cu \<noteq> tu"
    "sol_preciseMul S cu = Some cn" "sol_preciseMulCeil S tu = Some tn" "isSell = (tn < cn)"
    "(if isSell then safe_sub cn tn else do { d \<leftarrow> safe_sub tn cn; share \<leftarrow> safe_sub sol_preciseUnit ?fee; sol_preciseDiv d share }) = Some n"
    using assms by (auto simp: calculateAuctionSizeAndDirection_def getUnitsAndNotionalAmounts_def getDefaultTotalNotional_def Let_def map_sum_def
        split: sum.splits if_splits)
  have sell: "isSell \<longrightarrow> uint n = uint cn - uint tn" using u(7) safe_sub_Some [of cn tn n] by auto
  have buy: "uint ?fee \<le> PRECISE_UNIT \<and> uint n * (PRECISE_UNIT - uint ?fee) \<le> (uint tn - uint cn) * PRECISE_UNIT" if "\<not> isSell"
  proof -
    obtain d share where d: "safe_sub tn cn = Some d" "safe_sub sol_preciseUnit ?fee = Some share" "sol_preciseDiv d share = Some n"
      using u(7) \<open>\<not> isSell\<close> by auto
    have share: "uint share = PRECISE_UNIT - uint ?fee" "uint ?fee \<le> PRECISE_UNIT" "uint d = uint tn - uint cn"
      using safe_sub_Some [OF d(1)] safe_sub_Some [OF d(2)] by simp_all
    have "uint n = uint d * PRECISE_UNIT div uint share" "uint share \<noteq> 0" using sol_preciseDiv_floor [OF d(3)] by simp_all
    then have "uint share * uint n \<le> uint d * PRECISE_UNIT"
      using floor_div_bounds(1) [of "uint share" "uint d * PRECISE_UNIT"] by (simp add: order_less_le)
    with share show ?thesis by (simp only: mult.commute [of "uint n"] simp_thms)
  qed
  show ?thesis
    by (rule that [OF u(1-3) sol_preciseMul_floor [OF u(4)]])
      (use sol_preciseMulCeil_close [OF u(5)] u(6) sell buy in \<open>auto simp: word_less_def\<close>)
qed

text \<open>The unit computed after a sale, and after a purchase.\<close>

lemma unit_after_sale:
  fixes S cn tn tu pre q :: int
  assumes "0 < S" "S * tu \<le> tn * P" "q \<le> cn - tn" "0 < P"
  shows "tu \<le> (pre - q - (pre - cn)) * P div S"
proof -
  have "tn * P \<le> (cn - q) * P" using assms(3,4) by (simp add: mult_right_mono)
  then have "tu * S \<le> (cn - q) * P" using assms(2) by (simp add: mult.commute)
  then show ?thesis using assms(1) by (simp add: int_le_div_iff)
qed

lemma net_purchase:
  fixes q fee f d P :: int
  assumes "q * (P - f) \<le> d * P" "q * f < fee * P + P" "0 < P"
  shows "q - fee \<le> d"
proof -
  have "(q - fee) * P < d * P + P" using assms(1,2) by (simp add: algebra_simps)
  then have "(q - fee) * P < (d + 1) * P" by (simp add: algebra_simps)
  then show ?thesis using assms(3) by simp
qed

text \<open>What the position update does with the component of the auction.\<close>

lemma bid_component_unit:
  assumes "ar_bid v am self sender a q cap (st, w) = Inr ((st', w'), bi, netSent, netReceived, fee)" "set_inv st"
    and "ar_getDefaultPositionRealUnit st a = Inr cu"
  obtains u n where "getDefaultPositionRealUnit st' a = Inr u" "sint u \<le> uint n"
    "(uint n - sint u - 1) * PRECISE_UNIT < sint (positionMultiplier st)"
    "if 0 < x_balanceOf (v_externals v) w' a self
     then calculateDefaultEditPositionUnit (setTotalSupply bi) (x_balanceOf (v_externals v) w a self) (x_balanceOf (v_externals v) w' a self) cu = Some n
     else n = 0"
proof -
  obtain w1 where p: "validateBidTargets v am self st a = Inr ()" "createBidInfo v am self st a q cap w = Inr bi"
    "updatePositionState v (am_address am) self bi st w' = Inr (st', netSent, netReceived)"
    by (rule bid_parts [OF assms(1)])
  note bi = createBidInfo_Inr [OF p(2)]
  have ne: "sendToken bi \<noteq> receiveToken bi" and tok: "isSellAuction bi \<and> sendToken bi = a \<or> \<not> isSellAuction bi \<and> receiveToken bi = a"
    using bi(3) p(1) by (auto simp: getSendAndReceiveTokens_def validateBidTargets_Inr split: if_splits)
  have cu: "getDefaultPositionRealUnit st a = Inr cu" using assms(3) by (simp add: ar_unit_Inr)
  obtain st1 ps ns pr nr where e:
    "calculateAndEditDefaultPosition (v_controller v) (am_address am) (sendToken bi) (setTotalSupply bi) (preBidTokenSentBalance bi)
       (x_balanceOf (v_externals v) w' (sendToken bi) self) st = Inr (st1, x_balanceOf (v_externals v) w' (sendToken bi) self, ps, ns)"
    "calculateAndEditDefaultPosition (v_controller v) (am_address am) (receiveToken bi) (setTotalSupply bi) (preBidTokenReceivedBalance bi)
       (x_balanceOf (v_externals v) w' (receiveToken bi) self) st1 = Inr (st', x_balanceOf (v_externals v) w' (receiveToken bi) self, pr, nr)"
    by (rule updatePositionState_Inr [OF p(3)])
  note c1 = calculateAndEdit_covered [OF e(1) assms(2)]
  then have inv1: "set_inv st1" and m1: "positionMultiplier st1 = positionMultiplier st" by (simp_all add: same_but_positions_def)
  note c2 = calculateAndEdit_covered [OF e(2) inv1]
  from tok show ?thesis
  proof
    assume s: "isSellAuction bi \<and> sendToken bi = a"
    show ?thesis
    proof (rule calculateAndEdit_Inr [OF e(1) assms(2)])
      assume d: "editDefaultPosition (v_controller v) (am_address am) (sendToken bi) ns st = Inr st1"
        "getDefaultPositionRealUnit st (sendToken bi) = Inr ps"
        "if 0 < x_balanceOf (v_externals v) w' (sendToken bi) self then calculateDefaultEditPositionUnit (setTotalSupply bi)
           (preBidTokenSentBalance bi) (x_balanceOf (v_externals v) w' (sendToken bi) self) ps = Some ns else ns = 0"
      from editDefaultPosition_Inr [OF d(1) assms(2)] s obtain u where "getDefaultPositionRealUnit st1 a = Inr u" "sint u \<le> uint ns"
        "(uint ns - sint u - 1) * PRECISE_UNIT < sint (positionMultiplier st)" by blast
      moreover have "getDefaultPositionRealUnit st' a = getDefaultPositionRealUnit st1 a" using c2 ne s by auto
      moreover have pu: "ps = cu" using d(2) s cu by simp
      ultimately show ?thesis using that [of u ns] d(3) [unfolded bi(5) s [THEN conjunct2] pu] by simp
    qed
  next
    assume s: "\<not> isSellAuction bi \<and> receiveToken bi = a"
    show ?thesis
    proof (rule calculateAndEdit_Inr [OF e(2) inv1])
      assume d: "editDefaultPosition (v_controller v) (am_address am) (receiveToken bi) nr st1 = Inr st'"
        "getDefaultPositionRealUnit st1 (receiveToken bi) = Inr pr"
        "if 0 < x_balanceOf (v_externals v) w' (receiveToken bi) self then calculateDefaultEditPositionUnit (setTotalSupply bi)
           (preBidTokenReceivedBalance bi) (x_balanceOf (v_externals v) w' (receiveToken bi) self) pr = Some nr else nr = 0"
      from editDefaultPosition_Inr [OF d(1) inv1] s m1 obtain u where "getDefaultPositionRealUnit st' a = Inr u" "sint u \<le> uint nr"
        "(uint nr - sint u - 1) * PRECISE_UNIT < sint (positionMultiplier st)" by auto
      moreover have st1a: "getDefaultPositionRealUnit st1 a = getDefaultPositionRealUnit st a" using c1 ne s by auto
      moreover have pu: "pr = cu" using d(2) s cu st1a by simp
      ultimately show ?thesis using that [of u nr] d(3) [unfolded bi(6) s [THEN conjunct2] pu] by simp
    qed
  qed
qed

lemma scaled_excess:
  fixes u n tu S P r tn :: int
  assumes "u \<le> n" "n * S \<le> r * P" "r \<le> tn" "tn * P < S * tu + P" "0 \<le> S" "0 < P"
  shows "(u - tu) * S < P"
proof -
  have "u * S \<le> n * S" using assms(1,5) by (rule mult_right_mono)
  moreover have "r * P \<le> tn * P" using assms(3,6) by simp
  ultimately have "u * S < S * tu + P" using assms(2,4) by linarith
  then show ?thesis by (simp add: algebra_simps)
qed

lemma module_fee_close:
  assumes "getModuleFee c this i q = Inr fee"
  shows "uint q * uint (word_of_int (c_fees c this i) :: uint256) < uint fee * PRECISE_UNIT + PRECISE_UNIT"
proof -
  have "uint fee = uint q * uint (word_of_int (c_fees c this i) :: uint256) div PRECISE_UNIT"
    using assms sol_preciseMul_floor by (simp add: getModuleFee_def)
  then show ?thesis using floor_div_bounds(2) [of PRECISE_UNIT "uint q * uint (word_of_int (c_fees c this i) :: uint256)"]
    by (simp add: mult.commute)
qed

subsection \<open>Runs of bids, issues and redemptions\<close>

text \<open>
  What can happen to a SetToken and the tokens it holds: issues and redemptions, bids in any state of the auction module
  and of its surroundings, trades of the manager on exchanges that leave third tokens alone, airdrops that are absorbed,
  transfers of the SetToken between holders, and tokens that arrive unasked.
\<close>

inductive market_step :: "'e erc20_ops \<Rightarrow> 'w externals \<Rightarrow>
    (address \<Rightarrow> address \<Rightarrow> uint256 \<Rightarrow> address \<Rightarrow> address \<Rightarrow> 'e set_token \<times> 'w \<Rightarrow> ('e set_token \<times> 'w) sol) \<Rightarrow> issuance_module
    \<Rightarrow> address \<Rightarrow> 'e set_token \<times> 'w \<Rightarrow> 'e set_token \<times> 'w \<Rightarrow> bool" for ops x hook im self where
  market_issuance: "exec_issuance ops x hook im self cic s = Inr s' \<Longrightarrow> market_step ops x hook im self s s'"
| market_bid: "ar_bid v am self sender a q cap s = Inr (s', info) \<Longrightarrow> v_ops v = ops \<Longrightarrow> v_externals v = x \<Longrightarrow>
    market_step ops x hook im self s s'"
| market_trade: "trade te this self sender name sent q received m data' s = Inr (s', outcome) \<Longrightarrow> te_ops te = ops \<Longrightarrow>
    te_externals te = x \<Longrightarrow> exchange_isolated te self \<Longrightarrow> market_step ops x hook im self s s'"
| market_absorb: "exec_absorb ops x c ad self ac s = Inr s' \<Longrightarrow> market_step ops x hook im self s s'"
| market_transfer: "e_transfer ops sender a q (st_erc20 st) = Inr t \<Longrightarrow> market_step ops x hook im self (st, w) (st\<lparr>st_erc20 := t\<rparr>, w)"
| market_gift: "(\<And>t. x_balanceOf x w t self \<le> x_balanceOf x w' t self) \<Longrightarrow> market_step ops x hook im self (st, w) (st, w')"

lemma market_step_keeps:
  assumes "market_step ops x hook im self s s'" "covered D ops x self s \<and> set_inv (fst s)"
    and "tokens_isolated x self" "erc20_token ops" "hook_safe ops x hook self"
  shows "covered D ops x self s' \<and> set_inv (fst s')"
  using assms(1)
proof cases
  case (market_issuance cic)
  then show ?thesis using exec_issuance_keeps assms(2-5) by blast
next
  case (market_bid v am sender a q cap info)
  obtain st w st' w' where "s = (st, w)" "s' = (st', w')" by (cases s; cases s')
  moreover obtain bi ns nr fee where "info = (bi, ns, nr, fee)" by (cases info)
  ultimately show ?thesis using bid_keeps_collateral [of v am self sender a q cap st w st' w' bi ns nr fee D] market_bid assms(2,3) by simp
next
  case (market_trade te this sender name sent q received m data' outcome)
  obtain st w st' w' where "s = (st, w)" "s' = (st', w')" by (cases s; cases s')
  moreover obtain ns nr fee where "outcome = (ns, nr, fee)" by (cases outcome)
  ultimately show ?thesis
    using trade_keeps_collateral [of te this self sender name sent q received m data' st w st' w' ns nr fee D] market_trade assms(2,3) by simp
next
  case (market_absorb c ad ac)
  obtain st w st' w' where "s = (st, w)" "s' = (st', w')" by (cases s; cases s')
  then show ?thesis using exec_absorb_keeps [of ops x c ad self ac st w st' w' D] market_absorb assms(2,3) by simp
next
  case (market_transfer sender a q st t w)
  then show ?thesis using assms(2) erc20_token.transfer_supply [OF assms(4) market_transfer(3)] by (simp add: covered_def)
next
  case (market_gift w w' st)
  have grow: "uint (x_balanceOf x w t self) * PRECISE_UNIT + D \<le> uint (x_balanceOf x w' t self) * PRECISE_UNIT + D" for t
    using market_gift(3) [of t] PRECISE_UNIT_pos by (intro add_right_mono mult_right_mono) (simp_all add: word_le_def)
  have "covered D ops x self (st, w)" "set_inv st" using assms(2) market_gift(1) by simp_all
  then show ?thesis unfolding market_gift(2) covered_def by (auto intro: order_trans [OF _ grow])
qed

subsection \<open>The bidders\<close>

text \<open>
  A step of the module: an accepted call, with the SetToken and the surroundings in any state, over the same ERC20 and
  the same tokens.
\<close>

definition around :: "'e erc20_ops \<Rightarrow> 'w externals \<Rightarrow> ('e, 'w) auction_env \<Rightarrow> bool" where
  "around ops x v \<longleftrightarrow> v_ops v = ops \<and> v_externals v = x"

inductive auction_step :: "'e erc20_ops \<Rightarrow> 'w externals \<Rightarrow> auction_module \<Rightarrow> auction_module \<Rightarrow> bool" for ops x am where
  auction_start: "startRebalance v self sender quote new newParams oldParams lock duration mult (am, st) = Inr (am', st') \<Longrightarrow>
    around ops x v \<Longrightarrow> auction_step ops x am am'"
| auction_percentage: "setRaiseTargetPercentage v self sender pct (am, st) = Inr am' \<Longrightarrow> around ops x v \<Longrightarrow> auction_step ops x am am'"
| auction_bidders: "setBidderStatus v self sender bidders statuses (am, st) = Inr am' \<Longrightarrow> around ops x v \<Longrightarrow> auction_step ops x am am'"
| auction_anyone: "setAnyoneBid v self sender status (am, st) = Inr am' \<Longrightarrow> around ops x v \<Longrightarrow> auction_step ops x am am'"
| auction_initialize: "ar_initialize v self sender (am, st) = Inr (am', st') \<Longrightarrow> around ops x v \<Longrightarrow> auction_step ops x am am'"
| auction_remove: "auction_step ops x am (ar_removeModule sender am)"
| auction_raise: "raiseAssetTargets v self sender (am, st) = Inr am' \<Longrightarrow> around ops x v \<Longrightarrow> auction_step ops x am am'"
| auction_unlock: "ar_unlock v self (am, st) = Inr (am', st') \<Longrightarrow> around ops x v \<Longrightarrow> auction_step ops x am am'"

inductive auction_reachable :: "'e erc20_ops \<Rightarrow> 'w externals \<Rightarrow> auction_module \<Rightarrow> bool" for ops x where
  auction_created: "auction_reachable ops x (new_AuctionRebalanceModuleV1 this)"
| auction_stepped: "auction_reachable ops x am \<Longrightarrow> auction_step ops x am am' \<Longrightarrow> auction_reachable ops x am'"

definition bidders_consistent :: "BidPermissionInfo \<Rightarrow> bool" where
  "bidders_consistent p \<longleftrightarrow> distinct (biddersHistory p) \<and> (\<forall>b. b \<in> set (biddersHistory p) \<longleftrightarrow> bidAllowList p b)"

lemma edit_auction_simps [simp]:
  "permissionInfo (edit_permission self f am) = (permissionInfo am)(self := f (permissionInfo am self))"
  "permissionInfo (edit_rebalance self g am) = permissionInfo am"
  "permissionInfo (edit_execution self a h am) = permissionInfo am"
  "rebalanceInfo (edit_rebalance self g am) = (rebalanceInfo am)(self := g (rebalanceInfo am self))"
  "rebalanceInfo (edit_permission self f am) = rebalanceInfo am"
  "rebalanceInfo (edit_execution self a h am) = rebalanceInfo am"
  "executionInfo (edit_permission self f am) = executionInfo am"
  "executionInfo (edit_rebalance self g am) = executionInfo am"
  "am_address (edit_permission self f am) = am_address am" "am_address (edit_rebalance self g am) = am_address am"
  "am_address (edit_execution self a h am) = am_address am"
  by (simp_all add: edit_permission_def edit_rebalance_def edit_execution_def)

lemma set_bidder_consistent:
  assumes "set_bidder self bs am = Inr am'" "\<forall>t. bidders_consistent (permissionInfo am t)"
  shows "\<forall>t. bidders_consistent (permissionInfo am' t)"
proof -
  obtain b s where bs: "bs = (b, s)" by (cases bs)
  let ?h = "biddersHistory (permissionInfo am self)" and ?l = "bidAllowList (permissionInfo am self)"
  have c: "distinct ?h" "\<And>b. b \<in> set ?h \<longleftrightarrow> ?l b" using assms(2) by (auto simp: bidders_consistent_def)
  have b: "contains ?h b \<longleftrightarrow> b \<in> set ?h" by (simp add: contains_def indexOf_None_iff)
  have "\<exists>h. biddersHistory (permissionInfo am' self) = h \<and> bidAllowList (permissionInfo am' self) = ?l(b := s) \<and>
      (\<forall>t. t \<noteq> self \<longrightarrow> permissionInfo am' t = permissionInfo am t) \<and> distinct h \<and> set h = (if s then insert b (set ?h) else set ?h - {b})"
  proof (cases "s = (b \<in> set ?h)")
    case True
    then show ?thesis using assms(1) bs b c by (intro exI [of _ ?h]) (auto simp: set_bidder_def updateBiddersHistory_def fun_upd_idem_iff)
  next
    case False
    show ?thesis
    proof (cases s)
      case True
      with False show ?thesis using assms(1) bs b c by (intro exI [of _ "?h @ [b]"]) (auto simp: set_bidder_def updateBiddersHistory_def)
    next
      case s: False
      then obtain l where "removeStorage ?h b = Inr l" using assms(1) bs b False
        by (cases "removeStorage ?h b") (auto simp: set_bidder_def updateBiddersHistory_def)
      then have am': "am' = edit_permission self (bidAllowList_update (\<lambda>l. l(b := False))) (edit_permission self (biddersHistory_update (\<lambda>_. l)) am)"
        using assms(1) bs b s False by (simp add: set_bidder_def updateBiddersHistory_def)
      show ?thesis using removeStorage_Inr [OF \<open>removeStorage ?h b = Inr l\<close> c(1)] s by (intro exI [of _ l]) (simp add: am')
    qed
  qed
  then obtain h where h: "biddersHistory (permissionInfo am' self) = h" "bidAllowList (permissionInfo am' self) = ?l(b := s)"
    "\<forall>t. t \<noteq> self \<longrightarrow> permissionInfo am' t = permissionInfo am t" "distinct h" "set h = (if s then insert b (set ?h) else set ?h - {b})"
    by blast
  then have "bidders_consistent (permissionInfo am' self)" using c by (auto simp: bidders_consistent_def)
  then show ?thesis using h(3) assms(2) by metis
qed

lemma set_execution_permissions:
  "each_sol (set_execution self st) cps am = Inr am' \<Longrightarrow> permissionInfo am' = permissionInfo am"
  by (induction cps arbitrary: am) (auto simp: set_execution_def split: sum.splits if_splits)

lemma init_target_permissions:
  "each_sol (init_target self) ps am = Inr am' \<Longrightarrow> permissionInfo am' = permissionInfo am"
  by (induction ps arbitrary: am) (auto simp: init_target_def split: sum.splits if_splits)

lemma cleared: "foldl (\<lambda>f b. f(b := False)) l bs b \<longleftrightarrow> l b \<and> b \<notin> set bs"
  by (induction bs arbitrary: l) auto

lemma auction_step_consistent:
  assumes "auction_step ops x am am'" "\<forall>t. bidders_consistent (permissionInfo am t)"
  shows "\<forall>t. bidders_consistent (permissionInfo am' t)"
  using assms(1)
proof cases
  case (auction_bidders v self sender bidders statuses st)
  then have "each_sol (set_bidder self) (zip bidders statuses) am = Inr am'"
    by (auto simp: setBidderStatus_def module_guards split: sum.splits if_splits)
  then show ?thesis using each_sol_invariant [of _ _ am am' "\<lambda>am. \<forall>t. bidders_consistent (permissionInfo am t)"]
      set_bidder_consistent assms(2) by blast
next
  case (auction_remove sender)
  have "bidders_consistent (no_permissions\<lparr>bidAllowList := foldl (\<lambda>f b. f(b := False)) (bidAllowList (permissionInfo am sender))
      (biddersHistory (permissionInfo am sender))\<rparr>)"
    using assms(2) by (auto simp: bidders_consistent_def no_permissions_def cleared)
  then show ?thesis using assms(2) auction_remove by (auto simp: ar_removeModule_def Let_def)
next
  case (auction_anyone v self sender status st)
  then show ?thesis using assms(2) by (auto simp: setAnyoneBid_def module_guards bidders_consistent_def split: if_splits)
next
  case (auction_start v self sender quote new newParams oldParams lock duration mult st st')
  then have "permissionInfo am' = permissionInfo am"
    by (auto simp: startRebalance_def module_guards Let_def dest!: set_execution_permissions split: sum.splits if_splits)
  then show ?thesis using assms(2) by simp
next
  case (auction_initialize v self sender st st')
  then have "permissionInfo am' = permissionInfo am"
    by (auto simp: ar_initialize_def module_guards dest!: init_target_permissions split: sum.splits if_splits)
  then show ?thesis using assms(2) by simp
qed (use assms(2) in \<open>auto simp: setRaiseTargetPercentage_def raiseAssetTargets_def ar_unlock_def module_guards onlyAllowedBidder_Inr
      Let_def map_sum_def split: sum.splits if_splits\<close>)

lemma set_execution_all:
  assumes "each_sol (set_execution self st) cps am = Inr am'" "distinct (map fst cps)"
  shows "(\<forall>(a, p) \<in> set cps. executionInfo am' self a = p \<and> \<not> hasExternalPosition st a) \<and>
    (\<forall>b. b \<notin> fst ` set cps \<longrightarrow> executionInfo am' self b = executionInfo am self b) \<and>
    (\<forall>t. t \<noteq> self \<longrightarrow> executionInfo am' t = executionInfo am t) \<and> rebalanceInfo am' = rebalanceInfo am"
  using assms
proof (induction cps arbitrary: am)
  case (Cons cp cps)
  obtain a p where cp: "cp = (a, p)" by (cases cp)
  let ?am = "edit_execution self a (\<lambda>_. p) am"
  have one: "\<not> hasExternalPosition st a" "each_sol (set_execution self st) cps ?am = Inr am'"
    using Cons.prems(1) by (auto simp: cp set_execution_def split: if_splits)
  have "executionInfo ?am self a = p" "b \<noteq> a \<Longrightarrow> executionInfo ?am self b = executionInfo am self b"
    "t \<noteq> self \<Longrightarrow> executionInfo ?am t = executionInfo am t" for b t by (simp_all add: edit_execution_def)
  with Cons.IH [OF one(2)] one(1) Cons.prems(2) show ?case by (auto simp: cp)
qed simp

lemma map_of_pairs: "length xs = length ys \<Longrightarrow> \<forall>(a, p) \<in> set (zip xs ys). f a = p \<and> P a \<Longrightarrow> map f xs = ys \<and> list_all P xs"
  by (induction xs ys rule: list_induct2) auto

lemma concat_params: "concatAndValidateAuctionParams v this old new = Inr ps \<Longrightarrow> ps = old @ new"
  by (auto simp: concatAndValidateAuctionParams_def split: sum.splits)

subsection \<open>A concrete auction\<close>

text \<open>Token t is sold for token q at the constant price two; three raw units of the SetToken exist.\<close>

definition sample_env :: "uint256 \<Rightarrow> (erc20, address \<Rightarrow> address \<Rightarrow> uint256) auction_env" where
  "sample_env now = \<lparr>v_ops = erc20_contract, v_externals = sample_externals,
     v_controller = sample_controller\<lparr>isSet := \<lambda>_. True\<rparr>,
     v_registry = (new_IntegrationRegistry ''o'' ''c'')\<lparr>integrations := \<lambda>_ _. ''adapter''\<rparr>, v_hash = \<lambda>s. s,
     v_getPrice = \<lambda>_ _ _ _ _ _ _. Inr (2 * 10 ^ 18), v_isPriceAdapterConfigDataValid = \<lambda>_ _. Inr True, v_now = now\<rparr>"

definition sample_auction :: "uint256 \<Rightarrow> uint256 \<Rightarrow> auction_module" where
  "sample_auction target percentage = (new_AuctionRebalanceModuleV1 ''m'')\<lparr>
     executionInfo := \<lambda>_ a. if a = ''t'' then \<lparr>targetUnit = target, priceAdapterName = ''P'', priceAdapterConfigData = []\<rparr> else no_execution,
     permissionInfo := \<lambda>_. no_permissions\<lparr>isAnyoneAllowedToBid := True\<rparr>,
     rebalanceInfo := \<lambda>_. \<lparr>quoteAsset = ''q'', rebalanceStartTime = 0, rebalanceDuration = 500, ri_positionMultiplier = 10 ^ 18,
       raiseTargetPercentage = percentage, rebalanceComponents = [''t'', ''q'']\<rparr>\<rparr>"

definition auction_token :: "erc20 set_token" where
  "auction_token = sample_token\<lparr>st_erc20 := \<lparr>balances = (\<lambda>_. 0)(''u'' := 3), allowances = \<lambda>_ _. 0, totalSupply = 3\<rparr>\<rparr>"

definition auction_balances :: "address \<Rightarrow> address \<Rightarrow> uint256" where
  "auction_balances = (\<lambda>_ _. 0)(''t'' := (\<lambda>_. 0)(''set'' := 6), ''q'' := (\<lambda>_. 0)(''b'' := 100))"

definition bid_outcome where
  "bid_outcome r = map_sum id (\<lambda>((st, w), bi, ns, nr, fee). (getDefaultPositionRealUnit st ''t'', getDefaultPositionRealUnit st ''q'',
     w ''t'' ''set'', w ''q'' ''set'', isSellAuction bi, ns)) r"

lemma sample_bid:
  obtains st' w' bi nr fee where "ar_bid (sample_env 100) (sample_auction (10 ^ 18) 0) ''set'' ''b'' ''t'' 2 5 (auction_token, auction_balances) =
      Inr ((st', w'), bi, 2, nr, fee)" "getDefaultPositionRealUnit st' ''t'' = Inr 1333333333333333333"
    "getDefaultPositionRealUnit st' ''q'' = Inr 1333333333333333333" "w' ''t'' ''set'' = 4" "w' ''q'' ''set'' = 4" "isSellAuction bi"
proof -
  let ?r = "ar_bid (sample_env 100) (sample_auction (10 ^ 18) 0) ''set'' ''b'' ''t'' 2 5 (auction_token, auction_balances)"
  have "bid_outcome ?r = Inr (Inr 1333333333333333333, Inr 1333333333333333333, 4, 4, True, 2)" by code_simp
  then show ?thesis using that by (cases ?r) (auto simp: bid_outcome_def)
qed

lemma sample_env_simps [simp]:
  "v_ops (sample_env n) = erc20_contract" "v_externals (sample_env n) = sample_externals" "v_now (sample_env n) = n"
  "v_controller (sample_env n) = sample_controller\<lparr>isSet := \<lambda>_. True\<rparr>"
  by (simp_all add: sample_env_def)

definition priced_auction :: "bytes \<Rightarrow> uint256 \<Rightarrow> auction_module" where
  "priced_auction config target = edit_execution ''set'' ''t'' (\<lambda>p. p\<lparr>priceAdapterConfigData := config\<rparr>) (sample_auction target 0)"

lemma priced_auction_simps [simp]: "priceAdapterConfigData (executionInfo (priced_auction config n) ''set'' ''t'') = config"
    "rebalanceStartTime (rebalanceInfo (priced_auction config n) self) = 0"
  by (simp_all add: priced_auction_def edit_execution_def sample_auction_def)

text \<open>Only the quoted price counts for a bid.\<close>

lemma ar_bid_quote_cong:
  assumes "\<And>adapter e. safe_sub (v_now v) (rebalanceStartTime (rebalanceInfo am self)) = Some e \<Longrightarrow>
      f adapter self a q e (rebalanceDuration (rebalanceInfo am self)) (priceAdapterConfigData (executionInfo am self a)) =
      g adapter self a q e (rebalanceDuration (rebalanceInfo am self)) (priceAdapterConfigData (executionInfo am self a))"
  shows "ar_bid (v\<lparr>v_getPrice := f\<rparr>) am self sender a q cap s = ar_bid (v\<lparr>v_getPrice := g\<rparr>) am self sender a q cap s"
proof -
  have "createBidInfo (v\<lparr>v_getPrice := f\<rparr>) am self st a q cap w = createBidInfo (v\<lparr>v_getPrice := g\<rparr>) am self st a q cap w" for st w
    unfolding createBidInfo_def getAndValidateAdapter_def calculateAuctionSizeAndDirection_def Let_def
    by (auto simp: assms checked_def split: sum.splits option.splits prod.splits if_splits)
  moreover have "executeBid (v\<lparr>v_getPrice := h\<rparr>) = executeBid v" "accrueProtocolFee (v\<lparr>v_getPrice := h\<rparr>) = accrueProtocolFee v"
    "updatePositionState (v\<lparr>v_getPrice := h\<rparr>) = updatePositionState v" "validateBidTargets (v\<lparr>v_getPrice := h\<rparr>) = validateBidTargets v" for h
    by (simp_all add: fun_eq_iff executeBid_def accrueProtocolFee_def updatePositionState_def validateBidTargets_def isRebalanceDurationElapsed_def
        cong: sum.case_cong prod.case_cong)
  ultimately show ?thesis by (simp only: ar_bid_def)
qed

lemma auction_token_ok: "set_inv auction_token" "st_components auction_token = [''t'']"
  "collateralised erc20_contract sample_externals ''set'' (auction_token, auction_balances)"
proof -
  have u: "getDefaultPositionRealUnit auction_token ''t'' = Inr (2 * 10 ^ 18)" by code_simp
  show "set_inv auction_token" "st_components auction_token = [''t'']"
    by (simp_all add: auction_token_def) (simp add: set_inv_def sample_token_def no_position_def PRECISE_UNIT_def)
  then show "collateralised erc20_contract sample_externals ''set'' (auction_token, auction_balances)"
    using u by (simp add: covered_def) (simp add: auction_token_def sample_externals_def auction_balances_def PRECISE_UNIT_def)
qed

text \<open>The first purchase of token n, paid with token t.\<close>

definition purchase_auction :: auction_module where
  "purchase_auction = (new_AuctionRebalanceModuleV1 ''m'')\<lparr>
     executionInfo := \<lambda>_ a. if a = ''n'' then \<lparr>targetUnit = 10 ^ 18, priceAdapterName = ''P'', priceAdapterConfigData = []\<rparr> else no_execution,
     permissionInfo := \<lambda>_. no_permissions\<lparr>isAnyoneAllowedToBid := True\<rparr>,
     rebalanceInfo := \<lambda>_. \<lparr>quoteAsset = ''t'', rebalanceStartTime = 0, rebalanceDuration = 500, ri_positionMultiplier = 10 ^ 18,
       raiseTargetPercentage = 0, rebalanceComponents = [''n'', ''t'']\<rparr>\<rparr>"

definition purchase_balances :: "address \<Rightarrow> address \<Rightarrow> uint256" where
  "purchase_balances = (\<lambda>_ _. 0)(''t'' := (\<lambda>_. 0)(''set'' := 6), ''n'' := (\<lambda>_. 0)(''b'' := 100))"


lemma first_purchase:
  obtains st' w' bi ns nr fee where "ar_bid (sample_env 100) purchase_auction ''set'' ''b'' ''n'' 2 1 (auction_token, purchase_balances) =
      Inr ((st', w'), bi, ns, nr, fee)" "getDefaultPositionRealUnit st' ''n'' = Inr 666666666666666666" "\<not> isSellAuction bi" "setTotalSupply bi = 3"
proof -
  let ?r = "ar_bid (sample_env 100) purchase_auction ''set'' ''b'' ''n'' 2 1 (auction_token, purchase_balances)"
  have "map_sum id (\<lambda>((st, w), bi, ns, nr, fee). (getDefaultPositionRealUnit st ''n'', isSellAuction bi, setTotalSupply bi)) ?r =
    Inr (Inr 666666666666666666, False, 3)" by code_simp
  then show ?thesis using that by (cases ?r) auto
qed

subsection \<open>Properties\<close>

text \<open>
  C9. A bid stops at the target, for a listed component as for the first purchase of one without a unit. Of a component
  that is sold the SetToken keeps at least the normalised target unit, up to the rounding of the stored unit. Of a component
  that is bought the unit times the supply exceeds the target unit times the supply by less than \<open>10\<^sup>1\<^sup>8\<close>, which is one base
  unit of the token, whatever protocol fee is charged on top; so the unit itself does not exceed the target once one
  whole SetToken exists, and while less exists, it exceeds it by less than \<open>10\<^sup>1\<^sup>8\<close> over the supply in base units.
\<close>

theorem bids_stop_at_target:
  assumes "ar_bid v am self sender a q cap (st, w) = Inr ((st', w'), bi, netSent, netReceived, fee)"
    and "collateralised (v_ops v) (v_externals v) self (st, w)" and "set_inv st" and "tokens_isolated (v_externals v) self"
    and "getNormalizedTargetUnit am self st a = Inr tu" and "a \<in> set (st_components st) \<or> getDefaultPositionRealUnit st a = Inr 0"
  shows "\<exists>u. getDefaultPositionRealUnit st' a = Inr u \<and>
    (if isSellAuction bi then (uint tu - sint u - 1) * PRECISE_UNIT < sint (positionMultiplier st)
     else (sint u - uint tu) * uint (setTotalSupply bi) < PRECISE_UNIT)"
proof -
  let ?S = "setTotalSupply bi" and ?B = "\<lambda>w. x_balanceOf (v_externals v) w a self"
  obtain w1 where p: "validateBidTargets v am self st a = Inr ()" "createBidInfo v am self st a q cap w = Inr bi"
    "executeBid v (am_address am) self sender bi st w = Inr w1" "accrueProtocolFee v (am_address am) self bi st w1 = Inr (w', fee)"
    by (rule bid_parts [OF assms(1)])
  note bi = createBidInfo_Inr [OF p(2)]
  have ne: "sendToken bi \<noteq> receiveToken bi" and tok: "isSellAuction bi \<and> sendToken bi = a \<or> \<not> isSellAuction bi \<and> receiveToken bi = a"
    and quant: "if isSellAuction bi then quantitySentBySet bi = q else quantityReceivedBySet bi = q"
    using bi(3,4) p(1) by (auto simp: getSendAndReceiveTokens_def validateBidTargets_Inr calculateQuantitiesForBid_def split: if_splits)
  note bal = bid_balances(1) [OF p(3,4) assms(4) ne bi(6), of a] and fee = module_fee_close [OF bid_balances(2) [OF p(3,4) assms(4) ne bi(6)]]
  obtain cu tu' cn tn :: uint256 where s: "ar_getDefaultPositionRealUnit st a = Inr cu" "getNormalizedTargetUnit am self st a = Inr tu'"
    "cu \<noteq> tu'" "uint cn = uint ?S * uint cu div PRECISE_UNIT" "uint ?S * uint tu' \<le> uint tn * PRECISE_UNIT"
    "uint tn * PRECISE_UNIT < uint ?S * uint tu' + PRECISE_UNIT" "isSellAuction bi \<longleftrightarrow> uint tn < uint cn"
    "isSellAuction bi \<longrightarrow> uint (auctionQuantity bi) = uint cn - uint tn"
    "\<not> isSellAuction bi \<longrightarrow> uint (word_of_int (c_fees (v_controller v) (am_address am) 0) :: uint256) \<le> PRECISE_UNIT \<and> uint (auctionQuantity bi) * (PRECISE_UNIT - uint (word_of_int (c_fees (v_controller v) (am_address am) 0) :: uint256))
       \<le> (uint tn - uint cn) * PRECISE_UNIT"
    by (rule auction_size_Inr [OF bi(1) [folded bi(7)]])
  have tu: "tu' = tu" using s(2) assms(5) by simp
  obtain u n where u: "getDefaultPositionRealUnit st' a = Inr u" "sint u \<le> uint n"
    "(uint n - sint u - 1) * PRECISE_UNIT < sint (positionMultiplier st)"
    "if 0 < ?B w' then calculateDefaultEditPositionUnit ?S (?B w) (?B w') cu = Some n else n = 0"
    by (rule bid_component_unit [OF assms(1,3) s(1)])
  show ?thesis
  proof (cases "isSellAuction bi")
    case True
    have B: "uint (?B w') = uint (?B w) - uint q" using bal ne tok quant True by auto
    have qn: "uint q \<le> uint cn - uint tn" using bi(2) s(8) True by (simp add: word_le_def)
    have listed: "a \<in> set (st_components st)"
    proof (rule ccontr)
      assume "a \<notin> set (st_components st)"
      then have "cu = 0" using assms(6) s(1) by (simp add: ar_unit_Inr)
      then show False using s(4,7) True uint_ge_0 [of tn] by simp
    qed
    have S: "0 < uint ?S" using s(4,7) True uint_ge_0 [of tn] by (cases "uint ?S = 0") (auto simp: order_less_le)
    have "uint tu \<le> uint n"
    proof (cases "0 < ?B w'")
      case True
      then have "calculateDefaultEditPositionUnit ?S (?B w) (?B w') cu = Some n" using u(4) by simp
      from calculateDefaultEditPositionUnit_Inr [OF this]
      have "uint n = (uint (?B w) - uint q - (uint (?B w) - uint cn)) * PRECISE_UNIT div uint ?S" using s(4) B by (simp add: mult.commute)
      then show ?thesis using unit_after_sale [OF S s(5) qn] by (simp add: tu)
    next
      case False
      then have "?B w' = 0" by (simp add: word_neq_0_conv [symmetric])
      then have "uint (?B w') = 0" by simp
      moreover have "uint cn \<le> uint (?B w)"
      proof -
        have "uint ?S * uint cu \<le> uint (?B w) * PRECISE_UNIT"
          using assms(2) listed s(1) bi(7) by (auto simp: covered_def ar_unit_Inr sint_nonneg_uint)
        then show ?thesis using zdiv_mono1 [OF _ PRECISE_UNIT_pos(1)] s(4) by fastforce
      qed
      ultimately have "uint tn \<le> 0" using B qn by linarith
      then have "uint ?S * uint tu \<le> 0" using s(5) tu by (simp add: mult_le_0_iff)
      then show ?thesis using S by (auto simp: mult_le_0_iff)
    qed
    then have "(uint tu - sint u - 1) * PRECISE_UNIT \<le> (uint n - sint u - 1) * PRECISE_UNIT"
      using PRECISE_UNIT_pos by (intro mult_right_mono) simp_all
    with u(3) have "(uint tu - sint u - 1) * PRECISE_UNIT < sint (positionMultiplier st)" by linarith
    then show ?thesis using u(1) True by simp
  next
    case False
    let ?f = "uint (word_of_int (c_fees (v_controller v) (am_address am) 0) :: uint256)"
    have q: "quantityReceivedBySet bi = q" using quant False by simp
    have B: "uint (?B w') = uint (?B w) + uint q - uint fee" using bal ne tok q False by auto
    have share: "?f \<le> PRECISE_UNIT" "uint (auctionQuantity bi) * (PRECISE_UNIT - ?f) \<le> (uint tn - uint cn) * PRECISE_UNIT"
      using s(9) False by simp_all
    have "uint q * (PRECISE_UNIT - ?f) \<le> uint (auctionQuantity bi) * (PRECISE_UNIT - ?f)"
      using bi(2) share(1) by (intro mult_right_mono) (simp_all add: word_le_def)
    with share(2) have "uint q * (PRECISE_UNIT - ?f) \<le> (uint tn - uint cn) * PRECISE_UNIT" by linarith
    from net_purchase [OF this fee [unfolded q] PRECISE_UNIT_pos(1)] have net: "uint q - uint fee \<le> uint tn - uint cn" .
    have "\<exists>r. uint n * uint ?S \<le> r * PRECISE_UNIT \<and> r \<le> uint tn"
    proof (cases "0 < ?B w'")
      case True
      then have "calculateDefaultEditPositionUnit ?S (?B w) (?B w') cu = Some n" using u(4) by simp
      note d = calculateDefaultEditPositionUnit_Inr [OF this]
      then have "uint n = (uint cn + uint q - uint fee) * PRECISE_UNIT div uint ?S" and "0 < uint ?S"
        using s(4) B by (simp_all add: mult.commute algebra_simps order_less_le)
      then have "uint n * uint ?S \<le> (uint cn + uint q - uint fee) * PRECISE_UNIT"
        using floor_div_bounds(1) [of "uint ?S" "(uint cn + uint q - uint fee) * PRECISE_UNIT"] by (simp add: mult.commute)
      then show ?thesis using net by (intro exI [of _ "uint cn + uint q - uint fee"]) simp
    next
      case False
      then show ?thesis using u(4) by (intro exI [of _ "uint tn"]) simp
    qed
    then obtain r where "uint n * uint ?S \<le> r * PRECISE_UNIT" "r \<le> uint tn" by blast
    from scaled_excess [OF u(2) this s(6)] have "(sint u - uint tu) * uint ?S < PRECISE_UNIT" using tu by simp
    then show ?thesis using u(1) False by simp
  qed
qed

theorem bids_stop_at_target_witness:
  "(\<exists>st' w' bi nr fee u. ar_bid (sample_env 100) (sample_auction (10 ^ 18) 0) ''set'' ''b'' ''t'' 2 5 (auction_token, auction_balances) =
      Inr ((st', w'), bi, 2, nr, fee) \<and> getDefaultPositionRealUnit st' ''t'' = Inr u \<and> (10 ^ 18 - sint u - 1) * PRECISE_UNIT < 10 ^ 18) \<and>
   (\<exists>st' w' bi ns nr fee u. ar_bid (sample_env 100) purchase_auction ''set'' ''b'' ''n'' 2 1 (auction_token, purchase_balances) =
      Inr ((st', w'), bi, ns, nr, fee) \<and> \<not> isSellAuction bi \<and> getDefaultPositionRealUnit st' ''n'' = Inr u \<and> 0 < sint u \<and>
      (sint u - 10 ^ 18) * 3 < PRECISE_UNIT)"
proof
  obtain st' w' bi nr fee where r: "ar_bid (sample_env 100) (sample_auction (10 ^ 18) 0) ''set'' ''b'' ''t'' 2 5 (auction_token, auction_balances) =
      Inr ((st', w'), bi, 2, nr, fee)" and sell: "isSellAuction bi" by (rule sample_bid)
  have t: "getNormalizedTargetUnit (sample_auction (10 ^ 18) 0) ''set'' auction_token ''t'' = Inr (10 ^ 18)" by code_simp
  have m: "sint (positionMultiplier auction_token) = 10 ^ 18" by (simp add: auction_token_def PRECISE_UNIT_def)
  from bids_stop_at_target [OF r _ auction_token_ok(1) _ t] r sell
  show "\<exists>st' w' bi nr fee u. ar_bid (sample_env 100) (sample_auction (10 ^ 18) 0) ''set'' ''b'' ''t'' 2 5 (auction_token, auction_balances) =
      Inr ((st', w'), bi, 2, nr, fee) \<and> getDefaultPositionRealUnit st' ''t'' = Inr u \<and> (10 ^ 18 - sint u - 1) * PRECISE_UNIT < 10 ^ 18"
    using auction_token_ok(2,3) sample_isolated by (simp add: m)
next
  obtain st' w' bi ns nr fee where r: "ar_bid (sample_env 100) purchase_auction ''set'' ''b'' ''n'' 2 1 (auction_token, purchase_balances) =
      Inr ((st', w'), bi, ns, nr, fee)" and u: "getDefaultPositionRealUnit st' ''n'' = Inr 666666666666666666" "\<not> isSellAuction bi" "setTotalSupply bi = 3"
    by (rule first_purchase)
  have t: "getNormalizedTargetUnit purchase_auction ''set'' auction_token ''n'' = Inr (10 ^ 18)"
    "getDefaultPositionRealUnit auction_token ''n'' = Inr 0" "getDefaultPositionRealUnit auction_token ''t'' = Inr (2 * 10 ^ 18)" by code_simp+
  have c: "collateralised (v_ops (sample_env 100)) (v_externals (sample_env 100)) ''set'' (auction_token, purchase_balances)"
    using t(3) auction_token_ok(2) by (simp add: covered_def) (simp add: auction_token_def sample_externals_def purchase_balances_def PRECISE_UNIT_def)
  from bids_stop_at_target [OF r c auction_token_ok(1) _ t(1)] u t(2) sample_isolated
  have "(sint (666666666666666666 :: int256) - 10 ^ 18) * 3 < PRECISE_UNIT" by simp
  with r u show "\<exists>st' w' bi ns nr fee u. ar_bid (sample_env 100) purchase_auction ''set'' ''b'' ''n'' 2 1 (auction_token, purchase_balances) =
      Inr ((st', w'), bi, ns, nr, fee) \<and> \<not> isSellAuction bi \<and> getDefaultPositionRealUnit st' ''n'' = Inr u \<and> 0 < sint u \<and>
      (sint u - 10 ^ 18) * 3 < PRECISE_UNIT" by auto
qed

text \<open>
  C10. Rebalancing keeps SetTokens collateralised: after any run of accepted bids and trades, in any state of the auction
  module, of the Controller and of the adapters, mixed with issues, redemptions, airdrops and transfers, a SetToken holds of every
  component, old or newly bought, at least its real unit times the supply.
\<close>

theorem market_keeps_sets_collateralised:
  assumes "rtranclp (market_step ops x hook im self) s s'" and "collateralised ops x self s" and "set_inv (fst s)"
    and "tokens_isolated x self" and "erc20_token ops" and "hook_safe ops x hook self"
  shows "collateralised ops x self s' \<and> set_inv (fst s')"
  using assms(1)
proof (induction rule: rtranclp_induct)
  case (step s1 s2)
  then show ?case using market_step_keeps assms(4-6) by blast
qed (use assms(2,3) in simp)

theorem market_keeps_sets_collateralised_witness:
  "\<exists>st w. rtranclp (market_step erc20_contract sample_externals (\<lambda>_ _ _ _ _ _. Inl []) (new_BasicIssuanceModule ''n'') ''set'')
      (auction_token, auction_balances) (st, w) \<and> w ''t'' ''set'' = 4 \<and> collateralised erc20_contract sample_externals ''set'' (st, w)"
proof -
  obtain st w bi nr fee where r: "ar_bid (sample_env 100) (sample_auction (10 ^ 18) 0) ''set'' ''b'' ''t'' 2 5 (auction_token, auction_balances) =
      Inr ((st, w), bi, 2, nr, fee)" "w ''t'' ''set'' = 4" by (rule sample_bid)
  let ?step = "market_step erc20_contract sample_externals (\<lambda>_ _ _ _ _ _. Inl []) (new_BasicIssuanceModule ''n'') ''set''"
  have "?step (auction_token, auction_balances) (st, w)" by (rule market_bid [OF r(1)]) simp_all
  then have run: "rtranclp ?step (auction_token, auction_balances) (st, w)" by (rule r_into_rtranclp)
  have "collateralised erc20_contract sample_externals ''set'' (st, w) \<and> set_inv (fst (st, w))"
    by (rule market_keeps_sets_collateralised [OF run])
      (simp_all add: auction_token_ok sample_isolated repository_erc20.erc20_token_axioms hook_safe_def)
  with run r(2) show ?thesis by blast
qed

text \<open>
  C11. A bid is what was offered: it comes from an allowed bidder, for a component of the rebalance other than the quote
  asset, before its end and within the auction's size; the SetToken sells at the quoted price rounded up and at most at
  the bidder's limit, or buys at the price rounded down and at least at the limit; and its balances change by exactly
  the two quantities less the protocol fee.
\<close>

theorem bids_honour_limits:
  assumes "ar_bid v am self sender a q cap (st, w) = Inr ((st', w'), bi, netSent, netReceived, fee)"
    and "tokens_isolated (v_externals v) self"
  shows "isAllowedBidder am self sender \<and> isRebalanceDurationElapsed v am self = Inr False \<and>
    a \<in> set (rebalanceComponents (rebalanceInfo am self)) \<and> q \<le> auctionQuantity bi \<and>
    (if isSellAuction bi
     then sendToken bi = a \<and> receiveToken bi = quoteAsset (rebalanceInfo am self) \<and> quantitySentBySet bi = q \<and>
       sol_preciseMulCeil q (componentPrice bi) = Some (quantityReceivedBySet bi) \<and> quantityReceivedBySet bi \<le> cap
     else receiveToken bi = a \<and> sendToken bi = quoteAsset (rebalanceInfo am self) \<and> quantityReceivedBySet bi = q \<and>
       sol_preciseMul q (componentPrice bi) = Some (quantitySentBySet bi) \<and> cap \<le> quantitySentBySet bi) \<and>
    uint (x_balanceOf (v_externals v) w' (sendToken bi) self) =
      uint (x_balanceOf (v_externals v) w (sendToken bi) self) - uint (quantitySentBySet bi) \<and>
    uint (x_balanceOf (v_externals v) w' (receiveToken bi) self) =
      uint (x_balanceOf (v_externals v) w (receiveToken bi) self) + uint (quantityReceivedBySet bi) - uint fee"
proof -
  obtain w1 where p: "isAllowedBidder am self sender" "validateBidTargets v am self st a = Inr ()" "createBidInfo v am self st a q cap w = Inr bi"
    "executeBid v (am_address am) self sender bi st w = Inr w1" "accrueProtocolFee v (am_address am) self bi st w1 = Inr (w', fee)"
    by (rule bid_parts [OF assms(1)])
  note bi = createBidInfo_Inr [OF p(3)] and t = p(2) [unfolded validateBidTargets_Inr]
  have ne: "sendToken bi \<noteq> receiveToken bi" using bi(3) t by (auto simp: getSendAndReceiveTokens_def split: if_splits)
  have list: "a \<in> set (rebalanceComponents (rebalanceInfo am self))" using t by (simp add: contains_def indexOf_None_iff)
  have "if isSellAuction bi
     then sendToken bi = a \<and> receiveToken bi = quoteAsset (rebalanceInfo am self) \<and> quantitySentBySet bi = q \<and>
       sol_preciseMulCeil q (componentPrice bi) = Some (quantityReceivedBySet bi) \<and> quantityReceivedBySet bi \<le> cap
     else receiveToken bi = a \<and> sendToken bi = quoteAsset (rebalanceInfo am self) \<and> quantityReceivedBySet bi = q \<and>
       sol_preciseMul q (componentPrice bi) = Some (quantitySentBySet bi) \<and> cap \<le> quantitySentBySet bi"
    using bi(3,4) by (auto simp: getSendAndReceiveTokens_def calculateQuoteAssetQuantity_def calculateQuantitiesForBid_def
        validateQuoteAssetQuantity_def split: if_splits)
  then show ?thesis using p(1) t list bi(2) bid_balances(1) [OF p(4,5) assms(2) ne bi(6)] ne by simp
qed

theorem bids_honour_limits_witness:
  "\<exists>st' w' bi nr fee. ar_bid (sample_env 100) (sample_auction (10 ^ 18) 0) ''set'' ''b'' ''t'' 2 5 (auction_token, auction_balances) =
      Inr ((st', w'), bi, 2, nr, fee) \<and> quantitySentBySet bi = 2 \<and> quantityReceivedBySet bi \<le> 5"
proof -
  obtain st' w' bi nr fee where r: "ar_bid (sample_env 100) (sample_auction (10 ^ 18) 0) ''set'' ''b'' ''t'' 2 5 (auction_token, auction_balances) =
      Inr ((st', w'), bi, 2, nr, fee)" and sell: "isSellAuction bi" by (rule sample_bid)
  have "tokens_isolated (v_externals (sample_env 100)) ''set''" by (simp add: sample_isolated)
  from bids_honour_limits [OF r this] r sell show ?thesis by auto
qed

text \<open>
  C15. In every state the module can reach, the list of bidders it reports for a SetToken has no repetition and holds
  exactly the addresses that may bid by name, also after the module was removed and added again.
\<close>

theorem bidder_lists_consistent:
  assumes "auction_reachable ops x am"
  shows "distinct (biddersHistory (permissionInfo am self)) \<and>
    set (biddersHistory (permissionInfo am self)) = {b. bidAllowList (permissionInfo am self) b}"
proof -
  have "\<forall>t. bidders_consistent (permissionInfo am t)"
    using assms
  proof (induction rule: auction_reachable.induct)
    case (auction_created this)
    then show ?case by (simp add: new_AuctionRebalanceModuleV1_def no_permissions_def bidders_consistent_def)
  qed (use auction_step_consistent in blast)
  then show ?thesis by (auto simp: bidders_consistent_def)
qed

theorem bidder_lists_consistent_witness:
  "\<exists>am. setBidderStatus (sample_env 0) ''set'' ''o'' [''a'', ''b''] [True, False] (new_AuctionRebalanceModuleV1 ''m'', sample_token) = Inr am \<and>
     set (biddersHistory (permissionInfo am ''set'')) = {b. bidAllowList (permissionInfo am ''set'') b} \<and> bidAllowList (permissionInfo am ''set'') ''a''"
proof -
  let ?r = "setBidderStatus (sample_env 0) ''set'' ''o'' [''a'', ''b''] [True, False] (new_AuctionRebalanceModuleV1 ''m'', sample_token)"
  have "map_sum id (\<lambda>am. bidAllowList (permissionInfo am ''set'') ''a'') ?r = Inr True" by code_simp
  then obtain am where r: "?r = Inr am" "bidAllowList (permissionInfo am ''set'') ''a''" by (cases ?r) auto
  have "auction_step erc20_contract sample_externals (new_AuctionRebalanceModuleV1 ''m'') am"
    by (rule auction_bidders [OF r(1)]) (simp add: around_def)
  from bidder_lists_consistent [OF auction_stepped [OF auction_created this], of "''set''"] r show ?thesis by blast
qed

text \<open>
  C13. A locked rebalance ends by time or by success: \<^verbatim>\<open>unlock\<close> is accepted only when the duration has elapsed, or when
  all targets are met, the quote asset is at or above its target and no raise is planned; the SetToken is then unlocked.
\<close>

theorem unlock_needs_end_or_targets:
  assumes "ar_unlock v self (am, st) = Inr (am', st')"
  shows "isLocked st \<and> st_locker st = am_address am \<and> \<not> isLocked st' \<and>
    (isRebalanceDurationElapsed v am self = Inr True \<or>
     allTargetsMet am self st = Inr True \<and> isQuoteAssetExcessOrAtTarget am self st = Inr True \<and>
       raiseTargetPercentage (rebalanceInfo am self) = 0 \<and> rebalanceDuration (rebalanceInfo am' self) = 0)"
proof -
  obtain elapsed early where e: "isRebalanceDurationElapsed v am self = Inr elapsed" "canUnlockEarly am self st = Inr early" "elapsed \<or> early"
    "am' = (if early then edit_rebalance self (rebalanceDuration_update (\<lambda>_. 0)) am else am)"
    "st_unlock (v_controller v) (am_address am) st = Inr st'"
    using assms by (auto simp: ar_unlock_def Let_def map_sum_def split: sum.splits if_splits)
  have "isLocked st \<and> st_locker st = am_address am \<and> \<not> isLocked st'"
    using e(5) by (auto simp: st_unlock_def guard_Inr split: if_splits)
  moreover have "early \<Longrightarrow> allTargetsMet am self st = Inr True \<and> isQuoteAssetExcessOrAtTarget am self st = Inr True \<and>
       raiseTargetPercentage (rebalanceInfo am self) = 0"
    using e(2) by (auto simp: canUnlockEarly_def map_sum_def split: sum.splits if_splits)
  ultimately show ?thesis using e by (cases early) auto
qed

theorem unlock_needs_end_or_targets_witness:
  "\<exists>am' st'. ar_unlock (sample_env 1000) ''set'' (sample_auction (10 ^ 18) 0, auction_token\<lparr>isLocked := True, st_locker := ''m''\<rparr>) = Inr (am', st') \<and>
     \<not> isLocked st' \<and> isRebalanceDurationElapsed (sample_env 1000) (sample_auction (10 ^ 18) 0) ''set'' = Inr True"
proof -
  let ?r = "ar_unlock (sample_env 1000) ''set'' (sample_auction (10 ^ 18) 0, auction_token\<lparr>isLocked := True, st_locker := ''m''\<rparr>)"
  have "map_sum id (\<lambda>(am, st). isLocked st) ?r = Inr False" by code_simp
  then obtain am' st' where r: "?r = Inr (am', st')" by (cases ?r) auto
  have "allTargetsMet (sample_auction (10 ^ 18) 0) ''set'' (auction_token\<lparr>isLocked := True, st_locker := ''m''\<rparr>) = Inr False" by code_simp
  then have "isRebalanceDurationElapsed (sample_env 1000) (sample_auction (10 ^ 18) 0) ''set'' = Inr True"
    using unlock_needs_end_or_targets [OF r] by (metis (full_types) sum.inject(2))
  then show ?thesis using unlock_needs_end_or_targets [OF r] r by blast
qed

text \<open>
  C14. Spending the quote asset completely blocks the end of the rebalance: once all targets are met, with a quote asset
  whose target is zero and of which at most one unit is left, \<^verbatim>\<open>unlock\<close> reverts at every time, also after the
  duration, because the comparison with the target subtracts one from zero.
\<close>

theorem spent_quote_asset_blocks_unlock:
  assumes "allTargetsMet am self st = Inr True"
    and "ar_getDefaultPositionRealUnit st (quoteAsset (rebalanceInfo am self)) = Inr unit" and "unit \<le> 1"
    and "getNormalizedTargetUnit am self st (quoteAsset (rebalanceInfo am self)) = Inr 0"
  shows "\<exists>e. ar_unlock v self (am, st) = Inl e"
proof -
  have "approximatelyEquals unit 0 1 = Inl ''SafeMath''"
    using assms(3) by (simp add: approximatelyEquals_def safe_add_def safe_sub_def checked_def word_le_def)
  then have "canUnlockEarly am self st = Inl ''SafeMath''" using assms(1,2,4) by (simp add: canUnlockEarly_def isQuoteAssetExcessOrAtTarget_def)
  then show ?thesis by (cases "isRebalanceDurationElapsed v am self") (simp_all add: ar_unlock_def)
qed

theorem spent_quote_asset_blocks_unlock_witness:
  "\<exists>e. ar_unlock (sample_env 1000) ''set'' (sample_auction (2 * 10 ^ 18) 0, auction_token\<lparr>isLocked := True, st_locker := ''m''\<rparr>) = Inl e"
proof -
  let ?st = "auction_token\<lparr>isLocked := True, st_locker := ''m''\<rparr>" and ?am = "sample_auction (2 * 10 ^ 18) 0"
  have q: "quoteAsset (rebalanceInfo ?am ''set'') = ''q''" by (simp add: sample_auction_def)
  have "allTargetsMet ?am ''set'' ?st = Inr True" "ar_getDefaultPositionRealUnit ?st ''q'' = Inr 0"
    "getNormalizedTargetUnit ?am ''set'' ?st ''q'' = Inr 0" by code_simp+
  then show ?thesis using spent_quote_asset_blocks_unlock [of ?am "''set''" ?st 0 "sample_env 1000"] q by simp
qed

text \<open>
  Raising the targets works as intended: it is accepted only during the rebalance, with all targets met and some
  quote asset above its own target; it never lowers the normalised target unit of any component, and it leaves targets
  and permissions as they were.
\<close>

lemma raise_lifts_targets:
  assumes "raiseAssetTargets v self sender (am, st) = Inr am'" and "getNormalizedTargetUnit am self st a = Inr t"
    and "getNormalizedTargetUnit am' self st a = Inr t'"
  shows "isAllowedBidder am self sender \<and> isRebalanceDurationElapsed v am self = Inr False \<and>
    canRaiseAssetTargets am self st = Inr True \<and> t \<le> t' \<and> executionInfo am' = executionInfo am \<and> permissionInfo am' = permissionInfo am"
proof -
  obtain d new where r: "isAllowedBidder am self sender" "isRebalanceDurationElapsed v am self = Inr False"
    "canRaiseAssetTargets am self st = Inr True" "safe_add sol_preciseUnit (raiseTargetPercentage (rebalanceInfo am self)) = Some d"
    "sol_preciseDiv (ri_positionMultiplier (rebalanceInfo am self)) d = Some new"
    "am' = edit_rebalance self (ri_positionMultiplier_update (\<lambda>_. new)) am"
    using assms(1) by (auto simp: raiseAssetTargets_def onlyAllowedBidder_Inr split: sum.splits if_splits)
  let ?m = "uint (ri_positionMultiplier (rebalanceInfo am self))"
  have d: "PRECISE_UNIT \<le> uint d" using safe_add_Some [OF r(4)] by simp
  have "uint new = ?m * PRECISE_UNIT div uint d" using sol_preciseDiv_floor [OF r(5)] by simp
  also have "\<dots> \<le> ?m * PRECISE_UNIT div PRECISE_UNIT" using d PRECISE_UNIT_pos by (intro zdiv_mono2) simp_all
  finally have new: "uint new \<le> ?m" by simp
  obtain cur s where c: "toUint256 (positionMultiplier st) = Inr cur" "safe_mul (targetUnit (executionInfo am self a)) cur = Some s"
    "safe_div s (ri_positionMultiplier (rebalanceInfo am self)) = Some t" "safe_div s new = Some t'"
    using assms(2,3) by (auto simp: getNormalizedTargetUnit_def r(6) simp del: toUint256_Inr split: sum.splits)
  have n0: "uint new \<noteq> 0" and t: "uint t = uint s div ?m" "uint t' = uint s div uint new"
    using uint_safe_div [of s new] uint_safe_div [of s "ri_positionMultiplier (rebalanceInfo am self)"] c(3,4)
    by (auto split: if_splits)
  have "uint s div ?m \<le> uint s div uint new" using new n0 by (intro zdiv_mono2) (simp_all add: order_less_le)
  then have "t \<le> t'" using t by (simp add: word_le_def)
  then show ?thesis using r by simp
qed

lemma raise_lifts_targets_instance:
  "\<exists>am' t'. raiseAssetTargets (sample_env 100) ''set'' ''b'' (sample_auction (2 * 10 ^ 18) (10 ^ 17),
       auction_token\<lparr>componentPositions := (componentPositions auction_token)(''q'' := no_position\<lparr>virtualUnit := 5\<rparr>)\<rparr>) = Inr am' \<and>
     getNormalizedTargetUnit am' ''set'' auction_token ''t'' = Inr t' \<and> 2 * 10 ^ 18 \<le> t'"
proof -
  let ?st = "auction_token\<lparr>componentPositions := (componentPositions auction_token)(''q'' := no_position\<lparr>virtualUnit := 5\<rparr>)\<rparr>"
  let ?am = "sample_auction (2 * 10 ^ 18) (10 ^ 17)"
  let ?r = "raiseAssetTargets (sample_env 100) ''set'' ''b'' (?am, ?st)"
  have "map_sum id (\<lambda>am. getNormalizedTargetUnit am ''set'' ?st ''t'') ?r = Inr (Inr 2200000000000000002)" by code_simp
  then obtain am' where r: "?r = Inr am'" "getNormalizedTargetUnit am' ''set'' ?st ''t'' = Inr 2200000000000000002" by (cases ?r) auto
  have t: "getNormalizedTargetUnit ?am ''set'' ?st ''t'' = Inr (2 * 10 ^ 18)" by code_simp
  have "getNormalizedTargetUnit am' ''set'' auction_token ''t'' = Inr 2200000000000000002" using r(2) by (simp add: getNormalizedTargetUnit_def)
  then show ?thesis using r(1) raise_lifts_targets [OF r(1) t r(2)] by blast
qed

text \<open>
  Starting a rebalance replaces all targets at once: the components of the auction are the SetToken's and the new
  ones, without repetition and without external positions, each with its own parameters in the order given; quote asset,
  times and multiplier are the new ones; the SetToken is locked by the module if that was asked, and unchanged
  otherwise; no other SetToken's rebalance is touched.
\<close>

lemma start_sets_targets:
  assumes "startRebalance v self sender quote new newParams oldParams lock duration mult (am, st) = Inr (am', st')"
  shows "st_manager st = sender \<and> distinct (st_components st @ new) \<and>
    map (executionInfo am' self) (st_components st @ new) = oldParams @ newParams \<and>
    list_all (\<lambda>a. \<not> hasExternalPosition st' a) (st_components st @ new) \<and>
    rebalanceInfo am' self = (rebalanceInfo am self)\<lparr>quoteAsset := quote, rebalanceStartTime := v_now v,
      rebalanceDuration := duration, ri_positionMultiplier := mult, rebalanceComponents := st_components st @ new\<rparr> \<and>
    (if lock \<and> st_locker st \<noteq> am_address am then isLocked st' \<and> st_locker st' = am_address am else st' = st) \<and>
    (self' \<noteq> self \<longrightarrow> executionInfo am' self' = executionInfo am self' \<and> rebalanceInfo am' self' = rebalanceInfo am self')"
proof -
  let ?cs = "st_components st @ new"
  obtain am1 ps where a: "st_manager st = sender" "(if lock \<and> st_locker st \<noteq> am_address am then st_lock (v_controller v) (am_address am) st else Inr st) = Inr st'"
    "aggregateComponentsAndAuctionParams v (am_address am) (st_components st') new newParams oldParams = Inr (ps)"
    "each_sol (set_execution self st') (zip (fst ps) (snd ps)) am = Inr am1"
    "am' = edit_rebalance self (\<lambda>r. r\<lparr>quoteAsset := quote, rebalanceStartTime := v_now v, rebalanceDuration := duration,
       ri_positionMultiplier := mult, rebalanceComponents := fst ps\<rparr>) am1"
    using assms by (auto simp: startRebalance_def onlyManagerAndValidSet_def isSetManager_def Let_def split: sum.splits if_splits)
  have lck: "if lock \<and> st_locker st \<noteq> am_address am then isLocked st' \<and> st_locker st' = am_address am \<and> st_components st' = st_components st else st' = st"
    using a(2) by (auto simp: st_lock_def guard_Inr split: if_splits)
  then have cs: "st_components st' = st_components st" by (auto split: if_splits)
  have ps: "ps = (?cs, oldParams @ newParams)" "length ?cs = length (oldParams @ newParams)" "distinct ?cs"
    using a(3) by (auto simp: aggregateComponentsAndAuctionParams_def cs Let_def hasDuplicate_def duplicate_scan_distinct map_sum_def
        dest!: concat_params split: sum.splits if_splits)
  note e = set_execution_all [OF a(4)]
  have "map fst (zip ?cs (oldParams @ newParams)) = ?cs" using ps(2) by simp
  then have e: "\<forall>(a, p) \<in> set (zip ?cs (oldParams @ newParams)). executionInfo am1 self a = p \<and> \<not> hasExternalPosition st' a"
    "\<forall>t. t \<noteq> self \<longrightarrow> executionInfo am1 t = executionInfo am t" "rebalanceInfo am1 = rebalanceInfo am"
    using set_execution_all [OF a(4)] ps by auto
  from map_of_pairs [OF ps(2) e(1)] have params: "map (executionInfo am1 self) ?cs = oldParams @ newParams \<and>
      list_all (\<lambda>a. \<not> hasExternalPosition st' a) ?cs" .
  have "st_manager st = sender \<and> distinct ?cs" using a(1) ps(3) by simp
  moreover have "executionInfo am' = executionInfo am1" by (simp add: a(5))
  moreover have "rebalanceInfo am' = (rebalanceInfo am)(self := (rebalanceInfo am self)\<lparr>quoteAsset := quote, rebalanceStartTime := v_now v,
      rebalanceDuration := duration, ri_positionMultiplier := mult, rebalanceComponents := ?cs\<rparr>)"
    using e(3) ps(1) by (simp add: a(5))
  moreover have "if lock \<and> st_locker st \<noteq> am_address am then isLocked st' \<and> st_locker st' = am_address am else st' = st"
    using lck by (simp split: if_splits)
  ultimately show ?thesis using params e(2) by simp
qed

lemma start_sets_targets_instance:
  "\<exists>am' st'. startRebalance (sample_env 7) ''set'' ''o'' ''q'' [''q''] [\<lparr>targetUnit = 1, priceAdapterName = ''Q'', priceAdapterConfigData = []\<rparr>]
      [\<lparr>targetUnit = 5, priceAdapterName = ''P'', priceAdapterConfigData = []\<rparr>] True 500 (10 ^ 18)
      (new_AuctionRebalanceModuleV1 ''m'', auction_token) = Inr (am', st') \<and>
    map (executionInfo am' ''set'') [''t'', ''q''] = [\<lparr>targetUnit = 5, priceAdapterName = ''P'', priceAdapterConfigData = []\<rparr>,
      \<lparr>targetUnit = 1, priceAdapterName = ''Q'', priceAdapterConfigData = []\<rparr>] \<and>
    rebalanceStartTime (rebalanceInfo am' ''set'') = 7 \<and> isLocked st'"
proof -
  let ?r = "startRebalance (sample_env 7) ''set'' ''o'' ''q'' [''q''] [\<lparr>targetUnit = 1, priceAdapterName = ''Q'', priceAdapterConfigData = []\<rparr>]
      [\<lparr>targetUnit = 5, priceAdapterName = ''P'', priceAdapterConfigData = []\<rparr>] True 500 (10 ^ 18) (new_AuctionRebalanceModuleV1 ''m'', auction_token)"
  have "map_sum id (\<lambda>(am, st). isLocked st) ?r = Inr True" by code_simp
  then obtain am' st' where r: "?r = Inr (am', st')" "isLocked st'" by (cases ?r) auto
  from start_sets_targets [OF r(1)] r auction_token_ok(2) show ?thesis by auto
qed

text \<open>
  C12. An auction with the linear adapter trades on its staircase: the price of an accepted bid is the initial price moved
  once per full bucket since the start, within the bounds, and the quote asset that changes hands lies between the
  quantity at the lower and at the upper bound, up to one unit.
\<close>

theorem linear_auctions_trade_within_bounds:
  assumes "ar_bid v am self sender a q cap (st, w) = Inr ((st', w'), bi, netSent, netReceived, fee)"
    and "\<And>adapter t b n e l config. v_getPrice v adapter t b n e l config = linear_getPrice e config"
    and "priceAdapterConfigData (executionInfo am self a) = linear_getEncodedData i s b d mx mn"
    and "quoted = (if isSellAuction bi then quantityReceivedBySet bi else quantitySentBySet bi)"
  shows "linear_areParamsValid i s b mx mn \<and>
    uint (componentPrice bi) = clamped d (uint i)
      ((uint (v_now v) - uint (rebalanceStartTime (rebalanceInfo am self))) div uint b * uint s) (uint mx) (uint mn) \<and>
    uint q * uint mn < uint quoted * PRECISE_UNIT + PRECISE_UNIT \<and>
    uint quoted * PRECISE_UNIT < uint q * uint mx + PRECISE_UNIT"
proof -
  let ?config = "linear_getEncodedData i s b d mx mn"
  obtain w1 where bi: "createBidInfo v am self st a q cap w = Inr bi" by (rule bid_parts [OF assms(1)])
  obtain e where e: "safe_sub (v_now v) (rebalanceStartTime (rebalanceInfo am self)) = Some e" "linear_getPrice e ?config = Inr (componentPrice bi)"
    using bi by (auto simp: createBidInfo_def Let_def assms(2,3) split: sum.splits prod.splits if_splits)
  have valid: "linear_areParamsValid i s b mx mn"
    using e(2) by (simp add: linear_getPrice_def linear_decode_encode linear_price_def split: if_splits)
  have price: "uint (componentPrice bi) = clamped d (uint i) (uint e div uint b * uint s) (uint mx) (uint mn)"
    using linear_price_clamped [OF valid, of e d] e(2) by (simp add: linear_getPrice_def linear_decode_encode)
  have bounds: "linear_low ?config = mn" "linear_high ?config = mx"
    by (simp_all add: linear_low_def linear_high_def linear_decode_encode)
  have "uint q * uint mn < uint quoted * PRECISE_UNIT + PRECISE_UNIT \<and> uint quoted * PRECISE_UNIT < uint q * uint mx + PRECISE_UNIT"
  proof (cases "isSellAuction bi")
    case True
    then have "sol_preciseMulCeil q (componentPrice bi) = Some quoted"
      using createBidInfo_Inr(4) [OF bi] by (auto simp: assms(4) calculateQuoteAssetQuantity_def calculateQuantitiesForBid_def)
    from linear_adapter.sale_proceeds [OF e(2) this] PRECISE_UNIT_pos(1) show ?thesis unfolding bounds by linarith
  next
    case False
    then have "sol_preciseMul q (componentPrice bi) = Some quoted"
      using createBidInfo_Inr(4) [OF bi] by (auto simp: assms(4) calculateQuoteAssetQuantity_def calculateQuantitiesForBid_def)
    from linear_adapter.purchase_cost [OF e(2) this] PRECISE_UNIT_pos(1) show ?thesis unfolding bounds by linarith
  qed
  then show ?thesis using valid price safe_sub_Some [OF e(1)] by simp
qed

theorem linear_auctions_trade_within_bounds_witness:
  "\<exists>st' w' bi nr fee. ar_bid ((sample_env 100)\<lparr>v_getPrice := \<lambda>_ _ _ _ e _ config. linear_getPrice e config\<rparr>)
      (priced_auction (linear_getEncodedData (2 * 10 ^ 18) (10 ^ 17) 50 True (3 * 10 ^ 18) (10 ^ 18)) (10 ^ 18))
      ''set'' ''b'' ''t'' 2 5 (auction_token, auction_balances) = Inr ((st', w'), bi, 2, nr, fee) \<and>
     uint (componentPrice bi) = 18 * 10 ^ 17 \<and> quantityReceivedBySet bi = 4"
proof -
  let ?config = "linear_getEncodedData (2 * 10 ^ 18) (10 ^ 17) 50 True (3 * 10 ^ 18) (10 ^ 18)"
  let ?am = "priced_auction ?config (10 ^ 18)" and ?v = "(sample_env 100)\<lparr>v_getPrice := \<lambda>_ _ _ _ e _ config. linear_getPrice e config\<rparr>"
  have quote: "linear_getPrice 100 ?config = Inr (18 * 10 ^ 17)"
    by (simp add: linear_getPrice_def linear_decode_encode linear_price_def linear_areParamsValid_def bounded_price_def)
  have "ar_bid ?v ?am ''set'' ''b'' ''t'' 2 5 s = ar_bid ((sample_env 100)\<lparr>v_getPrice := \<lambda>_ _ _ _ _ _ _. Inr (18 * 10 ^ 17)\<rparr>) ?am ''set'' ''b'' ''t'' 2 5 s" for s
    by (rule ar_bid_quote_cong) (use quote in \<open>simp add: safe_sub_def\<close>)
  moreover have "map_sum id (\<lambda>((st, w), bi, ns, nr, fee). (quantityReceivedBySet bi, ns)) (ar_bid ((sample_env 100)\<lparr>v_getPrice := \<lambda>_ _ _ _ _ _ _. Inr (18 * 10 ^ 17)\<rparr>)
      (priced_auction config (10 ^ 18)) ''set'' ''b'' ''t'' 2 5 (auction_token, auction_balances)) = Inr (4, 2)" for config by code_simp
  ultimately have "map_sum id (\<lambda>((st, w), bi, ns, nr, fee). (quantityReceivedBySet bi, ns))
      (ar_bid ?v ?am ''set'' ''b'' ''t'' 2 5 (auction_token, auction_balances)) = Inr (4, 2)" by (simp only:)
  then obtain st' w' bi nr fee where r: "ar_bid ?v ?am ''set'' ''b'' ''t'' 2 5 (auction_token, auction_balances) = Inr ((st', w'), bi, 2, nr, fee)"
    "quantityReceivedBySet bi = 4" by (cases "ar_bid ?v ?am ''set'' ''b'' ''t'' 2 5 (auction_token, auction_balances)") auto
  have "uint (componentPrice bi) = clamped True (uint (2 * 10 ^ 18 :: uint256)) ((uint (v_now ?v) - uint (rebalanceStartTime (rebalanceInfo ?am ''set'')))
      div uint (50 :: uint256) * uint (10 ^ 17 :: uint256)) (uint (3 * 10 ^ 18 :: uint256)) (uint (10 ^ 18 :: uint256))"
    using linear_auctions_trade_within_bounds [OF r(1) _ priced_auction_simps(1) refl] by simp
  then have "uint (componentPrice bi) = 18 * 10 ^ 17" by (simp add: clamped_def)
  with r show ?thesis by blast
qed

end
