(* ===== verification/Set_Valuer.thy ===== *)
theory Set_Valuer
  imports Price_Oracle Set_Token
begin

section \<open>The valuation of a SetToken\<close>

text \<open>
  Models contracts/protocol/SetValuer.sol, resource 2 of the system fixture: the value of a SetToken in a quote asset, from
  the units of its components, external positions included, and the prices of the oracle of \<open>Price_Oracle\<close>. The decimals of
  the component tokens are an argument. The bound compares the result with the exact value in the real numbers.
\<close>

subsection \<open>SetValuer.sol\<close>

text \<open>The body of the loop over the components; \<^verbatim>\<open>10 ** unitDecimals\<close> wraps.\<close>

definition value_component :: "(address \<Rightarrow> uint256 sol) \<Rightarrow> (address \<Rightarrow> nat) \<Rightarrow> 'e set_token \<Rightarrow> address \<Rightarrow> int256 \<Rightarrow> int256 sol" where
  "value_component price decimals st c valuation =
     (case price c of Inl m \<Rightarrow> Inl m
      | Inr componentPrice \<Rightarrow> (case getTotalComponentRealUnits st c of Inl m \<Rightarrow> Inl m
      | Inr aggregateUnits \<Rightarrow> (case toInt256 (10 ^ decimals c) of Inl m \<Rightarrow> Inl m
      | Inr baseUnits \<Rightarrow> (case checked (sol_preciseDivInt aggregateUnits baseUnits) of Inl m \<Rightarrow> Inl m
      | Inr normalizedUnits \<Rightarrow> (case toInt256 componentPrice of Inl m \<Rightarrow> Inl m
      | Inr p \<Rightarrow> (case checked (sol_preciseMulInt normalizedUnits p) of Inl m \<Rightarrow> Inl m
      | Inr v \<Rightarrow> checked (ssafe_add v valuation)))))))"

definition calculateSetTokenValuation :: "(address \<Rightarrow> uint256 sol) \<Rightarrow> (address \<Rightarrow> address \<Rightarrow> address \<Rightarrow> (bool \<times> uint256) sol)
    \<Rightarrow> controller_state \<Rightarrow> price_oracle \<Rightarrow> (address \<Rightarrow> nat) \<Rightarrow> address \<Rightarrow> 'e set_token \<Rightarrow> address \<Rightarrow> uint256 sol" where
  "calculateSetTokenValuation read adapterPrice c po decimals this st quote =
     (let price = (\<lambda>a. getPrice read adapterPrice c po this a (masterQuoteAsset po)) in
      case each_sol (value_component price decimals st) (st_components st) 0 of Inl m \<Rightarrow> Inl m
      | Inr valuation \<Rightarrow>
        (case (if masterQuoteAsset po \<noteq> quote
               then (case price quote of Inl m \<Rightarrow> Inl m
                 | Inr quoteToMaster \<Rightarrow> (case toInt256 quoteToMaster of Inl m \<Rightarrow> Inl m
                   | Inr q \<Rightarrow> checked (sol_preciseDivInt valuation q)))
               else Inr valuation) of Inl m \<Rightarrow> Inl m
         | Inr valuation \<Rightarrow> toUint256 valuation))"

subsection \<open>The exact value\<close>

definition exact_value :: "(address \<Rightarrow> uint256 sol) \<Rightarrow> (address \<Rightarrow> nat) \<Rightarrow> 'e set_token \<Rightarrow> address \<Rightarrow> real" where
  "exact_value price decimals st a = (case (getTotalComponentRealUnits st a, price a) of
     (Inr u, Inr p) \<Rightarrow> real_of_int (sint u) * real_of_int (uint p) / 10 ^ decimals a | _ \<Rightarrow> 0)"

text \<open>One unit for each of the two roundings, the first scaled by the price.\<close>

definition rounding_of :: "(address \<Rightarrow> uint256 sol) \<Rightarrow> address \<Rightarrow> real" where
  "rounding_of price a = (case price a of Inr p \<Rightarrow> real_of_int (uint p) / real_of_int PRECISE_UNIT + 1 | Inl _ \<Rightarrow> 0)"

lemma sdiv_error:
  fixes a b :: int
  assumes "0 < b"
  shows "\<bar>real_of_int (a sdiv b) - real_of_int a / real_of_int b\<bar> < 1"
proof -
  have floor: "\<bar>real_of_int (k div b) - real_of_int k / real_of_int b\<bar> < 1" for k
  proof -
    have "real_of_int (k div b) = of_int \<lfloor>real_of_int k / real_of_int b\<rfloor>" by (simp add: floor_divide_of_int_eq)
    then show ?thesis by linarith
  qed
  show ?thesis
  proof (cases "0 \<le> a")
    case True
    then show ?thesis using floor [of a] assms by simp
  next
    case False
    then have "a sdiv b = - ((- a) div b)" using assms by (simp add: sdiv_neg_pos)
    then show ?thesis using floor [of "- a"] by (simp add: abs_minus_commute)
  qed
qed

lemma scaled_error:
  fixes x y k e :: real
  assumes "0 \<le> k" "\<bar>x - y\<bar> \<le> e"
  shows "\<bar>x * k - y * k\<bar> \<le> e * k"
  using mult_right_mono [OF assms(2,1)] assms(1) by (simp add: left_diff_distrib [symmetric] abs_mult)

lemma abs_chain: "\<bar>x - y\<bar> < 1 \<Longrightarrow> \<bar>y - z\<bar> \<le> e \<Longrightarrow> \<bar>x - z\<bar> \<le> e + 1" for x y z e :: real
  by linarith

lemma ten_power:
  assumes "d \<le> 76" "toInt256 ((10 :: uint256) ^ d) = Inr b"
  shows "sint b = 10 ^ d"
proof -
  have "(10 :: int) ^ d \<le> 10 ^ 76" using assms(1) by (intro power_increasing) simp_all
  then have "(10 :: int) ^ d < 2 ^ 255" by (rule order_le_less_trans) simp
  moreover have "uint ((10 :: uint256) ^ d) = 10 ^ d mod 2 ^ 256" by (induction d) (simp_all add: uint_word_ariths mod_mult_right_eq)
  ultimately have "uint ((10 :: uint256) ^ d) = 10 ^ d" by simp
  then show ?thesis using assms(2) uint_small_sint by (auto simp: toInt256_def split: if_splits)
qed

lemma toInt256_sint: "toInt256 a = Inr b \<Longrightarrow> sint b = uint a"
  by (auto simp: toInt256_def uint_small_sint split: if_splits)

lemma value_component_close:
  assumes "value_component price decimals st a v = Inr v'" "decimals a \<le> 76"
  shows "\<bar>real_of_int (sint v') - real_of_int (sint v) - exact_value price decimals st a\<bar> \<le> rounding_of price a"
proof -
  obtain p u b n p' t where e: "price a = Inr p" "getTotalComponentRealUnits st a = Inr u" "toInt256 (10 ^ decimals a) = Inr b"
    "sol_preciseDivInt u b = Some n" "toInt256 p = Inr p'" "sol_preciseMulInt n p' = Some t" "ssafe_add t v = Some v'"
    using assms(1) by (auto simp: value_component_def simp del: toUint256_Inr split: sum.splits)
  have b: "sint b = 10 ^ decimals a" by (rule ten_power [OF assms(2) e(3)])
  let ?b = "10 ^ decimals a :: int" and ?P = "real_of_int PRECISE_UNIT" and ?p = "real_of_int (uint p)"
  have "map_option sint (sol_preciseDivInt u b) = Some (sint n)" "map_option sint (sol_preciseMulInt n p') = Some (sint t)"
    using e(4,6) by simp_all
  then have n: "sint n = sint u * PRECISE_UNIT sdiv ?b" and t: "sint t = sint n * uint p sdiv PRECISE_UNIT"
    using toInt256_sint [OF e(5)] by (auto simp: sol_preciseDivInt_sint sint_MulInt preciseDiv_def bn_div_def preciseMul_def b split: if_splits)
  have nonneg: "0 \<le> ?p / ?P" using PRECISE_UNIT_pos(1) of_int_0_le_iff [THEN iffD2, OF uint_ge_0] by (intro divide_nonneg_pos) simp_all
  have "\<bar>real_of_int (sint n) - real_of_int (sint u * PRECISE_UNIT) / real_of_int ?b\<bar> < 1" unfolding n by (rule sdiv_error) simp
  from scaled_error [OF nonneg less_imp_le [OF this]]
  have "\<bar>real_of_int (sint n) * ?p / ?P - real_of_int (sint u) * ?p / 10 ^ decimals a\<bar> \<le> ?p / ?P"
    using PRECISE_UNIT_pos(1) by simp
  moreover have "\<bar>real_of_int (sint t) - real_of_int (sint n * uint p) / ?P\<bar> < 1" unfolding t by (rule sdiv_error) simp
  moreover have "sint v' = sint t + sint v" using e(7) by (auto simp: ssafe_add_def sint_word_ariths signed_take_bit_int_eq_self in_int256_def split: if_splits)
  ultimately show ?thesis by (simp add: exact_value_def rounding_of_def e(1,2))
qed

lemma value_loop_close:
  assumes "each_sol (value_component price decimals st) cs v = Inr v'" "list_all (\<lambda>a. decimals a \<le> 76) cs"
  shows "\<bar>real_of_int (sint v') - real_of_int (sint v) - sum_list (map (exact_value price decimals st) cs)\<bar>
    \<le> sum_list (map (rounding_of price) cs)"
  using assms
proof (induction cs arbitrary: v)
  case (Cons a cs)
  then obtain v1 where v1: "value_component price decimals st a v = Inr v1" "each_sol (value_component price decimals st) cs v1 = Inr v'"
    by (auto split: sum.splits)
  from value_component_close [OF v1(1)] Cons.IH [OF v1(2)] Cons.prems(2) show ?case by simp
qed simp

subsection \<open>Properties\<close>

lemma toUint256_sint: "toUint256 v = Inr r \<Longrightarrow> uint r = sint v"
  by (auto simp: sint_nonneg_uint)

text \<open>
  C8. A SetToken is valued at what its components are worth: when a valuation returns, it differs from the exact sum, in the
  real numbers, of units times price over all components (debt counting negatively), converted to the quote asset, by no
  more than the roundings of the two divisions per component and of the final one; the final division has a positive quote
  price. The bound holds for tokens of at most 76 decimals, where \<^verbatim>\<open>10 ** unitDecimals\<close> fits an \<^verbatim>\<open>int256\<close>.
\<close>

theorem valuation_is_sum_of_values:
  assumes "calculateSetTokenValuation read adapterPrice c po decimals this st quote = Inr r"
    and "\<forall>a \<in> set (st_components st). decimals a \<le> 76"
  shows "let price = (\<lambda>a. getPrice read adapterPrice c po this a (masterQuoteAsset po));
             V = sum_list (map (exact_value price decimals st) (st_components st));
             E = sum_list (map (rounding_of price) (st_components st)) in
         if quote = masterQuoteAsset po then \<bar>real_of_int (uint r) - V\<bar> \<le> E
         else \<exists>q. price quote = Inr q \<and> 0 < uint q \<and>
           \<bar>real_of_int (uint r) - V * real_of_int PRECISE_UNIT / real_of_int (uint q)\<bar>
             \<le> E * real_of_int PRECISE_UNIT / real_of_int (uint q) + 1"
proof -
  let ?price = "\<lambda>a. getPrice read adapterPrice c po this a (masterQuoteAsset po)"
  let ?V = "sum_list (map (exact_value ?price decimals st) (st_components st))"
  let ?E = "sum_list (map (rounding_of ?price) (st_components st))"
  obtain v where v: "each_sol (value_component ?price decimals st) (st_components st) 0 = Inr v"
    using assms(1) by (auto simp: calculateSetTokenValuation_def Let_def split: sum.splits)
  have close: "\<bar>real_of_int (sint v) - ?V\<bar> \<le> ?E"
    using value_loop_close [OF v] assms(2) by (simp add: list_all_iff)
  show ?thesis
  proof (cases "quote = masterQuoteAsset po")
    case True
    then have "toUint256 v = Inr r" using assms(1) v by (simp add: calculateSetTokenValuation_def Let_def)
    then show ?thesis using close True by (simp add: toUint256_sint [symmetric] Let_def)
  next
    case False
    then obtain q q' w where e: "?price quote = Inr q" "toInt256 q = Inr q'" "sol_preciseDivInt v q' = Some w" "toUint256 w = Inr r"
      using assms(1) v by (auto simp: calculateSetTokenValuation_def Let_def simp del: toUint256_Inr split: sum.splits)
    have q': "sint q' = uint q" by (rule toInt256_sint [OF e(2)])
    have "map_option sint (sol_preciseDivInt v q') = Some (sint w)" using e(3) by simp
    then have w: "sint w = sint v * PRECISE_UNIT sdiv uint q" and "uint q \<noteq> 0"
      by (auto simp: sol_preciseDivInt_sint preciseDiv_def bn_div_def q' split: if_splits)
    then have q: "0 < uint q" using uint_ge_0 [of q] by linarith
    let ?k = "real_of_int PRECISE_UNIT / real_of_int (uint q)"
    have "\<bar>real_of_int (sint w) - real_of_int (sint v * PRECISE_UNIT) / real_of_int (uint q)\<bar> < 1" unfolding w by (rule sdiv_error [OF q])
    moreover have "\<bar>real_of_int (sint v) * ?k - ?V * ?k\<bar> \<le> ?E * ?k"
      by (intro scaled_error close divide_nonneg_pos) (use PRECISE_UNIT_pos(1) of_int_0_less_iff [where 'a = real, THEN iffD2, OF q] in simp_all)
    ultimately have "\<bar>real_of_int (uint r) - ?V * ?k\<bar> \<le> ?E * ?k + 1"
      unfolding toUint256_sint [OF e(4)] by (simp only: of_int_mult times_divide_eq_right) (rule abs_chain)
    with False e(1) q show ?thesis by (simp only: Let_def if_False times_divide_eq_right) blast
  qed
qed

definition sample_oracle :: price_oracle where
  "sample_oracle = fixture_oracle ''o'' ''c'' ''usdc'' [(''t'', ''r1''), (''dai'', ''r2'')]"

definition sample_feed :: "address \<Rightarrow> uint256 sol" where
  "sample_feed r = (if r = ''r1'' then Inr (3 * 10 ^ 18) else if r = ''r2'' then Inr (2 * 10 ^ 18) else Inl [])"

definition valued_token :: "erc20 set_token" where
  "valued_token = sample_token\<lparr>componentPositions := (\<lambda>_. no_position)(''t'' := no_position\<lparr>virtualUnit := 15 * 10 ^ 17\<rparr>)\<rparr>"

theorem valuation_is_sum_of_values_witness:
  "calculateSetTokenValuation sample_feed (\<lambda>_ _ _. Inl []) sample_controller sample_oracle (\<lambda>_. 18) (c_self sample_controller)
     valued_token ''dai'' = Inr 2250000000000000000 \<and>
   (\<exists>q. getPrice sample_feed (\<lambda>_ _ _. Inl []) sample_controller sample_oracle (c_self sample_controller) ''dai'' ''usdc'' = Inr q \<and> 0 < uint q)"
proof -
  have run: "calculateSetTokenValuation sample_feed (\<lambda>_ _ _. Inl []) sample_controller sample_oracle (\<lambda>_. 18) (c_self sample_controller)
     valued_token ''dai'' = Inr 2250000000000000000" by code_simp
  moreover have "masterQuoteAsset sample_oracle = ''usdc''" by (simp add: sample_oracle_def fixture_oracle_def)
  ultimately show ?thesis using valuation_is_sum_of_values [OF run] by (auto simp: Let_def)
qed

end
