(* ===== verification/Nav_Issuance_Module.thy ===== *)
theory Nav_Issuance_Module
  imports Trade_Module Nav_Issuance_Utils Set_Valuer
begin

section \<open>Issuance by net asset value\<close>

text \<open>
  Models contracts/protocol/modules/v1/CustomOracleNAVIssuanceModule.sol: SetTokens are issued for and redeemed into one
  reserve asset at the value a valuer reports, with a premium and fees; supply, position multiplier and the unit of the
  reserve asset change together. The pure calculations are those of \<open>Nav_Issuance_Utils\<close>, which the test helpers predict.
  The valuer, the decimals, the manager's hooks and wrapped ether are other contracts: fields of the environment. Calls
  are atomic.
\<close>

subsection \<open>Data\<close>

record NAVIssuanceSettings =
  nav_managerIssuanceHook :: address
  nav_managerRedemptionHook :: address
  setValuer :: address
  reserveAssets :: "address list"
  nav_feeRecipient :: address
  managerFees :: "uint256 \<times> uint256"
  maxManagerFee :: uint256
  premiumPercentage :: uint256
  maxPremiumPercentage :: uint256
  minSetTokenSupply :: uint256

record ActionInfo =
  preFeeReserveQuantity :: uint256
  ai_protocolFees :: uint256
  ai_managerFee :: uint256
  netFlowQuantity :: uint256
  setTokenQuantity :: uint256
  previousSetTokenSupply :: uint256
  newSetTokenSupply :: uint256
  newPositionMultiplier :: int256
  newReservePositionUnit :: uint256

record nav_module =
  nav_address :: address
  nav_weth :: address
  navIssuanceSettings :: "address \<Rightarrow> NAVIssuanceSettings"
  isReserveAsset :: "address \<Rightarrow> address \<Rightarrow> bool"

definition no_nav_settings :: NAVIssuanceSettings where
  "no_nav_settings = \<lparr>nav_managerIssuanceHook = ADDRESS_ZERO, nav_managerRedemptionHook = ADDRESS_ZERO, setValuer = ADDRESS_ZERO,
     reserveAssets = [], nav_feeRecipient = ADDRESS_ZERO, managerFees = (0, 0), maxManagerFee = 0, premiumPercentage = 0,
     maxPremiumPercentage = 0, minSetTokenSupply = 0\<rparr>"

definition new_CustomOracleNavIssuanceModule :: "address \<Rightarrow> address \<Rightarrow> nav_module" where
  "new_CustomOracleNavIssuanceModule this weth' = \<lparr>nav_address = this, nav_weth = weth', navIssuanceSettings = \<lambda>_. no_nav_settings,
     isReserveAsset = \<lambda>_ _. False\<rparr>"

text \<open>
  The contracts the module calls: the valuers, the token decimals, the manager's hooks, the wrapped ether token with the
  module as its caller (deposit, transfer, withdraw), and the transfer of ether.
\<close>

record ('e, 'w) nav_env =
  ne_ops :: "'e erc20_ops"
  ne_externals :: "'w externals"
  ne_controller :: controller_state
  ne_valuation :: "address \<Rightarrow> address \<Rightarrow> address \<Rightarrow> 'e set_token \<times> 'w \<Rightarrow> uint256 sol"
  ne_decimals :: "address \<Rightarrow> nat"
  ne_issueHook :: "address \<Rightarrow> address \<Rightarrow> address \<Rightarrow> uint256 \<Rightarrow> address \<Rightarrow> address \<Rightarrow> 'e set_token \<times> 'w \<Rightarrow> ('e set_token \<times> 'w) sol"
  ne_redeemHook :: "address \<Rightarrow> address \<Rightarrow> uint256 \<Rightarrow> address \<Rightarrow> address \<Rightarrow> 'e set_token \<times> 'w \<Rightarrow> ('e set_token \<times> 'w) sol"
  ne_deposit :: "address \<Rightarrow> uint256 \<Rightarrow> 'w \<Rightarrow> 'w sol"
  ne_transfer :: "address \<Rightarrow> address \<Rightarrow> uint256 \<Rightarrow> 'w \<Rightarrow> 'w sol"
  ne_withdraw :: "address \<Rightarrow> uint256 \<Rightarrow> 'w \<Rightarrow> 'w sol"
  ne_sendEther :: "address \<Rightarrow> uint256 \<Rightarrow> 'w \<Rightarrow> 'w sol"

subsection \<open>Calculations\<close>

text \<open>An index beyond the array of the two manager fees is an invalid opcode.\<close>

definition manager_fee :: "uint256 \<times> uint256 \<Rightarrow> uint256 \<Rightarrow> uint256 sol" where
  "manager_fee fees i = (if i = 0 then Inr (fst fees) else if i = 1 then Inr (snd fees) else Inl ''invalid opcode'')"

definition nav_getFees :: "controller_state \<Rightarrow> nav_module \<Rightarrow> address \<Rightarrow> uint256 \<Rightarrow> int \<Rightarrow> int \<Rightarrow> uint256
    \<Rightarrow> (uint256 \<times> uint256 \<times> uint256) sol" where
  "nav_getFees c nm self reserveAssetQuantity protocolManagerFeeIndex protocolDirectFeeIndex managerFeeIndex =
     (case manager_fee (managerFees (navIssuanceSettings nm self)) managerFeeIndex of Inl m \<Rightarrow> Inl m
      | Inr fee \<Rightarrow> checked (sol_getFees reserveAssetQuantity (word_of_int (c_fees c (nav_address nm) protocolDirectFeeIndex))
          (word_of_int (c_fees c (nav_address nm) protocolManagerFeeIndex)) fee))"

definition getSetValuer :: "controller_state \<Rightarrow> nav_module \<Rightarrow> address \<Rightarrow> address" where
  "getSetValuer c nm self = (let customValuer = setValuer (navIssuanceSettings nm self) in
     if customValuer = ADDRESS_ZERO then resourceId c 2 else customValuer)"

definition getSetTokenMintQuantity :: "('e, 'w) nav_env \<Rightarrow> nav_module \<Rightarrow> address \<Rightarrow> address \<Rightarrow> uint256 \<Rightarrow> uint256
    \<Rightarrow> 'e set_token \<times> 'w \<Rightarrow> uint256 sol" where
  "getSetTokenMintQuantity ne nm self reserve netReserveFlows totalSupply' s =
     (case ne_valuation ne (getSetValuer (ne_controller ne) nm self) self reserve s of Inl m \<Rightarrow> Inl m
      | Inr setTokenValuation \<Rightarrow> checked (sol_getSetTokenMintQuantity setTokenValuation (10 ^ ne_decimals ne reserve)
          (premiumPercentage (navIssuanceSettings nm self)) netReserveFlows totalSupply'))"

definition getRedeemReserveQuantity :: "('e, 'w) nav_env \<Rightarrow> nav_module \<Rightarrow> address \<Rightarrow> address \<Rightarrow> uint256 \<Rightarrow> 'e set_token \<times> 'w \<Rightarrow> uint256 sol" where
  "getRedeemReserveQuantity ne nm self reserve quantity s =
     (case ne_valuation ne (getSetValuer (ne_controller ne) nm self) self reserve s of Inl m \<Rightarrow> Inl m
      | Inr setTokenValuation \<Rightarrow> checked (sol_getRedeemReserveQuantity setTokenValuation (10 ^ ne_decimals ne reserve)
          (premiumPercentage (navIssuanceSettings nm self)) quantity))"

text \<open>The multiplier for a new supply; the casts revert beyond the signed range.\<close>

definition multiplier_for :: "'e set_token \<Rightarrow> uint256 \<Rightarrow> uint256 \<Rightarrow> (uint256 \<times> int256) sol" where
  "multiplier_for st previousSupply newTotalSupply =
     (case toInt256 previousSupply of Inl m \<Rightarrow> Inl m
      | Inr p \<Rightarrow> (case toInt256 newTotalSupply of Inl m \<Rightarrow> Inl m
        | Inr n \<Rightarrow> map_sum id (Pair newTotalSupply) (checked (sol_newPositionMultiplier (positionMultiplier st) p n))))"

definition getIssuePositionMultiplier :: "'e set_token \<Rightarrow> uint256 \<Rightarrow> uint256 \<Rightarrow> (uint256 \<times> int256) sol" where
  "getIssuePositionMultiplier st quantity previousSupply =
     (case checked (safe_add quantity previousSupply) of Inl m \<Rightarrow> Inl m
      | Inr newTotalSupply \<Rightarrow> multiplier_for st previousSupply newTotalSupply)"

definition getRedeemPositionMultiplier :: "'e set_token \<Rightarrow> uint256 \<Rightarrow> uint256 \<Rightarrow> (uint256 \<times> int256) sol" where
  "getRedeemPositionMultiplier st quantity previousSupply =
     (case checked (safe_sub previousSupply quantity) of Inl m \<Rightarrow> Inl m
      | Inr newTotalSupply \<Rightarrow> multiplier_for st previousSupply newTotalSupply)"

definition getIssuePositionUnit :: "'e set_token \<Rightarrow> address \<Rightarrow> uint256 \<Rightarrow> uint256 \<Rightarrow> uint256 \<Rightarrow> uint256 sol" where
  "getIssuePositionUnit st reserve previousSupply netFlow newSupply =
     (case getDefaultPositionRealUnit st reserve of Inl m \<Rightarrow> Inl m
      | Inr u \<Rightarrow> (case toUint256 u of Inl m \<Rightarrow> Inl m
      | Inr existingUnit \<Rightarrow> (case checked (sol_preciseMul existingUnit previousSupply) of Inl m \<Rightarrow> Inl m
      | Inr existing \<Rightarrow> (case checked (safe_add existing netFlow) of Inl m \<Rightarrow> Inl m
      | Inr totalReserve \<Rightarrow> checked (sol_preciseDiv totalReserve newSupply)))))"

definition getRedeemPositionUnit :: "'e set_token \<Rightarrow> address \<Rightarrow> uint256 \<Rightarrow> uint256 \<Rightarrow> uint256 \<Rightarrow> uint256 \<Rightarrow> uint256 \<Rightarrow> uint256 sol" where
  "getRedeemPositionUnit st reserve previousSupply netFlow protocolFees managerFee newSupply =
     (case getDefaultPositionRealUnit st reserve of Inl m \<Rightarrow> Inl m
      | Inr u \<Rightarrow> (case toUint256 u of Inl m \<Rightarrow> Inl m
      | Inr existingUnit \<Rightarrow> (case checked (sol_preciseMul existingUnit previousSupply) of Inl m \<Rightarrow> Inl m
      | Inr totalExistingUnits \<Rightarrow> (case checked (safe_add netFlow protocolFees) of Inl m \<Rightarrow> Inl m
      | Inr part \<Rightarrow> (case checked (safe_add part managerFee) of Inl m \<Rightarrow> Inl m
      | Inr outflow \<Rightarrow> if \<not> outflow \<le> totalExistingUnits then Inl ''Must be greater than total available collateral''
        else (case checked (safe_sub totalExistingUnits outflow) of Inl m \<Rightarrow> Inl m
        | Inr rest \<Rightarrow> checked (sol_preciseDiv rest newSupply)))))))"

definition createIssuanceInfo :: "('e, 'w) nav_env \<Rightarrow> nav_module \<Rightarrow> address \<Rightarrow> address \<Rightarrow> uint256 \<Rightarrow> 'e set_token \<times> 'w \<Rightarrow> ActionInfo sol" where
  "createIssuanceInfo ne nm self reserve quantity s =
     (let st = fst s; previousSupply = e_totalSupply (ne_ops ne) (st_erc20 st) in
      case nav_getFees (ne_controller ne) nm self quantity 0 2 0 of Inl m \<Rightarrow> Inl m
      | Inr (protocolFees, fee, netFlow) \<Rightarrow> (case getSetTokenMintQuantity ne nm self reserve netFlow previousSupply s of Inl m \<Rightarrow> Inl m
      | Inr mintQuantity \<Rightarrow> (case getIssuePositionMultiplier st mintQuantity previousSupply of Inl m \<Rightarrow> Inl m
      | Inr (newSupply, newMultiplier) \<Rightarrow> (case getIssuePositionUnit st reserve previousSupply netFlow newSupply of Inl m \<Rightarrow> Inl m
      | Inr newUnit \<Rightarrow> Inr \<lparr>preFeeReserveQuantity = quantity, ai_protocolFees = protocolFees, ai_managerFee = fee, netFlowQuantity = netFlow,
          setTokenQuantity = mintQuantity, previousSetTokenSupply = previousSupply, newSetTokenSupply = newSupply,
          newPositionMultiplier = newMultiplier, newReservePositionUnit = newUnit\<rparr>))))"

definition createRedemptionInfo :: "('e, 'w) nav_env \<Rightarrow> nav_module \<Rightarrow> address \<Rightarrow> address \<Rightarrow> uint256 \<Rightarrow> 'e set_token \<times> 'w \<Rightarrow> ActionInfo sol" where
  "createRedemptionInfo ne nm self reserve quantity s =
     (let st = fst s; previousSupply = e_totalSupply (ne_ops ne) (st_erc20 st) in
      case getRedeemReserveQuantity ne nm self reserve quantity s of Inl m \<Rightarrow> Inl m
      | Inr preFee \<Rightarrow> (case nav_getFees (ne_controller ne) nm self preFee 1 3 1 of Inl m \<Rightarrow> Inl m
      | Inr (protocolFees, fee, netFlow) \<Rightarrow> (case getRedeemPositionMultiplier st quantity previousSupply of Inl m \<Rightarrow> Inl m
      | Inr (newSupply, newMultiplier) \<Rightarrow>
        (case getRedeemPositionUnit st reserve previousSupply netFlow protocolFees fee newSupply of Inl m \<Rightarrow> Inl m
         | Inr newUnit \<Rightarrow> Inr \<lparr>preFeeReserveQuantity = preFee, ai_protocolFees = protocolFees, ai_managerFee = fee, netFlowQuantity = netFlow,
             setTokenQuantity = quantity, previousSetTokenSupply = previousSupply, newSetTokenSupply = newSupply,
             newPositionMultiplier = newMultiplier, newReservePositionUnit = newUnit\<rparr>))))"

subsection \<open>Checks, transfers and state updates\<close>

definition nav_validateCommon :: "nav_module \<Rightarrow> address \<Rightarrow> address \<Rightarrow> uint256 \<Rightarrow> 'a sol \<Rightarrow> 'a sol" where
  "nav_validateCommon nm self reserve quantity k =
     (if \<not> 0 < quantity then Inl ''Quantity must be > 0''
      else if \<not> isReserveAsset nm self reserve then Inl ''Must be valid reserve asset'' else k)"

definition validateIssuanceInfo :: "nav_module \<Rightarrow> address \<Rightarrow> uint256 \<Rightarrow> ActionInfo \<Rightarrow> 'a sol \<Rightarrow> 'a sol" where
  "validateIssuanceInfo nm self minReceive info k =
     (if \<not> minSetTokenSupply (navIssuanceSettings nm self) \<le> previousSetTokenSupply info
      then Inl ''Supply must be greater than minimum to enable issuance''
      else if \<not> minReceive \<le> setTokenQuantity info then Inl ''Must be greater than min SetToken'' else k)"

definition validateRedemptionInfo :: "nav_module \<Rightarrow> address \<Rightarrow> uint256 \<Rightarrow> ActionInfo \<Rightarrow> 'a sol \<Rightarrow> 'a sol" where
  "validateRedemptionInfo nm self minReceive info k =
     (if \<not> minSetTokenSupply (navIssuanceSettings nm self) \<le> newSetTokenSupply info
      then Inl ''Supply must be greater than minimum to enable redemption''
      else if \<not> minReceive \<le> netFlowQuantity info then Inl ''Must be greater than min receive reserve quantity'' else k)"

definition nav_callPreIssueHooks :: "('e, 'w) nav_env \<Rightarrow> nav_module \<Rightarrow> address \<Rightarrow> address \<Rightarrow> uint256 \<Rightarrow> address \<Rightarrow> address
    \<Rightarrow> 'e set_token \<times> 'w \<Rightarrow> ('e set_token \<times> 'w) sol" where
  "nav_callPreIssueHooks ne nm self reserve quantity caller to s =
     (let hook = nav_managerIssuanceHook (navIssuanceSettings nm self) in
      if hook \<noteq> ADDRESS_ZERO then ne_issueHook ne hook self reserve quantity caller to s else Inr s)"

definition callPreRedeemHooks :: "('e, 'w) nav_env \<Rightarrow> nav_module \<Rightarrow> address \<Rightarrow> uint256 \<Rightarrow> address \<Rightarrow> address
    \<Rightarrow> 'e set_token \<times> 'w \<Rightarrow> ('e set_token \<times> 'w) sol" where
  "callPreRedeemHooks ne nm self quantity caller to s =
     (let hook = nav_managerRedemptionHook (navIssuanceSettings nm self) in
      if hook \<noteq> ADDRESS_ZERO then ne_redeemHook ne hook self quantity caller to s else Inr s)"

text \<open>Two payments that are left out when there is nothing to pay.\<close>

definition transferCollateralAndHandleFees :: "('e, 'w) nav_env \<Rightarrow> nav_module \<Rightarrow> address \<Rightarrow> address \<Rightarrow> address \<Rightarrow> ActionInfo \<Rightarrow> 'w \<Rightarrow> 'w sol" where
  "transferCollateralAndHandleFees ne nm self sender reserve info w =
     (let x = ne_externals ne; this = nav_address nm in
      case explicit_transferFrom x this reserve sender self (netFlowQuantity info) w of Inl m \<Rightarrow> Inl m
      | Inr w \<Rightarrow>
        (case (if 0 < ai_protocolFees info
               then explicit_transferFrom x this reserve sender (c_feeRecipient (ne_controller ne)) (ai_protocolFees info) w
               else Inr w) of Inl m \<Rightarrow> Inl m
         | Inr w \<Rightarrow> (if 0 < ai_managerFee info
             then explicit_transferFrom x this reserve sender (nav_feeRecipient (navIssuanceSettings nm self)) (ai_managerFee info) w
             else Inr w)))"

definition transferWETHAndHandleFees :: "('e, 'w) nav_env \<Rightarrow> nav_module \<Rightarrow> address \<Rightarrow> ActionInfo \<Rightarrow> 'w \<Rightarrow> 'w sol" where
  "transferWETHAndHandleFees ne nm self info w =
     (let this = nav_address nm in
      case ne_transfer ne this self (netFlowQuantity info) w of Inl m \<Rightarrow> Inl m
      | Inr w \<Rightarrow>
        (case (if 0 < ai_protocolFees info
               then ne_transfer ne this (c_feeRecipient (ne_controller ne)) (ai_protocolFees info) w else Inr w) of Inl m \<Rightarrow> Inl m
         | Inr w \<Rightarrow> (if 0 < ai_managerFee info
             then ne_transfer ne this (nav_feeRecipient (navIssuanceSettings nm self)) (ai_managerFee info) w else Inr w)))"

text \<open>The end of a redemption, and the end of an issue but for the mint.\<close>

definition handleRedeemStateUpdates :: "controller_state \<Rightarrow> nav_module \<Rightarrow> address \<Rightarrow> ActionInfo \<Rightarrow> 'e set_token \<Rightarrow> 'e set_token sol" where
  "handleRedeemStateUpdates c nm reserve info st =
     (case editPositionMultiplier c (nav_address nm) (newPositionMultiplier info) st of Inl m \<Rightarrow> Inl m
      | Inr st \<Rightarrow> editDefaultPosition c (nav_address nm) reserve (newReservePositionUnit info) st)"

definition handleIssueStateUpdates :: "('e, 'w) nav_env \<Rightarrow> nav_module \<Rightarrow> address \<Rightarrow> address \<Rightarrow> ActionInfo \<Rightarrow> 'e set_token \<Rightarrow> 'e set_token sol" where
  "handleIssueStateUpdates ne nm reserve to info st =
     (let c = ne_controller ne; this = nav_address nm in
      case editPositionMultiplier c this (newPositionMultiplier info) st of Inl m \<Rightarrow> Inl m
      | Inr st \<Rightarrow> (case editDefaultPosition c this reserve (newReservePositionUnit info) st of Inl m \<Rightarrow> Inl m
        | Inr st \<Rightarrow> st_mint (ne_ops ne) c this to (setTokenQuantity info) st))"

definition handleRedemptionFees :: "('e, 'w) nav_env \<Rightarrow> nav_module \<Rightarrow> address \<Rightarrow> address \<Rightarrow> ActionInfo \<Rightarrow> 'e set_token \<Rightarrow> 'w \<Rightarrow> 'w sol" where
  "handleRedemptionFees ne nm self reserve info st w =
     (let x = ne_externals ne; c = ne_controller ne; this = nav_address nm in
      case payProtocolFeeFromSetToken x c this self reserve (ai_protocolFees info) st w of Inl m \<Rightarrow> Inl m
      | Inr w \<Rightarrow> (if 0 < ai_managerFee info
          then strictInvokeTransfer x c this self reserve (nav_feeRecipient (navIssuanceSettings nm self)) (ai_managerFee info) st w
          else Inr w))"

subsection \<open>Issue and redeem\<close>

text \<open>The common part of the two ways to issue; \<open>pay\<close> moves the reserve asset.\<close>

definition nav_issue_with :: "('e, 'w) nav_env \<Rightarrow> nav_module \<Rightarrow> (ActionInfo \<Rightarrow> 'w \<Rightarrow> 'w sol) \<Rightarrow> address \<Rightarrow> address \<Rightarrow> address \<Rightarrow> uint256
    \<Rightarrow> uint256 \<Rightarrow> address \<Rightarrow> 'e set_token \<times> 'w \<Rightarrow> ('e set_token \<times> 'w) sol" where
  "nav_issue_with ne nm pay self sender reserve quantity minReceive to s = nav_validateCommon nm self reserve quantity
     (case nav_callPreIssueHooks ne nm self reserve quantity sender to s of Inl m \<Rightarrow> Inl m
      | Inr (st, w) \<Rightarrow> (case createIssuanceInfo ne nm self reserve quantity (st, w) of Inl m \<Rightarrow> Inl m
        | Inr info \<Rightarrow> validateIssuanceInfo nm self minReceive info
          (case pay info w of Inl m \<Rightarrow> Inl m
           | Inr w \<Rightarrow> (case handleIssueStateUpdates ne nm reserve to info st of Inl m \<Rightarrow> Inl m
             | Inr st \<Rightarrow> Inr (st, w)))))"

definition nav_issue :: "('e, 'w) nav_env \<Rightarrow> nav_module \<Rightarrow> address \<Rightarrow> address \<Rightarrow> address \<Rightarrow> uint256 \<Rightarrow> uint256 \<Rightarrow> address
    \<Rightarrow> 'e set_token \<times> 'w \<Rightarrow> ('e set_token \<times> 'w) sol" where
  "nav_issue ne nm self sender reserve quantity minReceive to s = onlyValidAndInitializedSet (ne_controller ne) (nav_address nm) self (fst s)
     (nav_issue_with ne nm (transferCollateralAndHandleFees ne nm self sender reserve) self sender reserve quantity minReceive to s)"

definition issueWithEther :: "('e, 'w) nav_env \<Rightarrow> nav_module \<Rightarrow> address \<Rightarrow> address \<Rightarrow> uint256 \<Rightarrow> uint256 \<Rightarrow> address
    \<Rightarrow> 'e set_token \<times> 'w \<Rightarrow> ('e set_token \<times> 'w) sol" where
  "issueWithEther ne nm self sender msgValue minReceive to = (\<lambda>(st, w). onlyValidAndInitializedSet (ne_controller ne) (nav_address nm) self st
     (case ne_deposit ne (nav_address nm) msgValue w of Inl m \<Rightarrow> Inl m
      | Inr w \<Rightarrow> nav_issue_with ne nm (transferWETHAndHandleFees ne nm self) self sender (nav_weth nm) msgValue minReceive to (st, w)))"

text \<open>\<open>pay\<close> moves the net flow out of the SetToken.\<close>

definition nav_redeem_with :: "('e, 'w) nav_env \<Rightarrow> nav_module \<Rightarrow> (uint256 \<Rightarrow> 'e set_token \<Rightarrow> 'w \<Rightarrow> 'w sol) \<Rightarrow> address \<Rightarrow> address \<Rightarrow> address
    \<Rightarrow> uint256 \<Rightarrow> uint256 \<Rightarrow> address \<Rightarrow> 'e set_token \<times> 'w \<Rightarrow> ('e set_token \<times> 'w) sol" where
  "nav_redeem_with ne nm pay self sender reserve quantity minReceive to s = nav_validateCommon nm self reserve quantity
     (case callPreRedeemHooks ne nm self quantity sender to s of Inl m \<Rightarrow> Inl m
      | Inr (st, w) \<Rightarrow> (case createRedemptionInfo ne nm self reserve quantity (st, w) of Inl m \<Rightarrow> Inl m
        | Inr info \<Rightarrow> validateRedemptionInfo nm self minReceive info
          (case st_burn (ne_ops ne) (ne_controller ne) (nav_address nm) sender quantity st of Inl m \<Rightarrow> Inl m
           | Inr st \<Rightarrow> (case pay (netFlowQuantity info) st w of Inl m \<Rightarrow> Inl m
             | Inr w \<Rightarrow> (case handleRedemptionFees ne nm self reserve info st w of Inl m \<Rightarrow> Inl m
               | Inr w \<Rightarrow> map_sum id (\<lambda>st. (st, w)) (handleRedeemStateUpdates (ne_controller ne) nm reserve info st))))))"

definition nav_redeem :: "('e, 'w) nav_env \<Rightarrow> nav_module \<Rightarrow> address \<Rightarrow> address \<Rightarrow> address \<Rightarrow> uint256 \<Rightarrow> uint256 \<Rightarrow> address
    \<Rightarrow> 'e set_token \<times> 'w \<Rightarrow> ('e set_token \<times> 'w) sol" where
  "nav_redeem ne nm self sender reserve quantity minReceive to s = onlyValidAndInitializedSet (ne_controller ne) (nav_address nm) self (fst s)
     (nav_redeem_with ne nm (strictInvokeTransfer (ne_externals ne) (ne_controller ne) (nav_address nm) self reserve to)
       self sender reserve quantity minReceive to s)"

definition redeemIntoEther :: "('e, 'w) nav_env \<Rightarrow> nav_module \<Rightarrow> address \<Rightarrow> address \<Rightarrow> uint256 \<Rightarrow> uint256 \<Rightarrow> address
    \<Rightarrow> 'e set_token \<times> 'w \<Rightarrow> ('e set_token \<times> 'w) sol" where
  "redeemIntoEther ne nm self sender quantity minReceive to s = onlyValidAndInitializedSet (ne_controller ne) (nav_address nm) self (fst s)
     (nav_redeem_with ne nm (\<lambda>net st w.
        case strictInvokeTransfer (ne_externals ne) (ne_controller ne) (nav_address nm) self (nav_weth nm) (nav_address nm) net st w of Inl m \<Rightarrow> Inl m
        | Inr w \<Rightarrow> (case ne_withdraw ne (nav_address nm) net w of Inl m \<Rightarrow> Inl m | Inr w \<Rightarrow> ne_sendEther ne to net w))
       self sender (nav_weth nm) quantity minReceive to s)"

subsection \<open>The manager's settings\<close>

definition edit_nav_settings :: "address \<Rightarrow> (NAVIssuanceSettings \<Rightarrow> NAVIssuanceSettings) \<Rightarrow> nav_module \<Rightarrow> nav_module" where
  "edit_nav_settings self f nm = nm\<lparr>navIssuanceSettings := (navIssuanceSettings nm)(self := f (navIssuanceSettings nm self))\<rparr>"

definition set_reserve_asset :: "address \<Rightarrow> bool \<Rightarrow> address \<Rightarrow> nav_module \<Rightarrow> nav_module" where
  "set_reserve_asset self b a nm = nm\<lparr>isReserveAsset := (isReserveAsset nm)(self := (isReserveAsset nm self)(a := b))\<rparr>"

definition addReserveAsset :: "controller_state \<Rightarrow> address \<Rightarrow> address \<Rightarrow> address \<Rightarrow> 'e set_token \<Rightarrow> nav_module \<Rightarrow> nav_module sol" where
  "addReserveAsset c self sender a st nm = onlyManagerAndValidSet c (nav_address nm) self sender st
     (if isReserveAsset nm self a then Inl ''Reserve asset already exists''
      else Inr (set_reserve_asset self True a (edit_nav_settings self (reserveAssets_update (\<lambda>l. l @ [a])) nm)))"

definition removeReserveAsset :: "controller_state \<Rightarrow> address \<Rightarrow> address \<Rightarrow> address \<Rightarrow> 'e set_token \<Rightarrow> nav_module \<Rightarrow> nav_module sol" where
  "removeReserveAsset c self sender a st nm = onlyManagerAndValidSet c (nav_address nm) self sender st
     (if \<not> isReserveAsset nm self a then Inl ''Reserve asset does not exist''
      else case array_remove (reserveAssets (navIssuanceSettings nm self)) a of Inl m \<Rightarrow> Inl m
      | Inr l \<Rightarrow> Inr (set_reserve_asset self False a (edit_nav_settings self (reserveAssets_update (\<lambda>_. l)) nm)))"

definition editPremium :: "controller_state \<Rightarrow> address \<Rightarrow> address \<Rightarrow> uint256 \<Rightarrow> 'e set_token \<Rightarrow> nav_module \<Rightarrow> nav_module sol" where
  "editPremium c self sender premium st nm = onlyManagerAndValidSet c (nav_address nm) self sender st
     (if \<not> premium \<le> maxPremiumPercentage (navIssuanceSettings nm self) then Inl ''Premium must be less than maximum allowed''
      else Inr (edit_nav_settings self (premiumPercentage_update (\<lambda>_. premium)) nm))"

definition editManagerFee :: "controller_state \<Rightarrow> address \<Rightarrow> address \<Rightarrow> uint256 \<Rightarrow> uint256 \<Rightarrow> 'e set_token \<Rightarrow> nav_module \<Rightarrow> nav_module sol" where
  "editManagerFee c self sender fee i st nm = onlyManagerAndValidSet c (nav_address nm) self sender st
     (if \<not> fee \<le> maxManagerFee (navIssuanceSettings nm self) then Inl ''Manager fee must be less than maximum allowed''
      else if i = 0 then Inr (edit_nav_settings self (managerFees_update (\<lambda>(_, r). (fee, r))) nm)
      else if i = 1 then Inr (edit_nav_settings self (managerFees_update (\<lambda>(f, _). (f, fee))) nm)
      else Inl ''invalid opcode'')"

definition nav_editFeeRecipient :: "controller_state \<Rightarrow> address \<Rightarrow> address \<Rightarrow> address \<Rightarrow> 'e set_token \<Rightarrow> nav_module \<Rightarrow> nav_module sol" where
  "nav_editFeeRecipient c self sender recipient st nm = onlyManagerAndValidSet c (nav_address nm) self sender st
     (if recipient = ADDRESS_ZERO then Inl ''Fee recipient must not be 0 address''
      else Inr (edit_nav_settings self (nav_feeRecipient_update (\<lambda>_. recipient)) nm))"

text \<open>The loop of \<^verbatim>\<open>initialize\<close>: a repeated asset is found by its flag.\<close>

definition add_unique_asset :: "address \<Rightarrow> address \<Rightarrow> nav_module \<Rightarrow> nav_module sol" where
  "add_unique_asset self a nm =
     (if isReserveAsset nm self a then Inl ''Reserve assets must be unique'' else Inr (set_reserve_asset self True a nm))"

definition nav_initialize :: "controller_state \<Rightarrow> address \<Rightarrow> address \<Rightarrow> NAVIssuanceSettings \<Rightarrow> nav_module \<times> 'e set_token
    \<Rightarrow> (nav_module \<times> 'e set_token) sol" where
  "nav_initialize c self sender ns = (\<lambda>(nm, st). onlySetManager st sender (onlyValidAndPendingSet c (nav_address nm) self st
     (if \<not> length (reserveAssets ns) > 0 then Inl ''Reserve assets must be greater than 0''
      else if \<not> maxManagerFee ns < sol_preciseUnit then Inl ''Max manager fee must be less than 100%''
      else if \<not> maxPremiumPercentage ns < sol_preciseUnit then Inl ''Max premium percentage must be less than 100%''
      else if \<not> fst (managerFees ns) \<le> maxManagerFee ns then Inl ''Manager issue fee must be less than max''
      else if \<not> snd (managerFees ns) \<le> maxManagerFee ns then Inl ''Manager redeem fee must be less than max''
      else if \<not> premiumPercentage ns \<le> maxPremiumPercentage ns then Inl ''Premium must be less than max''
      else if nav_feeRecipient ns = ADDRESS_ZERO then Inl ''Fee Recipient must be non-zero address.''
      else if \<not> 0 < minSetTokenSupply ns then Inl ''Min SetToken supply must be greater than 0''
      else case each_sol (add_unique_asset self) (reserveAssets ns) nm of Inl m \<Rightarrow> Inl m
      | Inr nm \<Rightarrow> map_sum id (Pair (edit_nav_settings self (\<lambda>_. ns) nm)) (initializeModule (nav_address nm) st))))"

definition nav_removeModule :: "address \<Rightarrow> nav_module \<Rightarrow> nav_module" where
  "nav_removeModule sender nm = edit_nav_settings sender (\<lambda>_. no_nav_settings)
     (foldl (\<lambda>nm a. set_reserve_asset sender False a nm) nm (reserveAssets (navIssuanceSettings nm sender)))"

subsection \<open>Views\<close>

definition getReserveAssets :: "nav_module \<Rightarrow> address \<Rightarrow> address list" where
  "getReserveAssets nm self = reserveAssets (navIssuanceSettings nm self)"

definition getIssuePremium :: "nav_module \<Rightarrow> address \<Rightarrow> address \<Rightarrow> uint256 \<Rightarrow> uint256" where
  "getIssuePremium nm self reserve quantity = premiumPercentage (navIssuanceSettings nm self)"

definition getRedeemPremium :: "nav_module \<Rightarrow> address \<Rightarrow> address \<Rightarrow> uint256 \<Rightarrow> uint256" where
  "getRedeemPremium nm self reserve quantity = premiumPercentage (navIssuanceSettings nm self)"

definition getManagerFee :: "nav_module \<Rightarrow> address \<Rightarrow> uint256 \<Rightarrow> uint256 sol" where
  "getManagerFee nm self i = manager_fee (managerFees (navIssuanceSettings nm self)) i"

definition nav_getExpectedSetTokenIssueQuantity :: "('e, 'w) nav_env \<Rightarrow> nav_module \<Rightarrow> address \<Rightarrow> address \<Rightarrow> uint256 \<Rightarrow> 'e set_token \<times> 'w \<Rightarrow> uint256 sol" where
  "nav_getExpectedSetTokenIssueQuantity ne nm self reserve quantity s =
     (case nav_getFees (ne_controller ne) nm self quantity 0 2 0 of Inl m \<Rightarrow> Inl m
      | Inr (_, _, netReserveFlow) \<Rightarrow>
        getSetTokenMintQuantity ne nm self reserve netReserveFlow (e_totalSupply (ne_ops ne) (st_erc20 (fst s))) s)"

definition nav_getExpectedReserveRedeemQuantity :: "('e, 'w) nav_env \<Rightarrow> nav_module \<Rightarrow> address \<Rightarrow> address \<Rightarrow> uint256 \<Rightarrow> 'e set_token \<times> 'w \<Rightarrow> uint256 sol" where
  "nav_getExpectedReserveRedeemQuantity ne nm self reserve quantity s =
     (case getRedeemReserveQuantity ne nm self reserve quantity s of Inl m \<Rightarrow> Inl m
      | Inr preFee \<Rightarrow> map_sum id (\<lambda>(_, _, netReserveFlows). netReserveFlows) (nav_getFees (ne_controller ne) nm self preFee 1 3 1))"

definition isIssueValid :: "('e, 'w) nav_env \<Rightarrow> nav_module \<Rightarrow> address \<Rightarrow> address \<Rightarrow> uint256 \<Rightarrow> 'e set_token \<Rightarrow> bool" where
  "isIssueValid ne nm self reserve quantity st \<longleftrightarrow> quantity \<noteq> 0 \<and> isReserveAsset nm self reserve \<and>
     minSetTokenSupply (navIssuanceSettings nm self) \<le> e_totalSupply (ne_ops ne) (st_erc20 st)"

definition isRedeemValid :: "('e, 'w) nav_env \<Rightarrow> nav_module \<Rightarrow> address \<Rightarrow> address \<Rightarrow> uint256 \<Rightarrow> 'e set_token \<times> 'w \<Rightarrow> bool sol" where
  "isRedeemValid ne nm self reserve quantity s =
     (let st = fst s; supply' = e_totalSupply (ne_ops ne) (st_erc20 st) in
      if quantity = 0 \<or> \<not> isReserveAsset nm self reserve then Inr False
      else case checked (safe_add (minSetTokenSupply (navIssuanceSettings nm self)) quantity) of Inl m \<Rightarrow> Inl m
      | Inr needed \<Rightarrow> if supply' < needed then Inr False
        else (case nav_getExpectedReserveRedeemQuantity ne nm self reserve quantity s of Inl m \<Rightarrow> Inl m
        | Inr expected \<Rightarrow> (case getDefaultPositionRealUnit st reserve of Inl m \<Rightarrow> Inl m
          | Inr u \<Rightarrow> (case toUint256 u of Inl m \<Rightarrow> Inl m
            | Inr existingUnit \<Rightarrow> map_sum id (\<lambda>existing. expected \<le> existing) (checked (sol_preciseMul existingUnit supply'))))))"

end
