(* ===== verification/Nav_Issuance_Proofs.thy ===== *)
theory Nav_Issuance_Proofs
  imports Nav_Issuance_Module
begin

section \<open>Issuance by net asset value: proofs\<close>

text \<open>
  What the issues and redemptions of \<open>Nav_Issuance_Module\<close> do to a SetToken: the helpers' predictions come true, nobody's
  share is diluted, and the SetToken stays covered up to the rounding of its units.
\<close>

subsection \<open>Rescaled units\<close>

definition readable :: "'e set_token \<Rightarrow> bool" where
  "readable st \<longleftrightarrow> list_all (\<lambda>a. \<not> isl (getDefaultPositionRealUnit st a)) (st_components st)"

lemma readable_unit: "readable st \<Longrightarrow> t \<in> set (st_components st) \<Longrightarrow> \<exists>u. getDefaultPositionRealUnit st t = Inr u"
  by (cases "getDefaultPositionRealUnit st t") (auto simp: readable_def list_all_iff)

text \<open>Scaling a rounded claim: supply and multiplier change, their product does not grow.\<close>

lemma scaled_rounding:
  fixes S S' m m' v u u' P :: int
  assumes "u = v * m div P" "u' = v * m' div P" "S' * m' \<le> S * m" "0 \<le> S" "0 \<le> S'" "0 < P" "0 \<le> m'"
  shows "S' * u' \<le> max 0 (S * u + S)"
proof (cases "0 \<le> v")
  case True
  have "u' * P \<le> v * m'" unfolding assms(2) using floor_div_bounds(1) [OF assms(6), of "v * m'"] by (simp add: mult.commute)
  then have "S' * (u' * P) \<le> S' * (v * m')" using assms(5) by (rule mult_left_mono)
  also have "S' * (v * m') = v * (S' * m')" by simp
  also have "\<dots> \<le> v * (S * m)" using assms(3) True by (rule mult_left_mono)
  also have "\<dots> = S * (v * m)" by simp
  also have "v * m \<le> (u + 1) * P"
    unfolding assms(1) using floor_div_bounds(2) [OF assms(6), of "v * m"] by (simp add: algebra_simps)
  then have "S * (v * m) \<le> S * ((u + 1) * P)" using assms(4) by (rule mult_left_mono)
  finally have "S' * u' * P \<le> (S * u + S) * P" by (simp add: algebra_simps)
  then show ?thesis using assms(6) by simp
next
  case False
  then have "v * m' \<le> 0" using assms(7) by (simp add: mult_nonpos_nonneg)
  then have "u' \<le> 0" using assms(2,6) by (simp add: div_nonpos_pos_le0)
  then show ?thesis using assms(5) by (simp add: mult_nonneg_nonpos le_max_iff_disj)
qed

lemma rescaled_claim:
  assumes "covered D ops x a (st, w)" "readable st" "t \<in> set (st_components st)" "getDefaultPositionRealUnit st' t = Inr u'"
    and "defaultPositionVirtualUnit st' t = defaultPositionVirtualUnit st t" "0 < sint (positionMultiplier st')" "0 \<le> S'"
    and "S' * sint (positionMultiplier st') \<le> uint (e_totalSupply ops (st_erc20 st)) * sint (positionMultiplier st)"
  shows "S' * sint u' \<le> uint (x_balanceOf x w t a) * PRECISE_UNIT + (D + uint (e_totalSupply ops (st_erc20 st)))"
proof -
  let ?S = "uint (e_totalSupply ops (st_erc20 st))"
  obtain u where u: "getDefaultPositionRealUnit st t = Inr u" using readable_unit [OF assms(2,3)] by blast
  let ?v = "sint (defaultPositionVirtualUnit st t)"
  have "sint u = ?v * sint (positionMultiplier st) div PRECISE_UNIT" "sint u' = ?v * sint (positionMultiplier st') div PRECISE_UNIT"
    using u assms(4) real_unit_sint by (simp_all add: getDefaultPositionRealUnit_def assms(5))
  then have "S' * sint u' \<le> max 0 (?S * sint u + ?S)"
    by (rule scaled_rounding) (use assms(6-8) in simp_all)
  moreover have "0 \<le> D" "?S * sint u \<le> uint (x_balanceOf x w t a) * PRECISE_UNIT + D" using assms(1,3) u by (simp_all add: covered_def)
  moreover have "0 \<le> uint (x_balanceOf x w t a) * PRECISE_UNIT" "0 \<le> ?S" by simp_all
  ultimately show ?thesis by linarith
qed

subsection \<open>The parts of an issue and of a redemption\<close>

lemma sol_getFees_sum:
  assumes "sol_getFees q direct share mgr = Some (pf, mf, net)"
  shows "uint pf + uint mf + uint net = uint q"
  using assms by (auto simp: sol_getFees_def dest!: safe_sub_Some)

lemma nav_getFees_sum: "nav_getFees c nm self q i j k = Inr (pf, mf, net) \<Longrightarrow> uint pf + uint mf + uint net = uint q"
  by (auto simp: nav_getFees_def dest!: sol_getFees_sum split: sum.splits)

text \<open>The new multiplier: old times previous supply over new supply, rounded down.\<close>

lemma multiplier_for_Inr:
  assumes "multiplier_for st S n = Inr (n', m')" "0 < sint (positionMultiplier st)"
  shows "n' = n" "0 < uint n" "sint m' = sint (positionMultiplier st) * uint S div uint n"
    "uint n * sint m' \<le> uint S * sint (positionMultiplier st)"
    "sol_newPositionMultiplier (positionMultiplier st) S n = Some m' \<and> sint S = uint S \<and> sint n = uint n"
proof -
  have p: "n' = n" "uint S < 2 ^ 255" "uint n < 2 ^ 255" "sol_newPositionMultiplier (positionMultiplier st) S n = Some m'"
    using assms(1) by (auto simp: multiplier_for_def map_sum_def split: sum.splits)
  have s: "sint S = uint S" "sint n = uint n" using p(2,3) by (simp_all add: uint_small_sint)
  have "n \<noteq> 0" using p(4) by (auto simp: sol_newPositionMultiplier_def ssafe_div_def split: if_splits)
  then have n: "0 < uint n" by (simp add: order_less_le uint_0_iff)
  from sol_newPositionMultiplier_sint [OF p(4)] assms(2) s n
  have m: "sint m' = sint (positionMultiplier st) * uint S div uint n" by simp
  have "uint n * sint m' \<le> sint (positionMultiplier st) * uint S" unfolding m using floor_div_bounds(1) [OF n] by simp
  with p n s m show "n' = n" "0 < uint n" "sint m' = sint (positionMultiplier st) * uint S div uint n"
    "uint n * sint m' \<le> uint S * sint (positionMultiplier st)"
    "sol_newPositionMultiplier (positionMultiplier st) S n = Some m' \<and> sint S = uint S \<and> sint n = uint n"
    by (simp_all add: mult.commute)
qed

lemma createIssuanceInfo_Inr:
  assumes "createIssuanceInfo ne nm self reserve q (st, w) = Inr info" "0 < sint (positionMultiplier st)"
  obtains V e ex tot where
    "nav_getFees (ne_controller ne) nm self q 0 2 0 = Inr (ai_protocolFees info, ai_managerFee info, netFlowQuantity info)"
    "ne_valuation ne (getSetValuer (ne_controller ne) nm self) self reserve (st, w) = Inr V"
    "sol_getSetTokenMintQuantity V (10 ^ ne_decimals ne reserve) (premiumPercentage (navIssuanceSettings nm self))
       (netFlowQuantity info) (e_totalSupply (ne_ops ne) (st_erc20 st)) = Some (setTokenQuantity info)"
    "previousSetTokenSupply info = e_totalSupply (ne_ops ne) (st_erc20 st)"
    "uint (newSetTokenSupply info) = uint (setTokenQuantity info) + uint (e_totalSupply (ne_ops ne) (st_erc20 st))"
    "multiplier_for st (e_totalSupply (ne_ops ne) (st_erc20 st)) (newSetTokenSupply info) = Inr (newSetTokenSupply info, newPositionMultiplier info)"
    "getDefaultPositionRealUnit st reserve = Inr e" "0 \<le> sint e" "sol_preciseMul e (e_totalSupply (ne_ops ne) (st_erc20 st)) = Some ex"
    "safe_add ex (netFlowQuantity info) = Some tot" "sol_preciseDiv tot (newSetTokenSupply info) = Some (newReservePositionUnit info)"
proof -
  let ?S = "e_totalSupply (ne_ops ne) (st_erc20 st)"
  from assms(1) obtain pf mf net V mint n m unit e ex tot where p: "nav_getFees (ne_controller ne) nm self q 0 2 0 = Inr (pf, mf, net)"
    "ne_valuation ne (getSetValuer (ne_controller ne) nm self) self reserve (st, w) = Inr V"
    "sol_getSetTokenMintQuantity V (10 ^ ne_decimals ne reserve) (premiumPercentage (navIssuanceSettings nm self)) net ?S = Some mint"
    "getIssuePositionMultiplier st mint ?S = Inr (n, m)" "getDefaultPositionRealUnit st reserve = Inr e" "0 \<le> sint e"
    "sol_preciseMul e ?S = Some ex" "safe_add ex net = Some tot" "sol_preciseDiv tot n = Some unit"
    and info: "info = \<lparr>preFeeReserveQuantity = q, ai_protocolFees = pf, ai_managerFee = mf, netFlowQuantity = net,
          setTokenQuantity = mint, previousSetTokenSupply = ?S, newSetTokenSupply = n, newPositionMultiplier = m, newReservePositionUnit = unit\<rparr>"
    by (auto simp: createIssuanceInfo_def getSetTokenMintQuantity_def getIssuePositionUnit_def Let_def split: sum.splits)
  obtain n' where n: "safe_add mint ?S = Some n'" "multiplier_for st ?S n' = Inr (n, m)"
    using p(4) by (auto simp: getIssuePositionMultiplier_def split: sum.splits)
  have "n = n'" using multiplier_for_Inr(1) [OF n(2) assms(2)] .
  then show ?thesis using p n safe_add_Some [OF n(1)] info by (intro that) simp_all
qed

lemma createRedemptionInfo_Inr:
  assumes "createRedemptionInfo ne nm self reserve q (st, w) = Inr info" "0 < sint (positionMultiplier st)"
  obtains V e ex out rest where
    "ne_valuation ne (getSetValuer (ne_controller ne) nm self) self reserve (st, w) = Inr V"
    "sol_getRedeemReserveQuantity V (10 ^ ne_decimals ne reserve) (premiumPercentage (navIssuanceSettings nm self)) q = Some (preFeeReserveQuantity info)"
    "nav_getFees (ne_controller ne) nm self (preFeeReserveQuantity info) 1 3 1 = Inr (ai_protocolFees info, ai_managerFee info, netFlowQuantity info)"
    "uint (newSetTokenSupply info) = uint (e_totalSupply (ne_ops ne) (st_erc20 st)) - uint q"
    "multiplier_for st (e_totalSupply (ne_ops ne) (st_erc20 st)) (newSetTokenSupply info) = Inr (newSetTokenSupply info, newPositionMultiplier info)"
    "getDefaultPositionRealUnit st reserve = Inr e" "0 \<le> sint e" "sol_preciseMul e (e_totalSupply (ne_ops ne) (st_erc20 st)) = Some ex"
    "uint out = uint (netFlowQuantity info) + uint (ai_protocolFees info) + uint (ai_managerFee info)"
    "safe_sub ex out = Some rest" "sol_preciseDiv rest (newSetTokenSupply info) = Some (newReservePositionUnit info)"
proof -
  let ?S = "e_totalSupply (ne_ops ne) (st_erc20 st)"
  from assms(1) obtain pf mf net V pre n m unit e ex part out rest where p:
    "ne_valuation ne (getSetValuer (ne_controller ne) nm self) self reserve (st, w) = Inr V"
    "sol_getRedeemReserveQuantity V (10 ^ ne_decimals ne reserve) (premiumPercentage (navIssuanceSettings nm self)) q = Some pre"
    "nav_getFees (ne_controller ne) nm self pre 1 3 1 = Inr (pf, mf, net)"
    "getRedeemPositionMultiplier st q ?S = Inr (n, m)" "getDefaultPositionRealUnit st reserve = Inr e" "0 \<le> sint e"
    "sol_preciseMul e ?S = Some ex" "safe_add net pf = Some part" "safe_add part mf = Some out" "safe_sub ex out = Some rest" "sol_preciseDiv rest n = Some unit"
    and info: "info = \<lparr>preFeeReserveQuantity = pre, ai_protocolFees = pf, ai_managerFee = mf, netFlowQuantity = net,
          setTokenQuantity = q, previousSetTokenSupply = ?S, newSetTokenSupply = n, newPositionMultiplier = m, newReservePositionUnit = unit\<rparr>"
    by (auto simp: createRedemptionInfo_def getRedeemReserveQuantity_def getRedeemPositionUnit_def Let_def split: sum.splits if_splits)
  obtain n' where n: "safe_sub ?S q = Some n'" "multiplier_for st ?S n' = Inr (n, m)"
    using p(4) by (auto simp: getRedeemPositionMultiplier_def split: sum.splits)
  have "n = n'" using multiplier_for_Inr(1) [OF n(2) assms(2)] .
  then show ?thesis using p n safe_sub_Some [OF n(1)] info safe_add_Some [OF p(8)] safe_add_Some [OF p(9)] by (intro that) simp_all
qed

subsection \<open>Cover\<close>

lemma editPositionMultiplier_Inr:
  assumes "editPositionMultiplier c s m st = Inr st'"
  shows "st' = st\<lparr>positionMultiplier := m\<rparr> \<and> 0 < sint m"
  using assms by (auto simp: editPositionMultiplier_def privileged_Inr dest!: validateNewMultiplier_Inr)

lemma covered_mono:
  assumes "covered D ops x self (st, w)" "\<And>t. uint (x_balanceOf x w t self) \<le> uint (x_balanceOf x w' t self)"
  shows "covered D ops x self (st, w')"
proof -
  have le: "uint (x_balanceOf x w t self) * PRECISE_UNIT + D \<le> uint (x_balanceOf x w' t self) * PRECISE_UNIT + D" for t
    using assms(2) by (simp add: mult_right_mono)
  show ?thesis using assms(1) order_trans [OF _ le] unfolding covered_def by blast
qed

text \<open>The end of an issue or a redemption: a new multiplier and a new unit of the reserve asset.\<close>

lemma rescaled_edit_covered:
  assumes "editPositionMultiplier c this m st = Inr st1" "editDefaultPosition c this r n st1 = Inr st2"
    and "st = st0\<lparr>st_erc20 := e\<rparr>" "covered D ops x self (st0, w)" "readable st0" "set_inv st0" "0 \<le> S'"
    and "S' * sint m \<le> uint (e_totalSupply ops (st_erc20 st0)) * sint (positionMultiplier st0)"
    and "S' * uint n \<le> uint (x_balanceOf x w' r self) * PRECISE_UNIT + (D + uint (e_totalSupply ops (st_erc20 st0)))"
    and "\<And>t. t \<noteq> r \<Longrightarrow> uint (x_balanceOf x w t self) \<le> uint (x_balanceOf x w' t self)"
  shows "set_inv st2 \<and> st_erc20 st2 = e \<and> positionMultiplier st2 = m \<and>
    (\<forall>t \<in> set (st_components st2). \<forall>u. getDefaultPositionRealUnit st2 t = Inr u \<longrightarrow>
      S' * sint u \<le> uint (x_balanceOf x w' t self) * PRECISE_UNIT + (D + uint (e_totalSupply ops (st_erc20 st0))))"
proof -
  let ?S = "uint (e_totalSupply ops (st_erc20 st0))"
  have st1: "st1 = st0\<lparr>st_erc20 := e, positionMultiplier := m\<rparr>" "0 < sint m"
    using editPositionMultiplier_Inr [OF assms(1)] assms(3) by simp_all
  have "set_inv st1" using assms(6) st1 by (auto simp: set_inv_def)
  note ed = editDefaultPosition_Inr [OF assms(2) this]
  have "S' * sint u \<le> uint (x_balanceOf x w' t self) * PRECISE_UNIT + (D + ?S)"
    if t: "t \<in> set (st_components st2)" and u: "getDefaultPositionRealUnit st2 t = Inr u" for t u
  proof (cases "t = r")
    case True
    then have "sint u \<le> uint n" using ed u by auto
    then have "S' * sint u \<le> S' * uint n" using assms(7) by (rule mult_left_mono)
    then show ?thesis using assms(9) True by simp
  next
    case False
    then have "t \<in> set (st_components st0)" "getDefaultPositionRealUnit st1 t = Inr u" using ed t u st1(1) by auto
    then have "S' * sint u \<le> uint (x_balanceOf x w t self) * PRECISE_UNIT + (D + ?S)"
      by (intro rescaled_claim [OF assms(4,5), where st' = st1]) (use assms(7,8) st1 in \<open>simp_all add: defaultPositionVirtualUnit_def\<close>)
    moreover have "uint (x_balanceOf x w t self) * PRECISE_UNIT \<le> uint (x_balanceOf x w' t self) * PRECISE_UNIT"
      using assms(10) [OF False] by (simp add: mult_right_mono)
    ultimately show ?thesis by linarith
  qed
  then show ?thesis using ed st1 by (simp add: same_but_positions_def)
qed

text \<open>A token that is not a component has no default position.\<close>

definition listed :: "'e set_token \<Rightarrow> address \<Rightarrow> bool" where
  "listed st a \<longleftrightarrow> a \<in> set (st_components st) \<or> defaultPositionVirtualUnit st a = 0"

lemma existing_covered:
  assumes "covered D ops x self (st, w)" "listed st r" "getDefaultPositionRealUnit st r = Inr e" "0 \<le> sint e"
    and "sol_preciseMul e (e_totalSupply ops (st_erc20 st)) = Some ex"
  shows "uint ex * PRECISE_UNIT \<le> uint (x_balanceOf x w r self) * PRECISE_UNIT + D"
proof (cases "r \<in> set (st_components st)")
  case True
  have "uint ex * PRECISE_UNIT \<le> uint e * uint (e_totalSupply ops (st_erc20 st))" by (rule preciseMul_bound [OF assms(5)])
  also have "\<dots> = uint (e_totalSupply ops (st_erc20 st)) * sint e" using assms(4) by (simp add: sint_nonneg_uint)
  also have "\<dots> \<le> uint (x_balanceOf x w r self) * PRECISE_UNIT + D" using assms(1,3) True by (simp add: covered_def)
  finally show ?thesis .
next
  case False
  then have "sint e = 0" using assms(2,3) real_unit_sint by (fastforce simp: listed_def getDefaultPositionRealUnit_def)
  then have "uint e = 0" using assms(4) by (simp add: sint_nonneg_uint)
  then have "uint ex = 0" using sol_preciseMul_floor [OF assms(5)] by simp
  moreover have "0 \<le> D" "0 \<le> uint (x_balanceOf x w r self) * PRECISE_UNIT" using assms(1) by (simp_all add: covered_def)
  ultimately show ?thesis by simp
qed

lemma preciseDiv_times: "sol_preciseDiv a b = Some q \<Longrightarrow> uint b * uint q \<le> uint a * PRECISE_UNIT"
  using sol_preciseDiv_floor [of a b q] floor_div_bounds(1) [of "uint b" "uint a * PRECISE_UNIT"] by (auto simp: order_less_le)

lemma nav_issue_with_parts:
  assumes "nav_issue_with ne nm pay self sender r q minReceive to s = Inr (st', w')"
  obtains st w info st1 st2 where "nav_callPreIssueHooks ne nm self r q sender to s = Inr (st, w)"
    "createIssuanceInfo ne nm self r q (st, w) = Inr info" "0 < q" "isReserveAsset nm self r"
    "minSetTokenSupply (navIssuanceSettings nm self) \<le> previousSetTokenSupply info" "minReceive \<le> setTokenQuantity info"
    "pay info w = Inr w'" "editPositionMultiplier (ne_controller ne) (nav_address nm) (newPositionMultiplier info) st = Inr st1"
    "editDefaultPosition (ne_controller ne) (nav_address nm) r (newReservePositionUnit info) st1 = Inr st2"
    "st_mint (ne_ops ne) (ne_controller ne) (nav_address nm) to (setTokenQuantity info) st2 = Inr st'"
  using assms by (auto simp: nav_issue_with_def nav_validateCommon_def validateIssuanceInfo_def handleIssueStateUpdates_def Let_def
      split: sum.splits if_splits)

lemma st_mint_Inr:
  assumes "st_mint ops c this to q st = Inr st'"
  obtains t where "e_mint ops to q (st_erc20 st) = Inr t" "st' = st\<lparr>st_erc20 := t\<rparr>"
  using assms by (auto simp: st_mint_def privileged_Inr split: sum.splits)

lemma st_burn_Inr:
  assumes "st_burn ops c this from q st = Inr st'"
  obtains t where "e_burn ops from q (st_erc20 st) = Inr t" "st' = st\<lparr>st_erc20 := t\<rparr>"
  using assms by (auto simp: st_burn_def privileged_Inr split: sum.splits)

lemma nav_issue_with_covered:
  assumes "nav_issue_with ne nm pay self sender r q minReceive to s = Inr (st', w')"
    and "nav_callPreIssueHooks ne nm self r q sender to s = Inr (st, w)"
    and "\<And>info w w' t. pay info w = Inr w' \<Longrightarrow> uint (x_balanceOf x w t self) + (if t = r then uint (netFlowQuantity info) else 0) \<le> uint (x_balanceOf x w' t self)"
    and "covered D (ne_ops ne) x self (st, w)" "readable st" "listed st r" "set_inv st" "erc20_token (ne_ops ne)"
  shows "covered (D + uint (e_totalSupply (ne_ops ne) (st_erc20 st))) (ne_ops ne) x self (st', w') \<and> set_inv st'"
proof -
  let ?S = "uint (e_totalSupply (ne_ops ne) (st_erc20 st))"
  obtain info st1 st2 where p: "createIssuanceInfo ne nm self r q (st, w) = Inr info" "pay info w = Inr w'"
    "editPositionMultiplier (ne_controller ne) (nav_address nm) (newPositionMultiplier info) st = Inr st1"
    "editDefaultPosition (ne_controller ne) (nav_address nm) r (newReservePositionUnit info) st1 = Inr st2"
    "st_mint (ne_ops ne) (ne_controller ne) (nav_address nm) to (setTokenQuantity info) st2 = Inr st'"
    by (rule nav_issue_with_parts [OF assms(1)]) (use assms(2) in simp)
  have m: "0 < sint (positionMultiplier st)" using assms(7) by (simp add: set_inv_def)
  obtain e ex tot where i: "uint (newSetTokenSupply info) = uint (setTokenQuantity info) + ?S"
    "multiplier_for st (e_totalSupply (ne_ops ne) (st_erc20 st)) (newSetTokenSupply info) = Inr (newSetTokenSupply info, newPositionMultiplier info)"
    "getDefaultPositionRealUnit st r = Inr e" "0 \<le> sint e" "sol_preciseMul e (e_totalSupply (ne_ops ne) (st_erc20 st)) = Some ex"
    "safe_add ex (netFlowQuantity info) = Some tot" "sol_preciseDiv tot (newSetTokenSupply info) = Some (newReservePositionUnit info)"
    by (rule createIssuanceInfo_Inr [OF p(1) m])
  note new = multiplier_for_Inr [OF i(2) m]
  let ?S' = "uint (newSetTokenSupply info)"
  have pay: "uint (x_balanceOf x w t self) \<le> uint (x_balanceOf x w' t self)" if "t \<noteq> r" for t using assms(3) [OF p(2), of t] that by simp
  have "?S' * uint (newReservePositionUnit info) \<le> uint tot * PRECISE_UNIT" by (rule preciseDiv_times [OF i(7)])
  also have "\<dots> = uint ex * PRECISE_UNIT + uint (netFlowQuantity info) * PRECISE_UNIT"
    using safe_add_Some [OF i(6)] by (simp add: distrib_right)
  also have "\<dots> \<le> (uint (x_balanceOf x w r self) + uint (netFlowQuantity info)) * PRECISE_UNIT + D"
    using existing_covered [OF assms(4,6) i(3-5)] by (simp add: distrib_right)
  also have "(uint (x_balanceOf x w r self) + uint (netFlowQuantity info)) * PRECISE_UNIT \<le> uint (x_balanceOf x w' r self) * PRECISE_UNIT"
    using assms(3) [OF p(2), of r] by (simp add: mult_right_mono)
  finally have top: "?S' * uint (newReservePositionUnit info) \<le> uint (x_balanceOf x w' r self) * PRECISE_UNIT + (D + ?S)"
    using uint_ge_0 [of "e_totalSupply (ne_ops ne) (st_erc20 st)"] by linarith
  have "set_inv st2 \<and> st_erc20 st2 = st_erc20 st \<and> positionMultiplier st2 = newPositionMultiplier info \<and>
    (\<forall>t \<in> set (st_components st2). \<forall>u. getDefaultPositionRealUnit st2 t = Inr u \<longrightarrow>
      ?S' * sint u \<le> uint (x_balanceOf x w' t self) * PRECISE_UNIT + (D + ?S))"
    by (rule rescaled_edit_covered [OF p(3,4) _ assms(4,5,7) _ new(4) top pay]) simp_all
  moreover obtain t where t: "e_mint (ne_ops ne) to (setTokenQuantity info) (st_erc20 st2) = Inr t" "st' = st2\<lparr>st_erc20 := t\<rparr>"
    by (rule st_mint_Inr [OF p(5)])
  moreover have "uint (e_totalSupply (ne_ops ne) t) = uint (e_totalSupply (ne_ops ne) (st_erc20 st2)) + uint (setTokenQuantity info)"
    by (rule erc20_token.mint_supply [OF assms(8) t(1)])
  moreover have "0 \<le> D" using assms(4) by (simp add: covered_def)
  ultimately show ?thesis using i(1) by (simp add: covered_def add.commute)
qed

lemma nav_redeem_with_parts:
  assumes "nav_redeem_with ne nm pay self sender r q minReceive to s = Inr (st', w')"
  obtains st w info st0 w1 w2 st1 where "callPreRedeemHooks ne nm self q sender to s = Inr (st, w)"
    "createRedemptionInfo ne nm self r q (st, w) = Inr info" "0 < q" "isReserveAsset nm self r"
    "minSetTokenSupply (navIssuanceSettings nm self) \<le> newSetTokenSupply info" "minReceive \<le> netFlowQuantity info"
    "st_burn (ne_ops ne) (ne_controller ne) (nav_address nm) sender q st = Inr st0" "pay (netFlowQuantity info) st0 w = Inr w1"
    "handleRedemptionFees ne nm self r info st0 w1 = Inr w'"
    "editPositionMultiplier (ne_controller ne) (nav_address nm) (newPositionMultiplier info) st0 = Inr st1"
    "editDefaultPosition (ne_controller ne) (nav_address nm) r (newReservePositionUnit info) st1 = Inr st'"
  using assms by (auto simp: nav_redeem_with_def nav_validateCommon_def validateRedemptionInfo_def handleRedeemStateUpdates_def map_sum_def
      split: sum.splits if_splits)

lemma handleRedemptionFees_balance:
  assumes "handleRedemptionFees ne nm self r info st w = Inr w'" "tokens_isolated (ne_externals ne) self"
  shows "uint (x_balanceOf (ne_externals ne) w' t self) = uint (x_balanceOf (ne_externals ne) w t self) -
    (if t = r then uint (ai_protocolFees info) + uint (ai_managerFee info) else 0)"
proof -
  let ?x = "ne_externals ne"
  obtain w1 where f: "payProtocolFeeFromSetToken ?x (ne_controller ne) (nav_address nm) self r (ai_protocolFees info) st w = Inr w1"
    "(if 0 < ai_managerFee info then strictInvokeTransfer ?x (ne_controller ne) (nav_address nm) self r
        (nav_feeRecipient (navIssuanceSettings nm self)) (ai_managerFee info) st w1 else Inr w1) = Inr w'"
    using assms(1) by (auto simp: handleRedemptionFees_def Let_def split: sum.splits)
  have "uint (x_balanceOf ?x w' t self) = uint (x_balanceOf ?x w1 t self) - (if t = r then uint (ai_managerFee info) else 0)"
  proof (cases "0 < ai_managerFee info")
    case True
    then have "strictInvokeTransfer ?x (ne_controller ne) (nav_address nm) self r
        (nav_feeRecipient (navIssuanceSettings nm self)) (ai_managerFee info) st w1 = Inr w'" using f(2) by simp
    from strictInvokeTransfer_balance [OF this assms(2), of t] show ?thesis .
  next
    case False
    then have "ai_managerFee info = 0" by (simp add: word_neq_0_conv [symmetric])
    then show ?thesis using f(2) by simp
  qed
  then show ?thesis using payProtocolFee_balance [OF f(1) assms(2), of t] by simp
qed

lemma nav_redeem_with_covered:
  assumes "nav_redeem_with ne nm pay self sender r q minReceive to s = Inr (st', w')"
    and "callPreRedeemHooks ne nm self q sender to s = Inr (st, w)"
    and "\<And>net st w w' t. pay net st w = Inr w' \<Longrightarrow> uint (x_balanceOf (ne_externals ne) w t self) - (if t = r then uint net else 0) \<le> uint (x_balanceOf (ne_externals ne) w' t self)"
    and "covered D (ne_ops ne) (ne_externals ne) self (st, w)" "readable st" "listed st r" "set_inv st" "erc20_token (ne_ops ne)"
    and "tokens_isolated (ne_externals ne) self"
  shows "covered (D + uint (e_totalSupply (ne_ops ne) (st_erc20 st))) (ne_ops ne) (ne_externals ne) self (st', w') \<and> set_inv st'"
proof -
  let ?x = "ne_externals ne" and ?S = "uint (e_totalSupply (ne_ops ne) (st_erc20 st))"
  obtain info st0 w1 st1 where p: "createRedemptionInfo ne nm self r q (st, w) = Inr info"
    "st_burn (ne_ops ne) (ne_controller ne) (nav_address nm) sender q st = Inr st0" "pay (netFlowQuantity info) st0 w = Inr w1"
    "handleRedemptionFees ne nm self r info st0 w1 = Inr w'"
    "editPositionMultiplier (ne_controller ne) (nav_address nm) (newPositionMultiplier info) st0 = Inr st1"
    "editDefaultPosition (ne_controller ne) (nav_address nm) r (newReservePositionUnit info) st1 = Inr st'"
    by (rule nav_redeem_with_parts [OF assms(1)]) (use assms(2) in simp)
  have m: "0 < sint (positionMultiplier st)" using assms(7) by (simp add: set_inv_def)
  obtain e ex out rest where i: "uint (newSetTokenSupply info) = ?S - uint q"
    "multiplier_for st (e_totalSupply (ne_ops ne) (st_erc20 st)) (newSetTokenSupply info) = Inr (newSetTokenSupply info, newPositionMultiplier info)"
    "getDefaultPositionRealUnit st r = Inr e" "0 \<le> sint e" "sol_preciseMul e (e_totalSupply (ne_ops ne) (st_erc20 st)) = Some ex"
    "uint out = uint (netFlowQuantity info) + uint (ai_protocolFees info) + uint (ai_managerFee info)"
    "safe_sub ex out = Some rest" "sol_preciseDiv rest (newSetTokenSupply info) = Some (newReservePositionUnit info)"
    by (rule createRedemptionInfo_Inr [OF p(1) m])
  note new = multiplier_for_Inr [OF i(2) m]
  let ?S' = "uint (newSetTokenSupply info)"
  note fees = handleRedemptionFees_balance [OF p(4) assms(9)]
  have bal: "uint (x_balanceOf ?x w t self) - (if t = r then uint out else 0) \<le> uint (x_balanceOf ?x w' t self)" for t
    using assms(3) [OF p(3), of t] fees [of t] i(6) by (simp split: if_splits)
  have pay: "uint (x_balanceOf ?x w t self) \<le> uint (x_balanceOf ?x w' t self)" if "t \<noteq> r" for t using bal [of t] that by simp
  have "?S' * uint (newReservePositionUnit info) \<le> uint rest * PRECISE_UNIT" by (rule preciseDiv_times [OF i(8)])
  also have "\<dots> = uint ex * PRECISE_UNIT - uint out * PRECISE_UNIT" using safe_sub_Some [OF i(7)] by (simp add: left_diff_distrib)
  also have "\<dots> \<le> (uint (x_balanceOf ?x w r self) - uint out) * PRECISE_UNIT + D"
    using existing_covered [OF assms(4,6) i(3-5)] by (simp add: left_diff_distrib)
  also have "(uint (x_balanceOf ?x w r self) - uint out) * PRECISE_UNIT \<le> uint (x_balanceOf ?x w' r self) * PRECISE_UNIT"
    using bal [of r] by (simp add: mult_right_mono)
  finally have top: "?S' * uint (newReservePositionUnit info) \<le> uint (x_balanceOf ?x w' r self) * PRECISE_UNIT + (D + ?S)"
    using uint_ge_0 [of "e_totalSupply (ne_ops ne) (st_erc20 st)"] by linarith
  obtain t where t: "e_burn (ne_ops ne) sender q (st_erc20 st) = Inr t" "st0 = st\<lparr>st_erc20 := t\<rparr>"
    by (rule st_burn_Inr [OF p(2)])
  have "set_inv st' \<and> st_erc20 st' = t \<and> positionMultiplier st' = newPositionMultiplier info \<and>
    (\<forall>t \<in> set (st_components st'). \<forall>u. getDefaultPositionRealUnit st' t = Inr u \<longrightarrow>
      ?S' * sint u \<le> uint (x_balanceOf ?x w' t self) * PRECISE_UNIT + (D + ?S))"
    by (rule rescaled_edit_covered [OF p(5,6) t(2) assms(4,5,7) _ new(4) top pay]) simp
  moreover have "uint (e_totalSupply (ne_ops ne) t) = ?S - uint q" by (rule erc20_token.burn_supply [OF assms(8) t(1)])
  moreover have "0 \<le> D" using assms(4) by (simp add: covered_def)
  ultimately show ?thesis using i(1) by (simp add: covered_def)
qed

subsection \<open>The four calls\<close>

text \<open>
  What is assumed of the other tokens and of wrapped ether: payments between other accounts take nothing from the SetToken,
  and wrapped ether that is transferred to it arrives.
\<close>

definition payments_isolated :: "('e, 'w) nav_env \<Rightarrow> nav_module \<Rightarrow> address \<Rightarrow> bool" where
  "payments_isolated ne nm self \<longleftrightarrow> (let bal = (\<lambda>w t. uint (x_balanceOf (ne_externals ne) w t self)); this = nav_address nm in
     (\<forall>t from to q w w'. from \<noteq> self \<longrightarrow> x_safeTransferFrom (ne_externals ne) this t from to q w = Inr w' \<longrightarrow> (\<forall>t'. bal w t' \<le> bal w' t')) \<and>
     (\<forall>q w w'. ne_deposit ne this q w = Inr w' \<or> ne_withdraw ne this q w = Inr w' \<longrightarrow> (\<forall>t. bal w t \<le> bal w' t)) \<and>
     (\<forall>to q w w'. ne_sendEther ne to q w = Inr w' \<longrightarrow> (\<forall>t. bal w t \<le> bal w' t)) \<and>
     (\<forall>to q w w'. ne_transfer ne this to q w = Inr w' \<longrightarrow>
        (\<forall>t. bal w t + (if t = nav_weth nm \<and> to = self then uint q else 0) \<le> bal w' t)))"

lemma payments_isolatedD:
  assumes "payments_isolated ne nm self"
  shows "from \<noteq> self \<Longrightarrow> x_safeTransferFrom (ne_externals ne) (nav_address nm) t from to q w = Inr w' \<Longrightarrow>
      uint (x_balanceOf (ne_externals ne) w t' self) \<le> uint (x_balanceOf (ne_externals ne) w' t' self)"
    and "ne_deposit ne (nav_address nm) q w = Inr w' \<Longrightarrow> uint (x_balanceOf (ne_externals ne) w t' self) \<le> uint (x_balanceOf (ne_externals ne) w' t' self)"
    and "ne_withdraw ne (nav_address nm) q w = Inr w' \<Longrightarrow> uint (x_balanceOf (ne_externals ne) w t' self) \<le> uint (x_balanceOf (ne_externals ne) w' t' self)"
    and "ne_sendEther ne to q w = Inr w' \<Longrightarrow> uint (x_balanceOf (ne_externals ne) w t' self) \<le> uint (x_balanceOf (ne_externals ne) w' t' self)"
    and "ne_transfer ne (nav_address nm) to q w = Inr w' \<Longrightarrow>
      uint (x_balanceOf (ne_externals ne) w t' self) + (if t' = nav_weth nm \<and> to = self then uint q else 0) \<le> uint (x_balanceOf (ne_externals ne) w' t' self)"
  using assms unfolding payments_isolated_def Let_def by metis+

lemma transferCollateral_balance:
  assumes "transferCollateralAndHandleFees ne nm self sender r info w = Inr w'"
    and "tokens_isolated (ne_externals ne) self" "payments_isolated ne nm self" "sender \<noteq> self"
  shows "uint (x_balanceOf (ne_externals ne) w t self) + (if t = r then uint (netFlowQuantity info) else 0) \<le> uint (x_balanceOf (ne_externals ne) w' t self)"
proof -
  let ?x = "ne_externals ne"
  have fee: "uint (x_balanceOf ?x w t self) \<le> uint (x_balanceOf ?x w' t self)"
    if "explicit_transferFrom ?x (nav_address nm) r sender to q w = Inr w'" for to q w w' t
    using that payments_isolatedD(1) [OF assms(3,4)] by (auto simp: explicit_transferFrom_def Let_def split: sum.splits if_splits)
  obtain w1 w2 where p: "explicit_transferFrom ?x (nav_address nm) r sender self (netFlowQuantity info) w = Inr w1"
    "(if 0 < ai_protocolFees info then explicit_transferFrom ?x (nav_address nm) r sender (c_feeRecipient (ne_controller ne)) (ai_protocolFees info) w1
      else Inr w1) = Inr w2"
    "(if 0 < ai_managerFee info then explicit_transferFrom ?x (nav_address nm) r sender (nav_feeRecipient (navIssuanceSettings nm self)) (ai_managerFee info) w2
      else Inr w2) = Inr w'"
    using assms(1) by (auto simp: transferCollateralAndHandleFees_def Let_def split: sum.splits)
  have "uint (x_balanceOf ?x w1 t self) \<le> uint (x_balanceOf ?x w2 t self)" using p(2) fee by (auto split: if_splits)
  moreover have "uint (x_balanceOf ?x w2 t self) \<le> uint (x_balanceOf ?x w' t self)" using p(3) fee by (auto split: if_splits)
  ultimately show ?thesis using explicit_transferFrom_balance [OF p(1) assms(2), of t] by simp
qed

lemma transferWETH_balance:
  assumes "transferWETHAndHandleFees ne nm self info w = Inr w'" "payments_isolated ne nm self"
  shows "uint (x_balanceOf (ne_externals ne) w t self) + (if t = nav_weth nm then uint (netFlowQuantity info) else 0) \<le> uint (x_balanceOf (ne_externals ne) w' t self)"
proof -
  let ?x = "ne_externals ne"
  have fee: "uint (x_balanceOf ?x w t self) \<le> uint (x_balanceOf ?x w' t self)" if "ne_transfer ne (nav_address nm) to q w = Inr w'" for to q w w' t
  proof -
    have "0 \<le> (if t = nav_weth nm \<and> to = self then uint q else 0)" by simp
    then show ?thesis using payments_isolatedD(5) [OF assms(2) that, of t] by linarith
  qed
  obtain w1 w2 where p: "ne_transfer ne (nav_address nm) self (netFlowQuantity info) w = Inr w1"
    "(if 0 < ai_protocolFees info then ne_transfer ne (nav_address nm) (c_feeRecipient (ne_controller ne)) (ai_protocolFees info) w1 else Inr w1) = Inr w2"
    "(if 0 < ai_managerFee info then ne_transfer ne (nav_address nm) (nav_feeRecipient (navIssuanceSettings nm self)) (ai_managerFee info) w2 else Inr w2) = Inr w'"
    using assms(1) by (auto simp: transferWETHAndHandleFees_def Let_def split: sum.splits)
  have "uint (x_balanceOf ?x w1 t self) \<le> uint (x_balanceOf ?x w2 t self)" using p(2) fee by (auto split: if_splits)
  moreover have "uint (x_balanceOf ?x w2 t self) \<le> uint (x_balanceOf ?x w' t self)" using p(3) fee by (auto split: if_splits)
  ultimately show ?thesis using payments_isolatedD(5) [OF assms(2) p(1), of t] by simp
qed

lemma ether_payout_balance:
  assumes "(case strictInvokeTransfer (ne_externals ne) c (nav_address nm) self (nav_weth nm) (nav_address nm) net st w of Inl m \<Rightarrow> Inl m
      | Inr w \<Rightarrow> (case ne_withdraw ne (nav_address nm) net w of Inl m \<Rightarrow> Inl m | Inr w \<Rightarrow> ne_sendEther ne to net w)) = Inr w'"
    and "tokens_isolated (ne_externals ne) self" "payments_isolated ne nm self"
  shows "uint (x_balanceOf (ne_externals ne) w t self) - (if t = nav_weth nm then uint net else 0) \<le> uint (x_balanceOf (ne_externals ne) w' t self)"
proof -
  obtain w1 w2 where p: "strictInvokeTransfer (ne_externals ne) c (nav_address nm) self (nav_weth nm) (nav_address nm) net st w = Inr w1"
    "ne_withdraw ne (nav_address nm) net w1 = Inr w2" "ne_sendEther ne to net w2 = Inr w'"
    using assms(1) by (auto split: sum.splits)
  show ?thesis
    using strictInvokeTransfer_balance [OF p(1) assms(2), of t] payments_isolatedD(3) [OF assms(3) p(2), of t]
      payments_isolatedD(4) [OF assms(3) p(3), of t] by linarith
qed

datatype nav_call = NavIssue address address uint256 uint256 address | NavIssueEther address uint256 uint256 address
  | NavRedeem address address uint256 uint256 address | NavRedeemEther address uint256 uint256 address

definition exec_nav :: "('e, 'w) nav_env \<Rightarrow> nav_module \<Rightarrow> address \<Rightarrow> nav_call \<Rightarrow> 'e set_token \<times> 'w \<Rightarrow> ('e set_token \<times> 'w) sol" where
  "exec_nav ne nm self nc s = (case nc of NavIssue sender r q m to \<Rightarrow> nav_issue ne nm self sender r q m to s
     | NavIssueEther sender q m to \<Rightarrow> issueWithEther ne nm self sender q m to s
     | NavRedeem sender r q m to \<Rightarrow> nav_redeem ne nm self sender r q m to s
     | NavRedeemEther sender q m to \<Rightarrow> redeemIntoEther ne nm self sender q m to s)"

fun nav_sender :: "nav_call \<Rightarrow> address" where
  "nav_sender (NavIssue sender _ _ _ _) = sender"
| "nav_sender (NavIssueEther sender _ _ _) = sender"
| "nav_sender (NavRedeem sender _ _ _ _) = sender"
| "nav_sender (NavRedeemEther sender _ _ _) = sender"

fun nav_reserve :: "nav_module \<Rightarrow> nav_call \<Rightarrow> address" where
  "nav_reserve nm (NavIssue _ r _ _ _) = r"
| "nav_reserve nm (NavIssueEther _ _ _ _) = nav_weth nm"
| "nav_reserve nm (NavRedeem _ r _ _ _) = r"
| "nav_reserve nm (NavRedeemEther _ _ _ _) = nav_weth nm"

text \<open>No hooks of the manager; each call may leave a rounding of one unit per token uncovered.\<close>

lemma exec_nav_covered:
  assumes "exec_nav ne nm self nc (st, w) = Inr (st', w')"
    and "nav_managerIssuanceHook (navIssuanceSettings nm self) = ADDRESS_ZERO" "nav_managerRedemptionHook (navIssuanceSettings nm self) = ADDRESS_ZERO"
    and "covered D (ne_ops ne) (ne_externals ne) self (st, w)" "set_inv st" "readable st" "listed st (nav_reserve nm nc)"
    and "nav_sender nc \<noteq> self" "tokens_isolated (ne_externals ne) self" "payments_isolated ne nm self" "erc20_token (ne_ops ne)"
  shows "covered (D + uint (e_totalSupply (ne_ops ne) (st_erc20 st))) (ne_ops ne) (ne_externals ne) self (st', w') \<and> set_inv st'"
proof -
  let ?x = "ne_externals ne"
  have hooks: "nav_callPreIssueHooks ne nm self r q caller to s = Inr s" "callPreRedeemHooks ne nm self q caller to s = Inr s" for r q caller to s
    using assms(2,3) by (simp_all add: nav_callPreIssueHooks_def callPreRedeemHooks_def)
  note iso = payments_isolatedD [OF assms(10)]
  show ?thesis
  proof (cases nc)
    case (NavIssue sender r q m to)
    then have i: "nav_issue_with ne nm (transferCollateralAndHandleFees ne nm self sender r) self sender r q m to (st, w) = Inr (st', w')"
      using assms(1) by (auto simp: exec_nav_def nav_issue_def onlyValidAndInitializedSet_def split: if_splits)
    have "sender \<noteq> self" "listed st r" using NavIssue assms(7,8) by simp_all
    then show ?thesis
      by (intro nav_issue_with_covered [OF i hooks(1) _ assms(4,6) _ assms(5,11)] transferCollateral_balance [OF _ assms(9,10)])
  next
    case (NavIssueEther sender q m to)
    then obtain w1 where d: "ne_deposit ne (nav_address nm) q w = Inr w1"
      "nav_issue_with ne nm (transferWETHAndHandleFees ne nm self) self sender (nav_weth nm) q m to (st, w1) = Inr (st', w')"
      using assms(1) by (auto simp: exec_nav_def issueWithEther_def onlyValidAndInitializedSet_def split: if_splits sum.splits)
    have "covered D (ne_ops ne) ?x self (st, w1)" by (rule covered_mono [OF assms(4)]) (rule iso(2) [OF d(1)])
    moreover have "listed st (nav_weth nm)" using NavIssueEther assms(7) by simp
    ultimately show ?thesis
      by (intro nav_issue_with_covered [OF d(2) hooks(1) _ _ assms(6) _ assms(5,11)] transferWETH_balance [OF _ assms(10)])
  next
    case (NavRedeem sender r q m to)
    then have r: "nav_redeem_with ne nm (strictInvokeTransfer ?x (ne_controller ne) (nav_address nm) self r to) self sender r q m to (st, w) = Inr (st', w')"
      using assms(1) by (auto simp: exec_nav_def nav_redeem_def onlyValidAndInitializedSet_def split: if_splits)
    have pay: "uint (x_balanceOf ?x w t self) - (if t = r then uint net else 0) \<le> uint (x_balanceOf ?x w' t self)"
      if "strictInvokeTransfer ?x (ne_controller ne) (nav_address nm) self r to net st w = Inr w'" for net and st :: "'a set_token" and w w' t
      using strictInvokeTransfer_balance [OF that assms(9), of t] by simp
    show ?thesis
      by (rule nav_redeem_with_covered [OF r hooks(2) pay assms(4,6) _ assms(5,11,9)])
        (use NavRedeem assms(7) pay in simp_all)
  next
    case (NavRedeemEther sender q m to)
    let ?pay = "\<lambda>net st w. case strictInvokeTransfer ?x (ne_controller ne) (nav_address nm) self (nav_weth nm) (nav_address nm) net st w of Inl m \<Rightarrow> Inl m
        | Inr w \<Rightarrow> (case ne_withdraw ne (nav_address nm) net w of Inl m \<Rightarrow> Inl m | Inr w \<Rightarrow> ne_sendEther ne to net w)"
    have r: "nav_redeem_with ne nm ?pay self sender (nav_weth nm) q m to (st, w) = Inr (st', w')"
      using assms(1) NavRedeemEther by (auto simp: exec_nav_def redeemIntoEther_def onlyValidAndInitializedSet_def split: if_splits)
    show ?thesis
      by (rule nav_redeem_with_covered [OF r hooks(2) ether_payout_balance [OF _ assms(9,10)] assms(4,6) _ assms(5,11,9)]) (use NavRedeemEther assms(7) in simp_all)
  qed
qed

subsection \<open>The settings\<close>

text \<open>Steps of the module and a SetToken: its functions, its removal, which the SetToken announces, and anything that leaves both alone.\<close>

inductive nav_step :: "address \<Rightarrow> nav_module \<times> 'e set_token \<Rightarrow> nav_module \<times> 'e set_token \<Rightarrow> bool" for self where
  nav_add: "addReserveAsset c self sender a st nm = Inr nm' \<Longrightarrow> nav_step self (nm, st) (nm', st)"
| nav_remove: "removeReserveAsset c self sender a st nm = Inr nm' \<Longrightarrow> nav_step self (nm, st) (nm', st)"
| nav_premium: "editPremium c self sender p st nm = Inr nm' \<Longrightarrow> nav_step self (nm, st) (nm', st)"
| nav_fee: "editManagerFee c self sender f i st nm = Inr nm' \<Longrightarrow> nav_step self (nm, st) (nm', st)"
| nav_recipient: "nav_editFeeRecipient c self sender r st nm = Inr nm' \<Longrightarrow> nav_step self (nm, st) (nm', st)"
| nav_init: "nav_initialize c self sender ns (nm, st) = Inr (nm', st') \<Longrightarrow> nav_step self (nm, st) (nm', st')"
| nav_removed: "st_removeModule (Inr ()) sender (nav_address nm) st = Inr st' \<Longrightarrow> nav_step self (nm, st) (nav_removeModule self nm, st')"
| nav_other: "(moduleStates st' (nav_address nm) = INITIALIZED) = (moduleStates st (nav_address nm) = INITIALIZED) \<Longrightarrow>
    nav_step self (nm, st) (nm, st')"
| nav_elsewhere: "navIssuanceSettings nm' self = navIssuanceSettings nm self \<Longrightarrow> isReserveAsset nm' self = isReserveAsset nm self \<Longrightarrow>
    nav_address nm' = nav_address nm \<Longrightarrow> nav_step self (nm, st) (nm', st)"

definition nav_consistent :: "address \<Rightarrow> nav_module \<times> 'e set_token \<Rightarrow> bool" where
  "nav_consistent self = (\<lambda>(nm, st). let ns = navIssuanceSettings nm self in
     distinct (reserveAssets ns) \<and> (\<forall>a. a \<in> set (reserveAssets ns) \<longleftrightarrow> isReserveAsset nm self a) \<and>
     (moduleStates st (nav_address nm) \<noteq> INITIALIZED \<longrightarrow> reserveAssets ns = []) \<and>
     fst (managerFees ns) \<le> maxManagerFee ns \<and> snd (managerFees ns) \<le> maxManagerFee ns \<and> maxManagerFee ns < sol_preciseUnit \<and>
     premiumPercentage ns \<le> maxPremiumPercentage ns \<and> maxPremiumPercentage ns < sol_preciseUnit)"

lemma nav_settings_simps [simp]:
  "navIssuanceSettings (edit_nav_settings self f nm) self = f (navIssuanceSettings nm self)" "isReserveAsset (edit_nav_settings self f nm) = isReserveAsset nm"
  "nav_address (edit_nav_settings self f nm) = nav_address nm" "navIssuanceSettings (set_reserve_asset self b a nm) = navIssuanceSettings nm"
  "isReserveAsset (set_reserve_asset self b a nm) self = (isReserveAsset nm self)(a := b)" "nav_address (set_reserve_asset self b a nm) = nav_address nm"
  by (simp_all add: edit_nav_settings_def set_reserve_asset_def)

lemma clear_assets_simps [simp]:
  "navIssuanceSettings (foldl (\<lambda>nm a. set_reserve_asset self b a nm) nm l) = navIssuanceSettings nm"
  "nav_address (foldl (\<lambda>nm a. set_reserve_asset self b a nm) nm l) = nav_address nm"
  "isReserveAsset (foldl (\<lambda>nm a. set_reserve_asset self b a nm) nm l) self a = (if a \<in> set l then b else isReserveAsset nm self a)"
  by (induction l arbitrary: nm) auto

lemma add_unique_assets:
  assumes "each_sol (add_unique_asset self) l nm = Inr nm'"
  shows "distinct l \<and> (\<forall>a \<in> set l. \<not> isReserveAsset nm self a) \<and> navIssuanceSettings nm' = navIssuanceSettings nm \<and>
    nav_address nm' = nav_address nm \<and> (\<forall>a. isReserveAsset nm' self a \<longleftrightarrow> a \<in> set l \<or> isReserveAsset nm self a)"
  using assms
proof (induction l arbitrary: nm)
  case (Cons a l)
  have one: "add_unique_asset self a nm = (if isReserveAsset nm self a then Inl ''Reserve assets must be unique'' else Inr (set_reserve_asset self True a nm))"
    by (simp add: add_unique_asset_def)
  from Cons.prems have "\<not> isReserveAsset nm self a" "each_sol (add_unique_asset self) l (set_reserve_asset self True a nm) = Inr nm'"
    by (auto simp: one split: if_splits)
  with Cons.IH [OF this(2)] show ?case by (auto simp: if_bool_eq_disj)
qed simp

lemma nav_step_consistent:
  assumes "nav_step self s s'" "nav_consistent self s"
  shows "nav_consistent self s'"
  using assms
proof (cases rule: nav_step.cases)
  case (nav_init c sender ns nm st nm' st')
  then obtain nm1 where i: "each_sol (add_unique_asset self) (reserveAssets ns) nm = Inr nm1" "nm' = edit_nav_settings self (\<lambda>_. ns) nm1"
    "initializeModule (nav_address nm1) st = Inr st'" "moduleStates st (nav_address nm) = PENDING"
    and lim': "maxManagerFee ns < sol_preciseUnit" "maxPremiumPercentage ns < sol_preciseUnit" "fst (managerFees ns) \<le> maxManagerFee ns"
      "snd (managerFees ns) \<le> maxManagerFee ns" "premiumPercentage ns \<le> maxPremiumPercentage ns"
    by (auto simp: nav_initialize_def onlySetManager_def onlyValidAndPendingSet_def isPendingModule_def map_sum_def split: sum.splits if_splits)
  have "\<not> isReserveAsset nm self a" for a using assms(2) nav_init(1) i(4) by (auto simp: nav_consistent_def Let_def)
  moreover have "moduleStates st' (nav_address nm) = INITIALIZED"
    using i(3) add_unique_assets [OF i(1)] by (auto simp: initializeModule_def split: if_splits)
  ultimately show ?thesis using add_unique_assets [OF i(1)] i(2) lim' nav_init(2) by (simp add: nav_consistent_def Let_def)
next
  case (nav_removed sender nm st st')
  then show ?thesis using assms(2) by (auto simp: nav_consistent_def nav_removeModule_def no_nav_settings_def Let_def sol_preciseUnit_def)
next
  case (nav_elsewhere nm' nm st)
  then show ?thesis using assms(2) by (simp add: nav_consistent_def)
qed (auto simp: nav_consistent_def Let_def addReserveAsset_def removeReserveAsset_def editPremium_def editManagerFee_def nav_editFeeRecipient_def
    onlyManagerAndValidSet_def isSetValidAndInitialized_def isInitializedModule_def array_remove_eq case_prod_beta split: if_splits sum.splits)

subsection \<open>Shares\<close>

text \<open>Minting leaves the value per token at least as it was: the premium stays with the holders.\<close>

lemma mint_shares:
  assumes "sol_getSetTokenMintQuantity V base prem net S = Some m"
  shows "uint m * (uint S * uint V div PRECISE_UNIT + uint net * PRECISE_UNIT div uint base -
        (uint net - uint net * uint prem div PRECISE_UNIT) * PRECISE_UNIT div uint base)
      \<le> (uint net - uint net * uint prem div PRECISE_UNIT) * PRECISE_UNIT div uint base * uint S"
    and "0 < uint base" "uint net * uint prem div PRECISE_UNIT \<le> uint net"
proof -
  obtain pv N np Np v u D n where s: "sol_preciseMul net prem = Some pv" "sol_preciseDiv net base = Some N" "safe_sub net pv = Some np"
    "sol_preciseDiv np base = Some Np" "sol_preciseMul S V = Some v" "safe_add v N = Some u" "safe_sub u Np = Some D"
    "sol_preciseMul Np S = Some n" "sol_preciseDiv n D = Some m"
    using assms by (auto simp: sol_getSetTokenMintQuantity_def)
  have D: "uint D = uint v + uint N - uint Np" using safe_add_Some [OF s(6)] safe_sub_Some [OF s(7)] by simp
  have "uint D * uint m \<le> uint n * PRECISE_UNIT" by (rule preciseDiv_times [OF s(9)])
  also have "\<dots> \<le> uint Np * uint S" by (rule preciseMul_bound [OF s(8)])
  finally have "uint m * (uint v + uint N - uint Np) \<le> uint Np * uint S" by (simp add: D mult.commute)
  then show "uint m * (uint S * uint V div PRECISE_UNIT + uint net * PRECISE_UNIT div uint base -
        (uint net - uint net * uint prem div PRECISE_UNIT) * PRECISE_UNIT div uint base)
      \<le> (uint net - uint net * uint prem div PRECISE_UNIT) * PRECISE_UNIT div uint base * uint S"
    using sol_preciseMul_floor [OF s(1)] sol_preciseDiv_floor [OF s(2)] safe_sub_Some [OF s(3)] sol_preciseDiv_floor [OF s(4)]
      sol_preciseMul_floor [OF s(5)] by simp
  show "0 < uint base" using sol_preciseDiv_floor [OF s(2)] by (simp add: order_less_le)
  show "uint net * uint prem div PRECISE_UNIT \<le> uint net" using safe_sub_Some [OF s(3)] sol_preciseMul_floor [OF s(1)] by simp
qed

lemma mint_never_dilutes:
  assumes "sol_getSetTokenMintQuantity V base prem net S = Some m"
  shows "uint S * uint V div PRECISE_UNIT * (uint S + uint m) \<le> (uint S * uint V div PRECISE_UNIT + uint net * PRECISE_UNIT div uint base) * uint S"
proof -
  let ?v = "uint S * uint V div PRECISE_UNIT" and ?N = "uint net * PRECISE_UNIT div uint base"
  let ?P = "(uint net - uint net * uint prem div PRECISE_UNIT) * PRECISE_UNIT div uint base"
  note m = mint_shares [OF assms]
  have "0 \<le> uint net * uint prem div PRECISE_UNIT" using PRECISE_UNIT_pos(1) by (simp add: pos_imp_zdiv_nonneg_iff)
  then have "(uint net - uint net * uint prem div PRECISE_UNIT) * PRECISE_UNIT \<le> uint net * PRECISE_UNIT" by (simp add: mult_right_mono)
  then have P: "?P \<le> ?N" by (rule zdiv_mono1 [OF _ m(2)])
  have "uint m * ?v \<le> uint m * (?v + ?N - ?P)" using P by (intro mult_left_mono) simp_all
  also have "\<dots> \<le> ?P * uint S" by (rule m(1))
  also have "\<dots> \<le> ?N * uint S" using P by (rule mult_right_mono) simp
  finally show ?thesis by (simp add: algebra_simps)
qed

lemma redeem_share:
  assumes "sol_getRedeemReserveQuantity V base prem q = Some pre"
  shows "uint pre * PRECISE_UNIT \<le> uint q * uint V div PRECISE_UNIT * uint base div PRECISE_UNIT * (PRECISE_UNIT - uint prem)"
proof -
  obtain t g c where s: "sol_preciseMul q V = Some t" "sol_preciseMul t base = Some g" "sol_preciseMulCeil g prem = Some c" "safe_sub g c = Some pre"
    using assms by (auto simp: sol_getRedeemReserveQuantity_def)
  have "uint g * uint prem \<le> uint c * PRECISE_UNIT" by (rule preciseMulCeil_bound [OF s(3)])
  then have "uint pre * PRECISE_UNIT \<le> uint g * (PRECISE_UNIT - uint prem)"
    using safe_sub_Some [OF s(4)] by (simp add: left_diff_distrib right_diff_distrib)
  then show ?thesis using sol_preciseMul_floor [OF s(1)] sol_preciseMul_floor [OF s(2)] by simp
qed

lemma mint_zero_supply:
  assumes "sol_getSetTokenMintQuantity V base prem net S = Some m" "uint S = 0"
  shows "uint m = 0"
proof -
  obtain Np n D where s: "sol_preciseMul Np S = Some n" "sol_preciseDiv n D = Some m"
    using assms(1) by (auto simp: sol_getSetTokenMintQuantity_def)
  show ?thesis using sol_preciseMul_floor [OF s(1)] sol_preciseDiv_floor [OF s(2)] assms(2) by simp
qed

subsection \<open>Runs\<close>

lemma nav_issue_run:
  assumes "nav_issue ne nm self sender r q minReceive to s = Inr (st', w')" "nav_callPreIssueHooks ne nm self r q sender to s = Inr (st, w)"
  obtains info sta stb where "createIssuanceInfo ne nm self r q (st, w) = Inr info"
    "editPositionMultiplier (ne_controller ne) (nav_address nm) (newPositionMultiplier info) st = Inr sta"
    "editDefaultPosition (ne_controller ne) (nav_address nm) r (newReservePositionUnit info) sta = Inr stb"
    "st_mint (ne_ops ne) (ne_controller ne) (nav_address nm) to (setTokenQuantity info) stb = Inr st'"
    "minSetTokenSupply (navIssuanceSettings nm self) \<le> previousSetTokenSupply info" "minReceive \<le> setTokenQuantity info"
    "transferCollateralAndHandleFees ne nm self sender r info w = Inr w'"
proof -
  have "nav_issue_with ne nm (transferCollateralAndHandleFees ne nm self sender r) self sender r q minReceive to s = Inr (st', w')"
    using assms(1) by (auto simp: nav_issue_def onlyValidAndInitializedSet_def split: if_splits)
  then show ?thesis by (rule nav_issue_with_parts) (use that assms(2) in auto)
qed

lemma issue_updates:
  assumes "editPositionMultiplier c this m st = Inr sta" "editDefaultPosition c this r n sta = Inr stb" "st_mint ops c this to q stb = Inr st'"
    and "set_inv st" "erc20_token ops"
  shows "positionMultiplier st' = m" "uint (e_totalSupply ops (st_erc20 st')) = uint (e_totalSupply ops (st_erc20 st)) + uint q"
    "uint (e_balanceOf ops (st_erc20 st') to) = uint (e_balanceOf ops (st_erc20 st) to) + uint q"
proof -
  have a: "sta = st\<lparr>positionMultiplier := m\<rparr>" "0 < sint m" using editPositionMultiplier_Inr [OF assms(1)] by simp_all
  then have "set_inv sta" using assms(4) by (auto simp: set_inv_def)
  then have b: "st_erc20 stb = st_erc20 st" "positionMultiplier stb = m"
    using editDefaultPosition_Inr [OF assms(2)] a by (simp_all add: same_but_positions_def)
  obtain t where t: "e_mint ops to q (st_erc20 stb) = Inr t" "st' = stb\<lparr>st_erc20 := t\<rparr>" by (rule st_mint_Inr [OF assms(3)])
  show "positionMultiplier st' = m" "uint (e_totalSupply ops (st_erc20 st')) = uint (e_totalSupply ops (st_erc20 st)) + uint q"
    "uint (e_balanceOf ops (st_erc20 st') to) = uint (e_balanceOf ops (st_erc20 st) to) + uint q"
    using t b erc20_token.mint_supply [OF assms(5) t(1)] erc20_token.mint_balance [OF assms(5) t(1)] by simp_all
qed

subsection \<open>A concrete SetToken and its valuer\<close>

text \<open>One component that is also the reserve asset, valued by the model of SetValuer.sol with the feeds of \<open>Set_Valuer\<close>.\<close>

definition sample_nav :: nav_module where
  "sample_nav = (new_CustomOracleNavIssuanceModule ''m'' ''weth'')\<lparr>
     navIssuanceSettings := \<lambda>_. no_nav_settings\<lparr>reserveAssets := [''dai''], nav_feeRecipient := ''f'', managerFees := (10 ^ 16, 10 ^ 16),
       maxManagerFee := 5 * 10 ^ 16, premiumPercentage := 10 ^ 16, maxPremiumPercentage := 10 ^ 17, minSetTokenSupply := 1\<rparr>,
     isReserveAsset := \<lambda>_ a. a = ''dai''\<rparr>"

definition safe_move :: "address \<Rightarrow> address \<Rightarrow> address \<Rightarrow> uint256 \<Rightarrow> (address \<Rightarrow> address \<Rightarrow> uint256) \<Rightarrow> (address \<Rightarrow> address \<Rightarrow> uint256) sol" where
  "safe_move t from to q w = (if uint (w t to) + uint q < 2 ^ 256 then sample_move t from to q w else Inl ''overflow'')"

definition sample_nav_env :: "(erc20, address \<Rightarrow> address \<Rightarrow> uint256) nav_env" where
  "sample_nav_env = \<lparr>ne_ops = erc20_contract, ne_externals = sample_externals\<lparr>x_safeTransferFrom := \<lambda>this t from to q w. safe_move t from to q w\<rparr>,
     ne_controller = sample_controller\<lparr>isSet := \<lambda>_. True\<rparr>,
     ne_valuation = \<lambda>valuer self quote s. calculateSetTokenValuation sample_feed (\<lambda>_ _ _. Inl []) sample_controller sample_oracle (\<lambda>_. 18)
       (c_self sample_controller) (fst s) quote,
     ne_decimals = \<lambda>_. 18, ne_issueHook = \<lambda>_ _ _ _ _ _. Inr, ne_redeemHook = \<lambda>_ _ _ _ _. Inr,
     ne_deposit = \<lambda>this q w. Inr (w(''weth'' := (w ''weth'')(this := w ''weth'' this + q))),
     ne_transfer = \<lambda>this to q w. safe_move ''weth'' this to q w,
     ne_withdraw = \<lambda>this q w. if q \<le> w ''weth'' this then Inr (w(''weth'' := (w ''weth'')(this := w ''weth'' this - q))) else Inl ''balance'',
     ne_sendEther = \<lambda>_ _. Inr\<rparr>"

definition nav_token :: "erc20 set_token" where
  "nav_token = sample_token\<lparr>st_components := [''dai''], componentPositions := (\<lambda>_. no_position)(''dai'' := no_position\<lparr>virtualUnit := 2 * 10 ^ 18\<rparr>),
     st_erc20 := \<lparr>balances = (\<lambda>_. 0)(''u'' := 20 * 10 ^ 18), allowances = \<lambda>_ _. 0, totalSupply = 20 * 10 ^ 18\<rparr>\<rparr>"

definition nav_balances :: "address \<Rightarrow> address \<Rightarrow> uint256" where
  "nav_balances = (\<lambda>_ _. 0)(''dai'' := (\<lambda>_. 0)(''set'' := 40 * 10 ^ 18, ''u'' := 100 * 10 ^ 18))"

lemma nav_token_ok: "set_inv nav_token"
  by (auto simp: set_inv_def nav_token_def sample_token_def no_position_def PRECISE_UNIT_def)

lemma sample_nav_env_simps [simp]:
  "ne_ops sample_nav_env = erc20_contract" "x_balanceOf (ne_externals sample_nav_env) = (\<lambda>w t a. w t a)"
  by (simp_all add: sample_nav_env_def sample_externals_def)

lemma sample_nav_isolated: "tokens_isolated (ne_externals sample_nav_env) self"
  using sample_isolated [of self]
  by (auto simp: tokens_isolated_def sample_nav_env_def sample_externals_def safe_move_def sample_move_def split: if_splits)

lemma safe_move_grows:
  assumes "safe_move t from to q w = Inr w'" "from \<noteq> self"
  shows "uint (w t' self) + (if t' = t \<and> to = self then uint q else 0) \<le> uint (w' t' self)"
proof -
  have "uint (w t to) + uint q < 2 ^ 256 \<Longrightarrow> uint (w t to + q) = uint (w t to) + uint q" by (simp add: uint_plus_if')
  then show ?thesis using assms by (auto simp: safe_move_def sample_move_def Let_def split: if_splits)
qed

lemma sample_payments: "payments_isolated sample_nav_env sample_nav ''set''"
proof -
  have m: "nav_address sample_nav = ''m''" "nav_weth sample_nav = ''weth''" by (simp_all add: sample_nav_def new_CustomOracleNavIssuanceModule_def)
  have grows: "uint (w t' ''set'') \<le> uint (w' t' ''set'')" if "safe_move t src to q w = Inr w'" "src \<noteq> ''set''" for t src to q w w' t'
    using safe_move_grows [OF that, of t'] by (auto split: if_splits intro: order_trans [rotated])
  show ?thesis
    unfolding payments_isolated_def Let_def sample_nav_env_simps m
  proof (intro conjI allI impI)
    fix to q w w' t assume "ne_transfer sample_nav_env ''m'' to q w = Inr w'"
    then have "safe_move ''weth'' ''m'' to q w = Inr w'" by (simp add: sample_nav_env_def)
    from safe_move_grows [OF this, of "''set''" t]
    show "uint (w t ''set'') + (if t = ''weth'' \<and> to = ''set'' then uint q else 0) \<le> uint (w' t ''set'')" by simp
  qed (use grows in \<open>auto simp: sample_nav_env_def split: if_splits\<close>)
qed

lemma sample_nav_issue:
  obtains st' w' where "nav_issue sample_nav_env sample_nav ''set'' ''u'' ''dai'' (100 * 10 ^ 18) (40 * 10 ^ 18) ''u'' (nav_token, nav_balances) = Inr (st', w')" "totalSupply (st_erc20 st') = 67821419858502073676"
proof -
  have "map_sum id (\<lambda>(st, w). totalSupply (st_erc20 st)) (nav_issue sample_nav_env sample_nav ''set'' ''u'' ''dai'' (100 * 10 ^ 18) (40 * 10 ^ 18) ''u'' (nav_token, nav_balances)) = Inr 67821419858502073676" by code_simp
  then show ?thesis using that by (cases "nav_issue sample_nav_env sample_nav ''set'' ''u'' ''dai'' (100 * 10 ^ 18) (40 * 10 ^ 18) ''u'' (nav_token, nav_balances)") auto
qed

subsection \<open>Properties\<close>

text \<open>
  C7. The test helpers predict NAV issuance: an accepted \<^verbatim>\<open>issue\<close> mints to the receiver exactly what
  \<^verbatim>\<open>getExpectedSetTokenIssueQuantity\<close> returns for the valuation, the supply, the premium and the quantity after fees, and the
  helper's own quantity after fees is at most one base unit off the contract's, whatever share of the manager's fee the
  protocol takes; without such a share the helper fed with the gross quantity and the two fees returns the minted quantity. The new
  position multiplier exceeds what \<^verbatim>\<open>getExpectedIssuePositionMultiplier\<close> returns by at most the helper's own rounding.
\<close>

theorem nav_issue_mints_predicted:
  assumes "nav_issue ne nm self sender r q minReceive to (st, w) = Inr (st', w')"
    and "nav_callPreIssueHooks ne nm self r q sender to (st, w) = Inr (st1, w1)" and "set_inv st1" and "erc20_token (ne_ops ne)"
  shows "\<exists>V info m e. ne_valuation ne (getSetValuer (ne_controller ne) nm self) self r (st1, w1) = Inr V \<and>
    createIssuanceInfo ne nm self r q (st1, w1) = Inr info \<and>
    \<bar>uint (netFlowQuantity info) - getExpectedPostFeeQuantity (uint q) (uint (fst (managerFees (navIssuanceSettings nm self))))
      (uint (word_of_int (c_fees (ne_controller ne) (nav_address nm) 2) :: uint256))\<bar> \<le> 1 \<and>
    getExpectedSetTokenIssueQuantity (uint V) (uint (e_totalSupply (ne_ops ne) (st_erc20 st1))) (uint (10 ^ ne_decimals ne r :: uint256))
      (uint (netFlowQuantity info)) 0 0 (uint (premiumPercentage (navIssuanceSettings nm self))) = Some m \<and>
    (c_fees (ne_controller ne) (nav_address nm) 0 = 0 \<longrightarrow>
     getExpectedSetTokenIssueQuantity (uint V) (uint (e_totalSupply (ne_ops ne) (st_erc20 st1))) (uint (10 ^ ne_decimals ne r :: uint256)) (uint q)
      (uint (fst (managerFees (navIssuanceSettings nm self)))) (uint (word_of_int (c_fees (ne_controller ne) (nav_address nm) 2) :: uint256))
      (uint (premiumPercentage (navIssuanceSettings nm self))) = Some m) \<and>
    uint (e_totalSupply (ne_ops ne) (st_erc20 st')) = uint (e_totalSupply (ne_ops ne) (st_erc20 st1)) + m \<and>
    uint (e_balanceOf (ne_ops ne) (st_erc20 st') to) = uint (e_balanceOf (ne_ops ne) (st_erc20 st1) to) + m \<and>
    getExpectedIssuePositionMultiplier (sint (positionMultiplier st1)) (uint (e_totalSupply (ne_ops ne) (st_erc20 st1)))
      (uint (e_totalSupply (ne_ops ne) (st_erc20 st'))) = Some e \<and>
    e \<le> sint (positionMultiplier st') \<and> sint (positionMultiplier st') \<le> e + sint (positionMultiplier st1) div PRECISE_UNIT + 1"
proof -
  let ?S = "e_totalSupply (ne_ops ne) (st_erc20 st1)" and ?M = "sint (positionMultiplier st1)"
  let ?mgr = "fst (managerFees (navIssuanceSettings nm self))" and ?fee = "\<lambda>i. word_of_int (c_fees (ne_controller ne) (nav_address nm) i) :: uint256"
  obtain info sta stb where p: "createIssuanceInfo ne nm self r q (st1, w1) = Inr info"
    "editPositionMultiplier (ne_controller ne) (nav_address nm) (newPositionMultiplier info) st1 = Inr sta"
    "editDefaultPosition (ne_controller ne) (nav_address nm) r (newReservePositionUnit info) sta = Inr stb"
    "st_mint (ne_ops ne) (ne_controller ne) (nav_address nm) to (setTokenQuantity info) stb = Inr st'"
    using nav_issue_run [OF assms(1,2)] by metis
  have M: "0 < ?M" using assms(3) by (simp add: set_inv_def)
  obtain V where i: "nav_getFees (ne_controller ne) nm self q 0 2 0 = Inr (ai_protocolFees info, ai_managerFee info, netFlowQuantity info)"
    "ne_valuation ne (getSetValuer (ne_controller ne) nm self) self r (st1, w1) = Inr V"
    "sol_getSetTokenMintQuantity V (10 ^ ne_decimals ne r) (premiumPercentage (navIssuanceSettings nm self)) (netFlowQuantity info) ?S = Some (setTokenQuantity info)"
    "uint (newSetTokenSupply info) = uint (setTokenQuantity info) + uint ?S"
    "multiplier_for st1 ?S (newSetTokenSupply info) = Inr (newSetTokenSupply info, newPositionMultiplier info)"
    by (rule createIssuanceInfo_Inr [OF p(1) M])
  have fees: "sol_getFees q (?fee 2) (?fee 0) ?mgr = Some (ai_protocolFees info, ai_managerFee info, netFlowQuantity info)"
    using i(1) by (simp add: nav_getFees_def manager_fee_def split: sum.splits)
  note close = sol_getFees_close [OF fees]
  have net: "getExpectedSetTokenIssueQuantity (uint V) (uint ?S) (uint (10 ^ ne_decimals ne r :: uint256)) (uint (netFlowQuantity info)) 0 0
      (uint (premiumPercentage (navIssuanceSettings nm self))) = Some (uint (setTokenQuantity info))"
    by (rule sol_mint_matches [OF i(3)]) (simp add: getExpectedPostFeeQuantity_def preciseMul_def)
  have exact: "getExpectedSetTokenIssueQuantity (uint V) (uint ?S) (uint (10 ^ ne_decimals ne r :: uint256)) (uint q) (uint ?mgr) (uint (?fee 2))
      (uint (premiumPercentage (navIssuanceSettings nm self))) = Some (uint (setTokenQuantity info))"
    if "c_fees (ne_controller ne) (nav_address nm) 0 = 0"
    using issue_quantity_matches_contract [OF _ i(3)] fees that by simp
  note t = issue_updates [OF p(2-4) assms(3,4)]
  note new = multiplier_for_Inr [OF i(5) M]
  have "0 < uint ?S" using mint_zero_supply [OF i(3)] i(4) new(2) by (cases "uint ?S = 0") (auto simp: order_less_le)
  then obtain e where e: "getExpectedIssuePositionMultiplier ?M (uint ?S) (uint (newSetTokenSupply info)) = Some e"
    "e \<le> sint (newPositionMultiplier info)" "sint (newPositionMultiplier info) \<le> e + ?M div PRECISE_UNIT + 1"
    using multiplier_helpers_conservative [of "positionMultiplier st1" ?S "newSetTokenSupply info" "newPositionMultiplier info"] new M i(4) by auto
  have s: "uint (e_totalSupply (ne_ops ne) (st_erc20 st')) = uint (newSetTokenSupply info)" using t(2) i(4) by simp
  show ?thesis
    using i(2,4) p(1) close net exact t e by (intro exI [of _ V] exI [of _ info] exI [of _ "uint (setTokenQuantity info)"] exI [of _ e]) (simp add: s)
qed

theorem nav_issue_mints_predicted_witness:
  "\<exists>st' w'. nav_issue sample_nav_env sample_nav ''set'' ''u'' ''dai'' (100 * 10 ^ 18) (40 * 10 ^ 18) ''u'' (nav_token, nav_balances) = Inr (st', w') \<and>
     uint (e_totalSupply erc20_contract (st_erc20 st')) = 67821419858502073676 \<and>
     getExpectedSetTokenIssueQuantity (2 * 10 ^ 18) (20 * 10 ^ 18) (10 ^ 18) (100 * 10 ^ 18) (10 ^ 16) 0 (10 ^ 16) = Some 47821419858502073676"
proof -
  obtain st' w' where r: "nav_issue sample_nav_env sample_nav ''set'' ''u'' ''dai'' (100 * 10 ^ 18) (40 * 10 ^ 18) ''u'' (nav_token, nav_balances) = Inr (st', w')"
    "totalSupply (st_erc20 st') = 67821419858502073676" by (rule sample_nav_issue)
  have h: "nav_callPreIssueHooks sample_nav_env sample_nav ''set'' ''dai'' (100 * 10 ^ 18) ''u'' ''u'' (nav_token, nav_balances) = Inr (nav_token, nav_balances)"
    by (simp add: nav_callPreIssueHooks_def sample_nav_def no_nav_settings_def)
  have e: "ne_ops sample_nav_env = erc20_contract" "c_fees (ne_controller sample_nav_env) (nav_address sample_nav) i = 0" for i
    by (simp_all add: sample_nav_env_def sample_controller_def new_Controller_def)
  have v: "ne_valuation sample_nav_env (getSetValuer (ne_controller sample_nav_env) sample_nav ''set'') ''set'' ''dai'' (nav_token, nav_balances) = Inr (2 * 10 ^ 18)"
    by code_simp
  have k: "fst (managerFees (navIssuanceSettings sample_nav ''set'')) = 10 ^ 16" "premiumPercentage (navIssuanceSettings sample_nav ''set'') = 10 ^ 16"
    "ne_decimals sample_nav_env ''dai'' = 18" "uint (totalSupply (st_erc20 nav_token)) = 20 * 10 ^ 18"
    by (simp_all add: sample_nav_def no_nav_settings_def sample_nav_env_def nav_token_def)
  obtain m where "getExpectedSetTokenIssueQuantity (2 * 10 ^ 18) (20 * 10 ^ 18) (10 ^ 18) (100 * 10 ^ 18) (10 ^ 16) 0 (10 ^ 16) = Some m"
    "uint (e_totalSupply erc20_contract (st_erc20 st')) = 20 * 10 ^ 18 + m"
    using nav_issue_mints_predicted [OF r(1) h nav_token_ok] repository_erc20.erc20_token_axioms by (auto simp: e v k)
  then show ?thesis using r by simp
qed

text \<open>
  C5. NAV issuance dilutes nobody: after an accepted \<^verbatim>\<open>issue\<close> the SetToken has received the net reserve quantity, and its
  value together with that quantity, spread over the new supply, is at least the value per token that the valuer reported
  before; the receiver gets at least the minimum asked for, and the supply was at least the manager's minimum.
\<close>

theorem nav_issue_never_dilutes:
  assumes "nav_issue ne nm self sender r q minReceive to (st, w) = Inr (st', w')"
    and "nav_callPreIssueHooks ne nm self r q sender to (st, w) = Inr (st1, w1)" and "set_inv st1" and "erc20_token (ne_ops ne)"
    and "tokens_isolated (ne_externals ne) self" and "payments_isolated ne nm self" and "sender \<noteq> self"
  shows "\<exists>V (net :: uint256). ne_valuation ne (getSetValuer (ne_controller ne) nm self) self r (st1, w1) = Inr V \<and> uint net \<le> uint q \<and>
    uint (x_balanceOf (ne_externals ne) w1 r self) + uint net \<le> uint (x_balanceOf (ne_externals ne) w' r self) \<and>
    (let S = uint (e_totalSupply (ne_ops ne) (st_erc20 st1)); S' = uint (e_totalSupply (ne_ops ne) (st_erc20 st'));
         value = S * uint V div PRECISE_UNIT in
     uint (minSetTokenSupply (navIssuanceSettings nm self)) \<le> S \<and> S + uint minReceive \<le> S' \<and>
     value * S' \<le> (value + uint net * PRECISE_UNIT div uint (10 ^ ne_decimals ne r :: uint256)) * S)"
proof -
  let ?S = "e_totalSupply (ne_ops ne) (st_erc20 st1)"
  obtain info sta stb where p: "createIssuanceInfo ne nm self r q (st1, w1) = Inr info"
    "editPositionMultiplier (ne_controller ne) (nav_address nm) (newPositionMultiplier info) st1 = Inr sta"
    "editDefaultPosition (ne_controller ne) (nav_address nm) r (newReservePositionUnit info) sta = Inr stb"
    "st_mint (ne_ops ne) (ne_controller ne) (nav_address nm) to (setTokenQuantity info) stb = Inr st'"
    "minSetTokenSupply (navIssuanceSettings nm self) \<le> previousSetTokenSupply info" "minReceive \<le> setTokenQuantity info"
    "transferCollateralAndHandleFees ne nm self sender r info w1 = Inr w'"
    using nav_issue_run [OF assms(1,2)] by metis
  obtain V where i: "nav_getFees (ne_controller ne) nm self q 0 2 0 = Inr (ai_protocolFees info, ai_managerFee info, netFlowQuantity info)"
    "ne_valuation ne (getSetValuer (ne_controller ne) nm self) self r (st1, w1) = Inr V"
    "sol_getSetTokenMintQuantity V (10 ^ ne_decimals ne r) (premiumPercentage (navIssuanceSettings nm self)) (netFlowQuantity info) ?S = Some (setTokenQuantity info)"
    "previousSetTokenSupply info = ?S"
    by (rule createIssuanceInfo_Inr [OF p(1)]) (use assms(3) in \<open>simp_all add: set_inv_def\<close>)
  have net: "uint (netFlowQuantity info) \<le> uint q"
    using nav_getFees_sum [OF i(1)] uint_ge_0 [of "ai_protocolFees info"] uint_ge_0 [of "ai_managerFee info"] by linarith
  have paid: "uint (x_balanceOf (ne_externals ne) w1 r self) + uint (netFlowQuantity info) \<le> uint (x_balanceOf (ne_externals ne) w' r self)"
    using transferCollateral_balance [OF p(7) assms(5-7), of r] by simp
  show ?thesis
    by (rule exI [where x = V], rule exI [where x = "netFlowQuantity info"])
      (use net paid i(2,4) p(5,6) mint_never_dilutes [OF i(3)] issue_updates(2) [OF p(2-4) assms(3,4)] in \<open>simp add: Let_def word_le_def\<close>)
qed

theorem nav_issue_never_dilutes_witness:
  "\<exists>st' w'. nav_issue sample_nav_env sample_nav ''set'' ''u'' ''dai'' (100 * 10 ^ 18) (40 * 10 ^ 18) ''u'' (nav_token, nav_balances) = Inr (st', w') \<and>
     60 * 10 ^ 18 \<le> uint (e_totalSupply erc20_contract (st_erc20 st'))"
proof -
  obtain st' w' where r: "nav_issue sample_nav_env sample_nav ''set'' ''u'' ''dai'' (100 * 10 ^ 18) (40 * 10 ^ 18) ''u'' (nav_token, nav_balances) = Inr (st', w')" by (rule sample_nav_issue)
  have h: "nav_callPreIssueHooks sample_nav_env sample_nav ''set'' ''dai'' (100 * 10 ^ 18) ''u'' ''u'' (nav_token, nav_balances) = Inr (nav_token, nav_balances)"
    by (simp add: nav_callPreIssueHooks_def sample_nav_def no_nav_settings_def)
  have "uint (totalSupply (st_erc20 nav_token)) = 20 * 10 ^ 18" by (simp add: nav_token_def)
  with nav_issue_never_dilutes [OF r h nav_token_ok _ sample_nav_isolated sample_payments] r show ?thesis
    by (auto simp: repository_erc20.erc20_token_axioms Let_def)
qed

text \<open>
  C6. A NAV redemption pays at most the redeemed share: what leaves the SetToken, fees included, is no more than the share
  of the reported value in units of the reserve asset less the premium; the caller gets at least the minimum, the supply
  falls by the redeemed quantity and stays at or above the manager's minimum.
\<close>

theorem nav_redeem_pays_at_most_share:
  assumes "nav_redeem ne nm self sender r q minReceive to (st, w) = Inr (st', w')"
    and "callPreRedeemHooks ne nm self q sender to (st, w) = Inr (st1, w1)" and "set_inv st1" and "erc20_token (ne_ops ne)"
    and "tokens_isolated (ne_externals ne) self"
  shows "\<exists>V paid. ne_valuation ne (getSetValuer (ne_controller ne) nm self) self r (st1, w1) = Inr V \<and>
    uint minReceive \<le> paid \<and> uint (x_balanceOf (ne_externals ne) w' r self) = uint (x_balanceOf (ne_externals ne) w1 r self) - paid \<and>
    paid * PRECISE_UNIT \<le> uint q * uint V div PRECISE_UNIT * uint (10 ^ ne_decimals ne r :: uint256) div PRECISE_UNIT *
      (PRECISE_UNIT - uint (premiumPercentage (navIssuanceSettings nm self))) \<and>
    uint (e_totalSupply (ne_ops ne) (st_erc20 st')) = uint (e_totalSupply (ne_ops ne) (st_erc20 st1)) - uint q \<and>
    uint (minSetTokenSupply (navIssuanceSettings nm self)) \<le> uint (e_totalSupply (ne_ops ne) (st_erc20 st'))"
proof -
  let ?S = "uint (e_totalSupply (ne_ops ne) (st_erc20 st1))" and ?x = "ne_externals ne"
  have run: "nav_redeem_with ne nm (strictInvokeTransfer ?x (ne_controller ne) (nav_address nm) self r to) self sender r q minReceive to (st, w) = Inr (st', w')"
    using assms(1) by (auto simp: nav_redeem_def onlyValidAndInitializedSet_def split: if_splits)
  obtain info st0 w2 sta where p: "createRedemptionInfo ne nm self r q (st1, w1) = Inr info"
    "minSetTokenSupply (navIssuanceSettings nm self) \<le> newSetTokenSupply info" "minReceive \<le> netFlowQuantity info"
    "st_burn (ne_ops ne) (ne_controller ne) (nav_address nm) sender q st1 = Inr st0"
    "strictInvokeTransfer ?x (ne_controller ne) (nav_address nm) self r to (netFlowQuantity info) st0 w1 = Inr w2"
    "handleRedemptionFees ne nm self r info st0 w2 = Inr w'"
    "editPositionMultiplier (ne_controller ne) (nav_address nm) (newPositionMultiplier info) st0 = Inr sta"
    "editDefaultPosition (ne_controller ne) (nav_address nm) r (newReservePositionUnit info) sta = Inr st'"
    by (rule nav_redeem_with_parts [OF run]) (use assms(2) in simp)
  have M: "0 < sint (positionMultiplier st1)" using assms(3) by (simp add: set_inv_def)
  obtain V where i: "ne_valuation ne (getSetValuer (ne_controller ne) nm self) self r (st1, w1) = Inr V"
    "sol_getRedeemReserveQuantity V (10 ^ ne_decimals ne r) (premiumPercentage (navIssuanceSettings nm self)) q = Some (preFeeReserveQuantity info)"
    "nav_getFees (ne_controller ne) nm self (preFeeReserveQuantity info) 1 3 1 = Inr (ai_protocolFees info, ai_managerFee info, netFlowQuantity info)"
    "uint (newSetTokenSupply info) = ?S - uint q"
    by (rule createRedemptionInfo_Inr [OF p(1) M])
  obtain t where t: "e_burn (ne_ops ne) sender q (st_erc20 st1) = Inr t" "st0 = st1\<lparr>st_erc20 := t\<rparr>" by (rule st_burn_Inr [OF p(4)])
  have a: "sta = st0\<lparr>positionMultiplier := newPositionMultiplier info\<rparr>" "0 < sint (newPositionMultiplier info)"
    using editPositionMultiplier_Inr [OF p(7)] by simp_all
  then have "set_inv sta" using assms(3) t(2) by (auto simp: set_inv_def)
  then have "st_erc20 st' = t" using editDefaultPosition_Inr [OF p(8)] a t(2) by (simp add: same_but_positions_def)
  then have S: "uint (e_totalSupply (ne_ops ne) (st_erc20 st')) = ?S - uint q" using erc20_token.burn_supply [OF assms(4) t(1)] by simp
  have sum: "uint (ai_protocolFees info) + uint (ai_managerFee info) + uint (netFlowQuantity info) = uint (preFeeReserveQuantity info)"
    by (rule nav_getFees_sum [OF i(3)])
  have "uint (x_balanceOf ?x w' r self) = uint (x_balanceOf ?x w1 r self) - uint (preFeeReserveQuantity info)"
    using strictInvokeTransfer_balance [OF p(5) assms(5), of r] handleRedemptionFees_balance [OF p(6) assms(5), of r] sum by simp
  moreover have "uint minReceive \<le> uint (preFeeReserveQuantity info)"
    using p(3) [unfolded word_le_def] sum uint_ge_0 [of "ai_protocolFees info"] uint_ge_0 [of "ai_managerFee info"] by linarith
  moreover note redeem_share [OF i(2)]
  moreover have "uint (minSetTokenSupply (navIssuanceSettings nm self)) \<le> uint (e_totalSupply (ne_ops ne) (st_erc20 st'))"
    using p(2) i(4) S by (simp add: word_le_def)
  ultimately show ?thesis using i(1) S by blast
qed

theorem nav_redeem_pays_at_most_share_witness:
  "\<exists>st' w'. nav_redeem sample_nav_env sample_nav ''set'' ''u'' ''dai'' 10 19 ''v'' (nav_token, nav_balances) = Inr (st', w') \<and>
     uint (e_totalSupply erc20_contract (st_erc20 st')) = 20 * 10 ^ 18 - 10 \<and> uint (w' ''dai'' ''set'') \<le> 40 * 10 ^ 18 - 19 \<and> w' ''dai'' ''v'' = 19"
proof -
  let ?run = "nav_redeem sample_nav_env sample_nav ''set'' ''u'' ''dai'' 10 19 ''v'' (nav_token, nav_balances)"
  have "map_sum id (\<lambda>(st, w). w ''dai'' ''v'') ?run = Inr 19" by code_simp
  then obtain st' w' where r: "?run = Inr (st', w')" "w' ''dai'' ''v'' = 19" by (cases ?run) auto
  have h: "callPreRedeemHooks sample_nav_env sample_nav ''set'' 10 ''u'' ''v'' (nav_token, nav_balances) = Inr (nav_token, nav_balances)"
    by (simp add: callPreRedeemHooks_def sample_nav_def no_nav_settings_def)
  have k: "uint (totalSupply (st_erc20 nav_token)) = 20 * 10 ^ 18" "uint (nav_balances ''dai'' ''set'') = 40 * 10 ^ 18" by (simp_all add: nav_token_def nav_balances_def)
  from nav_redeem_pays_at_most_share [OF r(1) h nav_token_ok _ sample_nav_isolated] r show ?thesis
    by (auto simp: repository_erc20.erc20_token_axioms k)
qed

text \<open>
  C37. A manager stays within the limits set at the start: in every state that the module and a SetToken can reach together, both
  fees and the premium are at most their maxima, which are below one hundred percent, and the list of reserve assets has no
  repetition and holds exactly the assets whose flag is set; while the module is not initialised on the SetToken it is empty.
\<close>

theorem nav_settings_stay_bounded:
  assumes "rtranclp (nav_step self) (new_CustomOracleNavIssuanceModule this weth, st) (nm', st')"
  shows "let ns = navIssuanceSettings nm' self in
    fst (managerFees ns) \<le> maxManagerFee ns \<and> snd (managerFees ns) \<le> maxManagerFee ns \<and> maxManagerFee ns < sol_preciseUnit \<and>
    premiumPercentage ns \<le> maxPremiumPercentage ns \<and> maxPremiumPercentage ns < sol_preciseUnit \<and>
    distinct (getReserveAssets nm' self) \<and> set (getReserveAssets nm' self) = {a. isReserveAsset nm' self a} \<and>
    (moduleStates st' (nav_address nm') \<noteq> INITIALIZED \<longrightarrow> getReserveAssets nm' self = [])"
proof -
  have "nav_consistent self (nm', st')"
    using assms
  proof (induction rule: rtranclp_induct)
    case base
    show ?case by (simp add: nav_consistent_def new_CustomOracleNavIssuanceModule_def no_nav_settings_def sol_preciseUnit_def)
  qed (rule nav_step_consistent)
  then show ?thesis by (auto simp: nav_consistent_def getReserveAssets_def Let_def)
qed

theorem nav_settings_stay_bounded_witness:
  "\<exists>nm' st'. rtranclp (nav_step ''set'') (new_CustomOracleNavIssuanceModule ''n'' ''weth'', sample_token\<lparr>moduleStates := (moduleStates sample_token)(''n'' := PENDING)\<rparr>) (nm', st') \<and>
     set (getReserveAssets nm' ''set'') = {a. isReserveAsset nm' ''set'' a} \<and> isReserveAsset nm' ''set'' ''dai''"
proof -
  let ?st = "sample_token\<lparr>moduleStates := (moduleStates sample_token)(''n'' := PENDING)\<rparr>"
  let ?r = "nav_initialize (sample_controller\<lparr>isSet := \<lambda>_. True\<rparr>) ''set'' ''o'' (navIssuanceSettings sample_nav ''set'') (new_CustomOracleNavIssuanceModule ''n'' ''weth'', ?st)"
  have "map_sum id (\<lambda>(nm, st). isReserveAsset nm ''set'' ''dai'') ?r = Inr True" by code_simp
  then obtain nm' st' where r: "?r = Inr (nm', st')" "isReserveAsset nm' ''set'' ''dai''" by (cases ?r) auto
  have run: "rtranclp (nav_step ''set'') (new_CustomOracleNavIssuanceModule ''n'' ''weth'', ?st) (nm', st')" by (rule r_into_rtranclp, rule nav_init [OF r(1)])
  from nav_settings_stay_bounded [OF run] r run show ?thesis by (auto simp: Let_def)
qed

end
