(* ===== verification/Set_Life.thy ===== *)
theory Set_Life
  imports Auction_Proofs Streaming_Fee_Module Nav_Issuance_Proofs
begin

section \<open>The life of a SetToken\<close>

text \<open>
  Composes the contracts: SetTokenCreator.sol creates a SetToken with the constructor of SetToken.sol and registers it with
  the Controller; afterwards its holders issue and redeem, bidders and the manager trade its components, tokens are issued and
  redeemed at their net asset value, fees accrue and the manager changes modules. Every accrual and every call at net asset
  value may leave a rounding of one unit per token uncovered; the run counts it.
\<close>

subsection \<open>SetTokenCreator.sol with the constructor of SetToken.sol\<close>

definition create_set :: "address \<Rightarrow> address \<Rightarrow> 'e \<Rightarrow> address list \<Rightarrow> int256 list \<Rightarrow> address list \<Rightarrow> address
    \<Rightarrow> controller_state \<Rightarrow> (address \<times> controller_state \<times> 'e set_token) sol" where
  "create_set self setToken erc20 components units moduleList manager c =
     (let constructed = new_SetToken erc20 components units moduleList (c_self c) manager in
      case create self (\<not> isl constructed) setToken components (map sint units) moduleList manager c of Inl m \<Rightarrow> Inl m
      | Inr (a, c) \<Rightarrow> map_sum id (\<lambda>st. (a, c, st)) constructed)"

subsection \<open>Runs\<close>

text \<open>Steps of the SetToken that leave its units and its supply alone: modules, lock and manager.\<close>

definition same_units :: "'e set_token \<Rightarrow> 'e set_token \<Rightarrow> bool" where
  "same_units st st' \<longleftrightarrow> st_components st' = st_components st \<and> componentPositions st' = componentPositions st \<and>
     positionMultiplier st' = positionMultiplier st \<and> st_erc20 st' = st_erc20 st"

inductive life_step :: "'e erc20_ops \<Rightarrow> 'w externals \<Rightarrow>
    (address \<Rightarrow> address \<Rightarrow> uint256 \<Rightarrow> address \<Rightarrow> address \<Rightarrow> 'e set_token \<times> 'w \<Rightarrow> ('e set_token \<times> 'w) sol) \<Rightarrow> issuance_module
    \<Rightarrow> address \<Rightarrow> ('e set_token \<times> 'w) \<times> int \<Rightarrow> ('e set_token \<times> 'w) \<times> int \<Rightarrow> bool" for ops x hook im self where
  life_market: "market_step ops x hook im self s s' \<Longrightarrow> life_step ops x hook im self (s, D) (s', D)"
| life_admin: "set_step ops sender st st' \<Longrightarrow> same_units st st' \<Longrightarrow> life_step ops x hook im self ((st, w), D) ((st', w), D)"
| life_accrual: "accrueFee ops c self now (fm, st) = Inr ((fm', st'), managerFee, protocolFee) \<Longrightarrow> readable st \<Longrightarrow>
    life_step ops x hook im self ((st, w), D) ((st', w), D + uint (e_totalSupply ops (st_erc20 st)))"
| life_nav: "exec_nav ne nm self nc (st, w) = Inr (st', w') \<Longrightarrow> ne_ops ne = ops \<Longrightarrow> ne_externals ne = x \<Longrightarrow> payments_isolated ne nm self \<Longrightarrow>
    nav_managerIssuanceHook (navIssuanceSettings nm self) = ADDRESS_ZERO \<Longrightarrow> nav_managerRedemptionHook (navIssuanceSettings nm self) = ADDRESS_ZERO \<Longrightarrow>
    nav_sender nc \<noteq> self \<Longrightarrow> readable st \<Longrightarrow> listed st (nav_reserve nm nc) \<Longrightarrow>
    life_step ops x hook im self ((st, w), D) ((st', w'), D + uint (e_totalSupply ops (st_erc20 st)))"
| life_new_fee: "updateStreamingFee ops c self sender now newFee (fm, st) = Inr (fm', st') \<Longrightarrow> readable st \<Longrightarrow>
    life_step ops x hook im self ((st, w), D) ((st', w), D + uint (e_totalSupply ops (st_erc20 st)))"

subsection \<open>Accruals\<close>

lemma real_unit_same_units: "same_units st st' \<Longrightarrow> getDefaultPositionRealUnit st' a = getDefaultPositionRealUnit st a"
  by (simp add: same_units_def getDefaultPositionRealUnit_def convertVirtualToRealUnit_def defaultPositionVirtualUnit_def)

lemma accrual_covered:
  assumes "accrueFee ops c self now (fm, st) = Inr ((fm', st'), mf, pf)" "erc20_token ops" "readable st"
    and "covered D ops x a (st, w)" "set_inv st"
  shows "covered (D + uint (e_totalSupply ops (st_erc20 st))) ops x a (st', w) \<and> set_inv st'"
proof -
  let ?S = "uint (e_totalSupply ops (st_erc20 st))" and ?S' = "uint (e_totalSupply ops (st_erc20 st'))"
  let ?m = "sint (positionMultiplier st)" and ?m' = "sint (positionMultiplier st')"
  have m: "0 < ?m" using assms(5) by (simp add: set_inv_def)
  note claims = accrual_claims [OF assms(1,2) m]
  have inv: "set_inv st' \<and> 0 < ?m'"
  proof (cases "0 < fs_streamingFeePercentage (feeStates fm self)")
    case True
    then obtain t new where "st' = st\<lparr>st_erc20 := t, positionMultiplier := new\<rparr>" "0 < sint new"
      using accrual_parts [OF assms(1,2)] by metis
    then show ?thesis using assms(5) by (auto simp: set_inv_def)
  next
    case False
    then show ?thesis using accrual_no_fee [OF assms(1)] assms(5) m by simp
  qed
  have D: "0 \<le> D" using assms(4) by (simp add: covered_def)
  have product: "?S' * ?m' \<le> ?S * ?m" using claims by (metis mult.commute)
  have "?S' * sint u' \<le> uint (x_balanceOf x w t a) * PRECISE_UNIT + (D + ?S)"
    if t: "t \<in> set (st_components st')" and u': "getDefaultPositionRealUnit st' t = Inr u'" for t u'
    by (rule rescaled_claim [OF assms(4,3) _ u' _ _ _ product]) (use t inv claims in \<open>simp_all add: defaultPositionVirtualUnit_def\<close>)
  then show ?thesis using inv D by (simp add: covered_def)
qed

lemma updateStreamingFee_accrues:
  assumes "updateStreamingFee ops c self sender now newFee (fm, st) = Inr (fm', st')"
  obtains fm1 mf pf where "accrueFee ops c self now (fm, st) = Inr ((fm1, st'), mf, pf)"
  using assms by (auto simp: updateStreamingFee_def onlySetManager_def onlyValidAndInitializedSet_def split: sum.splits if_splits)

lemma life_step_keeps:
  assumes "life_step ops x hook im self (s, D) (s', D')" "covered D ops x self s \<and> set_inv (fst s)"
    and "tokens_isolated x self" "erc20_token ops" "hook_safe ops x hook self"
  shows "covered D' ops x self s' \<and> set_inv (fst s')"
  using assms(1)
proof cases
  case life_market
  then show ?thesis using market_step_keeps [OF _ _ assms(3-5)] assms(2) by blast
next
  case (life_admin sender st st' w)
  then have "covered D ops x self (st', w)"
    using assms(2) real_unit_same_units [OF life_admin(5)] by (auto simp: covered_def same_units_def)
  then show ?thesis using life_admin(1-3) set_step_inv [OF life_admin(4)] assms(2) by simp
next
  case (life_accrual c now fm st fm' st' mf pf w)
  have "covered D ops x self (st, w)" "set_inv st" using assms(2) life_accrual(1) by simp_all
  from accrual_covered [OF life_accrual(4) assms(4) life_accrual(5) this] show ?thesis using life_accrual(2,3) by simp
next
  case (life_nav ne nm nc st w st' w')
  then have "covered D (ne_ops ne) (ne_externals ne) self (st, w)" "set_inv st" using assms(2) by simp_all
  from exec_nav_covered [OF life_nav(4,8,9) this] life_nav assms(3,4) show ?thesis by simp
next
  case (life_new_fee c sender now newFee fm st fm' st' w)
  obtain fm1 mf pf where "accrueFee ops c self now (fm, st) = Inr ((fm1, st'), mf, pf)"
    by (rule updateStreamingFee_accrues [OF life_new_fee(4)])
  moreover have "covered D ops x self (st, w)" "set_inv st" using assms(2) life_new_fee(1) by simp_all
  ultimately show ?thesis using accrual_covered [OF _ assms(4) life_new_fee(5)] life_new_fee(2,3) by simp
qed

lemma life_keeps:
  assumes "rtranclp (life_step ops x hook im self) (s, D) (s', D')" "covered D ops x self s \<and> set_inv (fst s)"
    and "tokens_isolated x self" "erc20_token ops" "hook_safe ops x hook self"
  shows "covered D' ops x self s' \<and> set_inv (fst s')"
  using assms(1)
proof (induction rule: rtranclp_induct2)
  case (step s1 D1 s2 D2)
  then show ?case using life_step_keeps assms(3-5) by blast
qed (use assms(2) in simp)

lemma create_set_Inr:
  assumes "create_set self a e cs us ms manager c = Inr (a', c', st)"
  shows "a' = a" "new_SetToken e cs us ms (c_self c) manager = Inr st" "distinct cs" "isSet c' a \<and> c_sets c' = c_sets c @ [a]"
    "list_all (\<lambda>m. isModule c m \<and> isPendingModule st m) ms"
proof -
  obtain constructed where k: "new_SetToken e cs us ms (c_self c) manager = constructed" by blast
  have st: "constructed = Inr st" and cr: "create self (\<not> isl constructed) a cs (map sint us) ms manager c = Inr (a', c')"
    using assms by (auto simp: create_set_def k Let_def map_sum_def split: sum.splits)
  then obtain c1 where c: "addSet self a c = Inr c1" "a' = a" "c' = c1" "distinct cs" "\<forall>m \<in> set ms. isModule c m"
    using cr [unfolded create_Inr_iff] by auto
  show "a' = a" "new_SetToken e cs us ms (c_self c) manager = Inr st" "distinct cs" using c k st by simp_all
  show "isSet c' a \<and> c_sets c' = c_sets c @ [a]" using set_registry.add_spec [OF c(1)] c(3) by simp
  have "foldl (\<lambda>f m. f(m := PENDING)) f ms m = PENDING" if "m \<in> set ms \<or> f m = PENDING" for f and m :: address
    using that by (induction ms arbitrary: f) auto
  then show "list_all (\<lambda>m. isModule c m \<and> isPendingModule st m) ms"
    using c(5) k st by (auto simp: list_all_iff isPendingModule_def new_SetToken_def split: sum.splits)
qed

subsection \<open>Concrete lives\<close>

text \<open>
  A SetToken of three base units per token whose fee accrues for a year before anybody holds it: the unit is rounded from
  2.94 to 2, a holder pays for units of 2, and the next accrual mints tokens without lowering the unit.
\<close>

definition dust_token :: "erc20 set_token" where
  "dust_token = sample_token\<lparr>componentPositions := (\<lambda>_. no_position)(''t'' := no_position\<lparr>virtualUnit := 3\<rparr>)\<rparr>"

definition dust_run :: "(erc20 set_token \<times> (erc20 set_token \<times> (address \<Rightarrow> address \<Rightarrow> uint256)) \<times> erc20 set_token \<times>
    (erc20 set_token \<times> (address \<Rightarrow> address \<Rightarrow> uint256))) sol" where
  "dust_run = (case accrueFee erc20_contract enabled_controller ''set'' 31557600 (sample_fee_module (2 * 10 ^ 16), dust_token) of Inl m \<Rightarrow> Inl m
     | Inr ((fm, st1), _) \<Rightarrow>
       (case issue erc20_contract sample_externals (\<lambda>_ _ _ _ _ _. Inl []) enabled_controller (new_BasicIssuanceModule ''m'') ''set'' ''u'' (10 ^ 20) ''u''
           (st1, (\<lambda>_ _. 0)(''t'' := (\<lambda>_. 0)(''u'' := 200))) of Inl m \<Rightarrow> Inl m
        | Inr (st2, w) \<Rightarrow> (case accrueFee erc20_contract enabled_controller ''set'' 63115200 (fm, st2) of Inl m \<Rightarrow> Inl m
          | Inr ((_, st3), _) \<Rightarrow>
            (case redeem erc20_contract sample_externals enabled_controller (new_BasicIssuanceModule ''m'') ''set'' ''u'' (10 ^ 20) ''u'' (st3, w) of Inl m \<Rightarrow> Inl m
             | Inr s \<Rightarrow> Inr (st1, (st2, w), st3, s)))))"

lemma dust_token_readable: "readable dust_token" "totalSupply (st_erc20 dust_token) = 0"
proof -
  show "readable dust_token" by code_simp
  show "totalSupply (st_erc20 dust_token) = 0" by code_simp
qed

lemma dust_runs:
  obtains st1 st2 w st3 st4 w4 where
    "rtranclp (life_step erc20_contract sample_externals (\<lambda>_ _ _ _ _ _. Inl []) (new_BasicIssuanceModule ''m'') ''set'')
       ((dust_token, (\<lambda>_ _. 0)(''t'' := (\<lambda>_. 0)(''u'' := 200))), 0) ((st3, w), 10 ^ 20)"
    "redeem erc20_contract sample_externals enabled_controller (new_BasicIssuanceModule ''m'') ''set'' ''u'' (10 ^ 20) ''u'' (st3, w) = Inr (st4, w4)"
    "redeem erc20_contract sample_externals enabled_controller (new_BasicIssuanceModule ''m'') ''set'' ''r''
       (balances (st_erc20 st4) ''r'') ''r'' (st4, w4) = Inl ''balance''"
    "getDefaultPositionRealUnit st3 ''t'' = Inr 2" "uint (totalSupply (st_erc20 st3)) = 102040816326530612244" "w ''t'' ''set'' = 200"
    "st_components st3 = [''t'']"
proof -
  let ?out = "map_sum id (\<lambda>(st1, (st2, w), st3, (st4, w4)). (readable st1, uint (totalSupply (st_erc20 st2)), readable st2,
      (getDefaultPositionRealUnit st3 ''t'', uint (totalSupply (st_erc20 st3)), w ''t'' ''set'', st_components st3),
      map_sum id (\<lambda>_. ()) (redeem erc20_contract sample_externals enabled_controller (new_BasicIssuanceModule ''m'') ''set'' ''r''
       (balances (st_erc20 st4) ''r'') ''r'' (st4, w4)))) dust_run"
  have "?out = Inr (True, 10 ^ 20, True, (Inr 2, 102040816326530612244, 200, [''t'']), Inl ''balance'')" by code_simp
  then obtain st1 st2 w st3 st4 w4 where run: "dust_run = Inr (st1, (st2, w), st3, (st4, w4))" and v: "readable st1"
    "uint (totalSupply (st_erc20 st2)) = 10 ^ 20" "readable st2" "getDefaultPositionRealUnit st3 ''t'' = Inr 2"
    "uint (totalSupply (st_erc20 st3)) = 102040816326530612244" "w ''t'' ''set'' = 200" "st_components st3 = [''t'']"
    and last: "redeem erc20_contract sample_externals enabled_controller (new_BasicIssuanceModule ''m'') ''set'' ''r''
       (balances (st_erc20 st4) ''r'') ''r'' (st4, w4) = Inl ''balance''"
    by (cases dust_run) (auto simp: map_sum_def split: sum.splits)
  let ?w0 = "(\<lambda>_ _. 0)(''t'' := (\<lambda>_. 0)(''u'' := 200 :: uint256))"
  let ?step = "life_step erc20_contract sample_externals (\<lambda>_ _ _ _ _ _. Inl []) (new_BasicIssuanceModule ''m'') ''set''"
  from run obtain fm f1 fm2 f2 where a1: "accrueFee erc20_contract enabled_controller ''set'' 31557600 (sample_fee_module (2 * 10 ^ 16), dust_token) =
      Inr ((fm, st1), f1)" and i: "issue erc20_contract sample_externals (\<lambda>_ _ _ _ _ _. Inl []) enabled_controller (new_BasicIssuanceModule ''m'') ''set''
      ''u'' (10 ^ 20) ''u'' (st1, ?w0) = Inr (st2, w)" and a2: "accrueFee erc20_contract enabled_controller ''set'' 63115200 (fm, st2) = Inr ((fm2, st3), f2)"
    and red: "redeem erc20_contract sample_externals enabled_controller (new_BasicIssuanceModule ''m'') ''set'' ''u'' (10 ^ 20) ''u'' (st3, w) = Inr (st4, w4)"
    unfolding dust_run_def by (auto split: sum.splits prod.splits)
  obtain b1 b2 where f1: "f1 = (b1, b2)" by (cases f1)
  have "?step ((dust_token, ?w0), 0) ((st1, ?w0), 0 + uint (e_totalSupply erc20_contract (st_erc20 dust_token)))"
    by (rule life_accrual [OF a1 [unfolded f1] dust_token_readable(1)])
  then have "?step ((dust_token, ?w0), 0) ((st1, ?w0), 0)" by (simp add: dust_token_readable)
  moreover have "?step ((st1, ?w0), 0) ((st2, w), 0)"
    by (rule life_market, rule market_issuance [of _ _ _ _ _ "(enabled_controller, Issue ''u'' (10 ^ 20) ''u'')"]) (use i in \<open>simp add: exec_issuance_def\<close>)
  moreover obtain b3 b4 where f2: "f2 = (b3, b4)" by (cases f2)
  have "?step ((st2, w), 0) ((st3, w), 0 + uint (e_totalSupply erc20_contract (st_erc20 st2)))"
    by (rule life_accrual [OF a2 [unfolded f2] v(3)])
  moreover from this have "?step ((st2, w), 0) ((st3, w), 10 ^ 20)" using v(2) by simp
  ultimately have "rtranclp ?step ((dust_token, ?w0), 0) ((st3, w), 10 ^ 20)"
    by (meson converse_rtranclp_into_rtranclp r_into_rtranclp)
  from that [OF this red last v(4-7)] show ?thesis .
qed

definition life_controller :: controller_state where
  "life_controller = enabled_controller\<lparr>isFactory := \<lambda>_. True, isSet := (\<lambda>_. True)(''set'' := False)\<rparr>"

subsection \<open>Properties\<close>

text \<open>
  C1. A SetToken from the factory stays covered for life: whatever the factory creates is registered with the Controller,
  and after any run of issues and redemptions, by components or by net asset value, bids, trades, airdrops, transfers, changes of
  modules and accruals of fees it holds, of every component, its real unit times the supply, up to one unit per token that
  existed at an accrual or a call by net asset value.
\<close>

theorem created_sets_stay_covered:
  assumes "create_set self a e cs us ms manager c = Inr (a', c', st)" and "e_totalSupply ops e = 0"
    and "rtranclp (life_step ops x hook im a) ((st, w), 0) ((st', w'), D)"
    and "tokens_isolated x a" and "erc20_token ops" and "hook_safe ops x hook a"
  shows "a' = a \<and> isSet c' a \<and> set_inv st' \<and>
    (\<forall>t \<in> set (st_components st'). \<forall>u. getDefaultPositionRealUnit st' t = Inr u \<longrightarrow>
      uint (e_totalSupply ops (st_erc20 st')) * sint u \<le> uint (x_balanceOf x w' t a) * PRECISE_UNIT + D)"
proof -
  note k = create_set_Inr [OF assms(1)]
  have "st_erc20 st = e" using k(2) by (auto simp: new_SetToken_def split: sum.splits)
  then have "covered 0 ops x a (st, w)" using assms(2) by (simp add: covered_def)
  moreover have "set_inv st" by (rule new_SetToken_inv [OF k(3,2)])
  ultimately have "covered D ops x a (st', w') \<and> set_inv (fst (st', w'))" using life_keeps [OF assms(3) _ assms(4-6)] by simp
  then show ?thesis using k(1,4) by (simp add: covered_def)
qed

theorem created_sets_stay_covered_witness:
  "\<exists>c' st st' w'. create_set ''f'' ''set'' new_ERC20 [''t''] [3] [''m''] ''o'' life_controller = Inr (''set'', c', st) \<and>
     rtranclp (life_step erc20_contract sample_externals (\<lambda>_ _ _ _ _ _. Inl []) (new_BasicIssuanceModule ''m'') ''set'')
       ((st, (\<lambda>_ _. 0)(''t'' := (\<lambda>_. 0)(''u'' := 300))), 0) ((st', w'), 0) \<and>
     totalSupply (st_erc20 st') = 10 ^ 20 \<and> isSet c' ''set'' \<and> set_inv st'"
proof -
  let ?w0 = "(\<lambda>_ _. 0)(''t'' := (\<lambda>_. 0)(''u'' := 300 :: uint256))"
  let ?step = "life_step erc20_contract sample_externals (\<lambda>_ _ _ _ _ _. Inl []) (new_BasicIssuanceModule ''m'') ''set''"
  let ?create = "create_set ''f'' ''set'' new_ERC20 [''t''] [3] [''m''] ''o'' life_controller"
  let ?issue = "\<lambda>st. issue erc20_contract sample_externals (\<lambda>_ _ _ _ _ _. Inl []) enabled_controller (new_BasicIssuanceModule ''m'') ''set'' ''u'' (10 ^ 20) ''u'' (st, ?w0)"
  have "map_sum id (\<lambda>(a, c, st). (a, map_sum id (\<lambda>st1. map_sum id (\<lambda>(st2, w). totalSupply (st_erc20 st2)) (?issue st1)) (initializeModule ''m'' st))) ?create =
      Inr (''set'', Inr (Inr (10 ^ 20)))" by code_simp
  then obtain c' st st1 st2 w where r: "?create = Inr (''set'', c', st)" "initializeModule ''m'' st = Inr st1" "?issue st1 = Inr (st2, w)"
    "totalSupply (st_erc20 st2) = 10 ^ 20"
    by (auto simp: map_sum_def split: sum.splits)
  have "same_units st st1" using r(2) by (auto simp: initializeModule_def same_units_def split: if_splits)
  then have "?step ((st, ?w0), 0) ((st1, ?w0), 0)" using life_admin step_initializeModule r(2) by metis
  moreover have "?step ((st1, ?w0), 0) ((st2, w), 0)"
    by (rule life_market, rule market_issuance [of _ _ _ _ _ "(enabled_controller, Issue ''u'' (10 ^ 20) ''u'')"]) (use r(3) in \<open>simp add: exec_issuance_def\<close>)
  ultimately have run: "rtranclp ?step ((st, ?w0), 0) ((st2, w), 0)"
    by (rule converse_rtranclp_into_rtranclp [OF _ r_into_rtranclp])
  have "e_totalSupply erc20_contract new_ERC20 = 0" by code_simp
  moreover have "hook_safe erc20_contract sample_externals (\<lambda>_ _ _ _ _ _. Inl []) ''set''" by (simp add: hook_safe_def)
  ultimately have "isSet c' ''set'' \<and> set_inv st2"
    using created_sets_stay_covered [OF r(1) _ run sample_isolated repository_erc20.erc20_token_axioms] by blast
  with r(1,4) run show ?thesis by blast
qed

text \<open>
  C2. The allowance for accruals is needed: there is a run of an accrual, an issue and another accrual after which a
  SetToken holds less of a component than its unit times the supply, and once one holder has redeemed, the rest cannot be
  redeemed although every holder paid what \<^verbatim>\<open>issue\<close> asked for.
\<close>

theorem accruals_leave_rounding_uncovered:
  "\<exists>st w st' w'. rtranclp (life_step erc20_contract sample_externals (\<lambda>_ _ _ _ _ _. Inl []) (new_BasicIssuanceModule ''m'') ''set'')
       ((dust_token, (\<lambda>_ _. 0)(''t'' := (\<lambda>_. 0)(''u'' := 200))), 0) ((st, w), 10 ^ 20) \<and>
     \<not> collateralised erc20_contract sample_externals ''set'' (st, w) \<and>
     redeem erc20_contract sample_externals enabled_controller (new_BasicIssuanceModule ''m'') ''set'' ''u'' (10 ^ 20) ''u'' (st, w) = Inr (st', w') \<and>
     redeem erc20_contract sample_externals enabled_controller (new_BasicIssuanceModule ''m'') ''set'' ''r''
       (balances (st_erc20 st') ''r'') ''r'' (st', w') = Inl ''balance''"
proof (rule dust_runs)
  fix st1 st2 w st3 st4 w4
  assume d: "rtranclp (life_step erc20_contract sample_externals (\<lambda>_ _ _ _ _ _. Inl []) (new_BasicIssuanceModule ''m'') ''set'')
       ((dust_token, (\<lambda>_ _. 0)(''t'' := (\<lambda>_. 0)(''u'' := 200))), 0) ((st3, w), 10 ^ 20)"
    "redeem erc20_contract sample_externals enabled_controller (new_BasicIssuanceModule ''m'') ''set'' ''u'' (10 ^ 20) ''u'' (st3, w) = Inr (st4, w4)"
    "redeem erc20_contract sample_externals enabled_controller (new_BasicIssuanceModule ''m'') ''set'' ''r''
       (balances (st_erc20 st4) ''r'') ''r'' (st4, w4) = Inl ''balance''"
    and "getDefaultPositionRealUnit st3 ''t'' = Inr 2" "uint (totalSupply (st_erc20 st3)) = 102040816326530612244" "w ''t'' ''set'' = 200"
    "st_components st3 = [''t'']"
  then have "\<not> collateralised erc20_contract sample_externals ''set'' (st3, w)"
    by (simp add: covered_def sample_externals_def PRECISE_UNIT_def)
  with d show ?thesis by blast
qed

end
