(* ===== verification/Spec2Isabelle.thy ===== *)
theory Spec2Isabelle
  imports Precise_Unit_Math Fee_Module_Utils Nav_Issuance_Utils Uniswap_Utils Perp_V2_Utils Encoding_Utils
    Dependencies Deploy_Core Deploy_Modules Deploy_Adapters Deploy_Mocks Deploy_External
    Controller_Contract Integration_Registry System_Fixture Price_Oracle Pool_Fixtures Perp_V2_Fixture Timelock_Contract Protocol_Fixtures Account_Utils
    Snapshots Artifact_Tasks ERC20_Token Set_Token Issuance_Module Streaming_Fee_Module
    Position_Lib Auction_Price_Adapters Auction_Rebalance Auction_Proofs Trade_Module Airdrop_Module Set_Valuer
    Nav_Issuance_Module Nav_Issuance_Proofs Set_Life
begin

text \<open>
  \<^bold>\<open>The program.\<close> The Index protocol repository holds Solidity contracts and a TypeScript library around them,
  under index-protocol/: arithmetic helpers that predict what the contracts compute (utils/common), classes that deploy
  every contract (utils/deploys), fixtures that set up the protocol and the protocols it integrates with
  (utils/fixtures), test support with snapshots and accounts (utils/test), and build tasks (tasks, utils/tasks,
  hardhat.config.ts). This development models the TypeScript library, the core contracts the system fixture deploys, the
  trade, airdrop, NAV issuance and auction modules with the auctions' price adapters, and of the other contracts those functions the
  library predicts.

  \<^bold>\<open>How the parts interact.\<close> Tests call a fixture; the fixture calls deploy helpers and contract methods through
  ethers; the contracts run on a Hardhat node. The helpers of utils/common compute the expected numbers from values
  read back. Test support takes snapshots of the node around the tests. The build tasks annotate the ABIs the typed
  contracts are generated from.

  \<^bold>\<open>Theories.\<close>
  \<^item> \<^verbatim>\<open>TS_Prelude\<close>: shared types, truncating division, named collections. \<^verbatim>\<open>BigNum\<close>: ethers' BigNumber as unbounded
    integers, its decimal and hexadecimal text, and what the JavaScript operators \<^verbatim>\<open><\<close> and \<^verbatim>\<open>==\<close> do on such
    objects (compare decimal strings, compare identity).
  \<^item> \<^verbatim>\<open>Math_Utils\<close> (mathUtils.ts, unitsUtils.ts, constants.ts): the fixed-point helpers, with the interfaces
    \<^verbatim>\<open>rounds_down\<close> and \<^verbatim>\<open>rounds_up\<close> for their rounding. \<^verbatim>\<open>Precise_Unit_Math\<close> (PreciseUnitMath.sol): the
    contract's functions on 256 bit words with checked arithmetic; the helpers return the same values, and the
    contract reverts exactly on overflow or a zero divisor.
  \<^item> \<^verbatim>\<open>Fee_Module_Utils\<close>, \<^verbatim>\<open>Nav_Issuance_Utils\<close>, \<^verbatim>\<open>Uniswap_Utils\<close>, \<^verbatim>\<open>Perp_V2_Utils\<close>: the prediction helpers of
    utils/common, compared with the modules' own functions where those are pure, and otherwise characterised by
    bounds and closed forms. The Newton loop of the square root helper terminates although its guard compares text.
  \<^item> \<^verbatim>\<open>Encoding_Utils\<close> (adapterUtils.ts, libraryUtils.ts): packing of calldata words and link identifiers, addresses
    as text and as numbers, the interface \<^verbatim>\<open>token_order\<close>.
  \<^item> \<^verbatim>\<open>Chain_Model\<close>: the vocabulary of the scripts. A chain is the list of its transactions and the nonces of
    the senders; the record \<^verbatim>\<open>env\<close> is what contracts, ethers and the node decide (creation addresses, acceptance,
    views, accounts, block time). A rejected promise is \<^verbatim>\<open>None\<close>. Scripts are sequences of binds; \<^verbatim>\<open>keeps_rules\<close>
    shows by their structure that they only append to the history and never reuse an address.
  \<^item> \<^verbatim>\<open>Dependencies\<close> and \<^verbatim>\<open>Deploy_Core\<close>, \<^verbatim>\<open>Deploy_Modules\<close>, \<^verbatim>\<open>Deploy_Adapters\<close>, \<^verbatim>\<open>Deploy_Mocks\<close>,
    \<^verbatim>\<open>Deploy_External\<close> (utils/deploys): the address table and one definition per deploy function, each an instance of
    the interface \<^verbatim>\<open>deploy_helper\<close>.
  \<^item> \<^verbatim>\<open>Controller_Contract\<close> (Controller.sol, AddressArrayUtils.sol, SetTokenCreator.sol): the registry contract as a
    state machine; in every reachable state its arrays list what its mappings mark, and exactly that when
    \<^verbatim>\<open>initialize\<close> got no repeated entry (interface \<^verbatim>\<open>registry\<close>, one instance per kind of entry). \<^verbatim>\<open>System_Fixture\<close> (systemFixture.ts, protocolUtils.ts): the script that sets the protocol up, run
    against that contract by replaying the history. \<^verbatim>\<open>Integration_Registry\<close> (IntegrationRegistry.sol) and
    \<^verbatim>\<open>Price_Oracle\<close> (PriceOracle.sol, OracleMock.sol): the first two resources the fixture registers, as mappings with
    the zero address for a missing entry (interface \<^verbatim>\<open>address_store\<close>); batches are all or nothing, and the oracle the
    fixture deploys prices every pair of its tokens.
  \<^item> \<^verbatim>\<open>ERC20_Token\<close> (the ERC20 contract of AaveTokenV2Mintable.sol): the interface \<^verbatim>\<open>erc20_token\<close> of the balances a
    SetToken inherits, and its instance. \<^verbatim>\<open>Set_Token\<close> (SetToken.sol, ISetToken.sol): the token itself, every function,
    with its steps and reachable states; the lock, the list of positions, the rounding of stored units and the check
    of a new multiplier. \<^verbatim>\<open>Issuance_Module\<close> (BasicIssuanceModule.sol, ModuleBase.sol, Invoke.sol, ExplicitERC20.sol):
    issues and redemptions between a SetToken and its component tokens, whose calls are the record \<^verbatim>\<open>externals\<close>; they
    keep the SetToken collateralised and redemptions go through. \<^verbatim>\<open>Streaming_Fee_Module\<close> (StreamingFeeModule.sol):
    accruals never inflate the claims on the components, stay within the manager's commitment and are what the helpers
    of \<^verbatim>\<open>Fee_Module_Utils\<close> predict.
  \<^item> \<^verbatim>\<open>Position_Lib\<close> (Position.sol): the library the modules edit positions with. \<^verbatim>\<open>Auction_Rebalance\<close>
    (AuctionRebalanceModuleV1.sol): the auction module, every function, with a bid in its steps: the targets, the size and
    direction of an auction, the quote, the exchange, the protocol fee, the new units. \<^verbatim>\<open>Auction_Proofs\<close>: bids stop at the
    targets, keep the SetToken collateralised in every mix with trades, airdrops, issues and redemptions, and honour the
    bidder's limit; the lists of bidders, the start and the end of a rebalance. \<^verbatim>\<open>Auction_Price_Adapters\<close> (the four contracts under
    integration/auction-price): prices as functions of the time and the encoded configuration, the interface
    \<^verbatim>\<open>price_adapter\<close> with an instance per contract, the curves in the integers and the arguments they miss.
  \<^item> \<^verbatim>\<open>Trade_Module\<close> (TradeModule.sol): the manager's trades on exchanges; the minimum holds per token, the protocol fee
    is taken from the proceeds. \<^verbatim>\<open>Airdrop_Module\<close> (AirdropModule.sol): absorption of tokens that arrive unasked, with its
    fees, and the two views of the approved tokens as an invariant. \<^verbatim>\<open>Set_Life\<close>: SetTokenCreator's call with the constructor
    of SetToken, then every mix of the steps of the modules and of fee accruals on one SetToken; the balance covers the
    claims up to one unit of rounding per accrual and token, and a run shows that the rounding does go uncovered.
    \<^verbatim>\<open>Set_Valuer\<close> (SetValuer.sol): the value of a SetToken against its exact value in the real numbers.
    \<^verbatim>\<open>Nav_Issuance_Module\<close> (CustomOracleNAVIssuanceModule.sol): issues and redemptions at the value a valuer reports, every
    function. \<^verbatim>\<open>Nav_Issuance_Proofs\<close>: the helpers of \<^verbatim>\<open>Nav_Issuance_Utils\<close> predict its issues, no issue dilutes the holders,
    no redemption pays more than the share, the manager stays within the limits; its calls are steps of \<^verbatim>\<open>Set_Life\<close>.
  \<^item> \<^verbatim>\<open>Pool_Fixtures\<close> (uniswapFixture.ts, kyberV3DMMFixture.ts, balancerFixture.ts, uniswapV3Fixture.ts),
    \<^verbatim>\<open>Perp_V2_Fixture\<close> (perpV2Fixture.ts), \<^verbatim>\<open>Protocol_Fixtures\<close> (yearnFixture.ts, curveFixture.ts,
    compoundFixture.ts, aaveV2Fixture.ts): the other fixtures; token orders, pool prices, the retry loop for a token
    below the quote token, the introduction of the clearing house, Aave reserves and their proxies.
    \<^verbatim>\<open>Timelock_Contract\<close> (CompoundTimelock.sol): the Timelock as a state machine with time; its delay is enforced in
    every run, and the Compound fixture's transactions pass it.
  \<^item> \<^verbatim>\<open>Account_Utils\<close> (accountUtils.ts, addressUtils.ts), \<^verbatim>\<open>Snapshots\<close> (blockchainUtils.ts, testingUtils.ts): test
    accounts and forked tokens; the snapshot hooks isolate tests on a node that behaves as documented.
  \<^item> \<^verbatim>\<open>Artifact_Tasks\<close> (artifactUtils.ts, setupNativeSolc.ts, subtasks.ts, wallets.ts, hardhat.config.ts): gas
    annotations are undone when the build succeeds, and are not when it fails.

  \<^bold>\<open>Correspondence.\<close> A class is a record, its methods take it as the argument \<^verbatim>\<open>this\<close> and return it updated; a
  field not assigned yet is \<^verbatim>\<open>None\<close>. An account or signer is its address. An awaited call is a bind; a call that is
  not awaited cannot stop the script. BigNumbers are integers, contract numbers are words or integers with the bound
  written out. A method with several parts in the source may be several definitions, split at its comments.

  \<^bold>\<open>Loops and bounds.\<close> Loops over arrays are structural recursions, the Newton loop has a termination proof, and the
  token loop of perpV2Fixture.ts, which need not end, is a partial function into options: it is shown to return exactly
  when a suitable creation address comes. No fuel is used anywhere.

  \<^bold>\<open>Parameters.\<close> keccak256, calldata encoding, floating point arithmetic, the Uniswap SDK, random wallets, the
  node's JSON-RPC and the file system are arguments, with their documented behaviour as named hypotheses of the
  properties that need it (\<^verbatim>\<open>collision_free\<close>, \<^verbatim>\<open>runs_controller\<close>, \<^verbatim>\<open>snapshot_rpc\<close>, \<^verbatim>\<open>self_call\<close>). The inherited ERC20, the
  component tokens and the manager's hooks are parameters of the contracts' models (\<^verbatim>\<open>erc20_token\<close>,
  \<^verbatim>\<open>tokens_isolated\<close>, \<^verbatim>\<open>pays_out\<close>, \<^verbatim>\<open>hook_safe\<close>), as are the exchanges and their adapters (\<^verbatim>\<open>exchange_isolated\<close>), wrapped ether and the payers (\<^verbatim>\<open>payments_isolated\<close>), the
  decimals of the component tokens, and, for the auctions, the price adapters and the exponential and logarithm of the
  fixed point package. Events, gas and reentrancy guards are left out: a call of a contract
  is one atomic step, a revert is an error value.

  \<^bold>\<open>Not modelled.\<close> The remaining contracts (the other modules, adapters, viewers), which the library reaches
  through transactions only; the re-export lists (utils/index.ts, utils/contracts) and generated contract types;
  \<^verbatim>\<open>waitForEvent\<close>, an event subscription; compiler settings and plugin options, data that only tools read; the test
  specifications and the subgraph scripts.

  The theory closes with what all fixtures share: they append to the history and never reuse an address.
\<close>

section \<open>All fixtures\<close>

lemma perp_initialize_keeps: "keeps e s (PerpV2Fixture_initialize e this maker trader s)"
  unfolding PerpV2Fixture_initialize_def by (intro keeps_rules)

lemma keeps_chain_ok:
  assumes "keeps e s r" and "collision_free e" and "chain_ok e s" and "map_option snd r = Some s'"
  shows "chain_ok e s' \<and> (\<exists>ts. txs s' = txs s @ ts)"
proof -
  obtain x where "r = Some (x, s')" using assms(4) by auto
  then have "extends e s s'" by (rule keepsD [OF assms(1)])
  with assms(2,3) show ?thesis by (simp add: extends_def)
qed

text \<open>
  No fixture loses history or reuses an address: on a node whose creation addresses do not collide, whatever it
  accepts and returns, each fixture that finishes has only appended transactions, and all contracts created on
  the chain have different addresses.
\<close>

lemma fixtures_keep_addresses_distinct:
  assumes "collision_free e" and "chain_ok e s"
    and "run \<in> {map_option snd (SystemFixture_initialize e sys s), map_option snd (UniswapFixture_initialize e uni owner weth wbtc dai s),
      map_option snd (KyberV3DMMFixture_initialize e kyber owner weth wbtc dai s),
      map_option snd (BalancerFixture_initialize logs e bal owner wethC wbtcC daiC s),
      map_option snd (UniswapV3Fixture_initialize F e u3 wethC wethPrice wbtcC wbtcPrice daiC s),
      map_option snd (PerpV2Fixture_initialize e perp maker trader s),
      map_option snd (CompoundFixture_initialize e compound s), map_option snd (initializeGovernorBravo enc e compound s),
      map_option snd (AaveV2Fixture_initialize random e aave weth dai marketId daiPrice s),
      map_option snd (YearnFixture_initialize e yearn s), map_option snd (initializePool e curve tokens s),
      map_option snd (initializeDAO e curve s)}"
    and "run = Some s'"
  shows "distinct (created (txs s')) \<and> chain_ok e s' \<and> (\<exists>ts. txs s' = txs s @ ts)"
proof -
  note keeps = system_initialize_keeps uniswap_initialize_keeps kyber_initialize_keeps balancer_initialize_keeps
    u3_initialize_keeps perp_initialize_keeps compound_keeps(1) initializeGovernorBravo_keeps aave_initialize_keeps
    yearn_initialize_keeps curve_keeps(1,2)
  have "chain_ok e s' \<and> (\<exists>ts. txs s' = txs s @ ts)"
    using assms(3,4) keeps [THEN keeps_chain_ok, OF assms(1,2)] by (elim insertE emptyE) (simp_all only:)
  then show ?thesis by (auto simp: chain_ok_def)
qed

lemma fixtures_keep_addresses_distinct_instance:
  "\<exists>s'. map_option snd (YearnFixture_initialize concrete_env (new_YearnFixture ''a0'') \<lparr>nonces = \<lambda>_. 0, txs = []\<rparr>) = Some s' \<and>
     chain_ok concrete_env s'"
proof -
  let ?s = "\<lparr>nonces = \<lambda>_. 0, txs = []\<rparr> :: chain"
  let ?run = "map_option snd (YearnFixture_initialize concrete_env (new_YearnFixture ''a0'') ?s)"
  obtain s' where run: "?run = Some s'"
    by (simp add: YearnFixture_initialize_def deploy_defs deploy_def deploy_linked_def send_def concrete_env_def new_YearnFixture_def Let_def)
  have ok: "chain_ok concrete_env ?s" by (simp add: chain_ok_def)
  have "distinct (created (txs s')) \<and> chain_ok concrete_env s' \<and> (\<exists>ts. txs s' = txs ?s @ ts)"
    by (rule fixtures_keep_addresses_distinct [OF concrete_env_ok(2) ok _ run, where yearn = "new_YearnFixture ''a0''"])
      (simp only: insert_iff simp_thms)
  with run show ?thesis by blast
qed

end
